(* ===== verification/Prelude.thy ===== *)
theory Prelude
  imports Complex_Main "HOL-Library.AList"
begin

text \<open>
  Shared vocabulary of the Loom v2 development.

  \<^item> Python errors as values (\<open>py_error\<close>) and operations on a mutable object as state
    transformers whose state survives an exception (\<open>op\<close>): a Python method that raises keeps
    every mutation made before the \<^verbatim>\<open>raise\<close>, so the state is returned beside the error.
  \<^item> JSON values, and Python dictionaries as association lists in insertion order
    (\<open>AList.update\<close> overwrites in place and appends a new key, as \<^verbatim>\<open>d[k] = v\<close> does).
  \<^item> The string functions of the standard library that the sources use.
  \<^item> Clock readings in microseconds, and the facts on lists and dictionaries that the component
    theories share.
\<close>

section \<open>Automation\<close>

named_theorems py_simps \<open>evaluation of the Python-level helper functions\<close>
named_theorems op_simps \<open>unfolding of the operations of a component\<close>

section \<open>Time\<close>

text \<open>
  Clock readings are microseconds since the epoch, the resolution of Python's \<^verbatim>\<open>datetime\<close>.
  ISO strings of UTC readings compare as their readings do, so the sources' string comparisons
  of \<^verbatim>\<open>isoformat()\<close> values are comparisons of \<open>time\<close>.
\<close>

type_synonym time = int

abbreviation seconds :: "int \<Rightarrow> time" where
  "seconds n \<equiv> 1000000 * n"

section \<open>JSON values\<close>

datatype json =
    JNull
  | JBool bool
  | JInt int
  | JFloat rat
  | JStr string
  | JArr "json list"
  | JObj "(string \<times> json) list"

type_synonym dict = "(string \<times> json) list"

text \<open>\<^verbatim>\<open>d.get(k)\<close>: a missing key reads as \<^verbatim>\<open>None\<close>.\<close>

definition dget :: "dict \<Rightarrow> string \<Rightarrow> json" where
  "dget d k = (case map_of d k of None \<Rightarrow> JNull | Some v \<Rightarrow> v)"

definition dhas :: "dict \<Rightarrow> string \<Rightarrow> bool" where
  "dhas d k = (map_of d k \<noteq> None)"

definition dset :: "dict \<Rightarrow> string \<Rightarrow> json \<Rightarrow> dict" where
  "dset d k v = AList.update k v d"

text \<open>Python truthiness of a JSON value.\<close>

fun truthy :: "json \<Rightarrow> bool" where
  "truthy JNull = False"
| "truthy (JBool b) = b"
| "truthy (JInt i) = (i \<noteq> 0)"
| "truthy (JFloat q) = (q \<noteq> 0)"
| "truthy (JStr s) = (s \<noteq> [])"
| "truthy (JArr xs) = (xs \<noteq> [])"
| "truthy (JObj d) = (d \<noteq> [])"

fun is_str :: "json \<Rightarrow> bool" where
  "is_str (JStr _) = True"
| "is_str _ = False"

fun is_obj :: "json \<Rightarrow> bool" where
  "is_obj (JObj _) = True"
| "is_obj _ = False"

fun is_arr :: "json \<Rightarrow> bool" where
  "is_arr (JArr _) = True"
| "is_arr _ = False"

fun obj_of :: "json \<Rightarrow> dict" where
  "obj_of (JObj d) = d"
| "obj_of _ = []"

fun arr_of :: "json \<Rightarrow> json list" where
  "arr_of (JArr xs) = xs"
| "arr_of _ = []"

definition str_or_null :: "string option \<Rightarrow> json" where
  "str_or_null x = (case x of None \<Rightarrow> JNull | Some s \<Rightarrow> JStr s)"

text \<open>\<^verbatim>\<open>{**d, k: v, \<dots>}\<close>\<close>

definition dict_with :: "dict \<Rightarrow> dict \<Rightarrow> dict" where
  "dict_with d kvs = fold (\<lambda>(k, v) d. dset d k v) kvs d"

definition opt_json :: "json \<Rightarrow> json option" where
  "opt_json v = (if v = JNull then None else Some v)"

lemma dget_Nil [simp]: "dget [] k = JNull"
  by (simp add: dget_def)

lemma dget_Cons [simp]: "dget ((k', v) # d) k = (if k' = k then v else dget d k)"
  by (simp add: dget_def)

lemma dget_dset [simp]: "dget (dset d k v) k' = (if k = k' then v else dget d k')"
  by (simp add: dget_def dset_def update_conv')

section \<open>Errors as values\<close>

text \<open>
  The exception classes that cross an operation boundary in the modelled sources. \<open>ValidationError\<close>
  is pydantic's, named by the model class that rejects its arguments (a subclass of
  \<^verbatim>\<open>ValueError\<close>); \<open>DomainError\<close> carries the code and the details of its envelope and \<open>ClientError\<close> the code of an S3
  error that the content store lets through.
\<close>

datatype py_error =
    ValueError string
  | KeyError string
  | TypeError string
  | FileNotFoundError string
  | ValidationError string
  | RuntimeError string
  | DomainError string dict
  | ClientError string
  | AttributeError string

type_synonym 'a result = "py_error + 'a"

type_synonym ('s, 'a) op = "'s \<Rightarrow> 'a result \<times> 's"

definition is_value_error :: "py_error \<Rightarrow> bool" where
  "is_value_error e = (case e of ValueError _ \<Rightarrow> True | ValidationError _ \<Rightarrow> True | _ \<Rightarrow> False)"

text \<open>The \<^verbatim>\<open>except (FileNotFoundError, TypeError, ValueError)\<close> clause of the Observer.\<close>

definition is_content_error :: "py_error \<Rightarrow> bool" where
  "is_content_error e =
     (case e of ValueError _ \<Rightarrow> True | ValidationError _ \<Rightarrow> True
      | TypeError _ \<Rightarrow> True | FileNotFoundError _ \<Rightarrow> True | _ \<Rightarrow> False)"

text \<open>
  Sequencing of fallible computations, and a sequence of guards \<^verbatim>\<open>if cond: raise ValueError(code)\<close>, of
  which the first that holds raises.
\<close>

definition res_bind :: "'a result \<Rightarrow> ('a \<Rightarrow> 'b result) \<Rightarrow> 'b result" where
  "res_bind m f = (case m of Inl e \<Rightarrow> Inl e | Inr x \<Rightarrow> f x)"

primrec checks :: "(bool \<times> string) list \<Rightarrow> unit result" where
  "checks [] = Inr ()"
| "checks (c # cs) = (if fst c then Inl (ValueError (snd c)) else checks cs)"

lemma res_bind_Inr [simp]: "res_bind m f = Inr y \<longleftrightarrow> (\<exists>x. m = Inr x \<and> f x = Inr y)"
  by (auto simp: res_bind_def split: sum.split)

lemma res_bind_simps [simp]: "res_bind (Inr x) f = f x" "res_bind (Inl e) f = Inl e"
  by (simp_all add: res_bind_def)

lemma checks_Cons_ok [simp]: "checks ((bad, code) # cs) = Inr u \<longleftrightarrow> \<not> bad \<and> checks cs = Inr u"
  by auto

declare checks.simps(2) [simp del]

section \<open>Strings\<close>

text \<open>
  A Python \<^verbatim>\<open>str\<close> is represented by the characters of its UTF-8 encoding, and a \<^verbatim>\<open>bytes\<close> value by its
  bytes, so encoding is the identity.
\<close>

definition startswith :: "string \<Rightarrow> string \<Rightarrow> bool" where
  "startswith s p = (take (length p) s = p)"

definition endswith :: "string \<Rightarrow> string \<Rightarrow> bool" where
  "endswith s p = startswith (rev s) (rev p)"

definition removeprefix :: "string \<Rightarrow> string \<Rightarrow> string" where
  "removeprefix s p = (if startswith s p then drop (length p) s else s)"

definition rstrip :: "char \<Rightarrow> string \<Rightarrow> string" where
  "rstrip c s = rev (dropWhile (\<lambda>x. x = c) (rev s))"

definition is_space :: "char \<Rightarrow> bool" where
  "is_space c = (let n = of_char c :: nat in (9 \<le> n \<and> n \<le> 13) \<or> (28 \<le> n \<and> n \<le> 32))"

definition strip :: "string \<Rightarrow> string" where
  "strip s = rev (dropWhile is_space (rev (dropWhile is_space s)))"

text \<open>\<^verbatim>\<open>s.rsplit(c, 1)[-1]\<close>: what follows the last separator, all of \<open>s\<close> when there is none.\<close>

definition rsplit_last :: "char \<Rightarrow> string \<Rightarrow> string" where
  "rsplit_last c s = rev (takeWhile (\<lambda>x. x \<noteq> c) (rev s))"

definition lower_char :: "char \<Rightarrow> char" where
  "lower_char c =
     (let n = of_char c :: nat in if 65 \<le> n \<and> n \<le> 90 then char_of (n + 32) else c)"

definition lower :: "string \<Rightarrow> string" where
  "lower s = map lower_char s"

definition is_lower_hex :: "char \<Rightarrow> bool" where
  "is_lower_hex c = (let n = of_char c :: nat in (48 \<le> n \<and> n \<le> 57) \<or> (97 \<le> n \<and> n \<le> 102))"

definition is_hex :: "char \<Rightarrow> bool" where
  "is_hex c = (let n = of_char c :: nat in
     (48 \<le> n \<and> n \<le> 57) \<or> (97 \<le> n \<and> n \<le> 102) \<or> (65 \<le> n \<and> n \<le> 70))"

text \<open>\<^verbatim>\<open>re.fullmatch(r"[0-9a-f]{64}", s)\<close> and its case-insensitive variant.\<close>

definition lower_sha256 :: "string \<Rightarrow> bool" where
  "lower_sha256 s = (length s = 64 \<and> list_all is_lower_hex s)"

definition any_sha256 :: "string \<Rightarrow> bool" where
  "any_sha256 s = (length s = 64 \<and> list_all is_hex s)"

lemma startswith_append [simp]: "startswith (p @ s) p"
  by (simp add: startswith_def)

lemma startswith_iff: "startswith s p \<longleftrightarrow> (\<exists>t. s = p @ t)"
  unfolding startswith_def by (metis append_eq_conv_conj append_take_drop_id)

lemma endswith_iff: "endswith s p \<longleftrightarrow> (\<exists>t. s = t @ p)"
  unfolding endswith_def startswith_iff by (metis rev_append rev_rev_ident)

lemma removeprefix_append [simp]: "removeprefix (p @ s) p = s"
  by (simp add: removeprefix_def)

lemma lower_char_idem [simp]: "lower_char (lower_char c) = lower_char c"
  by (cases "65 \<le> (of_char c :: nat) \<and> (of_char c :: nat) \<le> 90")
    (auto simp: lower_char_def Let_def)

lemma lower_idem [simp]: "lower (lower s) = lower s"
  by (simp add: lower_def)

lemma length_lower [simp]: "length (lower s) = length s"
  by (simp add: lower_def)

lemma is_lower_hex_lower: "is_hex c \<Longrightarrow> is_lower_hex (lower_char c)"
  by (auto simp: is_hex_def is_lower_hex_def lower_char_def Let_def)

lemma lower_char_lower_hex: "is_lower_hex c \<Longrightarrow> lower_char c = c"
  by (auto simp: is_lower_hex_def lower_char_def Let_def)

lemma any_sha256_lower: "any_sha256 s \<Longrightarrow> lower_sha256 (lower s)"
  by (auto simp: any_sha256_def lower_sha256_def lower_def list_all_iff is_lower_hex_lower)

lemma lower_sha256_id: "lower_sha256 s \<Longrightarrow> lower s = s"
  by (simp add: lower_sha256_def lower_def list_all_iff map_idI lower_char_lower_hex)

lemma lower_sha256_any: "lower_sha256 s \<Longrightarrow> any_sha256 s"
  by (auto simp: lower_sha256_def any_sha256_def list_all_iff is_lower_hex_def is_hex_def Let_def)

text \<open>
  \<^verbatim>\<open>int(v)\<close> of a JSON value: numbers truncate towards zero, strings are decimal literals with an
  optional sign, surrounding blanks and single underscores between digits.
\<close>

definition is_digit :: "char \<Rightarrow> bool" where
  "is_digit c = (let n = of_char c :: nat in 48 \<le> n \<and> n \<le> 57)"

fun digits_value :: "string \<Rightarrow> int \<Rightarrow> int option" where
  "digits_value [] acc = Some acc"
| "digits_value [c] acc = (if is_digit c then Some (10 * acc + (of_char c - 48)) else None)"
| "digits_value (c # c' # s) acc =
     (if \<not> is_digit c then None
      else if c' = CHR ''_'' then (if s = [] then None else digits_value s (10 * acc + (of_char c - 48)))
      else digits_value (c' # s) (10 * acc + (of_char c - 48)))"

definition int_of_string :: "string \<Rightarrow> int option" where
  "int_of_string s =
     (case strip s of
        [] \<Rightarrow> None
      | c # t \<Rightarrow>
          if c = CHR ''-'' then (if t = [] then None else map_option uminus (digits_value t 0))
          else if c = CHR ''+'' then (if t = [] then None else digits_value t 0)
          else digits_value (c # t) 0)"

fun py_int :: "json \<Rightarrow> int result" where
  "py_int (JInt i) = Inr i"
| "py_int (JBool b) = Inr (if b then 1 else 0)"
| "py_int (JFloat q) = Inr (if q \<ge> 0 then \<lfloor>q\<rfloor> else \<lceil>q\<rceil>)"
| "py_int (JStr s) = (case int_of_string s of None \<Rightarrow> Inl (ValueError ''int'') | Some i \<Rightarrow> Inr i)"
| "py_int _ = Inl (TypeError ''int'')"

section \<open>Dictionaries as association lists\<close>

abbreviation dict_wf :: "('k \<times> 'v) list \<Rightarrow> bool" where
  "dict_wf d \<equiv> distinct (map fst d)"

lemma dict_get_set [simp]:
  "map_of (AList.update k v d) k' = (if k = k' then Some v else map_of d k')"
  by (simp add: update_conv')

lemma dict_wf_set [intro]: "dict_wf d \<Longrightarrow> dict_wf (AList.update k v d)"
  by (rule distinct_update)

lemma dict_set_mem:
  assumes "(k', v') \<in> set (AList.update k v d)"
  shows "(k', v') = (k, v) \<or> (k', v') \<in> set d"
  using assms by (induction d) (auto split: if_splits)

text \<open>
  The in-place rewriting loops \<^verbatim>\<open>for key, item in list(d.items()): if guard: d[key] = f(item)\<close>.
\<close>

definition dict_rewrite :: "('k \<Rightarrow> 'v \<Rightarrow> bool) \<Rightarrow> ('v \<Rightarrow> 'v) \<Rightarrow> ('k \<times> 'v) list \<Rightarrow> ('k \<times> 'v) list" where
  "dict_rewrite g f d = map (\<lambda>(k, v). (k, if g k v then f v else v)) d"

lemma map_fst_dict_rewrite [simp]: "map fst (dict_rewrite g f d) = map fst d"
  by (auto simp: dict_rewrite_def)

lemma map_of_dict_rewrite:
  "map_of (dict_rewrite g f d) k = map_option (\<lambda>v. if g k v then f v else v) (map_of d k)"
  by (induction d) (auto simp: dict_rewrite_def)

lemma dict_rewrite_mem:
  assumes "(k, v) \<in> set (dict_rewrite g f d)"
  obtains v0 where "(k, v0) \<in> set d" and "v = (if g k v0 then f v0 else v0)"
  using assms by (auto simp: dict_rewrite_def)

section \<open>Lists\<close>

text \<open>
  \<^verbatim>\<open>next((x for x in xs if p(x)), None)\<close> is the library's \<open>List.find\<close>. A loop that mutates the
  first match in place is \<open>update_first\<close>.
\<close>

fun update_first :: "('a \<Rightarrow> bool) \<Rightarrow> ('a \<Rightarrow> 'a) \<Rightarrow> 'a list \<Rightarrow> 'a list" where
  "update_first p f [] = []"
| "update_first p f (x # xs) = (if p x then f x # xs else x # update_first p f xs)"

definition update_last :: "('a \<Rightarrow> bool) \<Rightarrow> ('a \<Rightarrow> 'a) \<Rightarrow> 'a list \<Rightarrow> 'a list" where
  "update_last p f xs = rev (update_first p f (rev xs))"

definition find_last :: "('a \<Rightarrow> bool) \<Rightarrow> 'a list \<Rightarrow> 'a option" where
  "find_last p xs = List.find p (rev xs)"

lemma length_update_first [simp]: "length (update_first p f xs) = length xs"
  by (induction xs) auto

lemma find_SomeD: "List.find p xs = Some x \<Longrightarrow> x \<in> set xs \<and> p x"
  by (auto simp: find_Some_iff)

lemma find_NoneD: "List.find p xs = None \<Longrightarrow> x \<in> set xs \<Longrightarrow> \<not> p x"
  by (auto simp: find_None_iff)

lemma map_update_first:
  "(\<And>x. p x \<Longrightarrow> g (f x) = g x) \<Longrightarrow> map g (update_first p f xs) = map g xs"
  by (induction xs) auto

lemma set_update_first: "set (update_first p f xs) \<subseteq> set xs \<union> f ` {x \<in> set xs. p x}"
  by (induction xs) auto

lemma find_update_first:
  "(\<And>x. p x \<Longrightarrow> p (f x)) \<Longrightarrow> List.find p (update_first p f xs) = map_option f (List.find p xs)"
  by (induction xs) auto

end
