(* ===== verification/Contracts.thy ===== *)
theory Contracts
  imports Prelude
begin

text \<open>
  The canonical contract objects (\<^verbatim>\<open>loom_v2/contracts/types.py\<close>, \<^verbatim>\<open>constraints.py\<close>,
  \<^verbatim>\<open>terms.py\<close>, \<^verbatim>\<open>refs.py\<close>, \<^verbatim>\<open>refinement.py\<close>) and the digest primitives
  (\<^verbatim>\<open>loom_v2/digest.py\<close>).

  Pydantic models are records; a model's validators are the checks of its \<open>\<dots>_of_json\<close> parser or of
  its constructor function, which returns an error value where pydantic raises. The RFC 8785
  serializer (package \<^verbatim>\<open>rfc8785\<close>) and SHA-256 enter every definition as the argument \<open>hashing\<close>, so
  each result holds for any serializer and any hash function.
\<close>

section \<open>Digests\<close>

record hashing =
  rfc8785_dumps :: "json \<Rightarrow> string option"
  sha256_hex :: "string \<Rightarrow> string"

definition canonical_json_bytes :: "hashing \<Rightarrow> json \<Rightarrow> string result" where
  "canonical_json_bytes H v =
     (case rfc8785_dumps H v of
        None \<Rightarrow> Inl (ValueError ''json_canonicalization_error'')
      | Some b \<Rightarrow> Inr b)"

definition digest_bytes :: "hashing \<Rightarrow> string \<Rightarrow> string \<Rightarrow> string" where
  "digest_bytes H b domain =
     sha256_hex H ((if domain \<noteq> [] then domain @ [CHR 0x00] else []) @ b)"

definition digest_json :: "hashing \<Rightarrow> json \<Rightarrow> string \<Rightarrow> string result" where
  "digest_json H v domain =
     (case canonical_json_bytes H v of
        Inl e \<Rightarrow> Inl e
      | Inr b \<Rightarrow> Inr (sha256_hex H (domain @ [CHR 0x00] @ b)))"

section \<open>Resource references\<close>

record resource_ref =
  rr_resource_id :: string
  rr_version_or_digest :: "string option"
  rr_access_binding :: dict
  rr_identity_criterion :: "string option"
  rr_provenance :: "json list"

definition content_prefix :: string where
  "content_prefix = ''content://sha256/''"

abbreviation plain_ref :: "string \<Rightarrow> resource_ref" where
  "plain_ref i \<equiv> \<lparr>rr_resource_id = i, rr_version_or_digest = None, rr_access_binding = [],
                   rr_identity_criterion = None, rr_provenance = []\<rparr>"

definition validate_identity :: "resource_ref \<Rightarrow> bool" where
  "validate_identity r =
     (\<not> (startswith (rr_resource_id r) content_prefix \<and> rr_version_or_digest r \<noteq> None \<and>
         rr_identity_criterion r \<noteq> Some ''descriptor_digest''))"

text \<open>The property \<^verbatim>\<open>digest\<close>; an optional string is true as a condition when it is present and not empty.\<close>

definition nonempty :: "string option \<Rightarrow> bool" where
  "nonempty v = (v \<noteq> None \<and> v \<noteq> Some [])"

definition ref_digest :: "resource_ref \<Rightarrow> string option" where
  "ref_digest r =
     (if rr_identity_criterion r = Some ''descriptor_digest'' \<and> nonempty (rr_version_or_digest r)
      then map_option lower (rr_version_or_digest r)
      else if startswith (rr_resource_id r) content_prefix
      then Some (lower (removeprefix (rr_resource_id r) content_prefix))
      else if nonempty (rr_version_or_digest r) then map_option lower (rr_version_or_digest r)
      else None)"

text \<open>\<^verbatim>\<open>(ref.digest or "").lower()\<close>\<close>

definition digest_or_empty :: "resource_ref \<Rightarrow> string" where
  "digest_or_empty r = lower (case ref_digest r of None \<Rightarrow> [] | Some d \<Rightarrow> d)"

text \<open>\<^verbatim>\<open>ref.digest or ref.resource_id\<close>, and \<^verbatim>\<open>_same_ref\<close> built on it.\<close>

definition digest_or_id :: "resource_ref \<Rightarrow> string" where
  "digest_or_id r = (case ref_digest r of Some (c # cs) \<Rightarrow> c # cs | _ \<Rightarrow> rr_resource_id r)"

definition same_ref :: "resource_ref option \<Rightarrow> resource_ref option \<Rightarrow> bool" where
  "same_ref a b =
     (case (a, b) of
        (Some x, Some y) \<Rightarrow> digest_or_id x = digest_or_id y
      | (None, None) \<Rightarrow> True
      | _ \<Rightarrow> False)"

definition ref_json :: "resource_ref \<Rightarrow> json" where
  "ref_json r = JObj [(''resource_id'', JStr (rr_resource_id r)),
     (''version_or_digest'', str_or_null (rr_version_or_digest r)),
     (''access_binding'', JObj (rr_access_binding r)),
     (''identity_criterion'', str_or_null (rr_identity_criterion r)),
     (''provenance'', JArr (rr_provenance r))]"

text \<open>
  \<^verbatim>\<open>ResourceRef.model_validate\<close>: no extra keys, a required string \<^verbatim>\<open>resource_id\<close>, defaults for the
  rest, then \<^verbatim>\<open>validate_identity\<close>.
\<close>

fun opt_str_field :: "json \<Rightarrow> string option result" where
  "opt_str_field JNull = Inr None"
| "opt_str_field (JStr s) = Inr (Some s)"
| "opt_str_field _ = Inl (ValidationError ''str'')"

definition ref_fields :: "string list" where
  "ref_fields = [''resource_id'', ''version_or_digest'', ''access_binding'', ''identity_criterion'', ''provenance'']"

definition resource_ref_of_json :: "json \<Rightarrow> resource_ref result" where
  "resource_ref_of_json v =
     (case v of
        JObj d \<Rightarrow>
          (if \<not> list_all (\<lambda>(k, _). k \<in> set ref_fields) d then Inl (ValidationError ''ResourceRef'')
           else
             (case (dget d ''resource_id'', opt_str_field (dget d ''version_or_digest''),
                    opt_str_field (dget d ''identity_criterion''),
                    if dhas d ''access_binding'' then dget d ''access_binding'' else JObj [],
                    if dhas d ''provenance'' then dget d ''provenance'' else JArr []) of
                (JStr i, Inr ver, Inr crit, JObj acc, JArr prov) \<Rightarrow>
                  let r = \<lparr>rr_resource_id = i, rr_version_or_digest = ver, rr_access_binding = acc,
                           rr_identity_criterion = crit, rr_provenance = prov\<rparr>
                  in if list_all is_obj prov \<and> validate_identity r then Inr r
                     else Inl (ValidationError ''ResourceRef'')
              | _ \<Rightarrow> Inl (ValidationError ''ResourceRef'')))
      | _ \<Rightarrow> Inl (ValidationError ''ResourceRef''))"

text \<open>\<^verbatim>\<open>require_content_ref\<close> and \<^verbatim>\<open>is_content_ref\<close> of \<^verbatim>\<open>contracts/refs.py\<close>.\<close>

definition require_content_ref :: "resource_ref \<Rightarrow> unit result" where
  "require_content_ref r =
     (if \<not> startswith (rr_resource_id r) content_prefix then Inl (ValueError ''content_ref_required'')
      else
        let resource_digest = removeprefix (rr_resource_id r) content_prefix;
            digest = (case ref_digest r of None \<Rightarrow> [] | Some d \<Rightarrow> d)
        in if \<not> any_sha256 digest then Inl (ValueError ''content_ref_required'')
           else if lower resource_digest \<noteq> lower digest then Inl (ValueError ''content_ref_digest_mismatch'')
           else if rr_identity_criterion r \<notin> {None, Some ''content_digest''}
           then Inl (ValueError ''content_ref_required'')
           else Inr ())"

definition is_content_ref :: "resource_ref \<Rightarrow> bool" where
  "is_content_ref r = (case require_content_ref r of Inl _ \<Rightarrow> False | Inr _ \<Rightarrow> True)"

definition operation_name :: "string \<Rightarrow> string" where
  "operation_name operation_ref =
     (if operation_ref = [] then []
      else rsplit_last CHR '':'' (rsplit_last CHR ''/'' (rstrip CHR ''/'' operation_ref)))"

section \<open>Closure sections\<close>

record constraint_ref =
  cr_constraint_id :: string
  cr_version :: string
  cr_digest :: string

record constraint =
  cn_subject :: "string list"
  cn_predicate :: dict
  cn_source :: string
  cn_fate :: string
  cn_relaxability :: string
  cn_enforcement :: string
  cn_propagation :: dict
  cn_evidence_requirements :: "json list"
  cn_constraint_id :: string

record typed_term =
  tt_term_id :: string
  tt_kind :: string
  tt_schema_ref :: string
  tt_value :: json
  tt_required :: bool
  tt_constraint_ref :: json
  tt_refinement_relation_ref :: "string option"
  tt_provenance :: "json list"

record data_application =
  da_logical_inputs :: "resource_ref list"
  da_identity_criterion :: string
  da_expected_cardinality :: string
  da_terms :: "typed_term list"

record data_systems =
  ds_locality :: string
  ds_classification :: string
  ds_access_profile :: dict
  ds_retention_profile :: dict
  ds_terms :: "typed_term list"

record io_contract =
  io_input_schema_ref :: "resource_ref option"
  io_output_schema_ref :: "resource_ref option"
  io_success_semantics :: json
  io_success_validator_ref :: "resource_ref option"

record program_application =
  pa_operation_ref :: string
  pa_input_schema :: json
  pa_output_schema :: json
  pa_success_semantics :: json
  pa_io_contract_ref :: "resource_ref option"
  pa_terms :: "typed_term list"

record execution_contract =
  ec_kind :: string
  ec_version :: string

record program_systems =
  ps_execution :: execution_contract
  ps_effect_class :: string
  ps_permissions :: "string list"
  ps_package_ref :: "resource_ref option"
  ps_replay_safety :: string
  ps_terms :: "typed_term list"

record compute_application =
  ca_capability_intent :: string
  ca_requirement_refs :: "string list"
  ca_result_expectation :: dict
  ca_terms :: "typed_term list"

record compute_systems =
  cs_requirement_refs :: "string list"
  cs_admission_requirements :: "string list"
  cs_terms :: "typed_term list"

record compute_requirement =
  rq_requirement_id :: string
  rq_key :: string
  rq_value :: json
  rq_view :: string
  rq_constraint_ref :: "constraint_ref option"

record typed_hole =
  th_hole_id :: string
  th_type :: string
  th_constraint_refs :: "constraint_ref list"
  th_status :: string
  th_binding_ref :: "string option"
  th_provider_fillable :: bool

record compute_spec =
  sp_capability_requirements :: "typed_term list"
  sp_operation_ref :: string
  sp_requirements :: "compute_requirement list"
  sp_typed_holes :: "typed_hole list"
  sp_terms :: "typed_term list"

record compute_binding =
  cb_binding_id :: string
  cb_hole_id :: string
  cb_capability_descriptor_ref :: resource_ref
  cb_capability_package_ref :: "resource_ref option"
  cb_target_resource_ref :: resource_ref
  cb_constraint_evidence_refs :: "string list"
  cb_bound_by :: string
  cb_bound_at :: string
  cb_runtime_profile :: dict
  cb_activation_ref :: "string option"

record node_input_binding =
  nb_node_id :: string
  nb_input_ref :: resource_ref
  nb_provenance :: "json list"

record task_closure =
  tc_closure_id :: string
  tc_schema_version :: string
  tc_data :: data_application
  tc_data_systems :: data_systems
  tc_program :: program_application
  tc_program_systems :: program_systems
  tc_node_input_bindings :: "node_input_binding list"
  tc_compute :: compute_spec
  tc_compute_bindings :: "compute_binding list"
  tc_compute_application :: compute_application
  tc_compute_systems :: compute_systems
  tc_terms :: "typed_term list"
  tc_constraints :: "constraint list"
  tc_metadata :: dict

text \<open>\<^verbatim>\<open>TaskClosure.minimal(closure_id=\<dots>, metadata=\<dots>)\<close>: the defaults of every section.\<close>

definition minimal_closure :: "string \<Rightarrow> dict \<Rightarrow> task_closure" where
  "minimal_closure closure_id metadata =
     \<lparr>tc_closure_id = closure_id, tc_schema_version = ''1'',
      tc_data = \<lparr>da_logical_inputs = [], da_identity_criterion = ''content_digest'',
                 da_expected_cardinality = ''unknown'', da_terms = []\<rparr>,
      tc_data_systems = \<lparr>ds_locality = ''workspace'', ds_classification = ''internal'',
                 ds_access_profile = [], ds_retention_profile = [], ds_terms = []\<rparr>,
      tc_program = \<lparr>pa_operation_ref = [], pa_input_schema = JNull, pa_output_schema = JNull,
                 pa_success_semantics = JNull, pa_io_contract_ref = None, pa_terms = []\<rparr>,
      tc_program_systems = \<lparr>ps_execution = \<lparr>ec_kind = ''process:json_stdio'', ec_version = ''1''\<rparr>,
                 ps_effect_class = ''Known'', ps_permissions = [], ps_package_ref = None,
                 ps_replay_safety = ''Idempotent'', ps_terms = []\<rparr>,
      tc_node_input_bindings = [],
      tc_compute = \<lparr>sp_capability_requirements = [], sp_operation_ref = [], sp_requirements = [],
                 sp_typed_holes = [], sp_terms = []\<rparr>,
      tc_compute_bindings = [],
      tc_compute_application = \<lparr>ca_capability_intent = ''cpu'', ca_requirement_refs = [],
                 ca_result_expectation = [], ca_terms = []\<rparr>,
      tc_compute_systems = \<lparr>cs_requirement_refs = [], cs_admission_requirements = [], cs_terms = []\<rparr>,
      tc_terms = [], tc_constraints = [], tc_metadata = metadata\<rparr>"

record closure_contract =
  cc_closure_id :: string
  cc_goal :: string
  cc_origin_conversation_ref :: string
  cc_user_id :: string
  cc_workspace_id :: string
  cc_required_success_criteria :: "json list"
  cc_allowed_effects :: "string list"
  cc_resource_budget :: dict
  cc_recovery_policy :: dict
  cc_result_expectations :: "json list"
  cc_declared_constraints :: "constraint list"
  cc_body :: task_closure

record closure_version =
  cv_version_id :: string
  cv_closure_id :: string
  cv_parent_version :: "string option"
  cv_kind :: string
  cv_snapshot :: task_closure
  cv_snapshot_digest :: string
  cv_patch_cursor :: int

text \<open>The orchestrator's package key and the test whether a closure runs under it.\<close>

definition DRIVER_ORCHESTRATOR_KEY :: "string \<times> string \<times> string" where
  "DRIVER_ORCHESTRATOR_KEY = (''function'', ''container:python_orchestrator'', ''1'')"

definition is_orchestration :: "task_closure \<Rightarrow> bool" where
  "is_orchestration c =
     ((ec_kind (ps_execution (tc_program_systems c)), ec_version (ps_execution (tc_program_systems c)))
      = snd DRIVER_ORCHESTRATOR_KEY)"

definition input_binding_for :: "task_closure \<Rightarrow> string \<Rightarrow> node_input_binding option" where
  "input_binding_for c operation_ref =
     List.find (\<lambda>b. nb_node_id b \<in> {operation_ref, operation_name operation_ref, ''default''})
       (tc_node_input_bindings c)"

section \<open>Canonical digest of a closure\<close>

text \<open>
  \<^verbatim>\<open>model_dump(mode="json", exclude_none=True)\<close>: fields that are \<^verbatim>\<open>None\<close> are left out of the dump of a
  model; entries of plain dictionaries stay.
\<close>

definition some_fields :: "(string \<times> json option) list \<Rightarrow> json" where
  "some_fields fs = JObj (List.map_filter (\<lambda>(k, v). map_option (Pair k) v) fs)"

abbreviation not_null :: "json \<Rightarrow> json option" where
  "not_null v \<equiv> (if v = JNull then None else Some v)"

abbreviation strs :: "string list \<Rightarrow> json option" where
  "strs xs \<equiv> Some (JArr (map JStr xs))"

definition ref_dump :: "resource_ref \<Rightarrow> json" where
  "ref_dump r = some_fields [(''resource_id'', Some (JStr (rr_resource_id r))),
     (''version_or_digest'', map_option JStr (rr_version_or_digest r)),
     (''access_binding'', Some (JObj (rr_access_binding r))),
     (''identity_criterion'', map_option JStr (rr_identity_criterion r)),
     (''provenance'', Some (JArr (rr_provenance r)))]"

definition term_dump :: "typed_term \<Rightarrow> json" where
  "term_dump t = some_fields [(''term_id'', Some (JStr (tt_term_id t))), (''kind'', Some (JStr (tt_kind t))),
     (''schema_ref'', Some (JStr (tt_schema_ref t))), (''value'', not_null (tt_value t)),
     (''criticality'', Some (JStr (if tt_required t then ''required'' else ''advisory''))),
     (''constraint_ref'', not_null (tt_constraint_ref t)),
     (''refinement_relation_ref'', map_option JStr (tt_refinement_relation_ref t)),
     (''provenance'', Some (JArr (tt_provenance t)))]"

abbreviation terms_dump :: "typed_term list \<Rightarrow> json option" where
  "terms_dump ts \<equiv> Some (JArr (map term_dump ts))"

definition constraint_ref_dump :: "constraint_ref \<Rightarrow> json" where
  "constraint_ref_dump c = JObj [(''constraint_id'', JStr (cr_constraint_id c)),
     (''version'', JStr (cr_version c)), (''digest'', JStr (cr_digest c))]"

definition constraint_dump :: "constraint \<Rightarrow> json" where
  "constraint_dump c = some_fields [(''subject'', strs (cn_subject c)), (''predicate'', Some (JObj (cn_predicate c))),
     (''source'', Some (JStr (cn_source c))), (''fate'', Some (JStr (cn_fate c))),
     (''relaxability'', Some (JStr (cn_relaxability c))), (''enforcement'', Some (JStr (cn_enforcement c))),
     (''propagation'', Some (JObj (cn_propagation c))),
     (''evidence_requirements'', Some (JArr (cn_evidence_requirements c))),
     (''constraint_id'', Some (JStr (cn_constraint_id c)))]"

definition program_dump :: "program_application \<Rightarrow> json" where
  "program_dump p = some_fields [(''operation_ref'', Some (JStr (pa_operation_ref p))),
     (''input_schema'', not_null (pa_input_schema p)), (''output_schema'', not_null (pa_output_schema p)),
     (''success_semantics'', not_null (pa_success_semantics p)),
     (''io_contract_ref'', map_option ref_dump (pa_io_contract_ref p)), (''terms'', terms_dump (pa_terms p))]"

definition execution_dump :: "execution_contract \<Rightarrow> json" where
  "execution_dump e = JObj [(''kind'', JStr (ec_kind e)), (''version'', JStr (ec_version e))]"

definition program_systems_dump :: "program_systems \<Rightarrow> json" where
  "program_systems_dump p = some_fields [(''execution'', Some (execution_dump (ps_execution p))),
     (''effect_class'', Some (JStr (ps_effect_class p))), (''permissions'', strs (ps_permissions p)),
     (''package_ref'', map_option ref_dump (ps_package_ref p)),
     (''replay_safety'', Some (JStr (ps_replay_safety p))), (''terms'', terms_dump (ps_terms p))]"

definition data_dump :: "data_application \<Rightarrow> json" where
  "data_dump d = some_fields [(''logical_inputs'', Some (JArr (map ref_dump (da_logical_inputs d)))),
     (''identity_criterion'', Some (JStr (da_identity_criterion d))),
     (''expected_cardinality'', Some (JStr (da_expected_cardinality d))), (''terms'', terms_dump (da_terms d))]"

definition data_systems_dump :: "data_systems \<Rightarrow> json" where
  "data_systems_dump d = some_fields [(''locality'', Some (JStr (ds_locality d))),
     (''classification'', Some (JStr (ds_classification d))), (''access_profile'', Some (JObj (ds_access_profile d))),
     (''retention_profile'', Some (JObj (ds_retention_profile d))), (''terms'', terms_dump (ds_terms d))]"

definition requirement_dump :: "compute_requirement \<Rightarrow> json" where
  "requirement_dump q = some_fields [(''requirement_id'', Some (JStr (rq_requirement_id q))),
     (''key'', Some (JStr (rq_key q))), (''value'', not_null (rq_value q)), (''view'', Some (JStr (rq_view q))),
     (''constraint_ref'', map_option constraint_ref_dump (rq_constraint_ref q))]"

definition hole_dump :: "typed_hole \<Rightarrow> json" where
  "hole_dump h = some_fields [(''hole_id'', Some (JStr (th_hole_id h))), (''type'', Some (JStr (th_type h))),
     (''constraint_refs'', Some (JArr (map constraint_ref_dump (th_constraint_refs h)))),
     (''status'', Some (JStr (th_status h))), (''binding_ref'', map_option JStr (th_binding_ref h)),
     (''provider_fillable'', Some (JBool (th_provider_fillable h)))]"

definition compute_dump :: "compute_spec \<Rightarrow> json" where
  "compute_dump c = some_fields [(''capability_requirements'', terms_dump (sp_capability_requirements c)),
     (''operation_ref'', Some (JStr (sp_operation_ref c))),
     (''requirements'', Some (JArr (map requirement_dump (sp_requirements c)))),
     (''typed_holes'', Some (JArr (map hole_dump (sp_typed_holes c)))), (''terms'', terms_dump (sp_terms c))]"

definition binding_dump :: "compute_binding \<Rightarrow> json" where
  "binding_dump b = some_fields [(''binding_id'', Some (JStr (cb_binding_id b))), (''hole_id'', Some (JStr (cb_hole_id b))),
     (''capability_descriptor_ref'', Some (ref_dump (cb_capability_descriptor_ref b))),
     (''capability_package_ref'', map_option ref_dump (cb_capability_package_ref b)),
     (''target_resource_ref'', Some (ref_dump (cb_target_resource_ref b))),
     (''constraint_evidence_refs'', strs (cb_constraint_evidence_refs b)),
     (''bound_by'', Some (JStr (cb_bound_by b))), (''bound_at'', Some (JStr (cb_bound_at b))),
     (''runtime_profile'', Some (JObj (cb_runtime_profile b))),
     (''activation_ref'', map_option JStr (cb_activation_ref b))]"

definition node_input_dump :: "node_input_binding \<Rightarrow> json" where
  "node_input_dump b = some_fields [(''node_id'', Some (JStr (nb_node_id b))),
     (''input_ref'', Some (ref_dump (nb_input_ref b))), (''provenance'', Some (JArr (nb_provenance b)))]"

definition compute_application_dump :: "compute_application \<Rightarrow> json" where
  "compute_application_dump c = some_fields [(''capability_intent'', Some (JStr (ca_capability_intent c))),
     (''requirement_refs'', strs (ca_requirement_refs c)),
     (''result_expectation'', Some (JObj (ca_result_expectation c))), (''terms'', terms_dump (ca_terms c))]"

definition compute_systems_dump :: "compute_systems \<Rightarrow> json" where
  "compute_systems_dump c = some_fields [(''requirement_refs'', strs (cs_requirement_refs c)),
     (''admission_requirements'', strs (cs_admission_requirements c)), (''terms'', terms_dump (cs_terms c))]"

definition closure_dump :: "task_closure \<Rightarrow> json" where
  "closure_dump c = some_fields [(''closure_id'', Some (JStr (tc_closure_id c))),
     (''schema_version'', Some (JStr (tc_schema_version c))), (''data'', Some (data_dump (tc_data c))),
     (''data_systems'', Some (data_systems_dump (tc_data_systems c))),
     (''program'', Some (program_dump (tc_program c))),
     (''program_systems'', Some (program_systems_dump (tc_program_systems c))),
     (''node_input_bindings'', Some (JArr (map node_input_dump (tc_node_input_bindings c)))),
     (''compute'', Some (compute_dump (tc_compute c))),
     (''compute_bindings'', Some (JArr (map binding_dump (tc_compute_bindings c)))),
     (''compute_application'', Some (compute_application_dump (tc_compute_application c))),
     (''compute_systems'', Some (compute_systems_dump (tc_compute_systems c))),
     (''terms'', terms_dump (tc_terms c)), (''constraints'', Some (JArr (map constraint_dump (tc_constraints c)))),
     (''metadata'', Some (JObj (tc_metadata c)))]"

fun strip_deployment_bindings :: "json \<Rightarrow> json"
and strip_list :: "json list \<Rightarrow> json list"
and strip_items :: "dict \<Rightarrow> dict" where
  "strip_deployment_bindings (JObj d) = JObj (strip_items d)"
| "strip_deployment_bindings (JArr xs) = JArr (strip_list xs)"
| "strip_deployment_bindings v = v"
| "strip_list [] = []"
| "strip_list (x # xs) = strip_deployment_bindings x # strip_list xs"
| "strip_items [] = []"
| "strip_items ((k, v) # d) =
     (if k \<noteq> ''access_binding'' then (k, strip_deployment_bindings v) # strip_items d else strip_items d)"

definition canonical_digest :: "hashing \<Rightarrow> task_closure \<Rightarrow> string result" where
  "canonical_digest H c = digest_json H (strip_deployment_bindings (closure_dump c)) ''loom/closure/v1''"

section \<open>Capability packages\<close>

record capability_export =
  ce_capability_descriptor_ref :: resource_ref
  ce_io_contract_ref :: resource_ref
  ce_effect_class :: string
  ce_permissions :: "string list"
  ce_replay_safety :: string
  ce_runtime_binding :: dict

datatype package_scope = Run_Bound | Workspace_Reusable

datatype publication_state = Candidate | Published | Abandoned

record package_version =
  pv_package_type :: string
  pv_package_id :: string
  pv_package_version :: string
  pv_package_closure_version_ref :: string
  pv_source_run_ref :: string
  pv_source_closure_version_ref :: string
  pv_scope :: package_scope
  pv_publication_state :: publication_state
  pv_provenance :: "dict list"
  pv_execution :: execution_contract
  pv_capability_exports :: "capability_export list"
  pv_body :: dict
  pv_package_digest :: string

definition version_ref :: "package_version \<Rightarrow> string" where
  "version_ref p = ''capability-package://'' @ pv_package_id p @ ''/'' @ pv_package_version p"

definition package_key :: "package_version \<Rightarrow> string \<times> string \<times> string" where
  "package_key p = (pv_package_type p, ec_kind (pv_execution p), ec_version (pv_execution p))"

definition is_sha256 :: "string option \<Rightarrow> bool" where
  "is_sha256 v = (case v of None \<Rightarrow> False | Some s \<Rightarrow> lower_sha256 s)"

definition validate_refs :: "capability_export \<Rightarrow> unit result" where
  "validate_refs e =
     (let d = ce_capability_descriptor_ref e; c = ce_io_contract_ref e in
      if rr_resource_id d = [] \<or> rr_identity_criterion d \<noteq> Some ''descriptor_digest'' \<or>
         \<not> is_sha256 (rr_version_or_digest d)
      then Inl (ValueError ''capability_descriptor_invalid'')
      else if rr_identity_criterion c \<noteq> Some ''content_digest'' \<or>
         \<not> (startswith (rr_resource_id c) content_prefix \<and>
            lower_sha256 (removeprefix (rr_resource_id c) content_prefix)) \<or>
         rr_version_or_digest c \<noteq> None
      then Inl (ValueError ''capability_io_contract_ref_invalid'')
      else if \<not> distinct (ce_permissions e) then Inl (ValueError ''capability_permissions_duplicate'')
      else Inr ())"

definition descriptor_matches :: "resource_ref \<Rightarrow> capability_export \<Rightarrow> bool" where
  "descriptor_matches r e =
     (rr_resource_id (ce_capability_descriptor_ref e) = rr_resource_id r \<and>
      rr_identity_criterion (ce_capability_descriptor_ref e) = rr_identity_criterion r \<and>
      rr_version_or_digest (ce_capability_descriptor_ref e) = rr_version_or_digest r)"

definition export_for :: "package_version \<Rightarrow> resource_ref \<Rightarrow> capability_export result" where
  "export_for p r =
     (if rr_identity_criterion r \<noteq> Some ''descriptor_digest'' \<or> rr_resource_id r = [] \<or>
         \<not> is_sha256 (rr_version_or_digest r)
      then Inl (ValueError ''capability_descriptor_invalid'')
      else (case filter (descriptor_matches r) (pv_capability_exports p) of
              [e] \<Rightarrow> Inr e
            | _ \<Rightarrow> Inl (ValueError ''capability_export_not_found'')))"

definition single_export :: "package_version \<Rightarrow> capability_export result" where
  "single_export p =
     (case pv_capability_exports p of
        [e] \<Rightarrow> Inr e
      | _ \<Rightarrow> Inl (ValueError ''capability_export_selection_required''))"

definition package_body_ref :: "package_version \<Rightarrow> string \<Rightarrow> resource_ref result" where
  "package_body_ref p field_name =
     (case map_of (pv_body p) field_name of
        None \<Rightarrow> Inl (ValueError (field_name @ ''_required''))
      | Some v \<Rightarrow> (case resource_ref_of_json v of
                     Inl _ \<Rightarrow> Inl (ValueError (field_name @ ''_required''))
                   | Inr r \<Rightarrow> Inr r))"

datatype desired_state = Desired_Running | Desired_Stopped

datatype activation_state =
  Not_Installed | Provisioning | Ready | Degraded | Stopped | Activation_Failed | Lost

record activation =
  ac_package_version_ref :: string
  ac_package_digest :: string
  ac_target_slave :: string
  ac_activation_closure_version_ref :: string
  ac_compute_binding_ref :: string
  ac_desired_state :: desired_state
  ac_activation_revision :: nat
  ac_last_idempotency_key :: string
  ac_evidence_refs :: "string list"
  ac_activation_state :: activation_state
  ac_runtime_profile :: dict

record health_report =
  hr_report_id :: string
  hr_package_version_ref :: string
  hr_package_digest :: string
  hr_target_slave :: string
  hr_activation_state :: activation_state
  hr_evidence_refs :: "string list"
  hr_details :: dict
  hr_activation_revision :: nat

section \<open>Dynamic nodes\<close>

record node_intent =
  ni_intent_id :: string
  ni_execution_id :: string
  ni_package_ref :: resource_ref
  ni_capability_descriptor_ref :: resource_ref
  ni_input_refs :: "resource_ref list"

datatype node_state = Node_Accepted | Node_Dispatched | Node_Completed | Node_Failed | Node_Decision_Required

record dynamic_node =
  dn_node_id :: string
  dn_parent_execution_ref :: string
  dn_intent_id :: string
  dn_package_ref :: resource_ref
  dn_capability_descriptor_ref :: resource_ref
  dn_input_refs :: "resource_ref list"
  dn_state :: node_state

section \<open>Constraint refinement\<close>

text \<open>
  \<^verbatim>\<open>is_monotonic_tightening\<close> compares JSON values with Python's operators. \<^verbatim>\<open><=\<close> is defined between
  numbers, between strings and between lists and raises \<^verbatim>\<open>TypeError\<close> otherwise; \<^verbatim>\<open>==\<close> compares numbers by
  value and dictionaries regardless of order; \<^verbatim>\<open>set(v)\<close> iterates over a list, a string or the keys
  of a dictionary, and raises on other values and on unhashable members.
\<close>

fun num_of :: "json \<Rightarrow> rat option" where
  "num_of (JInt i) = Some (of_int i)"
| "num_of (JFloat q) = Some q"
| "num_of (JBool b) = Some (if b then 1 else 0)"
| "num_of _ = None"

fun string_le :: "string \<Rightarrow> string \<Rightarrow> bool" where
  "string_le [] b = True"
| "string_le (x # a) [] = False"
| "string_le (x # a) (y # b) = (if x = y then string_le a b else (of_char x :: nat) < of_char y)"

fun py_eq :: "json \<Rightarrow> json \<Rightarrow> bool"
and py_eq_list :: "json list \<Rightarrow> json list \<Rightarrow> bool"
and py_eq_items :: "(string \<times> json) list \<Rightarrow> dict \<Rightarrow> bool" where
  "py_eq (JArr xs) b = (case b of JArr ys \<Rightarrow> py_eq_list xs ys | _ \<Rightarrow> False)"
| "py_eq (JObj d) b = (case b of JObj e \<Rightarrow> length d = length e \<and> py_eq_items d e | _ \<Rightarrow> False)"
| "py_eq (JStr s) b = (b = JStr s)"
| "py_eq JNull b = (b = JNull)"
| "py_eq (JInt i) b = (num_of b = Some (of_int i))"
| "py_eq (JFloat q) b = (num_of b = Some q)"
| "py_eq (JBool c) b = (num_of b = Some (if c then 1 else 0))"
| "py_eq_list [] ys = (ys = [])"
| "py_eq_list (x # xs) ys = (case ys of [] \<Rightarrow> False | y # ys' \<Rightarrow> py_eq x y \<and> py_eq_list xs ys')"
| "py_eq_items [] e = True"
| "py_eq_items ((k, v) # d) e = ((case map_of e k of None \<Rightarrow> False | Some w \<Rightarrow> py_eq v w) \<and> py_eq_items d e)"

fun py_le :: "json \<Rightarrow> json \<Rightarrow> bool result"
and py_le_list :: "json list \<Rightarrow> json list \<Rightarrow> bool result" where
  "py_le (JArr xs) b = (case b of JArr ys \<Rightarrow> py_le_list xs ys | _ \<Rightarrow> Inl (TypeError ''<=''))"
| "py_le (JStr x) b = (case b of JStr y \<Rightarrow> Inr (string_le x y) | _ \<Rightarrow> Inl (TypeError ''<=''))"
| "py_le a b = (case (num_of a, num_of b) of (Some x, Some y) \<Rightarrow> Inr (x \<le> y) | _ \<Rightarrow> Inl (TypeError ''<=''))"
| "py_le_list [] ys = Inr True"
| "py_le_list (x # xs) ys =
     (case ys of [] \<Rightarrow> Inr False | y # ys' \<Rightarrow> if py_eq x y then py_le_list xs ys' else py_le x y)"

fun hashable :: "json \<Rightarrow> bool" where
  "hashable (JArr _) = False"
| "hashable (JObj _) = False"
| "hashable _ = True"

fun py_iter :: "json \<Rightarrow> json list option" where
  "py_iter (JArr xs) = Some xs"
| "py_iter (JStr s) = Some (map (\<lambda>c. JStr [c]) s)"
| "py_iter (JObj d) = Some (map (\<lambda>(k, _). JStr k) d)"
| "py_iter _ = None"

definition py_subset :: "json \<Rightarrow> json \<Rightarrow> bool result" where
  "py_subset a b =
     (case (py_iter a, py_iter b) of
        (Some xs, Some ys) \<Rightarrow>
          if list_all hashable xs \<and> list_all hashable ys
          then Inr (list_all (\<lambda>x. list_ex (py_eq x) ys) xs)
          else Inl (TypeError ''unhashable type'')
      | _ \<Rightarrow> Inl (TypeError ''object is not iterable''))"

definition dget_default :: "dict \<Rightarrow> string \<Rightarrow> json \<Rightarrow> json" where
  "dget_default d k v = (case map_of d k of None \<Rightarrow> v | Some w \<Rightarrow> w)"

definition is_monotonic_tightening :: "dict \<Rightarrow> dict \<Rightarrow> bool result" where
  "is_monotonic_tightening parent child =
     (if \<not> py_eq (dget parent ''field'') (dget child ''field'') then Inr False
      else if dget parent ''op'' = JStr ''le'' \<and> dget child ''op'' = JStr ''le''
      then py_le (dget child ''value'') (dget parent ''value'')
      else if dget parent ''op'' = JStr ''ge'' \<and> dget child ''op'' = JStr ''ge''
      then py_le (dget parent ''value'') (dget child ''value'')
      else if dget parent ''op'' = JStr ''allow'' \<and> dget child ''op'' = JStr ''allow''
      then py_subset (dget_default child ''value'' (JArr [])) (dget_default parent ''value'' (JArr []))
      else Inr (py_eq (JObj parent) (JObj child)))"

section \<open>Facts on references and exports\<close>

lemma string_le_trans: "string_le a b \<Longrightarrow> string_le b c \<Longrightarrow> string_le a c"
proof (induction a b arbitrary: c rule: string_le.induct)
  case (3 x a y b)
  then show ?case by (cases c) (auto split: if_splits)
qed auto

lemma string_le_antisym: "string_le a b \<Longrightarrow> string_le b a \<Longrightarrow> a = b"
proof (induction a b rule: string_le.induct)
  case (1 b)
  then show ?case by (cases b) auto
qed (auto split: if_splits)

lemma string_le_total: "string_le a b \<or> string_le b a"
  by (induction a b rule: string_le.induct) (auto simp: nat_neq_iff [symmetric])

definition scalar :: "json \<Rightarrow> bool" where
  "scalar v = (hashable v \<and> v \<noteq> JNull)"

lemma py_le_trans_scalar:
  assumes "scalar a" and "py_le a b = Inr True" and "py_le b c = Inr True"
  shows "py_le a c = Inr True"
  using assms
  by (cases a; cases b; cases c) (auto simp: scalar_def intro: string_le_trans split: if_splits)

lemma py_le_scalar: "scalar b \<Longrightarrow> py_le a b = Inr True \<Longrightarrow> scalar a"
  by (cases a; cases b) (auto simp: scalar_def)

lemma py_eq_trans_hashable:
  "hashable a \<Longrightarrow> hashable b \<Longrightarrow> py_eq a b \<Longrightarrow> py_eq b c \<Longrightarrow> py_eq a c"
  by (cases a; cases b; cases c) auto

lemma lower_append: "lower (a @ b) = lower a @ lower b"
  by (simp add: lower_def)

text \<open>What \<^verbatim>\<open>require_content_ref\<close> accepts, for a reference that passed its own validator.\<close>

lemma require_content_ref_iff:
  assumes "validate_identity r"
  shows "require_content_ref r = Inr () \<longleftrightarrow>
    (\<exists>h. rr_resource_id r = content_prefix @ h \<and> any_sha256 h \<and> rr_version_or_digest r = None \<and>
         rr_identity_criterion r \<in> {None, Some ''content_digest''})"
proof -
  have low: "any_sha256 (lower h) \<longleftrightarrow> any_sha256 h" for h
  proof -
    have "is_hex (lower_char c) = is_hex c" for c
      by (auto simp: is_hex_def lower_char_def Let_def)
    then show ?thesis by (simp add: any_sha256_def lower_def list_all_iff)
  qed
  show ?thesis
    using assms
    by (auto simp: require_content_ref_def validate_identity_def ref_digest_def nonempty_def startswith_iff Let_def low
        split: option.splits)
qed

lemma content_ref_digest:
  assumes v: "validate_identity r" and ok: "require_content_ref r = Inr ()"
  shows "\<exists>h. rr_resource_id r = content_prefix @ h \<and> ref_digest r = Some (lower h) \<and> lower_sha256 (lower h)"
proof -
  from require_content_ref_iff [OF v] ok obtain h where
    h: "rr_resource_id r = content_prefix @ h" "any_sha256 h" "rr_version_or_digest r = None"
    by auto
  then have "ref_digest r = Some (lower h)" by (simp add: ref_digest_def nonempty_def)
  with h any_sha256_lower show ?thesis by blast
qed

lemma export_for_sound:
  assumes "export_for p r = Inr e"
  shows "e \<in> set (pv_capability_exports p) \<and> descriptor_matches r e"
proof -
  from assms have "filter (descriptor_matches r) (pv_capability_exports p) = [e]"
    by (auto simp: export_for_def split: if_splits list.splits)
  then show ?thesis by (metis filter_eq_ConsD in_set_conv_decomp append_Cons)
qed

section \<open>Properties\<close>

text \<open>A serializer and a hash function that instantiate the parameter in evaluations.\<close>

definition demo_H :: hashing where
  "demo_H = \<lparr>rfc8785_dumps = (\<lambda>j. Some ''{}''), sha256_hex = (\<lambda>b. b)\<rparr>"

text \<open>
  A resource reference survives its wire form: parsing the dumped reference gives the
  reference back, for every reference the model class accepts.
\<close>

theorem resource_ref_roundtrip:
  assumes "validate_identity r" and "list_all is_obj (rr_provenance r)"
  shows "resource_ref_of_json (ref_json r) = Inr r"
proof -
  have "opt_str_field (str_or_null v) = Inr v" for v by (cases v) (simp_all add: str_or_null_def)
  with assms show ?thesis
    by (cases r) (simp add: resource_ref_of_json_def ref_json_def ref_fields_def dhas_def Let_def)
qed

theorem resource_ref_roundtrip_witness:
  "resource_ref_of_json (ref_json (plain_ref ''r'')) = Inr (plain_ref ''r'')"
  by (rule resource_ref_roundtrip) (simp_all add: validate_identity_def)

text \<open>
  \<^verbatim>\<open>require_content_ref\<close> accepts exactly the references \<^verbatim>\<open>content://sha256/\<close> followed by a
  64-digit hexadecimal digest, with no version of their own and no identity criterion other than the
  content digest; the digest of an accepted reference is that suffix in lower case.
\<close>

theorem content_ref_spec:
  assumes "validate_identity r"
  shows "(require_content_ref r = Inr () \<longleftrightarrow>
      (\<exists>h. rr_resource_id r = content_prefix @ h \<and> any_sha256 h \<and> rr_version_or_digest r = None \<and>
           rr_identity_criterion r \<in> {None, Some ''content_digest''})) \<and>
    (require_content_ref r = Inr () \<longrightarrow>
      ref_digest r = Some (lower (removeprefix (rr_resource_id r) content_prefix)) \<and>
      lower_sha256 (the (ref_digest r)))"
  using require_content_ref_iff [OF assms] content_ref_digest [OF assms] by auto

theorem content_ref_spec_witness:
  "require_content_ref (plain_ref (content_prefix @ replicate 64 CHR ''A'')) = Inr () \<and>
   ref_digest (plain_ref (content_prefix @ replicate 64 CHR ''A'')) = Some (replicate 64 CHR ''a'')"
proof -
  have sha: "any_sha256 (replicate 64 CHR ''A'')" by (simp add: any_sha256_def list_all_iff is_hex_def)
  have low: "lower (replicate 64 CHR ''A'') = replicate 64 CHR ''a''"
    by (simp add: lower_def map_replicate_const lower_char_def char_of_def bit_iff_odd)
  have "validate_identity (plain_ref (content_prefix @ replicate 64 CHR ''A''))" by (simp add: validate_identity_def)
  from content_ref_spec [OF this] show ?thesis by (simp add: sha low)
qed

text \<open>
  What a predicate of the three ordered kinds demands of a value: \<^verbatim>\<open>le\<close> and \<^verbatim>\<open>ge\<close> compare with Python's
  operators, \<^verbatim>\<open>allow\<close> tests membership in the iterated value.
\<close>

definition satisfies :: "json \<Rightarrow> dict \<Rightarrow> bool" where
  "satisfies v p =
     (if dget p ''op'' = JStr ''le'' then py_le v (dget p ''value'') = Inr True
      else if dget p ''op'' = JStr ''ge'' then py_le (dget p ''value'') v = Inr True
      else if dget p ''op'' = JStr ''allow''
      then (\<exists>ys. py_iter (dget_default p ''value'' (JArr [])) = Some ys \<and> list_ex (py_eq v) ys)
      else False)"

lemma py_eq_items_get:
  "py_eq_items d e \<Longrightarrow> map_of d k = Some v \<Longrightarrow> \<exists>w. map_of e k = Some w \<and> py_eq v w"
proof (induction d)
  case (Cons x d)
  then show ?case by (cases x) (auto split: option.splits if_splits)
qed simp

lemma py_eq_same_op:
  assumes "py_eq (JObj p) (JObj c)" and "dget p ''op'' = JStr o'"
  shows "dget c ''op'' = JStr o'"
proof -
  from assms(2) have "map_of p ''op'' = Some (JStr o')" by (simp add: dget_def split: option.splits)
  with assms(1) py_eq_items_get [of p c "''op''"] show ?thesis by (auto simp: dget_def)
qed

lemma py_subset_mem:
  assumes "py_subset a b = Inr True" and "scalar v" and "py_iter a = Some xs" and "list_ex (py_eq v) xs"
  shows "\<exists>ys. py_iter b = Some ys \<and> list_ex (py_eq v) ys"
proof -
  from assms(1,3) obtain ys where ys: "py_iter b = Some ys" "list_all hashable xs"
      "list_all (\<lambda>x. list_ex (py_eq x) ys) xs"
    by (auto simp: py_subset_def split: option.splits if_splits)
  from assms(4) obtain x where "x \<in> set xs" "py_eq v x" by (auto simp: list_ex_iff)
  moreover from this ys obtain y where "y \<in> set ys" "py_eq x y" "hashable x"
    by (auto simp: list_all_iff list_ex_iff)
  ultimately have "py_eq v y" using assms(2) py_eq_trans_hashable [of v x y] by (simp add: scalar_def)
  with \<open>y \<in> set ys\<close> ys(1) show ?thesis by (auto simp: list_ex_iff)
qed

text \<open>
  \<^verbatim>\<open>is_monotonic_tightening\<close> is sound: when it answers yes for a predicate of kind \<^verbatim>\<open>le\<close>,
  \<^verbatim>\<open>ge\<close> or \<^verbatim>\<open>allow\<close>, the child names the same field and the same kind, and every scalar value that
  satisfies the child satisfies the parent.
\<close>

theorem tightening_sound:
  assumes ok: "is_monotonic_tightening parent child = Inr True"
    and kind: "dget parent ''op'' \<in> {JStr ''le'', JStr ''ge'', JStr ''allow''}"
    and v: "scalar v" and sat: "satisfies v child"
  shows "dget child ''op'' = dget parent ''op'' \<and> py_eq (dget parent ''field'') (dget child ''field'') \<and> satisfies v parent"
proof -
  have same: "dget child ''op'' = dget parent ''op''"
    using ok kind py_eq_same_op [of parent child] by (auto simp: is_monotonic_tightening_def split: if_splits)
  have field: "py_eq (dget parent ''field'') (dget child ''field'')"
    using ok by (auto simp: is_monotonic_tightening_def split: if_splits)
  from kind consider "dget parent ''op'' = JStr ''le''" | "dget parent ''op'' = JStr ''ge''" | "dget parent ''op'' = JStr ''allow''"
    by blast
  then have "satisfies v parent"
  proof cases
    case 1
    with same field ok sat v show ?thesis
      by (auto simp: satisfies_def is_monotonic_tightening_def intro: py_le_trans_scalar)
  next
    case 2
    with same field ok sat have "py_le (dget parent ''value'') (dget child ''value'') = Inr True"
        "py_le (dget child ''value'') v = Inr True"
      by (simp_all add: satisfies_def is_monotonic_tightening_def)
    moreover from this v have "scalar (dget parent ''value'')" using py_le_scalar by blast
    ultimately show ?thesis using 2 by (auto simp: satisfies_def intro: py_le_trans_scalar)
  next
    case 3
    with same field ok sat v show ?thesis
      by (auto simp: satisfies_def is_monotonic_tightening_def intro: py_subset_mem)
  qed
  with same field show ?thesis by simp
qed

theorem tightening_sound_witness:
  "satisfies (JInt 3) [(''field'', JStr ''cores''), (''op'', JStr ''le''), (''value'', JInt 8)]"
proof -
  let ?p = "[(''field'', JStr ''cores''), (''op'', JStr ''le''), (''value'', JInt 8)]"
  let ?c = "[(''field'', JStr ''cores''), (''op'', JStr ''le''), (''value'', JInt 4)]"
  have "is_monotonic_tightening ?p ?c = Inr True" by (simp add: is_monotonic_tightening_def)
  moreover have "satisfies (JInt 3) ?c" by (simp add: satisfies_def)
  ultimately show ?thesis using tightening_sound [of ?p ?c "JInt 3"] by (simp add: scalar_def)
qed

text \<open>Another deployment of a closure: the same sections, with other access bindings on every reference.\<close>

definition rebind_ref :: "(dict \<Rightarrow> dict) \<Rightarrow> resource_ref \<Rightarrow> resource_ref" where
  "rebind_ref f r = r\<lparr>rr_access_binding := f (rr_access_binding r)\<rparr>"

definition rebind_closure :: "(dict \<Rightarrow> dict) \<Rightarrow> task_closure \<Rightarrow> task_closure" where
  "rebind_closure f c =
     c\<lparr>tc_data := (tc_data c)\<lparr>da_logical_inputs := map (rebind_ref f) (da_logical_inputs (tc_data c))\<rparr>,
       tc_program := (tc_program c)\<lparr>pa_io_contract_ref := map_option (rebind_ref f) (pa_io_contract_ref (tc_program c))\<rparr>,
       tc_program_systems := (tc_program_systems c)\<lparr>ps_package_ref :=
         map_option (rebind_ref f) (ps_package_ref (tc_program_systems c))\<rparr>,
       tc_node_input_bindings := map (\<lambda>b. b\<lparr>nb_input_ref := rebind_ref f (nb_input_ref b)\<rparr>) (tc_node_input_bindings c),
       tc_compute_bindings := map (\<lambda>b. b\<lparr>
         cb_capability_descriptor_ref := rebind_ref f (cb_capability_descriptor_ref b),
         cb_capability_package_ref := map_option (rebind_ref f) (cb_capability_package_ref b),
         cb_target_resource_ref := rebind_ref f (cb_target_resource_ref b)\<rparr>) (tc_compute_bindings c)\<rparr>"

lemma strip_list_map: "strip_list xs = map strip_deployment_bindings xs"
  by (induction xs) simp_all

lemma strip_some_fields [simp]:
  "strip_deployment_bindings (some_fields []) = JObj []"
  "strip_deployment_bindings (some_fields ((k, v) # fs)) =
     (case v of None \<Rightarrow> strip_deployment_bindings (some_fields fs)
      | Some j \<Rightarrow> if k = ''access_binding'' then strip_deployment_bindings (some_fields fs)
          else JObj ((k, strip_deployment_bindings j) # obj_of (strip_deployment_bindings (some_fields fs))))"
  by (auto simp: some_fields_def map_filter_simps split: option.split)

lemma strip_rebind_ref [simp]:
  "strip_deployment_bindings (ref_dump (rebind_ref f r)) = strip_deployment_bindings (ref_dump r)"
  by (simp add: ref_dump_def rebind_ref_def split: option.split)

lemma strip_rebind_refs [simp]: "strip_list (map (ref_dump \<circ> rebind_ref f) rs) = strip_list (map ref_dump rs)"
  by (simp add: strip_list_map)

lemma rebind_sections [simp]:
  "strip_deployment_bindings (data_dump (d\<lparr>da_logical_inputs := map (rebind_ref f) (da_logical_inputs d)\<rparr>)) =
     strip_deployment_bindings (data_dump d)"
  "strip_deployment_bindings (program_dump (p\<lparr>pa_io_contract_ref := map_option (rebind_ref f) (pa_io_contract_ref p)\<rparr>)) =
     strip_deployment_bindings (program_dump p)"
  "strip_deployment_bindings (program_systems_dump (q\<lparr>ps_package_ref := map_option (rebind_ref f) (ps_package_ref q)\<rparr>)) =
     strip_deployment_bindings (program_systems_dump q)"
  "strip_deployment_bindings (node_input_dump (n\<lparr>nb_input_ref := rebind_ref f (nb_input_ref n)\<rparr>)) =
     strip_deployment_bindings (node_input_dump n)"
  "strip_deployment_bindings (binding_dump (b\<lparr>
         cb_capability_descriptor_ref := rebind_ref f (cb_capability_descriptor_ref b),
         cb_capability_package_ref := map_option (rebind_ref f) (cb_capability_package_ref b),
         cb_target_resource_ref := rebind_ref f (cb_target_resource_ref b)\<rparr>)) =
     strip_deployment_bindings (binding_dump b)"
  by (simp_all add: data_dump_def program_dump_def program_systems_dump_def node_input_dump_def binding_dump_def
      split: option.split)

text \<open>
  The canonical digest of a closure identifies its content and not its deployment: giving
  every reference of the closure another access binding leaves the digest unchanged.
\<close>

theorem canonical_digest_ignores_bindings:
  "canonical_digest H (rebind_closure f c) = canonical_digest H c"
proof -
  have "strip_deployment_bindings (closure_dump (rebind_closure f c)) = strip_deployment_bindings (closure_dump c)"
    by (simp add: closure_dump_def rebind_closure_def strip_list_map)
  then show ?thesis by (simp add: canonical_digest_def)
qed

end
