(* ===== verification/Receipts.thy ===== *)
theory Receipts
  imports Prelude
begin

text \<open>
  Message receipts of the Observer (\<^verbatim>\<open>loom_v2/contracts/messages.py\<close> and the receipt methods of
  \<^verbatim>\<open>loom_v2/observer/repository.py\<close>), on the in-memory store (\<^verbatim>\<open>self.sessions is None\<close>).
  Every method runs under \<^verbatim>\<open>_message_receipt_lock\<close> and is one atomic step of the store.

  A receipt is created \<open>Accepted\<close>, queued by the dispatcher, claimed by one Driver turn
  (\<open>InFlight\<close> with a claim token) and ends \<open>Completed\<close>, \<open>Failed\<close> or \<open>Interrupted\<close>; a delivery that
  does not go through returns it to \<open>Retryable\<close> with a back-off.
\<close>

section \<open>Data\<close>

datatype receipt_state =
  Accepted | Queued | InFlight | Completed | Retryable | Failed | Interrupted

record message_receipt =
  mr_workspace_id :: string
  mr_request_id :: string
  mr_conversation_ref :: string
  mr_prompt :: string
  mr_state :: receipt_state
  mr_run_id :: "string option"
  mr_assistant_text :: "string option"
  mr_outcome :: "json option"
  mr_claim_token :: "string option"
  mr_attempt_count :: nat
  mr_next_attempt_at :: "time option"
  mr_created_at :: time
  mr_updated_at :: time

record receipt_event =
  re_workspace_id :: string
  re_conversation_ref :: string
  re_request_id :: string
  re_state :: receipt_state
  re_created_at :: time

type_synonym receipt_key = "string \<times> string"

record receipt_store =
  message_receipts :: "(receipt_key \<times> message_receipt) list"
  message_receipt_events :: "receipt_event list"

type_synonym ('z, 'a) receipt_op = "('z receipt_store_scheme, 'a) op"

definition terminal_receipt :: "message_receipt \<Rightarrow> bool" where
  "terminal_receipt r = (mr_state r \<in> {Completed, Failed, Interrupted})"

section \<open>Operations\<close>

definition load_message_receipt :: "'z receipt_store_scheme \<Rightarrow> string \<Rightarrow> string \<Rightarrow> message_receipt option" where
  "load_message_receipt s workspace_id request_id = map_of (message_receipts s) (workspace_id, request_id)"

definition record_message_receipt_event ::
  "message_receipt \<Rightarrow> 'z receipt_store_scheme \<Rightarrow> 'z receipt_store_scheme" where
  "record_message_receipt_event r s = s\<lparr>message_receipt_events := message_receipt_events s @
     [\<lparr>re_workspace_id = mr_workspace_id r, re_conversation_ref = mr_conversation_ref r,
       re_request_id = mr_request_id r, re_state = mr_state r, re_created_at = mr_updated_at r\<rparr>]\<rparr>"

definition persist_message_receipt ::
  "message_receipt \<Rightarrow> 'z receipt_store_scheme \<Rightarrow> 'z receipt_store_scheme" where
  "persist_message_receipt r s =
     (let key = (mr_workspace_id r, mr_request_id r);
          previous_state = map_option mr_state (map_of (message_receipts s) key);
          s' = s\<lparr>message_receipts := AList.update key r (message_receipts s)\<rparr>
      in if previous_state \<noteq> Some (mr_state r) then record_message_receipt_event r s' else s')"

text \<open>
  \<^verbatim>\<open>create_or_get_message_receipt\<close>. The constructor of \<^verbatim>\<open>MessageReceipt\<close> rejects empty
  identifiers (\<^verbatim>\<open>min_length=1\<close>).
\<close>

definition create_or_get_message_receipt ::
  "time \<Rightarrow> string \<Rightarrow> string \<Rightarrow> string \<Rightarrow> string \<Rightarrow> ('z, message_receipt) receipt_op" where
  "create_or_get_message_receipt now workspace_id request_id conversation_ref prompt s =
     (case load_message_receipt s workspace_id request_id of
        Some existing \<Rightarrow>
          if mr_conversation_ref existing \<noteq> conversation_ref \<or> mr_prompt existing \<noteq> prompt
          then (Inl (ValueError ''request_id_reused''), s)
          else (Inr existing, s)
      | None \<Rightarrow>
          if workspace_id = [] \<or> request_id = [] \<or> conversation_ref = []
          then (Inl (ValidationError ''MessageReceipt''), s)
          else
            let receipt = \<lparr>mr_workspace_id = workspace_id, mr_request_id = request_id,
                  mr_conversation_ref = conversation_ref, mr_prompt = prompt, mr_state = Accepted,
                  mr_run_id = None, mr_assistant_text = None, mr_outcome = None,
                  mr_claim_token = None, mr_attempt_count = 0, mr_next_attempt_at = Some now,
                  mr_created_at = now, mr_updated_at = now\<rparr>
            in (Inr receipt, persist_message_receipt receipt s))"

definition list_message_receipts ::
  "'z receipt_store_scheme \<Rightarrow> string \<Rightarrow> string option \<Rightarrow> message_receipt list" where
  "list_message_receipts s workspace_id conversation_ref =
     sort_key mr_created_at
       (filter (\<lambda>r. mr_workspace_id r = workspace_id \<and>
                    (case conversation_ref of None \<Rightarrow> True | Some c \<Rightarrow> mr_conversation_ref r = c))
          (map snd (message_receipts s)))"

definition list_dispatchable_message_receipts ::
  "time \<Rightarrow> 'z receipt_store_scheme \<Rightarrow> string \<Rightarrow> message_receipt list" where
  "list_dispatchable_message_receipts now s workspace_id =
     filter (\<lambda>r. mr_workspace_id r = workspace_id \<and> mr_state r \<in> {Accepted, Queued, Retryable} \<and>
                 (case mr_next_attempt_at r of None \<Rightarrow> True | Some t \<Rightarrow> t \<le> now))
       (map snd (message_receipts s))"

definition queue_message_receipt ::
  "time \<Rightarrow> string \<Rightarrow> string \<Rightarrow> ('z, message_receipt) receipt_op" where
  "queue_message_receipt now workspace_id request_id s =
     (case load_message_receipt s workspace_id request_id of
        None \<Rightarrow> (Inl (KeyError request_id), s)
      | Some receipt \<Rightarrow>
          if mr_state receipt \<in> {Accepted, Retryable}
          then let receipt = receipt\<lparr>mr_state := Queued, mr_updated_at := now\<rparr>
               in (Inr receipt, persist_message_receipt receipt s)
          else (Inr receipt, s))"

text \<open>
  The back-off \<^verbatim>\<open>min(60.0, max(0.25, 0.25 * 2 ** min(attempt_count, 8)))\<close> seconds, in microseconds.
\<close>

definition retry_delay :: "nat \<Rightarrow> time" where
  "retry_delay attempt_count = min (seconds 60) (max 250000 (250000 * 2 ^ min attempt_count 8))"

definition error_outcome :: "json \<Rightarrow> json" where
  "error_outcome e = JObj [(''error'', e)]"

definition error_code :: "string \<Rightarrow> json" where
  "error_code c = JObj [(''code'', JStr c)]"

text \<open>\<^verbatim>\<open>receipt.claim_token\<close> used as a condition: \<^verbatim>\<open>None\<close> and the empty string are false.\<close>

definition has_claim :: "message_receipt \<Rightarrow> bool" where
  "has_claim r = (case mr_claim_token r of None \<Rightarrow> False | Some t \<Rightarrow> t \<noteq> [])"

definition retry_message_receipt ::
  "time \<Rightarrow> string \<Rightarrow> string \<Rightarrow> json option \<Rightarrow> ('z, message_receipt) receipt_op" where
  "retry_message_receipt now workspace_id request_id reason s =
     (case load_message_receipt s workspace_id request_id of
        None \<Rightarrow> (Inl (KeyError request_id), s)
      | Some receipt \<Rightarrow>
          if terminal_receipt receipt then (Inr receipt, s)
          else if mr_state receipt = InFlight \<and> has_claim receipt then (Inr receipt, s)
          else
            let delay = retry_delay (mr_attempt_count receipt);
                why = (case reason of
                         Some r \<Rightarrow> if truthy r then r else error_code ''driver_unavailable''
                       | None \<Rightarrow> error_code ''driver_unavailable'');
                updated = receipt\<lparr>mr_state := Retryable, mr_next_attempt_at := Some (now + delay),
                            mr_updated_at := now, mr_outcome := Some (error_outcome why)\<rparr>
            in (Inr updated, persist_message_receipt updated s))"

definition interrupt_message_receipt ::
  "time \<Rightarrow> string \<Rightarrow> string \<Rightarrow> ('z, message_receipt) receipt_op" where
  "interrupt_message_receipt now workspace_id request_id s =
     (case load_message_receipt s workspace_id request_id of
        None \<Rightarrow> (Inl (KeyError request_id), s)
      | Some receipt \<Rightarrow>
          if terminal_receipt receipt then (Inr receipt, s)
          else if mr_state receipt = InFlight then (Inr receipt, s)
          else
            let updated = receipt\<lparr>mr_state := Interrupted, mr_claim_token := None,
                  mr_next_attempt_at := None, mr_updated_at := now,
                  mr_outcome := Some (error_outcome (error_code ''user_interrupt''))\<rparr>
            in (Inr updated, persist_message_receipt updated s))"

text \<open>
  \<^verbatim>\<open>claim_message_receipt\<close>. The last guard of the source (\<^verbatim>\<open>invalid_receipt_state\<close>) names exactly
  the four states that remain at that point and is kept as a branch.
\<close>

definition claim_message_receipt ::
  "time \<Rightarrow> string \<Rightarrow> string \<Rightarrow> string \<Rightarrow> string option \<Rightarrow> ('z, message_receipt) receipt_op" where
  "claim_message_receipt now workspace_id request_id claim_token conversation_ref s =
     (case load_message_receipt s workspace_id request_id of
        None \<Rightarrow> (Inl (KeyError request_id), s)
      | Some receipt \<Rightarrow>
          if conversation_ref \<noteq> None \<and> conversation_ref \<noteq> Some (mr_conversation_ref receipt)
          then (Inl (ValueError ''request_id_reused''), s)
          else if terminal_receipt receipt then (Inr receipt, s)
          else if mr_state receipt = InFlight then (Inr receipt, s)
          else if mr_state receipt \<notin> {Accepted, Queued, Retryable, InFlight}
          then (Inl (ValueError ''invalid_receipt_state''), s)
          else
            let updated = receipt\<lparr>mr_state := InFlight, mr_claim_token := Some claim_token,
                  mr_attempt_count := mr_attempt_count receipt + 1,
                  mr_next_attempt_at := None, mr_updated_at := now\<rparr>
            in (Inr updated, persist_message_receipt updated s))"

text \<open>
  \<^verbatim>\<open>update_message_receipt\<close>: the \<^verbatim>\<open>updates\<close> dictionary and the \<^verbatim>\<open>model_copy\<close> that applies it are
  \<open>updated_receipt\<close>.
\<close>

definition updated_receipt ::
  "time \<Rightarrow> receipt_state \<Rightarrow> string option \<Rightarrow> string option \<Rightarrow> json option \<Rightarrow> message_receipt \<Rightarrow> message_receipt" where
  "updated_receipt now new_state assistant_text run_id outcome r =
     r\<lparr>mr_state := new_state, mr_updated_at := now,
       mr_assistant_text := (if assistant_text \<noteq> None then assistant_text else mr_assistant_text r),
       mr_run_id := (if run_id \<noteq> None then run_id else mr_run_id r),
       mr_outcome := (if outcome \<noteq> None then outcome else mr_outcome r),
       mr_claim_token := (if new_state \<in> {Completed, Failed, Interrupted, Retryable} then None
                          else mr_claim_token r),
       mr_next_attempt_at := (if new_state = Retryable then Some now else mr_next_attempt_at r)\<rparr>"

definition update_message_receipt ::
  "time \<Rightarrow> string \<Rightarrow> string \<Rightarrow> string \<Rightarrow> receipt_state option \<Rightarrow> string option \<Rightarrow> string option \<Rightarrow>
   json option \<Rightarrow> ('z, message_receipt) receipt_op" where
  "update_message_receipt now workspace_id request_id claim_token new assistant_text run_id outcome s =
     (case load_message_receipt s workspace_id request_id of
        None \<Rightarrow> (Inl (KeyError request_id), s)
      | Some receipt \<Rightarrow>
          if terminal_receipt receipt
          then (if new = None \<or> new = Some (mr_state receipt) then (Inr receipt, s)
                else (Inl (ValueError ''receipt_terminal''), s))
          else if mr_claim_token receipt \<noteq> Some claim_token
          then (Inl (ValueError ''stale_claim_token''), s)
          else
            let new_state = (case new of None \<Rightarrow> mr_state receipt | Some st \<Rightarrow> st) in
            if new_state \<notin> {InFlight, Completed, Failed, Interrupted, Retryable}
            then (Inl (ValueError ''invalid_receipt_transition''), s)
            else
              let updated = updated_receipt now new_state assistant_text run_id outcome receipt
              in (Inr updated, persist_message_receipt updated s))"

definition release_message_receipt ::
  "time \<Rightarrow> string \<Rightarrow> string \<Rightarrow> string \<Rightarrow> ('z, message_receipt) receipt_op" where
  "release_message_receipt now workspace_id request_id claim_token s =
     update_message_receipt now workspace_id request_id claim_token (Some Retryable) None None
       (Some (error_outcome (error_code ''delivery_released''))) s"

text \<open>
  \<^verbatim>\<open>recover_message_receipts_for_driver\<close>: every in-flight claim of the workspace is fenced. The
  loop stores into \<^verbatim>\<open>self.message_receipts\<close> directly and records no receipt event.
\<close>

definition fence_receipt :: "time \<Rightarrow> message_receipt \<Rightarrow> message_receipt" where
  "fence_receipt now r = r\<lparr>mr_state := Retryable, mr_claim_token := None,
     mr_next_attempt_at := Some now, mr_updated_at := now\<rparr>"

definition fenced_by :: "string \<Rightarrow> message_receipt \<Rightarrow> bool" where
  "fenced_by workspace_id r = (mr_workspace_id r = workspace_id \<and> mr_state r = InFlight)"

definition recover_message_receipts_for_driver ::
  "time \<Rightarrow> string \<Rightarrow> 'z receipt_store_scheme \<Rightarrow> nat \<times> 'z receipt_store_scheme" where
  "recover_message_receipts_for_driver now workspace_id s =
     (length (filter (\<lambda>(k, r). fenced_by workspace_id r) (message_receipts s)),
      s\<lparr>message_receipts :=
          dict_rewrite (\<lambda>k r. fenced_by workspace_id r) (fence_receipt now) (message_receipts s)\<rparr>)"

text \<open>\<^verbatim>\<open>str(exc)\<close> of an exception.\<close>

fun error_message :: "py_error \<Rightarrow> string" where
  "error_message (ValueError m) = m"
| "error_message (KeyError m) = CHR 0x27 # m @ [CHR 0x27]"
| "error_message (TypeError m) = m"
| "error_message (FileNotFoundError m) = m"
| "error_message (ValidationError m) = m"
| "error_message (RuntimeError m) = m"
| "error_message (DomainError m d) = m"
| "error_message (ClientError m) = m"
| "error_message (AttributeError m) = m"

text \<open>
  \<^verbatim>\<open>ObserverMessageDispatcher._deliver\<close>. The gateway is the Driver behind an HTTP call: an
  argument that may act on the store (the Driver claims and updates receipts while the call is
  open) and either returns or raises.
\<close>

definition deliver ::
  "('z receipt_store_scheme \<Rightarrow> message_receipt \<Rightarrow> unit result \<times> 'z receipt_store_scheme) \<Rightarrow>
   time \<Rightarrow> time \<Rightarrow> message_receipt \<Rightarrow> ('z, unit) receipt_op" where
  "deliver gateway_forward t1 t2 receipt s =
     (case queue_message_receipt t1 (mr_workspace_id receipt) (mr_request_id receipt) s of
        (Inl e, s1) \<Rightarrow> (Inl e, s1)
      | (Inr queued, s1) \<Rightarrow>
          (case gateway_forward s1 queued of
             (Inr _, s2) \<Rightarrow>
               (case load_message_receipt s2 (mr_workspace_id queued) (mr_request_id queued) of
                  Some current \<Rightarrow>
                    if mr_state current = Queued
                    then map_prod (map_sum id (\<lambda>_. ())) id
                           (retry_message_receipt t2 (mr_workspace_id queued) (mr_request_id queued)
                              (Some (error_code ''driver_did_not_claim'')) s2)
                    else (Inr (), s2)
                | None \<Rightarrow> (Inr (), s2))
           | (Inl e, s2) \<Rightarrow>
               (case load_message_receipt s2 (mr_workspace_id queued) (mr_request_id queued) of
                  Some current \<Rightarrow>
                    if mr_state current \<noteq> InFlight
                    then map_prod (map_sum id (\<lambda>_. ())) id
                           (retry_message_receipt t2 (mr_workspace_id queued) (mr_request_id queued)
                              (Some (JObj [(''code'', JStr ''driver_unavailable''),
                                           (''message'', JStr (take 512 (error_message e)))])) s2)
                    else (Inr (), s2)
                | None \<Rightarrow> (Inr (), s2))))"

section \<open>Well-formed receipts and the contract of an operation\<close>

definition receipt_wf :: "message_receipt \<Rightarrow> bool" where
  "receipt_wf r =
     ((mr_state r = InFlight \<longrightarrow> mr_claim_token r \<noteq> None) \<and>
      (has_claim r \<longrightarrow> mr_state r = InFlight) \<and>
      (terminal_receipt r \<longrightarrow> mr_claim_token r = None))"

definition receipt_store_wf :: "'z receipt_store_scheme \<Rightarrow> bool" where
  "receipt_store_wf s =
     (dict_wf (message_receipts s) \<and>
      (\<forall>(k, r) \<in> set (message_receipts s).
         k = (mr_workspace_id r, mr_request_id r) \<and> receipt_wf r))"

text \<open>What one operation may do to the receipt it is called for.\<close>

definition same_receipt :: "message_receipt \<Rightarrow> message_receipt \<Rightarrow> bool" where
  "same_receipt r r' =
     (mr_workspace_id r' = mr_workspace_id r \<and> mr_request_id r' = mr_request_id r \<and>
      mr_conversation_ref r' = mr_conversation_ref r \<and> mr_prompt r' = mr_prompt r \<and>
      mr_created_at r' = mr_created_at r)"

definition receipt_next :: "message_receipt \<Rightarrow> message_receipt \<Rightarrow> bool" where
  "receipt_next r r' =
     (\<not> terminal_receipt r \<and> same_receipt r r' \<and>
      mr_attempt_count r \<le> mr_attempt_count r' \<and> (receipt_wf r \<longrightarrow> receipt_wf r'))"

lemma same_receipt_refl [simp]: "same_receipt r r"
  by (simp add: same_receipt_def)

lemma same_receipt_trans: "same_receipt a b \<Longrightarrow> same_receipt b c \<Longrightarrow> same_receipt a c"
  by (simp add: same_receipt_def)

lemma message_receipts_persist [simp]:
  "message_receipts (persist_message_receipt r s) =
     AList.update (mr_workspace_id r, mr_request_id r) r (message_receipts s)"
  by (simp add: persist_message_receipt_def record_message_receipt_event_def Let_def)

lemma receipt_store_wf_lookup:
  assumes "receipt_store_wf s" and "map_of (message_receipts s) k = Some r"
  shows "k = (mr_workspace_id r, mr_request_id r)" and "receipt_wf r"
  using assms map_of_SomeD [OF assms(2)] by (auto simp: receipt_store_wf_def)

lemma receipt_store_wf_persist:
  assumes "receipt_store_wf s" and "receipt_wf r"
  shows "receipt_store_wf (persist_message_receipt r s)"
  using assms by (auto simp: receipt_store_wf_def distinct_update dest!: dict_set_mem)

text \<open>
  The contract shared by the operations on one receipt: nothing happens, or the receipt at \<open>key\<close>
  is not terminal and is replaced by a successor through \<^verbatim>\<open>_persist_message_receipt\<close>.
\<close>

definition receipt_effect :: "receipt_key \<Rightarrow> 'z receipt_store_scheme \<Rightarrow> 'z receipt_store_scheme \<Rightarrow> bool" where
  "receipt_effect key s s' =
     (s' = s \<or>
      (\<exists>r r'. map_of (message_receipts s) key = Some r \<and> receipt_next r r' \<and>
              s' = persist_message_receipt r' s))"

lemma receipt_effect_refl [simp, intro]: "receipt_effect key s s"
  by (simp add: receipt_effect_def)

lemma receipt_effect_persist [intro]:
  "map_of (message_receipts s) key = Some r \<Longrightarrow> receipt_next r r' \<Longrightarrow>
   receipt_effect key s (persist_message_receipt r' s)"
  by (auto simp: receipt_effect_def)

locale receipt_operation =
  fixes opn :: "('z, 'a) receipt_op" and key :: receipt_key
  assumes effect: "receipt_effect key s (snd (opn s))"
begin

lemma keeps_wf:
  assumes wf: "receipt_store_wf s"
  shows "receipt_store_wf (snd (opn s))"
  using effect [of s] wf unfolding receipt_effect_def
  by (metis receipt_next_def receipt_store_wf_lookup(2) receipt_store_wf_persist)

lemma lookup_after:
  assumes wf: "receipt_store_wf s" and r: "map_of (message_receipts s) k = Some r"
  shows "\<exists>r'. map_of (message_receipts (snd (opn s))) k = Some r' \<and> (r' = r \<or> (k = key \<and> receipt_next r r'))"
proof (cases "snd (opn s) = s")
  case True
  with r show ?thesis by simp
next
  case False
  then obtain q q' where q: "map_of (message_receipts s) key = Some q" "receipt_next q q'"
    and eq: "snd (opn s) = persist_message_receipt q' s"
    using effect [of s] unfolding receipt_effect_def by blast
  have "key = (mr_workspace_id q', mr_request_id q')"
    using receipt_store_wf_lookup(1) [OF wf q(1)] q(2) by (simp add: receipt_next_def same_receipt_def)
  with q r show ?thesis by (auto simp: eq)
qed

lemma terminal_kept:
  assumes "receipt_store_wf s" and "map_of (message_receipts s) k = Some r" and "terminal_receipt r"
  shows "map_of (message_receipts (snd (opn s))) k = Some r"
  using lookup_after [OF assms(1,2)] assms(3) by (auto simp: receipt_next_def)

lemma identity_kept:
  assumes "receipt_store_wf s" and "map_of (message_receipts s) k = Some r"
  shows "\<exists>r'. map_of (message_receipts (snd (opn s))) k = Some r' \<and> same_receipt r r' \<and>
              mr_attempt_count r \<le> mr_attempt_count r'"
  using lookup_after [OF assms] by (auto simp: receipt_next_def)

end

text \<open>Each operation of the repository meets the contract.\<close>

lemmas receipt_defs = load_message_receipt_def receipt_next_def same_receipt_def receipt_wf_def
  has_claim_def terminal_receipt_def

lemma queue_effect: "receipt_effect (ws, rid) s (snd (queue_message_receipt now ws rid s))"
  by (auto simp: queue_message_receipt_def receipt_defs Let_def split: option.split
      intro!: receipt_effect_persist)

lemma retry_effect: "receipt_effect (ws, rid) s (snd (retry_message_receipt now ws rid why s))"
  by (auto simp: retry_message_receipt_def receipt_defs Let_def split: option.split
      intro!: receipt_effect_persist)

lemma interrupt_effect: "receipt_effect (ws, rid) s (snd (interrupt_message_receipt now ws rid s))"
  by (auto simp: interrupt_message_receipt_def receipt_defs Let_def split: option.split
      intro!: receipt_effect_persist)

lemma claim_effect: "receipt_effect (ws, rid) s (snd (claim_message_receipt now ws rid tok conv s))"
  by (auto simp: claim_message_receipt_def receipt_defs Let_def split: option.split
      intro!: receipt_effect_persist)

lemma updated_receipt_next:
  assumes "\<not> terminal_receipt r" and "mr_claim_token r = Some tok"
    and "st \<in> {InFlight, Completed, Failed, Interrupted, Retryable}"
  shows "receipt_next r (updated_receipt now st atx rn oc r)"
  using assms by (auto simp: receipt_next_def same_receipt_def receipt_wf_def has_claim_def
      terminal_receipt_def updated_receipt_def)

lemma update_effect:
  "receipt_effect (ws, rid) s (snd (update_message_receipt now ws rid tok new atx rn oc s))"
  by (auto simp: update_message_receipt_def load_message_receipt_def Let_def split: option.split
      intro!: receipt_effect_persist updated_receipt_next)

interpretation queue: receipt_operation "queue_message_receipt now ws rid" "(ws, rid)" for now ws rid
  by unfold_locales (rule queue_effect)

interpretation retry: receipt_operation "retry_message_receipt now ws rid why" "(ws, rid)" for now ws rid why
  by unfold_locales (rule retry_effect)

interpretation interrupt: receipt_operation "interrupt_message_receipt now ws rid" "(ws, rid)" for now ws rid
  by unfold_locales (rule interrupt_effect)

interpretation claim: receipt_operation "claim_message_receipt now ws rid tok conv" "(ws, rid)"
  for now ws rid tok conv
  by unfold_locales (rule claim_effect)

interpretation update: receipt_operation "update_message_receipt now ws rid tok new atx rn oc" "(ws, rid)"
  for now ws rid tok new atx rn oc
  by unfold_locales (rule update_effect)

interpretation release: receipt_operation "release_message_receipt now ws rid tok" "(ws, rid)" for now ws rid tok
  by unfold_locales (simp add: release_message_receipt_def update_effect)

section \<open>Runs of the receipt store\<close>

text \<open>
  One step is one locked method call by any caller: the API, the dispatcher, the Driver or the
  registration of a new Driver.
\<close>

inductive receipt_step :: "'z receipt_store_scheme \<Rightarrow> 'z receipt_store_scheme \<Rightarrow> bool" where
  rs_create: "receipt_step s (snd (create_or_get_message_receipt now ws rid conv prompt s))"
| rs_queue: "receipt_step s (snd (queue_message_receipt now ws rid s))"
| rs_retry: "receipt_step s (snd (retry_message_receipt now ws rid why s))"
| rs_interrupt: "receipt_step s (snd (interrupt_message_receipt now ws rid s))"
| rs_claim: "receipt_step s (snd (claim_message_receipt now ws rid tok opt_conv s))"
| rs_update: "receipt_step s (snd (update_message_receipt now ws rid tok new atx rn oc s))"
| rs_release: "receipt_step s (snd (release_message_receipt now ws rid tok s))"
| rs_recover: "receipt_step s (snd (recover_message_receipts_for_driver now ws s))"

lemma create_wf:
  assumes "receipt_store_wf s"
  shows "receipt_store_wf (snd (create_or_get_message_receipt now ws rid conv prompt s))"
  using assms
  by (auto simp: create_or_get_message_receipt_def Let_def receipt_wf_def has_claim_def terminal_receipt_def
      split: option.split intro!: receipt_store_wf_persist)

lemma create_lookup:
  assumes "map_of (message_receipts s) k = Some r"
  shows "map_of (message_receipts (snd (create_or_get_message_receipt now ws rid conv prompt s))) k = Some r"
  using assms by (auto simp: create_or_get_message_receipt_def load_message_receipt_def Let_def
      split: option.split)

lemma fence_next: "fenced_by ws r \<Longrightarrow> receipt_next r (fence_receipt now r)"
  by (auto simp: fenced_by_def fence_receipt_def receipt_next_def same_receipt_def receipt_wf_def
      has_claim_def terminal_receipt_def)

lemma recover_wf:
  assumes wf: "receipt_store_wf s"
  shows "receipt_store_wf (snd (recover_message_receipts_for_driver now ws s))"
proof -
  have "k = (mr_workspace_id r, mr_request_id r) \<and> receipt_wf r"
    if "(k, r) \<in> set (dict_rewrite (\<lambda>k. fenced_by ws) (fence_receipt now) (message_receipts s))" for k r
    using that
  proof (rule dict_rewrite_mem)
    fix r0
    assume "(k, r0) \<in> set (message_receipts s)" and r: "r = (if fenced_by ws r0 then fence_receipt now r0 else r0)"
    with wf have "k = (mr_workspace_id r0, mr_request_id r0)" and "receipt_wf r0"
      by (auto simp: receipt_store_wf_def)
    with r fence_next [of ws r0 now] show ?thesis
      by (simp add: receipt_next_def same_receipt_def split: if_splits)
  qed
  with wf show ?thesis
    by (auto simp: receipt_store_wf_def recover_message_receipts_for_driver_def)
qed

lemma recover_lookup:
  assumes "map_of (message_receipts s) k = Some r"
  shows "map_of (message_receipts (snd (recover_message_receipts_for_driver now ws s))) k =
           Some (if fenced_by ws r then fence_receipt now r else r)"
  using assms by (simp add: recover_message_receipts_for_driver_def map_of_dict_rewrite)

lemmas receipt_op_wf = queue.keeps_wf retry.keeps_wf interrupt.keeps_wf claim.keeps_wf update.keeps_wf
  release.keeps_wf create_wf recover_wf

lemma receipt_step_wf: "receipt_step s t \<Longrightarrow> receipt_store_wf s \<Longrightarrow> receipt_store_wf t"
  by (induction rule: receipt_step.induct) (auto intro: receipt_op_wf)

lemma receipt_step_lookup:
  assumes "receipt_step s t" and "receipt_store_wf s" and "map_of (message_receipts s) k = Some r"
  shows "\<exists>r'. map_of (message_receipts t) k = Some r' \<and> (r' = r \<or> receipt_next r r')"
  using assms
proof (induction rule: receipt_step.induct)
  case (rs_recover s now ws)
  then show ?case using recover_lookup [of s k r now ws] fence_next [of ws r now] by auto
next
  case (rs_create s now ws rid conv prompt)
  then show ?case using create_lookup by blast
next
  case (rs_queue s now ws rid)
  then show ?case using queue.lookup_after by meson
next
  case (rs_retry s now ws rid why)
  then show ?case using retry.lookup_after by meson
next
  case (rs_interrupt s now ws rid)
  then show ?case using interrupt.lookup_after by meson
next
  case (rs_claim s now ws rid tok opt_conv)
  then show ?case using claim.lookup_after by meson
next
  case (rs_update s now ws rid tok new atx rn oc)
  then show ?case using update.lookup_after by meson
next
  case (rs_release s now ws rid tok)
  then show ?case using release.lookup_after by meson
qed

definition receipt_init :: "'z receipt_store_scheme \<Rightarrow> bool" where
  "receipt_init s = (message_receipts s = [] \<and> message_receipt_events s = [])"

lemma receipt_run_wf: "receipt_step\<^sup>*\<^sup>* s t \<Longrightarrow> receipt_store_wf s \<Longrightarrow> receipt_store_wf t"
  by (induction rule: rtranclp_induct) (auto intro: receipt_step_wf)

lemma receipt_init_wf: "receipt_init s \<Longrightarrow> receipt_store_wf s"
  by (simp add: receipt_init_def receipt_store_wf_def)

lemma receipt_run_terminal:
  assumes "receipt_step\<^sup>*\<^sup>* s t" and "receipt_store_wf s"
    and "map_of (message_receipts s) k = Some r" and "terminal_receipt r"
  shows "map_of (message_receipts t) k = Some r"
  using assms
proof (induction rule: rtranclp_induct)
  case (step t u)
  then have "map_of (message_receipts t) k = Some r" and "receipt_store_wf t"
    by (auto intro: receipt_run_wf)
  then show ?case
    using receipt_step_lookup [OF step.hyps(2), of k r] step.prems(3) by (auto simp: receipt_next_def)
qed auto

lemma receipt_run_identity:
  assumes "receipt_step\<^sup>*\<^sup>* s t" and "receipt_store_wf s" and "map_of (message_receipts s) k = Some r"
  shows "\<exists>r'. map_of (message_receipts t) k = Some r' \<and> same_receipt r r' \<and>
              mr_attempt_count r \<le> mr_attempt_count r'"
  using assms
proof (induction rule: rtranclp_induct)
  case (step t u)
  then obtain q where q: "map_of (message_receipts t) k = Some q" "same_receipt r q"
      "mr_attempt_count r \<le> mr_attempt_count q" and wf: "receipt_store_wf t"
    using receipt_run_wf by blast
  from receipt_step_lookup [OF step.hyps(2) wf q(1)] q show ?case
    by (fastforce simp: receipt_next_def intro: same_receipt_trans)
qed auto

section \<open>Behaviour of the operations\<close>

lemma retry_delay_bounds: "250000 \<le> retry_delay n" "retry_delay n \<le> seconds 60"
  by (auto simp: retry_delay_def)

lemma retry_delay_mono: "m \<le> n \<Longrightarrow> retry_delay m \<le> retry_delay n"
proof -
  assume "m \<le> n"
  then have "min m 8 \<le> min n 8" by simp
  then have "(2::int) ^ min m 8 \<le> 2 ^ min n 8" by (intro power_increasing) simp_all
  then show ?thesis unfolding retry_delay_def by (intro min.mono max.mono mult_left_mono) simp_all
qed

lemma claim_first:
  assumes "load_message_receipt s ws rid = Some r" and "mr_state r \<in> {Accepted, Queued, Retryable}"
    and "conv = None \<or> conv = Some (mr_conversation_ref r)"
  shows "claim_message_receipt now ws rid tok conv s =
    (let r' = r\<lparr>mr_state := InFlight, mr_claim_token := Some tok,
               mr_attempt_count := mr_attempt_count r + 1, mr_next_attempt_at := None, mr_updated_at := now\<rparr>
     in (Inr r', persist_message_receipt r' s))"
  using assms by (auto simp: claim_message_receipt_def terminal_receipt_def Let_def)

lemma load_persist:
  assumes "receipt_store_wf s" and "load_message_receipt s ws rid = Some r" and "same_receipt r r'"
  shows "load_message_receipt (persist_message_receipt r' s) ws rid = Some r'"
  using assms receipt_store_wf_lookup(1) [OF assms(1), of "(ws, rid)" r]
  by (auto simp: load_message_receipt_def same_receipt_def)

lemma claim_held:
  assumes "load_message_receipt s ws rid = Some r" and "mr_state r = InFlight"
    and "conv = None \<or> conv = Some (mr_conversation_ref r)"
  shows "claim_message_receipt now ws rid tok conv s = (Inr r, s)"
  using assms by (auto simp: claim_message_receipt_def terminal_receipt_def)

lemma update_stale:
  assumes "load_message_receipt s ws rid = Some r" and "\<not> terminal_receipt r" and "mr_claim_token r \<noteq> Some tok"
  shows "update_message_receipt now ws rid tok new atx rn oc s = (Inl (ValueError ''stale_claim_token''), s)"
  using assms by (simp add: update_message_receipt_def)

lemma retry_not_queued:
  assumes "receipt_store_wf s" and "load_message_receipt s ws rid = Some r" and "mr_state r \<noteq> InFlight"
  shows "\<exists>r'. load_message_receipt (snd (retry_message_receipt now ws rid why s)) ws rid = Some r' \<and>
              mr_state r' \<noteq> Queued \<and> mr_state r' \<noteq> Accepted"
proof (cases "terminal_receipt r")
  case True
  with assms show ?thesis by (auto simp: retry_message_receipt_def terminal_receipt_def)
next
  case False
  with assms show ?thesis
    by (auto simp: retry_message_receipt_def Let_def same_receipt_def intro!: load_persist exI)
qed

section \<open>Properties\<close>

text \<open>A concrete store for the witnesses: create, claim, complete, then fence.\<close>

definition demo_r0 :: receipt_store where
  "demo_r0 = \<lparr>message_receipts = [], message_receipt_events = []\<rparr>"
definition demo_r1 :: receipt_store where
  "demo_r1 = snd (create_or_get_message_receipt 1 ''w'' ''q'' ''c'' ''hi'' demo_r0)"
definition demo_r2 :: receipt_store where
  "demo_r2 = snd (claim_message_receipt 2 ''w'' ''q'' ''t'' None demo_r1)"
definition demo_r3 :: receipt_store where
  "demo_r3 = snd (update_message_receipt 3 ''w'' ''q'' ''t'' (Some Completed) None None None demo_r2)"
definition demo_r4 :: receipt_store where
  "demo_r4 = snd (recover_message_receipts_for_driver 4 ''w'' demo_r3)"

lemmas receipt_eval = create_or_get_message_receipt_def claim_message_receipt_def
  update_message_receipt_def updated_receipt_def recover_message_receipts_for_driver_def
  load_message_receipt_def persist_message_receipt_def record_message_receipt_event_def
  dict_rewrite_def fenced_by_def terminal_receipt_def receipt_init_def Let_def
  demo_r0_def demo_r1_def demo_r2_def demo_r3_def demo_r4_def

lemma demo_receipts_run:
  "receipt_step\<^sup>*\<^sup>* demo_r0 demo_r3" "receipt_step\<^sup>*\<^sup>* demo_r3 demo_r4"
proof -
  have "receipt_step demo_r0 demo_r1" unfolding demo_r1_def by (rule rs_create)
  moreover have "receipt_step demo_r1 demo_r2" unfolding demo_r2_def by (rule rs_claim)
  moreover have "receipt_step demo_r2 demo_r3" unfolding demo_r3_def by (rule rs_update)
  ultimately show "receipt_step\<^sup>*\<^sup>* demo_r0 demo_r3"
    by (blast intro: converse_rtranclp_into_rtranclp)
  have "receipt_step demo_r3 demo_r4" unfolding demo_r4_def by (rule rs_recover)
  then show "receipt_step\<^sup>*\<^sup>* demo_r3 demo_r4" by blast
qed

lemma demo_r1_wf: "receipt_store_wf demo_r1"
  by (simp add: receipt_eval receipt_store_wf_def receipt_wf_def has_claim_def)

text \<open>
  In every store reached from the empty one by any sequence of receipt calls, a receipt
  is stored under its own (workspace, request) key, an in-flight receipt carries a claim token, a
  receipt with a non-empty claim token is in flight, and a terminal receipt carries no token.
\<close>

theorem receipt_invariant:
  assumes "receipt_init s0" and "receipt_step\<^sup>*\<^sup>* s0 s"
  shows "receipt_store_wf s"
  using assms by (blast intro: receipt_run_wf receipt_init_wf)

theorem receipt_invariant_witness: "receipt_store_wf demo_r3"
  by (rule receipt_invariant [OF _ demo_receipts_run(1)]) (simp add: receipt_eval)

text \<open>
  Once a receipt is completed, failed or interrupted, no later sequence of receipt calls
  changes it in any field: a late retry, claim, update or Driver recovery cannot resurrect it.
\<close>

theorem receipt_terminal_absorbing:
  assumes "receipt_init s0" and "receipt_step\<^sup>*\<^sup>* s0 s" and "receipt_step\<^sup>*\<^sup>* s t"
    and "map_of (message_receipts s) k = Some r" and "terminal_receipt r"
  shows "map_of (message_receipts t) k = Some r"
  using assms by (blast intro: receipt_run_terminal receipt_run_wf receipt_init_wf)

theorem receipt_terminal_absorbing_witness:
  "\<exists>r. map_of (message_receipts demo_r4) (''w'', ''q'') = Some r \<and> mr_state r = Completed"
proof -
  obtain r where r: "map_of (message_receipts demo_r3) (''w'', ''q'') = Some r" "mr_state r = Completed"
    by (simp add: receipt_eval)
  have "map_of (message_receipts demo_r4) (''w'', ''q'') = Some r"
    by (rule receipt_terminal_absorbing [OF _ demo_receipts_run r(1)])
      (simp_all add: r(2) terminal_receipt_def receipt_init_def demo_r0_def)
  with r(2) show ?thesis by blast
qed

text \<open>
  Claim C31. A dispatchable receipt is claimed by exactly one token: the first claim puts it in
  flight under its token and counts one attempt; a second claim returns that same receipt and
  changes nothing; an update under another token is rejected as stale and changes nothing.
\<close>

theorem receipt_claim_exclusive:
  assumes wf: "receipt_store_wf s"
    and r: "load_message_receipt s ws rid = Some r" and st: "mr_state r \<in> {Accepted, Queued, Retryable}"
    and other: "tok2 \<noteq> tok"
  shows "\<exists>r1 s1. claim_message_receipt now ws rid tok None s = (Inr r1, s1) \<and>
           mr_state r1 = InFlight \<and> mr_claim_token r1 = Some tok \<and>
           mr_attempt_count r1 = mr_attempt_count r + 1 \<and>
           claim_message_receipt now2 ws rid tok2 None s1 = (Inr r1, s1) \<and>
           update_message_receipt now2 ws rid tok2 new atx rn oc s1 = (Inl (ValueError ''stale_claim_token''), s1)"
proof -
  let ?r1 = "r\<lparr>mr_state := InFlight, mr_claim_token := Some tok,
               mr_attempt_count := mr_attempt_count r + 1, mr_next_attempt_at := None, mr_updated_at := now\<rparr>"
  let ?s1 = "persist_message_receipt ?r1 s"
  have load1: "load_message_receipt ?s1 ws rid = Some ?r1"
    by (rule load_persist [OF wf r]) (simp add: same_receipt_def)
  have "claim_message_receipt now ws rid tok None s = (Inr ?r1, ?s1)"
    using claim_first [OF r st] by (simp add: Let_def)
  moreover have "claim_message_receipt now2 ws rid tok2 None ?s1 = (Inr ?r1, ?s1)"
    by (rule claim_held [OF load1]) simp_all
  moreover have "update_message_receipt now2 ws rid tok2 new atx rn oc ?s1 = (Inl (ValueError ''stale_claim_token''), ?s1)"
    by (rule update_stale [OF load1]) (use other in \<open>auto simp: terminal_receipt_def\<close>)
  ultimately show ?thesis by force
qed

theorem receipt_claim_exclusive_witness:
  "\<exists>r1 s1. claim_message_receipt 2 ''w'' ''q'' ''t'' None demo_r1 = (Inr r1, s1) \<and>
     claim_message_receipt 3 ''w'' ''q'' ''u'' None s1 = (Inr r1, s1)"
proof -
  obtain r where r: "load_message_receipt demo_r1 ''w'' ''q'' = Some r" "mr_state r = Accepted"
    by (simp add: receipt_eval)
  show ?thesis
    using receipt_claim_exclusive [OF demo_r1_wf r(1), of "''u''" "''t''" 2 3 None None None None] r(2) by auto
qed

text \<open>
  A retried receipt waits at least a quarter of a second and at most a minute, and no
  receipt with more attempts waits less: the retry reschedules at exactly the clock reading plus
  a delay within these bounds, and the delay grows with the number of attempts.
\<close>

theorem receipt_backoff:
  assumes "load_message_receipt s ws rid = Some r" and "mr_state r \<in> {Accepted, Queued, Retryable}"
  shows "\<exists>r' s' d. retry_message_receipt now ws rid why s = (Inr r', s') \<and> mr_state r' = Retryable \<and>
           mr_next_attempt_at r' = Some (now + d) \<and> 250000 \<le> d \<and> d \<le> seconds 60 \<and>
           (\<forall>n. mr_attempt_count r \<le> n \<longrightarrow> d \<le> retry_delay n)"
  using assms retry_delay_bounds [of "mr_attempt_count r"] retry_delay_mono [of "mr_attempt_count r"]
  by (auto simp: retry_message_receipt_def terminal_receipt_def Let_def)

theorem receipt_backoff_witness:
  "\<exists>r' s' d. retry_message_receipt 9 ''w'' ''q'' None demo_r1 = (Inr r', s') \<and>
     mr_next_attempt_at r' = Some (9 + d) \<and> 250000 \<le> d"
proof -
  obtain r where r: "load_message_receipt demo_r1 ''w'' ''q'' = Some r" "mr_state r = Accepted"
    by (simp add: receipt_eval)
  show ?thesis using receipt_backoff [OF r(1), of 9 None] r(2) by auto
qed

text \<open>
  When a new Driver registers, every in-flight receipt of the workspace becomes retryable
  at once and loses its token, so an update from the previous Driver is rejected as stale; receipts
  of other workspaces and receipts in other states are untouched. The recovery records no receipt
  event for these state changes, although every other state change of a receipt is recorded.
\<close>

theorem receipt_recovery_fences:
  assumes "load_message_receipt s ws rid = Some r" and "mr_workspace_id r = ws"
  shows "let s' = snd (recover_message_receipts_for_driver now ws s) in
    load_message_receipt s' ws rid =
      Some (if mr_state r = InFlight
            then r\<lparr>mr_state := Retryable, mr_claim_token := None, mr_next_attempt_at := Some now, mr_updated_at := now\<rparr>
            else r) \<and>
    (mr_state r = InFlight \<longrightarrow>
       update_message_receipt now2 ws rid tok new atx rn oc s' = (Inl (ValueError ''stale_claim_token''), s')) \<and>
    message_receipt_events s' = message_receipt_events s"
proof -
  let ?s' = "snd (recover_message_receipts_for_driver now ws s)"
  have load: "load_message_receipt ?s' ws rid = Some (if fenced_by ws r then fence_receipt now r else r)"
    using assms by (simp add: load_message_receipt_def recover_lookup)
  have "update_message_receipt now2 ws rid tok new atx rn oc ?s' = (Inl (ValueError ''stale_claim_token''), ?s')"
    if "mr_state r = InFlight"
    by (rule update_stale [OF load]) (use that assms in \<open>auto simp: fenced_by_def fence_receipt_def terminal_receipt_def\<close>)
  then show ?thesis
    using load assms by (simp add: Let_def fenced_by_def fence_receipt_def recover_message_receipts_for_driver_def)
qed

theorem receipt_recovery_fences_witness:
  "\<exists>s'. snd (recover_message_receipts_for_driver 9 ''w'' demo_r2) = s' \<and>
     update_message_receipt 10 ''w'' ''q'' ''t'' (Some Completed) None None None s' =
       (Inl (ValueError ''stale_claim_token''), s')"
proof -
  obtain r where r: "load_message_receipt demo_r2 ''w'' ''q'' = Some r" "mr_state r = InFlight"
    "mr_workspace_id r = ''w''"
    by (simp add: receipt_eval)
  show ?thesis
    using receipt_recovery_fences [OF r(1,3), of 9 10 "''t''" "Some Completed" None None None] r(2)
    by (simp add: Let_def)
qed

text \<open>
  Claim C34. A delivery never leaves its receipt queued: whatever the Driver does during the forward
  and whether the call returns or raises, the receipt is afterwards claimed, retryable or terminal,
  provided the Driver's own calls keep the store well-formed and the receipt present.
\<close>

theorem delivery_never_strands:
  assumes wf: "receipt_store_wf s"
    and r: "load_message_receipt s (mr_workspace_id receipt) (mr_request_id receipt) = Some receipt"
    and gw_wf: "\<And>s1 q. receipt_store_wf s1 \<Longrightarrow> receipt_store_wf (snd (gateway s1 q))"
    and gw_keeps: "\<And>s1 q ws rid. load_message_receipt s1 ws rid \<noteq> None \<Longrightarrow>
                     load_message_receipt (snd (gateway s1 q)) ws rid \<noteq> None"
  shows "\<exists>r'. load_message_receipt (snd (deliver gateway t1 t2 receipt s))
                 (mr_workspace_id receipt) (mr_request_id receipt) = Some r' \<and> mr_state r' \<noteq> Queued"
proof -
  let ?ws = "mr_workspace_id receipt" and ?rid = "mr_request_id receipt"
  obtain q s1 where q: "queue_message_receipt t1 ?ws ?rid s = (Inr q, s1)"
    using r by (cases "mr_state receipt \<in> {Accepted, Retryable}") (auto simp: queue_message_receipt_def Let_def)
  have s1: "receipt_store_wf s1" using queue.keeps_wf [OF wf, of t1 ?ws ?rid] q by simp
  have same: "mr_workspace_id q = ?ws" "mr_request_id q = ?rid" and load1: "load_message_receipt s1 ?ws ?rid = Some q"
    using q r load_persist [OF wf r, of "receipt\<lparr>mr_state := Queued, mr_updated_at := t1\<rparr>"]
    by (auto simp: queue_message_receipt_def Let_def same_receipt_def split: if_splits)
  obtain res s2 where gw: "gateway s1 q = (res, s2)" by fastforce
  have s2: "receipt_store_wf s2" using gw_wf [OF s1, of q] gw by simp
  obtain c where c: "load_message_receipt s2 ?ws ?rid = Some c"
    using gw_keeps [of s1 ?ws ?rid q] load1 gw by auto
  note retried = retry_not_queued [OF s2 c]
  show ?thesis
  proof (cases res)
    case (Inl e)
    then show ?thesis
      using retried by (cases "mr_state c = InFlight") (fastforce simp: deliver_def q gw same c)+
  next
    case (Inr u)
    then show ?thesis
      using retried by (cases "mr_state c = Queued") (fastforce simp: deliver_def q gw same c)+
  qed
qed

theorem delivery_never_strands_witness:
  "\<exists>receipt r'. load_message_receipt
     (snd (deliver (\<lambda>s q. (Inl (RuntimeError ''down''), s)) 5 6 receipt demo_r1)) ''w'' ''q'' = Some r' \<and>
     mr_state r' \<noteq> Queued"
proof -
  obtain r where r: "load_message_receipt demo_r1 ''w'' ''q'' = Some r"
    "mr_workspace_id r = ''w''" "mr_request_id r = ''q''"
    by (simp add: receipt_eval)
  show ?thesis
    using delivery_never_strands [OF demo_r1_wf, of r "\<lambda>s q. (Inl (RuntimeError ''down''), s)" 5 6] r by auto
qed

text \<open>
  Submitting a request again is idempotent: a second submission with the same conversation
  and prompt returns the stored receipt and changes nothing, one with another conversation or prompt
  is rejected as a reused request id and changes nothing.
\<close>

theorem receipt_create_idempotent:
  assumes "create_or_get_message_receipt now ws rid conv prompt s = (Inr r, s1)"
  shows "create_or_get_message_receipt now2 ws rid conv prompt s1 = (Inr r, s1) \<and>
    (conv2 \<noteq> conv \<or> prompt2 \<noteq> prompt \<longrightarrow>
       create_or_get_message_receipt now2 ws rid conv2 prompt2 s1 = (Inl (ValueError ''request_id_reused''), s1))"
proof -
  have "load_message_receipt s1 ws rid = Some r \<and> mr_conversation_ref r = conv \<and> mr_prompt r = prompt"
    using assms by (auto simp: create_or_get_message_receipt_def load_message_receipt_def Let_def
        split: option.splits if_splits)
  then show ?thesis by (auto simp: create_or_get_message_receipt_def)
qed

theorem receipt_create_idempotent_witness:
  "\<exists>r s1. create_or_get_message_receipt 1 ''w'' ''q'' ''c'' ''hi'' demo_r0 = (Inr r, s1) \<and>
     create_or_get_message_receipt 2 ''w'' ''q'' ''c'' ''ho'' s1 = (Inl (ValueError ''request_id_reused''), s1)"
proof -
  obtain r s1 where 1: "create_or_get_message_receipt 1 ''w'' ''q'' ''c'' ''hi'' demo_r0 = (Inr r, s1)"
    by (simp add: receipt_eval)
  show ?thesis using 1 receipt_create_idempotent [OF 1, of 2 "''c''" "''ho''"] by auto
qed

end
