(* ===== verification/Runs.thy ===== *)
theory Runs
  imports Contracts Receipts
begin

text \<open>
  Run records and the Run lifecycle (\<^verbatim>\<open>loom_v2/observer/repository.py\<close>: \<^verbatim>\<open>RunRecord\<close>,
  \<^verbatim>\<open>RUN_TRANSITIONS\<close>, \<^verbatim>\<open>_transition\<close> and the lifecycle methods of \<^verbatim>\<open>ObserverRepository\<close>).

  The event log of a Run is a list of values of \<open>run_event\<close>, one constructor per \<^verbatim>\<open>phase\<close> that the
  sources append, with the keys of that dictionary as arguments. The Run store is the dictionary
  \<^verbatim>\<open>self.runs\<close>; a method that mutates a record in place writes the new record back under its key.
\<close>

section \<open>Data\<close>

datatype run_state =
  Opened | Thinking | Run_Committed | Running | Awaiting_Decision | Run_Completed | Run_Failed | Cancelled | Closed

datatype transition =
    Refinement_Started | Run_Cancelled | Tr_Committed | Tr_Failed | Execution_Started | Run_Succeeded
  | Run_Needs_Decision | Decision_Accepted | Decision_Abandoned | Tr_Closed

datatype attempt_state =
  At_Created | At_Running | At_Completed | At_Failed | At_Decision_Required | At_Lost

text \<open>
  An attempt is a dictionary; \<^verbatim>\<open>start\<close> writes only the first keys, a dispatched node all of them.
  The optional keys are read with \<^verbatim>\<open>get\<close>, so absence is \<open>None\<close>.
\<close>

record attempt =
  at_attempt_id :: string
  at_node_id :: "string option"
  at_target :: string
  at_target_instance_id :: "string option"
  at_target_agent_epoch :: "int option"
  at_state :: attempt_state
  at_execution_epoch :: int
  at_replaces_attempt_id :: "string option"
  at_replaced_by_attempt_id :: "string option"
  at_terminal_error :: json
  at_result_ref :: "resource_ref option"
  at_value :: json
  at_validation_evidence :: "json list"

datatype (plugins del: size lifting transfer quickcheck_random quickcheck_exhaustive
    quickcheck_narrowing quickcheck_full_exhaustive quickcheck_bounded_forall) run_event =
    Ev_Transition transition run_state run_state time "json option"
  | Ev_Opened string time
  | Ev_Message string string string string time "string option"
  | Ev_Readiness_Inspected string string bool "json list" time
  | Ev_Agent_Signal string string dict time
  | Ev_Draft_Patched string string
  | Ev_Packages_Materialized string json
  | Ev_Committed string
  | Ev_Execution_Started "string option" int
  | Ev_Orchestration_Started string "string option" int json dict time
  | Ev_Execution_Result string "string option" string int json json "string option" time
  | Ev_Closed "string option"
  | Ev_Decision_Resolved string run_state time
  | Ev_Recovered string "string option" json "int option" time
  | Ev_Node_Requested string "string option" int string node_intent dict time
  | Ev_Node_Accepted string "string option" int string string resource_ref resource_ref "resource_ref list" string dict time
  | Ev_Node_Dispatched string "string option" int string string string string int resource_ref resource_ref
      "resource_ref list" dict time
  | Ev_Node_Reassigned string "string option" int string string string string string string dict time
  | Ev_Node_Completed string "string option" int string "string option" "string option" resource_ref
      "resource_ref list" "resource_ref option" node_state json "json list" dict time
  | Ev_Orchestration_Failed string "string option" int "string option" json dict time
  | Ev_Orchestration_Decision string "string option" int resource_ref dict time
  | Ev_Orchestration_Completed string "string option" int resource_ref "json list" dict time
  | Ev_Package_Abandoned string "string option" time
  | Ev_Package_Promoted string string string "string option" time
  | Ev_Desired_Changed string string string desired_state nat string time
  | Ev_Health_Report string string string string desired_state nat activation_state "string list" dict time

record run_record =
  rn_run_id :: string
  rn_task_ref :: string
  rn_goal :: string
  rn_draft :: closure_version
  rn_closure_contract :: "closure_contract option"
  rn_allow_reassignment :: bool
  rn_committed :: "closure_version option"
  rn_execution_id :: "string option"
  rn_execution_epoch :: int
  rn_state :: run_state
  rn_outcome :: "dict option"
  rn_events :: "run_event list"
  rn_attempts :: "attempt list"
  rn_capability_packages :: "package_version list"
  rn_capability_activations :: "activation list"
  rn_dynamic_nodes :: "dynamic_node list"

record run_store = receipt_store +
  runs :: "(string \<times> run_record) list"

type_synonym ('z, 'a) run_op = "('z run_store_scheme, 'a) op"

definition log_event :: "run_event \<Rightarrow> run_record \<Rightarrow> run_record" where
  "log_event e r = r\<lparr>rn_events := rn_events r @ [e]\<rparr>"

definition put_run :: "string \<Rightarrow> run_record \<Rightarrow> 'z run_store_scheme \<Rightarrow> 'z run_store_scheme" where
  "put_run run_id r s = s\<lparr>runs := AList.update run_id r (runs s)\<rparr>"

text \<open>\<^verbatim>\<open>_load\<close>, with the continuation of the method that calls it.\<close>

definition with_run :: "string \<Rightarrow> (run_record \<Rightarrow> 'a result \<times> 'z run_store_scheme) \<Rightarrow> ('z, 'a) run_op" where
  "with_run run_id k s =
     (case map_of (runs s) run_id of None \<Rightarrow> (Inl (KeyError run_id), s) | Some r \<Rightarrow> k r)"

section \<open>Transitions\<close>

fun RUN_TRANSITIONS :: "run_state \<Rightarrow> transition \<Rightarrow> run_state option" where
  "RUN_TRANSITIONS Opened Refinement_Started = Some Thinking"
| "RUN_TRANSITIONS Opened Run_Cancelled = Some Cancelled"
| "RUN_TRANSITIONS Thinking Tr_Committed = Some Run_Committed"
| "RUN_TRANSITIONS Thinking Tr_Failed = Some Run_Failed"
| "RUN_TRANSITIONS Thinking Run_Cancelled = Some Cancelled"
| "RUN_TRANSITIONS Run_Committed Execution_Started = Some Running"
| "RUN_TRANSITIONS Run_Committed Run_Cancelled = Some Cancelled"
| "RUN_TRANSITIONS Running Run_Succeeded = Some Run_Completed"
| "RUN_TRANSITIONS Running Run_Needs_Decision = Some Awaiting_Decision"
| "RUN_TRANSITIONS Running Tr_Failed = Some Run_Failed"
| "RUN_TRANSITIONS Running Run_Cancelled = Some Cancelled"
| "RUN_TRANSITIONS Awaiting_Decision Decision_Accepted = Some Run_Completed"
| "RUN_TRANSITIONS Awaiting_Decision Decision_Abandoned = Some Run_Failed"
| "RUN_TRANSITIONS Awaiting_Decision Refinement_Started = Some Thinking"
| "RUN_TRANSITIONS Awaiting_Decision Run_Cancelled = Some Cancelled"
| "RUN_TRANSITIONS Run_Completed Tr_Closed = Some Closed"
| "RUN_TRANSITIONS Run_Failed Tr_Closed = Some Closed"
| "RUN_TRANSITIONS Cancelled Tr_Closed = Some Closed"
| "RUN_TRANSITIONS _ _ = None"

text \<open>\<^verbatim>\<open>record.outcome.get("decision")\<close> where the outcome is a dictionary.\<close>

definition pending_decision :: "run_record \<Rightarrow> json" where
  "pending_decision r = (case rn_outcome r of None \<Rightarrow> JNull | Some d \<Rightarrow> dget d ''decision'')"

definition do_transition :: "time \<Rightarrow> transition \<Rightarrow> json option \<Rightarrow> run_record \<Rightarrow> run_record result" where
  "do_transition now ev reason r =
     (case RUN_TRANSITIONS (rn_state r) ev of
        None \<Rightarrow> Inl (ValueError ''illegal_state_transition'')
      | Some target \<Rightarrow>
          if ev = Refinement_Started \<and> rn_state r = Awaiting_Decision \<and> pending_decision r \<noteq> JStr ''repair''
          then Inl (ValueError ''illegal_state_transition'')
          else if ev = Decision_Accepted \<and> pending_decision r \<noteq> JStr ''attestation''
          then Inl (ValueError ''illegal_state_transition'')
          else Inr (log_event (Ev_Transition ev (rn_state r) target now reason) (r\<lparr>rn_state := target\<rparr>)))"

section \<open>Lifecycle operations\<close>

definition budget_default :: dict where
  "budget_default = [(''max_node_concurrency'', JInt 1)]"

text \<open>
  \<^verbatim>\<open>open_run\<close>. \<open>fresh_run\<close> and \<open>fresh_draft\<close> are the identifiers the method builds from \<^verbatim>\<open>uuid4\<close>.
\<close>

definition open_contract ::
  "string \<Rightarrow> string \<Rightarrow> bool \<Rightarrow> closure_contract option \<Rightarrow> string \<Rightarrow> string \<Rightarrow> closure_contract result" where
  "open_contract task_ref goal allow_reassignment contract user_id workspace_id =
     (case contract of
        None \<Rightarrow> Inr
          \<lparr>cc_closure_id = task_ref, cc_goal = goal, cc_origin_conversation_ref = task_ref,
           cc_user_id = user_id, cc_workspace_id = workspace_id, cc_required_success_criteria = [],
           cc_allowed_effects = [], cc_resource_budget = budget_default,
           cc_recovery_policy = [(''allow_reassignment'', JBool allow_reassignment)],
           cc_result_expectations = [], cc_declared_constraints = [],
           cc_body = minimal_closure task_ref [(''goal'', JStr goal)]\<rparr>
      | Some c \<Rightarrow>
          if cc_goal c \<noteq> goal then Inl (ValueError ''closure_goal_mismatch'')
          else
            let body = cc_body c;
                metadata = (if dhas (tc_metadata body) ''goal'' then tc_metadata body
                            else dset (tc_metadata body) ''goal'' (JStr goal));
                snapshot = body\<lparr>tc_closure_id := cc_closure_id c, tc_metadata := metadata\<rparr>
            in Inr (c\<lparr>cc_origin_conversation_ref := task_ref, cc_user_id := user_id,
                      cc_workspace_id := workspace_id, cc_body := snapshot\<rparr>))"

definition new_run :: "string \<Rightarrow> string \<Rightarrow> string \<Rightarrow> closure_version \<Rightarrow> closure_contract \<Rightarrow> bool \<Rightarrow> run_record" where
  "new_run run_id task_ref goal version contract allow_reassignment =
     \<lparr>rn_run_id = run_id, rn_task_ref = task_ref, rn_goal = goal, rn_draft = version,
      rn_closure_contract = Some contract, rn_allow_reassignment = allow_reassignment,
      rn_committed = None, rn_execution_id = None, rn_execution_epoch = 1, rn_state = Opened,
      rn_outcome = None, rn_events = [], rn_attempts = [], rn_capability_packages = [],
      rn_capability_activations = [], rn_dynamic_nodes = []\<rparr>"

definition open_run ::
  "hashing \<Rightarrow> time \<Rightarrow> string \<Rightarrow> string \<Rightarrow> string option \<Rightarrow> string \<Rightarrow> string \<Rightarrow> bool \<Rightarrow> closure_contract option \<Rightarrow>
   string \<Rightarrow> string \<Rightarrow> ('z, run_record) run_op" where
  "open_run H now fresh_run fresh_draft run_id task_ref goal allow_reassignment contract user_id workspace_id s =
     (let rid = (if nonempty run_id then the run_id else fresh_run) in
      case open_contract task_ref goal allow_reassignment contract user_id workspace_id of
        Inl e \<Rightarrow> (Inl e, s)
      | Inr c \<Rightarrow>
          (case canonical_digest H (cc_body c) of
             Inl e \<Rightarrow> (Inl e, s)
           | Inr d \<Rightarrow>
               let version = \<lparr>cv_version_id = fresh_draft, cv_closure_id = cc_closure_id c,
                     cv_parent_version = None, cv_kind = ''draft'', cv_snapshot = cc_body c,
                     cv_snapshot_digest = d, cv_patch_cursor = 0\<rparr>;
                   r = log_event (Ev_Opened rid now) (new_run rid task_ref goal version c allow_reassignment)
               in (Inr r, put_run rid r s)))"

definition append_message ::
  "time \<Rightarrow> string \<Rightarrow> string \<Rightarrow> string \<Rightarrow> string \<Rightarrow> string option \<Rightarrow> ('z, run_event) run_op" where
  "append_message now fresh_message run_id role content request_id s =
     (if role \<notin> {''user'', ''assistant''} then (Inl (ValueError ''unsupported_message_role''), s)
      else if content = [] then (Inl (ValueError ''empty_message''), s)
      else with_run run_id (\<lambda>r.
        let existing = (if nonempty request_id
              then List.find (\<lambda>e. case e of Ev_Message _ _ _ _ _ q \<Rightarrow> q = request_id | _ \<Rightarrow> False) (rn_events r)
              else None);
            message = Ev_Message fresh_message role content run_id now
                        (if nonempty request_id then request_id else None)
        in case existing of
             Some e \<Rightarrow> (Inr e, s)
           | None \<Rightarrow> (Inr message, put_run run_id (log_event message r) s)) s)"

definition begin_refinement :: "time \<Rightarrow> string \<Rightarrow> ('z, run_record) run_op" where
  "begin_refinement now run_id s = with_run run_id (\<lambda>r.
     if rn_state r = Opened
     then (case do_transition now Refinement_Started None r of
             Inl e \<Rightarrow> (Inl e, s)
           | Inr r' \<Rightarrow> (Inr r', put_run run_id r' s))
     else if rn_state r \<noteq> Thinking then (Inl (ValueError ''illegal_state_transition''), s)
     else (Inr r, s)) s"

definition final_states :: "run_state set" where
  "final_states = {Run_Completed, Closed, Run_Failed, Cancelled}"

definition run_outcome :: "string \<Rightarrow> json \<Rightarrow> json \<Rightarrow> run_record \<Rightarrow> dict" where
  "run_outcome disposition terminal_state reason r =
     [(''disposition'', JStr disposition), (''decision'', JNull), (''terminal_state'', terminal_state),
      (''terminal_error'', reason), (''reason'', reason),
      (''execution_id'', str_or_null (rn_execution_id r)), (''execution_epoch'', JInt (rn_execution_epoch r))]"

definition cancel_run :: "time \<Rightarrow> string \<Rightarrow> json \<Rightarrow> ('z, run_record) run_op" where
  "cancel_run now run_id reason s = with_run run_id (\<lambda>r.
     if rn_state r \<in> final_states then (Inr r, s)
     else (case do_transition now Run_Cancelled (Some reason) r of
             Inl e \<Rightarrow> (Inl e, s)
           | Inr r' \<Rightarrow>
               let terminal = (case rn_outcome r' of None \<Rightarrow> JNull | Some d \<Rightarrow> dget d ''terminal_state'');
                   r'' = r'\<lparr>rn_outcome := Some (run_outcome ''cancelled'' terminal reason r')\<rparr>
               in (Inr r'', put_run run_id r'' s))) s"

definition fail_run :: "time \<Rightarrow> string \<Rightarrow> json \<Rightarrow> ('z, run_record) run_op" where
  "fail_run now run_id reason s = with_run run_id (\<lambda>r.
     if rn_state r \<in> final_states then (Inr r, s)
     else (case do_transition now Tr_Failed (Some reason) r of
             Inl e \<Rightarrow> (Inl e, s)
           | Inr r' \<Rightarrow>
               let r'' = r'\<lparr>rn_outcome := Some (run_outcome ''failed'' JNull reason r')\<rparr>
               in (Inr r'', put_run run_id r'' s))) s"

definition record_agent_signal :: "time \<Rightarrow> string \<Rightarrow> string \<Rightarrow> dict \<Rightarrow> ('z, run_event) run_op" where
  "record_agent_signal now run_id kind payload s = with_run run_id (\<lambda>r.
     let e = Ev_Agent_Signal run_id kind payload now
     in (Inr e, put_run run_id (log_event e r) s)) s"

definition close_run :: "time \<Rightarrow> string \<Rightarrow> ('z, run_record) run_op" where
  "close_run now run_id s = with_run run_id (\<lambda>r.
     if rn_state r \<notin> {Run_Completed, Run_Failed, Cancelled} then (Inl (ValueError ''run_not_terminal''), s)
     else (case do_transition now Tr_Closed None r of
             Inl e \<Rightarrow> (Inl e, s)
           | Inr r' \<Rightarrow>
               let r'' = log_event (Ev_Closed (rn_execution_id r')) r'
               in (Inr r'', put_run run_id r'' s))) s"

definition resolve_run :: "time \<Rightarrow> time \<Rightarrow> string \<Rightarrow> string \<Rightarrow> ('z, run_record) run_op" where
  "resolve_run t1 t2 run_id decision s = with_run run_id (\<lambda>r.
     if rn_state r = Run_Completed \<and> decision = ''accept'' then (Inr r, s)
     else if rn_state r = Run_Failed \<and> decision = ''abandon'' then (Inr r, s)
     else (case (rn_state r = Awaiting_Decision, rn_outcome r) of
             (True, Some outcome) \<Rightarrow>
               let finish = (\<lambda>r' o'.
                     let r'' = log_event (Ev_Decision_Resolved decision (rn_state r') t2)
                                 (r'\<lparr>rn_outcome := Some o'\<rparr>)
                     in (Inr r'', put_run run_id r'' s))
               in if decision = ''accept''
                  then (if dget outcome ''decision'' \<noteq> JStr ''attestation''
                        then (Inl (ValueError ''invalid_decision''), s)
                        else (case do_transition t1 Decision_Accepted None r of
                                Inl e \<Rightarrow> (Inl e, s)
                              | Inr r' \<Rightarrow> finish r'
                                  (dset (dset (dset outcome ''disposition'' (JStr ''completed''))
                                     ''decision'' JNull) ''terminal_error'' JNull)))
                  else if decision = ''abandon''
                  then (case do_transition t1 Decision_Abandoned None r of
                          Inl e \<Rightarrow> (Inl e, s)
                        | Inr r' \<Rightarrow> finish r'
                            (dset (dset outcome ''disposition'' (JStr ''failed'')) ''decision'' JNull))
                  else (Inl (ValueError ''invalid_decision''), s)
           | _ \<Rightarrow> (Inl (ValueError ''illegal_state_transition''), s))) s"

definition get_run :: "string \<Rightarrow> ('z, run_record) run_op" where
  "get_run run_id s = with_run run_id (\<lambda>r. (Inr r, s)) s"

section \<open>Projections\<close>

fun conversation_status_for_state :: "run_state \<Rightarrow> string" where
  "conversation_status_for_state Opened = ''idle''"
| "conversation_status_for_state Closed = ''idle''"
| "conversation_status_for_state Thinking = ''thinking''"
| "conversation_status_for_state Run_Committed = ''executing''"
| "conversation_status_for_state Running = ''executing''"
| "conversation_status_for_state Run_Completed = ''completed''"
| "conversation_status_for_state Awaiting_Decision = ''awaiting_decision''"
| "conversation_status_for_state Cancelled = ''interrupted''"
| "conversation_status_for_state Run_Failed = ''failed''"

fun message_receipt_status :: "receipt_state \<Rightarrow> string" where
  "message_receipt_status Accepted = ''queued''"
| "message_receipt_status Queued = ''queued''"
| "message_receipt_status InFlight = ''thinking''"
| "message_receipt_status Retryable = ''queued''"
| "message_receipt_status Completed = ''completed''"
| "message_receipt_status Failed = ''failed''"
| "message_receipt_status Interrupted = ''interrupted''"

section \<open>The log determines the state\<close>

definition log_move :: "run_event \<Rightarrow> (transition \<times> run_state \<times> run_state) option" where
  "log_move e = (case e of Ev_Transition t a b _ _ \<Rightarrow> Some (t, a, b) | _ \<Rightarrow> None)"

primrec replay_log :: "run_state \<Rightarrow> run_event list \<Rightarrow> run_state option" where
  "replay_log st [] = Some st"
| "replay_log st (e # es) =
     (case log_move e of
        None \<Rightarrow> replay_log st es
      | Some (t, a, b) \<Rightarrow> if a = st \<and> RUN_TRANSITIONS st t = Some b then replay_log b es else None)"

lemma replay_log_append:
  "replay_log st (xs @ ys) = (case replay_log st xs of None \<Rightarrow> None | Some st' \<Rightarrow> replay_log st' ys)"
  by (induction xs arbitrary: st) (auto split: option.split prod.split)

lemma log_move_simps [simp]:
  "log_move (Ev_Transition t a b n w) = Some (t, a, b)"
  "log_move (Ev_Opened x2a x2b) = None"
  "log_move (Ev_Message x3a x3b x3c x3d x3e x3f) = None"
  "log_move (Ev_Readiness_Inspected x4a x4b x4c x4d x4e) = None"
  "log_move (Ev_Agent_Signal x5a x5b x5c x5d) = None"
  "log_move (Ev_Draft_Patched x6a x6b) = None"
  "log_move (Ev_Packages_Materialized x7a x7b) = None"
  "log_move (Ev_Committed x8a) = None"
  "log_move (Ev_Execution_Started x9a x9b) = None"
  "log_move (Ev_Orchestration_Started x10a x10b x10c x10d x10e x10f) = None"
  "log_move (Ev_Execution_Result x11a x11b x11c x11d x11e x11f x11g x11h) = None"
  "log_move (Ev_Closed x12a) = None"
  "log_move (Ev_Decision_Resolved x13a x13b x13c) = None"
  "log_move (Ev_Recovered x14a x14b x14c x14d x14e) = None"
  "log_move (Ev_Node_Requested x15a x15b x15c x15d x15e x15f x15g) = None"
  "log_move (Ev_Node_Accepted x16a x16b x16c x16d x16e x16f x16g x16h x16i x16j x16k) = None"
  "log_move (Ev_Node_Dispatched x17a x17b x17c x17d x17e x17f x17g x17h x17i x17j x17k x17l x17m) = None"
  "log_move (Ev_Node_Reassigned x18a x18b x18c x18d x18e x18f x18g x18h x18i x18j x18k) = None"
  "log_move (Ev_Node_Completed x19a x19b x19c x19d x19e x19f x19g x19h x19i x19j x19k x19l x19m x19n) = None"
  "log_move (Ev_Orchestration_Failed x20a x20b x20c x20d x20e x20f x20g) = None"
  "log_move (Ev_Orchestration_Decision x21a x21b x21c x21d x21e x21f) = None"
  "log_move (Ev_Orchestration_Completed x22a x22b x22c x22d x22e x22f x22g) = None"
  "log_move (Ev_Package_Abandoned x23a x23b x23c) = None"
  "log_move (Ev_Package_Promoted x24a x24b x24c x24d x24e) = None"
  "log_move (Ev_Desired_Changed x25a x25b x25c x25d x25e x25f x25g) = None"
  "log_move (Ev_Health_Report x26a x26b x26c x26d x26e x26f x26g x26h x26i x26j) = None"
  by (simp_all add: log_move_def)

lemma replay_final:
  "replay_log a es = Some b \<Longrightarrow> a \<in> final_states \<Longrightarrow> b = a \<or> b = Closed"
proof (induction es arbitrary: a)
  case (Cons e es)
  show ?case
  proof (cases "log_move e")
    case None
    with Cons show ?thesis by simp
  next
    case (Some m)
    obtain t x y where m: "m = (t, x, y)" by (cases m)
    with Some Cons.prems have step: "RUN_TRANSITIONS a t = Some y" and rest: "replay_log y es = Some b"
      by (auto split: if_splits)
    from step Cons.prems(2) have "y = Closed"
      by (cases a; cases t) (auto simp: final_states_def)
    with rest Cons.IH [of y] show ?thesis by (simp add: final_states_def)
  qed
qed simp

section \<open>What an operation may do to a Run\<close>

definition same_run :: "run_record \<Rightarrow> run_record \<Rightarrow> bool" where
  "same_run r r' =
     (rn_run_id r' = rn_run_id r \<and> rn_task_ref r' = rn_task_ref r \<and> rn_goal r' = rn_goal r \<and>
      rn_closure_contract r' = rn_closure_contract r \<and> rn_allow_reassignment r' = rn_allow_reassignment r)"

definition run_core :: "run_record \<Rightarrow> bool" where
  "run_core r =
     ((rn_state r = Running \<longrightarrow> rn_execution_id r \<noteq> None) \<and>
      (rn_state r \<in> {Run_Committed, Running} \<longrightarrow> rn_committed r \<noteq> None) \<and>
      (rn_state r = Awaiting_Decision \<longrightarrow>
         pending_decision r \<in> {JStr ''repair'', JStr ''attestation''}))"

text \<open>
  The bookkeeping of executions: a Run that has not been started has epoch one and a later step never
  lowers the epoch; attempts are only added, keep their identity, and never change once they have ended. The
  identifiers of attempts are drawn from \<^verbatim>\<open>uuid4\<close>; the last part is claimed where they are distinct.
\<close>

definition attempt_active :: "attempt \<Rightarrow> bool" where
  "attempt_active a = (at_state a \<in> {At_Created, At_Running})"

definition attempt_next :: "attempt \<Rightarrow> attempt \<Rightarrow> bool" where
  "attempt_next a b =
     (at_attempt_id b = at_attempt_id a \<and> at_node_id b = at_node_id a \<and> at_target b = at_target a \<and>
      at_execution_epoch b = at_execution_epoch a \<and> (\<not> attempt_active a \<longrightarrow> b = a))"

definition attempts_next :: "attempt list \<Rightarrow> attempt list \<Rightarrow> bool" where
  "attempts_next as bs = (\<exists>cs ds. bs = cs @ ds \<and> list_all2 attempt_next as cs)"

lemma attempt_next_refl [simp]: "attempt_next a a"
  by (simp add: attempt_next_def)

lemma attempt_next_trans: "attempt_next a b \<Longrightarrow> attempt_next b c \<Longrightarrow> attempt_next a c"
  by (auto simp: attempt_next_def)

lemma attempts_next_refl [simp]: "attempts_next as as"
  unfolding attempts_next_def by (rule exI [of _ as], rule exI [of _ "[]"]) (simp add: list.rel_refl)

lemma attempts_next_trans:
  assumes "attempts_next as bs" and "attempts_next bs cs"
  shows "attempts_next as cs"
proof -
  from assms(1) obtain b1 b2 where b: "bs = b1 @ b2" "list_all2 attempt_next as b1" by (auto simp: attempts_next_def)
  from assms(2) obtain c1 c2 where c: "cs = c1 @ c2" "list_all2 attempt_next bs c1" by (auto simp: attempts_next_def)
  with b obtain d1 d2 where d: "c1 = d1 @ d2" "list_all2 attempt_next b1 d1" by (auto simp: list_all2_append1)
  have "list_all2 attempt_next as d1" by (rule list_all2_trans [OF attempt_next_trans b(2) d(2)])
  with c(1) d(1) show ?thesis by (auto simp: attempts_next_def)
qed

lemma attempts_next_append [simp]: "attempts_next as (as @ bs)"
  by (auto simp: attempts_next_def list.rel_refl)

lemma attempts_next_map: "(\<And>a. a \<in> set as \<Longrightarrow> attempt_next a (f a)) \<Longrightarrow> attempts_next as (map f as)"
  unfolding attempts_next_def by (rule exI [of _ "map f as"]) (auto simp: list_all2_conv_all_nth)

definition attempt_ids :: "run_record \<Rightarrow> string list" where
  "attempt_ids r = map at_attempt_id (rn_attempts r)"

lemma attempts_next_ids: "attempts_next as bs \<Longrightarrow> \<exists>ds. map at_attempt_id bs = map at_attempt_id as @ ds"
proof -
  have "list_all2 attempt_next as cs \<Longrightarrow> map at_attempt_id cs = map at_attempt_id as" for cs
    by (induction rule: list_all2_induct) (auto simp: attempt_next_def)
  then show "attempts_next as bs \<Longrightarrow> ?thesis" by (auto simp: attempts_next_def)
qed

definition epoch_ok :: "run_record \<Rightarrow> bool" where
  "epoch_ok r = (rn_execution_id r = None \<longrightarrow> rn_execution_epoch r = 1)"

definition execution_next :: "run_record \<Rightarrow> run_record \<Rightarrow> bool" where
  "execution_next r r' =
     ((epoch_ok r \<longrightarrow> rn_execution_epoch r \<le> rn_execution_epoch r' \<and> epoch_ok r') \<and>
      (\<exists>ds. attempt_ids r' = attempt_ids r @ ds) \<and>
      (distinct (attempt_ids r') \<longrightarrow> attempts_next (rn_attempts r) (rn_attempts r')))"

lemma execution_next_same [simp]:
  "rn_execution_id r' = rn_execution_id r \<Longrightarrow> rn_execution_epoch r' = rn_execution_epoch r \<Longrightarrow>
   attempts_next (rn_attempts r) (rn_attempts r') \<Longrightarrow> execution_next r r'"
  using attempts_next_ids by (simp add: execution_next_def epoch_ok_def attempt_ids_def)

lemma execution_next_trans: "execution_next a b \<Longrightarrow> execution_next b c \<Longrightarrow> execution_next a c"
  by (auto simp: execution_next_def intro: attempts_next_trans)

lemma execution_next_attempts:
  "execution_next r r' \<Longrightarrow> distinct (attempt_ids r') \<Longrightarrow> attempts_next (rn_attempts r) (rn_attempts r')"
  by (simp add: execution_next_def)

definition run_wf :: "run_record \<Rightarrow> bool" where
  "run_wf r = (run_core r \<and> epoch_ok r \<and> replay_log Opened (rn_events r) = Some (rn_state r))"

definition run_next :: "run_record \<Rightarrow> run_record \<Rightarrow> bool" where
  "run_next r r' =
     (same_run r r' \<and>
      (\<exists>es. rn_events r' = rn_events r @ es \<and> replay_log (rn_state r) es = Some (rn_state r')) \<and>
      execution_next r r' \<and> (run_core r \<longrightarrow> run_core r'))"

lemma run_nextI:
  assumes "same_run r r'" and "rn_events r' = rn_events r @ es"
    and "replay_log (rn_state r) es = Some (rn_state r')"
    and "execution_next r r'" and "run_core r \<Longrightarrow> run_core r'"
  shows "run_next r r'"
  using assms by (auto simp: run_next_def)

lemma run_next_refl [simp, intro]: "run_next r r"
  by (rule run_nextI [where es = "[]"]) (auto simp: same_run_def)

lemma run_next_trans:
  assumes "run_next a b" and "run_next b c"
  shows "run_next a c"
proof -
  from assms obtain es fs where
    "rn_events b = rn_events a @ es" "replay_log (rn_state a) es = Some (rn_state b)"
    "rn_events c = rn_events b @ fs" "replay_log (rn_state b) fs = Some (rn_state c)"
    by (auto simp: run_next_def)
  then have "rn_events c = rn_events a @ (es @ fs)" "replay_log (rn_state a) (es @ fs) = Some (rn_state c)"
    by (simp_all add: replay_log_append)
  with assms execution_next_trans show ?thesis by (auto simp: run_next_def same_run_def)
qed

lemma run_next_wf: "run_next r r' \<Longrightarrow> run_wf r \<Longrightarrow> run_wf r'"
  by (auto simp: run_next_def run_wf_def execution_next_def replay_log_append)

lemma run_next_final:
  "run_next r r' \<Longrightarrow> rn_state r \<in> final_states \<Longrightarrow> rn_state r' = rn_state r \<or> rn_state r' = Closed"
  unfolding run_next_def using replay_final by blast

definition runs_next :: "(string \<times> run_record) list \<Rightarrow> (string \<times> run_record) list \<Rightarrow> bool" where
  "runs_next rs rs' =
     ((dict_wf rs \<longrightarrow> dict_wf rs') \<and> (\<forall>k. rel_option run_next (map_of rs k) (map_of rs' k)))"

lemma runs_next_refl [simp, intro]: "runs_next rs rs"
  by (simp add: runs_next_def option.rel_refl)

lemma runs_next_trans: "runs_next a b \<Longrightarrow> runs_next b c \<Longrightarrow> runs_next a c"
  unfolding runs_next_def by (metis (no_types, lifting) option.rel_cases option.rel_inject(2) run_next_trans option.rel_distinct(1) option.rel_distinct(2))

lemma runs_next_put:
  "map_of rs k = Some r \<Longrightarrow> run_next r r' \<Longrightarrow> runs_next rs (AList.update k r' rs)"
  using dict_wf_set [of rs k r'] by (simp add: runs_next_def option.rel_refl)

definition runs_wf :: "(string \<times> run_record) list \<Rightarrow> bool" where
  "runs_wf rs = (dict_wf rs \<and> (\<forall>k r. map_of rs k = Some r \<longrightarrow> rn_run_id r = k \<and> run_wf r))"

lemma runs_next_wf:
  assumes "runs_next rs rs'" and "runs_wf rs"
  shows "runs_wf rs'"
proof -
  have "rn_run_id r' = k \<and> run_wf r'" if r': "map_of rs' k = Some r'" for k r'
  proof -
    from assms(1) r' obtain r where r: "map_of rs k = Some r" "run_next r r'"
      unfolding runs_next_def by (metis option.rel_cases option.sel option.distinct(1))
    with assms(2) have "rn_run_id r = k" "run_wf r" by (auto simp: runs_wf_def)
    with r(2) run_next_wf show ?thesis by (auto simp: run_next_def same_run_def)
  qed
  with assms show ?thesis by (simp add: runs_wf_def runs_next_def)
qed

text \<open>
  The contract of every method that works on existing Runs: no Run appears or disappears, and each
  keeps its identity, extends its log by legal transitions and never lowers its execution epoch.
\<close>

locale run_operation =
  fixes opn :: "('z, 'a) run_op"
  assumes effect: "dict_wf (runs s) \<Longrightarrow> runs_next (runs s) (runs (snd (opn s)))"
begin

lemma lookup_after:
  "dict_wf (runs s) \<Longrightarrow> map_of (runs s) k = Some r \<Longrightarrow> \<exists>r'. map_of (runs (snd (opn s))) k = Some r' \<and> run_next r r'"
  using effect [of s] unfolding runs_next_def by (metis option.rel_cases option.sel option.distinct(1))

lemma no_new_run: "dict_wf (runs s) \<Longrightarrow> map_of (runs s) k = None \<Longrightarrow> map_of (runs (snd (opn s))) k = None"
  using effect [of s] unfolding runs_next_def by (metis option.rel_distinct(1) not_None_eq)

lemma final_kept:
  assumes "dict_wf (runs s)" and "map_of (runs s) k = Some r" and "rn_state r \<in> final_states"
  shows "\<exists>r'. map_of (runs (snd (opn s))) k = Some r' \<and> (rn_state r' = rn_state r \<or> rn_state r' = Closed)"
  using lookup_after [OF assms(1,2)] run_next_final assms(3) by blast

lemma runs_wf_kept:
  assumes "runs_wf (runs s)"
  shows "runs_wf (runs (snd (opn s)))"
  using runs_next_wf [OF effect assms] assms by (simp add: runs_wf_def)

end

lemma runs_put_run [simp]: "runs (put_run k r s) = AList.update k r (runs s)"
  by (simp add: put_run_def)

lemma log_event_simps [simp]:
  "rn_events (log_event e r) = rn_events r @ [e]" "rn_state (log_event e r) = rn_state r"
  "rn_run_id (log_event e r) = rn_run_id r" "rn_task_ref (log_event e r) = rn_task_ref r"
  "rn_goal (log_event e r) = rn_goal r" "rn_draft (log_event e r) = rn_draft r"
  "rn_closure_contract (log_event e r) = rn_closure_contract r"
  "rn_allow_reassignment (log_event e r) = rn_allow_reassignment r"
  "rn_committed (log_event e r) = rn_committed r" "rn_execution_id (log_event e r) = rn_execution_id r"
  "rn_execution_epoch (log_event e r) = rn_execution_epoch r" "rn_outcome (log_event e r) = rn_outcome r"
  "rn_attempts (log_event e r) = rn_attempts r" "rn_capability_packages (log_event e r) = rn_capability_packages r"
  "rn_capability_activations (log_event e r) = rn_capability_activations r"
  "rn_dynamic_nodes (log_event e r) = rn_dynamic_nodes r"
  by (simp_all add: log_event_def)

lemma execution_next_log [simp]:
  "execution_next (log_event e a) b = execution_next a b" "execution_next a (log_event e b) = execution_next a b"
  "execution_next (a\<lparr>rn_state := st\<rparr>) b = execution_next a b"
  by (simp_all add: execution_next_def epoch_ok_def attempt_ids_def)

lemma pending_decision_log [simp]: "pending_decision (log_event e r) = pending_decision r"
  by (simp add: pending_decision_def)

lemma run_core_log [simp]: "run_core (log_event e r) = run_core r"
  by (simp add: run_core_def)

lemma same_run_log [simp]: "same_run r (log_event e r') = same_run r r'"
  by (simp add: same_run_def)

lemma run_next_log: "log_move e = None \<Longrightarrow> run_next r (log_event e r)"
  by (rule run_nextI [where es = "[e]"]) (auto simp: same_run_def)

lemma do_transition_InrD:
  assumes "do_transition now ev why r = Inr r'"
  obtains target where "RUN_TRANSITIONS (rn_state r) ev = Some target"
    and "r' = log_event (Ev_Transition ev (rn_state r) target now why) (r\<lparr>rn_state := target\<rparr>)"
  using assms by (auto simp: do_transition_def split: option.splits if_splits)

text \<open>Case analysis for the methods that load a Run and either keep it or write a successor back.\<close>

lemma with_run_effect:
  assumes "\<And>r. map_of (runs s) run_id = Some r \<Longrightarrow> runs_next (runs s) (runs (snd (k r)))"
  shows "runs_next (runs s) (runs (snd (with_run run_id k s)))"
  using assms by (auto simp: with_run_def split: option.split)

lemma append_message_effect:
  "runs_next (runs s) (runs (snd (append_message now fresh run_id role content request_id s)))"
  unfolding append_message_def
  by (auto intro!: with_run_effect runs_next_put run_next_log simp: Let_def split: option.split)

lemma record_agent_signal_effect:
  "runs_next (runs s) (runs (snd (record_agent_signal now run_id kind payload s)))"
  unfolding record_agent_signal_def
  by (auto intro!: with_run_effect runs_next_put run_next_log simp: Let_def)

lemma transition_next:
  assumes tr: "do_transition now ev why r = Inr r'"
    and same: "same_run r' r''" and evs: "rn_events r'' = rn_events r' @ es" and es: "\<forall>e \<in> set es. log_move e = None"
    and st: "rn_state r'' = rn_state r'" and ep: "execution_next r' r''"
    and core: "run_core r \<Longrightarrow> run_core r''"
  shows "run_next r r''"
  using tr
proof (rule do_transition_InrD)
  fix target
  assume t: "RUN_TRANSITIONS (rn_state r) ev = Some target"
    and r': "r' = log_event (Ev_Transition ev (rn_state r) target now why) (r\<lparr>rn_state := target\<rparr>)"
  have quiet: "replay_log a es = Some a" for a
    using es by (induction es) auto
  show ?thesis
    by (rule run_nextI [where es = "Ev_Transition ev (rn_state r) target now why # es"])
      (use same evs st ep core t r' quiet in \<open>auto simp: same_run_def\<close>)
qed

text \<open>The most frequent case: the state is neither active nor awaiting a decision afterwards.\<close>

definition idle_state :: "run_state \<Rightarrow> bool" where
  "idle_state st = (st \<notin> {Run_Committed, Running, Awaiting_Decision})"

lemma idle_core: "idle_state (rn_state r) \<Longrightarrow> run_core r"
  by (simp add: idle_state_def run_core_def)

lemma do_transition_state:
  "do_transition now ev why r = Inr r' \<Longrightarrow> RUN_TRANSITIONS (rn_state r) ev = Some (rn_state r')"
  by (erule do_transition_InrD) simp

lemma idle_targets:
  "RUN_TRANSITIONS a t = Some b \<Longrightarrow> t \<notin> {Tr_Committed, Execution_Started, Run_Needs_Decision} \<Longrightarrow> idle_state b"
  by (cases a; cases t) (auto simp: idle_state_def)

lemma idle_transition_next:
  assumes tr: "do_transition now ev why r = Inr r'"
    and ev: "ev \<notin> {Tr_Committed, Execution_Started, Run_Needs_Decision}"
    and same: "same_run r' r''" and evs: "rn_events r'' = rn_events r' @ es" and es: "\<forall>e \<in> set es. log_move e = None"
    and st: "rn_state r'' = rn_state r'" and ep: "execution_next r' r''"
  shows "run_next r r''"
  using transition_next [OF tr same evs es st ep] idle_core idle_targets [OF do_transition_state [OF tr] ev] st
  by metis

lemma idle_put0:
  assumes "do_transition now ev why r = Inr r'" and "map_of rs k = Some r"
    and "ev \<notin> {Tr_Committed, Execution_Started, Run_Needs_Decision}"
    and "same_run r' r''" and "rn_events r'' = rn_events r'"
    and "rn_state r'' = rn_state r'" and "execution_next r' r''"
  shows "runs_next rs (AList.update k r'' rs)"
  using assms by (intro runs_next_put [OF assms(2)] idle_transition_next [where es = "[]", OF assms(1)]) simp_all

lemma idle_put1:
  assumes "do_transition now ev why r = Inr r'" and "map_of rs k = Some r"
    and "ev \<notin> {Tr_Committed, Execution_Started, Run_Needs_Decision}"
    and "same_run r' r''" and "rn_events r'' = rn_events r' @ [e]" and "log_move e = None"
    and "rn_state r'' = rn_state r'" and "execution_next r' r''"
  shows "runs_next rs (AList.update k r'' rs)"
  using assms by (intro runs_next_put [OF assms(2)] idle_transition_next [where es = "[e]", OF assms(1)]) simp_all

lemma begin_refinement_effect: "runs_next (runs s) (runs (snd (begin_refinement now run_id s)))"
  unfolding begin_refinement_def
proof (rule with_run_effect, goal_cases)
  case (1 r)
  then show ?case
    by (cases "do_transition now Refinement_Started None r") (auto elim!: idle_put0 simp: same_run_def)
qed

lemma cancel_run_effect: "runs_next (runs s) (runs (snd (cancel_run now run_id reason s)))"
  unfolding cancel_run_def Let_def
proof (rule with_run_effect, goal_cases)
  case (1 r)
  then show ?case
    by (cases "do_transition now Run_Cancelled (Some reason) r") (auto elim!: idle_put0 simp: same_run_def)
qed

lemma fail_run_effect: "runs_next (runs s) (runs (snd (fail_run now run_id reason s)))"
  unfolding fail_run_def Let_def
proof (rule with_run_effect, goal_cases)
  case (1 r)
  then show ?case
    by (cases "do_transition now Tr_Failed (Some reason) r") (auto elim!: idle_put0 simp: same_run_def)
qed

lemma close_run_effect: "runs_next (runs s) (runs (snd (close_run now run_id s)))"
  unfolding close_run_def Let_def
proof (rule with_run_effect, goal_cases)
  case (1 r)
  then show ?case
    by (cases "do_transition now Tr_Closed None r")
      (auto elim!: idle_put1 [where e = "Ev_Closed x" for x] simp: same_run_def)
qed

lemma resolve_run_effect: "runs_next (runs s) (runs (snd (resolve_run t1 t2 run_id decision s)))"
  unfolding resolve_run_def Let_def
proof (rule with_run_effect, goal_cases)
  case (1 r)
  have put: "runs_next (runs s) (AList.update run_id
      (log_event (Ev_Decision_Resolved d st t2) (r'\<lparr>rn_outcome := oc\<rparr>)) (runs s))"
    if "do_transition t1 ev None r = Inr r'" and "ev = Decision_Accepted \<or> ev = Decision_Abandoned" for ev r' d st oc
    by (rule idle_put1 [OF that(1) 1]) (use that(2) in \<open>auto simp: same_run_def\<close>)
  show ?case
    by (auto split: sum.split option.split bool.split dest: put)
qed

interpretation append_message: run_operation "append_message now fresh run_id role content request_id"
  for now fresh run_id role content request_id
  by unfold_locales (rule append_message_effect)

interpretation agent_signal: run_operation "record_agent_signal now run_id kind payload" for now run_id kind payload
  by unfold_locales (rule record_agent_signal_effect)

interpretation begin_refinement: run_operation "begin_refinement now run_id" for now run_id
  by unfold_locales (rule begin_refinement_effect)

interpretation cancel_run: run_operation "cancel_run now run_id reason" for now run_id reason
  by unfold_locales (rule cancel_run_effect)

interpretation fail_run: run_operation "fail_run now run_id reason" for now run_id reason
  by unfold_locales (rule fail_run_effect)

interpretation close_run: run_operation "close_run now run_id" for now run_id
  by unfold_locales (rule close_run_effect)

interpretation resolve_run: run_operation "resolve_run t1 t2 run_id decision" for t1 t2 run_id decision
  by unfold_locales (rule resolve_run_effect)

end
