(* ===== verification/Agents.thy ===== *)
theory Agents
  imports Runs
begin

text \<open>
  Runtime agents and their leases, and the Driver's conversation threads
  (\<^verbatim>\<open>loom_v2/contracts/agents.py\<close>; \<^verbatim>\<open>register_agent\<close>, \<^verbatim>\<open>heartbeat_agent\<close>, \<^verbatim>\<open>release_agent\<close>,
  \<^verbatim>\<open>list_agents\<close>, \<^verbatim>\<open>bind_thread\<close>, \<^verbatim>\<open>get_thread\<close> and \<^verbatim>\<open>set_turn_state\<close> of \<^verbatim>\<open>ObserverRepository\<close>), on the
  in-memory registry. A Driver lease is single-active per workspace, a Slave lease per workspace
  and agent id; a new registration expires the previous lease and fences its heartbeats.
\<close>

section \<open>Data\<close>

datatype role = Driver | Slave

datatype lease_state = Lease_Active | Lease_Expired | Lease_Released

type_synonym agent_key = "string \<times> role \<times> string \<times> string"

record agent_record =
  ag_workspace_id :: string
  ag_role :: role
  ag_agent_id :: string
  ag_instance_id :: string
  ag_endpoint_url :: string
  ag_protocol_version :: string
  ag_capabilities :: dict
  ag_epoch :: int
  ag_lease_id_hash :: string
  ag_lease_state :: lease_state
  ag_last_seen_at :: time
  ag_created_at :: time
  ag_updated_at :: time

record agent_registration =
  rg_role :: role
  rg_agent_id :: string
  rg_instance_id :: string
  rg_workspace_id :: string
  rg_endpoint_url :: string
  rg_protocol_version :: string
  rg_capabilities :: dict

datatype turn_state = Turn_Idle | Turn_Starting | Turn_In_Progress | Turn_Completed | Turn_Interrupted | Turn_Recovery_Pending

record thread_binding =
  tb_workspace_id :: string
  tb_conversation_ref :: string
  tb_thread_id :: string
  tb_model :: string
  tb_workspace_root :: string
  tb_last_turn_id :: "string option"
  tb_turn_state :: turn_state
  tb_active_request_id :: "string option"
  tb_driver_epoch :: int

record agent_lease =
  al_agent_id :: string
  al_instance_id :: string
  al_workspace_id :: string
  al_lease_id :: string
  al_epoch :: int
  al_driver_epoch :: int
  al_thread_bindings :: "thread_binding list"
  al_recovery_runs :: "run_record list"

record agent_event =
  ae_role :: role
  ae_workspace_id :: string
  ae_agent_id :: string
  ae_instance_id :: string
  ae_epoch :: int
  ae_created_at :: time

record agent_store = run_store +
  agents :: "(agent_key \<times> agent_record) list"
  driver_threads :: "((string \<times> string) \<times> thread_binding) list"
  agent_events :: "agent_event list"

type_synonym ('z, 'a) agent_op = "('z agent_store_scheme, 'a) op"

section \<open>Leases\<close>

definition lease_hash :: "hashing \<Rightarrow> string \<Rightarrow> string" where
  "lease_hash H lease_id = sha256_hex H lease_id"

definition agent_key_of :: "agent_record \<Rightarrow> agent_key" where
  "agent_key_of a = (ag_workspace_id a, ag_role a, ag_agent_id a, ag_instance_id a)"

text \<open>The registrations that share a lease with a new one: all Drivers of the workspace, or one Slave id.\<close>

fun shares_lease :: "agent_registration \<Rightarrow> agent_key \<Rightarrow> bool" where
  "shares_lease g (ws, ro, aid, iid) =
     (ws = rg_workspace_id g \<and> ro = rg_role g \<and> (rg_role g = Driver \<or> aid = rg_agent_id g))"

definition expire_agent :: "time \<Rightarrow> agent_record \<Rightarrow> agent_record" where
  "expire_agent now a = a\<lparr>ag_lease_state := Lease_Expired, ag_updated_at := now\<rparr>"

text \<open>The loop over \<^verbatim>\<open>self.agents\<close>: the highest epoch of the shared lease, and the expiry of active ones.\<close>

definition shared_epoch :: "agent_registration \<Rightarrow> (agent_key \<times> agent_record) list \<Rightarrow> int" where
  "shared_epoch g ags = fold (\<lambda>(k, a) e. if shares_lease g k then max e (ag_epoch a) else e) ags 0"

definition expire_shared ::
  "time \<Rightarrow> agent_registration \<Rightarrow> (agent_key \<times> agent_record) list \<Rightarrow> (agent_key \<times> agent_record) list" where
  "expire_shared now g ags =
     dict_rewrite (\<lambda>k a. shares_lease g k \<and> ag_lease_state a = Lease_Active) (expire_agent now) ags"

definition registration_key :: "agent_registration \<Rightarrow> agent_key" where
  "registration_key g = (rg_workspace_id g, rg_role g, rg_agent_id g, rg_instance_id g)"

text \<open>
  The epoch of the new lease; \<^verbatim>\<open>previous\<close>, a record under the same key, shares the lease, so its
  epoch is already counted by the loop.
\<close>

definition lease_epoch :: "agent_registration \<Rightarrow> (agent_key \<times> agent_record) list \<Rightarrow> int" where
  "lease_epoch g ags =
     (let e0 = shared_epoch g ags;
          e1 = (case map_of ags (registration_key g) of None \<Rightarrow> e0 | Some p \<Rightarrow> max e0 (ag_epoch p))
      in if rg_role g = Driver then e1 + 1 else max e1 1)"

definition new_agent :: "hashing \<Rightarrow> time \<Rightarrow> string \<Rightarrow> agent_registration \<Rightarrow> int \<Rightarrow> agent_record option \<Rightarrow> agent_record" where
  "new_agent H now lease_id g e previous =
     \<lparr>ag_workspace_id = rg_workspace_id g, ag_role = rg_role g, ag_agent_id = rg_agent_id g,
      ag_instance_id = rg_instance_id g, ag_endpoint_url = rstrip CHR ''/'' (rg_endpoint_url g),
      ag_protocol_version = rg_protocol_version g, ag_capabilities = rg_capabilities g, ag_epoch = e,
      ag_lease_id_hash = lease_hash H lease_id, ag_lease_state = Lease_Active, ag_last_seen_at = now,
      ag_created_at = (case previous of None \<Rightarrow> now | Some p \<Rightarrow> ag_created_at p), ag_updated_at = now\<rparr>"

definition turn_active :: "thread_binding \<Rightarrow> bool" where
  "turn_active t = (tb_turn_state t \<in> {Turn_Starting, Turn_In_Progress})"

definition recover_threads ::
  "string \<Rightarrow> int \<Rightarrow> ((string \<times> string) \<times> thread_binding) list \<Rightarrow> ((string \<times> string) \<times> thread_binding) list" where
  "recover_threads ws e ths =
     dict_rewrite (\<lambda>k t. fst k = ws \<and> turn_active t)
       (\<lambda>t. t\<lparr>tb_turn_state := Turn_Recovery_Pending, tb_driver_epoch := e\<rparr>) ths"

definition recovery_runs :: "string \<Rightarrow> 'z run_store_scheme \<Rightarrow> run_record list" where
  "recovery_runs ws s =
     filter (\<lambda>r. (case rn_closure_contract r of None \<Rightarrow> False | Some c \<Rightarrow> cc_workspace_id c = ws) \<and>
                 rn_state r \<in> {Thinking, Running})
       (map snd (runs s))"

text \<open>
  \<^verbatim>\<open>register_agent\<close>: \<open>lease_id\<close> is the identifier built from \<^verbatim>\<open>uuid4\<close>; the model class requires
  non-empty identifiers. A Driver registration also fences the turns and receipts of the workspace.
\<close>

definition valid_registration :: "agent_registration \<Rightarrow> bool" where
  "valid_registration g =
     (rg_agent_id g \<noteq> [] \<and> rg_instance_id g \<noteq> [] \<and> rg_workspace_id g \<noteq> [] \<and>
      rg_endpoint_url g \<noteq> [] \<and> rg_protocol_version g \<noteq> [])"

definition register_agent :: "hashing \<Rightarrow> time \<Rightarrow> string \<Rightarrow> agent_registration \<Rightarrow> ('z, agent_lease) agent_op" where
  "register_agent H now lease_id g s =
     (if \<not> valid_registration g then (Inl (ValidationError ''AgentRegistration''), s)
      else
        let ws = rg_workspace_id g;
            is_driver = (rg_role g = Driver);
            ags = expire_shared now g (agents s);
            key = registration_key g;
            e = lease_epoch g (agents s);
            a = new_agent H now lease_id g e (map_of ags key);
            s1 = s\<lparr>agents := AList.update key a ags,
                   agent_events := agent_events s @
                     [\<lparr>ae_role = rg_role g, ae_workspace_id = ws, ae_agent_id = rg_agent_id g,
                       ae_instance_id = rg_instance_id g, ae_epoch = e, ae_created_at = now\<rparr>]\<rparr>;
            s2 = (if is_driver then s1\<lparr>driver_threads := recover_threads ws e (driver_threads s1)\<rparr> else s1);
            bindings = (if is_driver then map snd (filter (\<lambda>(k, t). fst k = ws) (driver_threads s2)) else []);
            rec_runs = (if is_driver then recovery_runs ws s2 else []);
            s3 = (if is_driver then snd (recover_message_receipts_for_driver now ws s2) else s2)
        in (Inr \<lparr>al_agent_id = rg_agent_id g, al_instance_id = rg_instance_id g, al_workspace_id = ws,
                 al_lease_id = lease_id, al_epoch = e, al_driver_epoch = e,
                 al_thread_bindings = bindings, al_recovery_runs = rec_runs\<rparr>, s3))"

text \<open>\<^verbatim>\<open>list_agents\<close>: leases not seen for the time-to-live (at least one second) expire on the way.\<close>

definition lease_cutoff :: "time \<Rightarrow> time \<Rightarrow> time" where
  "lease_cutoff now ttl = now - max (seconds 1) ttl"

definition expire_stale ::
  "time \<Rightarrow> time \<Rightarrow> string \<Rightarrow> role option \<Rightarrow> (agent_key \<times> agent_record) list \<Rightarrow> (agent_key \<times> agent_record) list" where
  "expire_stale now ttl ws ro ags =
     dict_rewrite (\<lambda>k a. fst k = ws \<and> (ro = None \<or> ro = Some (fst (snd k))) \<and>
                        ag_lease_state a = Lease_Active \<and> ag_last_seen_at a < lease_cutoff now ttl)
       (\<lambda>a. a\<lparr>ag_lease_state := Lease_Expired\<rparr>) ags"

definition list_agents ::
  "time \<Rightarrow> time \<Rightarrow> string \<Rightarrow> role option \<Rightarrow> 'z agent_store_scheme \<Rightarrow> agent_record list \<times> 'z agent_store_scheme" where
  "list_agents now ttl ws ro s =
     (let ags = expire_stale now ttl ws ro (agents s)
      in (map snd (filter (\<lambda>(k, a). fst k = ws \<and> (ro = None \<or> ro = Some (fst (snd k)))) ags),
          s\<lparr>agents := ags\<rparr>))"

text \<open>\<^verbatim>\<open>_agent_record\<close>: the most recently updated match, the earliest registered among equals.\<close>

definition lookup_agent ::
  "string \<Rightarrow> role \<Rightarrow> string \<Rightarrow> string option \<Rightarrow> 'z agent_store_scheme \<Rightarrow> agent_record option" where
  "lookup_agent ws ro aid iid s =
     (case sort_key (\<lambda>a. - ag_updated_at a)
             (map snd (filter (\<lambda>((w, r, i, _), a). w = ws \<and> r = ro \<and> i = aid \<and>
                                 (iid = None \<or> iid = Some (ag_instance_id a))) (agents s))) of
        [] \<Rightarrow> None
      | a # _ \<Rightarrow> Some a)"

definition stale_lease :: "role \<Rightarrow> py_error" where
  "stale_lease ro = ValueError (if ro = Driver then ''stale_driver_epoch'' else ''stale_agent_lease'')"

definition lease_matches :: "hashing \<Rightarrow> string \<Rightarrow> string \<Rightarrow> int \<Rightarrow> agent_record \<Rightarrow> bool" where
  "lease_matches H iid lease_id e a =
     (ag_instance_id a = iid \<and> ag_lease_state a = Lease_Active \<and> ag_epoch a = e \<and>
      ag_lease_id_hash a = lease_hash H lease_id)"

definition touch_agent :: "time \<Rightarrow> agent_record \<Rightarrow> agent_record" where
  "touch_agent now a = a\<lparr>ag_last_seen_at := now, ag_updated_at := now\<rparr>"

definition heartbeat_agent ::
  "hashing \<Rightarrow> time \<Rightarrow> time \<Rightarrow> time \<Rightarrow> string \<Rightarrow> string \<Rightarrow> string \<Rightarrow> int \<Rightarrow> string option \<Rightarrow> role \<Rightarrow>
   ('z, agent_lease) agent_op" where
  "heartbeat_agent H ttl t1 t2 aid iid lease_id e ws ro s =
     (let s1 = (case ws of Some w \<Rightarrow> snd (list_agents t1 ttl w (Some ro) s) | None \<Rightarrow> s);
          candidate = (case ws of
              Some w \<Rightarrow> lookup_agent w ro aid (Some iid) s1
            | None \<Rightarrow> map_option snd (List.find (\<lambda>((w, r, i, _), a). r = ro \<and> i = aid) (agents s1)))
      in case candidate of
           None \<Rightarrow> (Inl (stale_lease ro), s1)
         | Some a \<Rightarrow>
             if \<not> lease_matches H iid lease_id e a then (Inl (stale_lease ro), s1)
             else (Inr \<lparr>al_agent_id = aid, al_instance_id = iid,
                        al_workspace_id = (case ws of Some w \<Rightarrow> w | None \<Rightarrow> ag_workspace_id a),
                        al_lease_id = lease_id, al_epoch = e, al_driver_epoch = e,
                        al_thread_bindings = [], al_recovery_runs = []\<rparr>,
                   s1\<lparr>agents := AList.update (agent_key_of a) (touch_agent t2 a) (agents s1)\<rparr>))"

definition release_agent ::
  "hashing \<Rightarrow> time \<Rightarrow> time \<Rightarrow> time \<Rightarrow> time \<Rightarrow> string \<Rightarrow> string \<Rightarrow> string \<Rightarrow> int \<Rightarrow> string option \<Rightarrow> role \<Rightarrow>
   ('z, unit) agent_op" where
  "release_agent H ttl t1 t2 t3 aid iid lease_id e ws ro s =
     (case heartbeat_agent H ttl t1 t2 aid iid lease_id e ws ro s of
        (Inl err, s1) \<Rightarrow> (Inl err, s1)
      | (Inr _, s1) \<Rightarrow>
          (case ws of
             None \<Rightarrow> (Inl (ValueError ''agent_not_found''), s1)
           | Some w \<Rightarrow>
               (Inr (), s1\<lparr>agents := update_first
                  (\<lambda>((w', r, i, _), a). w' = w \<and> r = ro \<and> i = aid \<and> ag_instance_id a = iid)
                  (\<lambda>(k, a). (k, a\<lparr>ag_lease_state := Lease_Released, ag_updated_at := t3\<rparr>)) (agents s1)\<rparr>)))"

section \<open>Conversation threads\<close>

definition bind_thread :: "thread_binding \<Rightarrow> ('z, thread_binding) agent_op" where
  "bind_thread b s =
     (if list_ex (\<lambda>(k, t). fst k = tb_workspace_id b \<and> tb_thread_id t = tb_thread_id b \<and>
                          k \<noteq> (tb_workspace_id b, tb_conversation_ref b)) (driver_threads s)
      then (Inl (ValueError ''thread_binding_conflict''), s)
      else (Inr b, s\<lparr>driver_threads :=
              AList.update (tb_workspace_id b, tb_conversation_ref b) b (driver_threads s)\<rparr>))"

definition get_thread :: "string \<Rightarrow> string \<Rightarrow> 'z agent_store_scheme \<Rightarrow> thread_binding option" where
  "get_thread ws conv s = map_of (driver_threads s) (ws, conv)"

definition set_turn_state ::
  "string \<Rightarrow> string \<Rightarrow> turn_state \<Rightarrow> string option \<Rightarrow> string option \<Rightarrow> int option \<Rightarrow> ('z, thread_binding) agent_op" where
  "set_turn_state ws conv st request_id turn_id e s =
     (case get_thread ws conv s of
        None \<Rightarrow> (Inl (KeyError conv), s)
      | Some t \<Rightarrow>
          bind_thread (t\<lparr>tb_turn_state := st,
            tb_active_request_id := (if request_id \<noteq> None then request_id else tb_active_request_id t),
            tb_last_turn_id := (if turn_id \<noteq> None then turn_id else tb_last_turn_id t),
            tb_driver_epoch := (case e of None \<Rightarrow> tb_driver_epoch t | Some n \<Rightarrow> n)\<rparr>) s)"

section \<open>Lease invariants\<close>

text \<open>Agents are keyed by their identity, epochs are at least one, and every lease is single-active.\<close>

fun same_lease :: "agent_key \<Rightarrow> agent_key \<Rightarrow> bool" where
  "same_lease (w1, r1, a1, i1) (w2, r2, a2, i2) = (w1 = w2 \<and> r1 = r2 \<and> (r1 = Driver \<or> a1 = a2))"

definition agents_wf :: "(agent_key \<times> agent_record) list \<Rightarrow> bool" where
  "agents_wf ags =
     (dict_wf ags \<and>
      (\<forall>k a. map_of ags k = Some a \<longrightarrow> agent_key_of a = k) \<and>
      (\<forall>k1 a1 k2 a2. map_of ags k1 = Some a1 \<and> map_of ags k2 = Some a2 \<and> same_lease k1 k2 \<and>
         ag_lease_state a1 = Lease_Active \<and> ag_lease_state a2 = Lease_Active \<longrightarrow> k1 = k2))"

lemma shares_lease_iff: "shares_lease g k \<longleftrightarrow> same_lease (registration_key g) k"
  by (cases k) (auto simp: registration_key_def)

lemma same_lease_sym: "same_lease a b \<Longrightarrow> same_lease b a"
  by (cases a; cases b) auto

lemma same_lease_trans: "same_lease a b \<Longrightarrow> same_lease b c \<Longrightarrow> same_lease a c"
  by (cases a; cases b; cases c) auto

lemma agents_wfI:
  assumes "dict_wf ags"
    and "\<And>k a. map_of ags k = Some a \<Longrightarrow> agent_key_of a = k"
    and "\<And>k1 a1 k2 a2. map_of ags k1 = Some a1 \<Longrightarrow> map_of ags k2 = Some a2 \<Longrightarrow> same_lease k1 k2 \<Longrightarrow>
      ag_lease_state a1 = Lease_Active \<Longrightarrow> ag_lease_state a2 = Lease_Active \<Longrightarrow> k1 = k2"
  shows "agents_wf ags"
  unfolding agents_wf_def using assms by blast

lemma agents_wf_dict: "agents_wf ags \<Longrightarrow> dict_wf ags"
  by (simp only: agents_wf_def)

lemma agents_wf_key: "agents_wf ags \<Longrightarrow> map_of ags k = Some a \<Longrightarrow> agent_key_of a = k"
  unfolding agents_wf_def by blast

lemma agents_wf_single:
  "agents_wf ags \<Longrightarrow> map_of ags k1 = Some a1 \<Longrightarrow> map_of ags k2 = Some a2 \<Longrightarrow> same_lease k1 k2 \<Longrightarrow>
   ag_lease_state a1 = Lease_Active \<Longrightarrow> ag_lease_state a2 = Lease_Active \<Longrightarrow> k1 = k2"
  unfolding agents_wf_def by blast

text \<open>An update that keeps every key and never activates a lease keeps the invariant.\<close>

lemma agents_wf_deactivate:
  assumes wf: "agents_wf ags" and dist: "dict_wf ags'"
    and orig: "\<And>k a'. map_of ags' k = Some a' \<Longrightarrow>
      \<exists>a. map_of ags k = Some a \<and> agent_key_of a' = agent_key_of a \<and>
          (ag_lease_state a' = Lease_Active \<longrightarrow> ag_lease_state a = Lease_Active)"
  shows "agents_wf ags'"
proof (rule agents_wfI [OF dist])
  fix k a' assume "map_of ags' k = Some a'"
  with orig agents_wf_key [OF wf] show "agent_key_of a' = k" by metis
next
  fix k1 a1 k2 a2
  assume "map_of ags' k1 = Some a1" "map_of ags' k2 = Some a2"
    and l: "same_lease k1 k2" "ag_lease_state a1 = Lease_Active" "ag_lease_state a2 = Lease_Active"
  with orig obtain b1 b2 where "map_of ags k1 = Some b1" "map_of ags k2 = Some b2"
      "ag_lease_state b1 = Lease_Active" "ag_lease_state b2 = Lease_Active" by metis
  with agents_wf_single [OF wf] l(1) show "k1 = k2" by blast
qed

lemma agents_wf_rewrite:
  assumes wf: "agents_wf ags"
    and f: "\<And>a. agent_key_of (f a) = agent_key_of a" "\<And>a. ag_lease_state (f a) \<noteq> Lease_Active"
  shows "agents_wf (dict_rewrite g f ags)"
proof (rule agents_wf_deactivate [OF wf])
  show "dict_wf (dict_rewrite g f ags)" using agents_wf_dict [OF wf] by simp
next
  fix k a' assume "map_of (dict_rewrite g f ags) k = Some a'"
  then obtain a where "map_of ags k = Some a" "a' = (if g k a then f a else a)"
    by (auto simp only: map_of_dict_rewrite map_option_eq_Some)
  then show "\<exists>a. map_of ags k = Some a \<and> agent_key_of a' = agent_key_of a \<and>
      (ag_lease_state a' = Lease_Active \<longrightarrow> ag_lease_state a = Lease_Active)"
    using f by auto
qed

lemma expire_shared_wf: "agents_wf ags \<Longrightarrow> agents_wf (expire_shared now g ags)"
  unfolding expire_shared_def
  by (rule agents_wf_rewrite) (auto simp: agent_key_of_def expire_agent_def)

lemma expire_stale_wf: "agents_wf ags \<Longrightarrow> agents_wf (expire_stale now ttl ws ro ags)"
  unfolding expire_stale_def by (rule agents_wf_rewrite) (auto simp: agent_key_of_def)

lemma expire_shared_inactive:
  assumes "map_of (expire_shared now g ags) k = Some a" and "shares_lease g k"
  shows "ag_lease_state a \<noteq> Lease_Active"
proof -
  from assms(1) obtain b where "a = (if shares_lease g k \<and> ag_lease_state b = Lease_Active then expire_agent now b else b)"
    unfolding expire_shared_def map_of_dict_rewrite by blast
  with assms(2) show ?thesis by (auto simp: expire_agent_def)
qed

lemma agents_recover_receipts [simp]:
  "agents (snd (recover_message_receipts_for_driver now ws s)) = agents s"
  "driver_threads (snd (recover_message_receipts_for_driver now ws s)) = driver_threads s"
  by (simp_all add: recover_message_receipts_for_driver_def)

lemma agents_register [simp]:
  "valid_registration g \<Longrightarrow> agents (snd (register_agent H now lease_id g s)) =
     AList.update (registration_key g)
       (new_agent H now lease_id g (lease_epoch g (agents s)) (map_of (expire_shared now g (agents s)) (registration_key g)))
       (expire_shared now g (agents s))"
  by (simp add: register_agent_def Let_def)

lemma agent_key_new [simp]: "agent_key_of (new_agent H now lease_id g e p) = registration_key g"
  by (simp add: agent_key_of_def new_agent_def registration_key_def)

lemma agents_wf_insert:
  assumes wf: "agents_wf ags" and key: "agent_key_of a = k"
    and quiet: "\<And>k' a'. map_of ags k' = Some a' \<Longrightarrow> same_lease k k' \<Longrightarrow> ag_lease_state a' \<noteq> Lease_Active"
  shows "agents_wf (AList.update k a ags)"
proof (rule agents_wfI)
  show "dict_wf (AList.update k a ags)" using agents_wf_dict [OF wf] by (rule dict_wf_set)
next
  fix k' a' assume "map_of (AList.update k a ags) k' = Some a'"
  then show "agent_key_of a' = k'" using key agents_wf_key [OF wf, of k' a'] by (simp split: if_splits)
next
  fix k1 a1 k2 a2
  assume "map_of (AList.update k a ags) k1 = Some a1" "map_of (AList.update k a ags) k2 = Some a2"
    "same_lease k1 k2" "ag_lease_state a1 = Lease_Active" "ag_lease_state a2 = Lease_Active"
  then show "k1 = k2"
    using quiet [of k2 a2] quiet [of k1 a1] agents_wf_single [OF wf, of k1 a1 k2 a2] same_lease_sym [of k1 k2]
    by (simp only: dict_get_set split: if_splits) blast+
qed

lemma register_wf:
  assumes wf: "agents_wf (agents s)"
  shows "agents_wf (agents (snd (register_agent H now lease_id g s)))"
proof (cases "valid_registration g")
  case False
  then show ?thesis using wf by (simp add: register_agent_def)
next
  case True
  show ?thesis unfolding agents_register [OF True]
    using expire_shared_inactive
    by (intro agents_wf_insert expire_shared_wf [OF wf] agent_key_new) (auto simp only: shares_lease_iff)
qed

lemma lookup_agent_SomeD:
  assumes "lookup_agent ws ro aid iid s = Some a" and "dict_wf (agents s)"
  shows "\<exists>i. map_of (agents s) (ws, ro, aid, i) = Some a"
proof -
  let ?p = "\<lambda>((w, r, i, _), a). w = ws \<and> r = ro \<and> i = aid \<and> (iid = None \<or> iid = Some (ag_instance_id a))"
  let ?m = "map snd (filter ?p (agents s))"
  from assms(1) have "a \<in> set (sort_key (\<lambda>a. - ag_updated_at a) ?m)"
    unfolding lookup_agent_def by (cases "sort_key (\<lambda>a. - ag_updated_at a) ?m") simp_all
  then have "a \<in> set ?m" by (simp only: set_sort)
  then obtain i where "((ws, ro, aid, i), a) \<in> set (agents s)" by auto
  from map_of_is_SomeI [OF assms(2) this] show ?thesis by blast
qed

lemma touch_wf:
  assumes wf: "agents_wf ags" and a: "map_of ags k = Some a"
  shows "agents_wf (AList.update (agent_key_of a) (touch_agent t a) ags)"
proof (rule agents_wf_deactivate [OF wf])
  show "dict_wf (AList.update (agent_key_of a) (touch_agent t a) ags)"
    using agents_wf_dict [OF wf] by (rule dict_wf_set)
next
  fix k' a'
  assume a': "map_of (AList.update (agent_key_of a) (touch_agent t a) ags) k' = Some a'"
  have "map_of ags (agent_key_of a) = Some a" using agents_wf_key [OF wf a] a by simp
  moreover have "agent_key_of (touch_agent t a) = agent_key_of a"
    and "ag_lease_state (touch_agent t a) = ag_lease_state a"
    by (simp_all add: touch_agent_def agent_key_of_def)
  ultimately show "\<exists>b. map_of ags k' = Some b \<and> agent_key_of a' = agent_key_of b \<and>
      (ag_lease_state a' = Lease_Active \<longrightarrow> ag_lease_state b = Lease_Active)"
    using a' by (cases "agent_key_of a = k'") auto
qed

lemma list_agents_wf: "agents_wf (agents s) \<Longrightarrow> agents_wf (agents (snd (list_agents now ttl ws ro s)))"
  by (simp add: list_agents_def Let_def expire_stale_wf)

text \<open>The two steps of a heartbeat: the expiry of stale leases, then the choice of the record.\<close>

definition heartbeat_expired ::
  "time \<Rightarrow> time \<Rightarrow> string option \<Rightarrow> role \<Rightarrow> 'z agent_store_scheme \<Rightarrow> 'z agent_store_scheme" where
  "heartbeat_expired ttl t ws ro s = (case ws of Some w \<Rightarrow> snd (list_agents t ttl w (Some ro) s) | None \<Rightarrow> s)"

definition heartbeat_candidate ::
  "string \<Rightarrow> string \<Rightarrow> string option \<Rightarrow> role \<Rightarrow> 'z agent_store_scheme \<Rightarrow> agent_record option" where
  "heartbeat_candidate aid iid ws ro s =
     (case ws of
        Some w \<Rightarrow> lookup_agent w ro aid (Some iid) s
      | None \<Rightarrow> map_option snd (List.find (\<lambda>((w, r, i, _), a). r = ro \<and> i = aid) (agents s)))"

lemma heartbeat_expired_wf: "agents_wf (agents s) \<Longrightarrow> agents_wf (agents (heartbeat_expired ttl t ws ro s))"
  by (cases ws) (simp_all add: heartbeat_expired_def list_agents_wf)

lemma heartbeat_candidate_mem:
  assumes "heartbeat_candidate aid iid ws ro s = Some a" and "dict_wf (agents s)"
  shows "\<exists>k. map_of (agents s) k = Some a"
proof (cases ws)
  case None
  with assms(1) obtain k where "List.find (\<lambda>((w, r, i, _), a). r = ro \<and> i = aid) (agents s) = Some (k, a)"
    by (auto simp only: heartbeat_candidate_def option.case map_option_eq_Some) (metis prod.collapse)
  then have "(k, a) \<in> set (agents s)" using find_SomeD by metis
  then show ?thesis using map_of_is_SomeI [OF assms(2)] by blast
next
  case (Some w)
  with assms show ?thesis using lookup_agent_SomeD by (simp only: heartbeat_candidate_def option.case) blast
qed

lemma heartbeat_cases:
  "heartbeat_agent H ttl t1 t2 aid iid lease_id e ws ro s =
     (let s1 = heartbeat_expired ttl t1 ws ro s
      in case heartbeat_candidate aid iid ws ro s1 of
           None \<Rightarrow> (Inl (stale_lease ro), s1)
         | Some a \<Rightarrow>
             if \<not> lease_matches H iid lease_id e a then (Inl (stale_lease ro), s1)
             else (Inr \<lparr>al_agent_id = aid, al_instance_id = iid,
                        al_workspace_id = (case ws of Some w \<Rightarrow> w | None \<Rightarrow> ag_workspace_id a),
                        al_lease_id = lease_id, al_epoch = e, al_driver_epoch = e,
                        al_thread_bindings = [], al_recovery_runs = []\<rparr>,
                   s1\<lparr>agents := AList.update (agent_key_of a) (touch_agent t2 a) (agents s1)\<rparr>))"
  unfolding heartbeat_agent_def heartbeat_expired_def heartbeat_candidate_def Let_def ..

lemma heartbeat_wf:
  assumes wf: "agents_wf (agents s)"
  shows "agents_wf (agents (snd (heartbeat_agent H ttl t1 t2 aid iid lease_id e ws ro s)))"
proof -
  define s1 where "s1 = heartbeat_expired ttl t1 ws ro s"
  have s1: "agents_wf (agents s1)" unfolding s1_def by (rule heartbeat_expired_wf [OF wf])
  have "agents_wf (AList.update (agent_key_of a) (touch_agent t2 a) (agents s1))"
    if "heartbeat_candidate aid iid ws ro s1 = Some a" for a
    using heartbeat_candidate_mem [OF that agents_wf_dict [OF s1]] touch_wf [OF s1] by blast
  with s1 show ?thesis
    by (simp add: heartbeat_cases Let_def s1_def [symmetric] split: option.split)
qed

text \<open>The records a Driver registration displaces are exactly those of the same lease.\<close>

lemma update_first_mem:
  assumes "(k, a') \<in> set (update_first p (\<lambda>(k, a). (k, f a)) ags)"
  shows "\<exists>a. (k, a) \<in> set ags \<and> (a' = a \<or> a' = f a)"
  using assms by (induction ags) (auto split: if_splits)

lemma agents_wf_update_first:
  assumes wf: "agents_wf ags" and f: "\<And>a. agent_key_of (f a) = agent_key_of a" "\<And>a. ag_lease_state (f a) \<noteq> Lease_Active"
  shows "agents_wf (update_first p (\<lambda>(k, a). (k, f a)) ags)"
proof (rule agents_wf_deactivate [OF wf])
  have "map fst (update_first p (\<lambda>(k, a). (k, f a)) ags) = map fst ags"
    by (rule map_update_first) (simp add: case_prod_unfold)
  then show "dict_wf (update_first p (\<lambda>(k, a). (k, f a)) ags)" using agents_wf_dict [OF wf] by (simp only:)
next
  fix k a' assume "map_of (update_first p (\<lambda>(k, a). (k, f a)) ags) k = Some a'"
  then obtain a where a: "(k, a) \<in> set ags" "a' = a \<or> a' = f a"
    using update_first_mem map_of_SomeD by metis
  then have "map_of ags k = Some a" using map_of_is_SomeI [OF agents_wf_dict [OF wf]] by blast
  with a(2) f show "\<exists>a. map_of ags k = Some a \<and> agent_key_of a' = agent_key_of a \<and>
      (ag_lease_state a' = Lease_Active \<longrightarrow> ag_lease_state a = Lease_Active)" by metis
qed

lemma release_wf:
  assumes wf: "agents_wf (agents s)"
  shows "agents_wf (agents (snd (release_agent H ttl t1 t2 t3 aid iid lease_id e ws ro s)))"
proof -
  obtain r s1 where h: "heartbeat_agent H ttl t1 t2 aid iid lease_id e ws ro s = (r, s1)" by fastforce
  have s1: "agents_wf (agents s1)" using heartbeat_wf [OF wf, of H ttl t1 t2 aid iid lease_id e ws ro] h by simp
  show ?thesis
    using s1 agents_wf_update_first [OF s1, of "\<lambda>a. a\<lparr>ag_lease_state := Lease_Released, ag_updated_at := t3\<rparr>"]
    unfolding release_agent_def h
    by (cases r; cases ws) (simp_all add: agent_key_of_def)
qed

text \<open>The calls on the agent registry, as one step relation.\<close>

inductive agent_step :: "hashing \<Rightarrow> 'z agent_store_scheme \<Rightarrow> 'z agent_store_scheme \<Rightarrow> bool" for H where
  register_step: "agent_step H s (snd (register_agent H now lease_id g s))"
| heartbeat_step: "agent_step H s (snd (heartbeat_agent H ttl t1 t2 aid iid lease_id e ws ro s))"
| release_step: "agent_step H s (snd (release_agent H ttl t1 t2 t3 aid iid lease_id e ws ro s))"
| list_step: "agent_step H s (snd (list_agents now ttl ws rol s))"
| bind_step: "agent_step H s (snd (bind_thread b s))"
| turn_step: "agent_step H s (snd (set_turn_state w conv st req turn en s))"

inductive_cases agent_stepE: "agent_step H s s'"

lemma agents_bind_thread [simp]: "agents (snd (bind_thread b s)) = agents s"
  by (simp add: bind_thread_def)

lemma agents_set_turn_state [simp]: "agents (snd (set_turn_state w conv st req turn e s)) = agents s"
  by (simp add: set_turn_state_def split: option.split)

lemma agent_step_wf: "agent_step H s s' \<Longrightarrow> agents_wf (agents s) \<Longrightarrow> agents_wf (agents s')"
  by (induction rule: agent_step.induct)
    (simp_all only: register_wf heartbeat_wf release_wf list_agents_wf agents_bind_thread agents_set_turn_state)

section \<open>Epochs\<close>

lemma shared_epoch_fold:
  "fold (\<lambda>(k, a) e. if shares_lease g k then max e (ag_epoch a) else e) ags e \<ge> e"
proof (induction ags arbitrary: e)
  case (Cons x ags)
  obtain k a where x: "x = (k, a)" by (cases x)
  show ?case
    using Cons.IH [of e] order.trans [OF max.cobounded1 Cons.IH [of "max e (ag_epoch a)"]] by (simp add: x)
qed simp

lemma shared_epoch_ge_gen:
  assumes "(k, a) \<in> set ags" and "shares_lease g k"
  shows "ag_epoch a \<le> fold (\<lambda>(k, a) e. if shares_lease g k then max e (ag_epoch a) else e) ags e"
  using assms(1)
proof (induction ags arbitrary: e)
  case (Cons x ags)
  show ?case
  proof (cases "x = (k, a)")
    case True
    then show ?thesis
      using assms(2) order.trans [OF max.cobounded2 shared_epoch_fold [of "max e (ag_epoch a)" g ags]] by simp
  next
    case False
    with Cons.prems have "(k, a) \<in> set ags" by auto
    from Cons.IH [OF this] show ?thesis by (cases x) simp
  qed
qed simp

lemma shared_epoch_ge:
  "(k, a) \<in> set ags \<Longrightarrow> shares_lease g k \<Longrightarrow> ag_epoch a \<le> shared_epoch g ags"
  unfolding shared_epoch_def by (rule shared_epoch_ge_gen)

lemma lease_epoch_ge:
  assumes "map_of ags k = Some a" and "same_lease (registration_key g) k"
  shows "ag_epoch a \<le> lease_epoch g ags" and "rg_role g = Driver \<Longrightarrow> ag_epoch a < lease_epoch g ags"
proof -
  have "ag_epoch a \<le> shared_epoch g ags"
    using shared_epoch_ge map_of_SomeD [OF assms(1)] assms(2) shares_lease_iff by blast
  then show "ag_epoch a \<le> lease_epoch g ags" and "rg_role g = Driver \<Longrightarrow> ag_epoch a < lease_epoch g ags"
    by (auto simp: lease_epoch_def Let_def split: option.split)
qed

section \<open>Properties\<close>

lemma agent_steps_wf: "(agent_step H)\<^sup>*\<^sup>* s s' \<Longrightarrow> agents_wf (agents s) \<Longrightarrow> agents_wf (agents s')"
  by (induction rule: rtranclp_induct) (simp_all add: agent_step_wf)

text \<open>A registry with two successive Drivers and one conversation, on which the properties are evaluated.\<close>

definition demo_driver :: "string \<Rightarrow> agent_registration" where
  "demo_driver iid = \<lparr>rg_role = Driver, rg_agent_id = ''d'', rg_instance_id = iid, rg_workspace_id = ''w'',
     rg_endpoint_url = ''http://d/'', rg_protocol_version = ''2'', rg_capabilities = []\<rparr>"

definition demo_thread :: thread_binding where
  "demo_thread = \<lparr>tb_workspace_id = ''w'', tb_conversation_ref = ''c'', tb_thread_id = ''t'', tb_model = ''m'',
     tb_workspace_root = ''/'', tb_last_turn_id = None, tb_turn_state = Turn_In_Progress,
     tb_active_request_id = None, tb_driver_epoch = 1\<rparr>"

definition demo_a0 :: agent_store where
  "demo_a0 = \<lparr>message_receipts = [], message_receipt_events = [], runs = [], agents = [], driver_threads = [], agent_events = []\<rparr>"
definition demo_a1 :: agent_store where
  "demo_a1 = snd (register_agent demo_H 0 ''l1'' (demo_driver ''i1'') demo_a0)"
definition demo_a2 :: agent_store where
  "demo_a2 = snd (bind_thread demo_thread demo_a1)"
definition demo_a3 :: agent_store where
  "demo_a3 = snd (register_agent demo_H 5 ''l2'' (demo_driver ''i2'') demo_a2)"

lemmas agent_eval = demo_H_def demo_driver_def demo_thread_def demo_a0_def demo_a1_def demo_a2_def demo_a3_def
  register_agent_def valid_registration_def expire_shared_def dict_rewrite_def registration_key_def lease_epoch_def
  shared_epoch_def new_agent_def lease_hash_def recover_threads_def turn_active_def recovery_runs_def
  recover_message_receipts_for_driver_def bind_thread_def get_thread_def expire_agent_def Let_def

lemma demo_agents_run: "(agent_step demo_H)\<^sup>*\<^sup>* demo_a0 demo_a3"
proof -
  have "agent_step demo_H demo_a0 demo_a1" unfolding demo_a1_def by (rule register_step)
  moreover have "agent_step demo_H demo_a1 demo_a2" unfolding demo_a2_def by (rule bind_step)
  moreover have "agent_step demo_H demo_a2 demo_a3" unfolding demo_a3_def by (rule register_step)
  ultimately show ?thesis by (meson rtranclp.rtrancl_into_rtrancl rtranclp.rtrancl_refl)
qed

lemma demo_agents_wf: "agents_wf (agents demo_a2)"
proof -
  have "agents_wf (agents demo_a0)" by (simp add: demo_a0_def agents_wf_def)
  then show ?thesis by (simp add: demo_a2_def demo_a1_def register_wf del: agents_register)
qed

text \<open>
  Claim C30. Whatever sequence of registry calls is made from an empty registry, two active leases
  of one workspace and role (for Slaves: of one agent id as well) are the same lease, and every
  entry carries the identity it is keyed by.
\<close>

theorem lease_single_active:
  assumes "(agent_step H)\<^sup>*\<^sup>* s s'" and "agents s = []"
    and "map_of (agents s') k1 = Some a1" and "map_of (agents s') k2 = Some a2"
    and "ag_lease_state a1 = Lease_Active" and "ag_lease_state a2 = Lease_Active"
    and "ag_workspace_id a1 = ag_workspace_id a2" and "ag_role a1 = ag_role a2"
    and "ag_role a1 = Slave \<Longrightarrow> ag_agent_id a1 = ag_agent_id a2"
  shows "k1 = k2 \<and> a1 = a2 \<and> agent_key_of a1 = k1"
proof -
  have "agents_wf (agents s)" by (simp add: assms(2) agents_wf_def)
  then have wf: "agents_wf (agents s')" by (rule agent_steps_wf [OF assms(1)])
  have k: "agent_key_of a1 = k1" "agent_key_of a2 = k2"
    using agents_wf_key [OF wf] assms(3,4) by blast+
  have "same_lease (agent_key_of a1) (agent_key_of a2)"
    using assms(7-9) by (cases "ag_role a1") (auto simp: agent_key_of_def)
  then have "k1 = k2" using agents_wf_single [OF wf assms(3,4)] assms(5,6) k by simp
  with assms(3,4) k show ?thesis by simp
qed

theorem lease_single_active_witness:
  "\<exists>a1. map_of (agents demo_a3) (''w'', Driver, ''d'', ''i2'') = Some a1 \<and> ag_lease_state a1 = Lease_Active \<and>
     agent_key_of a1 = (''w'', Driver, ''d'', ''i2'')"
proof -
  obtain a where a: "map_of (agents demo_a3) (''w'', Driver, ''d'', ''i2'') = Some a" "ag_lease_state a = Lease_Active"
    by (simp add: agent_eval)
  have "agents demo_a0 = []" by (simp add: demo_a0_def)
  from lease_single_active [OF demo_agents_run this a(1) a(1) a(2) a(2)] a show ?thesis by simp
qed

text \<open>The registry records of one lease after a registration: the new one, and inactive old ones.\<close>

lemma register_record:
  assumes v: "valid_registration g" and m: "map_of (agents (snd (register_agent H now lease_id g s))) k = Some a"
    and l: "same_lease (registration_key g) k"
  shows "ag_lease_state a \<noteq> Lease_Active \<or>
    (k = registration_key g \<and> ag_epoch a = lease_epoch g (agents s) \<and> ag_lease_id_hash a = lease_hash H lease_id)"
  using m l expire_shared_inactive [of now g "agents s" k a]
  unfolding agents_register [OF v] dict_get_set shares_lease_iff
  by (auto simp: new_agent_def split: if_splits)

lemma expire_stale_SomeD:
  assumes "map_of (expire_stale now ttl ws ro ags) k = Some a"
  shows "\<exists>b. map_of ags k = Some b \<and> (ag_lease_state a = Lease_Active \<longrightarrow> a = b)"
proof -
  from assms obtain b where "map_of ags k = Some b" and
    "a = (if fst k = ws \<and> (ro = None \<or> ro = Some (fst (snd k))) \<and> ag_lease_state b = Lease_Active \<and>
       ag_last_seen_at b < lease_cutoff now ttl then b\<lparr>ag_lease_state := Lease_Expired\<rparr> else b)"
    unfolding expire_stale_def map_of_dict_rewrite map_option_eq_Some by blast
  then show ?thesis by auto
qed

lemma heartbeat_fenced:
  assumes wf: "agents_wf (agents s)"
    and no: "\<And>k a. map_of (agents s) k = Some a \<Longrightarrow> same_lease (w, ro, aid, iid) k \<Longrightarrow> \<not> lease_matches H iid lease_id e a"
  shows "fst (heartbeat_agent H ttl t1 t2 aid iid lease_id e (Some w) ro s) = Inl (stale_lease ro)"
proof -
  define s1 where "s1 = heartbeat_expired ttl t1 (Some w) ro s"
  have ags: "agents s1 = expire_stale t1 ttl w (Some ro) (agents s)"
    by (simp add: s1_def heartbeat_expired_def list_agents_def Let_def)
  have "\<not> lease_matches H iid lease_id e a" if lk: "lookup_agent w ro aid (Some iid) s1 = Some a" for a
  proof -
    obtain i where i: "map_of (agents s1) (w, ro, aid, i) = Some a"
      using lookup_agent_SomeD [OF lk] agents_wf_dict [OF expire_stale_wf [OF wf]] ags by auto
    obtain b where b: "map_of (agents s) (w, ro, aid, i) = Some b" "ag_lease_state a = Lease_Active \<longrightarrow> a = b"
      using expire_stale_SomeD [OF i [unfolded ags]] by blast
    with no [OF b(1)] show ?thesis by (auto simp: lease_matches_def)
  qed
  then show ?thesis
    unfolding heartbeat_cases Let_def s1_def [symmetric] heartbeat_candidate_def option.case
    by (auto split: option.split)
qed

text \<open>
  A registration fences every lease it displaces: afterwards a heartbeat on the same lease
  succeeds for no other lease id than the new one (lease ids being told apart by their hash); and a
  Driver's new epoch exceeds that of every earlier record, so a heartbeat with an earlier Driver's
  epoch is refused with \<^verbatim>\<open>stale_driver_epoch\<close> whatever lease id it presents.
\<close>

theorem registration_fences:
  assumes wf: "agents_wf (agents s)" and reg: "register_agent H now lease_id g s = (Inr lease, s')"
    and old: "map_of (agents s) k = Some a" and l: "same_lease (registration_key g) k"
  shows "(lease_hash H other \<noteq> lease_hash H lease_id \<longrightarrow>
      fst (heartbeat_agent H ttl t1 t2 (ag_agent_id a) (ag_instance_id a) other e
        (Some (ag_workspace_id a)) (ag_role a) s') = Inl (stale_lease (rg_role g))) \<and>
    (rg_role g = Driver \<longrightarrow> ag_epoch a < al_epoch lease \<and>
      fst (heartbeat_agent H ttl t1 t2 (ag_agent_id a) (ag_instance_id a) other (ag_epoch a)
        (Some (ag_workspace_id a)) (ag_role a) s') = Inl (ValueError ''stale_driver_epoch''))"
proof -
  let ?k = "(ag_workspace_id a, ag_role a, ag_agent_id a, ag_instance_id a)"
  have v: "valid_registration g" using reg by (auto simp: register_agent_def split: if_splits)
  have s': "s' = snd (register_agent H now lease_id g s)" using reg by simp
  have ep: "al_epoch lease = lease_epoch g (agents s)" using reg v by (auto simp: register_agent_def Let_def)
  have k: "k = ?k" using agents_wf_key [OF wf old] by (simp add: agent_key_of_def)
  have ro: "ag_role a = rg_role g" using l k by (simp add: registration_key_def)
  have wf': "agents_wf (agents s')" unfolding s' by (rule register_wf [OF wf])
  have rec: "ag_lease_state b \<noteq> Lease_Active \<or>
      (ag_epoch b = lease_epoch g (agents s) \<and> ag_lease_id_hash b = lease_hash H lease_id)"
    if "map_of (agents s') k' = Some b" "same_lease ?k k'" for k' b
    using register_record [OF v that(1) [unfolded s']] same_lease_trans [OF l [unfolded k] that(2)] by blast
  have "fst (heartbeat_agent H ttl t1 t2 (ag_agent_id a) (ag_instance_id a) other e
        (Some (ag_workspace_id a)) (ag_role a) s') = Inl (stale_lease (ag_role a))"
    if "lease_hash H other \<noteq> lease_hash H lease_id"
    using rec that by (intro heartbeat_fenced [OF wf']) (metis lease_matches_def)
  moreover have "fst (heartbeat_agent H ttl t1 t2 (ag_agent_id a) (ag_instance_id a) other (ag_epoch a)
        (Some (ag_workspace_id a)) (ag_role a) s') = Inl (stale_lease (ag_role a))"
    if "rg_role g = Driver"
    using rec lease_epoch_ge(2) [OF old l that]
    by (intro heartbeat_fenced [OF wf']) (metis lease_matches_def less_irrefl)
  ultimately show ?thesis using lease_epoch_ge(2) [OF old l] by (auto simp: ro stale_lease_def ep)
qed

theorem registration_fences_witness:
  "\<exists>lease. register_agent demo_H 5 ''l2'' (demo_driver ''i2'') demo_a2 = (Inr lease, demo_a3) \<and> 1 < al_epoch lease \<and>
     fst (heartbeat_agent demo_H (seconds 30) 6 7 ''d'' ''i1'' ''l1'' 1 (Some ''w'') Driver demo_a3)
       = Inl (ValueError ''stale_driver_epoch'')"
proof -
  obtain lease where reg: "register_agent demo_H 5 ''l2'' (demo_driver ''i2'') demo_a2 = (Inr lease, demo_a3)"
    by (simp add: agent_eval)
  obtain a where a: "map_of (agents demo_a2) (''w'', Driver, ''d'', ''i1'') = Some a" "ag_epoch a = 1"
      "agent_key_of a = (''w'', Driver, ''d'', ''i1'')"
    by (simp add: agent_eval agent_key_of_def)
  have "same_lease (registration_key (demo_driver ''i2'')) (''w'', Driver, ''d'', ''i1'')" and "rg_role (demo_driver ''i2'') = Driver"
    by (simp_all add: registration_key_def demo_driver_def)
  from registration_fences [OF demo_agents_wf reg a(1) this(1), of "''l1''" "seconds 30" 6 7 1] this(2) reg a
  show ?thesis by (simp add: agent_key_of_def)
qed

text \<open>A registration's own record after the expiry sweep of a heartbeat, and its lookup by instance.\<close>

lemma head_of_singleton:
  "set xs = {a} \<Longrightarrow> (case xs of [] \<Rightarrow> None | x # _ \<Rightarrow> Some x) = Some a"
  by (cases xs) auto

lemma lookup_instance:
  assumes wf: "agents_wf (agents s)" and m: "map_of (agents s) (w, ro, aid, iid) = Some a"
  shows "lookup_agent w ro aid (Some iid) s = Some a"
proof -
  let ?l = "map snd (filter (\<lambda>((w', r, i, _), a). w' = w \<and> r = ro \<and> i = aid \<and>
      (Some iid = None \<or> Some iid = Some (ag_instance_id a))) (agents s))"
  have "b = a" if "b \<in> set ?l" for b
  proof -
    from that obtain i where i: "((w, ro, aid, i), b) \<in> set (agents s)" "ag_instance_id b = iid" by auto
    have "map_of (agents s) (w, ro, aid, i) = Some b" by (rule map_of_is_SomeI [OF agents_wf_dict [OF wf] i(1)])
    with agents_wf_key [OF wf this] i(2) m show ?thesis by (simp add: agent_key_of_def)
  qed
  moreover have "a \<in> set ?l"
    using map_of_SomeD [OF m] agents_wf_key [OF wf m] by (force simp: agent_key_of_def)
  ultimately have "set (sort_key (\<lambda>a. - ag_updated_at a) ?l) = {a}" unfolding set_sort by blast
  then show ?thesis unfolding lookup_agent_def by (rule head_of_singleton)
qed

text \<open>
  A lease lives exactly as long as its time-to-live: after a registration at \<open>now\<close>, a
  heartbeat at \<open>t1\<close> with the issued lease id and epoch is accepted if and only if no more than the
  time-to-live (at least one second) has passed; otherwise it is refused as stale.
\<close>

theorem lease_lives_for_ttl:
  assumes wf: "agents_wf (agents s)" and reg: "register_agent H now lease_id g s = (Inr lease, s')"
  shows "fst (heartbeat_agent H ttl t1 t2 (rg_agent_id g) (rg_instance_id g) lease_id (al_epoch lease)
      (Some (rg_workspace_id g)) (rg_role g) s') =
    (if t1 - now \<le> max (seconds 1) ttl
     then Inr \<lparr>al_agent_id = rg_agent_id g, al_instance_id = rg_instance_id g, al_workspace_id = rg_workspace_id g,
               al_lease_id = lease_id, al_epoch = al_epoch lease, al_driver_epoch = al_epoch lease,
               al_thread_bindings = [], al_recovery_runs = []\<rparr>
     else Inl (stale_lease (rg_role g)))"
proof -
  let ?k = "registration_key g"
  let ?a = "new_agent H now lease_id g (lease_epoch g (agents s)) (map_of (expire_shared now g (agents s)) ?k)"
  let ?old = "ag_last_seen_at ?a < lease_cutoff t1 ttl"
  let ?a' = "if ?old then ?a\<lparr>ag_lease_state := Lease_Expired\<rparr> else ?a"
  have v: "valid_registration g" using reg by (auto simp: register_agent_def split: if_splits)
  have s': "s' = snd (register_agent H now lease_id g s)" using reg by simp
  have ep: "al_epoch lease = lease_epoch g (agents s)" using reg v by (auto simp: register_agent_def Let_def)
  define s1 where "s1 = heartbeat_expired ttl t1 (Some (rg_workspace_id g)) (rg_role g) s'"
  have ags: "agents s1 = expire_stale t1 ttl (rg_workspace_id g) (Some (rg_role g)) (agents s')"
    by (simp add: s1_def heartbeat_expired_def list_agents_def Let_def)
  have wf1: "agents_wf (agents s1)" unfolding ags s' by (intro expire_stale_wf register_wf wf)
  have "map_of (agents s1) ?k = Some ?a'"
    unfolding ags s' agents_register [OF v] expire_stale_def map_of_dict_rewrite dict_get_set
    by (simp add: registration_key_def new_agent_def)
  then have "lookup_agent (rg_workspace_id g) (rg_role g) (rg_agent_id g) (Some (rg_instance_id g)) s1 = Some ?a'"
    using lookup_instance [OF wf1] by (simp add: registration_key_def)
  then show ?thesis
    unfolding heartbeat_cases Let_def s1_def [symmetric] heartbeat_candidate_def option.case
    by (simp add: lease_matches_def new_agent_def lease_cutoff_def ep)
qed

theorem lease_lives_for_ttl_witness:
  "fst (heartbeat_agent demo_H (seconds 30) (seconds 40) 7 ''d'' ''i2'' ''l2'' 2 (Some ''w'') Driver demo_a3)
       = Inl (stale_lease Driver) \<and>
   fst (heartbeat_agent demo_H (seconds 30) (seconds 20) 7 ''d'' ''i2'' ''l2'' 2 (Some ''w'') Driver demo_a3) \<noteq>
       Inl (stale_lease Driver)"
proof -
  obtain lease where reg: "register_agent demo_H 5 ''l2'' (demo_driver ''i2'') demo_a2 = (Inr lease, demo_a3)"
      "al_epoch lease = 2"
    by (simp add: agent_eval)
  show ?thesis
    using lease_lives_for_ttl [OF demo_agents_wf reg(1), of "seconds 30" "seconds 40" 7]
      lease_lives_for_ttl [OF demo_agents_wf reg(1), of "seconds 30" "seconds 20" 7] reg(2)
    by (simp add: demo_driver_def)
qed

text \<open>Threads are keyed by workspace and conversation, and a thread id names one conversation of a workspace.\<close>

definition threads_wf :: "((string \<times> string) \<times> thread_binding) list \<Rightarrow> bool" where
  "threads_wf ths =
     (dict_wf ths \<and>
      (\<forall>k t. map_of ths k = Some t \<longrightarrow> k = (tb_workspace_id t, tb_conversation_ref t)) \<and>
      (\<forall>k1 t1 k2 t2. map_of ths k1 = Some t1 \<and> map_of ths k2 = Some t2 \<and> fst k1 = fst k2 \<and>
         tb_thread_id t1 = tb_thread_id t2 \<longrightarrow> k1 = k2))"

lemma threads_wfI:
  assumes "dict_wf ths"
    and "\<And>k t. map_of ths k = Some t \<Longrightarrow> k = (tb_workspace_id t, tb_conversation_ref t)"
    and "\<And>k1 t1 k2 t2. map_of ths k1 = Some t1 \<Longrightarrow> map_of ths k2 = Some t2 \<Longrightarrow> fst k1 = fst k2 \<Longrightarrow>
      tb_thread_id t1 = tb_thread_id t2 \<Longrightarrow> k1 = k2"
  shows "threads_wf ths"
  unfolding threads_wf_def using assms by blast

lemma threads_wfD:
  assumes "threads_wf ths"
  shows "dict_wf ths" and "map_of ths k = Some t \<Longrightarrow> k = (tb_workspace_id t, tb_conversation_ref t)"
    and "map_of ths k1 = Some t1 \<Longrightarrow> map_of ths k2 = Some t2 \<Longrightarrow> fst k1 = fst k2 \<Longrightarrow>
      tb_thread_id t1 = tb_thread_id t2 \<Longrightarrow> k1 = k2"
  using assms unfolding threads_wf_def by blast+

lemma bind_thread_wf:
  assumes wf: "threads_wf (driver_threads s)"
  shows "threads_wf (driver_threads (snd (bind_thread b s)))"
proof (cases "fst (bind_thread b s)")
  case (Inl e)
  then show ?thesis using wf by (auto simp: bind_thread_def split: if_splits)
next
  case (Inr b')
  let ?ths = "driver_threads s" and ?k = "(tb_workspace_id b, tb_conversation_ref b)"
  have free: "k = ?k" if "map_of ?ths k = Some t" "fst k = tb_workspace_id b" "tb_thread_id t = tb_thread_id b" for k t
  proof -
    let ?p = "\<lambda>(k, t). fst k = tb_workspace_id b \<and> tb_thread_id t = tb_thread_id b \<and> k \<noteq> ?k"
    have "\<not> list_ex ?p ?ths" using Inr by (auto simp: bind_thread_def split: if_splits)
    with map_of_SomeD [OF that(1)] have "\<not> ?p (k, t)" unfolding list_ex_iff by blast
    with that(2,3) show ?thesis by simp
  qed
  have u: "driver_threads (snd (bind_thread b s)) = AList.update ?k b ?ths"
    using Inr by (auto simp: bind_thread_def split: if_splits)
  show ?thesis unfolding u
  proof (rule threads_wfI)
    show "dict_wf (AList.update ?k b ?ths)" using threads_wfD(1) [OF wf] by (rule dict_wf_set)
  next
    fix k t assume "map_of (AList.update ?k b ?ths) k = Some t"
    then show "k = (tb_workspace_id t, tb_conversation_ref t)"
      using threads_wfD(2) [OF wf, of k t] by (simp only: dict_get_set split: if_splits) simp_all
  next
    fix k1 t1 k2 t2
    assume "map_of (AList.update ?k b ?ths) k1 = Some t1" "map_of (AList.update ?k b ?ths) k2 = Some t2"
      and "fst k1 = fst k2" "tb_thread_id t1 = tb_thread_id t2"
    then show "k1 = k2"
      using free [of k1 t1] free [of k2 t2] threads_wfD(3) [OF wf, of k1 t1 k2 t2]
      by (metis (no_types, lifting) dict_get_set fst_conv option.inject)
  qed
qed

lemma recover_threads_SomeD:
  assumes "map_of (recover_threads w e ths) k = Some t'"
  shows "\<exists>t. map_of ths k = Some t \<and> tb_workspace_id t' = tb_workspace_id t \<and>
    tb_conversation_ref t' = tb_conversation_ref t \<and> tb_thread_id t' = tb_thread_id t"
proof -
  from assms obtain t where "map_of ths k = Some t" and
    "t' = (if fst k = w \<and> turn_active t then t\<lparr>tb_turn_state := Turn_Recovery_Pending, tb_driver_epoch := e\<rparr> else t)"
    unfolding recover_threads_def map_of_dict_rewrite map_option_eq_Some by blast
  then show ?thesis by auto
qed

lemma recover_threads_wf:
  assumes wf: "threads_wf ths"
  shows "threads_wf (recover_threads w e ths)"
proof (rule threads_wfI)
  show "dict_wf (recover_threads w e ths)" using threads_wfD(1) [OF wf] by (simp add: recover_threads_def)
next
  fix k t assume "map_of (recover_threads w e ths) k = Some t"
  from recover_threads_SomeD [OF this] threads_wfD(2) [OF wf] show "k = (tb_workspace_id t, tb_conversation_ref t)" by metis
next
  fix k1 t1 k2 t2
  assume m: "map_of (recover_threads w e ths) k1 = Some t1" "map_of (recover_threads w e ths) k2 = Some t2"
    and e: "fst k1 = fst k2" "tb_thread_id t1 = tb_thread_id t2"
  from recover_threads_SomeD [OF m(1)] recover_threads_SomeD [OF m(2)] e threads_wfD(3) [OF wf]
  show "k1 = k2" by metis
qed

lemma threads_register:
  "driver_threads (snd (register_agent H now lease_id g s)) =
     (if valid_registration g \<and> rg_role g = Driver
      then recover_threads (rg_workspace_id g) (lease_epoch g (agents s)) (driver_threads s) else driver_threads s)"
  by (simp add: register_agent_def Let_def)

lemma threads_list [simp]: "driver_threads (snd (list_agents now ttl w ro s)) = driver_threads s"
  by (simp add: list_agents_def Let_def)

lemma threads_heartbeat [simp]:
  "driver_threads (snd (heartbeat_agent H ttl t1 t2 aid iid lease_id e ws ro s)) = driver_threads s"
  by (cases ws) (simp_all add: heartbeat_cases heartbeat_expired_def Let_def split: option.split)

lemma threads_release [simp]:
  "driver_threads (snd (release_agent H ttl t1 t2 t3 aid iid lease_id e ws ro s)) = driver_threads s"
proof -
  obtain r s1 where h: "heartbeat_agent H ttl t1 t2 aid iid lease_id e ws ro s = (r, s1)" by fastforce
  have "driver_threads s1 = driver_threads s" using threads_heartbeat [of H ttl t1 t2 aid iid lease_id e ws ro s] by (simp add: h)
  then show ?thesis unfolding release_agent_def h by (cases r; cases ws) simp_all
qed

lemma set_turn_state_wf:
  "threads_wf (driver_threads s) \<Longrightarrow> threads_wf (driver_threads (snd (set_turn_state w conv st req turn e s)))"
  by (simp add: set_turn_state_def bind_thread_wf split: option.split)

lemma agent_step_threads_wf:
  "agent_step H s s' \<Longrightarrow> threads_wf (driver_threads s) \<Longrightarrow> threads_wf (driver_threads s')"
  by (induction rule: agent_step.induct)
    (simp_all add: threads_register recover_threads_wf bind_thread_wf set_turn_state_wf)

text \<open>
  In every registry reached from an empty one, a Codex thread belongs to one conversation
  of its workspace: two bindings of a workspace with the same thread id are the same binding.
\<close>

theorem thread_binding_unique:
  assumes "(agent_step H)\<^sup>*\<^sup>* s s'" and "driver_threads s = []"
    and "get_thread w c1 s' = Some t1" and "get_thread w c2 s' = Some t2" and "tb_thread_id t1 = tb_thread_id t2"
  shows "c1 = c2 \<and> t1 = t2 \<and> tb_conversation_ref t1 = c1"
proof -
  have "threads_wf (driver_threads s)" by (simp add: assms(2) threads_wf_def)
  with assms(1) have wf: "threads_wf (driver_threads s')"
    by (induction rule: rtranclp_induct) (simp_all add: agent_step_threads_wf)
  note m = assms(3,4) [unfolded get_thread_def]
  have "(w, c1) = (w, c2)" by (rule threads_wfD(3) [OF wf m]) (simp_all add: assms(5))
  with m threads_wfD(2) [OF wf m(1)] show ?thesis by auto
qed

theorem thread_binding_unique_witness:
  "\<exists>t. get_thread ''w'' ''c'' demo_a3 = Some t \<and> tb_thread_id t = ''t'' \<and> tb_conversation_ref t = ''c''"
proof -
  obtain t where t: "get_thread ''w'' ''c'' demo_a3 = Some t" "tb_thread_id t = ''t''"
    by (simp add: agent_eval)
  have "driver_threads demo_a0 = []" by (simp add: demo_a0_def)
  from thread_binding_unique [OF demo_agents_run this t(1) t(1)] t show ?thesis by simp
qed

text \<open>
  A Driver registration hands the new Driver every conversation of its workspace with no
  turn left active: turns that were starting or in progress are pending recovery under the new
  epoch, all other bindings are unchanged, and those of other workspaces are not touched. The lease
  lists exactly the bindings of the workspace, and the workspace's runs that are thinking or running.
\<close>

theorem driver_registration_recovers:
  assumes reg: "register_agent H now lease_id g s = (Inr lease, s')" and d: "rg_role g = Driver"
  shows "get_thread w c s' =
      map_option (\<lambda>t. if w = rg_workspace_id g \<and> tb_turn_state t \<in> {Turn_Starting, Turn_In_Progress}
        then t\<lparr>tb_turn_state := Turn_Recovery_Pending, tb_driver_epoch := al_epoch lease\<rparr> else t) (get_thread w c s) \<and>
    al_thread_bindings lease = map snd (filter (\<lambda>(k, t). fst k = rg_workspace_id g) (driver_threads s')) \<and>
    list_all (\<lambda>t. tb_turn_state t \<notin> {Turn_Starting, Turn_In_Progress}) (al_thread_bindings lease) \<and>
    al_recovery_runs lease = filter (\<lambda>r. (\<exists>c. rn_closure_contract r = Some c \<and> cc_workspace_id c = rg_workspace_id g) \<and>
      rn_state r \<in> {Thinking, Running}) (map snd (runs s))"
proof -
  have v: "valid_registration g" using reg by (auto simp: register_agent_def split: if_splits)
  have t: "driver_threads s' = recover_threads (rg_workspace_id g) (al_epoch lease) (driver_threads s)"
    using reg v d threads_register [of H now lease_id g s] by (auto simp: register_agent_def Let_def)
  have b: "al_thread_bindings lease = map snd (filter (\<lambda>(k, t). fst k = rg_workspace_id g) (driver_threads s'))"
    using reg v d by (auto simp: register_agent_def Let_def)
  have "get_thread w c s' =
      map_option (\<lambda>t. if w = rg_workspace_id g \<and> tb_turn_state t \<in> {Turn_Starting, Turn_In_Progress}
        then t\<lparr>tb_turn_state := Turn_Recovery_Pending, tb_driver_epoch := al_epoch lease\<rparr> else t) (get_thread w c s)"
    by (simp add: get_thread_def t recover_threads_def map_of_dict_rewrite turn_active_def)
  moreover have "list_all (\<lambda>t. tb_turn_state t \<notin> {Turn_Starting, Turn_In_Progress}) (al_thread_bindings lease)"
    unfolding b t recover_threads_def dict_rewrite_def list_all_iff
    by (auto simp: turn_active_def split: if_splits)
  moreover have "al_recovery_runs lease = filter (\<lambda>r. (\<exists>c. rn_closure_contract r = Some c \<and> cc_workspace_id c = rg_workspace_id g) \<and>
      rn_state r \<in> {Thinking, Running}) (map snd (runs s))"
    using reg v d by (auto simp: register_agent_def Let_def recovery_runs_def intro!: filter_cong split: option.splits)
  ultimately show ?thesis using b by simp
qed

theorem driver_registration_recovers_witness:
  "\<exists>t. get_thread ''w'' ''c'' demo_a3 = Some t \<and> tb_turn_state t = Turn_Recovery_Pending \<and> tb_driver_epoch t = 2"
proof -
  obtain lease where reg: "register_agent demo_H 5 ''l2'' (demo_driver ''i2'') demo_a2 = (Inr lease, demo_a3)"
      "al_epoch lease = 2"
    by (simp add: agent_eval)
  have "get_thread ''w'' ''c'' demo_a2 = Some demo_thread" and "rg_role (demo_driver ''i2'') = Driver"
    by (simp_all add: agent_eval)
  with driver_registration_recovers [OF reg(1), of "''w''" "''c''"] reg(2)
  show ?thesis by (simp add: demo_driver_def demo_thread_def)
qed

end
