(* ===== verification/Content.thy ===== *)
theory Content
  imports Contracts "HOL-Library.Multiset"
begin

text \<open>
  The content-addressed store (\<^verbatim>\<open>loom_v2/content_store.py\<close>), the JSON Schema policy boundary
  (\<^verbatim>\<open>contracts/io_schema.py\<close>) and the package contract registry (\<^verbatim>\<open>contracts/package_contracts.py\<close>).

  The S3 client (\<^verbatim>\<open>boto3\<close> and the service behind it) is a parameter, the record \<open>s3\<close>, whose fields
  return the error code of a \<^verbatim>\<open>ClientError\<close> or a response; what the round-trip property relies on is
  the predicate \<open>s3_laws\<close>. The \<^verbatim>\<open>jsonschema\<close> validator, \<^verbatim>\<open>json.loads\<close> and \<^verbatim>\<open>json.dumps\<close> are fields of
  the environment \<open>env\<close>.
\<close>

section \<open>The S3 client\<close>

record s3_head =
  sh_content_length :: "int option"
  sh_content_type :: "string option"
  sh_metadata :: "(string \<times> string) list"

record 'b s3 =
  s3_head_bucket :: "'b \<Rightarrow> string option"
  s3_create_bucket :: "'b \<Rightarrow> string option \<times> 'b"
  s3_head_object :: "string \<Rightarrow> 'b \<Rightarrow> string + s3_head"
  s3_put_object :: "string \<Rightarrow> string \<Rightarrow> string \<Rightarrow> (string \<times> string) list \<Rightarrow> 'b \<Rightarrow> string option \<times> 'b"
  s3_get_object :: "string \<Rightarrow> 'b \<Rightarrow> string + string"

section \<open>ContentStore\<close>

record 'b content_store =
  st_prefix :: string
  st_bucket_ready :: bool
  st_bucket :: 'b

type_synonym ('b, 'a) store_op = "('b content_store, 'a) op"

record content_stat =
  ct_size :: int
  ct_declared_digest :: "string option"
  ct_media_type :: string
  ct_integrity_verified :: bool

definition octet_stream :: string where
  "octet_stream = ''application/octet-stream''"

definition content_digest :: "hashing \<Rightarrow> string \<Rightarrow> string" where
  "content_digest H content = digest_bytes H content []"

definition normalize_digest :: "string \<Rightarrow> string result" where
  "normalize_digest value =
     (let raw0 = strip value;
          raw = (if startswith raw0 content_prefix then removeprefix raw0 content_prefix
                 else if startswith raw0 ''sha256:'' then removeprefix raw0 ''sha256:'' else raw0)
      in if any_sha256 raw then Inr (lower raw) else Inl (ValueError ''invalid_content_digest''))"

definition digest_from_ref :: "resource_ref \<Rightarrow> string result" where
  "digest_from_ref r =
     (if rr_identity_criterion r \<notin> {None, Some ''content_digest''} then Inl (ValueError ''invalid_content_digest'')
      else normalize_digest (rr_resource_id r))"

definition store_key :: "'b content_store \<Rightarrow> string \<Rightarrow> string" where
  "store_key st digest = (if st_prefix st \<noteq> [] then st_prefix st @ ''/'' @ digest else digest)"

definition is_not_found :: "string \<Rightarrow> bool" where
  "is_not_found code = (code \<in> {''404'', ''NoSuchKey'', ''NoSuchBucket'', ''NotFound''})"

definition is_precondition_failed :: "string \<Rightarrow> bool" where
  "is_precondition_failed code = (code \<in> {''412'', ''PreconditionFailed'', ''ConditionalRequestConflict''})"

definition bucket_exists_code :: "string \<Rightarrow> bool" where
  "bucket_exists_code code = (code \<in> {''BucketAlreadyOwnedByYou'', ''BucketAlreadyExists''})"

definition ensure_bucket :: "'b s3 \<Rightarrow> ('b, unit) store_op" where
  "ensure_bucket S st =
     (if st_bucket_ready st then (Inr (), st)
      else (case s3_head_bucket S (st_bucket st) of
              None \<Rightarrow> (Inr (), st\<lparr>st_bucket_ready := True\<rparr>)
            | Some code \<Rightarrow>
                if \<not> is_not_found code
                then (if bucket_exists_code code then (Inr (), st\<lparr>st_bucket_ready := True\<rparr>)
                      else (Inl (ClientError code), st))
                else (case s3_create_bucket S (st_bucket st) of
                        (Some code', b) \<Rightarrow>
                          if bucket_exists_code code' then (Inr (), st\<lparr>st_bucket_ready := True, st_bucket := b\<rparr>)
                          else (Inl (ClientError code'), st\<lparr>st_bucket := b\<rparr>)
                      | (None, b) \<Rightarrow> (Inr (), st\<lparr>st_bucket_ready := True, st_bucket := b\<rparr>))))"

text \<open>\<^verbatim>\<open>_head_sync\<close>: the internal \<^verbatim>\<open>_NotFound\<close> marker is the response \<open>None\<close>.\<close>

definition head_sync :: "'b s3 \<Rightarrow> string \<Rightarrow> ('b, s3_head option) store_op" where
  "head_sync S digest st =
     (case ensure_bucket S st of
        (Inl e, st') \<Rightarrow> (Inl e, st')
      | (Inr _, st') \<Rightarrow>
          (case s3_head_object S (store_key st' digest) (st_bucket st') of
             Inl code \<Rightarrow> (if is_not_found code then Inr None else Inl (ClientError code), st')
           | Inr h \<Rightarrow> (Inr (Some h), st')))"

definition metadata_digest :: "(string \<times> string) list \<Rightarrow> string option" where
  "metadata_digest m = map_option (\<lambda>(k, v). lower v) (List.find (\<lambda>(k, v). lower k = ''sha256'') m)"

definition media_type_of :: "s3_head \<Rightarrow> string" where
  "media_type_of h = (if nonempty (sh_content_type h) then the (sh_content_type h) else octet_stream)"

definition validate_head :: "s3_head \<Rightarrow> string \<Rightarrow> int \<Rightarrow> string \<Rightarrow> unit result" where
  "validate_head h digest sz media_type =
     (if metadata_digest (sh_metadata h) \<noteq> Some digest \<or>
         (case sh_content_length h of None \<Rightarrow> -1 | Some n \<Rightarrow> n) \<noteq> sz \<or> media_type_of h \<noteq> media_type
      then Inl (ValueError ''content_integrity_conflict'')
      else Inr ())"

definition content_ref :: "string \<Rightarrow> string \<Rightarrow> resource_ref" where
  "content_ref digest media_type =
     \<lparr>rr_resource_id = content_prefix @ digest, rr_version_or_digest = None,
      rr_access_binding = [(''media_type'', JStr media_type)],
      rr_identity_criterion = Some ''content_digest'', rr_provenance = []\<rparr>"

definition content_put :: "hashing \<Rightarrow> 'b s3 \<Rightarrow> string \<Rightarrow> string \<Rightarrow> ('b, resource_ref) store_op" where
  "content_put H S content media_type st =
     (let digest = content_digest H content;
          sz = int (length content);
          ref = content_ref digest media_type;
          check = (\<lambda>h st'. case validate_head h digest sz media_type of
                     Inl e \<Rightarrow> (Inl e, st') | Inr _ \<Rightarrow> (Inr ref, st'))
      in case ensure_bucket S st of
           (Inl e, st0) \<Rightarrow> (Inl e, st0)
         | (Inr _, st0) \<Rightarrow>
             (case head_sync S digest st0 of
                (Inl e, st1) \<Rightarrow> (Inl e, st1)
              | (Inr (Some h), st1) \<Rightarrow> check h st1
              | (Inr None, st1) \<Rightarrow>
                  (case ensure_bucket S st1 of
                     (Inl e, st2) \<Rightarrow> (Inl e, st2)
                   | (Inr _, st2) \<Rightarrow>
                       (case s3_put_object S (store_key st2 digest) content media_type [(''sha256'', digest)] (st_bucket st2) of
                          (None, b) \<Rightarrow> (Inr ref, st2\<lparr>st_bucket := b\<rparr>)
                        | (Some code, b) \<Rightarrow>
                            if \<not> is_precondition_failed code then (Inl (ClientError code), st2\<lparr>st_bucket := b\<rparr>)
                            else (case head_sync S digest (st2\<lparr>st_bucket := b\<rparr>) of
                                    (Inl e, st3) \<Rightarrow> (Inl e, st3)
                                  | (Inr None, st3) \<Rightarrow> (Inl (RuntimeError ''_NotFound''), st3)
                                  | (Inr (Some h), st3) \<Rightarrow> check h st3)))))"

definition get_sync :: "'b s3 \<Rightarrow> string \<Rightarrow> ('b, string option) store_op" where
  "get_sync S digest st =
     (case ensure_bucket S st of
        (Inl e, st') \<Rightarrow> (Inl e, st')
      | (Inr _, st') \<Rightarrow>
          (case s3_get_object S (store_key st' digest) (st_bucket st') of
             Inl code \<Rightarrow> (if is_not_found code then Inr None else Inl (ClientError code), st')
           | Inr body \<Rightarrow> (Inr (Some body), st')))"

definition content_get :: "hashing \<Rightarrow> 'b s3 \<Rightarrow> string option \<Rightarrow> resource_ref \<Rightarrow> ('b, string) store_op" where
  "content_get H S expected_digest r st =
     (case digest_from_ref r of
        Inl e \<Rightarrow> (Inl e, st)
      | Inr digest \<Rightarrow>
          (case (case expected_digest of
                   None \<Rightarrow> Inr None
                 | Some d \<Rightarrow> (case normalize_digest d of
                              Inl _ \<Rightarrow> Inl (ValueError ''content_digest_mismatch'')
                            | Inr x \<Rightarrow> Inr (Some x))) of
             Inl e \<Rightarrow> (Inl e, st)
           | Inr expected \<Rightarrow>
               (case get_sync S digest st of
                  (Inl e, st') \<Rightarrow> (Inl e, st')
                | (Inr None, st') \<Rightarrow> (Inl (FileNotFoundError ''content_not_found''), st')
                | (Inr (Some content), st') \<Rightarrow>
                    let actual = content_digest H content
                    in if actual \<noteq> digest \<or> (expected \<noteq> None \<and> Some actual \<noteq> expected)
                       then (Inl (ValueError ''content_digest_mismatch''), st')
                       else (Inr content, st'))))"

definition content_exists :: "'b s3 \<Rightarrow> resource_ref \<Rightarrow> ('b, bool) store_op" where
  "content_exists S r st =
     (case digest_from_ref r of
        Inl e \<Rightarrow> (Inl e, st)
      | Inr digest \<Rightarrow>
          (case head_sync S digest st of
             (Inl e, st') \<Rightarrow> (Inl e, st')
           | (Inr h, st') \<Rightarrow> (Inr (h \<noteq> None), st')))"

definition stat_of_head :: "string \<Rightarrow> s3_head \<Rightarrow> content_stat" where
  "stat_of_head digest h =
     \<lparr>ct_size = (case sh_content_length h of None \<Rightarrow> 0 | Some n \<Rightarrow> n),
      ct_declared_digest = metadata_digest (sh_metadata h), ct_media_type = media_type_of h,
      ct_integrity_verified = (metadata_digest (sh_metadata h) = Some digest)\<rparr>"

definition content_stat_of :: "'b s3 \<Rightarrow> resource_ref \<Rightarrow> ('b, content_stat option) store_op" where
  "content_stat_of S r st =
     (case digest_from_ref r of
        Inl e \<Rightarrow> (Inl e, st)
      | Inr digest \<Rightarrow>
          (case head_sync S digest st of
             (Inl e, st') \<Rightarrow> (Inl e, st')
           | (Inr h, st') \<Rightarrow> (Inr (map_option (stat_of_head digest) h), st')))"

section \<open>The environment of the contract layer\<close>

text \<open>
  The third-party functions that contract validation calls: the \<^verbatim>\<open>json\<close> codec, \<^verbatim>\<open>str\<close> of a value that
  is not a string, and \<^verbatim>\<open>Draft202012Validator\<close> (\<^verbatim>\<open>check_schema\<close> as a test, \<^verbatim>\<open>iter_errors\<close> as a list); the
  state of the operator-owned registry; and the two reads of the content store that the Observer
  makes, each at the store's current state.
\<close>

record jsonschema_error =
  je_absolute_path :: "json list"
  je_validator :: string
  je_validator_value :: json
  je_instance :: json

type_synonym contract_key = "string \<times> string \<times> string"

type_synonym package_registry = "(contract_key \<times> dict) list"

record env =
  env_hash :: hashing
  env_json_loads :: "string \<Rightarrow> json option"
  env_json_dumps :: "json \<Rightarrow> string"
  env_str :: "json \<Rightarrow> string"
  env_check_schema :: "json \<Rightarrow> bool"
  env_iter_errors :: "json \<Rightarrow> json \<Rightarrow> jsonschema_error list"
  env_registry :: package_registry
  env_get :: "resource_ref \<Rightarrow> string result"
  env_stat :: "resource_ref \<Rightarrow> content_stat option result"

definition py_str :: "env \<Rightarrow> json \<Rightarrow> string" where
  "py_str E v = (case v of JStr s \<Rightarrow> s | _ \<Rightarrow> env_str E v)"

section \<open>JSON Schema policy\<close>

definition SUPPORTED_KEYWORDS :: "string list" where
  "SUPPORTED_KEYWORDS =
     [''type'', ''required'', ''properties'', ''items'', ''enum'', ''const'', ''minimum'', ''maximum'']"

text \<open>
  \<^verbatim>\<open>_reject_unsupported_keywords\<close>, as the first unsupported keyword met: those of the schema itself,
  then the property schemas in order, then the item schema when it is an object.
\<close>

fun reject_unsupported_keywords :: "json \<Rightarrow> unit result"
and reject_in_list :: "(string \<times> json) list \<Rightarrow> unit result"
and reject_in_properties :: "json \<Rightarrow> unit result"
and reject_in_field :: "string \<Rightarrow> (string \<times> json) list \<Rightarrow> unit result" where
  "reject_unsupported_keywords (JObj d) =
     (case List.find (\<lambda>(k, _). k \<notin> set SUPPORTED_KEYWORDS) d of
        Some (k, _) \<Rightarrow> Inl (ValueError (''schema_unsupported_keyword:'' @ k))
      | None \<Rightarrow>
          (case reject_in_field ''properties'' d of
             Inl e \<Rightarrow> Inl e
           | Inr _ \<Rightarrow> reject_in_field ''items'' d))"
| "reject_unsupported_keywords _ = Inr ()"
| "reject_in_list [] = Inr ()"
| "reject_in_list ((k, child) # d) =
     (case reject_unsupported_keywords child of Inl e \<Rightarrow> Inl e | Inr _ \<Rightarrow> reject_in_list d)"
| "reject_in_properties (JObj d) = reject_in_list d"
| "reject_in_properties _ = Inr ()"
| "reject_in_field f [] = Inr ()"
| "reject_in_field f ((k, v) # d) =
     (if k = f
      then (if f = ''properties'' then reject_in_properties v else reject_unsupported_keywords v)
      else reject_in_field f d)"

definition validate_schema :: "env \<Rightarrow> json \<Rightarrow> unit result" where
  "validate_schema E schema =
     (case reject_unsupported_keywords schema of
        Inl e \<Rightarrow> Inl e
      | Inr _ \<Rightarrow> if env_check_schema E schema then Inr () else Inl (ValueError ''schema_invalid''))"

fun json_type :: "json \<Rightarrow> string" where
  "json_type JNull = ''null''"
| "json_type (JBool _) = ''boolean''"
| "json_type (JInt _) = ''number''"
| "json_type (JFloat _) = ''number''"
| "json_type (JStr _) = ''string''"
| "json_type (JArr _) = ''array''"
| "json_type (JObj _) = ''object''"

record schema_error =
  se_path :: string
  se_keyword :: string
  se_message :: string
  se_expected :: json
  se_observed :: string

fun nat_digits :: "nat \<Rightarrow> string" where
  "nat_digits n = (if n < 10 then [char_of (48 + n)] else nat_digits (n div 10) @ [char_of (48 + n mod 10)])"

declare nat_digits.simps [simp del]

definition is_identifier :: "string \<Rightarrow> bool" where
  "is_identifier s =
     (let letter = (\<lambda>c. let n = of_char c :: nat in
            (65 \<le> n \<and> n \<le> 90) \<or> (97 \<le> n \<and> n \<le> 122) \<or> c = CHR ''_'')
      in case s of [] \<Rightarrow> False | c # t \<Rightarrow> letter c \<and> list_all (\<lambda>c. letter c \<or> is_digit c) t)"

text \<open>\<^verbatim>\<open>_path\<close>: the parts of a JSON path are array indices and property names.\<close>

definition schema_path :: "env \<Rightarrow> json list \<Rightarrow> string" where
  "schema_path E parts =
     ''$'' @ concat (map (\<lambda>p. case p of
        JInt i \<Rightarrow> ''['' @ nat_digits (nat i) @ '']''
      | JStr s \<Rightarrow> (if is_identifier s then ''.'' @ s else ''['' @ env_json_dumps E (JStr s) @ '']'')
      | v \<Rightarrow> ''['' @ env_json_dumps E (JStr (py_str E v)) @ '']'') parts)"

definition expected_of :: "jsonschema_error \<Rightarrow> json" where
  "expected_of e =
     (let v = je_validator e in
      if v = ''required'' then JStr ''required property''
      else if v = ''type'' then je_validator_value e
      else if v = ''enum'' then JStr ''one of allowed values''
      else if v = ''const'' then JStr ''constant''
      else if v \<in> {''minimum'', ''maximum''} then je_validator_value e
      else if v = ''items'' then JStr ''item schema''
      else if v = ''properties'' then JStr ''property schemas''
      else JNull)"

definition message_of :: "string \<Rightarrow> string" where
  "message_of keyword =
     (if keyword = ''required'' then ''required property is missing''
      else if keyword = ''type'' then ''value has an invalid type''
      else if keyword = ''properties'' then ''object properties are invalid''
      else if keyword = ''items'' then ''array items are invalid''
      else if keyword = ''enum'' then ''value is not an allowed choice''
      else if keyword = ''const'' then ''value does not equal the required constant''
      else if keyword = ''minimum'' then ''number is below the minimum''
      else if keyword = ''maximum'' then ''number is above the maximum''
      else ''value failed schema validation'')"

definition schema_error_of :: "env \<Rightarrow> jsonschema_error \<Rightarrow> schema_error" where
  "schema_error_of E e =
     \<lparr>se_path = schema_path E (je_absolute_path e), se_keyword = je_validator e,
      se_message = message_of (je_validator e), se_expected = expected_of e,
      se_observed = json_type (je_instance e)\<rparr>"

text \<open>The final \<^verbatim>\<open>sorted\<close> by path, keyword and message, as a stable insertion sort on Python's tuple order.\<close>

definition schema_error_le :: "schema_error \<Rightarrow> schema_error \<Rightarrow> bool" where
  "schema_error_le a b =
     (if se_path a \<noteq> se_path b then string_le (se_path a) (se_path b)
      else if se_keyword a \<noteq> se_keyword b then string_le (se_keyword a) (se_keyword b)
      else string_le (se_message a) (se_message b))"

fun insert_by :: "('a \<Rightarrow> 'a \<Rightarrow> bool) \<Rightarrow> 'a \<Rightarrow> 'a list \<Rightarrow> 'a list" where
  "insert_by le x [] = [x]"
| "insert_by le x (y # ys) = (if le x y then x # y # ys else y # insert_by le x ys)"

definition sort_by :: "('a \<Rightarrow> 'a \<Rightarrow> bool) \<Rightarrow> 'a list \<Rightarrow> 'a list" where
  "sort_by le xs = foldr (insert_by le) xs []"

definition validate_value :: "env \<Rightarrow> json \<Rightarrow> json \<Rightarrow> schema_error list result" where
  "validate_value E schema value =
     (case validate_schema E schema of
        Inl e \<Rightarrow> Inl e
      | Inr _ \<Rightarrow> Inr (sort_by schema_error_le (map (schema_error_of E) (env_iter_errors E schema value))))"

section \<open>Package contracts\<close>

definition required_sections :: "string list" where
  "required_sections = [''package_type'', ''execution'', ''capability_exports'', ''body'']"

text \<open>
  The structural test of \<^verbatim>\<open>PackageContractRegistry.register\<close>; \<^verbatim>\<open>set(required)\<close> raises on a list with an
  unhashable member.
\<close>

definition sub_schema :: "json \<Rightarrow> string \<Rightarrow> json" where
  "sub_schema v k = (case v of JObj d \<Rightarrow> dget d k | _ \<Rightarrow> JNull)"

definition const_is :: "json \<Rightarrow> string \<Rightarrow> bool" where
  "const_is v k = (case v of JObj d \<Rightarrow> dget d ''const'' = JStr k | _ \<Rightarrow> False)"

definition contract_schema_ok :: "contract_key \<Rightarrow> dict \<Rightarrow> bool" where
  "contract_schema_ok key schema =
     (let properties = dget schema ''properties'';
          execution_schema = sub_schema properties ''execution'';
          execution_properties = sub_schema execution_schema ''properties'';
          required = dget schema ''required''
      in is_obj properties \<and> is_obj execution_schema \<and> is_obj execution_properties \<and> is_arr required \<and>
         list_all (\<lambda>k. JStr k \<in> set (arr_of required)) required_sections \<and>
         dget schema ''additionalProperties'' = JBool False \<and>
         const_is (sub_schema properties ''package_type'') (fst key) \<and>
         const_is (sub_schema execution_properties ''kind'') (fst (snd key)) \<and>
         const_is (sub_schema execution_properties ''version'') (snd (snd key)) \<and>
         dhas (obj_of properties) ''capability_exports'' \<and> dhas (obj_of properties) ''body'')"

definition register_contract :: "env \<Rightarrow> contract_key \<Rightarrow> json \<Rightarrow> (package_registry, unit) op" where
  "register_contract E key schema reg =
     (case schema of
        JObj d \<Rightarrow>
          (case key of (t, k, v) \<Rightarrow>
             if t = [] \<or> k = [] \<or> v = [] then (Inl (ValueError ''package_contract_key_invalid''), reg)
             else if \<not> env_check_schema E schema then (Inl (ValueError ''package_contract_schema_invalid''), reg)
             else if is_arr (dget d ''required'') \<and> is_obj (dget d ''properties'') \<and>
                     is_obj (sub_schema (dget d ''properties'') ''execution'') \<and>
                     is_obj (sub_schema (sub_schema (dget d ''properties'') ''execution'') ''properties'') \<and>
                     \<not> list_all hashable (arr_of (dget d ''required''))
             then (Inl (TypeError ''unhashable type''), reg)
             else if \<not> contract_schema_ok key d then (Inl (ValueError ''package_contract_schema_invalid''), reg)
             else (case map_of reg key of
                     Some existing \<Rightarrow>
                       if \<not> py_eq (JObj existing) schema then (Inl (ValueError ''package_contract_conflict''), reg)
                       else (Inr (), reg)
                   | None \<Rightarrow> (Inr (), AList.update key d reg)))
      | _ \<Rightarrow> (Inl (ValueError ''package_contract_schema_invalid''), reg))"

definition schema_for :: "package_registry \<Rightarrow> contract_key \<Rightarrow> dict result" where
  "schema_for reg key =
     (case map_of reg key of None \<Rightarrow> Inl (ValueError ''package_contract_not_found'') | Some d \<Rightarrow> Inr d)"

definition validate_manifest :: "env \<Rightarrow> contract_key \<Rightarrow> json \<Rightarrow> unit result" where
  "validate_manifest E key manifest =
     (case schema_for (env_registry E) key of
        Inl e \<Rightarrow> Inl e
      | Inr schema \<Rightarrow>
          if env_iter_errors E (JObj schema) manifest \<noteq> [] then Inl (ValueError ''package_contract_invalid'') else Inr ())"

text \<open>One file of \<^verbatim>\<open>load_directory\<close>, given its parsed content (\<open>None\<close> when it cannot be read or parsed).\<close>

definition contract_file_key :: "env \<Rightarrow> dict \<Rightarrow> dict \<Rightarrow> contract_key" where
  "contract_file_key E payload execution =
     (let str_or = (\<lambda>v. if truthy v then py_str E v else [])
      in (str_or (dget payload ''package_type''), str_or (dget execution ''kind''), str_or (dget execution ''version'')))"

definition load_contract_file :: "env \<Rightarrow> json option \<Rightarrow> (package_registry, contract_key) op" where
  "load_contract_file E content reg =
     (case content of
        Some (JObj payload) \<Rightarrow>
          (case (dget payload ''execution'', dget payload ''schema'') of
             (JObj execution, JObj schema) \<Rightarrow>
               if set (map fst payload) \<noteq> {''package_type'', ''execution'', ''schema''} \<or>
                  set (map fst execution) \<noteq> {''kind'', ''version''}
               then (Inl (ValueError ''package_contract_file_invalid''), reg)
               else let key = contract_file_key E payload execution
                    in (case register_contract E key (JObj schema) reg of
                          (Inl e, reg') \<Rightarrow> (Inl e, reg')
                        | (Inr _, reg') \<Rightarrow> (Inr key, reg'))
           | _ \<Rightarrow> (Inl (ValueError ''package_contract_file_invalid''), reg))
      | _ \<Rightarrow> (Inl (ValueError ''package_contract_file_invalid''), reg))"

fun load_contract_files :: "env \<Rightarrow> json option list \<Rightarrow> (package_registry, contract_key list) op" where
  "load_contract_files E [] reg = (Inr [], reg)"
| "load_contract_files E (c # cs) reg =
     (case load_contract_file E c reg of
        (Inl e, reg') \<Rightarrow> (Inl e, reg')
      | (Inr key, reg') \<Rightarrow>
          (case load_contract_files E cs reg' of
             (Inl e, reg'') \<Rightarrow> (Inl e, reg'')
           | (Inr keys, reg'') \<Rightarrow> (Inr (key # keys), reg'')))"

section \<open>Typed content\<close>

datatype upload = Up_Bytes string | Up_Text string | Up_Value json

definition load_json_content :: "env \<Rightarrow> resource_ref \<Rightarrow> json result" where
  "load_json_content E r =
     (case require_content_ref r of
        Inl e \<Rightarrow> Inl e
      | Inr _ \<Rightarrow>
          (case env_get E r of
             Inl e \<Rightarrow> Inl e
           | Inr raw \<Rightarrow> (case env_json_loads E raw of None \<Rightarrow> Inl (ValueError ''invalid_json'') | Some v \<Rightarrow> Inr v)))"

definition opt_ref_field :: "json \<Rightarrow> resource_ref option result" where
  "opt_ref_field v =
     (if v = JNull then Inr None
      else (case resource_ref_of_json v of Inl e \<Rightarrow> Inl e | Inr r \<Rightarrow> Inr (Some r)))"

definition io_fields :: "string list" where
  "io_fields = [''schema_version'', ''input_schema_ref'', ''output_schema_ref'', ''success_semantics'', ''success_validator_ref'']"

text \<open>\<^verbatim>\<open>IoContract.model_validate\<close>\<close>

definition io_contract_of_json :: "json \<Rightarrow> io_contract result" where
  "io_contract_of_json v =
     (case v of
        JObj d \<Rightarrow>
          (if \<not> list_all (\<lambda>(k, _). k \<in> set io_fields) d \<or>
              (dhas d ''schema_version'' \<and> dget d ''schema_version'' \<noteq> JStr ''io.v1'')
           then Inl (ValidationError ''IoContract'')
           else (case (opt_ref_field (dget d ''input_schema_ref''), opt_ref_field (dget d ''output_schema_ref''),
                       opt_ref_field (dget d ''success_validator_ref'')) of
                   (Inr i, Inr out, Inr val) \<Rightarrow>
                     Inr \<lparr>io_input_schema_ref = i, io_output_schema_ref = out,
                          io_success_semantics = dget d ''success_semantics'', io_success_validator_ref = val\<rparr>
                 | _ \<Rightarrow> Inl (ValidationError ''IoContract'')))
      | _ \<Rightarrow> Inl (ValidationError ''IoContract''))"

definition json_media_types :: "string list" where
  "json_media_types = [''application/json'', ''application/schema+json'',
     ''application/vnd.loom.io-contract+json'', ''application/vnd.loom.operation-descriptor+json'']"

definition normalize_media_type :: "string \<Rightarrow> string" where
  "normalize_media_type m = lower (strip (takeWhile (\<lambda>c. c \<noteq> CHR '';'') m))"

definition parse_upload :: "env \<Rightarrow> upload \<Rightarrow> json result" where
  "parse_upload E content =
     (case content of
        Up_Value v \<Rightarrow> Inr v
      | Up_Bytes b \<Rightarrow> (case env_json_loads E b of None \<Rightarrow> Inl (ValueError ''invalid_json'') | Some v \<Rightarrow> Inr v)
      | Up_Text t \<Rightarrow> (case env_json_loads E t of None \<Rightarrow> Inl (ValueError ''invalid_json'') | Some v \<Rightarrow> Inr v))"

definition check_typed :: "env \<Rightarrow> string \<Rightarrow> json \<Rightarrow> unit result" where
  "check_typed E m v =
     (if m = ''application/schema+json'' then validate_schema E v
      else if m = ''application/vnd.loom.io-contract+json''
      then (case io_contract_of_json v of Inl _ \<Rightarrow> Inl (ValueError ''io_contract_invalid'') | Inr _ \<Rightarrow> Inr ())
      else if m = ''application/vnd.loom.operation-descriptor+json'' \<and> \<not> is_obj v
      then Inl (ValueError ''operation_descriptor_invalid'')
      else Inr ())"

definition typed_body :: "env \<Rightarrow> string \<Rightarrow> upload \<Rightarrow> (string \<times> json) result" where
  "typed_body E m content =
     (if m \<in> set json_media_types
      then (case parse_upload E content of
              Inl e \<Rightarrow> Inl e
            | Inr v \<Rightarrow>
                (case check_typed E m v of
                   Inl e \<Rightarrow> Inl e
                 | Inr _ \<Rightarrow> (case canonical_json_bytes (env_hash E) v of Inl e \<Rightarrow> Inl e | Inr b \<Rightarrow> Inr (b, v))))
      else (case content of
              Up_Text t \<Rightarrow> Inr (t, JNull)
            | Up_Bytes b \<Rightarrow> Inr (b, JNull)
            | Up_Value _ \<Rightarrow> Inl (TypeError ''content_must_be_string_or_bytes'')))"

definition operation_descriptor_domain :: string where
  "operation_descriptor_domain = ''loom/operation-descriptor/v1''"

definition put_typed_content :: "env \<Rightarrow> 'b s3 \<Rightarrow> upload \<Rightarrow> string \<Rightarrow> ('b, resource_ref) store_op" where
  "put_typed_content E S content media_type st =
     (let m = normalize_media_type media_type in
      if m = [] then (Inl (ValueError ''media_type_required''), st)
      else (case typed_body E m content of
              Inl e \<Rightarrow> (Inl e, st)
            | Inr (body, parsed) \<Rightarrow>
                (case content_put (env_hash E) S body m st of
                   (Inl e, st') \<Rightarrow> (Inl e, st')
                 | (Inr ref, st') \<Rightarrow>
                     if m \<noteq> ''application/vnd.loom.operation-descriptor+json'' then (Inr ref, st')
                     else (case digest_json (env_hash E) parsed operation_descriptor_domain of
                             Inl e \<Rightarrow> (Inl e, st')
                           | Inr d \<Rightarrow> (Inr (ref\<lparr>rr_version_or_digest := Some d,
                                               rr_identity_criterion := Some ''descriptor_digest''\<rparr>), st')))))"

section \<open>Package identity\<close>

definition execution_json :: "execution_contract \<Rightarrow> json" where
  "execution_json e = JObj [(''kind'', JStr (ec_kind e)), (''version'', JStr (ec_version e))]"

definition export_json :: "capability_export \<Rightarrow> json" where
  "export_json e = JObj [(''capability_descriptor_ref'', ref_json (ce_capability_descriptor_ref e)),
     (''io_contract_ref'', ref_json (ce_io_contract_ref e)), (''effect_class'', JStr (ce_effect_class e)),
     (''permissions'', JArr (map JStr (ce_permissions e))), (''replay_safety'', JStr (ce_replay_safety e)),
     (''runtime_binding'', JObj (ce_runtime_binding e))]"

definition manifest_json :: "package_version \<Rightarrow> json" where
  "manifest_json p = JObj [(''package_type'', JStr (pv_package_type p)), (''execution'', execution_json (pv_execution p)),
     (''capability_exports'', JArr (map export_json (pv_capability_exports p))), (''body'', JObj (pv_body p))]"

definition is_ref_object :: "dict \<Rightarrow> bool" where
  "is_ref_object d = (dhas d ''resource_id'' \<and> list_all (\<lambda>(k, _). k \<in> set ref_fields) d)"

text \<open>The identity of a resource reference: its deployment-local fields are dropped.\<close>

definition normalize_ref :: "env \<Rightarrow> dict \<Rightarrow> json" where
  "normalize_ref E d =
     (let rid0 = (if truthy (dget d ''resource_id'') then py_str E (dget d ''resource_id'') else []);
          ver0 = dget d ''version_or_digest'';
          crit = dget d ''identity_criterion'';
          is_content = startswith rid0 content_prefix;
          rid = (if is_content then lower rid0 else rid0);
          ver = (if is_content
                 then (if crit = JStr ''descriptor_digest'' \<and> ver0 \<noteq> JNull then JStr (lower (py_str E ver0)) else JNull)
                 else (case ver0 of JStr x \<Rightarrow> JStr (if any_sha256 x then lower x else x) | v \<Rightarrow> v))
      in JObj ([(''resource_id'', JStr rid)] @ (if ver \<noteq> JNull then [(''version_or_digest'', ver)] else []) @
               (if crit \<noteq> JNull then [(''identity_criterion'', JStr (lower (py_str E crit)))] else [])))"

definition set_like_keys :: "string list" where
  "set_like_keys = [''permissions'', ''provider_fillable_hole_refs'', ''allowed_node_package_refs'',
     ''captured_secret_refs'', ''captured_path_refs'', ''effective_constraint_refs'']"

text \<open>
  The sort key of a capability export after normalization; mixing objects and other values raises
  when the list is sorted.
\<close>

definition export_key :: "env \<Rightarrow> json \<Rightarrow> (string \<times> string) result" where
  "export_key E item =
     (case item of
        JObj d \<Rightarrow>
          (case (if truthy (dget d ''capability_descriptor_ref'') then dget d ''capability_descriptor_ref'' else JObj []) of
             JObj r \<Rightarrow> Inr (if dhas r ''resource_id'' then py_str E (dget r ''resource_id'') else [],
                           if dhas r ''version_or_digest'' then py_str E (dget r ''version_or_digest'') else [])
           | _ \<Rightarrow> Inl (AttributeError ''get''))
      | v \<Rightarrow> Inr (py_str E v, []))"

definition key_le :: "string \<times> string \<Rightarrow> string \<times> string \<Rightarrow> bool" where
  "key_le a b = (if fst a \<noteq> fst b then string_le (fst a) (fst b) else string_le (snd a) (snd b))"

fun all_ok :: "'a result list \<Rightarrow> 'a list result" where
  "all_ok [] = Inr []"
| "all_ok (Inl e # xs) = Inl e"
| "all_ok (Inr x # xs) = (case all_ok xs of Inl e \<Rightarrow> Inl e | Inr ys \<Rightarrow> Inr (x # ys))"

definition sort_exports :: "env \<Rightarrow> json list \<Rightarrow> json list result" where
  "sort_exports E xs =
     (case all_ok (map (export_key E) xs) of
        Inl e \<Rightarrow> Inl e
      | Inr keys \<Rightarrow>
          if length xs \<ge> 2 \<and> list_ex is_obj xs \<and> \<not> list_all is_obj xs then Inl (TypeError ''<'')
          else Inr (map snd (sort_by (\<lambda>a b. key_le (fst a) (fst b)) (zip keys xs))))"

definition normalize_order :: "env \<Rightarrow> string \<Rightarrow> json list \<Rightarrow> json list result" where
  "normalize_order E key xs =
     (if key = ''capability_exports'' then sort_exports E xs
      else if key \<in> set set_like_keys
      then Inr (sort_by (\<lambda>a b. string_le (env_json_dumps E a) (env_json_dumps E b)) xs)
      else Inr xs)"

fun normalize_value :: "env \<Rightarrow> string \<Rightarrow> json \<Rightarrow> json result"
and normalize_list :: "env \<Rightarrow> string \<Rightarrow> json list \<Rightarrow> json list result"
and normalize_items :: "env \<Rightarrow> dict \<Rightarrow> dict result" where
  "normalize_value E key (JObj d) =
     (if is_ref_object d then Inr (normalize_ref E d)
      else (case normalize_items E d of Inl e \<Rightarrow> Inl e | Inr d' \<Rightarrow> Inr (JObj d')))"
| "normalize_value E key (JArr xs) =
     (case normalize_list E key xs of
        Inl e \<Rightarrow> Inl e
      | Inr ys \<Rightarrow> (case normalize_order E key ys of Inl e \<Rightarrow> Inl e | Inr zs \<Rightarrow> Inr (JArr zs)))"
| "normalize_value E key v = Inr v"
| "normalize_list E key [] = Inr []"
| "normalize_list E key (x # xs) =
     (case normalize_value E key x of
        Inl e \<Rightarrow> Inl e
      | Inr y \<Rightarrow> (case normalize_list E key xs of Inl e \<Rightarrow> Inl e | Inr ys \<Rightarrow> Inr (y # ys)))"
| "normalize_items E [] = Inr []"
| "normalize_items E ((k, v) # d) =
     (case normalize_value E k v of
        Inl e \<Rightarrow> Inl e
      | Inr w \<Rightarrow> (case normalize_items E d of Inl e \<Rightarrow> Inl e | Inr d' \<Rightarrow> Inr ((k, w) # d')))"

definition identity_payload :: "env \<Rightarrow> package_version \<Rightarrow> json result" where
  "identity_payload E p = normalize_value E [] (manifest_json p)"

definition package_digest_of :: "env \<Rightarrow> package_version \<Rightarrow> string result" where
  "package_digest_of E p =
     (case identity_payload E p of Inl e \<Rightarrow> Inl e | Inr v \<Rightarrow> digest_json (env_hash E) v ''loom/package/v1'')"

text \<open>
  The construction of a \<^verbatim>\<open>CapabilityPackageVersion\<close> from validated fields: \<^verbatim>\<open>model_post_init\<close> fixes the
  digest, then \<^verbatim>\<open>validate_contract\<close> checks the exports and the registered contract.
\<close>

definition post_init :: "env \<Rightarrow> package_version \<Rightarrow> package_version result" where
  "post_init E p =
     (case package_digest_of E p of
        Inl e \<Rightarrow> Inl e
      | Inr computed \<Rightarrow>
          if pv_package_digest p \<noteq> []
          then let declared = lower (pv_package_digest p)
               in if \<not> lower_sha256 declared then Inl (ValueError ''invalid_package_digest'')
                  else if declared \<noteq> computed then Inl (ValueError ''package_digest_mismatch'')
                  else Inr (p\<lparr>pv_package_digest := declared\<rparr>)
          else Inr (p\<lparr>pv_package_digest := computed\<rparr>))"

definition descriptor_key :: "capability_export \<Rightarrow> string \<times> string option" where
  "descriptor_key e =
     (rr_resource_id (ce_capability_descriptor_ref e), ref_digest (ce_capability_descriptor_ref e))"

definition validate_contract :: "env \<Rightarrow> package_version \<Rightarrow> unit result" where
  "validate_contract E p =
     (if \<not> distinct (map descriptor_key (pv_capability_exports p)) then Inl (ValueError ''capability_export_duplicate'')
      else validate_manifest E (package_key p) (manifest_json p))"

definition make_package :: "env \<Rightarrow> package_version \<Rightarrow> package_version result" where
  "make_package E p =
     (if pv_capability_exports p = [] then Inl (ValidationError ''CapabilityPackageVersion'')
      else (case post_init E p of
              Inl e \<Rightarrow> Inl e
            | Inr q \<Rightarrow> (case validate_contract E q of Inl e \<Rightarrow> Inl e | Inr _ \<Rightarrow> Inr q)))"

section \<open>What the store promises its readers\<close>

text \<open>
  A source of content-addressed bytes: whatever it returns for a reference has the digest that the
  reference names. Clients of the store rely on this law alone.
\<close>

locale content_source =
  fixes H :: hashing and source :: "resource_ref \<Rightarrow> string result"
  assumes verified: "source r = Inr b \<Longrightarrow> digest_from_ref r = Inr (content_digest H b)"
begin

lemma same_content:
  assumes "source r = Inr b" and "source r' = Inr b'" and "digest_from_ref r = digest_from_ref r'"
  shows "content_digest H b = content_digest H b'"
  using verified [OF assms(1)] verified [OF assms(2)] assms(3) by simp

lemma reads_agree:
  assumes "source r = Inr b" and "source r' = Inr b'" and "digest_from_ref r = digest_from_ref r'"
    and "\<And>x y. content_digest H x = content_digest H y \<Longrightarrow> x = y"
  shows "b = b'"
  using same_content [OF assms(1-3)] assms(4) by blast

lemma invalid_refs_unread:
  assumes "digest_from_ref r = Inl e"
  shows "\<not> (\<exists>b. source r = Inr b)"
  using verified assms by auto

end

lemma content_get_verified:
  assumes "fst (content_get H S expected r st) = Inr b"
  shows "digest_from_ref r = Inr (content_digest H b)"
  using assms
  by (auto simp: content_get_def Let_def split: sum.splits option.splits prod.splits if_splits)

interpretation store: content_source H "\<lambda>r. fst (content_get H S expected r st)" for H S expected st
  by unfold_locales (rule content_get_verified)

section \<open>Round trip through S3\<close>

text \<open>
  The documented behaviour of S3 that the store relies on: a successful conditional put makes the
  object readable with the metadata it was written with, a failed one and the creation of the bucket
  change no object, and an object whose head can be read can be read.
\<close>

definition same_objects :: "'b s3 \<Rightarrow> 'b \<Rightarrow> 'b \<Rightarrow> bool" where
  "same_objects S b b' =
     (\<forall>k. s3_get_object S k b' = s3_get_object S k b \<and> s3_head_object S k b' = s3_head_object S k b)"

definition s3_laws :: "'b s3 \<Rightarrow> bool" where
  "s3_laws S =
     ((\<forall>k body mt meta b b'. s3_put_object S k body mt meta b = (None, b') \<longrightarrow>
         s3_get_object S k b' = Inr body \<and>
         (\<forall>k'. k' \<noteq> k \<longrightarrow> s3_get_object S k' b' = s3_get_object S k' b \<and> s3_head_object S k' b' = s3_head_object S k' b)) \<and>
      (\<forall>k body mt meta b b' code. s3_put_object S k body mt meta b = (Some code, b') \<longrightarrow> same_objects S b b') \<and>
      (\<forall>b b' r. s3_create_bucket S b = (r, b') \<longrightarrow> same_objects S b b') \<and>
      (\<forall>k b h. s3_head_object S k b = Inr h \<longrightarrow> (\<exists>body. s3_get_object S k b = Inr body)))"

lemma s3_lawsD:
  assumes "s3_laws S"
  shows "s3_put_object S k body mt meta b = (None, b') \<Longrightarrow> s3_get_object S k b' = Inr body"
    and "s3_put_object S k body mt meta b = (None, b') \<Longrightarrow> k' \<noteq> k \<Longrightarrow> s3_get_object S k' b' = s3_get_object S k' b"
    and "s3_put_object S k body mt meta b = (Some code, b') \<Longrightarrow> same_objects S b b'"
    and "s3_create_bucket S b = (r, b') \<Longrightarrow> same_objects S b b'"
    and "s3_head_object S k b = Inr h \<Longrightarrow> \<exists>body. s3_get_object S k b = Inr body"
  using assms unfolding s3_laws_def by blast+

text \<open>Every object of the store is kept under its own digest.\<close>

definition store_ok :: "hashing \<Rightarrow> 'b s3 \<Rightarrow> 'b content_store \<Rightarrow> bool" where
  "store_ok H S st =
     (\<forall>digest body. s3_get_object S (store_key st digest) (st_bucket st) = Inr body \<longrightarrow> content_digest H body = digest)"

lemma store_key_inj: "store_key st d = store_key st d' \<longleftrightarrow> d = d'"
  by (simp add: store_key_def)

lemma store_key_bucket [simp]: "store_key (st\<lparr>st_bucket := b\<rparr>) d = store_key st d"
    "store_key (st\<lparr>st_bucket_ready := r\<rparr>) d = store_key st d"
  by (simp_all add: store_key_def)

text \<open>Two states of a store with the same prefix and the same objects.\<close>

definition same_store :: "'b s3 \<Rightarrow> 'b content_store \<Rightarrow> 'b content_store \<Rightarrow> bool" where
  "same_store S st st' = (st_prefix st' = st_prefix st \<and> same_objects S (st_bucket st) (st_bucket st'))"

lemma same_store_refl [simp]: "same_store S st st"
  by (simp add: same_store_def same_objects_def)

lemma same_store_trans: "same_store S a b \<Longrightarrow> same_store S b c \<Longrightarrow> same_store S a c"
  by (simp add: same_store_def same_objects_def)

lemma same_store_ok: "same_store S st st' \<Longrightarrow> store_ok H S st \<Longrightarrow> store_ok H S st'"
  by (simp add: same_store_def same_objects_def store_ok_def store_key_def)

lemma ensure_bucket_same:
  assumes "s3_laws S" and "ensure_bucket S st = (r, st')"
  shows "same_store S st st'" and "r = Inr () \<Longrightarrow> st_bucket_ready st'"
  using assms(2) s3_lawsD(4) [OF assms(1)]
  by (auto simp: ensure_bucket_def same_store_def same_objects_def split: if_splits option.splits prod.splits)

lemma ensure_bucket_ready [simp]: "st_bucket_ready st \<Longrightarrow> ensure_bucket S st = (Inr (), st)"
  by (simp add: ensure_bucket_def)

lemma head_sync_same:
  assumes "s3_laws S" and "head_sync S d st = (r, st')"
  shows "same_store S st st'" and "r = Inr (Some h) \<Longrightarrow> \<exists>b. s3_get_object S (store_key st' d) (st_bucket st') = Inr b"
    and "r = Inr x \<Longrightarrow> st_bucket_ready st'"
  using assms(2) ensure_bucket_same [OF assms(1), of st] s3_lawsD(5) [OF assms(1)]
  by (auto simp: head_sync_def split: sum.splits prod.splits if_splits)

text \<open>After a successful put the object is in the store, and the store keeps its invariant.\<close>

definition holds :: "hashing \<Rightarrow> 'b s3 \<Rightarrow> string \<Rightarrow> 'b content_store \<Rightarrow> bool" where
  "holds H S digest st =
     (store_ok H S st \<and> st_bucket_ready st \<and>
      (\<exists>b. s3_get_object S (store_key st digest) (st_bucket st) = Inr b))"

lemma holds_head:
  assumes "s3_laws S" and "store_ok H S st" and "head_sync S d st = (Inr (Some h), st')"
  shows "holds H S d st'"
  using head_sync_same [OF assms(1,3)] same_store_ok assms(2) unfolding holds_def by blast

lemma holds_put:
  assumes laws: "s3_laws S" and ok: "store_ok H S st" and rdy: "st_bucket_ready st"
    and put: "s3_put_object S (store_key st (content_digest H c)) c mt meta (st_bucket st) = (None, b')"
  shows "holds H S (content_digest H c) (st\<lparr>st_bucket := b'\<rparr>)"
proof -
  have new: "s3_get_object S (store_key st (content_digest H c)) b' = Inr c" by (rule s3_lawsD(1) [OF laws put])
  have "content_digest H body = d" if "s3_get_object S (store_key st d) b' = Inr body" for d body
  proof (cases "d = content_digest H c")
    case True
    with that new show ?thesis by simp
  next
    case False
    then have "s3_get_object S (store_key st d) b' = s3_get_object S (store_key st d) (st_bucket st)"
      by (intro s3_lawsD(2) [OF laws put]) (simp add: store_key_inj)
    with that ok show ?thesis by (simp add: store_ok_def)
  qed
  then have "store_ok H S (st\<lparr>st_bucket := b'\<rparr>)" unfolding store_ok_def by auto
  with new rdy show ?thesis by (simp add: holds_def)
qed

lemma content_put_holds:
  assumes laws: "s3_laws S" and ok: "store_ok H S st"
    and put: "content_put H S content media_type st = (Inr ref, st')"
  shows "holds H S (content_digest H content) st' \<and> ref = content_ref (content_digest H content) media_type"
proof -
  let ?d = "content_digest H content"
  obtain r0 st0 where e0: "ensure_bucket S st = (r0, st0)" by fastforce
  obtain r1 st1 where h1: "head_sync S ?d st0 = (r1, st1)" by fastforce
  have ok0: "store_ok H S st0" using same_store_ok [OF ensure_bucket_same(1) [OF laws e0] ok] .
  have ok1: "store_ok H S st1" using same_store_ok [OF head_sync_same(1) [OF laws h1] ok0] .
  note put' = put [unfolded content_put_def Let_def e0]
  show ?thesis
  proof (cases "r1 = Inr None")
    case False
    with put' h1 obtain h where h: "r1 = Inr (Some h)" by (auto split: sum.splits option.splits)
    with put' h1 have "st' = st1" "ref = content_ref ?d media_type" by (auto split: sum.splits)
    with holds_head [OF laws ok0 h1 [unfolded h]] show ?thesis by simp
  next
    case True
    have rdy: "st_bucket_ready st1" using head_sync_same(3) [OF laws h1] True by blast
    obtain pr b where p: "s3_put_object S (store_key st1 ?d) content media_type [(''sha256'', ?d)] (st_bucket st1) = (pr, b)"
      by fastforce
    obtain r3 st3 where h3: "head_sync S ?d (st1\<lparr>st_bucket := b\<rparr>) = (r3, st3)" by fastforce
    show ?thesis
    proof (cases pr)
      case None
      with put' h1 True p rdy have "st' = st1\<lparr>st_bucket := b\<rparr>" "ref = content_ref ?d media_type"
        by (auto split: sum.splits)
      with holds_put [OF laws ok1 rdy p [unfolded None]] show ?thesis by simp
    next
      case (Some code)
      have "same_store S st1 (st1\<lparr>st_bucket := b\<rparr>)"
        using s3_lawsD(3) [OF laws p [unfolded Some]] by (simp add: same_store_def)
      then have okb: "store_ok H S (st1\<lparr>st_bucket := b\<rparr>)" using same_store_ok ok1 by blast
      from put' h1 True p rdy Some h3 obtain h where "r3 = Inr (Some h)" "st' = st3" "ref = content_ref ?d media_type"
        by (auto split: sum.splits option.splits if_splits)
      with holds_head [OF laws okb] h3 show ?thesis by simp
    qed
  qed
qed

lemma strip_id:
  assumes "s \<noteq> []" and "\<not> is_space (hd s)" and "\<not> is_space (last s)"
  shows "strip s = s"
proof -
  have d: "dropWhile is_space t = t" if "t \<noteq> []" "\<not> is_space (hd t)" for t
    using that by (cases t) simp_all
  show ?thesis using assms by (simp add: strip_def d hd_rev)
qed

lemma digest_from_content_ref:
  assumes "lower_sha256 d"
  shows "digest_from_ref (content_ref d m) = Inr d"
proof -
  have d1: "d \<noteq> []" using assms by (auto simp: lower_sha256_def)
  have d: "d \<noteq> []" "is_lower_hex (last d)"
    using assms d1 last_in_set [OF d1] by (auto simp: lower_sha256_def list_all_iff)
  have "\<not> is_space (last d)" using d(2) by (auto simp: is_lower_hex_def is_space_def Let_def)
  then have "strip (content_prefix @ d) = content_prefix @ d"
    using d(1) by (intro strip_id) (auto simp: content_prefix_def is_space_def)
  then show ?thesis
    using assms by (simp add: digest_from_ref_def content_ref_def normalize_digest_def Let_def lower_sha256_id lower_sha256_any)
qed

text \<open>
  What is put can be got: on an S3 service that behaves as documented, a store whose objects
  are kept under their digests still is after a successful put, and reading the returned reference
  gives bytes with the digest of what was written, hence the same bytes unless another input has the
  same SHA-256.
\<close>

theorem content_put_get:
  assumes laws: "s3_laws S" and sha: "\<And>b. lower_sha256 (sha256_hex H b)" and ok: "store_ok H S st"
    and put: "content_put H S content media_type st = (Inr ref, st')"
  shows "store_ok H S st' \<and>
    (\<exists>b. content_get H S None ref st' = (Inr b, st') \<and> content_digest H b = content_digest H content \<and>
      ((\<forall>x. content_digest H x = content_digest H content \<longrightarrow> x = content) \<longrightarrow> b = content))"
proof -
  let ?d = "content_digest H content"
  from content_put_holds [OF laws ok put] have h: "store_ok H S st'" "st_bucket_ready st'" "ref = content_ref ?d media_type"
    and "\<exists>b. s3_get_object S (store_key st' ?d) (st_bucket st') = Inr b"
    by (simp_all add: holds_def)
  then obtain b where b: "s3_get_object S (store_key st' ?d) (st_bucket st') = Inr b" by blast
  have "content_digest H b = ?d" using h(1) b unfolding store_ok_def by blast
  moreover have "lower_sha256 ?d" using sha by (simp add: content_digest_def digest_bytes_def)
  ultimately show ?thesis
    using h b by (auto simp: content_get_def digest_from_content_ref get_sync_def Let_def)
qed

text \<open>A bucket as an association list, and a hash with 64-digit values, to instantiate the parameters.\<close>

definition demo_s3 :: "(string \<times> string \<times> s3_head) list s3" where
  "demo_s3 =
     \<lparr>s3_head_bucket = (\<lambda>b. None), s3_create_bucket = (\<lambda>b. (None, b)),
      s3_head_object = (\<lambda>k b. case map_of b k of None \<Rightarrow> Inl ''404'' | Some (_, h) \<Rightarrow> Inr h),
      s3_put_object = (\<lambda>k body mt meta b. if map_of b k \<noteq> None then (Some ''412'', b)
         else (None, (k, body, \<lparr>sh_content_length = Some (int (length body)), sh_content_type = Some mt, sh_metadata = meta\<rparr>) # b)),
      s3_get_object = (\<lambda>k b. case map_of b k of None \<Rightarrow> Inl ''NoSuchKey'' | Some (body, _) \<Rightarrow> Inr body)\<rparr>"

definition demo_sha :: hashing where
  "demo_sha = \<lparr>rfc8785_dumps = (\<lambda>j. Some ''{}''),
     sha256_hex = (\<lambda>b. if b = ''hi'' then replicate 64 CHR ''a'' else replicate 64 CHR ''b'')\<rparr>"

lemma demo_s3_laws: "s3_laws demo_s3"
  by (auto simp: s3_laws_def demo_s3_def same_objects_def split: option.splits if_splits)

theorem content_put_get_witness:
  "\<exists>ref st'. content_put demo_sha demo_s3 ''hi'' ''text/plain'' \<lparr>st_prefix = [], st_bucket_ready = True, st_bucket = []\<rparr> = (Inr ref, st') \<and>
     content_get demo_sha demo_s3 None ref st' = (Inr ''hi'', st')"
proof -
  let ?st = "\<lparr>st_prefix = [], st_bucket_ready = True, st_bucket = []\<rparr>"
  have ok: "store_ok demo_sha demo_s3 ?st" by (simp add: store_ok_def demo_s3_def)
  have sha: "lower_sha256 (sha256_hex demo_sha b)" for b
    by (simp add: demo_sha_def lower_sha256_def list_all_iff is_lower_hex_def)
  obtain ref st' where p: "content_put demo_sha demo_s3 ''hi'' ''text/plain'' ?st = (Inr ref, st')"
    by (simp add: content_put_def head_sync_def demo_s3_def store_key_def is_not_found_def Let_def)
  have inj: "\<forall>x. content_digest demo_sha x = content_digest demo_sha ''hi'' \<longrightarrow> x = ''hi''"
    by (auto simp: content_digest_def digest_bytes_def demo_sha_def replicate_eq_replicate split: if_splits)
  from content_put_get [OF demo_s3_laws sha ok p] inj p show ?thesis by blast
qed

section \<open>The registry is append-only\<close>

lemma register_contract_keeps:
  "map_of reg key = Some d \<Longrightarrow> map_of (snd (register_contract E k schema reg)) key = Some d"
  by (auto simp: register_contract_def split: json.split option.split prod.split)

lemma load_contract_file_keeps:
  assumes "map_of reg key = Some d"
  shows "map_of (snd (load_contract_file E c reg)) key = Some d"
proof -
  have "map_of (snd (case register_contract E k sch reg of (Inl e, reg') \<Rightarrow> (Inl e, reg') | (Inr _, reg') \<Rightarrow> (Inr k, reg'))) key = Some d"
    for k sch
    using register_contract_keeps [OF assms, of E k sch]
    by (cases "register_contract E k sch reg"; cases "fst (register_contract E k sch reg)") auto
  with assms show ?thesis
    by (simp add: load_contract_file_def Let_def split: option.split json.split)
qed

text \<open>
  Loading operator contracts never changes the meaning of a registered key: whatever files
  are loaded, and whether or not loading fails midway, every schema that was registered is still the
  one returned for its key, so a package that was validated against it stays validated.
\<close>

theorem registry_append_only:
  assumes "schema_for reg key = Inr d"
  shows "schema_for (snd (load_contract_files E files reg)) key = Inr d"
proof -
  have "map_of (snd (load_contract_files E files reg)) key = Some d" if "map_of reg key = Some d" for reg
    using that
  proof (induction files arbitrary: reg)
    case (Cons c cs)
    obtain r reg' where l: "load_contract_file E c reg = (r, reg')" by fastforce
    have "map_of reg' key = Some d" using load_contract_file_keeps [OF Cons.prems, of E c] l by simp
    with Cons.IH [of reg'] show ?case
      by (cases r; cases "load_contract_files E cs reg'"; cases "fst (load_contract_files E cs reg')") (auto simp: l)
  qed simp
  with assms show ?thesis by (auto simp: schema_for_def split: option.splits)
qed

text \<open>An environment that instantiates the third-party functions in evaluations: every schema is accepted.\<close>

definition demo_env :: env where
  "demo_env = \<lparr>env_hash = demo_H, env_json_loads = (\<lambda>b. Some JNull), env_json_dumps = (\<lambda>v. []), env_str = (\<lambda>v. []),
     env_check_schema = (\<lambda>v. True), env_iter_errors = (\<lambda>s v. []), env_registry = [],
     env_get = (\<lambda>r. Inl (FileNotFoundError ''content_not_found'')), env_stat = (\<lambda>r. Inr None)\<rparr>"

theorem registry_append_only_witness:
  "schema_for (snd (load_contract_files demo_env [None] [((''a'', ''b'', ''c''), [])])) (''a'', ''b'', ''c'') = Inr []"
  by (rule registry_append_only) (simp add: schema_for_def)

section \<open>The schema policy reaches every sub-schema\<close>

inductive subschema :: "json \<Rightarrow> json \<Rightarrow> bool" for s where
  sub_self: "subschema s s"
| sub_property: "subschema s (JObj d) \<Longrightarrow> map_of d ''properties'' = Some (JObj ps) \<Longrightarrow> (n, c) \<in> set ps \<Longrightarrow> subschema s c"
| sub_items: "subschema s (JObj d) \<Longrightarrow> map_of d ''items'' = Some c \<Longrightarrow> subschema s c"

lemma reject_in_list_ok: "reject_in_list d = Inr () \<longleftrightarrow> (\<forall>(n, c) \<in> set d. reject_unsupported_keywords c = Inr ())"
  by (induction d) (auto split: sum.splits)

lemma reject_in_field_map:
  "reject_in_field f d = (case map_of d f of None \<Rightarrow> Inr ()
     | Some v \<Rightarrow> if f = ''properties'' then reject_in_properties v else reject_unsupported_keywords v)"
  by (induction d) auto

lemma reject_in_properties_ok:
  "reject_in_properties v = Inr () \<longleftrightarrow> (\<forall>ps. v = JObj ps \<longrightarrow> (\<forall>(n, c) \<in> set ps. reject_unsupported_keywords c = Inr ()))"
  by (cases v) (auto simp: reject_in_list_ok)

lemma reject_obj_ok:
  "reject_unsupported_keywords (JObj d) = Inr () \<longleftrightarrow>
     fst ` set d \<subseteq> set SUPPORTED_KEYWORDS \<and>
     (\<forall>ps. map_of d ''properties'' = Some (JObj ps) \<longrightarrow> (\<forall>(n, c) \<in> set ps. reject_unsupported_keywords c = Inr ())) \<and>
     (\<forall>c. map_of d ''items'' = Some c \<longrightarrow> reject_unsupported_keywords c = Inr ())"
proof -
  have k: "List.find (\<lambda>(k, _). k \<notin> set SUPPORTED_KEYWORDS) d = None \<longleftrightarrow> fst ` set d \<subseteq> set SUPPORTED_KEYWORDS"
    by (auto simp: find_None_iff)
  have seq: "(case a of Inl e \<Rightarrow> Inl e | Inr _ \<Rightarrow> b) = Inr () \<longleftrightarrow> a = Inr () \<and> b = Inr ()" for a b :: "unit result"
    by (cases a) auto
  have p: "reject_in_field ''properties'' d = Inr () \<longleftrightarrow>
      (\<forall>ps. map_of d ''properties'' = Some (JObj ps) \<longrightarrow> (\<forall>(n, c) \<in> set ps. reject_unsupported_keywords c = Inr ()))"
    by (cases "map_of d ''properties''") (simp_all add: reject_in_field_map reject_in_properties_ok)
  have i: "reject_in_field ''items'' d = Inr () \<longleftrightarrow> (\<forall>c. map_of d ''items'' = Some c \<longrightarrow> reject_unsupported_keywords c = Inr ())"
    by (cases "map_of d ''items''") (simp_all add: reject_in_field_map)
  show ?thesis unfolding p [symmetric] i [symmetric] k [symmetric]
    by (cases "List.find (\<lambda>(k, _). k \<notin> set SUPPORTED_KEYWORDS) d") (auto simp: seq)
qed

lemma size_member: "(k, v) \<in> set d \<Longrightarrow> size v < size (JObj d)"
  by (induction d) auto

lemma reject_complete:
  assumes "\<And>d. subschema s (JObj d) \<Longrightarrow> fst ` set d \<subseteq> set SUPPORTED_KEYWORDS"
  shows "subschema s t \<Longrightarrow> reject_unsupported_keywords t = Inr ()"
proof (induction t rule: measure_induct_rule [where f = size])
  case (less t)
  show ?case
  proof (cases t)
    case (JObj d)
    have sub: "subschema s (JObj d)" using less.prems JObj by simp
    have 1: "reject_unsupported_keywords c = Inr ()"
      if ps: "map_of d ''properties'' = Some (JObj ps)" and c: "(n, c) \<in> set ps" for ps n c
    proof (rule less.IH)
      have "size c < size (JObj ps)" "size (JObj ps) < size (JObj d)"
        using size_member [OF c] size_member [OF map_of_SomeD [OF ps]] .
      then show "size c < size t" unfolding JObj by (rule less_trans)
      show "subschema s c" by (rule sub_property [OF sub ps c])
    qed
    have 2: "reject_unsupported_keywords c = Inr ()" if c: "map_of d ''items'' = Some c" for c
    proof (rule less.IH)
      show "size c < size t" unfolding JObj by (rule size_member [OF map_of_SomeD [OF c]])
      show "subschema s c" by (rule sub_items [OF sub c])
    qed
    show ?thesis unfolding JObj reject_obj_ok using 1 2 assms [OF sub] by blast
  qed simp_all
qed

text \<open>
  \<^verbatim>\<open>validate_schema\<close> accepts exactly the Draft 2020-12 schemas in which the schema itself and
  every sub-schema reached through \<^verbatim>\<open>properties\<close> and \<^verbatim>\<open>items\<close> uses supported keywords only.
\<close>

theorem schema_policy:
  "validate_schema E s = Inr () \<longleftrightarrow>
     env_check_schema E s \<and> (\<forall>d. subschema s (JObj d) \<longrightarrow> fst ` set d \<subseteq> set SUPPORTED_KEYWORDS)"
proof -
  have "reject_unsupported_keywords t = Inr ()" if "subschema s t" "reject_unsupported_keywords s = Inr ()" for t
    using that
  proof (induction rule: subschema.induct)
    case (sub_property d ps n c)
    then show ?case using reject_obj_ok [of d] by fastforce
  next
    case (sub_items d c)
    then show ?case using reject_obj_ok [of d] by blast
  qed
  then have "reject_unsupported_keywords s = Inr () \<longleftrightarrow> (\<forall>d. subschema s (JObj d) \<longrightarrow> fst ` set d \<subseteq> set SUPPORTED_KEYWORDS)"
    using reject_complete [OF _ sub_self] reject_obj_ok by blast
  then show ?thesis by (auto simp: validate_schema_def split: sum.splits)
qed

theorem schema_policy_witness:
  "\<not> subschema (JObj [(''type'', JStr ''object'')]) (JObj [(''pattern'', JStr ''x'')])"
proof -
  have "validate_schema demo_env (JObj [(''type'', JStr ''object'')]) = Inr ()"
    by (simp add: validate_schema_def demo_env_def SUPPORTED_KEYWORDS_def)
  then have "\<forall>d. subschema (JObj [(''type'', JStr ''object'')]) (JObj d) \<longrightarrow> fst ` set d \<subseteq> set SUPPORTED_KEYWORDS"
    using schema_policy [of demo_env "JObj [(''type'', JStr ''object'')]"] by blast
  then show ?thesis by (auto simp: SUPPORTED_KEYWORDS_def)
qed

section \<open>Sorting by a total order\<close>

lemma mset_insert_by [simp]: "mset (insert_by le x xs) = add_mset x (mset xs)"
  by (induction xs) auto

lemma mset_sort_by [simp]: "mset (sort_by le xs) = mset xs"
  by (induction xs) (auto simp: sort_by_def)

lemma insert_by_commute:
  assumes tr: "\<And>a b c. le a b \<Longrightarrow> le b c \<Longrightarrow> le a c" and tot: "\<And>a b. le a b \<or> le b a"
    and ne: "\<not> (le x y \<and> le y x)"
  shows "insert_by le x (insert_by le y zs) = insert_by le y (insert_by le x zs)"
proof (induction zs)
  case Nil
  show ?case using tot [of x y] ne by auto
next
  case (Cons z zs)
  show ?case using Cons tot [of x y] ne tr [of x y z] tr [of y x z] by (cases "le x z"; cases "le y z") auto
qed

lemma sort_by_perm:
  assumes tr: "\<And>a b c. le a b \<Longrightarrow> le b c \<Longrightarrow> le a c" and tot: "\<And>a b. le a b \<or> le b a"
    and anti: "\<And>a b. a \<in> set xs \<Longrightarrow> b \<in> set xs \<Longrightarrow> le a b \<Longrightarrow> le b a \<Longrightarrow> a = b"
    and perm: "mset xs = mset ys"
  shows "sort_by le xs = sort_by le ys"
proof -
  have "insert_by le a \<circ> insert_by le b = insert_by le b \<circ> insert_by le a" if "a \<in> set (rev xs)" "b \<in> set (rev xs)" for a b
  proof (cases "a = b")
    case False
    then have "\<not> (le a b \<and> le b a)" using anti that by auto
    from insert_by_commute [of le, OF tr tot this] show ?thesis by auto
  qed simp
  then have "fold (insert_by le) (rev xs) = fold (insert_by le) (rev ys)"
    by (rule fold_multiset_equiv) (simp_all add: perm)
  then show ?thesis by (simp add: sort_by_def foldr_conv_fold)
qed

lemma key_le_trans: "key_le a b \<Longrightarrow> key_le b c \<Longrightarrow> key_le a c"
  by (auto simp: key_le_def split: if_splits intro: string_le_trans dest: string_le_antisym)

lemma key_le_total: "key_le a b \<or> key_le b a"
  unfolding key_le_def by (metis string_le_total)

lemma key_le_antisym: "key_le a b \<Longrightarrow> key_le b a \<Longrightarrow> a = b"
  unfolding key_le_def by (metis prod.expand string_le_antisym)

section \<open>Package identity\<close>

lemma manifest_digest_irrelevant [simp]: "manifest_json (p\<lparr>pv_package_digest := d\<rparr>) = manifest_json p"
  by (simp add: manifest_json_def)

lemma package_digest_irrelevant [simp]: "package_digest_of E (p\<lparr>pv_package_digest := d\<rparr>) = package_digest_of E p"
  by (simp add: package_digest_of_def identity_payload_def)

lemma validate_contract_irrelevant [simp]: "validate_contract E (p\<lparr>pv_package_digest := d\<rparr>) = validate_contract E p"
  by (simp add: validate_contract_def package_key_def)

text \<open>
  Claim C33. A constructed package carries the digest of its own identity payload, and constructing it
  again from its fields, as every reload of a stored or transmitted package does, succeeds and gives
  the same package.
\<close>

theorem package_self_verifying:
  assumes ok: "make_package E p = Inr q" and sha: "\<And>b. lower_sha256 (sha256_hex (env_hash E) b)"
  shows "package_digest_of E q = Inr (pv_package_digest q) \<and> make_package E q = Inr q"
proof -
  from ok obtain d where d: "package_digest_of E p = Inr d" and q: "q = p\<lparr>pv_package_digest := d\<rparr>"
      and v: "validate_contract E p = Inr ()" "pv_capability_exports p \<noteq> []"
    by (auto simp: make_package_def post_init_def Let_def split: sum.splits if_splits)
  from d obtain b where "d = sha256_hex (env_hash E) b"
    by (auto simp: package_digest_of_def digest_json_def split: sum.splits)
  with sha have l: "lower_sha256 d" by simp
  then have "d \<noteq> []" "lower d = d" by (auto simp: lower_sha256_def lower_sha256_id)
  with d v l show ?thesis by (simp add: q make_package_def post_init_def Let_def)
qed

theorem package_self_verifying_witness:
  "\<exists>E p q. make_package E p = Inr q \<and> make_package E q = Inr q"
proof -
  let ?E = "demo_env\<lparr>env_hash := demo_sha, env_registry := [((''function'', ''k'', ''1''), [])]\<rparr>"
  let ?e = "\<lparr>ce_capability_descriptor_ref = plain_ref ''d'', ce_io_contract_ref = plain_ref ''i'', ce_effect_class = ''Known'',
     ce_permissions = [], ce_replay_safety = ''Idempotent'', ce_runtime_binding = []\<rparr>"
  let ?p = "\<lparr>pv_package_type = ''function'', pv_package_id = ''p'', pv_package_version = ''v1'', pv_package_closure_version_ref = [],
     pv_source_run_ref = [], pv_source_closure_version_ref = [], pv_scope = Run_Bound, pv_publication_state = Candidate,
     pv_provenance = [], pv_execution = \<lparr>ec_kind = ''k'', ec_version = ''1''\<rparr>, pv_capability_exports = [?e], pv_body = [],
     pv_package_digest = []\<rparr>"
  have sha: "lower_sha256 (sha256_hex (env_hash ?E) b)" for b
    by (simp add: demo_sha_def lower_sha256_def list_all_iff is_lower_hex_def)
  obtain q where q: "make_package ?E ?p = Inr q"
    by (simp add: make_package_def post_init_def package_digest_of_def identity_payload_def manifest_json_def execution_json_def
        export_json_def ref_json_def str_or_null_def is_ref_object_def dhas_def ref_fields_def normalize_order_def set_like_keys_def
        sort_exports_def sort_by_def export_key_def normalize_ref_def digest_json_def canonical_json_bytes_def demo_env_def demo_sha_def
        validate_contract_def validate_manifest_def package_key_def schema_for_def Let_def content_prefix_def startswith_def)
  from package_self_verifying [OF q sha] q show ?thesis by blast
qed

lemma normalize_list_ok:
  "normalize_list E k xs = Inr ys \<longleftrightarrow> list_all2 (\<lambda>x y. normalize_value E k x = Inr y) xs ys"
proof (induction xs arbitrary: ys)
  case (Cons x xs)
  have "normalize_list E k (x # xs) = Inr ys \<longleftrightarrow>
      (\<exists>z zs. ys = z # zs \<and> normalize_value E k x = Inr z \<and> normalize_list E k xs = Inr zs)"
    by (auto split: sum.splits)
  then show ?case by (auto simp: Cons.IH list_all2_Cons1)
qed auto

text \<open>The identity of an export: its descriptor reference in normal form.\<close>

definition export_identity :: "env \<Rightarrow> capability_export \<Rightarrow> (string \<times> string) result" where
  "export_identity E e =
     (case normalize_value E ''capability_exports'' (export_json e) of Inl x \<Rightarrow> Inl x | Inr v \<Rightarrow> export_key E v)"

lemma normalize_export_obj:
  assumes "normalize_value E k (export_json e) = Inr v"
  shows "is_obj v"
  using assms by (auto simp: export_json_def is_ref_object_def dhas_def split: if_splits sum.splits)

lemma normalize_exports_perm:
  assumes es: "normalize_list E ''capability_exports'' (map export_json es) = Inr ys"
    and perm: "mset es' = mset es"
  obtains ys' where "normalize_list E ''capability_exports'' (map export_json es') = Inr ys'" and "mset ys' = mset ys"
proof -
  let ?f = "\<lambda>e. projr (normalize_value E ''capability_exports'' (export_json e))"
  have all: "list_all2 (\<lambda>x y. normalize_value E ''capability_exports'' x = Inr y) (map export_json es) ys"
    using es by (simp add: normalize_list_ok)
  then have ys: "ys = map ?f es"
    by (induction es arbitrary: ys) (auto simp: list_all2_Cons1)
  have ok: "normalize_value E ''capability_exports'' (export_json e) = Inr (?f e)" if "e \<in> set es" for e
    using all that unfolding ys by (auto simp: list_all2_conv_all_nth in_set_conv_nth)
  have "set es' = set es" using perm by (rule mset_eq_setD)
  then have "list_all2 (\<lambda>x y. normalize_value E ''capability_exports'' x = Inr y) (map export_json es') (map ?f es')"
    using ok nth_mem [of _ es'] by (auto simp only: list_all2_conv_all_nth length_map nth_map)
  moreover have "mset (map ?f es') = mset ys" using perm by (simp add: ys mset_map)
  ultimately show ?thesis using that normalize_list_ok by blast
qed

lemma all_ok_map_projr:
  assumes "all_ok (map f xs) = Inr ys"
  shows "ys = map (\<lambda>x. projr (f x)) xs" and "x \<in> set xs \<Longrightarrow> f x = Inr (projr (f x))"
proof -
  have "ys = map (\<lambda>x. projr (f x)) xs \<and> (\<forall>x \<in> set xs. f x = Inr (projr (f x)))"
    using assms
  proof (induction xs arbitrary: ys)
    case (Cons x xs)
    then show ?case by (cases "f x") (auto split: sum.splits)
  qed simp
  then show "ys = map (\<lambda>x. projr (f x)) xs" and "x \<in> set xs \<Longrightarrow> f x = Inr (projr (f x))" by auto
qed

lemma all_ok_map: "(\<And>x. x \<in> set xs \<Longrightarrow> f x = Inr (projr (f x))) \<Longrightarrow> all_ok (map f xs) = Inr (map (\<lambda>x. projr (f x)) xs)"
proof (induction xs)
  case (Cons x xs)
  from Cons.prems [of x] obtain y where "f x = Inr y" by auto
  with Cons show ?case by simp
qed simp

lemma sort_exports_perm:
  assumes ok: "sort_exports E xs = Inr zs" and obj: "\<And>x. x \<in> set xs \<Longrightarrow> is_obj x"
    and dist: "distinct (map (export_key E) xs)" and perm: "mset ys = mset xs"
  shows "sort_exports E ys = Inr zs"
proof -
  let ?k = "\<lambda>x. projr (export_key E x)"
  have st: "set ys = set xs" using perm by (rule mset_eq_setD)
  from ok obtain keys where keys: "all_ok (map (export_key E) xs) = Inr keys" by (auto simp: sort_exports_def split: sum.splits)
  note k = all_ok_map_projr [OF keys]
  have ky: "all_ok (map (export_key E) ys) = Inr (map ?k ys)" using k(2) st by (intro all_ok_map) blast
  have z: "zip (map ?k us) us = map (\<lambda>x. (?k x, x)) us" for us by (induction us) simp_all
  have "sort_by (\<lambda>a b. key_le (fst a) (fst b)) (zip (map ?k xs) xs) = sort_by (\<lambda>a b. key_le (fst a) (fst b)) (zip (map ?k ys) ys)"
  proof (rule sort_by_perm)
    fix a b assume "a \<in> set (zip (map ?k xs) xs)" "b \<in> set (zip (map ?k xs) xs)" "key_le (fst a) (fst b)" "key_le (fst b) (fst a)"
    then obtain x y where xy: "a = (?k x, x)" "b = (?k y, y)" "x \<in> set xs" "y \<in> set xs" "?k x = ?k y"
      unfolding z using key_le_antisym by fastforce
    then have "export_key E x = export_key E y" using k(2) by metis
    then show "a = b" using dist xy by (auto simp: distinct_map dest: inj_onD)
  next
    show "mset (zip (map ?k xs) xs) = mset (zip (map ?k ys) ys)" unfolding z using perm by (simp add: mset_map)
  qed (use key_le_trans key_le_total in \<open>blast+\<close>)
  moreover have "list_all is_obj xs" "list_all is_obj ys" using obj st by (auto simp: list_all_iff)
  ultimately show ?thesis using ok keys ky k(1) by (simp add: sort_exports_def)
qed

text \<open>
  The digest of a package does not depend on the order in which its capability exports are
  listed: any rearrangement of exports with distinct identities gives the same package digest.
\<close>

theorem package_digest_export_order:
  assumes ok: "package_digest_of E p = Inr d"
    and dist: "distinct (map (export_identity E) (pv_capability_exports p))"
    and perm: "mset es = mset (pv_capability_exports p)"
  shows "package_digest_of E (p\<lparr>pv_capability_exports := es\<rparr>) = Inr d"
proof -
  let ?k = "''capability_exports''" and ?es = "pv_capability_exports p"
  from ok obtain v where v: "identity_payload E p = Inr v" by (auto simp: package_digest_of_def split: sum.splits)
  have nr: "\<not> is_ref_object [(''package_type'', a), (''execution'', b), (?k, c), (''body'', f)]" for a b c f
    by (simp add: is_ref_object_def dhas_def)
  from v obtain ys zs where ys: "normalize_list E ?k (map export_json ?es) = Inr ys" and zs: "sort_exports E ys = Inr zs"
    by (auto simp: identity_payload_def manifest_json_def nr normalize_order_def split: sum.splits)
  have all: "list_all2 (\<lambda>x y. normalize_value E ?k x = Inr y) (map export_json ?es) ys" using ys normalize_list_ok by blast
  have "map (export_identity E) ?es = map (export_key E) ys"
    by (rule nth_equalityI) (use all in \<open>auto simp: list_all2_conv_all_nth export_identity_def\<close>)
  with dist have dk: "distinct (map (export_key E) ys)" by simp
  have obj: "is_obj y" if "y \<in> set ys" for y
    using that all normalize_export_obj by (auto simp: list_all2_conv_all_nth in_set_conv_nth)
  obtain ys' where ys': "normalize_list E ?k (map export_json es) = Inr ys'" "mset ys' = mset ys"
    by (rule normalize_exports_perm [OF ys perm])
  have "sort_exports E ys' = Inr zs" by (rule sort_exports_perm [OF zs obj dk ys'(2)])
  with ys ys'(1) zs have
    "normalize_value E ?k (JArr (map export_json es)) = normalize_value E ?k (JArr (map export_json ?es))"
    by (simp add: normalize_order_def)
  then have "identity_payload E (p\<lparr>pv_capability_exports := es\<rparr>) = identity_payload E p"
    by (cases "normalize_value E ''execution'' (execution_json (pv_execution p))")
      (simp_all add: identity_payload_def manifest_json_def nr del: normalize_value.simps(2))
  with ok show ?thesis by (simp add: package_digest_of_def)
qed

theorem package_digest_export_order_witness:
  "\<exists>E p e1 e2 d. e1 \<noteq> e2 \<and> pv_capability_exports p = [e1, e2] \<and> package_digest_of E p = Inr d \<and>
     package_digest_of E (p\<lparr>pv_capability_exports := [e2, e1]\<rparr>) = Inr d"
proof -
  let ?e = "\<lambda>i. \<lparr>ce_capability_descriptor_ref = plain_ref i, ce_io_contract_ref = plain_ref ''i'', ce_effect_class = ''Known'',
     ce_permissions = [], ce_replay_safety = ''Idempotent'', ce_runtime_binding = []\<rparr>"
  let ?p = "\<lparr>pv_package_type = ''function'', pv_package_id = ''p'', pv_package_version = ''v1'', pv_package_closure_version_ref = [],
     pv_source_run_ref = [], pv_source_closure_version_ref = [], pv_scope = Run_Bound, pv_publication_state = Candidate,
     pv_provenance = [], pv_execution = \<lparr>ec_kind = ''k'', ec_version = ''1''\<rparr>,
     pv_capability_exports = [?e ''a'', ?e ''b''], pv_body = [], pv_package_digest = []\<rparr>"
  note ev = package_digest_of_def identity_payload_def manifest_json_def execution_json_def export_json_def ref_json_def
    str_or_null_def is_ref_object_def dhas_def ref_fields_def normalize_order_def set_like_keys_def sort_exports_def sort_by_def
    export_key_def normalize_ref_def digest_json_def canonical_json_bytes_def demo_env_def demo_H_def Let_def content_prefix_def
    startswith_def py_str_def export_identity_def key_le_def
  obtain d where d: "package_digest_of demo_env ?p = Inr d" by (simp add: ev)
  have dist: "distinct (map (export_identity demo_env) (pv_capability_exports ?p))" by (simp add: ev)
  have perm: "mset [?e ''b'', ?e ''a''] = mset (pv_capability_exports ?p)" by simp
  from package_digest_export_order [OF d dist perm] d show ?thesis by (intro exI [of _ demo_env] exI [of _ ?p]) fastforce
qed

end
