(* ===== verification/Packages.thy ===== *)
theory Packages
  imports Agents Content
begin

text \<open>
  Capability packages and their activations on Slaves (\<^verbatim>\<open>ObserverRepository\<close>: the Slave snapshot and the
  projection of ready capabilities, package lookup and visibility, abandoning and promotion, desired
  and reported activation state; \<^verbatim>\<open>contracts/refs.py\<close>: the choice of Slave agents and the support
  test; \<^verbatim>\<open>observer/activation.py\<close>).

  A package object lives in the package list of one Run record; \<open>package_at\<close> finds it with its
  position, so that the in-place change of \<^verbatim>\<open>abandon_capability_package\<close> reaches that object. The
  asyncio locks of the sources make each operation one step.
\<close>

section \<open>The Slave snapshot\<close>

record slave_details =
  sd_capabilities :: dict
  sd_base_operations :: "json list"
  sd_operations :: "json list"

record slave_store = agent_store +
  slave_agents :: "(string \<times> agent_record) list"
  slave_instances :: "((string \<times> string) \<times> agent_record) list"
  slave_capabilities :: "(string \<times> slave_details) list"
  operation_descriptor_registry :: "((string \<times> string) \<times> json) list"

type_synonym ('z, 'a) slave_op = "('z slave_store_scheme, 'a) op"

definition select_slave_agents :: "agent_record list \<Rightarrow> (string \<times> agent_record) list" where
  "select_slave_agents ags =
     fold (\<lambda>a selected.
        if ag_agent_id a = [] then selected
        else (case map_of selected (ag_agent_id a) of
                None \<Rightarrow> AList.update (ag_agent_id a) a selected
              | Some current \<Rightarrow>
                  if ag_lease_state a = Lease_Active \<and> ag_lease_state current \<noteq> Lease_Active
                  then AList.update (ag_agent_id a) a selected else selected)) ags []"

text \<open>\<^verbatim>\<open>set(v)\<close>, as the list of its members.\<close>

definition py_set :: "json \<Rightarrow> json list result" where
  "py_set v =
     (case py_iter v of
        None \<Rightarrow> Inl (TypeError ''object is not iterable'')
      | Some xs \<Rightarrow> if list_all hashable xs then Inr (remdups xs) else Inl (TypeError ''unhashable type''))"

definition base_operations :: "dict \<Rightarrow> json list result" where
  "base_operations caps =
     py_set (dget_default caps ''base_operations'' (dget_default caps ''operations'' (JArr [])))"

fun snapshot_capabilities ::
  "(string \<times> agent_record) list \<Rightarrow> (string \<times> slave_details) list \<Rightarrow> unit result \<times> (string \<times> slave_details) list" where
  "snapshot_capabilities [] acc = (Inr (), acc)"
| "snapshot_capabilities ((i, a) # rest) acc =
     (if ag_lease_state a \<noteq> Lease_Active then snapshot_capabilities rest acc
      else (case base_operations (ag_capabilities a) of
              Inl e \<Rightarrow> (Inl e, acc)
            | Inr ops \<Rightarrow> snapshot_capabilities rest
                (AList.update i \<lparr>sd_capabilities = ag_capabilities a, sd_base_operations = ops, sd_operations = ops\<rparr> acc)))"

definition store_slave_snapshot :: "agent_record list \<Rightarrow> ('z, unit) slave_op" where
  "store_slave_snapshot ags s =
     (let selected = select_slave_agents ags;
          instances = fold (\<lambda>a d. AList.update (ag_agent_id a, ag_instance_id a) a d)
                        (filter (\<lambda>a. ag_agent_id a \<noteq> []) ags) [];
          (r, caps) = snapshot_capabilities selected []
      in (r, s\<lparr>slave_instances := instances, slave_agents := selected, slave_capabilities := caps\<rparr>))"

definition set_slave_capabilities :: "string \<Rightarrow> json list \<Rightarrow> 'z slave_store_scheme \<Rightarrow> 'z slave_store_scheme" where
  "set_slave_capabilities slave_id ops s =
     (let d = (case map_of (slave_capabilities s) slave_id of
                 None \<Rightarrow> \<lparr>sd_capabilities = [], sd_base_operations = [], sd_operations = []\<rparr> | Some d \<Rightarrow> d)
      in s\<lparr>slave_capabilities := AList.update slave_id (d\<lparr>sd_base_operations := ops, sd_operations := ops\<rparr>)
             (slave_capabilities s)\<rparr>)"

definition canonical_target_resource_id :: "string \<Rightarrow> 'z slave_store_scheme \<Rightarrow> string" where
  "canonical_target_resource_id i s =
     (if map_of (slave_capabilities s) i \<noteq> None then i
      else let normalized = rstrip CHR ''/'' i in
           case List.find (\<lambda>(sid, _). endswith normalized (''/'' @ sid) \<or> endswith normalized ('':'' @ sid)) (slave_capabilities s) of
             None \<Rightarrow> i
           | Some (sid, _) \<Rightarrow> sid)"

definition slave_is_active :: "string \<Rightarrow> 'z slave_store_scheme \<Rightarrow> bool" where
  "slave_is_active i s =
     (case map_of (slave_agents s) i of None \<Rightarrow> False | Some a \<Rightarrow> ag_lease_state a = Lease_Active)"

text \<open>
  \<^verbatim>\<open>slave_supports_package\<close>: a declared executor, or a runtime plugin, for the package's contract key. The
  declared executors of a registration are a list, a string or a dictionary; a number there, on which
  the sources raise, counts as no executor.
\<close>

definition str_or :: "env \<Rightarrow> json \<Rightarrow> string \<Rightarrow> string" where
  "str_or E v dflt = (if truthy v then py_str E v else dflt)"

definition executor_matches :: "env \<Rightarrow> package_version \<Rightarrow> json \<Rightarrow> bool" where
  "executor_matches E p item =
     (case item of
        JObj d \<Rightarrow> (str_or E (dget d ''package_type'') [], str_or E (dget d ''kind'') [], str_or E (dget d ''version'') ''1'')
                  = package_key p
      | _ \<Rightarrow> False)"

definition or_else :: "json \<Rightarrow> json \<Rightarrow> json" where
  "or_else a b = (if truthy a then a else b)"

definition support_matches :: "env \<Rightarrow> package_version \<Rightarrow> json \<Rightarrow> bool" where
  "support_matches E p support =
     (case support of
        JObj d \<Rightarrow>
          let x = (case dget d ''execution'' of JObj e \<Rightarrow> e | _ \<Rightarrow> d)
          in (str_or E (dget d ''package_type'') [], str_or E (or_else (dget d ''execution_kind'') (dget x ''kind'')) [],
              str_or E (or_else (dget d ''execution_version'') (dget x ''version'')) ''1'') = package_key p
      | _ \<Rightarrow> False)"

definition slave_supports_package :: "env \<Rightarrow> string \<Rightarrow> package_version \<Rightarrow> 'z slave_store_scheme \<Rightarrow> bool" where
  "slave_supports_package E i p s =
     (if \<not> slave_is_active i s then False
      else
        let caps = (case map_of (slave_capabilities s) i of None \<Rightarrow> [] | Some d \<Rightarrow> sd_capabilities d);
            declared = or_else (or_else (dget caps ''executor_kinds'') (dget caps ''executors'')) (dget caps ''executor_descriptors'');
            executors = (if \<not> truthy declared then [] else if is_str declared then [declared]
                         else (case py_iter declared of None \<Rightarrow> [] | Some xs \<Rightarrow> xs));
            descriptors = arr_of (or_else (or_else (dget caps ''runtime_plugin_descriptors'') (dget caps ''runtime_plugins'')) (JArr []));
            supports = concat (map (\<lambda>d. case d of JObj o' \<Rightarrow> arr_of (dget_default o' ''supports'' (JArr [])) | _ \<Rightarrow> []) descriptors)
        in list_ex (executor_matches E p) executors \<or> list_ex (support_matches E p) supports)"

section \<open>Package lookup\<close>

definition default_workspace :: string where
  "default_workspace = ''workspace-default''"

definition run_workspace :: "run_record \<Rightarrow> string" where
  "run_workspace r = (case rn_closure_contract r of None \<Rightarrow> default_workspace | Some c \<Rightarrow> cc_workspace_id c)"

definition package_visible_to_run :: "package_version \<Rightarrow> string option \<Rightarrow> 'z run_store_scheme \<Rightarrow> bool" where
  "package_visible_to_run p run_id s =
     (case run_id of
        None \<Rightarrow> pv_scope p = Run_Bound \<or> (pv_scope p = Workspace_Reusable \<and> pv_publication_state p = Published)
      | Some i \<Rightarrow>
          (case map_of (runs s) i of
             None \<Rightarrow> False
           | Some run \<Rightarrow>
               if pv_scope p = Run_Bound then pv_source_run_ref p = i
               else if pv_publication_state p \<noteq> Published then False
               else (case map_of (runs s) (pv_source_run_ref p) of
                       None \<Rightarrow> False
                     | Some source \<Rightarrow>
                         (case (rn_closure_contract source, rn_closure_contract run) of
                            (Some cs, Some cr) \<Rightarrow> cc_workspace_id cs = cc_workspace_id cr
                          | _ \<Rightarrow> False))))"

datatype package_arg = By_Id string | By_Ref resource_ref

fun arg_id :: "package_arg \<Rightarrow> string" where
  "arg_id (By_Id i) = i"
| "arg_id (By_Ref r) = rr_resource_id r"

fun arg_digest :: "package_arg \<Rightarrow> string option" where
  "arg_digest (By_Id i) = None"
| "arg_digest (By_Ref r) = (if nonempty (ref_digest r) then ref_digest r else None)"

definition package_le :: "package_version \<Rightarrow> package_version \<Rightarrow> bool" where
  "package_le a b =
     (let ra = (pv_scope a = Workspace_Reusable); rb = (pv_scope b = Workspace_Reusable) in
      if ra \<noteq> rb then ra
      else if pv_package_id a \<noteq> pv_package_id b then string_le (pv_package_id a) (pv_package_id b)
      else if pv_package_version a \<noteq> pv_package_version b then string_le (pv_package_version a) (pv_package_version b)
      else string_le (pv_source_run_ref a) (pv_source_run_ref b))"

definition package_positions :: "(string \<times> run_record) list \<Rightarrow> (string \<times> nat \<times> package_version) list" where
  "package_positions rs =
     concat (map (\<lambda>(k, r). map (\<lambda>(i, p). (k, i, p)) (List.enumerate 0 (rn_capability_packages r))) rs)"

definition package_candidate :: "package_arg \<Rightarrow> string option \<Rightarrow> 'z run_store_scheme \<Rightarrow> package_version \<Rightarrow> bool" where
  "package_candidate a run_id s p =
     (package_visible_to_run p run_id s \<and> version_ref p = arg_id a \<and>
      (arg_digest a = None \<or> arg_digest a = Some (lower (pv_package_digest p))))"

definition package_at :: "package_arg \<Rightarrow> string option \<Rightarrow> 'z run_store_scheme \<Rightarrow> (string \<times> nat \<times> package_version) option" where
  "package_at a run_id s =
     (case sort_by (\<lambda>x y. package_le (snd (snd x)) (snd (snd y)))
             (filter (\<lambda>(k, i, p). package_candidate a run_id s p) (package_positions (runs s))) of
        [] \<Rightarrow> None
      | x # _ \<Rightarrow> Some x)"

definition find_package :: "package_arg \<Rightarrow> string option \<Rightarrow> 'z run_store_scheme \<Rightarrow> package_version option" where
  "find_package a run_id s = map_option (\<lambda>(k, i, p). p) (package_at a run_id s)"

definition list_capability_packages :: "string option \<Rightarrow> bool \<Rightarrow> 'z run_store_scheme \<Rightarrow> package_version list result" where
  "list_capability_packages run_id include_abandoned s =
     (let pick = (\<lambda>rs. filter (\<lambda>p. include_abandoned \<or> pv_publication_state p \<noteq> Abandoned) (concat (map rn_capability_packages rs)))
      in if nonempty run_id
         then (case map_of (runs s) (the run_id) of None \<Rightarrow> Inl (KeyError (the run_id)) | Some r \<Rightarrow> Inr (pick [r]))
         else Inr (pick (map snd (runs s))))"

definition get_capability_package :: "package_arg \<Rightarrow> string option \<Rightarrow> 'z run_store_scheme \<Rightarrow> package_version result" where
  "get_capability_package a run_id s =
     (case find_package a run_id s of None \<Rightarrow> Inl (KeyError (arg_id a)) | Some p \<Rightarrow> Inr p)"

record capability_package =
  cp_package_id :: string
  cp_versions :: "package_version list"
  cp_activations :: "activation list"

definition get_capability_package_aggregate :: "string \<Rightarrow> 'z run_store_scheme \<Rightarrow> capability_package result" where
  "get_capability_package_aggregate i s =
     (case get_capability_package (By_Id i) None s of
        Inl e \<Rightarrow> Inl e
      | Inr p \<Rightarrow>
          Inr \<lparr>cp_package_id = pv_package_id p,
               cp_versions = filter (\<lambda>q. pv_package_id q = pv_package_id p) (concat (map (rn_capability_packages \<circ> snd) (runs s))),
               cp_activations = filter (\<lambda>a. ac_package_version_ref a = version_ref p)
                 (concat (map (rn_capability_activations \<circ> snd) (runs s)))\<rparr>)"

section \<open>Ready capabilities\<close>

definition activation_operations :: "string \<Rightarrow> 'z run_store_scheme \<Rightarrow> activation \<Rightarrow> json list" where
  "activation_operations target s a =
     (if ac_target_slave a \<noteq> target \<or> ac_desired_state a \<noteq> Desired_Running \<or> ac_activation_state a \<noteq> Ready then []
      else (case find_package (By_Ref ((plain_ref (ac_package_version_ref a))\<lparr>rr_version_or_digest := Some (ac_package_digest a)\<rparr>)) None s of
              None \<Rightarrow> []
            | Some p \<Rightarrow>
                if pv_package_digest p \<noteq> ac_package_digest a then []
                else map (\<lambda>e. JStr (operation_name (rr_resource_id (ce_capability_descriptor_ref e)))) (pv_capability_exports p)))"

definition ready_operations :: "string \<Rightarrow> 'z run_store_scheme \<Rightarrow> json list" where
  "ready_operations target s =
     concat (map (activation_operations target s) (concat (map (rn_capability_activations \<circ> snd) (runs s))))"

fun project_targets :: "string list \<Rightarrow> ('z, unit) slave_op" where
  "project_targets [] s = (Inr (), s)"
| "project_targets (t # ts) s =
     (case (map_of (slave_capabilities s) t, map_of (slave_agents s) t) of
        (Some d, Some a) \<Rightarrow>
          (case base_operations (ag_capabilities a) of
             Inl e \<Rightarrow> (Inl e, s)
           | Inr base \<Rightarrow> project_targets ts
               (s\<lparr>slave_capabilities := AList.update t (d\<lparr>sd_operations := remdups (base @ ready_operations t s)\<rparr>) (slave_capabilities s)\<rparr>))
      | _ \<Rightarrow> project_targets ts s)"

definition project_ready_capabilities :: "string option \<Rightarrow> ('z, unit) slave_op" where
  "project_ready_capabilities slave_id s =
     project_targets (case slave_id of Some i \<Rightarrow> [i] | None \<Rightarrow> map fst (slave_capabilities s)) s"

definition refresh_slaves :: "time \<Rightarrow> time \<Rightarrow> string option \<Rightarrow> ('z, agent_record list) slave_op" where
  "refresh_slaves now ttl workspace_id s =
     (let (ags, s1) = list_agents now ttl (if nonempty workspace_id then the workspace_id else default_workspace) (Some Slave) s
      in case store_slave_snapshot ags s1 of
           (Inl e, s2) \<Rightarrow> (Inl e, s2)
         | (Inr _, s2) \<Rightarrow>
             (case project_ready_capabilities None s2 of
                (Inl e, s3) \<Rightarrow> (Inl e, s3)
              | (Inr _, s3) \<Rightarrow> (Inr ags, s3)))"

section \<open>Operation descriptors\<close>

definition register_operation_descriptor :: "env \<Rightarrow> string \<Rightarrow> json \<Rightarrow> string option \<Rightarrow> ('z, string) slave_op" where
  "register_operation_descriptor E resource_id descriptor digest s =
     (case digest_json (env_hash E) descriptor operation_descriptor_domain of
        Inl e \<Rightarrow> (Inl e, s)
      | Inr computed \<Rightarrow>
          if digest \<noteq> None \<and> map_option lower digest \<noteq> Some computed
          then (Inl (ValueError ''operation_descriptor_digest_mismatch''), s)
          else (Inr computed, s\<lparr>operation_descriptor_registry :=
                  AList.update (resource_id, computed) descriptor (operation_descriptor_registry s)\<rparr>))"

definition check_descriptor :: "env \<Rightarrow> json \<Rightarrow> string \<Rightarrow> unit result" where
  "check_descriptor E payload digest =
     (case digest_json (env_hash E) payload operation_descriptor_domain of
        Inl e \<Rightarrow> Inl e
      | Inr d \<Rightarrow> if d \<noteq> digest then Inl (ValueError ''operation_descriptor_digest_mismatch'') else Inr ())"

definition validate_operation_descriptor_ref :: "env \<Rightarrow> 'z slave_store_scheme \<Rightarrow> resource_ref \<Rightarrow> unit result" where
  "validate_operation_descriptor_ref E s r =
     (let digest = digest_or_empty r in
      if digest = [] then Inl (ValueError ''operation_descriptor_unavailable'')
      else if startswith (rr_resource_id r) content_prefix
      then (case env_get E ((plain_ref (rr_resource_id r))\<lparr>rr_identity_criterion := Some ''content_digest''\<rparr>) of
              Inl e \<Rightarrow> Inl e
            | Inr raw \<Rightarrow>
                (case env_json_loads E raw of
                   None \<Rightarrow> Inl (ValueError ''operation_descriptor_unavailable'')
                 | Some payload \<Rightarrow> check_descriptor E payload digest))
      else (case map_of (operation_descriptor_registry s) (rr_resource_id r, digest) of
              None \<Rightarrow> Inl (ValueError ''operation_descriptor_unavailable'')
            | Some payload \<Rightarrow> check_descriptor E payload digest))"

definition check_schema_ref :: "env \<Rightarrow> resource_ref option \<Rightarrow> unit result" where
  "check_schema_ref E r =
     (case r of
        None \<Rightarrow> Inr ()
      | Some ref \<Rightarrow> (case load_json_content E ref of Inl e \<Rightarrow> Inl e | Inr v \<Rightarrow> validate_schema E v))"

definition check_io_contract :: "env \<Rightarrow> resource_ref \<Rightarrow> unit result" where
  "check_io_contract E r =
     (case load_json_content E r of
        Inl e \<Rightarrow> Inl e
      | Inr v \<Rightarrow>
          (case io_contract_of_json v of
             Inl e \<Rightarrow> Inl e
           | Inr io \<Rightarrow>
               (case check_schema_ref E (io_input_schema_ref io) of
                  Inl e \<Rightarrow> Inl e
                | Inr _ \<Rightarrow>
                    (case check_schema_ref E (io_output_schema_ref io) of
                       Inl e \<Rightarrow> Inl e
                     | Inr _ \<Rightarrow>
                         (case io_success_validator_ref io of
                            None \<Rightarrow> Inr ()
                          | Some vr \<Rightarrow>
                              (case require_content_ref vr of
                                 Inl e \<Rightarrow> Inl e
                               | Inr _ \<Rightarrow> (case env_get E vr of Inl e \<Rightarrow> Inl e | Inr _ \<Rightarrow> Inr ())))))))"

text \<open>The \<^verbatim>\<open>except (FileNotFoundError, TypeError, ValueError)\<close> that turns a failure into \<^verbatim>\<open>io_contract_invalid\<close>.\<close>

definition validate_export :: "env \<Rightarrow> 'z slave_store_scheme \<Rightarrow> capability_export \<Rightarrow> unit result" where
  "validate_export E s e =
     (case validate_operation_descriptor_ref E s (ce_capability_descriptor_ref e) of
        Inl err \<Rightarrow> Inl err
      | Inr _ \<Rightarrow>
          (case check_io_contract E (ce_io_contract_ref e) of
             Inl err \<Rightarrow> Inl (if is_content_error err then ValueError ''io_contract_invalid'' else err)
           | Inr _ \<Rightarrow> Inr ()))"

fun validate_exports :: "env \<Rightarrow> 'z slave_store_scheme \<Rightarrow> capability_export list \<Rightarrow> unit result" where
  "validate_exports E s [] = Inr ()"
| "validate_exports E s (e # es) =
     (case validate_export E s e of Inl err \<Rightarrow> Inl err | Inr _ \<Rightarrow> validate_exports E s es)"

definition validate_package_exports :: "env \<Rightarrow> 'z slave_store_scheme \<Rightarrow> package_version \<Rightarrow> unit result" where
  "validate_package_exports E s p = validate_exports E s (pv_capability_exports p)"

section \<open>Abandoning and promoting\<close>

definition update_run :: "string \<Rightarrow> (run_record \<Rightarrow> run_record) \<Rightarrow> 'z run_store_scheme \<Rightarrow> 'z run_store_scheme" where
  "update_run k f s = (case map_of (runs s) k of None \<Rightarrow> s | Some r \<Rightarrow> put_run k (f r) s)"

definition find_run :: "(run_record \<Rightarrow> bool) \<Rightarrow> 'z run_store_scheme \<Rightarrow> (string \<times> run_record) option" where
  "find_run P s = List.find (\<lambda>(k, r). P r) (runs s)"

definition abandon_capability_package :: "time \<Rightarrow> string \<Rightarrow> string option \<Rightarrow> ('z, package_version) run_op" where
  "abandon_capability_package now package_ref idempotency_key s =
     (case package_at (By_Id package_ref) None s of
        None \<Rightarrow> (Inl (KeyError package_ref), s)
      | Some (k, i, p) \<Rightarrow>
          if pv_publication_state p = Abandoned then (Inr p, s)
          else
            let q = p\<lparr>pv_publication_state := Abandoned\<rparr>;
                s1 = update_run k (\<lambda>r. r\<lparr>rn_capability_packages := (rn_capability_packages r)[i := q]\<rparr>) s
            in case find_run (\<lambda>r. list_ex (\<lambda>x. pv_package_id x = pv_package_id p \<and> pv_package_version x = pv_package_version p)
                       (rn_capability_packages r)) s1 of
                 None \<Rightarrow> (Inr q, s1)
               | Some (j, r) \<Rightarrow> (Inr q, put_run j (log_event (Ev_Package_Abandoned (version_ref p) idempotency_key now) r) s1))"

definition reusable_matches_candidate :: "package_version \<Rightarrow> package_version \<Rightarrow> bool" where
  "reusable_matches_candidate reusable candidate =
     (if pv_scope reusable \<noteq> Workspace_Reusable \<or> pv_publication_state reusable \<noteq> Published then False
      else if pv_package_id reusable \<noteq> pv_package_id candidate then False
      else if list_ex (\<lambda>entry. dget entry ''derived_from'' = JStr (version_ref candidate) \<and>
                               dget entry ''derived_from_digest'' = JStr (pv_package_digest candidate)) (pv_provenance reusable)
      then True
      else pv_package_version reusable = pv_package_version candidate @ ''-reusable'' \<and>
           pv_package_type reusable = pv_package_type candidate \<and>
           pv_package_digest reusable = pv_package_digest candidate \<and>
           pv_source_run_ref reusable = pv_source_run_ref candidate \<and>
           pv_source_closure_version_ref reusable = pv_source_closure_version_ref candidate)"

definition all_packages :: "'z run_store_scheme \<Rightarrow> package_version list" where
  "all_packages s = concat (map (rn_capability_packages \<circ> snd) (runs s))"

definition promotion_check :: "package_version \<Rightarrow> string option \<Rightarrow> unit result" where
  "promotion_check candidate approved_digest =
     (if pv_publication_state candidate = Abandoned then Inl (ValueError ''capability_package_abandoned'')
      else if nonempty approved_digest \<and> approved_digest \<noteq> Some (pv_package_digest candidate)
      then Inl (ValueError ''promotion_digest_mismatch'')
      else if package_key candidate = DRIVER_ORCHESTRATOR_KEY
      then (if \<not> truthy (dget_default (pv_body candidate) ''semantic_closed'' (JBool True))
            then Inl (ValueError ''package_promotion_denied:semantic_not_closed'')
            else if truthy (dget (pv_body candidate) ''captures_run_state'') \<or>
                    truthy (dget (pv_body candidate) ''captured_secret_refs'') \<or>
                    truthy (dget (pv_body candidate) ''captured_path_refs'')
            then Inl (ValueError ''package_captures_run_state'')
            else Inr ())
      else Inr ())"

definition reusable_version :: "package_version \<Rightarrow> string option \<Rightarrow> package_version" where
  "reusable_version candidate idempotency_key =
     candidate\<lparr>pv_package_version := pv_package_version candidate @ ''-reusable'', pv_scope := Workspace_Reusable,
       pv_publication_state := Published,
       pv_provenance := pv_provenance candidate @
         [[(''derived_from'', JStr (version_ref candidate)), (''derived_from_digest'', JStr (pv_package_digest candidate)),
           (''idempotency_key'', str_or_null idempotency_key)]],
       pv_package_digest := []\<rparr>"

definition promotion_source :: "package_version \<Rightarrow> 'z run_store_scheme \<Rightarrow> (string \<times> run_record) option" where
  "promotion_source candidate s =
     find_run (\<lambda>r. list_ex (\<lambda>x. pv_package_id x = pv_package_id candidate \<and>
                                 pv_package_version x = pv_package_version candidate \<and>
                                 pv_package_digest x = pv_package_digest candidate) (rn_capability_packages r)) s"

definition same_coordinate :: "package_version \<Rightarrow> package_version \<Rightarrow> bool" where
  "same_coordinate p q = (pv_package_id q = pv_package_id p \<and> pv_package_version q = pv_package_version p)"

text \<open>The derivation of the reusable version, once the candidate has passed its checks.\<close>

definition derive_reusable :: "env \<Rightarrow> time \<Rightarrow> string \<Rightarrow> string option \<Rightarrow> package_version \<Rightarrow> ('z, package_version) slave_op" where
  "derive_reusable E now ref idempotency_key candidate s =
     (case promotion_source candidate s of
        None \<Rightarrow> (Inl (KeyError ref), s)
      | Some (k, source) \<Rightarrow>
          if rn_state source \<notin> final_states then (Inl (ValueError ''run_not_terminal''), s)
          else (case make_package E (reusable_version candidate idempotency_key) of
                  Inl e \<Rightarrow> (Inl e, s)
                | Inr reusable \<Rightarrow>
                    (case List.find (same_coordinate reusable) (all_packages s) of
                       Some conflicting \<Rightarrow>
                         if pv_package_digest conflicting = pv_package_digest reusable then (Inr conflicting, s)
                         else (Inl (ValueError ''capability_package_identity_conflict''), s)
                     | None \<Rightarrow>
                         (Inr reusable, put_run k (log_event
                            (Ev_Package_Promoted (version_ref reusable) (version_ref candidate)
                               (pv_package_digest candidate) idempotency_key now)
                            (source\<lparr>rn_capability_packages := rn_capability_packages source @ [reusable]\<rparr>)) s))))"

definition promote_capability_package ::
  "env \<Rightarrow> time \<Rightarrow> package_arg \<Rightarrow> string option \<Rightarrow> string option \<Rightarrow> ('z, package_version) slave_op" where
  "promote_capability_package E now a idempotency_key approved_digest s =
     (case get_capability_package a None s of
        Inl e \<Rightarrow> (Inl e, s)
      | Inr candidate \<Rightarrow>
          if pv_publication_state candidate = Published \<and> pv_scope candidate = Workspace_Reusable then (Inr candidate, s)
          else (case List.find (\<lambda>q. reusable_matches_candidate q candidate) (all_packages s) of
            Some reusable \<Rightarrow> (Inr reusable, s)
          | None \<Rightarrow>
              (case promotion_check candidate approved_digest of
                 Inl e \<Rightarrow> (Inl e, s)
               | Inr _ \<Rightarrow>
                   (case validate_package_exports E s candidate of
                      Inl e \<Rightarrow> (Inl e, s)
                    | Inr _ \<Rightarrow> derive_reusable E now (arg_id a) idempotency_key candidate s))))"

section \<open>Desired state and health reports\<close>

definition activation_record :: "package_version \<Rightarrow> 'z run_store_scheme \<Rightarrow> (string \<times> run_record) result" where
  "activation_record p s =
     (case find_run (\<lambda>r. list_ex (\<lambda>c. version_ref c = version_ref p \<and> pv_package_digest c = pv_package_digest p)
                          (rn_capability_packages r)) s of
        None \<Rightarrow> Inl (KeyError (version_ref p))
      | Some kr \<Rightarrow> Inr kr)"

definition is_activation :: "string \<Rightarrow> string \<Rightarrow> activation \<Rightarrow> bool" where
  "is_activation vref target a = (ac_package_version_ref a = vref \<and> ac_target_slave a = target)"

definition current_activation :: "string \<Rightarrow> string \<Rightarrow> run_record \<Rightarrow> activation option" where
  "current_activation vref target r = List.find (is_activation vref target) (rn_capability_activations r)"

definition replace_activation :: "string \<Rightarrow> string \<Rightarrow> activation \<Rightarrow> run_record \<Rightarrow> run_record" where
  "replace_activation vref target a r =
     r\<lparr>rn_capability_activations := filter (\<lambda>x. \<not> is_activation vref target x) (rn_capability_activations r) @ [a]\<rparr>"

definition or_string :: "string \<Rightarrow> string \<Rightarrow> string" where
  "or_string a b = (if a \<noteq> [] then a else b)"

definition next_activation ::
  "package_version \<Rightarrow> string \<Rightarrow> desired_state \<Rightarrow> string \<Rightarrow> string \<Rightarrow> string \<Rightarrow> activation option \<Rightarrow> activation" where
  "next_activation p target desired key closure_ref binding_ref current =
     \<lparr>ac_package_version_ref = version_ref p, ac_package_digest = pv_package_digest p, ac_target_slave = target,
      ac_activation_closure_version_ref = or_string closure_ref
        (case current of None \<Rightarrow> pv_package_closure_version_ref p | Some c \<Rightarrow> ac_activation_closure_version_ref c),
      ac_compute_binding_ref = or_string binding_ref (case current of None \<Rightarrow> [] | Some c \<Rightarrow> ac_compute_binding_ref c),
      ac_desired_state = desired,
      ac_activation_revision = (case current of None \<Rightarrow> 1 | Some c \<Rightarrow> ac_activation_revision c + 1),
      ac_last_idempotency_key = key,
      ac_evidence_refs = (case current of None \<Rightarrow> [] | Some c \<Rightarrow> ac_evidence_refs c),
      ac_activation_state = (if desired = Desired_Running then Provisioning
                             else case current of None \<Rightarrow> Stopped | Some c \<Rightarrow> ac_activation_state c),
      ac_runtime_profile = (case current of None \<Rightarrow> [] | Some c \<Rightarrow> ac_runtime_profile c)\<rparr>"

text \<open>
  \<^verbatim>\<open>set_capability_desired\<close>; the caller's string for the desired state is one of the two values of the
  datatype, or \<open>None\<close> for any other string.
\<close>

definition set_capability_desired ::
  "time \<Rightarrow> package_arg \<Rightarrow> string \<Rightarrow> desired_state option \<Rightarrow> string \<Rightarrow> string option \<Rightarrow> string option \<Rightarrow> string \<Rightarrow> string \<Rightarrow> bool \<Rightarrow>
   ('z, activation) slave_op" where
  "set_capability_desired now a target desired key run_id workspace_id closure_ref binding_ref rebuild s =
     (case desired of
        None \<Rightarrow> (Inl (ValueError ''activation_desired_state_invalid''), s)
      | Some d \<Rightarrow>
          if target = [] then (Inl (ValueError ''target_slave_required''), s)
          else if key = [] then (Inl (ValueError ''idempotency_key_required''), s)
          else (case get_capability_package a run_id s of
            Inl e \<Rightarrow> (Inl e, s)
          | Inr p \<Rightarrow>
              if pv_publication_state p = Abandoned then (Inl (ValueError ''capability_package_abandoned''), s)
              else (case activation_record p s of
                Inl e \<Rightarrow> (Inl e, s)
              | Inr (k, r) \<Rightarrow>
                  if workspace_id \<noteq> None \<and> workspace_id \<noteq> Some (run_workspace r)
                  then (Inl (ValueError ''workspace_binding_mismatch''), s)
                  else
                    let current = current_activation (version_ref p) target r;
                        act = next_activation p target d key closure_ref binding_ref current;
                        r' = log_event (Ev_Desired_Changed (version_ref p) (pv_package_digest p) target d
                               (ac_activation_revision act) key now) (replace_activation (version_ref p) target act r);
                        store = (case project_ready_capabilities (Some target) (put_run k r' s) of
                                   (Inl e, s') \<Rightarrow> (Inl e, s') | (Inr _, s') \<Rightarrow> (Inr act, s'))
                    in case current of
                         None \<Rightarrow> store
                       | Some c \<Rightarrow>
                           if ac_package_digest c \<noteq> pv_package_digest p
                           then (Inl (ValueError ''capability_package_identity_conflict''), s)
                           else if ac_last_idempotency_key c = key
                           then (if ac_desired_state c \<noteq> d then (Inl (ValueError ''idempotency_key_reused''), s) else (Inr c, s))
                           else if ac_desired_state c = d \<and> \<not> rebuild then (Inr c, s)
                           else store)))"

fun allowed_health :: "activation_state \<Rightarrow> activation_state set" where
  "allowed_health Not_Installed = {Ready, Activation_Failed, Stopped}"
| "allowed_health Provisioning = {Ready, Degraded, Activation_Failed, Stopped}"
| "allowed_health Ready = {Ready, Degraded, Activation_Failed, Stopped}"
| "allowed_health Degraded = {Ready, Degraded, Activation_Failed, Stopped}"
| "allowed_health Activation_Failed = {Activation_Failed, Stopped}"
| "allowed_health Stopped = {Stopped}"
| "allowed_health Lost = {Ready, Degraded, Activation_Failed, Stopped}"

definition reported_profile :: "health_report \<Rightarrow> dict" where
  "reported_profile rep =
     (let v = dget (hr_details rep) ''runtime_profile'' in if truthy v then obj_of v else [])"

definition previous_report :: "string \<Rightarrow> run_record \<Rightarrow> run_event option" where
  "previous_report report_id r =
     List.find (\<lambda>e. case e of Ev_Health_Report i _ _ _ _ _ _ _ _ _ \<Rightarrow> i = report_id | _ \<Rightarrow> False) (rn_events r)"

definition same_report :: "health_report \<Rightarrow> run_event \<Rightarrow> bool" where
  "same_report rep e =
     (case e of
        Ev_Health_Report _ _ dg target _ rv st evs details _ \<Rightarrow>
          dg = hr_package_digest rep \<and> target = hr_target_slave rep \<and> rv = hr_activation_revision rep \<and>
          st = hr_activation_state rep \<and> evs = hr_evidence_refs rep \<and> py_eq (JObj details) (JObj (hr_details rep))
      | _ \<Rightarrow> False)"

definition reported_activation :: "health_report \<Rightarrow> activation \<Rightarrow> activation" where
  "reported_activation rep c =
     c\<lparr>ac_activation_state := hr_activation_state rep, ac_evidence_refs := hr_evidence_refs rep,
       ac_runtime_profile := (if reported_profile rep \<noteq> [] then reported_profile rep else ac_runtime_profile c)\<rparr>"

definition record_capability_health :: "time \<Rightarrow> health_report \<Rightarrow> string option \<Rightarrow> ('z, activation) slave_op" where
  "record_capability_health now rep run_id s =
     (case get_capability_package (By_Id (hr_package_version_ref rep)) run_id s of
        Inl e \<Rightarrow> (Inl e, s)
      | Inr p \<Rightarrow>
          (case activation_record p s of
             Inl e \<Rightarrow> (Inl e, s)
           | Inr (k, r) \<Rightarrow>
               if pv_package_digest p \<noteq> hr_package_digest rep then (Inl (ValueError ''capability_package_digest_mismatch''), s)
               else (case current_activation (version_ref p) (hr_target_slave rep) r of
                 None \<Rightarrow> (Inl (ValueError ''activation_desired_state_missing''), s)
               | Some c \<Rightarrow>
                   if hr_activation_revision rep < ac_activation_revision c then (Inl (ValueError ''stale_activation_revision''), s)
                   else if hr_activation_revision rep > ac_activation_revision c then (Inl (ValueError ''future_activation_revision''), s)
                   else (case previous_report (hr_report_id rep) r of
                     Some e \<Rightarrow> if same_report rep e then (Inr c, s) else (Inl (ValueError ''health_report_id_reused''), s)
                   | None \<Rightarrow>
                       if hr_activation_state rep \<notin> allowed_health (ac_activation_state c)
                       then (Inl (ValueError ''activation_state_transition_invalid''), s)
                       else if truthy (dget (hr_details rep) ''runtime_profile'') \<and> \<not> is_obj (dget (hr_details rep) ''runtime_profile'')
                       then (Inl (ValueError ''dict''), s)
                       else
                         let changed = (hr_activation_state rep \<noteq> ac_activation_state c \<or>
                                        hr_evidence_refs rep \<noteq> ac_evidence_refs c \<or> reported_profile rep \<noteq> []);
                             act = (if changed then reported_activation rep c else c);
                             r1 = (if changed then replace_activation (version_ref p) (hr_target_slave rep) act r else r);
                             r2 = log_event (Ev_Health_Report (hr_report_id rep) (version_ref p) (pv_package_digest p)
                                    (hr_target_slave rep) (ac_desired_state act) (hr_activation_revision rep)
                                    (hr_activation_state rep) (hr_evidence_refs rep) (hr_details rep) now) r1
                         in (case project_ready_capabilities (Some (hr_target_slave rep)) (put_run k r2 s) of
                               (Inl e, s') \<Rightarrow> (Inl e, s')
                             | (Inr _, s') \<Rightarrow> (Inr act, s'))))))"

text \<open>
  \<^verbatim>\<open>execute_activation_targets\<close>. The worker or Slave that executes a command is the argument
  \<open>execute\<close>: \<open>None\<close> when the target is unknown, otherwise an exception or a health report; the command
  carries the revision and the key of the desired state.
\<close>

record activation_command =
  cm_package_version_ref :: string
  cm_package_digest :: string
  cm_target_slave :: string
  cm_workspace_id :: string
  cm_desired_state :: desired_state
  cm_idempotency_key :: string
  cm_activation_revision :: nat

datatype target_report = Reported health_report | Report_Failed string py_error

definition is_activation_error :: "py_error \<Rightarrow> bool" where
  "is_activation_error e = (case e of RuntimeError _ \<Rightarrow> True | ValueError _ \<Rightarrow> True | ValidationError _ \<Rightarrow> True | _ \<Rightarrow> False)"

definition activation_key :: "package_version \<Rightarrow> string \<Rightarrow> desired_state \<Rightarrow> string option \<Rightarrow> string" where
  "activation_key p target d idempotency_key =
     (if nonempty idempotency_key then the idempotency_key
      else (if d = Desired_Running then ''promote-'' else ''deactivate-'') @ pv_package_digest p @ ''-'' @ target)"

fun execute_activation_targets ::
  "time \<Rightarrow> time \<Rightarrow> package_version \<Rightarrow> desired_state \<Rightarrow> string \<Rightarrow> (activation_command \<Rightarrow> health_report result option) \<Rightarrow>
   string \<Rightarrow> string option \<Rightarrow> string list \<Rightarrow> ('z, target_report list) slave_op" where
  "execute_activation_targets t1 t2 p d workspace_id execute binding_id idempotency_key [] s = (Inr [], s)"
| "execute_activation_targets t1 t2 p d workspace_id execute binding_id idempotency_key (target # targets) s =
     (case set_capability_desired t1 (By_Id (version_ref p)) target (Some d) (activation_key p target d idempotency_key) None
             (Some workspace_id) (if d = Desired_Running then pv_package_closure_version_ref p else []) binding_id False s of
        (Inl e, s1) \<Rightarrow> (Inl e, s1)
      | (Inr act, s1) \<Rightarrow>
          let command = \<lparr>cm_package_version_ref = version_ref p, cm_package_digest = pv_package_digest p,
                cm_target_slave = target, cm_workspace_id = workspace_id, cm_desired_state = d,
                cm_idempotency_key = ac_last_idempotency_key act, cm_activation_revision = ac_activation_revision act\<rparr>;
              (outcome, s2) =
                (case execute command of
                   None \<Rightarrow> (Inl (RuntimeError ''slave_not_found''), s1)
                 | Some (Inl e) \<Rightarrow> (Inl e, s1)
                 | Some (Inr rep) \<Rightarrow>
                     (case record_capability_health t2 rep None s1 of
                        (Inl e, s') \<Rightarrow> (Inl e, s') | (Inr _, s') \<Rightarrow> (Inr rep, s')))
          in (case outcome of
                Inl e \<Rightarrow>
                  if \<not> is_activation_error e then (Inl e, s2)
                  else (case execute_activation_targets t1 t2 p d workspace_id execute binding_id idempotency_key targets s2 of
                          (Inl e', s3) \<Rightarrow> (Inl e', s3) | (Inr reps, s3) \<Rightarrow> (Inr (Report_Failed target e # reps), s3))
              | Inr rep \<Rightarrow>
                  (case execute_activation_targets t1 t2 p d workspace_id execute binding_id idempotency_key targets s2 of
                     (Inl e', s3) \<Rightarrow> (Inl e', s3) | (Inr reps, s3) \<Rightarrow> (Inr (Reported rep # reps), s3))))"

section \<open>Lookup facts\<close>

lemma package_positions_mem:
  "(k, i, p) \<in> set (package_positions rs) \<longleftrightarrow>
     (\<exists>r. (k, r) \<in> set rs \<and> i < length (rn_capability_packages r) \<and> rn_capability_packages r ! i = p)"
  by (fastforce simp: package_positions_def in_set_enumerate_eq)

lemma set_sort_by [simp]: "set (sort_by le xs) = set xs"
  using mset_sort_by [of le xs] by (metis set_mset_mset)

lemma package_at_SomeD:
  assumes "package_at a rid s = Some (k, i, p)"
  shows "\<exists>r. (k, r) \<in> set (runs s) \<and> i < length (rn_capability_packages r) \<and> rn_capability_packages r ! i = p"
    and "package_candidate a rid s p"
proof -
  let ?l = "filter (\<lambda>(k, i, p). package_candidate a rid s p) (package_positions (runs s))"
  let ?s = "sort_by (\<lambda>x y. package_le (snd (snd x)) (snd (snd y))) ?l"
  from assms have "(k, i, p) \<in> set ?s" unfolding package_at_def by (cases ?s) auto
  then have m: "(k, i, p) \<in> set ?l" by simp
  then show "\<exists>r. (k, r) \<in> set (runs s) \<and> i < length (rn_capability_packages r) \<and> rn_capability_packages r ! i = p"
    using package_positions_mem [of k i p "runs s"] by simp
  from m show "package_candidate a rid s p" by simp
qed

lemma find_package_SomeD:
  assumes "find_package a rid s = Some p"
  shows "package_candidate a rid s p" and "p \<in> set (all_packages s)"
proof -
  from assms obtain k i where at: "package_at a rid s = Some (k, i, p)" by (auto simp: find_package_def)
  show "package_candidate a rid s p" by (rule package_at_SomeD(2) [OF at])
  from package_at_SomeD(1) [OF at] obtain r where "(k, r) \<in> set (runs s)" "p \<in> set (rn_capability_packages r)"
    by (auto simp: in_set_conv_nth)
  then show "p \<in> set (all_packages s)" by (force simp: all_packages_def)
qed

lemma find_package_NoneD:
  assumes "find_package a rid s = None" and "p \<in> set (all_packages s)"
  shows "\<not> package_candidate a rid s p"
proof -
  let ?l = "filter (\<lambda>(k, i, p). package_candidate a rid s p) (package_positions (runs s))"
  let ?s = "sort_by (\<lambda>x y. package_le (snd (snd x)) (snd (snd y))) ?l"
  from assms(1) have "?s = []" unfolding find_package_def package_at_def by (cases ?s) auto
  then have e: "?l = []" by (metis set_sort_by set_empty)
  from assms(2) obtain k r i where "(k, r) \<in> set (runs s)" "i < length (rn_capability_packages r)" "rn_capability_packages r ! i = p"
    by (auto simp: all_packages_def in_set_conv_nth)
  then have "(k, i, p) \<in> set (package_positions (runs s))" using package_positions_mem by blast
  with e show ?thesis by (auto simp: filter_empty_conv)
qed

lemma get_capability_package_InrD: "get_capability_package a rid s = Inr p \<Longrightarrow> find_package a rid s = Some p"
  by (auto simp: get_capability_package_def split: option.splits)

lemma visible_to_runD:
  assumes "package_visible_to_run p (Some i) s"
  shows "\<exists>run. map_of (runs s) i = Some run \<and>
    (pv_scope p = Run_Bound \<and> pv_source_run_ref p = i \<or>
     pv_scope p = Workspace_Reusable \<and> pv_publication_state p = Published \<and>
     (\<exists>source. map_of (runs s) (pv_source_run_ref p) = Some source \<and> run_workspace source = run_workspace run))"
proof -
  obtain run where run: "map_of (runs s) i = Some run"
    using assms by (auto simp: package_visible_to_run_def split: option.splits)
  show ?thesis
  proof (cases "pv_scope p")
    case Run_Bound
    with assms run show ?thesis by (simp add: package_visible_to_run_def)
  next
    case Workspace_Reusable
    with assms run obtain src cs cr where "pv_publication_state p = Published" "map_of (runs s) (pv_source_run_ref p) = Some src"
        "rn_closure_contract src = Some cs" "rn_closure_contract run = Some cr" "cc_workspace_id cs = cc_workspace_id cr"
      by (auto simp: package_visible_to_run_def split: option.splits if_splits)
    with run Workspace_Reusable show ?thesis by (simp add: run_workspace_def)
  qed
qed

text \<open>
  Packages are isolated: a lookup on behalf of a Run returns only a package that the Run
  itself produced, or a published reusable package whose source Run belongs to the same workspace; it
  carries the requested coordinate and, when the reference names a digest, exactly that digest. When
  the lookup finds nothing, no stored package qualifies.
\<close>

theorem package_isolation:
  "(find_package a (Some run_id) s = Some p \<longrightarrow>
      p \<in> set (all_packages s) \<and> version_ref p = arg_id a \<and> (\<forall>d. arg_digest a = Some d \<longrightarrow> lower (pv_package_digest p) = d) \<and>
      (\<exists>run. map_of (runs s) run_id = Some run \<and>
        (pv_scope p = Run_Bound \<and> pv_source_run_ref p = run_id \<or>
         pv_scope p = Workspace_Reusable \<and> pv_publication_state p = Published \<and>
         (\<exists>source. map_of (runs s) (pv_source_run_ref p) = Some source \<and> run_workspace source = run_workspace run)))) \<and>
   (find_package a (Some run_id) s = None \<and> p \<in> set (all_packages s) \<and> pv_scope p = Run_Bound \<and>
    pv_source_run_ref p = run_id \<and> map_of (runs s) run_id \<noteq> None \<and> arg_digest a = None \<longrightarrow> version_ref p \<noteq> arg_id a)"
proof -
  have 1: "p \<in> set (all_packages s) \<and> version_ref p = arg_id a \<and> (\<forall>d. arg_digest a = Some d \<longrightarrow> lower (pv_package_digest p) = d) \<and>
      (\<exists>run. map_of (runs s) run_id = Some run \<and>
        (pv_scope p = Run_Bound \<and> pv_source_run_ref p = run_id \<or>
         pv_scope p = Workspace_Reusable \<and> pv_publication_state p = Published \<and>
         (\<exists>source. map_of (runs s) (pv_source_run_ref p) = Some source \<and> run_workspace source = run_workspace run)))"
    if f: "find_package a (Some run_id) s = Some p"
    using find_package_SomeD [OF f] visible_to_runD [of p run_id s] by (auto simp: package_candidate_def)
  have 2: "version_ref p \<noteq> arg_id a"
    if "find_package a (Some run_id) s = None" "p \<in> set (all_packages s)" "pv_scope p = Run_Bound" "pv_source_run_ref p = run_id"
      "map_of (runs s) run_id \<noteq> None" "arg_digest a = None"
    using find_package_NoneD [OF that(1,2)] that by (auto simp: package_candidate_def package_visible_to_run_def)
  show ?thesis using 1 2 by blast
qed

section \<open>Projection facts\<close>

lemma find_package_cong:
  assumes "runs s = runs s'"
  shows "find_package a rid s = find_package a rid s'"
proof -
  have "package_visible_to_run p rid s = package_visible_to_run p rid s'" for p
    unfolding package_visible_to_run_def assms ..
  then have "package_candidate a rid s = package_candidate a rid s'" by (auto simp: package_candidate_def)
  then show ?thesis unfolding find_package_def package_at_def assms by simp
qed

lemma ready_operations_cong:
  assumes "runs s = runs s'"
  shows "ready_operations t s = ready_operations t s'"
proof -
  have "activation_operations t s = activation_operations t s'"
    using find_package_cong [OF assms] by (auto simp: activation_operations_def)
  with assms show ?thesis by (simp add: ready_operations_def)
qed

lemma project_targets_frame [simp]:
  "runs (snd (project_targets ts s)) = runs s" "agents (snd (project_targets ts s)) = agents s"
  "driver_threads (snd (project_targets ts s)) = driver_threads s"
  "slave_agents (snd (project_targets ts s)) = slave_agents s"
  "message_receipts (snd (project_targets ts s)) = message_receipts s"
  by (induction ts s rule: project_targets.induct) (auto split: option.splits sum.splits)

lemma project_ready_frame [simp]:
  "runs (snd (project_ready_capabilities i s)) = runs s" "agents (snd (project_ready_capabilities i s)) = agents s"
  "driver_threads (snd (project_ready_capabilities i s)) = driver_threads s"
  "slave_agents (snd (project_ready_capabilities i s)) = slave_agents s"
  "message_receipts (snd (project_ready_capabilities i s)) = message_receipts s"
  by (simp_all add: project_ready_capabilities_def)

text \<open>What a target's entry becomes, and which entries are left alone.\<close>

lemma project_targets_other:
  "t \<notin> set ts \<Longrightarrow> map_of (slave_capabilities (snd (project_targets ts s))) t = map_of (slave_capabilities s) t"
  by (induction ts s rule: project_targets.induct) (auto split: option.splits sum.splits)

lemma project_targets_entry:
  assumes "project_targets ts s = (Inr (), s')" and "distinct ts" and "t \<in> set ts"
    and "map_of (slave_capabilities s) t = Some d" and "map_of (slave_agents s) t = Some a"
  shows "\<exists>base. base_operations (ag_capabilities a) = Inr base \<and>
    map_of (slave_capabilities s') t = Some (d\<lparr>sd_operations := remdups (base @ ready_operations t s)\<rparr>)"
  using assms
proof (induction ts s rule: project_targets.induct)
  case (2 u ts s)
  show ?case
  proof (cases "u = t")
    case True
    from 2 True obtain base where b: "base_operations (ag_capabilities a) = Inr base"
      by (auto split: sum.splits)
    let ?s1 = "s\<lparr>slave_capabilities := AList.update t (d\<lparr>sd_operations := remdups (base @ ready_operations t s)\<rparr>) (slave_capabilities s)\<rparr>"
    from 2 True b have "project_targets ts ?s1 = (Inr (), s')" by simp
    with project_targets_other [of t ts ?s1] 2 True b show ?thesis by simp
  next
    case False
    show ?thesis
    proof (cases "map_of (slave_capabilities s) u = None \<or> map_of (slave_agents s) u = None")
      case True
      then have "project_targets ts s = (Inr (), s')" using 2 by (auto split: option.splits)
      with 2 False True show ?thesis by (cases "map_of (slave_capabilities s) u") auto
    next
      case some: False
      then obtain du au where u: "map_of (slave_capabilities s) u = Some du" "map_of (slave_agents s) u = Some au" by auto
      from 2 u obtain base where b: "base_operations (ag_capabilities au) = Inr base" by (auto split: sum.splits)
      let ?s1 = "s\<lparr>slave_capabilities := AList.update u (du\<lparr>sd_operations := remdups (base @ ready_operations u s)\<rparr>) (slave_capabilities s)\<rparr>"
      have r: "ready_operations t ?s1 = ready_operations t s" by (rule ready_operations_cong) simp
      from 2 u b have "project_targets ts ?s1 = (Inr (), s')" by simp
      with 2(3) [OF _ _ _ b] u b 2 False r show ?thesis by auto
    qed
  qed
qed simp

lemma snapshot_capabilities_wf:
  "snapshot_capabilities ags acc = (r, caps) \<Longrightarrow> dict_wf acc \<Longrightarrow> dict_wf caps"
proof (induction ags arbitrary: acc)
  case (Cons x ags)
  obtain i a where x: "x = (i, a)" by (cases x)
  show ?case using Cons.prems Cons.IH dict_wf_set [OF Cons.prems(2)] by (auto simp: x split: if_splits sum.splits)
qed simp

lemma snapshot_capabilities_active:
  "snapshot_capabilities ags acc = (r, caps) \<Longrightarrow> map_of caps t = Some d \<Longrightarrow> map_of acc t = None \<Longrightarrow>
     \<exists>a. (t, a) \<in> set ags \<and> ag_lease_state a = Lease_Active"
proof (induction ags arbitrary: acc)
  case (Cons x ags)
  obtain i a where x: "x = (i, a)" by (cases x)
  show ?case
  proof (cases "ag_lease_state a = Lease_Active \<and> i = t")
    case True
    with x show ?thesis by auto
  next
    case False
    consider "ag_lease_state a \<noteq> Lease_Active" | e where "ag_lease_state a = Lease_Active" "base_operations (ag_capabilities a) = Inl e"
      | ops where "ag_lease_state a = Lease_Active" "base_operations (ag_capabilities a) = Inr ops"
      by (cases "base_operations (ag_capabilities a)") auto
    then show ?thesis
    proof cases
      case 1
      with Cons.prems Cons.IH [of acc] show ?thesis by (auto simp: x)
    next
      case 2
      with Cons.prems show ?thesis by (simp add: x)
    next
      case 3
      let ?acc = "AList.update i \<lparr>sd_capabilities = ag_capabilities a, sd_base_operations = ops, sd_operations = ops\<rparr> acc"
      from 3 Cons.prems False Cons.IH [of ?acc] show ?thesis by (auto simp: x)
    qed
  qed
qed simp

lemma select_slave_agents_wf: "dict_wf (select_slave_agents ags)"
proof -
  have "dict_wf acc \<Longrightarrow> dict_wf (fold (\<lambda>a selected.
        if ag_agent_id a = [] then selected
        else (case map_of selected (ag_agent_id a) of
                None \<Rightarrow> AList.update (ag_agent_id a) a selected
              | Some current \<Rightarrow>
                  if ag_lease_state a = Lease_Active \<and> ag_lease_state current \<noteq> Lease_Active
                  then AList.update (ag_agent_id a) a selected else selected)) ags acc)" for acc
    by (induction ags arbitrary: acc) (auto intro!: distinct_update split: option.split)
  then show ?thesis by (simp add: select_slave_agents_def)
qed

text \<open>
  After a successful refresh, exactly the Slaves with an active lease can advertise
  operations, and each advertises its registered base operations together with the exports of the
  packages that are desired running and reported ready on it, and nothing else.
\<close>

theorem refresh_projects_ready:
  assumes ok: "refresh_slaves now ttl ws s = (Inr ags, s')" and d: "map_of (slave_capabilities s') t = Some d"
  shows "slave_is_active t s' \<and>
    (\<exists>a base. map_of (slave_agents s') t = Some a \<and> base_operations (ag_capabilities a) = Inr base \<and>
      set (sd_operations d) = set base \<union> set (ready_operations t s'))"
proof -
  obtain l s1 where l: "list_agents now ttl (if nonempty ws then the ws else default_workspace) (Some Slave) s = (l, s1)" by fastforce
  obtain r caps where sn: "snapshot_capabilities (select_slave_agents l) [] = (r, caps)" by fastforce
  define s2 where "s2 = s1\<lparr>slave_instances := fold (\<lambda>a d. AList.update (ag_agent_id a, ag_instance_id a) a d)
                        (filter (\<lambda>a. ag_agent_id a \<noteq> []) l) [], slave_agents := select_slave_agents l, slave_capabilities := caps\<rparr>"
  have st: "store_slave_snapshot l s1 = (r, s2)" by (simp add: store_slave_snapshot_def sn s2_def)
  from ok st have r: "r = Inr ()" and p: "project_targets (map fst caps) s2 = (Inr (), s')"
    by (auto simp: refresh_slaves_def l project_ready_capabilities_def s2_def split: sum.splits prod.splits)
  have capw: "dict_wf caps" by (rule snapshot_capabilities_wf [OF sn]) simp
  have cap2: "slave_capabilities s2 = caps" by (simp add: s2_def)
  have t: "t \<in> set (map fst caps)"
  proof (rule ccontr)
    assume n: "t \<notin> set (map fst caps)"
    then have "map_of (slave_capabilities s') t = map_of caps t"
      using project_targets_other [OF n, of s2] p cap2 by simp
    with n d show False by (simp add: map_of_eq_None_iff [THEN iffD2])
  qed
  then obtain d0 where d0: "map_of caps t = Some d0" by (metis map_of_eq_None_iff not_None_eq set_map)
  from snapshot_capabilities_active [OF sn d0] obtain a where a: "(t, a) \<in> set (select_slave_agents l)" "ag_lease_state a = Lease_Active" by auto
  have ma: "map_of (slave_agents s2) t = Some a"
    using map_of_is_SomeI [OF select_slave_agents_wf a(1)] by (simp add: s2_def)
  have mc: "map_of (slave_capabilities s2) t = Some d0" using d0 by (simp add: s2_def)
  from project_targets_entry [OF p capw t mc ma] obtain base where
    base: "base_operations (ag_capabilities a) = Inr base"
      "map_of (slave_capabilities s') t = Some (d0\<lparr>sd_operations := remdups (base @ ready_operations t s2)\<rparr>)" by blast
  have "runs s' = runs s2" "slave_agents s' = slave_agents s2"
    using project_targets_frame [of "map fst caps" s2] p by simp_all
  with base d ma a(2) ready_operations_cong [of s' s2 t] show ?thesis by (auto simp: slave_is_active_def)
qed

section \<open>Effects on the Runs\<close>

lemma run_next_packages: "run_next r (r\<lparr>rn_capability_packages := ps\<rparr>)"
  by (rule run_nextI [where es = "[]"]) (auto simp: same_run_def run_core_def pending_decision_def)

lemma run_next_activations: "run_next r (r\<lparr>rn_capability_activations := as\<rparr>)"
  by (rule run_nextI [where es = "[]"]) (auto simp: same_run_def run_core_def pending_decision_def)

lemmas run_next_steps = run_next_packages run_next_activations run_next_log

lemma replace_activation_next: "run_next r (replace_activation v t a r)"
  unfolding replace_activation_def by (rule run_next_activations)

lemma find_run_SomeD:
  assumes "find_run P s = Some (k, r)" and "dict_wf (runs s)"
  shows "map_of (runs s) k = Some r" and "P r"
proof -
  have "(k, r) \<in> set (runs s) \<and> P r" using find_SomeD [OF assms(1) [unfolded find_run_def]] by simp
  then show "map_of (runs s) k = Some r" and "P r" using map_of_is_SomeI [OF assms(2)] by auto
qed

lemma update_run_next:
  "(\<And>r. run_next r (f r)) \<Longrightarrow> runs_next (runs s) (runs (update_run k f s))"
  by (auto simp: update_run_def intro: runs_next_put split: option.split)

lemma abandon_effect:
  assumes wf: "dict_wf (runs s)"
  shows "runs_next (runs s) (runs (snd (abandon_capability_package now ref key s)))"
proof (cases "package_at (By_Id ref) None s")
  case None
  then show ?thesis by (simp add: abandon_capability_package_def)
next
  case (Some x)
  obtain k i p where x: "x = (k, i, p)" by (cases x)
  let ?s1 = "update_run k (\<lambda>r. r\<lparr>rn_capability_packages := (rn_capability_packages r)[i := p\<lparr>pv_publication_state := Abandoned\<rparr>]\<rparr>) s"
  have n1: "runs_next (runs s) (runs ?s1)" by (rule update_run_next) (rule run_next_packages)
  then have wf1: "dict_wf (runs ?s1)" using wf by (simp add: runs_next_def)
  let ?P = "\<lambda>r. list_ex (\<lambda>x. pv_package_id x = pv_package_id p \<and> pv_package_version x = pv_package_version p) (rn_capability_packages r)"
  have n2: "runs_next (runs s) (AList.update j (log_event (Ev_Package_Abandoned v key now) r) (runs ?s1))"
    if "find_run ?P ?s1 = Some (j, r)" for j r v
    by (rule runs_next_trans [OF n1 runs_next_put [OF find_run_SomeD(1) [OF that wf1] run_next_log]]) simp
  show ?thesis
    using n1 n2 by (auto simp: abandon_capability_package_def Some x Let_def split: option.split)
qed

lemma promote_effect:
  assumes wf: "dict_wf (runs s)"
  shows "runs_next (runs s) (runs (snd (promote_capability_package E now a key approved s)))"
proof -
  have put: "runs_next (runs s) (AList.update k (log_event (Ev_Package_Promoted v1 v2 d key now)
      (r\<lparr>rn_capability_packages := ps\<rparr>)) (runs s))" if "find_run P s = Some (k, r)" for P k r v1 v2 d ps
    by (rule runs_next_put [OF find_run_SomeD(1) [OF that wf] run_next_trans [OF run_next_packages run_next_log]]) simp
  have "runs_next (runs s) (runs (snd (derive_reusable E now ref key p s)))" for ref p
    unfolding derive_reusable_def promotion_source_def by (auto intro: put split: sum.split option.split)
  then show ?thesis
    by (auto simp: promote_capability_package_def split: sum.split option.split)
qed

lemma activation_record_InrD:
  assumes "activation_record p s = Inr (k, r)" and "dict_wf (runs s)"
  shows "map_of (runs s) k = Some r"
  using assms find_run_SomeD(1) by (fastforce simp: activation_record_def split: option.splits)

lemma log_replace_next:
  assumes "log_move e = None"
  shows "run_next r (log_event e (replace_activation v t a r))"
  by (rule run_next_trans [OF replace_activation_next run_next_log [OF assms]])

lemma project_result_frame:
  "runs (snd (case project_ready_capabilities i s of (Inl e, s') \<Rightarrow> (Inl e, s') | (Inr u, s') \<Rightarrow> (Inr x, s'))) = runs s"
  using project_ready_frame(1) [of i s]
  by (cases "project_ready_capabilities i s"; cases "fst (project_ready_capabilities i s)") auto

lemma set_desired_effect:
  assumes wf: "dict_wf (runs s)"
  shows "runs_next (runs s) (runs (snd (set_capability_desired now a target desired key run_id ws cref bref rebuild s)))"
  by (auto simp: set_capability_desired_def Let_def project_result_frame
      intro!: runs_next_put log_replace_next dest: activation_record_InrD [OF _ wf] split: option.split sum.split)

lemma record_health_effect:
  assumes wf: "dict_wf (runs s)"
  shows "runs_next (runs s) (runs (snd (record_capability_health now rep run_id s)))"
  by (auto simp: record_capability_health_def Let_def project_result_frame
      intro!: runs_next_put log_replace_next run_next_log dest: activation_record_InrD [OF _ wf] split: option.split sum.split)

interpretation abandon: run_operation "abandon_capability_package now ref key" for now ref key
  by unfold_locales (rule abandon_effect)

interpretation promote: run_operation "promote_capability_package E now a key approved" for E now a key approved
  by unfold_locales (rule promote_effect)

interpretation set_desired: run_operation "set_capability_desired now a target desired key run_id ws cref bref rebuild"
  for now a target desired key run_id ws cref bref rebuild
  by unfold_locales (rule set_desired_effect)

interpretation record_health: run_operation "record_capability_health now rep run_id" for now rep run_id
  by unfold_locales (rule record_health_effect)

lemma execute_targets_effect:
  fixes s :: "'z slave_store_scheme"
  shows "dict_wf (runs s) \<Longrightarrow>
   runs_next (runs s) (runs (snd (execute_activation_targets t1 t2 p d ws execute bid key targets s)))"
proof (induction targets arbitrary: s)
  case (Cons target targets)
  obtain r1 s1 where 1: "set_capability_desired t1 (By_Id (version_ref p)) target (Some d) (activation_key p target d key) None
             (Some ws) (if d = Desired_Running then pv_package_closure_version_ref p else []) bid False s = (r1, s1)" by fastforce
  have n1: "runs_next (runs s) (runs s1)" using set_desired_effect [OF Cons.prems] 1 by (metis snd_conv)
  then have w1: "dict_wf (runs s1)" using Cons.prems by (simp add: runs_next_def)
  have n2: "runs_next (runs s) (runs s2) \<and> dict_wf (runs s2)" if "record_capability_health t2 rep None s1 = (r2, s2)" for rep r2 s2
    using record_health_effect [OF w1, of t2 rep None] that runs_next_trans [OF n1] w1 by (auto simp: runs_next_def)
  have rest: "runs_next (runs s) (runs s3)"
    if "execute_activation_targets t1 t2 p d ws execute bid key targets s2 = (r3, s3)" "runs_next (runs s) (runs s2)" "dict_wf (runs s2)"
    for s2 s3 :: "'z slave_store_scheme" and r3
    using Cons.IH [OF that(3)] that(1) runs_next_trans [OF that(2)] by (metis snd_conv)
  show ?case
    using n1 w1 n2 rest
    by (auto simp: 1 Let_def split: sum.splits option.splits prod.splits if_splits)
qed simp

interpretation execute_targets: run_operation "execute_activation_targets t1 t2 p d ws execute bid key targets"
  for t1 t2 p d ws execute bid key targets
  by unfold_locales (rule execute_targets_effect)

section \<open>Activation fencing\<close>

lemma find_replace_activation:
  assumes "is_activation v t a"
  shows "current_activation v t (replace_activation v t a r) = Some a"
proof -
  have "List.find (is_activation v t) (filter (\<lambda>x. \<not> is_activation v t x) xs @ [a]) = Some a" for xs
    using assms by (induction xs) auto
  then show ?thesis by (simp add: current_activation_def replace_activation_def)
qed

lemma current_activation_log [simp]: "current_activation v t (log_event e r) = current_activation v t r"
  by (simp add: current_activation_def)

lemma is_activation_next: "is_activation (version_ref p) target (next_activation p target d key c b cur)"
  by (simp add: is_activation_def next_activation_def)

lemma current_activationD: "current_activation v t r = Some c \<Longrightarrow> is_activation v t c"
  unfolding current_activation_def using find_SomeD by metis

text \<open>The store branch of \<^verbatim>\<open>set_capability_desired\<close>, and what every successful call returns.\<close>

lemma set_desired_InrE:
  assumes "set_capability_desired now a target desired key run_id ws cref bref rebuild s = (Inr act, s')"
  obtains d p k r where "desired = Some d" "target \<noteq> []" "key \<noteq> []" "get_capability_package a run_id s = Inr p"
    "pv_publication_state p \<noteq> Abandoned" "activation_record p s = Inr (k, r)" "ws = None \<or> ws = Some (run_workspace r)"
    "(current_activation (version_ref p) target r = Some act \<and> s' = s \<and> ac_package_digest act = pv_package_digest p \<and>
      ac_desired_state act = d) \<or>
     (act = next_activation p target d key cref bref (current_activation (version_ref p) target r) \<and>
      runs s' = AList.update k (log_event (Ev_Desired_Changed (version_ref p) (pv_package_digest p) target d
                 (ac_activation_revision act) key now) (replace_activation (version_ref p) target act r)) (runs s))"
proof -
  have proj: "x = act \<and> runs s' = runs u" if "(case project_ready_capabilities i u of (Inl e, s') \<Rightarrow> (Inl e, s') | (Inr _, s') \<Rightarrow> (Inr x, s')) = (Inr act, s')"
    for i u x
    using that project_result_frame [where i = i and s = u and x = x] by (cases "project_ready_capabilities i u"; cases "fst (project_ready_capabilities i u)") auto
  from assms obtain d p k r where 1: "desired = Some d" "target \<noteq> []" "key \<noteq> []" "get_capability_package a run_id s = Inr p"
    "pv_publication_state p \<noteq> Abandoned" "activation_record p s = Inr (k, r)" "ws = None \<or> ws = Some (run_workspace r)"
    by (auto simp: set_capability_desired_def split: option.splits sum.splits if_splits)
  note res = assms [unfolded set_capability_desired_def Let_def, simplified 1 option.case sum.case prod.case]
  show ?thesis
    by (rule that [OF 1], cases "current_activation (version_ref p) target r")
      (use res 1 in \<open>auto dest!: proj split: if_splits\<close>)
qed

text \<open>Lookups do not see a change of a Run that keeps its packages and its contract.\<close>

lemma package_positions_update:
  assumes "map_of rs k = Some r" and "dict_wf rs" and "rn_capability_packages r' = rn_capability_packages r"
  shows "package_positions (AList.update k r' rs) = package_positions rs"
  using assms
proof (induction rs)
  case (Cons x rs)
  show ?case
  proof (cases "fst x = k")
    case True
    with Cons.prems have "x = (k, r)" by (cases x) auto
    with Cons.prems show ?thesis by (simp add: package_positions_def)
  next
    case False
    with Cons show ?thesis by (cases x) (auto simp: package_positions_def)
  qed
qed simp

definition quiet_update :: "run_record \<Rightarrow> run_record \<Rightarrow> bool" where
  "quiet_update r r' =
     (rn_capability_packages r' = rn_capability_packages r \<and> rn_closure_contract r' = rn_closure_contract r)"

lemma visible_update:
  assumes "map_of (runs s) k = Some r" and "quiet_update r r'" and "runs s' = AList.update k r' (runs s)"
  shows "package_visible_to_run p rid s' = package_visible_to_run p rid s"
proof (cases rid)
  case None
  then show ?thesis by (simp add: package_visible_to_run_def)
next
  case (Some i)
  have run: "map_option rn_closure_contract (map_of (runs s') j) = map_option rn_closure_contract (map_of (runs s) j)" for j
    using assms by (auto simp: quiet_update_def)
  have eq: "package_visible_to_run p (Some i) u =
      (case map_option rn_closure_contract (map_of (runs u) i) of None \<Rightarrow> False
       | Some cr \<Rightarrow> if pv_scope p = Run_Bound then pv_source_run_ref p = i
           else if pv_publication_state p \<noteq> Published then False
           else (case map_option rn_closure_contract (map_of (runs u) (pv_source_run_ref p)) of
                   Some (Some c1) \<Rightarrow> (case cr of Some c2 \<Rightarrow> cc_workspace_id c1 = cc_workspace_id c2 | None \<Rightarrow> False)
                 | _ \<Rightarrow> False))" for u :: "'c run_store_scheme"
    by (auto simp: package_visible_to_run_def split: option.split)
  show ?thesis unfolding Some eq run ..
qed

lemma find_package_update:
  assumes m: "map_of (runs s) k = Some r" and wf: "dict_wf (runs s)" and q: "quiet_update r r'"
    and s': "runs s' = AList.update k r' (runs s)"
  shows "find_package a rid s' = find_package a rid s"
proof -
  have "package_candidate a rid s' = package_candidate a rid s"
    using visible_update [OF m q s'] by (auto simp: package_candidate_def)
  moreover have "package_positions (runs s') = package_positions (runs s)"
    unfolding s' using package_positions_update [OF m wf] q by (simp add: quiet_update_def)
  ultimately show ?thesis by (simp add: find_package_def package_at_def)
qed

lemma find_update_fst:
  assumes "List.find (\<lambda>(k, r). P r) rs = Some (k, r)" and "dict_wf rs" and "P r' = P r"
  shows "List.find (\<lambda>(k, r). P r) (AList.update k r' rs) = Some (k, r')"
  using assms
proof (induction rs)
  case (Cons x rs)
  obtain j q where x: "x = (j, q)" by (cases x)
  show ?case
  proof (cases "P q")
    case True
    with Cons.prems x show ?thesis by simp
  next
    case False
    with Cons.prems x have f: "List.find (\<lambda>(k, r). P r) rs = Some (k, r)" by simp
    then have "k \<in> fst ` set rs" using find_SomeD [OF f] by force
    with Cons.prems x have "j \<noteq> k" by auto
    with Cons f False x show ?thesis by simp
  qed
qed simp

lemma activation_record_update:
  assumes "activation_record p s = Inr (k, r)" and "dict_wf (runs s)" and "quiet_update r r'"
    and "runs s' = AList.update k r' (runs s)"
  shows "activation_record p s' = Inr (k, r')"
proof -
  let ?P = "\<lambda>r. list_ex (\<lambda>c. version_ref c = version_ref p \<and> pv_package_digest c = pv_package_digest p) (rn_capability_packages r)"
  have "List.find (\<lambda>(k, r). ?P r) (runs s) = Some (k, r)"
    using assms(1) by (auto simp: activation_record_def find_run_def split: option.splits)
  then have "List.find (\<lambda>(k, r). ?P r) (AList.update k r' (runs s)) = Some (k, r')"
    by (rule find_update_fst) (use assms(2,3) in \<open>auto simp: quiet_update_def\<close>)
  then show ?thesis by (simp add: activation_record_def find_run_def assms(4))
qed

lemma quiet_replace [simp]: "quiet_update r (log_event e (replace_activation v t a r))"
  by (simp add: quiet_update_def replace_activation_def)

text \<open>
  Desired state is revisioned: a successful call returns the activation that is then
  current for the package and target; either nothing changed and it was current before, or its
  revision is one more than that of the activation it replaces (one if there was none), it starts as
  provisioning when it is to run, and it carries the caller's idempotency key.
\<close>

theorem desired_state_revision:
  assumes wf: "dict_wf (runs s)"
    and ok: "set_capability_desired now a target desired key run_id ws cref bref rebuild s = (Inr act, s')"
  shows "\<exists>k r r'. map_of (runs s) k = Some r \<and> map_of (runs s') k = Some r' \<and>
    current_activation (ac_package_version_ref act) target r' = Some act \<and> Some (ac_desired_state act) = desired \<and>
    (s' = s \<or>
     ac_activation_revision act = (case current_activation (ac_package_version_ref act) target r of
                                     None \<Rightarrow> 1 | Some c \<Rightarrow> ac_activation_revision c + 1) \<and>
     ac_last_idempotency_key act = key \<and> (desired = Some Desired_Running \<longrightarrow> ac_activation_state act = Provisioning))"
  using ok
proof (rule set_desired_InrE, goal_cases)
  case (1 d p k r)
  have m: "map_of (runs s) k = Some r" by (rule activation_record_InrD [OF 1(6) wf])
  show ?case
  proof (cases "current_activation (version_ref p) target r = Some act \<and> s' = s \<and> ac_desired_state act = d")
    case True
    then have "ac_package_version_ref act = version_ref p" using current_activationD by (auto simp: is_activation_def)
    with True m 1(1) show ?thesis by auto
  next
    case False
    with 1(8) have act: "act = next_activation p target d key cref bref (current_activation (version_ref p) target r)"
      and s': "runs s' = AList.update k (log_event (Ev_Desired_Changed (version_ref p) (pv_package_digest p) target d
                 (ac_activation_revision act) key now) (replace_activation (version_ref p) target act r)) (runs s)" by auto
    have "ac_package_version_ref act = version_ref p" "ac_desired_state act = d" "ac_last_idempotency_key act = key"
      "ac_activation_revision act = (case current_activation (version_ref p) target r of None \<Rightarrow> 1 | Some c \<Rightarrow> ac_activation_revision c + 1)"
      "d = Desired_Running \<longrightarrow> ac_activation_state act = Provisioning"
      by (simp_all add: act next_activation_def)
    moreover have "is_activation (version_ref p) target act" unfolding act by (rule is_activation_next)
    ultimately show ?thesis using m 1(1) by (auto simp: s' find_replace_activation)
  qed
qed

text \<open>
  Setting the desired state is idempotent: repeating a successful call with the same
  arguments returns the same activation and changes nothing, so a retried request never consumes a
  second revision.
\<close>

theorem desired_state_idempotent:
  assumes wf: "dict_wf (runs s)"
    and ok: "set_capability_desired now a target desired key run_id ws cref bref False s = (Inr act, s')"
  shows "set_capability_desired now' a target desired key run_id ws cref bref False s' = (Inr act, s')"
  using ok
proof (rule set_desired_InrE, goal_cases)
  case (1 d p k r)
  show ?case
  proof (cases "current_activation (version_ref p) target r = Some act \<and> s' = s \<and>
      ac_package_digest act = pv_package_digest p \<and> ac_desired_state act = d")
    case True
    with 1 show ?thesis by (auto simp: set_capability_desired_def Let_def)
  next
    case False
    let ?r' = "log_event (Ev_Desired_Changed (version_ref p) (pv_package_digest p) target d
                 (ac_activation_revision act) key now) (replace_activation (version_ref p) target act r)"
    from False 1(8) have act: "act = next_activation p target d key cref bref (current_activation (version_ref p) target r)"
      and s': "runs s' = AList.update k ?r' (runs s)" by auto
    have m: "map_of (runs s) k = Some r" by (rule activation_record_InrD [OF 1(6) wf])
    have "find_package a run_id s' = find_package a run_id s" by (rule find_package_update [OF m wf _ s']) simp
    then have g: "get_capability_package a run_id s' = Inr p" using 1(4) by (simp add: get_capability_package_def)
    have rec: "activation_record p s' = Inr (k, ?r')" by (rule activation_record_update [OF 1(6) wf _ s']) simp
    have cur: "current_activation (version_ref p) target ?r' = Some act"
      using find_replace_activation [OF is_activation_next] by (simp add: act)
    have "ac_package_digest act = pv_package_digest p" "ac_last_idempotency_key act = key" "ac_desired_state act = d"
      by (simp_all add: act next_activation_def)
    moreover have "run_workspace ?r' = run_workspace r" by (simp add: run_workspace_def replace_activation_def)
    ultimately show ?thesis using 1 g rec cur by (auto simp: set_capability_desired_def Let_def)
  qed
qed

text \<open>
  Health reports are fenced by revision: a report is accepted only for the current revision
  of the activation it names, with the package's digest and, unless it repeats an accepted report,
  along an allowed transition; it changes the reported state and never the desired state, the
  revision or the idempotency key.
\<close>

theorem health_report_fenced:
  assumes wf: "dict_wf (runs s)" and ok: "record_capability_health now rep run_id s = (Inr act, s')"
  shows "\<exists>k r c. map_of (runs s) k = Some r \<and>
    current_activation (hr_package_version_ref rep) (hr_target_slave rep) r = Some c \<and>
    ac_activation_revision c = hr_activation_revision rep \<and>
    ac_activation_revision act = ac_activation_revision c \<and> ac_desired_state act = ac_desired_state c \<and>
    ac_last_idempotency_key act = ac_last_idempotency_key c \<and>
    (s' = s \<and> act = c \<or>
     hr_activation_state rep \<in> allowed_health (ac_activation_state c) \<and> ac_activation_state act = hr_activation_state rep)"
proof -
  from ok obtain p k r c where p: "get_capability_package (By_Id (hr_package_version_ref rep)) run_id s = Inr p"
      and rec: "activation_record p s = Inr (k, r)" and c: "current_activation (version_ref p) (hr_target_slave rep) r = Some c"
      and rv: "ac_activation_revision c = hr_activation_revision rep"
    by (auto simp: record_capability_health_def split: sum.splits option.splits if_splits)
  have v: "version_ref p = hr_package_version_ref rep"
    using find_package_SomeD(1) [OF get_capability_package_InrD [OF p]] by (simp add: package_candidate_def)
  have proj: "x = act" if "(case project_ready_capabilities i u of (Inl e, s') \<Rightarrow> (Inl e, s') | (Inr _, s') \<Rightarrow> (Inr x, s')) = (Inr act, s')" for i u x
    using that by (cases "project_ready_capabilities i u"; cases "fst (project_ready_capabilities i u)") auto
  have "s' = s \<and> act = c \<or> (act = c \<or> act = reported_activation rep c) \<and>
      hr_activation_state rep \<in> allowed_health (ac_activation_state c) \<and> ac_activation_state act = hr_activation_state rep"
    using ok p rec c rv
    by (auto simp: record_capability_health_def Let_def reported_activation_def dest!: proj split: option.splits if_splits)
  then show ?thesis
    using activation_record_InrD [OF rec wf] c rv v
    by (intro exI [of _ k] exI [of _ r] exI [of _ c]) (auto simp: reported_activation_def)
qed

section \<open>Promotion\<close>

definition packages_verified :: "env \<Rightarrow> 'z run_store_scheme \<Rightarrow> bool" where
  "packages_verified E s = list_all (\<lambda>p. package_digest_of E p = Inr (pv_package_digest p)) (all_packages s)"

lemma derive_InrE:
  assumes "derive_reusable E now ref key p s = (Inr q, s')"
  obtains (conflict) u where "s' = s" "List.find (same_coordinate u) (all_packages s) = Some q"
      "make_package E (reusable_version p key) = Inr u" "pv_package_digest q = pv_package_digest u"
  | (created) k source where "promotion_source p s = Some (k, source)" "rn_state source \<in> final_states"
      "make_package E (reusable_version p key) = Inr q" "List.find (same_coordinate q) (all_packages s) = None"
      "s' = put_run k (log_event (Ev_Package_Promoted (version_ref q) (version_ref p) (pv_package_digest p) key now)
              (source\<lparr>rn_capability_packages := rn_capability_packages source @ [q]\<rparr>)) s"
proof -
  from assms obtain k source where src: "promotion_source p s = Some (k, source)" "rn_state source \<in> final_states"
    by (auto simp: derive_reusable_def split: option.splits if_splits)
  with assms obtain u where u: "make_package E (reusable_version p key) = Inr u"
    by (auto simp: derive_reusable_def split: sum.splits)
  show ?thesis
  proof (cases "List.find (same_coordinate u) (all_packages s)")
    case None
    with assms src u show ?thesis by (intro created) (auto simp: derive_reusable_def)
  next
    case (Some c)
    with assms src u show ?thesis by (intro conflict [of u]) (auto simp: derive_reusable_def split: if_splits)
  qed
qed

lemma promote_InrE:
  assumes "promote_capability_package E now a key approved s = (Inr q, s')"
  obtains (existing) "s' = s" "q \<in> set (all_packages s)" "pv_publication_state q = Published" "pv_scope q = Workspace_Reusable"
  | (derived) p where "get_capability_package a None s = Inr p"
      "\<not> (pv_publication_state p = Published \<and> pv_scope p = Workspace_Reusable)"
      "List.find (\<lambda>q. reusable_matches_candidate q p) (all_packages s) = None" "promotion_check p approved = Inr ()"
      "validate_package_exports E s p = Inr ()" "derive_reusable E now (arg_id a) key p s = (Inr q, s')"
proof -
  from assms obtain p where p: "get_capability_package a None s = Inr p"
    by (auto simp: promote_capability_package_def split: sum.splits)
  have mem: "p \<in> set (all_packages s)" using find_package_SomeD(2) get_capability_package_InrD [OF p] by blast
  show ?thesis
  proof (cases "pv_publication_state p = Published \<and> pv_scope p = Workspace_Reusable")
    case True
    with assms p mem show ?thesis by (intro existing) (auto simp: promote_capability_package_def)
  next
    case no: False
    show ?thesis
    proof (cases "List.find (\<lambda>q. reusable_matches_candidate q p) (all_packages s)")
      case (Some u)
      with find_SomeD [OF Some] assms p no show ?thesis
        by (intro existing) (auto simp: promote_capability_package_def reusable_matches_candidate_def split: if_splits)
    next
      case None
      with assms p no show ?thesis
        by (intro derived [of p]) (auto simp: promote_capability_package_def split: sum.splits)
    qed
  qed
qed

lemma make_package_InrD:
  assumes "make_package E p = Inr q"
  shows "\<exists>d. q = p\<lparr>pv_package_digest := d\<rparr> \<and> package_digest_of E p = Inr d"
  using assms by (auto simp: make_package_def post_init_def Let_def split: sum.splits if_splits)

text \<open>The digest of a package does not see its version, its scope, its state or its provenance.\<close>

lemma reusable_digest [simp]: "package_digest_of E (reusable_version p key) = package_digest_of E p"
  by (simp add: package_digest_of_def identity_payload_def manifest_json_def reusable_version_def)

lemma reusable_facts:
  assumes "make_package E (reusable_version p key) = Inr q"
  shows "pv_publication_state q = Published" "pv_scope q = Workspace_Reusable" "version_ref q = version_ref p @ ''-reusable''"
    "package_digest_of E p = Inr (pv_package_digest q)" "package_digest_of E q = Inr (pv_package_digest q)"
    "reusable_matches_candidate q p"
proof -
  obtain d where q: "q = (reusable_version p key)\<lparr>pv_package_digest := d\<rparr>" and d: "package_digest_of E p = Inr d"
    using make_package_InrD [OF assms] by (auto simp only: reusable_digest)
  show "pv_publication_state q = Published" "pv_scope q = Workspace_Reusable" "version_ref q = version_ref p @ ''-reusable''"
    by (simp_all add: q reusable_version_def version_ref_def)
  show "package_digest_of E p = Inr (pv_package_digest q)" "package_digest_of E q = Inr (pv_package_digest q)"
    by (simp_all add: q d)
  show "reusable_matches_candidate q p"
    by (simp add: q reusable_version_def reusable_matches_candidate_def)
qed

lemma set_packages_update:
  assumes "map_of rs k = Some r" and "dict_wf rs" and "rn_capability_packages r' = rn_capability_packages r @ [q]"
  shows "set (concat (map (rn_capability_packages \<circ> snd) (AList.update k r' rs))) =
    insert q (set (concat (map (rn_capability_packages \<circ> snd) rs)))"
  using assms
proof (induction rs)
  case (Cons x rs)
  show ?case
  proof (cases "fst x = k")
    case True
    with Cons.prems have "x = (k, r)" by (cases x) auto
    with Cons.prems show ?thesis by auto
  next
    case False
    with Cons.prems have "map_of rs k = Some r" "dict_wf rs" by (cases x, auto)+
    with Cons.IH Cons.prems(3) False show ?thesis by (cases x) auto
  qed
qed simp

lemma filter_positions_update:
  assumes "map_of rs k = Some r" and "dict_wf rs" and "rn_capability_packages r' = rn_capability_packages r @ [q]" and "\<not> C q"
  shows "filter (\<lambda>(k, i, p). C p) (package_positions (AList.update k r' rs)) = filter (\<lambda>(k, i, p). C p) (package_positions rs)"
  using assms(1-3)
proof (induction rs)
  case (Cons x rs)
  show ?case
  proof (cases "fst x = k")
    case True
    with Cons.prems have "x = (k, r)" by (cases x) auto
    with Cons.prems assms(4) show ?thesis by (simp add: package_positions_def enumerate_append_eq)
  next
    case False
    with Cons.prems have "map_of rs k = Some r" "dict_wf rs" by (cases x, auto)+
    with Cons.IH Cons.prems(3) False show ?thesis by (cases x) (simp add: package_positions_def)
  qed
qed simp

lemma find_unique:
  assumes "q \<in> set xs" and "P q" and "\<And>x. x \<in> set xs \<Longrightarrow> P x \<Longrightarrow> x = q"
  shows "List.find P xs = Some q"
proof (cases "List.find P xs")
  case None
  with assms(1,2) find_NoneD show ?thesis by metis
next
  case (Some x)
  with find_SomeD [OF Some] assms(3) show ?thesis by metis
qed

lemma promoted_store:
  assumes wf: "dict_wf (runs s)" and src: "promotion_source p s = Some (k, source)"
    and s': "s' = put_run k (log_event e (source\<lparr>rn_capability_packages := rn_capability_packages source @ [q]\<rparr>)) s"
  shows "set (all_packages s') = insert q (set (all_packages s))"
    and "\<not> package_candidate a None s q \<Longrightarrow> find_package a None s' = find_package a None s"
proof -
  have m: "map_of (runs s) k = Some source" using find_run_SomeD(1) [OF src [unfolded promotion_source_def] wf] .
  let ?r' = "log_event e (source\<lparr>rn_capability_packages := rn_capability_packages source @ [q]\<rparr>)"
  have ps: "rn_capability_packages ?r' = rn_capability_packages source @ [q]" by simp
  show "set (all_packages s') = insert q (set (all_packages s))"
    unfolding all_packages_def s' runs_put_run by (rule set_packages_update [OF m wf ps])
  assume c: "\<not> package_candidate a None s q"
  have same: "package_candidate a None s' = package_candidate a None s"
    by (auto simp: package_candidate_def package_visible_to_run_def)
  have "filter (\<lambda>(k, i, p). package_candidate a None s p) (package_positions (runs s')) =
      filter (\<lambda>(k, i, p). package_candidate a None s p) (package_positions (runs s))"
    unfolding s' runs_put_run by (rule filter_positions_update [where C = "package_candidate a None s", OF m wf ps c])
  then show "find_package a None s' = find_package a None s" by (simp add: find_package_def package_at_def same)
qed

text \<open>
  Promotion keeps the store self-verifying and never changes a package's content: the
  returned package is in the store afterwards; if promotion wrote anything, it wrote one published
  reusable package with the candidate's digest, the candidate was not abandoned, an approved digest
  was the candidate's, and the Run that produced the candidate had ended.
\<close>

theorem promotion_sound:
  assumes wf: "dict_wf (runs s)" and ver: "packages_verified E s"
    and ok: "promote_capability_package E now a key approved s = (Inr q, s')"
  shows "packages_verified E s' \<and> q \<in> set (all_packages s') \<and>
    (s' = s \<or> (\<exists>p k source. get_capability_package a None s = Inr p \<and> pv_publication_state p \<noteq> Abandoned \<and>
       (nonempty approved \<longrightarrow> approved = Some (pv_package_digest p)) \<and>
       map_of (runs s) k = Some source \<and> rn_state source \<in> final_states \<and>
       pv_publication_state q = Published \<and> pv_scope q = Workspace_Reusable \<and> pv_package_digest q = pv_package_digest p \<and>
       set (all_packages s') = insert q (set (all_packages s))))"
  using ok
proof (cases rule: promote_InrE)
  case existing
  with ver show ?thesis by simp
next
  case (derived p)
  have p: "p \<in> set (all_packages s)" using find_package_SomeD(2) [OF get_capability_package_InrD [OF derived(1)]] .
  from derived(6) show ?thesis
  proof (cases rule: derive_InrE)
    case (conflict u)
    with find_SomeD [OF conflict(2)] ver show ?thesis by simp
  next
    case (created k source)
    note all = promoted_store(1) [OF wf created(1,5)] and q = reusable_facts [OF created(3)]
    have "package_digest_of E p = Inr (pv_package_digest p)" using ver p by (auto simp: packages_verified_def list_all_iff)
    then have d: "pv_package_digest q = pv_package_digest p" using q(4) by simp
    have "packages_verified E s'" using ver q(5) by (auto simp: packages_verified_def list_all_iff all)
    moreover have "map_of (runs s) k = Some source"
      using find_run_SomeD(1) [OF created(1) [unfolded promotion_source_def] wf] .
    moreover have "pv_publication_state p \<noteq> Abandoned" "nonempty approved \<longrightarrow> approved = Some (pv_package_digest p)"
      using derived(4) by (auto simp: promotion_check_def split: if_splits)
    ultimately show ?thesis using derived(1) created(2) q(1,2) d all by auto
  qed
qed

text \<open>
  Promotion is idempotent: promoting the same package again, at any later time and under
  any idempotency key, returns the same reusable package and changes nothing.
\<close>

theorem promotion_idempotent:
  assumes wf: "dict_wf (runs s)" and ok: "promote_capability_package E now a key approved s = (Inr q, s')"
    and wrote: "s' \<noteq> s"
  shows "promote_capability_package E now' a key' approved' s' = (Inr q, s')"
  using ok
proof (cases rule: promote_InrE)
  case existing
  with wrote show ?thesis by simp
next
  case (derived p)
  from derived(6) show ?thesis
  proof (cases rule: derive_InrE)
    case conflict
    with wrote show ?thesis by simp
  next
    case (created k source)
    note q = reusable_facts [OF created(3)]
    have fp: "find_package a None s = Some p" by (rule get_capability_package_InrD [OF derived(1)])
    have "version_ref p = arg_id a" using find_package_SomeD(1) [OF fp] by (simp add: package_candidate_def)
    then have nc: "\<not> package_candidate a None s q" using q(3) by (auto simp: package_candidate_def)
    have "find_package a None s' = Some p" using promoted_store(2) [OF wf created(1,5) nc] fp by simp
    then have get: "get_capability_package a None s' = Inr p" by (simp add: get_capability_package_def)
    have "List.find (\<lambda>q. reusable_matches_candidate q p) (all_packages s') = Some q"
      by (rule find_unique) (use promoted_store(1) [OF wf created(1,5)] q(6) find_NoneD [OF derived(3)] in auto)
    with get derived(2) show ?thesis by (auto simp: promote_capability_package_def)
  qed
qed

section \<open>Evaluation\<close>

text \<open>A finished Run with one candidate package, and a Slave on which it can be activated.\<close>

definition demo_digest :: string where
  "demo_digest = replicate 64 CHR ''b''"

definition demo_export :: capability_export where
  "demo_export = \<lparr>ce_capability_descriptor_ref = \<lparr>rr_resource_id = ''op'', rr_version_or_digest = Some demo_digest,
       rr_access_binding = [], rr_identity_criterion = Some ''descriptor_digest'', rr_provenance = []\<rparr>,
     ce_io_contract_ref = (plain_ref (content_prefix @ demo_digest))\<lparr>rr_identity_criterion := Some ''content_digest''\<rparr>,
     ce_effect_class = ''Known'', ce_permissions = [], ce_replay_safety = ''Idempotent'', ce_runtime_binding = []\<rparr>"

definition demo_package :: package_version where
  "demo_package = \<lparr>pv_package_type = ''function'', pv_package_id = ''p'', pv_package_version = ''v1'', pv_package_closure_version_ref = ''c'',
     pv_source_run_ref = ''r'', pv_source_closure_version_ref = ''d'', pv_scope = Run_Bound, pv_publication_state = Candidate,
     pv_provenance = [], pv_execution = \<lparr>ec_kind = ''k'', ec_version = ''1''\<rparr>, pv_capability_exports = [demo_export],
     pv_body = [], pv_package_digest = demo_digest\<rparr>"

definition demo_contract :: closure_contract where
  "demo_contract = \<lparr>cc_closure_id = ''c'', cc_goal = ''g'', cc_origin_conversation_ref = ''t'', cc_user_id = ''u'', cc_workspace_id = ''w'',
     cc_required_success_criteria = [], cc_allowed_effects = [], cc_resource_budget = [], cc_recovery_policy = [],
     cc_result_expectations = [], cc_declared_constraints = [], cc_body = minimal_closure ''c'' []\<rparr>"

definition demo_version :: closure_version where
  "demo_version = \<lparr>cv_version_id = ''d'', cv_closure_id = ''c'', cv_parent_version = None, cv_kind = ''draft'',
     cv_snapshot = minimal_closure ''c'' [], cv_snapshot_digest = demo_digest, cv_patch_cursor = 0\<rparr>"

definition demo_run :: run_record where
  "demo_run = (new_run ''r'' ''t'' ''g'' demo_version demo_contract False)\<lparr>rn_state := Run_Completed, rn_capability_packages := [demo_package]\<rparr>"

definition demo_slave :: agent_record where
  "demo_slave = \<lparr>ag_workspace_id = ''w'', ag_role = Slave, ag_agent_id = ''s'', ag_instance_id = ''i'', ag_endpoint_url = [],
     ag_protocol_version = ''2'', ag_capabilities = [(''operations'', JArr [JStr ''base''])], ag_epoch = 1, ag_lease_id_hash = [],
     ag_lease_state = Lease_Active, ag_last_seen_at = 0, ag_created_at = 0, ag_updated_at = 0\<rparr>"

definition demo_p0 :: slave_store where
  "demo_p0 = \<lparr>message_receipts = [], message_receipt_events = [], runs = [(''r'', demo_run)],
     agents = [((''w'', Slave, ''s'', ''i''), demo_slave)], driver_threads = [], agent_events = [], slave_agents = [],
     slave_instances = [], slave_capabilities = [], operation_descriptor_registry = [((''op'', demo_digest), JObj [])]\<rparr>"

definition demo_env2 :: env where
  "demo_env2 = demo_env\<lparr>env_hash := demo_sha, env_registry := [((''function'', ''k'', ''1''), [])],
     env_json_loads := (\<lambda>b. Some (JObj [])), env_get := (\<lambda>r. Inr ''{}'')\<rparr>"

lemma demo_digest_facts [simp]:
  "lower demo_digest = demo_digest" "lower_sha256 demo_digest" "any_sha256 demo_digest" "demo_digest \<noteq> []"
proof -
  show l: "lower_sha256 demo_digest" by (simp add: demo_digest_def lower_sha256_def list_all_iff is_lower_hex_def)
  then show "lower demo_digest = demo_digest" "any_sha256 demo_digest" by (simp_all add: lower_sha256_id lower_sha256_any)
  show "demo_digest \<noteq> []" by (simp add: demo_digest_def)
qed

lemma demo_hash [simp]: "digest_json (env_hash demo_env2) v (CHR ''l'' # d) = Inr demo_digest"
  by (simp add: digest_json_def canonical_json_bytes_def demo_env2_def demo_sha_def demo_digest_def)

lemma demo_version_ref [simp]: "version_ref demo_package = ''capability-package://p/v1''"
  by (simp add: version_ref_def demo_package_def)

lemma demo_payload: "\<exists>v. identity_payload demo_env2 demo_package = Inr v"
  by (simp add: identity_payload_def manifest_json_def demo_package_def demo_export_def execution_json_def export_json_def ref_json_def
      str_or_null_def is_ref_object_def dhas_def ref_fields_def normalize_order_def set_like_keys_def sort_exports_def sort_by_def
      export_key_def normalize_ref_def Let_def content_prefix_def startswith_def)

lemma demo_package_digest [simp]: "package_digest_of demo_env2 demo_package = Inr demo_digest"
proof -
  obtain v where "identity_payload demo_env2 demo_package = Inr v" using demo_payload ..
  then show ?thesis by (simp add: package_digest_of_def)
qed

lemma demo_find [simp]: "find_package (By_Id ''capability-package://p/v1'') None demo_p0 = Some demo_package"
  by (simp add: find_package_def package_at_def package_positions_def package_candidate_def package_visible_to_run_def demo_p0_def demo_run_def sort_by_def)
    (simp add: demo_package_def)

lemma demo_wf [simp]: "dict_wf (runs demo_p0)"
  by (simp add: demo_p0_def)

lemma demo_get [simp]: "get_capability_package (By_Id ''capability-package://p/v1'') None demo_p0 = Inr demo_package"
  by (simp add: get_capability_package_def)

lemma demo_record [simp]: "activation_record demo_package demo_p0 = Inr (''r'', demo_run)"
  by (simp add: activation_record_def find_run_def demo_p0_def demo_run_def)

theorem package_isolation_witness:
  "\<exists>p run. find_package (By_Id ''capability-package://p/v1'') (Some ''r'') demo_p0 = Some p \<and> map_of (runs demo_p0) ''r'' = Some run \<and>
     pv_scope p = Run_Bound \<and> pv_source_run_ref p = ''r''"
proof -
  have f: "find_package (By_Id ''capability-package://p/v1'') (Some ''r'') demo_p0 = Some demo_package"
    by (simp add: find_package_def package_at_def package_positions_def package_candidate_def package_visible_to_run_def demo_p0_def demo_run_def sort_by_def)
      (simp add: demo_package_def)
  with package_isolation [of "By_Id ''capability-package://p/v1''" "''r''" demo_p0 demo_package]
  show ?thesis by (auto simp: demo_package_def)
qed

definition demo_p1 :: slave_store where
  "demo_p1 = snd (set_capability_desired 1 (By_Id ''capability-package://p/v1'') ''s'' (Some Desired_Running) ''key'' None None [] [] False demo_p0)"

lemma demo_desired:
  "\<exists>act. set_capability_desired 1 (By_Id ''capability-package://p/v1'') ''s'' (Some Desired_Running) ''key'' None None [] [] False demo_p0
     = (Inr act, demo_p1) \<and> demo_p1 \<noteq> demo_p0"
proof -
  have cur: "current_activation v t demo_run = None" for v t
    by (simp add: current_activation_def demo_run_def new_run_def)
  have st: "pv_publication_state demo_package \<noteq> Abandoned" by (simp add: demo_package_def)
  have pr: "project_ready_capabilities (Some ''s'') (put_run k r demo_p0) = (Inr (), put_run k r demo_p0)" for k r
    by (simp add: project_ready_capabilities_def demo_p0_def put_run_def)
  have "log_event e r \<noteq> r" for e r
    by (metis append_self_conv log_event_simps(1) not_Cons_self2)
  then have "put_run ''r'' (log_event e (replace_activation v t a demo_run)) demo_p0 \<noteq> demo_p0" for e v t a
    by (simp add: put_run_def demo_p0_def replace_activation_def demo_run_def new_run_def log_event_def)
  then show ?thesis
    unfolding demo_p1_def by (simp add: set_capability_desired_def st cur pr Let_def)
qed

theorem desired_state_revision_witness:
  "\<exists>act k r'. map_of (runs demo_p1) k = Some r' \<and> current_activation (ac_package_version_ref act) ''s'' r' = Some act \<and>
     ac_activation_revision act = 1 \<and> ac_activation_state act = Provisioning"
proof -
  obtain act where a: "set_capability_desired 1 (By_Id ''capability-package://p/v1'') ''s'' (Some Desired_Running) ''key'' None None [] [] False demo_p0
     = (Inr act, demo_p1)" "demo_p1 \<noteq> demo_p0" using demo_desired by blast
  from desired_state_revision [OF demo_wf a(1)] a(2) obtain k r r' where
    r: "map_of (runs demo_p0) k = Some r" "map_of (runs demo_p1) k = Some r'"
      "current_activation (ac_package_version_ref act) ''s'' r' = Some act" "ac_activation_state act = Provisioning"
      "ac_activation_revision act = (case current_activation (ac_package_version_ref act) ''s'' r of None \<Rightarrow> 1 | Some c \<Rightarrow> ac_activation_revision c + 1)"
    by auto
  have "r = demo_run" using r(1) by (simp add: demo_p0_def split: if_splits)
  then have "current_activation (ac_package_version_ref act) ''s'' r = None" by (simp add: current_activation_def demo_run_def new_run_def)
  with r show ?thesis by auto
qed

theorem desired_state_idempotent_witness:
  "\<exists>act. set_capability_desired 9 (By_Id ''capability-package://p/v1'') ''s'' (Some Desired_Running) ''key'' None None [] [] False demo_p1
     = (Inr act, demo_p1)"
proof -
  obtain act where a: "set_capability_desired 1 (By_Id ''capability-package://p/v1'') ''s'' (Some Desired_Running) ''key'' None None [] [] False demo_p0
     = (Inr act, demo_p1)" using demo_desired by blast
  from desired_state_idempotent [OF demo_wf a] show ?thesis by blast
qed

definition demo_report :: health_report where
  "demo_report = \<lparr>hr_report_id = ''h'', hr_package_version_ref = ''capability-package://p/v1'', hr_package_digest = demo_digest,
     hr_target_slave = ''s'', hr_activation_state = Ready, hr_evidence_refs = [], hr_details = [], hr_activation_revision = 1\<rparr>"

lemma demo_p1_facts:
  "get_capability_package (By_Id ''capability-package://p/v1'') None demo_p1 = Inr demo_package"
  "\<exists>r c. activation_record demo_package demo_p1 = Inr (''r'', r) \<and> map_of (runs demo_p1) ''r'' = Some r \<and>
     current_activation ''capability-package://p/v1'' ''s'' r = Some c \<and> ac_activation_revision c = 1 \<and>
     ac_activation_state c = Provisioning \<and> ac_desired_state c = Desired_Running \<and> previous_report ''h'' r = None"
  "slave_agents demo_p1 = []" "dict_wf (runs demo_p1)"
proof -
  let ?act = "next_activation demo_package ''s'' Desired_Running ''key'' [] [] None"
  let ?r = "log_event (Ev_Desired_Changed ''capability-package://p/v1'' demo_digest ''s'' Desired_Running 1 ''key'' 1)
      (replace_activation ''capability-package://p/v1'' ''s'' ?act demo_run)"
  have cur: "current_activation v t demo_run = None" for v t
    by (simp add: current_activation_def demo_run_def new_run_def)
  have st: "pv_publication_state demo_package \<noteq> Abandoned" "pv_package_digest demo_package = demo_digest"
    by (simp_all add: demo_package_def)
  have pr: "project_ready_capabilities (Some ''s'') (put_run k r demo_p0) = (Inr (), put_run k r demo_p0)" for k r
    by (simp add: project_ready_capabilities_def demo_p0_def put_run_def)
  have rv: "ac_activation_revision ?act = 1" by (simp add: next_activation_def)
  have p1: "demo_p1 = put_run ''r'' ?r demo_p0"
    unfolding demo_p1_def by (simp add: set_capability_desired_def st cur pr rv Let_def)
  have m: "map_of (runs demo_p0) ''r'' = Some demo_run" by (simp add: demo_p0_def)
  have up: "runs demo_p1 = AList.update ''r'' ?r (runs demo_p0)" by (simp add: p1)
  show "get_capability_package (By_Id ''capability-package://p/v1'') None demo_p1 = Inr demo_package"
    using find_package_update [OF m demo_wf quiet_replace up] by (simp add: get_capability_package_def)
  have "activation_record demo_package demo_p1 = Inr (''r'', ?r)"
    by (rule activation_record_update [OF demo_record demo_wf quiet_replace up])
  moreover have "current_activation ''capability-package://p/v1'' ''s'' ?r = Some ?act"
    using find_replace_activation [OF is_activation_next [of demo_package "''s''" Desired_Running "''key''" "[]" "[]" None]] by simp
  moreover have "previous_report ''h'' ?r = None"
    by (simp add: previous_report_def replace_activation_def demo_run_def new_run_def)
  ultimately show "\<exists>r c. activation_record demo_package demo_p1 = Inr (''r'', r) \<and> map_of (runs demo_p1) ''r'' = Some r \<and>
     current_activation ''capability-package://p/v1'' ''s'' r = Some c \<and> ac_activation_revision c = 1 \<and>
     ac_activation_state c = Provisioning \<and> ac_desired_state c = Desired_Running \<and> previous_report ''h'' r = None"
    using up by (auto simp: next_activation_def)
  show "slave_agents demo_p1 = []" by (simp add: p1 put_run_def demo_p0_def)
  show "dict_wf (runs demo_p1)" unfolding up by (rule dict_wf_set [OF demo_wf])
qed

theorem health_report_fenced_witness:
  "\<exists>act s'. record_capability_health 2 demo_report None demo_p1 = (Inr act, s') \<and> ac_activation_revision act = 1 \<and>
     ac_desired_state act = Desired_Running"
proof -
  obtain r c where rc: "activation_record demo_package demo_p1 = Inr (''r'', r)" "map_of (runs demo_p1) ''r'' = Some r"
     "current_activation ''capability-package://p/v1'' ''s'' r = Some c" "ac_activation_revision c = 1"
     "ac_activation_state c = Provisioning" "ac_desired_state c = Desired_Running" "previous_report ''h'' r = None"
    using demo_p1_facts(2) by blast
  have pr: "project_ready_capabilities (Some ''s'') (put_run k x demo_p1) = (Inr (), put_run k x demo_p1)" for k x
    using demo_p1_facts(3) by (simp add: project_ready_capabilities_def put_run_def split: option.split)
  have d: "pv_package_digest demo_package = demo_digest" by (simp add: demo_package_def)
  obtain act s' where h: "record_capability_health 2 demo_report None demo_p1 = (Inr act, s')"
    using rc d demo_p1_facts(1) by (simp add: record_capability_health_def demo_report_def pr Let_def)
  from health_report_fenced [OF demo_p1_facts(4) h] rc(2-6) h
  have "ac_activation_revision act = 1 \<and> ac_desired_state act = Desired_Running"
    by (auto simp: demo_report_def record_capability_health_def demo_p1_facts(1) rc pr Let_def d reported_activation_def split: if_splits)
  with h show ?thesis by blast
qed

lemma demo_promotion:
  "\<exists>q s'. promote_capability_package demo_env2 3 (By_Id ''capability-package://p/v1'') None None demo_p0 = (Inr q, s') \<and> s' \<noteq> demo_p0"
proof -
  let ?u = "(reusable_version demo_package None)\<lparr>pv_package_digest := demo_digest\<rparr>"
  have mk: "make_package demo_env2 (reusable_version demo_package None) = Inr ?u"
  proof -
    have "pv_capability_exports (reusable_version demo_package None) \<noteq> []" "pv_package_digest (reusable_version demo_package None) = []"
      "validate_contract demo_env2 (reusable_version demo_package None) = Inr ()"
      by (simp_all add: reusable_version_def demo_package_def validate_contract_def validate_manifest_def package_key_def
          schema_for_def demo_env2_def demo_env_def)
    then show ?thesis by (simp add: make_package_def post_init_def)
  qed
  have pk: "all_packages demo_p0 = [demo_package]" by (simp add: all_packages_def demo_p0_def demo_run_def)
  have src: "promotion_source demo_package demo_p0 = Some (''r'', demo_run)"
    by (simp add: promotion_source_def find_run_def demo_p0_def demo_run_def)
  have fin: "rn_state demo_run \<in> final_states" by (simp add: demo_run_def final_states_def)
  have nc: "\<not> same_coordinate ?u demo_package" by (simp add: same_coordinate_def reusable_version_def demo_package_def)
  have chk: "promotion_check demo_package None = Inr ()" "\<not> (pv_publication_state demo_package = Published)"
    by (simp_all add: promotion_check_def demo_package_def nonempty_def package_key_def DRIVER_ORCHESTRATOR_KEY_def)
  have nm: "\<not> reusable_matches_candidate demo_package demo_package"
    by (simp add: reusable_matches_candidate_def demo_package_def)
  have io: "check_io_contract demo_env2 (ce_io_contract_ref demo_export) = Inr ()"
  proof -
    have "require_content_ref (ce_io_contract_ref demo_export) = Inr ()"
      by (simp add: require_content_ref_def demo_export_def ref_digest_def nonempty_def Let_def)
    then show ?thesis
      by (simp add: check_io_contract_def load_json_content_def demo_env2_def io_contract_of_json_def dhas_def opt_ref_field_def check_schema_ref_def)
  qed
  have dsc: "validate_operation_descriptor_ref demo_env2 demo_p0 (ce_capability_descriptor_ref demo_export) = Inr ()"
    by (simp add: validate_operation_descriptor_ref_def demo_export_def digest_or_empty_def ref_digest_def nonempty_def startswith_def
        content_prefix_def demo_p0_def check_descriptor_def operation_descriptor_domain_def Let_def)
  have exps: "validate_package_exports demo_env2 demo_p0 demo_package = Inr ()"
    using io dsc by (simp add: validate_package_exports_def demo_package_def validate_export_def)
  have ne: "put_run ''r'' (log_event e (demo_run\<lparr>rn_capability_packages := ps\<rparr>)) demo_p0 \<noteq> demo_p0" for e ps
    by (simp add: put_run_def demo_p0_def demo_run_def new_run_def log_event_def)
  show ?thesis
    by (simp add: promote_capability_package_def chk pk nm exps derive_reusable_def src fin mk nc ne)
qed

lemma demo_verified: "packages_verified demo_env2 demo_p0"
proof -
  have "all_packages demo_p0 = [demo_package]" "pv_package_digest demo_package = demo_digest"
    by (simp_all add: all_packages_def demo_p0_def demo_run_def demo_package_def)
  then show ?thesis by (simp add: packages_verified_def)
qed

theorem promotion_sound_witness:
  "\<exists>q s'. promote_capability_package demo_env2 3 (By_Id ''capability-package://p/v1'') None None demo_p0 = (Inr q, s') \<and>
     pv_publication_state q = Published \<and> q \<in> set (all_packages s') \<and> packages_verified demo_env2 s'"
proof -
  obtain q s' where q: "promote_capability_package demo_env2 3 (By_Id ''capability-package://p/v1'') None None demo_p0 = (Inr q, s')"
      "s' \<noteq> demo_p0" using demo_promotion by blast
  from promotion_sound [OF demo_wf demo_verified q(1)] q show ?thesis by blast
qed

theorem promotion_idempotent_witness:
  "\<exists>q s'. promote_capability_package demo_env2 3 (By_Id ''capability-package://p/v1'') None None demo_p0 = (Inr q, s') \<and>
     promote_capability_package demo_env2 9 (By_Id ''capability-package://p/v1'') (Some ''again'') None s' = (Inr q, s')"
proof -
  obtain q s' where q: "promote_capability_package demo_env2 3 (By_Id ''capability-package://p/v1'') None None demo_p0 = (Inr q, s')"
      "s' \<noteq> demo_p0" using demo_promotion by blast
  from promotion_idempotent [OF demo_wf q] q show ?thesis by blast
qed

theorem refresh_projects_ready_witness:
  "\<exists>ags s' d. refresh_slaves 1 (seconds 30) (Some ''w'') demo_p0 = (Inr ags, s') \<and> map_of (slave_capabilities s') ''s'' = Some d \<and>
     slave_is_active ''s'' s'"
proof -
  obtain ags s' d where r: "refresh_slaves 1 (seconds 30) (Some ''w'') demo_p0 = (Inr ags, s')"
      "map_of (slave_capabilities s') ''s'' = Some d"
    by (simp add: refresh_slaves_def list_agents_def expire_stale_def dict_rewrite_def demo_p0_def demo_slave_def nonempty_def
        store_slave_snapshot_def select_slave_agents_def base_operations_def py_set_def dget_default_def project_ready_capabilities_def
        Let_def lease_cutoff_def)
  from refresh_projects_ready [OF r] r show ?thesis by blast
qed

end
