(* ===== verification/Plugins.thy ===== *)
theory Plugins
  imports Packages
begin

text \<open>
  The runtime plugin host of a Slave (\<^verbatim>\<open>slave/runtime_plugins.py\<close>): the descriptor and manifest of an
  operator-installed provider process, the start, restart and request protocol of
  \<^verbatim>\<open>ProcessRuntimePlugin\<close>, and the routing table of \<^verbatim>\<open>RuntimePluginHost\<close>.

  The process, its socket and the clock are arguments: what each poll of the start loop observes, and
  what the provider answers to a request. A plugin object is named by the number \<open>rp_object\<close>, so that
  \<^verbatim>\<open>is\<close> compares numbers; its descriptor does not change while it is registered.
\<close>

section \<open>Errors and descriptors\<close>

datatype plugin_error =
    RuntimePluginError string string dict
  | Raised py_error

type_synonym 'a plugin_result = "plugin_error + 'a"

definition plugin_fail :: "string \<Rightarrow> plugin_error" where
  "plugin_fail code = RuntimePluginError code code []"

definition PLUGIN_PROTOCOL_VERSION :: string where
  "PLUGIN_PROTOCOL_VERSION = ''loom.runtime-plugin/1''"

record plugin_support =
  su_package_type :: string
  su_execution_kind :: string
  su_execution_version :: string

definition support_key :: "plugin_support \<Rightarrow> contract_key" where
  "support_key su = (su_package_type su, su_execution_kind su, su_execution_version su)"

definition support_mapping :: "plugin_support \<Rightarrow> json" where
  "support_mapping su =
     JObj [(''package_type'', JStr (su_package_type su)),
           (''execution'', JObj [(''kind'', JStr (su_execution_kind su)), (''version'', JStr (su_execution_version su))])]"

definition same_keys :: "dict \<Rightarrow> string list \<Rightarrow> bool" where
  "same_keys d ks = (set (map fst d) = set ks)"

definition support_of_mapping :: "env \<Rightarrow> json \<Rightarrow> plugin_support plugin_result" where
  "support_of_mapping E v =
     (let invalid = Inl (plugin_fail ''runtime_plugin_manifest_invalid'') in
      case v of
        JObj d \<Rightarrow>
          if \<not> set (map fst d) \<subseteq> {''package_type'', ''execution_kind'', ''execution_version'', ''execution''} then invalid
          else
            let package_type = str_or E (dget d ''package_type'') [];
                finish = (\<lambda>kind version. if package_type = [] \<or> kind = [] \<or> version = [] then invalid
                            else Inr \<lparr>su_package_type = package_type, su_execution_kind = kind, su_execution_version = version\<rparr>)
            in if dhas d ''execution_kind'' \<or> dhas d ''execution_version''
               then if dget d ''execution'' \<noteq> JNull \<or> \<not> dhas d ''execution_kind'' \<or> \<not> dhas d ''execution_version'' then invalid
                    else finish (str_or E (dget d ''execution_kind'') []) (str_or E (dget d ''execution_version'') [])
               else (case dget d ''execution'' of
                       JObj x \<Rightarrow>
                         if \<not> same_keys x [''kind'', ''version''] then invalid
                         else finish (str_or E (dget x ''kind'') []) (str_or E (dget x ''version'') [])
                     | _ \<Rightarrow> invalid)
      | _ \<Rightarrow> invalid)"

fun all_supports :: "env \<Rightarrow> json list \<Rightarrow> plugin_support list plugin_result" where
  "all_supports E [] = Inr []"
| "all_supports E (v # vs) =
     (case support_of_mapping E v of
        Inl e \<Rightarrow> Inl e
      | Inr su \<Rightarrow> (case all_supports E vs of Inl e \<Rightarrow> Inl e | Inr sus \<Rightarrow> Inr (su # sus)))"

record plugin_descriptor =
  pd_plugin_id :: string
  pd_protocol_version :: string
  pd_supports :: "plugin_support list"
  pd_runtime_descriptor_ref :: string
  pd_runtime_descriptor_digest :: string

definition descriptor_of_mapping :: "env \<Rightarrow> json \<Rightarrow> plugin_descriptor plugin_result" where
  "descriptor_of_mapping E v =
     (let invalid = Inl (plugin_fail ''runtime_plugin_descriptor_invalid'') in
      case v of
        JObj d \<Rightarrow>
          if \<not> set (map fst d) \<subseteq> {''plugin_id'', ''protocol_version'', ''supports'', ''runtime_descriptor_ref'',
                                     ''runtime_descriptor_digest''} then invalid
          else (case dget d ''supports'' of
                  JArr items \<Rightarrow>
                    if items = [] then invalid
                    else (case all_supports E items of
                            Inl _ \<Rightarrow> invalid
                          | Inr sus \<Rightarrow>
                              let desc = \<lparr>pd_plugin_id = str_or E (dget d ''plugin_id'') [],
                                    pd_protocol_version = str_or E (dget d ''protocol_version'') [],
                                    pd_supports = sus,
                                    pd_runtime_descriptor_ref = str_or E (dget d ''runtime_descriptor_ref'') [],
                                    pd_runtime_descriptor_digest = lower (str_or E (dget d ''runtime_descriptor_digest'') [])\<rparr>
                              in if pd_plugin_id desc = [] \<or> pd_protocol_version desc \<noteq> PLUGIN_PROTOCOL_VERSION \<or>
                                    \<not> distinct (pd_supports desc) \<or>
                                    (pd_runtime_descriptor_digest desc \<noteq> [] \<and>
                                     \<not> lower_sha256 (pd_runtime_descriptor_digest desc))
                                 then invalid else Inr desc)
                | _ \<Rightarrow> invalid)
      | _ \<Rightarrow> invalid)"

section \<open>Manifests\<close>

record plugin_manifest =
  mf_root :: string
  mf_plugin_id :: string
  mf_protocol_version :: string
  mf_command :: "string list"
  mf_supports :: "plugin_support list"

text \<open>\<^verbatim>\<open>Path(value).parts\<close>, up to the components that \<^verbatim>\<open>Path\<close> drops, none of which is \<^verbatim>\<open>..\<close>.\<close>

fun path_parts :: "string \<Rightarrow> string \<Rightarrow> string list" where
  "path_parts acc [] = [acc]"
| "path_parts acc (c # cs) = (if c = CHR ''/'' then acc # path_parts [] cs else path_parts (acc @ [c]) cs)"

definition command_word_ok :: "string \<Rightarrow> bool" where
  "command_word_ok w = (w \<noteq> [] \<and> \<not> startswith w ''/'' \<and> ''..'' \<notin> set (path_parts [] w))"

text \<open>
  \<^verbatim>\<open>_PluginManifest.load\<close>. \<open>raw\<close> is the parsed file, \<open>None\<close> when it cannot be read or parsed;
  \<open>inside\<close> and \<open>executable\<close> say whether the resolved command lies under the plugin's directory, and
  whether it is an executable file.
\<close>

definition load_manifest ::
  "env \<Rightarrow> string \<Rightarrow> (string \<Rightarrow> bool) \<Rightarrow> (string \<Rightarrow> bool) \<Rightarrow> dict option \<Rightarrow> plugin_manifest plugin_result" where
  "load_manifest E directory inside executable raw =
     (let invalid = Inl (plugin_fail ''runtime_plugin_manifest_invalid'') in
      case raw of
        None \<Rightarrow> invalid
      | Some d \<Rightarrow>
          if \<not> set (map fst d) \<subseteq> {''plugin_id'', ''protocol_version'', ''command'', ''supports''} then invalid
          else
            let plugin_id = str_or E (dget d ''plugin_id'') [];
                protocol_version = str_or E (dget d ''protocol_version'') []
            in if plugin_id = [] \<or> protocol_version \<noteq> PLUGIN_PROTOCOL_VERSION then invalid
               else (case (dget d ''command'', dget d ''supports'') of
                       (JArr command, JArr supports) \<Rightarrow>
                         let words = map (py_str E) command in
                         if command = [] \<or> supports = [] \<or> \<not> list_all command_word_ok words then invalid
                         else (case all_supports E supports of
                                 Inl e \<Rightarrow> Inl e
                               | Inr sus \<Rightarrow>
                                   if \<not> distinct sus \<or> \<not> inside (hd words) then invalid
                                   else if \<not> executable (hd words) then Inl (plugin_fail ''runtime_plugin_unavailable'')
                                   else Inr \<lparr>mf_root = directory, mf_plugin_id = plugin_id, mf_protocol_version = protocol_version,
                                              mf_command = words, mf_supports = sus\<rparr>)
                     | _ \<Rightarrow> invalid))"

definition validate_descriptor :: "plugin_manifest \<Rightarrow> plugin_descriptor \<Rightarrow> unit plugin_result" where
  "validate_descriptor m desc =
     (if pd_plugin_id desc \<noteq> mf_plugin_id m \<or> pd_protocol_version desc \<noteq> mf_protocol_version m \<or>
         set (pd_supports desc) \<noteq> set (mf_supports m)
      then Inl (plugin_fail ''runtime_plugin_descriptor_mismatch'') else Inr ())"

section \<open>The provider process\<close>

text \<open>
  What one turn of the start loop observes: whether the process has exited, the status of
  \<^verbatim>\<open>/healthz\<close>, the answer of \<^verbatim>\<open>/v1/descriptor\<close> (\<open>None\<close> for a transport error) and whether the deadline has passed
  at the end of the turn.
\<close>

record http_response =
  re_status :: int
  re_length :: nat
  re_json :: "json option"

record poll =
  po_exited :: bool
  po_health :: "int option"
  po_descriptor :: "http_response option"
  po_deadline :: bool

definition accept_descriptor :: "env \<Rightarrow> plugin_manifest \<Rightarrow> http_response \<Rightarrow> plugin_descriptor plugin_result" where
  "accept_descriptor E m r =
     (if re_length r > 1024 * 1024 then Inl (plugin_fail ''runtime_plugin_descriptor_invalid'')
      else (case re_json r of
              None \<Rightarrow> Inl (plugin_fail ''runtime_plugin_descriptor_invalid'')
            | Some v \<Rightarrow>
                (case descriptor_of_mapping E v of
                   Inl e \<Rightarrow> Inl e
                 | Inr desc \<Rightarrow> (case validate_descriptor m desc of Inl e \<Rightarrow> Inl e | Inr _ \<Rightarrow> Inr desc))))"

text \<open>The start loop over its polls; \<open>None\<close> while it still waits.\<close>

fun start_polls :: "env \<Rightarrow> plugin_manifest \<Rightarrow> poll list \<Rightarrow> plugin_descriptor plugin_result option" where
  "start_polls E m [] = None"
| "start_polls E m (o1 # rest) =
     (if po_exited o1 then Some (Inl (plugin_fail ''runtime_plugin_unavailable''))
      else
        let wait = (if po_deadline o1 then Some (Inl (plugin_fail ''runtime_plugin_start_timeout'')) else start_polls E m rest)
        in (case po_health o1 of
              None \<Rightarrow> wait
            | Some status \<Rightarrow>
                if status \<ge> 400 then wait
                else (case po_descriptor o1 of
                        None \<Rightarrow> wait
                      | Some r \<Rightarrow> if re_status r \<ge> 400 then wait else Some (accept_descriptor E m r))))"

text \<open>
  \<open>pp_alive\<close>: the client and the process exist and the process has not exited, the condition under
  which a request is sent.
\<close>

record process_plugin =
  pp_manifest :: plugin_manifest
  pp_descriptor :: plugin_descriptor
  pp_alive :: bool
  pp_restart_attempt :: nat
  pp_desired :: "dict list"

datatype exchange = Timed_Out | Transport_Error | Answered http_response

text \<open>The outside of the process: whether it can be spawned, what the start loop sees, what it answers.\<close>

record provider =
  pr_spawns :: bool
  pr_polls :: "poll list"
  pr_exchange :: "string \<Rightarrow> dict \<Rightarrow> exchange"

definition close_process :: "process_plugin \<Rightarrow> process_plugin" where
  "close_process p = p\<lparr>pp_alive := False\<rparr>"

definition start_process :: "env \<Rightarrow> provider \<Rightarrow> process_plugin \<Rightarrow> (unit plugin_result \<times> process_plugin) option" where
  "start_process E pr p =
     (if \<not> pr_spawns pr then Some (Inl (plugin_fail ''runtime_plugin_unavailable''), close_process p)
      else (case start_polls E (pp_manifest p) (pr_polls pr) of
              None \<Rightarrow> None
            | Some (Inl e) \<Rightarrow> Some (Inl e, close_process p)
            | Some (Inr desc) \<Rightarrow>
                Some (Inr (), p\<lparr>pp_alive := True, pp_descriptor := desc, pp_restart_attempt := 0\<rparr>)))"

text \<open>The envelope of an answer: \<open>Inl (close, error)\<close> tells whether the plugin is closed before the error is raised.\<close>

definition error_object_ok :: "json \<Rightarrow> bool" where
  "error_object_ok v =
     (case v of
        JObj d \<Rightarrow> same_keys d [''code'', ''retryable'', ''safe_message'', ''details''] \<and>
          is_str (dget d ''code'') \<and> dget d ''code'' \<noteq> JStr [] \<and>
          (case dget d ''retryable'' of JBool _ \<Rightarrow> True | _ \<Rightarrow> False) \<and>
          is_str (dget d ''safe_message'') \<and> is_obj (dget d ''details'')
      | _ \<Rightarrow> False)"

definition str_of :: "json \<Rightarrow> string" where
  "str_of v = (case v of JStr s \<Rightarrow> s | _ \<Rightarrow> [])"

definition read_envelope :: "string \<Rightarrow> http_response \<Rightarrow> (bool \<times> plugin_error) + dict" where
  "read_envelope request_id r =
     (let broken = Inl (True, plugin_fail ''runtime_plugin_protocol_error'') in
      if re_length r > 4 * 1024 * 1024 then broken
      else (case re_json r of
              Some (JObj body) \<Rightarrow>
                if dget body ''request_id'' \<noteq> JStr request_id then broken
                else if dget body ''ok'' = JBool False
                then if \<not> same_keys body [''request_id'', ''ok'', ''error''] \<or> \<not> error_object_ok (dget body ''error'') then broken
                     else let d = obj_of (dget body ''error'') in
                          Inl (False, RuntimePluginError (str_of (dget d ''code''))
                                 (if dget d ''safe_message'' = JStr [] then ''runtime plugin failed''
                                  else str_of (dget d ''safe_message''))
                                 (obj_of (dget d ''details'')))
                else if re_status r < 200 \<or> re_status r \<ge> 300 \<or> dget body ''ok'' \<noteq> JBool True \<or>
                        \<not> same_keys body [''request_id'', ''ok'', ''result''] \<or> \<not> is_obj (dget body ''result'')
                then broken
                else Inr (obj_of (dget body ''result''))
            | _ \<Rightarrow> broken))"

definition request_once ::
  "provider \<Rightarrow> string \<Rightarrow> string \<Rightarrow> dict \<Rightarrow> process_plugin \<Rightarrow> dict plugin_result \<times> process_plugin" where
  "request_once pr request_id path payload p =
     (if \<not> pp_alive p then (Inl (plugin_fail ''runtime_plugin_unavailable''), p)
      else (case pr_exchange pr path (dset payload ''request_id'' (JStr request_id)) of
              Timed_Out \<Rightarrow> (Inl (plugin_fail ''runtime_plugin_timeout''), p)
            | Transport_Error \<Rightarrow> (Inl (plugin_fail ''runtime_plugin_unavailable''), close_process p)
            | Answered r \<Rightarrow>
                (case read_envelope request_id r of
                   Inl (closing, e) \<Rightarrow> (Inl e, if closing then close_process p else p)
                 | Inr result \<Rightarrow> (Inr result, p))))"

text \<open>The delay before a restart, in microseconds.\<close>

definition restart_delay :: "nat \<Rightarrow> time" where
  "restart_delay attempt = min 2000000 (100000 * 2 ^ min attempt 5)"

definition restart_if_needed ::
  "env \<Rightarrow> provider \<Rightarrow> string \<Rightarrow> process_plugin \<Rightarrow> (unit plugin_result \<times> process_plugin) option" where
  "restart_if_needed E pr request_id p =
     (if pp_alive p then Some (Inr (), p)
      else (case start_process E pr (p\<lparr>pp_restart_attempt := pp_restart_attempt p + 1\<rparr>) of
              None \<Rightarrow> None
            | Some (Inl (RuntimePluginError _ _ _), p1) \<Rightarrow> Some (Inr (), p1)
            | Some (Inl e, p1) \<Rightarrow> Some (Inl e, p1)
            | Some (Inr _, p1) \<Rightarrow>
                if pp_desired p1 = [] then Some (Inr (), p1)
                else (case request_once pr request_id ''/v1/reconcile''
                             [(''activations'', JArr (map JObj (pp_desired p1)))] p1 of
                        (Inl (RuntimePluginError _ _ _), p2) \<Rightarrow>
                          Some (Inl (plugin_fail ''runtime_plugin_unavailable''), close_process p2)
                      | (Inl e, p2) \<Rightarrow> Some (Inl e, p2)
                      | (Inr _, p2) \<Rightarrow> Some (Inr (), p2))))"

definition plugin_request ::
  "env \<Rightarrow> provider \<Rightarrow> string \<Rightarrow> string \<Rightarrow> string \<Rightarrow> dict \<Rightarrow> process_plugin \<Rightarrow> (dict plugin_result \<times> process_plugin) option" where
  "plugin_request E pr restart_id request_id path payload p =
     (if pp_alive p then Some (request_once pr request_id path payload p)
      else (case restart_if_needed E pr restart_id p of
              None \<Rightarrow> None
            | Some (Inl e, p1) \<Rightarrow> Some (Inl e, p1)
            | Some (Inr _, p1) \<Rightarrow> Some (request_once pr request_id path payload p1)))"

definition process_reconcile ::
  "env \<Rightarrow> provider \<Rightarrow> string \<Rightarrow> string \<Rightarrow> dict list \<Rightarrow> process_plugin \<Rightarrow> (dict plugin_result \<times> process_plugin) option" where
  "process_reconcile E pr restart_id request_id acts p =
     plugin_request E pr restart_id request_id ''/v1/reconcile'' [(''activations'', JArr (map JObj acts))]
       (p\<lparr>pp_desired := acts\<rparr>)"

section \<open>The host\<close>

record provision_command =
  pc_command_id :: string
  pc_package_version_ref :: string
  pc_package_digest :: string
  pc_target_slave :: string
  pc_workspace_id :: string
  pc_activation_closure_version_ref :: string
  pc_compute_binding :: "compute_binding option"
  pc_idempotency_key :: string
  pc_activation_revision :: nat

record deprovision_command =
  dc_command_id :: string
  dc_package_version_ref :: string
  dc_package_digest :: string
  dc_target_slave :: string
  dc_workspace_id :: string
  dc_idempotency_key :: string
  dc_activation_revision :: nat

text \<open>The \<^verbatim>\<open>RuntimePlugin\<close> protocol: an object with its descriptor and its methods.\<close>

record runtime_plugin =
  rp_object :: nat
  rp_descriptor :: plugin_descriptor
  rp_provision :: "package_version \<Rightarrow> provision_command \<Rightarrow> dict plugin_result"
  rp_invoke :: "package_version \<Rightarrow> capability_export \<Rightarrow> dict \<Rightarrow> dict \<Rightarrow> string \<Rightarrow> dict plugin_result"
  rp_inspect :: "dict \<Rightarrow> dict plugin_result"
  rp_deprovision :: "deprovision_command \<Rightarrow> dict plugin_result"
  rp_reconcile :: "dict list \<Rightarrow> dict plugin_result"

record plugin_host =
  ho_plugins :: "(contract_key \<times> runtime_plugin) list"
  ho_process_plugins :: "runtime_plugin list"

datatype given_descriptor = Given plugin_descriptor | Mapping json

fun check_keys :: "env \<Rightarrow> plugin_host \<Rightarrow> nat \<Rightarrow> contract_key list \<Rightarrow> unit plugin_result" where
  "check_keys E h obj [] = Inr ()"
| "check_keys E h obj (key # keys) =
     (case schema_for (env_registry E) key of
        Inl _ \<Rightarrow> Inl (plugin_fail ''runtime_plugin_capability_mismatch'')
      | Inr _ \<Rightarrow>
          (case map_of (ho_plugins h) key of
             Some other \<Rightarrow>
               if rp_object other \<noteq> obj then Inl (plugin_fail ''runtime_plugin_conflict'') else check_keys E h obj keys
           | None \<Rightarrow> check_keys E h obj keys))"

definition register_plugin ::
  "env \<Rightarrow> given_descriptor \<Rightarrow> runtime_plugin \<Rightarrow> plugin_host \<Rightarrow> unit plugin_result \<times> plugin_host" where
  "register_plugin E given plugin0 h =
     (case (case given of Given desc \<Rightarrow> Inr desc | Mapping v \<Rightarrow> descriptor_of_mapping E v) of
        Inl e \<Rightarrow> (Inl e, h)
      | Inr desc \<Rightarrow>
          let plugin = plugin0\<lparr>rp_descriptor := desc\<rparr>;
              keys = map support_key (pd_supports desc)
          in if pd_plugin_id desc = [] \<or> pd_protocol_version desc \<noteq> PLUGIN_PROTOCOL_VERSION \<or>
                pd_supports desc = [] \<or> \<not> distinct (pd_supports desc)
             then (Inl (plugin_fail ''runtime_plugin_descriptor_invalid''), h)
             else if list_ex (\<lambda>other. rp_object other \<noteq> rp_object plugin \<and>
                        pd_plugin_id (rp_descriptor other) = pd_plugin_id desc) (map snd (ho_plugins h))
             then (Inl (plugin_fail ''runtime_plugin_conflict''), h)
             else (case check_keys E h (rp_object plugin) keys of
                     Inl e \<Rightarrow> (Inl e, h)
                   | Inr _ \<Rightarrow> (Inr (), h\<lparr>ho_plugins := fold (\<lambda>key. AList.update key plugin) keys (ho_plugins h)\<rparr>)))"

text \<open>The closing of the provider processes is outside the model; the host forgets every plugin.\<close>

definition host_close :: "plugin_host \<Rightarrow> plugin_host" where
  "host_close h = h\<lparr>ho_process_plugins := [], ho_plugins := []\<rparr>"

fun claim_supports :: "env \<Rightarrow> contract_key list \<Rightarrow> contract_key list \<Rightarrow> contract_key list plugin_result" where
  "claim_supports E claimed [] = Inr claimed"
| "claim_supports E claimed (key # keys) =
     (case schema_for (env_registry E) key of
        Inl _ \<Rightarrow> Inl (plugin_fail ''runtime_plugin_capability_mismatch'')
      | Inr _ \<Rightarrow>
          if key \<in> set claimed then Inl (plugin_fail ''runtime_plugin_conflict'')
          else claim_supports E (key # claimed) keys)"

fun claim_manifests :: "env \<Rightarrow> contract_key list \<Rightarrow> string list \<Rightarrow> plugin_manifest list \<Rightarrow> unit plugin_result" where
  "claim_manifests E claimed ids [] = Inr ()"
| "claim_manifests E claimed ids (m # ms) =
     (if mf_plugin_id m \<in> set ids then Inl (plugin_fail ''runtime_plugin_conflict'')
      else (case claim_supports E claimed (map support_key (mf_supports m)) of
              Inl e \<Rightarrow> Inl e
            | Inr claimed' \<Rightarrow> claim_manifests E claimed' (mf_plugin_id m # ids) ms))"

fun launch_manifests ::
  "env \<Rightarrow> (plugin_manifest \<Rightarrow> runtime_plugin plugin_result) \<Rightarrow> plugin_manifest list \<Rightarrow> plugin_host \<Rightarrow>
   unit plugin_result \<times> plugin_host" where
  "launch_manifests E launch [] h = (Inr (), h)"
| "launch_manifests E launch (m # ms) h =
     (case launch m of
        Inl e \<Rightarrow> (Inl e, h)
      | Inr plugin \<Rightarrow>
          (case register_plugin E (Given (rp_descriptor plugin)) plugin h of
             (Inl e, h1) \<Rightarrow> (Inl e, h1)
           | (Inr _, h1) \<Rightarrow> launch_manifests E launch ms (h1\<lparr>ho_process_plugins := ho_process_plugins h1 @ [plugin]\<rparr>)))"

definition host_start ::
  "env \<Rightarrow> plugin_manifest list plugin_result \<Rightarrow> (plugin_manifest \<Rightarrow> runtime_plugin plugin_result) \<Rightarrow> plugin_host \<Rightarrow>
   unit plugin_result \<times> plugin_host" where
  "host_start E discovered launch h =
     (if ho_process_plugins h \<noteq> [] then (Inr (), h)
      else (case discovered of
              Inl e \<Rightarrow> (Inl e, host_close h)
            | Inr ms \<Rightarrow>
                (case claim_manifests E (map fst (ho_plugins h)) (map (pd_plugin_id \<circ> rp_descriptor \<circ> snd) (ho_plugins h)) ms of
                   Inl e \<Rightarrow> (Inl e, host_close h)
                 | Inr _ \<Rightarrow>
                     (case launch_manifests E launch ms h of
                        (Inl e, h1) \<Rightarrow> (Inl e, host_close h1)
                      | (Inr _, h1) \<Rightarrow> (Inr (), h1)))))"

definition host_get :: "plugin_host \<Rightarrow> package_version \<Rightarrow> runtime_plugin plugin_result" where
  "host_get h p =
     (case map_of (ho_plugins h) (package_key p) of
        None \<Rightarrow> Inl (plugin_fail ''runtime_plugin_not_found'')
      | Some plugin \<Rightarrow> Inr plugin)"

definition host_supports :: "plugin_host \<Rightarrow> package_version \<Rightarrow> bool" where
  "host_supports h p = (map_of (ho_plugins h) (package_key p) \<noteq> None)"

definition unique_plugins :: "plugin_host \<Rightarrow> runtime_plugin list" where
  "unique_plugins h = map snd (fold (\<lambda>plugin. AList.update (rp_object plugin) plugin) (map snd (ho_plugins h)) [])"

definition host_descriptors :: "plugin_host \<Rightarrow> plugin_descriptor list" where
  "host_descriptors h = map rp_descriptor (unique_plugins h)"

definition host_provision :: "plugin_host \<Rightarrow> package_version \<Rightarrow> provision_command \<Rightarrow> dict plugin_result" where
  "host_provision h p c = (case host_get h p of Inl e \<Rightarrow> Inl e | Inr plugin \<Rightarrow> rp_provision plugin p c)"

definition host_invoke ::
  "plugin_host \<Rightarrow> package_version \<Rightarrow> capability_export \<Rightarrow> dict \<Rightarrow> dict \<Rightarrow> string \<Rightarrow> dict plugin_result" where
  "host_invoke h p ex payload act attempt_id =
     (case host_get h p of Inl e \<Rightarrow> Inl e | Inr plugin \<Rightarrow> rp_invoke plugin p ex payload act attempt_id)"

definition package_json :: "package_version \<Rightarrow> dict" where
  "package_json p =
     [(''package_type'', JStr (pv_package_type p)), (''package_id'', JStr (pv_package_id p)),
      (''package_version'', JStr (pv_package_version p)),
      (''package_closure_version_ref'', JStr (pv_package_closure_version_ref p)),
      (''source_run_ref'', JStr (pv_source_run_ref p)), (''source_closure_version_ref'', JStr (pv_source_closure_version_ref p)),
      (''scope'', JStr (case pv_scope p of Run_Bound \<Rightarrow> ''run_bound'' | Workspace_Reusable \<Rightarrow> ''workspace_reusable'')),
      (''publication_state'', JStr (case pv_publication_state p of Candidate \<Rightarrow> ''candidate'' | Published \<Rightarrow> ''published'' | Abandoned \<Rightarrow> ''abandoned'')),
      (''provenance'', JArr (map JObj (pv_provenance p))), (''execution'', execution_json (pv_execution p)),
      (''capability_exports'', JArr (map export_json (pv_capability_exports p))), (''body'', JObj (pv_body p)),
      (''package_digest'', JStr (pv_package_digest p))]"

definition host_inspect :: "plugin_host \<Rightarrow> package_version \<Rightarrow> dict \<Rightarrow> dict plugin_result" where
  "host_inspect h p act =
     (case host_get h p of
        Inl e \<Rightarrow> Inl e
      | Inr plugin \<Rightarrow> rp_inspect plugin (dict_with act
          [(''package_type'', JStr (pv_package_type p)), (''execution'', execution_json (pv_execution p)),
           (''package_version_ref'', JStr (version_ref p)), (''package_digest'', JStr (pv_package_digest p)),
           (''package_payload'', JObj (package_json p))]))"

definition host_deprovision :: "plugin_host \<Rightarrow> package_version \<Rightarrow> deprovision_command \<Rightarrow> dict plugin_result" where
  "host_deprovision h p c = (case host_get h p of Inl e \<Rightarrow> Inl e | Inr plugin \<Rightarrow> rp_deprovision plugin c)"

text \<open>\<^verbatim>\<open>reconcile\<close>: the activations grouped by the plugin object that serves them, in the order of their first activation.\<close>

definition reconcile_key :: "env \<Rightarrow> dict \<Rightarrow> contract_key plugin_result" where
  "reconcile_key E act =
     (case (if truthy (dget act ''execution'') then dget act ''execution'' else JObj []) of
        JObj x \<Rightarrow> Inr (str_or E (dget act ''package_type'') [], str_or E (dget x ''kind'') [], str_or E (dget x ''version'') ''1'')
      | _ \<Rightarrow> Inl (Raised (AttributeError ''get'')))"

fun group_activations ::
  "env \<Rightarrow> plugin_host \<Rightarrow> dict list \<Rightarrow> (nat \<times> runtime_plugin \<times> dict list) list \<Rightarrow>
   (nat \<times> runtime_plugin \<times> dict list) list plugin_result" where
  "group_activations E h [] groups = Inr groups"
| "group_activations E h (act # acts) groups =
     (case reconcile_key E act of
        Inl e \<Rightarrow> Inl e
      | Inr key \<Rightarrow>
          (case map_of (ho_plugins h) key of
             None \<Rightarrow> group_activations E h acts groups
           | Some plugin \<Rightarrow>
               (case map_of groups (rp_object plugin) of
                  None \<Rightarrow> group_activations E h acts (AList.update (rp_object plugin) (plugin, [act]) groups)
                | Some (first, items) \<Rightarrow>
                    group_activations E h acts (AList.update (rp_object plugin) (first, items @ [act]) groups))))"

fun reconcile_groups :: "(nat \<times> runtime_plugin \<times> dict list) list \<Rightarrow> dict \<Rightarrow> dict plugin_result" where
  "reconcile_groups [] acc = Inr acc"
| "reconcile_groups ((_, plugin, items) # groups) acc =
     (case rp_reconcile plugin items of
        Inl e \<Rightarrow> Inl e
      | Inr response \<Rightarrow> reconcile_groups groups (dset acc (pd_plugin_id (rp_descriptor plugin)) (JObj response)))"

definition host_reconcile :: "env \<Rightarrow> plugin_host \<Rightarrow> dict list \<Rightarrow> dict plugin_result" where
  "host_reconcile E h acts =
     (case group_activations E h acts [] of Inl e \<Rightarrow> Inl e | Inr groups \<Rightarrow> reconcile_groups groups [])"

section \<open>Routing\<close>

text \<open>
  The routing table: each contract leads to a plugin that declares it, under the supported protocol
  and with a schema in the contract registry, and no two plugin objects share an identifier.
\<close>

definition serves :: "runtime_plugin \<Rightarrow> contract_key \<Rightarrow> bool" where
  "serves plugin key =
     (key \<in> support_key ` set (pd_supports (rp_descriptor plugin)) \<and> pd_plugin_id (rp_descriptor plugin) \<noteq> [] \<and>
      pd_protocol_version (rp_descriptor plugin) = PLUGIN_PROTOCOL_VERSION)"

definition host_wf :: "env \<Rightarrow> plugin_host \<Rightarrow> bool" where
  "host_wf E h =
     ((\<forall>key plugin. map_of (ho_plugins h) key = Some plugin \<longrightarrow>
         serves plugin key \<and> (\<exists>schema. schema_for (env_registry E) key = Inr schema)) \<and>
      (\<forall>key key' plugin plugin'. map_of (ho_plugins h) key = Some plugin \<longrightarrow> map_of (ho_plugins h) key' = Some plugin' \<longrightarrow>
         pd_plugin_id (rp_descriptor plugin) = pd_plugin_id (rp_descriptor plugin') \<longrightarrow>
         rp_object plugin = rp_object plugin'))"

lemma host_wfD:
  assumes "host_wf E h" and "map_of (ho_plugins h) key = Some plugin"
  shows "serves plugin key" and "\<exists>schema. schema_for (env_registry E) key = Inr schema"
    and "map_of (ho_plugins h) key' = Some plugin' \<Longrightarrow>
         pd_plugin_id (rp_descriptor plugin) = pd_plugin_id (rp_descriptor plugin') \<Longrightarrow> rp_object plugin = rp_object plugin'"
  using assms unfolding host_wf_def by blast+

text \<open>
  What the Slave relies on: a router leads a package only to a provider that serves its contract, and
  the same provider for every package of one contract.
\<close>

locale contract_router =
  fixes ok :: "'h \<Rightarrow> bool" and route :: "'h \<Rightarrow> package_version \<Rightarrow> runtime_plugin plugin_result"
  assumes declared: "ok h \<Longrightarrow> route h p = Inr plugin \<Longrightarrow> serves plugin (package_key p)"
    and by_contract: "package_key p = package_key q \<Longrightarrow> route h p = route h q"
    and identified: "ok h \<Longrightarrow> route h p = Inr plugin \<Longrightarrow> route h q = Inr plugin' \<Longrightarrow>
          pd_plugin_id (rp_descriptor plugin) = pd_plugin_id (rp_descriptor plugin') \<Longrightarrow> rp_object plugin = rp_object plugin'"
begin

lemma declared_supports:
  assumes "ok h" and "route h p = Inr plugin"
  shows "\<exists>su \<in> set (pd_supports (rp_descriptor plugin)). support_key su = package_key p"
  using declared [OF assms] by (auto simp: serves_def)

lemma one_provider:
  assumes "ok h" and "route h p = Inr plugin" and "route h q = Inr plugin'" and "package_key p = package_key q"
  shows "plugin = plugin'"
  using by_contract [OF assms(4), of h] assms(2,3) by simp

end

interpretation host: contract_router "host_wf E" host_get for E
proof unfold_locales
  fix h p plugin
  assume "host_wf E h" and "host_get h p = Inr plugin"
  then show "serves plugin (package_key p)" by (auto simp: host_get_def split: option.splits intro: host_wfD(1))
next
  fix h p q plugin plugin'
  assume "host_wf E h" and "host_get h p = Inr plugin" and "host_get h q = Inr plugin'"
    and "pd_plugin_id (rp_descriptor plugin) = pd_plugin_id (rp_descriptor plugin')"
  then show "rp_object plugin = rp_object plugin'"
    by (auto simp: host_get_def split: option.splits intro: host_wfD(3))
qed (simp add: host_get_def)

lemma check_keys_InrD:
  assumes "check_keys E h obj keys = Inr ()" and "key \<in> set keys"
  shows "\<exists>schema. schema_for (env_registry E) key = Inr schema"
    and "map_of (ho_plugins h) key = Some other \<Longrightarrow> rp_object other = obj"
  using assms by (induction keys) (auto split: sum.splits option.splits if_splits)

lemma map_of_fold_update:
  "map_of (fold (\<lambda>key. AList.update key x) keys al) key = (if key \<in> set keys then Some x else map_of al key)"
  by (induction keys arbitrary: al) (auto simp: update_conv)

lemma register_plugin_InrD:
  assumes "register_plugin E given plugin0 h = (Inr (), h')"
  obtains desc where "pd_plugin_id desc \<noteq> []" and "pd_protocol_version desc = PLUGIN_PROTOCOL_VERSION"
    and "\<And>other. other \<in> snd ` set (ho_plugins h) \<Longrightarrow> pd_plugin_id (rp_descriptor other) = pd_plugin_id desc \<Longrightarrow>
           rp_object other = rp_object plugin0"
    and "check_keys E h (rp_object plugin0) (map support_key (pd_supports desc)) = Inr ()"
    and "ho_plugins h' = fold (\<lambda>key. AList.update key (plugin0\<lparr>rp_descriptor := desc\<rparr>)) (map support_key (pd_supports desc)) (ho_plugins h)"
proof -
  let ?d = "case given of Given desc \<Rightarrow> Inr desc | Mapping v \<Rightarrow> descriptor_of_mapping E v"
  from assms obtain desc where d: "?d = Inr desc" by (cases ?d) (simp_all add: register_plugin_def)
  show thesis
  proof (rule that)
    show "pd_plugin_id desc \<noteq> []" "pd_protocol_version desc = PLUGIN_PROTOCOL_VERSION"
      "check_keys E h (rp_object plugin0) (map support_key (pd_supports desc)) = Inr ()"
      "ho_plugins h' = fold (\<lambda>key. AList.update key (plugin0\<lparr>rp_descriptor := desc\<rparr>)) (map support_key (pd_supports desc)) (ho_plugins h)"
      using assms d by (auto simp: register_plugin_def Let_def simp del: fold_map split: sum.splits if_splits)
    show "rp_object other = rp_object plugin0"
      if "other \<in> snd ` set (ho_plugins h)" "pd_plugin_id (rp_descriptor other) = pd_plugin_id desc" for other
    proof (rule ccontr)
      assume "rp_object other \<noteq> rp_object plugin0"
      with that have "list_ex (\<lambda>other. rp_object other \<noteq> rp_object plugin0 \<and>
          pd_plugin_id (rp_descriptor other) = pd_plugin_id desc) (map snd (ho_plugins h))"
        unfolding list_ex_iff set_map by blast
      with assms d show False by (simp add: register_plugin_def Let_def split: if_splits)
    qed
  qed
qed

lemma register_plugin_wf:
  assumes "host_wf E h" and "register_plugin E given plugin0 h = (r, h')"
  shows "host_wf E h'"
proof (cases r)
  case (Inl e)
  with assms(2) have "h' = h" by (auto simp: register_plugin_def Let_def split: sum.splits if_splits)
  with assms(1) show ?thesis by simp
next
  case (Inr u)
  with assms(2) have "register_plugin E given plugin0 h = (Inr (), h')" by simp
  then obtain desc where desc: "pd_plugin_id desc \<noteq> []" "pd_protocol_version desc = PLUGIN_PROTOCOL_VERSION"
    and fresh: "\<And>other. other \<in> snd ` set (ho_plugins h) \<Longrightarrow> pd_plugin_id (rp_descriptor other) = pd_plugin_id desc \<Longrightarrow>
           rp_object other = rp_object plugin0"
    and keys: "check_keys E h (rp_object plugin0) (map support_key (pd_supports desc)) = Inr ()"
    and h': "ho_plugins h' = fold (\<lambda>key. AList.update key (plugin0\<lparr>rp_descriptor := desc\<rparr>)) (map support_key (pd_supports desc)) (ho_plugins h)"
    by (rule register_plugin_InrD) blast
  let ?new = "plugin0\<lparr>rp_descriptor := desc\<rparr>" and ?keys = "map support_key (pd_supports desc)"
  have look: "map_of (ho_plugins h') key = (if key \<in> set ?keys then Some ?new else map_of (ho_plugins h) key)" for key
    unfolding h' by (rule map_of_fold_update)
  have old: "rp_object plugin = rp_object plugin0"
    if "map_of (ho_plugins h) key = Some plugin" "pd_plugin_id (rp_descriptor plugin) = pd_plugin_id desc" for key plugin
    using fresh [of plugin] map_of_SomeD [OF that(1)] that(2) by force
  have "serves plugin key \<and> (\<exists>schema. schema_for (env_registry E) key = Inr schema)"
    if "map_of (ho_plugins h') key = Some plugin" for key plugin
    using that desc check_keys_InrD(1) [OF keys, of key] host_wfD(1,2) [OF assms(1), of key plugin]
    by (cases "key \<in> set ?keys") (auto simp: look serves_def)
  moreover have "rp_object plugin = rp_object plugin'"
    if "map_of (ho_plugins h') key = Some plugin" "map_of (ho_plugins h') key' = Some plugin'"
      "pd_plugin_id (rp_descriptor plugin) = pd_plugin_id (rp_descriptor plugin')" for key key' plugin plugin'
  proof (cases "key \<in> set ?keys"; cases "key' \<in> set ?keys")
    assume "key \<notin> set ?keys" "key' \<notin> set ?keys"
    with that host_wfD(3) [OF assms(1), of key plugin key' plugin'] show ?thesis by (simp only: look if_False)
  next
    assume "key \<in> set ?keys" "key' \<notin> set ?keys"
    with that old [of key' plugin'] show ?thesis by (simp only: look if_False if_True) auto
  next
    assume "key \<notin> set ?keys" "key' \<in> set ?keys"
    with that old [of key plugin] show ?thesis by (simp only: look if_False if_True) auto
  qed (use that in \<open>simp only: look if_True option.inject\<close>)
  ultimately show ?thesis unfolding host_wf_def by blast
qed

lemma host_close_wf [simp]: "host_wf E (host_close h)"
  by (simp add: host_wf_def host_close_def)

lemma host_wf_process [simp]: "host_wf E (h\<lparr>ho_process_plugins := ps\<rparr>) = host_wf E h"
  by (simp add: host_wf_def)

lemma launch_manifests_wf:
  "host_wf E h \<Longrightarrow> launch_manifests E launch ms h = (r, h') \<Longrightarrow> host_wf E h'"
proof (induction ms arbitrary: h)
  case (Cons m ms)
  show ?case
  proof (cases "launch m")
    case (Inr plugin)
    obtain q h1 where reg: "register_plugin E (Given (rp_descriptor plugin)) plugin h = (q, h1)" by fastforce
    have "host_wf E h1" by (rule register_plugin_wf [OF Cons.prems(1) reg])
    then have "host_wf E (h1\<lparr>ho_process_plugins := ho_process_plugins h1 @ [plugin]\<rparr>)" by simp
    note Cons.IH [OF this]
    with \<open>host_wf E h1\<close> Inr reg Cons.prems(2) show ?thesis by (cases q) simp_all
  qed (use Cons.prems in simp)
qed simp

lemma host_start_wf:
  assumes "host_wf E h"
  shows "host_wf E (snd (host_start E discovered launch h))"
  using assms by (auto simp: host_start_def split: sum.splits prod.splits dest: launch_manifests_wf)

inductive host_step :: "env \<Rightarrow> plugin_host \<Rightarrow> plugin_host \<Rightarrow> bool" for E where
  step_register: "host_step E h (snd (register_plugin E given plugin h))"
| step_start: "host_step E h (snd (host_start E discovered launch h))"
| step_close: "host_step E h (host_close h)"

inductive_cases host_stepE: "host_step E h h'"

definition empty_host :: plugin_host where
  "empty_host = \<lparr>ho_plugins = [], ho_process_plugins = []\<rparr>"

lemma host_step_wf:
  assumes "host_step E h h'" and "host_wf E h"
  shows "host_wf E h'"
  using assms by (cases rule: host_stepE) (auto intro: host_start_wf register_plugin_wf [OF _ prod.collapse [symmetric]])

lemma reachable_host_wf:
  assumes "(host_step E)\<^sup>*\<^sup>* empty_host h"
  shows "host_wf E h"
  using assms
proof (induction rule: rtranclp_induct)
  case base
  show ?case by (simp add: host_wf_def empty_host_def)
next
  case (step h h')
  then show ?case by (blast intro: host_step_wf)
qed

definition group_routed :: "env \<Rightarrow> plugin_host \<Rightarrow> (nat \<times> runtime_plugin \<times> dict list) list \<Rightarrow> bool" where
  "group_routed E h groups =
     (\<forall>i plugin items act. (i, plugin, items) \<in> set groups \<longrightarrow> act \<in> set items \<longrightarrow>
        (\<exists>key plugin'. reconcile_key E act = Inr key \<and> map_of (ho_plugins h) key = Some plugin' \<and> rp_object plugin' = i))"

lemma group_routed_update:
  assumes "group_routed E h groups" and "\<And>act. act \<in> set items \<Longrightarrow>
      \<exists>key plugin'. reconcile_key E act = Inr key \<and> map_of (ho_plugins h) key = Some plugin' \<and> rp_object plugin' = i"
  shows "group_routed E h (AList.update i (plugin, items) groups)"
  unfolding group_routed_def
proof (intro allI impI)
  fix j pl its act
  assume "(j, pl, its) \<in> set (AList.update i (plugin, items) groups)" and "act \<in> set its"
  then consider "j = i" "act \<in> set items" | "(j, pl, its) \<in> set groups" by (auto dest: dict_set_mem)
  then show "\<exists>key plugin'. reconcile_key E act = Inr key \<and> map_of (ho_plugins h) key = Some plugin' \<and> rp_object plugin' = j"
    using assms \<open>act \<in> set its\<close> unfolding group_routed_def by cases blast+
qed

lemma group_activations_routed:
  assumes "group_activations E h acts groups = Inr groups'" and "group_routed E h groups"
  shows "group_routed E h groups'"
  using assms
proof (induction acts arbitrary: groups)
  case (Cons act acts)
  from Cons.prems(1) obtain key where key: "reconcile_key E act = Inr key" by (auto split: sum.splits)
  show ?case
  proof (cases "map_of (ho_plugins h) key")
    case None
    with Cons key show ?thesis by simp
  next
    case (Some plugin)
    have here: "\<exists>key plugin'. reconcile_key E act = Inr key \<and> map_of (ho_plugins h) key = Some plugin' \<and> rp_object plugin' = rp_object plugin"
      using key Some by blast
    show ?thesis
    proof (cases "map_of groups (rp_object plugin)")
      case None
      with Cons key Some here show ?thesis by (auto intro!: Cons.IH group_routed_update)
    next
      case (Some entry)
      obtain first items where entry: "entry = (first, items)" by fastforce
      with Some have "(rp_object plugin, first, items) \<in> set groups" by (simp add: map_of_SomeD)
      with Cons.prems(2) have items: "act' \<in> set items \<Longrightarrow>
          \<exists>key plugin'. reconcile_key E act' = Inr key \<and> map_of (ho_plugins h) key = Some plugin' \<and> rp_object plugin' = rp_object plugin" for act'
        unfolding group_routed_def by blast
      have "group_routed E h (AList.update (rp_object plugin) (first, items @ [act]) groups)"
        by (rule group_routed_update [OF Cons.prems(2)]) (use here items in auto)
      with Cons key \<open>map_of (ho_plugins h) key = Some plugin\<close> Some entry show ?thesis by simp
    qed
  qed
qed simp

section \<open>Starting and restarting a provider\<close>

lemma start_polls_returns:
  assumes "list_ex (\<lambda>o1. po_deadline o1 \<or> po_exited o1) polls"
  shows "\<exists>r. start_polls E m polls = Some r"
  using assms by (induction polls) (auto simp: Let_def split: option.splits)

lemma start_polls_matches:
  assumes "start_polls E m polls = Some (Inr desc)"
  shows "pd_plugin_id desc = mf_plugin_id m" and "pd_protocol_version desc = mf_protocol_version m"
    and "set (pd_supports desc) = set (mf_supports m)" and "distinct (pd_supports desc)"
proof -
  have "\<exists>r. accept_descriptor E m r = Inr desc"
    using assms by (induction polls) (auto simp: Let_def split: option.splits if_splits)
  then obtain r v where "descriptor_of_mapping E v = Inr desc" "validate_descriptor m desc = Inr ()"
    by (auto simp: accept_descriptor_def split: if_splits option.splits sum.splits)
  then show "pd_plugin_id desc = mf_plugin_id m" "pd_protocol_version desc = mf_protocol_version m"
    "set (pd_supports desc) = set (mf_supports m)" "distinct (pd_supports desc)"
    by (auto simp: validate_descriptor_def descriptor_of_mapping_def Let_def
        split: if_splits json.splits sum.splits)
qed

lemma request_once_InrD:
  assumes "request_once pr request_id path payload p = (Inr result, p')"
  shows "p' = p" and "pp_alive p" and "\<exists>r. pr_exchange pr path (dset payload ''request_id'' (JStr request_id)) = Answered r \<and>
           read_envelope request_id r = Inr result"
  using assms by (auto simp: request_once_def split: if_splits exchange.splits sum.splits)

lemma plugin_request_restarted:
  assumes "\<not> pp_alive p" and "plugin_request E pr restart_id request_id path payload p = Some (Inr result, p')"
  shows "restart_if_needed E pr restart_id p = Some (Inr (), p')" and "pp_alive p'"
    and "request_once pr request_id path payload p' = (Inr result, p')"
  using assms request_once_InrD [of pr request_id path payload _ result p']
  by (auto simp: plugin_request_def split: option.splits sum.splits prod.splits)

lemma restart_startedE:
  assumes "restart_if_needed E pr restart_id p = Some (Inr (), p')" and "\<not> pp_alive p" and "pp_alive p'"
  obtains desc where "start_polls E (pp_manifest p) (pr_polls pr) = Some (Inr desc)"
    and "p' = p\<lparr>pp_alive := True, pp_descriptor := desc, pp_restart_attempt := 0\<rparr>"
    and "pp_desired p = [] \<or> (\<exists>answer. request_once pr restart_id ''/v1/reconcile''
           [(''activations'', JArr (map JObj (pp_desired p)))] p' = (Inr answer, p'))"
proof -
  let ?p = "p\<lparr>pp_restart_attempt := pp_restart_attempt p + 1\<rparr>"
  from assms obtain r p1 where start: "start_process E pr ?p = Some (r, p1)"
    by (auto simp: restart_if_needed_def split: option.splits)
  have "\<exists>u. r = Inr u"
  proof (cases r)
    case (Inl e)
    with start have "\<not> pp_alive p1" by (auto simp: start_process_def close_process_def split: if_splits option.splits sum.splits)
    with assms start Inl show ?thesis by (auto simp: restart_if_needed_def split: plugin_error.splits)
  qed simp
  with start obtain desc where polls: "start_polls E (pp_manifest p) (pr_polls pr) = Some (Inr desc)"
    and p1: "p1 = p\<lparr>pp_alive := True, pp_descriptor := desc, pp_restart_attempt := 0\<rparr>" and r: "r = Inr ()"
    by (auto simp: start_process_def split: if_splits option.splits sum.splits)
  show thesis
  proof (cases "pp_desired p = []")
    case True
    with assms start r p1 have "p' = p1" by (simp add: restart_if_needed_def)
    with polls p1 True that show thesis by blast
  next
    case False
    let ?q = "request_once pr restart_id ''/v1/reconcile'' [(''activations'', JArr (map JObj (pp_desired p)))] p1"
    obtain q p2 where q: "?q = (q, p2)" by fastforce
    have desired: "pp_desired p1 = pp_desired p" by (simp add: p1)
    have "\<exists>answer. q = Inr answer" and "p' = p2"
      using assms start r q False desired
      by (auto simp: restart_if_needed_def split: sum.splits plugin_error.splits)
    with q request_once_InrD(1) [of pr restart_id "''/v1/reconcile''" _ p1] have "p2 = p1" by metis
    with \<open>p' = p2\<close> q p1 polls \<open>\<exists>answer. q = Inr answer\<close> show thesis by (intro that) auto
  qed
qed

section \<open>Properties\<close>



text \<open>
  Claim C19. The start loop ends. Once a poll sees the deadline passed or the process gone, a request
  returns, whatever the state of the provider before; the pause before a restart grows with the
  attempts and stays between a tenth of a second and two seconds.
\<close>

theorem provider_request_returns:
  assumes "list_ex (\<lambda>o1. po_deadline o1 \<or> po_exited o1) (pr_polls pr)"
  shows "(\<exists>r p'. plugin_request E pr restart_id request_id path payload p = Some (r, p')) \<and>
         100000 \<le> restart_delay n \<and> restart_delay n \<le> 2000000 \<and> (n \<le> k \<longrightarrow> restart_delay n \<le> restart_delay k)"
proof (intro conjI impI)
  obtain q where "start_polls E (pp_manifest p) (pr_polls pr) = Some q" using start_polls_returns [OF assms] ..
  then have "\<exists>r p'. restart_if_needed E pr restart_id p = Some (r, p')"
    by (auto simp: restart_if_needed_def start_process_def split: sum.splits plugin_error.splits prod.splits)
  then show "\<exists>r p'. plugin_request E pr restart_id request_id path payload p = Some (r, p')"
    by (auto simp: plugin_request_def split: sum.splits)
  have "(1::int) \<le> 2 ^ min n 5" by simp
  then show "100000 \<le> restart_delay n" by (simp add: restart_delay_def)
  show "restart_delay n \<le> 2000000" by (simp add: restart_delay_def)
  assume "n \<le> k"
  then have "(2::int) ^ min n 5 \<le> 2 ^ min k 5" by (intro power_increasing) auto
  then show "restart_delay n \<le> restart_delay k" unfolding restart_delay_def by linarith
qed

section \<open>Witnesses\<close>

definition demo_descriptor :: plugin_descriptor where
  "demo_descriptor = \<lparr>pd_plugin_id = ''k1'', pd_protocol_version = ''loom.runtime-plugin/1'',
     pd_supports = [\<lparr>su_package_type = ''function'', su_execution_kind = ''k'', su_execution_version = ''1''\<rparr>],
     pd_runtime_descriptor_ref = [], pd_runtime_descriptor_digest = []\<rparr>"

definition demo_plugin :: runtime_plugin where
  "demo_plugin = \<lparr>rp_object = 7, rp_descriptor = demo_descriptor, rp_provision = (\<lambda>p c. Inr [(''state'', JStr ''ready'')]),
     rp_invoke = (\<lambda>p ex payload act attempt_id. Inr [(''value'', JInt 3)]),
     rp_inspect = (\<lambda>act. Inr [(''identity_match'', JBool True), (''healthy'', JBool True)]),
     rp_deprovision = (\<lambda>c. Inr []), rp_reconcile = (\<lambda>acts. Inr [])\<rparr>"

definition demo_host :: plugin_host where
  "demo_host = snd (register_plugin demo_env2 (Given demo_descriptor) demo_plugin empty_host)"

lemma demo_host_plugins: "demo_host = \<lparr>ho_plugins = [((''function'', ''k'', ''1''), demo_plugin)], ho_process_plugins = []\<rparr>"
  by (simp add: demo_host_def register_plugin_def demo_descriptor_def demo_plugin_def empty_host_def Let_def
      PLUGIN_PROTOCOL_VERSION_def support_key_def schema_for_def demo_env2_def)

lemma demo_host_get: "host_get demo_host demo_package = Inr demo_plugin"
  by (simp add: host_get_def demo_host_plugins package_key_def demo_package_def)


definition demo_manifest :: plugin_manifest where
  "demo_manifest = \<lparr>mf_root = ''/plugins/k1'', mf_plugin_id = ''k1'', mf_protocol_version = ''loom.runtime-plugin/1'',
     mf_command = [''run''], mf_supports = pd_supports demo_descriptor\<rparr>"

definition demo_dead :: process_plugin where
  "demo_dead = \<lparr>pp_manifest = demo_manifest, pp_descriptor = demo_descriptor, pp_alive = False, pp_restart_attempt = 3,
     pp_desired = [[(''activation_key'', JStr ''a'')]]\<rparr>"

text \<open>A provider that is not healthy at its first poll, then serves its descriptor and answers every request.\<close>

definition demo_provider :: provider where
  "demo_provider = \<lparr>pr_spawns = True,
     pr_polls = [\<lparr>po_exited = False, po_health = None, po_descriptor = None, po_deadline = False\<rparr>,
       \<lparr>po_exited = False, po_health = Some 200,
        po_descriptor = Some \<lparr>re_status = 200, re_length = 100,
          re_json = Some (JObj [(''plugin_id'', JStr ''k1''), (''protocol_version'', JStr ''loom.runtime-plugin/1''),
             (''supports'', JArr (map support_mapping (pd_supports demo_descriptor)))])\<rparr>,
        po_deadline = True\<rparr>],
     pr_exchange = (\<lambda>path payload. Answered \<lparr>re_status = 200, re_length = 100,
       re_json = Some (JObj [(''request_id'', dget payload ''request_id''), (''ok'', JBool True), (''result'', JObj [])])\<rparr>)\<rparr>"

lemma demo_supports: "support_of_mapping demo_env2 (support_mapping \<lparr>su_package_type = ''function'', su_execution_kind = ''k'', su_execution_version = ''1''\<rparr>)
    = Inr \<lparr>su_package_type = ''function'', su_execution_kind = ''k'', su_execution_version = ''1''\<rparr>"
  by (simp add: support_of_mapping_def support_mapping_def Let_def str_or_def py_str_def dget_def dhas_def same_keys_def)

lemma demo_started: "start_polls demo_env2 demo_manifest (pr_polls demo_provider) = Some (Inr demo_descriptor)"
  by (simp add: demo_provider_def accept_descriptor_def descriptor_of_mapping_def validate_descriptor_def demo_manifest_def
      demo_descriptor_def demo_supports Let_def str_or_def py_str_def dget_def PLUGIN_PROTOCOL_VERSION_def lower_def)

lemma demo_answers:
  assumes "pp_alive p"
  shows "request_once demo_provider rid path payload p = (Inr [], p)"
  using assms by (simp add: request_once_def demo_provider_def read_envelope_def Let_def same_keys_def dget_dset dget_Cons insert_commute)

lemma demo_request_ok: "\<exists>p'. plugin_request demo_env2 demo_provider ''r1'' ''r2'' ''/v1/inspect'' [] demo_dead = Some (Inr [], p')"
  using demo_started
  by (simp add: plugin_request_def restart_if_needed_def start_process_def demo_dead_def demo_provider_def demo_answers [unfolded demo_provider_def])


theorem provider_request_returns_witness:
  "\<exists>r p'. plugin_request demo_env2 demo_provider ''r1'' ''r2'' ''/v1/inspect'' [] demo_dead = Some (r, p')"
  by (rule provider_request_returns [THEN conjunct1]) (simp add: demo_provider_def)

end
