(* ===== verification/Preflight.thy ===== *)
theory Preflight
  imports Content
begin

text \<open>
  The static check of orchestration programs (\<^verbatim>\<open>loom_v2/observer/orchestration_preflight.py\<close>).

  The parser \<^verbatim>\<open>ast.parse\<close> and the Pyright process are parameters: the first gives the top-level
  statements of a source text, or nothing on a syntax error, the second what the process wrote.
  Sources and process output are their UTF-8 bytes.
\<close>

section \<open>Programs\<close>

datatype annotation = Ann_String string | Ann_Name string | Ann_Other

record ast_arg =
  aa_arg :: string
  aa_annotation :: "annotation option"

record ast_arguments =
  ar_posonlyargs :: "ast_arg list"
  ar_args :: "ast_arg list"
  ar_vararg :: "ast_arg option"
  ar_kwonlyargs :: "ast_arg list"
  ar_kwarg :: "ast_arg option"

text \<open>
  The statement forms the check tells apart, each with its \<^verbatim>\<open>lineno\<close> and \<^verbatim>\<open>end_lineno\<close>: an asynchronous
  function, a \<^verbatim>\<open>from \<dots> import\<close>, a string expression, anything else.
\<close>

datatype stmt_form =
    Async_Function_Def string ast_arguments "annotation option"
  | Import_From "string option"
  | String_Expr
  | Other_Stmt

record stmt =
  sm_form :: stmt_form
  sm_lineno :: nat
  sm_end_lineno :: "nat option"

datatype pyright_run = Pyright_Missing | Pyright_Unavailable | Pyright_Output string

record toolchain =
  tl_ast_parse :: "string \<Rightarrow> stmt list option"
  tl_pyright :: "string \<Rightarrow> pyright_run"
  tl_docker :: bool
  tl_runtime_available :: "bool option"

section \<open>The entry signature\<close>

text \<open>\<^verbatim>\<open>_annotation_name\<close>\<close>

fun annotation_name :: "annotation option \<Rightarrow> string option \<times> bool" where
  "annotation_name None = (None, False)"
| "annotation_name (Some (Ann_String v)) = (Some v, True)"
| "annotation_name (Some (Ann_Name v)) = (Some v, False)"
| "annotation_name (Some Ann_Other) = (None, False)"

definition entry_blocker :: "string \<Rightarrow> string \<Rightarrow> json" where
  "entry_blocker code message = JObj [(''code'', JStr code), (''message'', JStr message)]"

abbreviation missing_entry :: "string \<Rightarrow> json" where
  "missing_entry \<equiv> entry_blocker ''missing_entry_annotation''"

abbreviation invalid_entry :: "string \<Rightarrow> json" where
  "invalid_entry \<equiv> entry_blocker ''invalid_entry_annotation''"

definition quoted :: "string \<Rightarrow> string" where
  "quoted s = CHR 0x22 # s @ [CHR 0x22]"

definition argument_blockers :: "ast_arg \<Rightarrow> string \<times> string \<Rightarrow> json list" where
  "argument_blockers argument expected =
     (let (name, type_name) = expected;
          (annotation, is_string) = annotation_name (aa_annotation argument)
      in if aa_arg argument \<noteq> name
         then [invalid_entry (''parameter '' @ quoted (aa_arg argument) @ '' must be named '' @ quoted name)]
         else if aa_annotation argument = None
         then [missing_entry (''parameter '' @ quoted name @ '' must use annotation '' @ quoted type_name)]
         else if annotation \<noteq> Some type_name \<or> \<not> is_string
         then [invalid_entry (''parameter '' @ quoted name @ '' must use string annotation '' @ quoted type_name)]
         else [])"

definition entry_parameters :: "(string \<times> string) list" where
  "entry_parameters = [(''ctx'', ''OrchestrationContext''), (''input_ref'', ''ResourceRef'')]"

definition return_blockers :: "annotation option \<Rightarrow> json list" where
  "return_blockers returns =
     (let (return_annotation, is_string) = annotation_name returns in
      if returns = None
      then [missing_entry (''return value must use annotation '' @ quoted ''ResourceRef'')]
      else if return_annotation \<noteq> Some ''ResourceRef'' \<or> \<not> is_string
      then [invalid_entry (''return value must use string annotation '' @ quoted ''ResourceRef'')]
      else [])"

definition entry_points :: "stmt list \<Rightarrow> (ast_arguments \<times> annotation option) list" where
  "entry_points tree = List.map_filter (\<lambda>s. case sm_form s of
       Async_Function_Def name arguments returns \<Rightarrow> (if name = ''orchestrate'' then Some (arguments, returns) else None)
     | _ \<Rightarrow> None) tree"

definition validate_entry_signature :: "toolchain \<Rightarrow> string \<Rightarrow> json list" where
  "validate_entry_signature T source =
     (case tl_ast_parse T source of
        None \<Rightarrow> [invalid_entry ''orchestration entry cannot be parsed'']
      | Some tree \<Rightarrow>
          (case entry_points tree of
             [(arguments, returns)] \<Rightarrow>
               let positional = ar_posonlyargs arguments @ ar_args arguments in
               if ar_posonlyargs arguments \<noteq> [] \<or> length (ar_args arguments) \<noteq> 2 \<or> length positional \<noteq> 2 \<or>
                  ar_vararg arguments \<noteq> None \<or> ar_kwarg arguments \<noteq> None \<or> ar_kwonlyargs arguments \<noteq> []
               then [invalid_entry ''orchestrate must accept exactly ctx and input_ref'']
               else concat (map2 argument_blockers positional entry_parameters) @ return_blockers returns
           | _ \<Rightarrow> [missing_entry ''exactly one async def orchestrate is required'']))"

section \<open>Text of a program\<close>

text \<open>
  The length of the line terminator at the head of a text, as \<^verbatim>\<open>str.splitlines\<close> recognizes them:
  the control characters, and the UTF-8 encodings of U+0085, U+2028 and U+2029.
\<close>

definition codes :: "string \<Rightarrow> nat list" where
  "codes s = map of_char (take 3 s)"

definition line_terminator :: "string \<Rightarrow> nat" where
  "line_terminator s =
     (case codes s of
        [] \<Rightarrow> 0
      | n # rest \<Rightarrow>
          if n = 13 then (if take 1 rest = [10] then 2 else 1)
          else if 10 \<le> n \<and> n \<le> 12 \<or> 28 \<le> n \<and> n \<le> 30 then 1
          else if n = 0xC2 \<and> take 1 rest = [0x85] then 2
          else if n = 0xE2 \<and> (rest = [0x80, 0xA8] \<or> rest = [0x80, 0xA9]) then 3
          else 0)"

function splitlines_from :: "string \<Rightarrow> string \<Rightarrow> string list" where
  "splitlines_from line [] = (if line = [] then [] else [line])"
| "splitlines_from line (c # t) =
     (let n = line_terminator (c # t) in
      if n = 0 then splitlines_from (line @ [c]) t
      else (line @ take n (c # t)) # splitlines_from [] (drop n (c # t)))"
  by pat_completeness auto
termination by (relation "measure (\<lambda>(line, s). length s)") auto

definition splitlines :: "string \<Rightarrow> string list" where
  "splitlines s = splitlines_from [] s"

text \<open>\<^verbatim>\<open>bytes.decode("utf-8")\<close> succeeds on exactly these texts.\<close>

definition continuation :: "nat \<Rightarrow> bool" where
  "continuation n = (0x80 \<le> n \<and> n \<le> 0xBF)"

fun utf8_codes :: "nat list \<Rightarrow> bool" where
  "utf8_codes [] = True"
| "utf8_codes (a # s) =
     (if a < 0x80 then utf8_codes s
      else if 0xC2 \<le> a \<and> a \<le> 0xDF
      then (case s of b # s' \<Rightarrow> continuation b \<and> utf8_codes s' | _ \<Rightarrow> False)
      else if 0xE0 \<le> a \<and> a \<le> 0xEF
      then (case s of b # c # s' \<Rightarrow> continuation b \<and> (a = 0xE0 \<longrightarrow> 0xA0 \<le> b) \<and> (a = 0xED \<longrightarrow> b \<le> 0x9F) \<and>
                        continuation c \<and> utf8_codes s'
            | _ \<Rightarrow> False)
      else if 0xF0 \<le> a \<and> a \<le> 0xF4
      then (case s of b # c # d # s' \<Rightarrow> continuation b \<and> (a = 0xF0 \<longrightarrow> 0x90 \<le> b) \<and> (a = 0xF4 \<longrightarrow> b \<le> 0x8F) \<and>
                        continuation c \<and> continuation d \<and> utf8_codes s'
            | _ \<Rightarrow> False)
      else False)"

definition utf8_valid :: "string \<Rightarrow> bool" where
  "utf8_valid s = utf8_codes (map of_char s)"

text \<open>\<^verbatim>\<open>_insert_type_import\<close>: the import goes after the module docstring and the \<^verbatim>\<open>__future__\<close> imports.\<close>

definition PYRIGHT_IMPORT :: string where
  "PYRIGHT_IMPORT =
     ''from loom_orchestration_types import OrchestrationContext, OrchestrationFailure, ResourceRef'' @ [CHR 0x0A]"

definition last_line :: "stmt \<Rightarrow> nat" where
  "last_line s = (case sm_end_lineno s of Some (Suc n) \<Rightarrow> Suc n | _ \<Rightarrow> sm_lineno s)"

fun after_imports :: "stmt list \<Rightarrow> nat \<Rightarrow> nat" where
  "after_imports [] k = k"
| "after_imports (s # body) k =
     (if sm_form s = Import_From (Some ''__future__'') then after_imports body (max k (last_line s))
      else if k \<noteq> 0 \<and> sm_lineno s \<le> k then after_imports body k
      else if k \<noteq> 0 then k
      else after_imports body k)"

definition insert_type_import :: "toolchain \<Rightarrow> string \<Rightarrow> string \<times> nat" where
  "insert_type_import T source =
     (case tl_ast_parse T source of
        None \<Rightarrow> (source, 0)
      | Some tree \<Rightarrow>
          let docstring = (case tree of s # _ \<Rightarrow> if sm_form s = String_Expr then last_line s else 0 | [] \<Rightarrow> 0);
              k = after_imports tree docstring;
              lines = splitlines source
          in (concat (take k lines @ [PYRIGHT_IMPORT] @ drop k lines), k))"

section \<open>Diagnostics\<close>

definition TYPECHECK_RULES :: "string list" where
  "TYPECHECK_RULES =
     [''reportUndefinedVariable'', ''reportArgumentType'', ''reportCallIssue'', ''reportAssignmentType'',
      ''reportReturnType'', ''reportAttributeAccessIssue'', ''reportGeneralTypeIssues'', ''reportInvalidTypeForm'',
      ''reportUnboundVariable'']"

text \<open>\<^verbatim>\<open>Path(p).name\<close>: the last component, where empty and \<^verbatim>\<open>.\<close> components do not count.\<close>

fun split_on :: "char \<Rightarrow> string \<Rightarrow> string list" where
  "split_on c [] = [[]]"
| "split_on c (x # s) =
     (if x = c then [] # split_on c s
      else (case split_on c s of [] \<Rightarrow> [[x]] | p # ps \<Rightarrow> (x # p) # ps))"

definition path_name :: "string \<Rightarrow> string" where
  "path_name p =
     (case rev (filter (\<lambda>c. c \<noteq> [] \<and> c \<noteq> ''.'') (split_on CHR ''/'' p)) of [] \<Rightarrow> [] | c # _ \<Rightarrow> c)"

record diagnostic =
  dg_line :: int
  dg_column :: int
  dg_end_line :: int
  dg_end_column :: int
  dg_severity :: string
  dg_rule :: string
  dg_message :: string

definition diagnostic_json :: "diagnostic \<Rightarrow> json" where
  "diagnostic_json d = JObj
     [(''file'', JStr ''orchestration.py''), (''line'', JInt (dg_line d)), (''column'', JInt (dg_column d)),
      (''end_line'', JInt (dg_end_line d)), (''end_column'', JInt (dg_end_column d)),
      (''severity'', JStr (dg_severity d)), (''rule'', JStr (dg_rule d)), (''message'', JStr (dg_message d))]"

text \<open>A line of the checked copy as a line of the source, and one diagnostic of the report.\<close>

definition source_line :: "nat \<Rightarrow> int \<Rightarrow> int" where
  "source_line inserted n = (if n > int inserted then n - 1 else n)"

definition located :: "env \<Rightarrow> nat \<Rightarrow> dict \<Rightarrow> string \<Rightarrow> dict \<Rightarrow> diagnostic option result" where
  "located E inserted item rule location =
     (let start = obj_of (dget location ''start''); stop = obj_of (dget location ''end'');
          line0 = dget_default start ''line'' (JInt 0)
      in case (py_int line0, py_int (dget_default stop ''line'' line0)) of
           (Inl e, _) \<Rightarrow> Inl e
         | (_, Inl e) \<Rightarrow> Inl e
         | (Inr l0, Inr l1) \<Rightarrow>
             if l0 + 1 = int inserted + 1 \<and> l1 = l0 then Inr None
             else (case (py_int (dget_default start ''character'' (JInt 0)), py_int (dget_default stop ''character'' (JInt 0))) of
                     (Inl e, _) \<Rightarrow> Inl e
                   | (_, Inl e) \<Rightarrow> Inl e
                   | (Inr c0, Inr c1) \<Rightarrow>
                       Inr (Some \<lparr>dg_line = source_line inserted (l0 + 1), dg_column = c0 + 1,
                                  dg_end_line = source_line inserted (l1 + 1), dg_end_column = c1 + 1,
                                  dg_severity = py_str E (dget_default item ''severity'' (JStr ''error'')),
                                  dg_rule = rule, dg_message = py_str E (dget_default item ''message'' (JStr []))\<rparr>)))"

definition normalize_item :: "env \<Rightarrow> nat \<Rightarrow> json \<Rightarrow> diagnostic option result" where
  "normalize_item E inserted v =
     (case v of
        JObj item \<Rightarrow>
          let file = dget item ''file''; rule = dget item ''rule'' in
          if file \<noteq> JNull \<and> path_name (py_str E file) \<noteq> ''orchestration.py'' then Inr None
          else if \<not> hashable rule then Inl (TypeError ''unhashable type'')
          else (case (rule, dget item ''range'') of
                  (JStr name, JObj location) \<Rightarrow>
                    if name \<in> set TYPECHECK_RULES then located E inserted item name location else Inr None
                | _ \<Rightarrow> Inr None)
      | _ \<Rightarrow> Inr None)"

definition diagnostic_le :: "diagnostic \<Rightarrow> diagnostic \<Rightarrow> bool" where
  "diagnostic_le a b =
     (if dg_line a \<noteq> dg_line b then dg_line a < dg_line b
      else if dg_column a \<noteq> dg_column b then dg_column a < dg_column b
      else if dg_rule a \<noteq> dg_rule b then string_le (dg_rule a) (dg_rule b)
      else string_le (dg_message a) (dg_message b))"

definition normalize_diagnostics :: "env \<Rightarrow> dict \<Rightarrow> nat \<Rightarrow> diagnostic list result" where
  "normalize_diagnostics E payload inserted =
     (case py_iter (dget_default payload ''generalDiagnostics'' (JArr [])) of
        None \<Rightarrow> Inl (TypeError ''object is not iterable'')
      | Some items \<Rightarrow>
          (case all_ok (map (normalize_item E inserted) items) of
             Inl e \<Rightarrow> Inl e
           | Inr ds \<Rightarrow> Inr (sort_by diagnostic_le (List.map_filter id ds))))"

definition typecheck_unavailable :: py_error where
  "typecheck_unavailable = RuntimeError ''orchestration_program_typecheck_unavailable''"

definition check_program :: "env \<Rightarrow> toolchain \<Rightarrow> string \<Rightarrow> diagnostic list result" where
  "check_program E T source =
     (let (checked, inserted) = insert_type_import T source in
      case tl_pyright T checked of
        Pyright_Output out \<Rightarrow>
          if out = [] \<or> \<not> utf8_valid out then Inl typecheck_unavailable
          else (case env_json_loads E out of
                  Some (JObj payload) \<Rightarrow> normalize_diagnostics E payload inserted
                | _ \<Rightarrow> Inl typecheck_unavailable)
      | _ \<Rightarrow> Inl typecheck_unavailable)"

section \<open>What the check accepts\<close>

lemma argument_blockers_Nil:
  "argument_blockers a (n, t) = [] \<longleftrightarrow> a = \<lparr>aa_arg = n, aa_annotation = Some (Ann_String t)\<rparr>"
  by (cases a; cases "aa_annotation a" rule: annotation_name.cases)
    (auto simp: argument_blockers_def split: if_splits)

lemma return_blockers_Nil: "return_blockers r = [] \<longleftrightarrow> r = Some (Ann_String ''ResourceRef'')"
  by (cases r rule: annotation_name.cases) (auto simp: return_blockers_def)

text \<open>
  An orchestration program passes the signature check exactly when it parses and its only
  top-level coroutine named \<^verbatim>\<open>orchestrate\<close> has the two plain parameters \<^verbatim>\<open>ctx: "OrchestrationContext"\<close> and
  \<^verbatim>\<open>input_ref: "ResourceRef"\<close> and returns \<^verbatim>\<open>"ResourceRef"\<close>, every annotation a string literal.
\<close>

theorem entry_signature_spec:
  "validate_entry_signature T source = [] \<longleftrightarrow>
     (\<exists>tree. tl_ast_parse T source = Some tree \<and>
        entry_points tree =
          [(\<lparr>ar_posonlyargs = [],
             ar_args = [\<lparr>aa_arg = ''ctx'', aa_annotation = Some (Ann_String ''OrchestrationContext'')\<rparr>,
                        \<lparr>aa_arg = ''input_ref'', aa_annotation = Some (Ann_String ''ResourceRef'')\<rparr>],
             ar_vararg = None, ar_kwonlyargs = [], ar_kwarg = None\<rparr>,
            Some (Ann_String ''ResourceRef''))])"
proof (cases "tl_ast_parse T source")
  case (Some tree)
  show ?thesis
  proof (cases "\<exists>arguments returns. entry_points tree = [(arguments, returns)]")
    case True
    then obtain arguments returns where eq: "entry_points tree = [(arguments, returns)]" by blast
    obtain po ar va ko kw where arguments: "arguments = \<lparr>ar_posonlyargs = po, ar_args = ar, ar_vararg = va,
        ar_kwonlyargs = ko, ar_kwarg = kw\<rparr>" by (cases arguments)
    show ?thesis
    proof (cases "length ar = 2")
      case True
      then obtain a b where "ar = [a, b]" by (auto simp: numeral_2_eq_2 length_Suc_conv)
      with Some eq arguments show ?thesis
        by (auto simp: validate_entry_signature_def entry_parameters_def argument_blockers_Nil return_blockers_Nil)
    next
      case False
      with Some eq arguments show ?thesis by (auto simp: validate_entry_signature_def)
    qed
  next
    case False
    then show ?thesis
      using Some by (auto simp: validate_entry_signature_def split: list.split prod.split)
  qed
qed (simp add: validate_entry_signature_def)

lemma concat_splitlines_from: "concat (splitlines_from line s) = line @ s"
proof (induction line s rule: splitlines_from.induct)
  case (2 line c t)
  then show ?case
    by (cases "line_terminator (c # t) = 0") (simp_all only: splitlines_from.simps Let_def if_True if_False
        concat.simps append_assoc append_take_drop_id append_Nil append_Cons simp_thms)
qed simp

lemma concat_splitlines [simp]: "concat (splitlines s) = s"
  by (simp add: splitlines_def concat_splitlines_from)

text \<open>The copy that Pyright checks is the source with one line inserted, and a line number of the copy
  other than the inserted one names the same text in the source.\<close>

lemma inserted_copy:
  assumes "tl_ast_parse T source = Some tree" and "insert_type_import T source = (checked, k)"
  shows "\<exists>above below. source = above @ below \<and> checked = above @ PYRIGHT_IMPORT @ below"
proof (intro exI conjI)
  let ?lines = "splitlines source"
  show "source = concat (take k ?lines) @ concat (drop k ?lines)"
    by (simp flip: concat_append)
  from assms show "checked = concat (take k ?lines) @ PYRIGHT_IMPORT @ concat (drop k ?lines)"
    by (auto simp: insert_type_import_def Let_def)
qed

lemma source_line_text:
  assumes "1 \<le> n" and "n \<le> int (length lines) + 1" and "n \<noteq> int k + 1" and "k \<le> length lines"
  shows "(take k lines @ [i] @ drop k lines) ! nat (n - 1) = lines ! nat (source_line k n - 1)"
proof (cases "n \<le> int k")
  case True
  with assms have "nat (n - 1) < k" by linarith
  with True assms(4) show ?thesis by (simp add: source_line_def nth_append)
next
  case False
  define m where "m = nat (n - 1) - Suc k"
  from False assms have "nat (n - 1) = Suc (k + m)" "nat (source_line k n - 1) = k + m" "k + m < length lines"
    by (simp_all add: source_line_def m_def)
  then show ?thesis by (simp add: nth_append)
qed

end
