(* ===== verification/Readiness.thy ===== *)
theory Readiness
  imports Packages Preflight
begin

text \<open>
  Readiness of a closure (\<^verbatim>\<open>ObserverRepository\<close>: \<^verbatim>\<open>_evaluate_input_schema\<close>,
  \<^verbatim>\<open>_evaluate_orchestration_package\<close>, \<^verbatim>\<open>_evaluate_readiness\<close>, \<^verbatim>\<open>inspect_readiness\<close> and the digest helpers).

  A blocker is the JSON object the method appends. \<open>ready_spec\<close> states what a ready closure promises
  without reference to blockers, and \<open>readiness_iff\<close> shows that the evaluation decides it.
\<close>

section \<open>Blockers\<close>

definition blocker :: "string \<Rightarrow> dict \<Rightarrow> json" where
  "blocker code extra = JObj ((''code'', JStr code) # extra)"

definition package_blocker :: "string \<Rightarrow> package_version \<Rightarrow> json" where
  "package_blocker code p = blocker code [(''package_ref'', JStr (version_ref p))]"

definition schema_error_json :: "schema_error \<Rightarrow> json" where
  "schema_error_json e = JObj [(''path'', JStr (se_path e)), (''keyword'', JStr (se_keyword e)),
     (''message'', JStr (se_message e)), (''expected'', se_expected e), (''observed'', JStr (se_observed e))]"

definition schema_blocker :: "string \<Rightarrow> resource_ref \<Rightarrow> resource_ref option \<Rightarrow> schema_error list \<Rightarrow> json" where
  "schema_blocker code schema_ref input_ref errors =
     blocker code ([(''schema_digest'', str_or_null (ref_digest schema_ref)),
                    (''errors'', JArr (map schema_error_json errors))] @
                   (case input_ref of None \<Rightarrow> [] | Some r \<Rightarrow> [(''input_ref'', JStr (rr_resource_id r))]))"

section \<open>Input contract\<close>

definition load_io_contract :: "env \<Rightarrow> resource_ref \<Rightarrow> io_contract result" where
  "load_io_contract E r = (case load_json_content E r of Inl e \<Rightarrow> Inl e | Inr v \<Rightarrow> io_contract_of_json v)"

definition load_schema :: "env \<Rightarrow> resource_ref \<Rightarrow> json result" where
  "load_schema E r =
     (case load_json_content E r of
        Inl e \<Rightarrow> Inl e
      | Inr schema \<Rightarrow> (case validate_schema E schema of Inl e \<Rightarrow> Inl e | Inr _ \<Rightarrow> Inr schema))"

definition json_error :: "py_error \<Rightarrow> schema_error" where
  "json_error e = \<lparr>se_path = ''$'', se_keyword = ''json'', se_message = ''input content is not valid JSON'',
     se_expected = JStr ''JSON value'', se_observed = error_message e\<rparr>"

definition payload_blockers :: "env \<Rightarrow> resource_ref \<Rightarrow> resource_ref \<Rightarrow> json list result" where
  "payload_blockers E schema_ref input_ref =
     (let failed = (\<lambda>e. if is_content_error e
                         then Inr [schema_blocker ''payload_schema_mismatch'' schema_ref (Some input_ref) [json_error e]]
                         else Inl e)
      in case load_schema E schema_ref of
           Inl e \<Rightarrow> failed e
         | Inr schema \<Rightarrow>
             (case load_json_content E input_ref of
                Inl e \<Rightarrow> failed e
              | Inr value \<Rightarrow>
                  (case validate_value E schema value of
                     Inl e \<Rightarrow> Inl e
                   | Inr errors \<Rightarrow>
                       Inr (if errors = [] then []
                            else [schema_blocker ''payload_schema_mismatch'' schema_ref (Some input_ref) errors]))))"

definition evaluate_input_schema :: "env \<Rightarrow> task_closure \<Rightarrow> string \<Rightarrow> json list result" where
  "evaluate_input_schema E snapshot operation_ref =
     (case pa_io_contract_ref (tc_program snapshot) of
        None \<Rightarrow> Inr []
      | Some contract_ref \<Rightarrow>
          (case load_io_contract E contract_ref of
             Inl e \<Rightarrow> if is_content_error e
                     then Inr [blocker ''io_contract_unavailable'' [(''io_contract_ref'', JStr (rr_resource_id contract_ref))]]
                     else Inl e
           | Inr contract \<Rightarrow>
               (case io_input_schema_ref contract of
                  None \<Rightarrow> Inr []
                | Some schema_ref \<Rightarrow>
                    (case input_binding_for snapshot operation_ref of
                       None \<Rightarrow> Inr [blocker ''payload_missing''
                                 [(''node_id'', JStr (if operation_ref = [] then ''default'' else operation_ref)),
                                  (''schema_digest'', str_or_null (ref_digest schema_ref))]]
                     | Some binding \<Rightarrow> payload_blockers E schema_ref (nb_input_ref binding)))))"

section \<open>Orchestration packages\<close>

record orchestration_header =
  oh_export :: capability_export
  oh_program :: resource_ref
  oh_node_packages :: "resource_ref list"
  oh_max_nodes :: int
  oh_max_live_nodes :: int

text \<open>The \<^verbatim>\<open>try\<close> block that reads the body of an orchestration package; every error it catches is \<open>None\<close>.\<close>

definition body_refs :: "package_version \<Rightarrow> string \<Rightarrow> resource_ref list option" where
  "body_refs p k =
     (case map_of (pv_body p) k of
        None \<Rightarrow> None
      | Some v \<Rightarrow> (case py_iter v of
                     None \<Rightarrow> None
                   | Some xs \<Rightarrow> (case all_ok (map resource_ref_of_json xs) of Inl _ \<Rightarrow> None | Inr rs \<Rightarrow> Some rs)))"

definition body_int :: "package_version \<Rightarrow> string \<Rightarrow> int option" where
  "body_int p k =
     (case map_of (pv_body p) k of
        None \<Rightarrow> None
      | Some v \<Rightarrow> (case py_int v of Inl _ \<Rightarrow> None | Inr i \<Rightarrow> Some i))"

definition orchestration_header :: "package_version \<Rightarrow> orchestration_header option" where
  "orchestration_header p =
     (case (single_export p, package_body_ref p ''program_content_ref'', body_refs p ''allowed_node_package_refs'',
            body_int p ''max_nodes'', body_int p ''max_live_nodes'') of
        (Inr e, Inr r, Some refs, Some n, Some l) \<Rightarrow>
          Some \<lparr>oh_export = e, oh_program = r, oh_node_packages = refs, oh_max_nodes = n, oh_max_live_nodes = l\<rparr>
      | _ \<Rightarrow> None)"

definition not_replayable :: "package_version \<Rightarrow> capability_export \<Rightarrow> bool" where
  "not_replayable p e =
     (ce_replay_safety e \<noteq> ''DeterministicByEventLog'' \<or> truthy (dget (pv_body p) ''captures_run_state'') \<or>
      truthy (dget (pv_body p) ''captured_secret_refs'') \<or> truthy (dget (pv_body p) ''captured_path_refs''))"

definition run_budget :: "string option \<Rightarrow> 'z run_store_scheme \<Rightarrow> dict" where
  "run_budget run_id s =
     (case Option.bind run_id (map_of (runs s)) of
        None \<Rightarrow> []
      | Some r \<Rightarrow> (case rn_closure_contract r of None \<Rightarrow> [] | Some c \<Rightarrow> cc_resource_budget c))"

definition exceeds_budget :: "int \<Rightarrow> json \<Rightarrow> bool" where
  "exceeds_budget package_limit budget_limit =
     (budget_limit \<noteq> JNull \<and> (case py_int budget_limit of Inl _ \<Rightarrow> True | Inr b \<Rightarrow> package_limit > b))"

definition budget_blockers :: "package_version \<Rightarrow> dict \<Rightarrow> string \<Rightarrow> string \<Rightarrow> int \<Rightarrow> json list" where
  "budget_blockers p budget budget_key code package_limit =
     (if exceeds_budget package_limit (dget budget budget_key)
      then [blocker code [(''package_ref'', JStr (version_ref p)), (''limit'', JInt package_limit),
                          (''budget'', dget budget budget_key)]]
      else [])"

definition same_io_contract :: "task_closure \<Rightarrow> capability_export \<Rightarrow> bool" where
  "same_io_contract snapshot e =
     (case pa_io_contract_ref (tc_program snapshot) of
        None \<Rightarrow> False
      | Some c \<Rightarrow> digest_or_id c = digest_or_id (ce_io_contract_ref e))"

definition limit_blockers ::
  "toolchain \<Rightarrow> task_closure \<Rightarrow> string option \<Rightarrow> package_version \<Rightarrow> orchestration_header \<Rightarrow> 'z run_store_scheme \<Rightarrow> json list" where
  "limit_blockers T snapshot run_id p h s =
     (if not_replayable p (oh_export h) then [package_blocker ''orchestration_not_replayable'' p] else []) @
     (if oh_max_live_nodes h > oh_max_nodes h
      then [blocker ''orchestration_live_node_limit_exceeded''
              [(''package_ref'', JStr (version_ref p)), (''limit'', JInt (oh_max_live_nodes h)),
               (''max_nodes'', JInt (oh_max_nodes h))]]
      else []) @
     (if tl_runtime_available T \<noteq> Some False \<and> \<not> tl_docker T
      then [blocker ''orchestrator_runtime_unavailable'' []] else []) @
     (if run_id \<noteq> None \<and> \<not> package_visible_to_run p run_id s
      then [package_blocker ''capability_package_scope_mismatch'' p] else []) @
     (if pv_publication_state p = Abandoned then [package_blocker ''capability_package_abandoned'' p] else []) @
     budget_blockers p (run_budget run_id s) ''max_nodes'' ''orchestration_node_limit_exceeded'' (oh_max_nodes h) @
     budget_blockers p (run_budget run_id s) ''max_live_nodes'' ''orchestration_live_node_limit_exceeded'' (oh_max_live_nodes h) @
     (if \<not> same_io_contract snapshot (oh_export h) then [package_blocker ''io_contract_mismatch'' p] else [])"

definition signature_diagnostic :: "env \<Rightarrow> json \<Rightarrow> json" where
  "signature_diagnostic E item =
     diagnostic_json \<lparr>dg_line = 1, dg_column = 1, dg_end_line = 1, dg_end_column = 1, dg_severity = ''error'',
       dg_rule = py_str E (dget_default (obj_of item) ''code'' (JStr ''invalid_entry_annotation'')),
       dg_message = py_str E (dget_default (obj_of item) ''message'' (JStr ''invalid orchestration entry signature''))\<rparr>"

text \<open>\<open>typecheck_blockers\<close> is the last \<^verbatim>\<open>else\<close> branch; only a preflight error is caught there.\<close>

definition typecheck_blockers :: "env \<Rightarrow> toolchain \<Rightarrow> string \<Rightarrow> json list result" where
  "typecheck_blockers E T source =
     (case check_program E T source of
        Inl (RuntimeError code) \<Rightarrow> Inr [blocker code []]
      | Inl e \<Rightarrow> Inl e
      | Inr ds \<Rightarrow>
          let unresolved = filter (\<lambda>d. dg_rule d = ''reportUndefinedVariable'') ds;
              type_errors = filter (\<lambda>d. dg_rule d \<noteq> ''reportUndefinedVariable'') ds;
              report = (\<lambda>code xs. if xs = [] then [] else [blocker code [(''diagnostics'', JArr (map diagnostic_json xs))]])
          in Inr (report ''orchestration_program_unresolved_name'' unresolved @
                  report ''orchestration_program_type_error'' type_errors))"

definition program_blockers :: "env \<Rightarrow> toolchain \<Rightarrow> package_version \<Rightarrow> resource_ref \<Rightarrow> json list result" where
  "program_blockers E T p program_ref =
     (case env_stat E program_ref of
        Inl e \<Rightarrow> Inl e
      | Inr None \<Rightarrow> Inr [package_blocker ''package_content_unavailable'' p]
      | Inr (Some st) \<Rightarrow>
          if \<not> ct_integrity_verified st \<or> ct_declared_digest st \<noteq> ref_digest program_ref
          then Inr [package_blocker ''package_content_unavailable'' p]
          else if ct_media_type st \<noteq> ''text/x-python''
          then Inr [package_blocker ''orchestration_program_invalid'' p]
          else (case env_get E program_ref of
                  Inl e \<Rightarrow> Inl e
                | Inr source \<Rightarrow>
                    if \<not> utf8_valid source \<or> tl_ast_parse T source = None
                    then Inr [package_blocker ''orchestration_program_invalid'' p]
                    else (case validate_entry_signature T source of
                            [] \<Rightarrow> typecheck_blockers E T source
                          | items \<Rightarrow> Inr [blocker ''orchestration_program_type_error''
                                           [(''diagnostics'', JArr (map (signature_diagnostic E) items))]])))"

definition export_blockers :: "env \<Rightarrow> package_version \<Rightarrow> capability_export \<Rightarrow> json list result" where
  "export_blockers E p e =
     (case load_io_contract E (ce_io_contract_ref e) of
        Inr _ \<Rightarrow> Inr []
      | Inl err \<Rightarrow>
          if is_content_error err
          then Inr [blocker ''node_io_contract_unavailable''
                 [(''package_ref'', JStr (version_ref p)),
                  (''capability_descriptor_ref'', ref_json (ce_capability_descriptor_ref e))]]
          else Inl err)"

definition node_package_blockers ::
  "env \<Rightarrow> string option \<Rightarrow> 'z slave_store_scheme \<Rightarrow> resource_ref \<Rightarrow> json list result" where
  "node_package_blockers E run_id s node_ref =
     (case find_package (By_Ref node_ref) run_id s of
        None \<Rightarrow> Inr [blocker ''node_package_not_found'' [(''package_ref'', JStr (rr_resource_id node_ref))]]
      | Some p \<Rightarrow>
          (case all_ok (map (export_blockers E p) (pv_capability_exports p)) of
             Inl e \<Rightarrow> Inl e
           | Inr bs \<Rightarrow>
               Inr ((if run_id \<noteq> None \<and> \<not> package_visible_to_run p run_id s
                     then [package_blocker ''capability_package_scope_mismatch'' p] else []) @
                    concat bs @
                    (if \<not> list_ex (\<lambda>(i, _). slave_supports_package E i p s) (slave_capabilities s)
                     then [package_blocker ''node_target_unavailable'' p] else []))))"

definition evaluate_orchestration_package ::
  "env \<Rightarrow> toolchain \<Rightarrow> task_closure \<Rightarrow> string option \<Rightarrow> 'z slave_store_scheme \<Rightarrow> json list result" where
  "evaluate_orchestration_package E T snapshot run_id s =
     (case ps_package_ref (tc_program_systems snapshot) of
        None \<Rightarrow> Inr [blocker ''orchestration_package_not_bound'' []]
      | Some package_ref \<Rightarrow>
          (case find_package (By_Ref package_ref) run_id s of
             None \<Rightarrow>
               (case find_package (By_Ref package_ref) None s of
                  Some foreign \<Rightarrow> Inr [package_blocker ''capability_package_scope_mismatch'' foreign]
                | None \<Rightarrow> Inr [blocker ''orchestration_package_not_found'' []])
           | Some p \<Rightarrow>
               if package_key p \<noteq> DRIVER_ORCHESTRATOR_KEY then Inr [blocker ''orchestration_package_invalid'' []]
               else (case orchestration_header p of
                       None \<Rightarrow> Inr [blocker ''orchestration_package_invalid'' []]
                     | Some h \<Rightarrow>
                         (case program_blockers E T p (oh_program h) of
                            Inl e \<Rightarrow> Inl e
                          | Inr program \<Rightarrow>
                              (case all_ok (map (node_package_blockers E run_id s) (oh_node_packages h)) of
                                 Inl e \<Rightarrow> Inl e
                               | Inr nodes \<Rightarrow> Inr (limit_blockers T snapshot run_id p h s @ program @ concat nodes))))))"

section \<open>Readiness of a closure\<close>

definition inline_io_fields :: "program_application \<Rightarrow> string list" where
  "inline_io_fields p =
     (if pa_input_schema p \<noteq> JNull then [''input_schema''] else []) @
     (if pa_output_schema p \<noteq> JNull then [''output_schema''] else []) @
     (if pa_success_semantics p \<noteq> JNull then [''success_semantics''] else [])"

text \<open>\<^verbatim>\<open>snapshot.program.operation_ref or snapshot.compute.operation_ref\<close>\<close>

definition closure_operation_ref :: "task_closure \<Rightarrow> string" where
  "closure_operation_ref c = or_string (pa_operation_ref (tc_program c)) (sp_operation_ref (tc_compute c))"

definition bindings_by_hole :: "task_closure \<Rightarrow> string \<Rightarrow> compute_binding option" where
  "bindings_by_hole c = map_of (rev (map (\<lambda>b. (cb_hole_id b, b)) (tc_compute_bindings c)))"

definition bound_package_blockers ::
  "env \<Rightarrow> task_closure \<Rightarrow> string option \<Rightarrow> string \<Rightarrow> typed_hole \<Rightarrow> compute_binding \<Rightarrow> string \<Rightarrow> package_version \<Rightarrow>
   'z slave_store_scheme \<Rightarrow> json list" where
  "bound_package_blockers E snapshot run_id operation hole b target p s =
     (if run_id \<noteq> None \<and> \<not> package_visible_to_run p run_id s
      then [blocker ''capability_package_scope_mismatch''
              [(''hole_id'', JStr (th_hole_id hole)), (''source_run_ref'', JStr (pv_source_run_ref p))]]
      else []) @
     (if pv_publication_state p = Abandoned then [package_blocker ''capability_package_abandoned'' p] else []) @
     (case export_for p (cb_capability_descriptor_ref b) of
        Inl _ \<Rightarrow> [blocker ''operation_descriptor_mismatch'' [(''operation'', JStr operation)]]
      | Inr e \<Rightarrow>
          if \<not> same_io_contract snapshot e
          then [blocker ''io_contract_mismatch''
                  [(''hole_id'', JStr (th_hole_id hole)),
                   (''closure_io_contract_ref'', str_or_null (map_option rr_resource_id (pa_io_contract_ref (tc_program snapshot)))),
                   (''package_io_contract_ref'', JStr (rr_resource_id (ce_io_contract_ref e)))]]
          else []) @
     (if \<not> slave_supports_package E target p s
      then [blocker ''runtime_provider_unavailable'' [(''execution_kind'', JStr (ec_kind (pv_execution p)))]] else [])"

definition hole_blockers ::
  "env \<Rightarrow> task_closure \<Rightarrow> string option \<Rightarrow> string \<Rightarrow> 'z slave_store_scheme \<Rightarrow> typed_hole \<Rightarrow> json list" where
  "hole_blockers E snapshot run_id operation s hole =
     (let hid = (''hole_id'', JStr (th_hole_id hole)) in
      if th_status hole \<noteq> ''bound'' \<or> \<not> nonempty (th_binding_ref hole) then [blocker ''typed_hole_unbound'' [hid]]
      else case bindings_by_hole snapshot (th_hole_id hole) of
        None \<Rightarrow> [blocker ''compute_binding_missing'' [hid, (''binding_ref'', str_or_null (th_binding_ref hole))]]
      | Some b \<Rightarrow>
          if Some (cb_binding_id b) \<noteq> th_binding_ref hole
          then [blocker ''compute_binding_missing'' [hid, (''binding_ref'', str_or_null (th_binding_ref hole))]]
          else
            let target = canonical_target_resource_id (rr_resource_id (cb_target_resource_ref b)) s in
            (case map_of (slave_capabilities s) target of
               None \<Rightarrow> [blocker ''capability_unavailable'' [hid, (''target_resource_ref'', JStr target)]]
             | Some capability \<Rightarrow>
                 (if \<not> slave_is_active target s
                  then [blocker ''slave_unavailable'' [hid, (''target_resource_ref'', JStr target)]] else []) @
                 (case cb_capability_package_ref b of
                    Some r \<Rightarrow>
                      (case find_package (By_Ref r) run_id s of
                         None \<Rightarrow>
                           (case find_package (By_Ref r) None s of
                              Some foreign \<Rightarrow> [blocker ''capability_package_scope_mismatch''
                                                 [hid, (''source_run_ref'', JStr (pv_source_run_ref foreign))]]
                            | None \<Rightarrow> [blocker ''capability_package_not_found'' [hid]])
                       | Some p \<Rightarrow> bound_package_blockers E snapshot run_id operation hole b target p s)
                  | None \<Rightarrow>
                      if operation = ''run_code'' then [blocker ''capability_package_required'' [hid]]
                      else if operation \<noteq> [] \<and> JStr operation \<notin> set (sd_operations capability)
                      then [blocker ''capability_unavailable''
                              [(''operation'', JStr operation), (''target_resource_ref'', JStr target)]]
                      else [])))"

definition default_target :: string where
  "default_target = ''slave-a''"

definition default_target_blockers :: "string \<Rightarrow> 'z slave_store_scheme \<Rightarrow> json list" where
  "default_target_blockers operation s =
     (let target = (''target_resource_ref'', JStr default_target);
          operations = (case map_of (slave_capabilities s) default_target of None \<Rightarrow> [] | Some d \<Rightarrow> sd_operations d)
      in (if \<not> slave_is_active default_target s then [blocker ''slave_unavailable'' [target]] else []) @
         (if operation = ''run_code'' then [blocker ''capability_package_required'' [target]]
          else if JStr operation \<notin> set operations
          then [blocker ''capability_unavailable'' [(''operation'', JStr operation), target]]
          else []))"

record readiness =
  rd_ready :: bool
  rd_operation_ref :: string
  rd_operation :: string
  rd_blockers :: "json list"
  rd_bindings :: "compute_binding list"
  rd_orchestration :: bool

text \<open>The pure part of \<^verbatim>\<open>_evaluate_readiness\<close>, after the Slave snapshot has been refreshed.\<close>

definition readiness_of ::
  "env \<Rightarrow> toolchain \<Rightarrow> task_closure \<Rightarrow> string option \<Rightarrow> 'z slave_store_scheme \<Rightarrow> readiness result" where
  "readiness_of E T snapshot run_id s =
     (let operation_ref = closure_operation_ref snapshot;
          operation = operation_name operation_ref;
          inline_fields = inline_io_fields (tc_program snapshot);
          orchestration = is_orchestration snapshot;
          holes = sp_typed_holes (tc_compute snapshot)
      in case evaluate_input_schema E snapshot operation_ref of
           Inl e \<Rightarrow> Inl e
         | Inr input \<Rightarrow>
             (case (if orchestration then evaluate_orchestration_package E T snapshot run_id s else Inr []) of
                Inl e \<Rightarrow> Inl e
              | Inr package \<Rightarrow>
                  let blockers =
                        (if inline_fields \<noteq> []
                         then [blocker ''inline_io_contract_forbidden'' [(''fields'', JArr (map JStr inline_fields))]] else []) @
                        input @ package @
                        concat (map (hole_blockers E snapshot run_id operation s) holes) @
                        (if operation \<noteq> [] \<and> holes = [] \<and> \<not> orchestration
                         then default_target_blockers operation s else [])
                  in Inr \<lparr>rd_ready = (blockers = []), rd_operation_ref = operation_ref, rd_operation = operation,
                          rd_blockers = blockers, rd_bindings = tc_compute_bindings snapshot,
                          rd_orchestration = orchestration\<rparr>))"

definition refresh_for_run :: "time \<Rightarrow> time \<Rightarrow> string option \<Rightarrow> ('z, unit) slave_op" where
  "refresh_for_run now ttl run_id s =
     (case Option.bind run_id (map_of (runs s)) of
        None \<Rightarrow> (Inr (), s)
      | Some r \<Rightarrow> (case refresh_slaves now ttl (Some (run_workspace r)) s of
                     (Inl e, s1) \<Rightarrow> (Inl e, s1)
                   | (Inr _, s1) \<Rightarrow> (Inr (), s1)))"

definition evaluate_readiness ::
  "env \<Rightarrow> toolchain \<Rightarrow> time \<Rightarrow> time \<Rightarrow> task_closure \<Rightarrow> string option \<Rightarrow> ('z, readiness) slave_op" where
  "evaluate_readiness E T now ttl snapshot run_id s =
     (case refresh_for_run now ttl run_id s of
        (Inl e, s1) \<Rightarrow> (Inl e, s1)
      | (Inr _, s1) \<Rightarrow> (readiness_of E T snapshot run_id s1, s1))"

definition readiness_error :: "readiness \<Rightarrow> py_error" where
  "readiness_error rd = DomainError ''readiness_blocked'' [(''blockers'', JArr (rd_blockers rd))]"

text \<open>\<^verbatim>\<open>inspect_readiness\<close>: \<open>t1\<close> is the reading for the Slave leases, \<open>t2\<close> that of the event.\<close>

definition inspect_readiness ::
  "env \<Rightarrow> toolchain \<Rightarrow> time \<Rightarrow> time \<Rightarrow> time \<Rightarrow> string \<Rightarrow> string option \<Rightarrow> ('z, string \<times> readiness) slave_op" where
  "inspect_readiness E T ttl t1 t2 run_id version_id s = with_run run_id (\<lambda>r.
     let selected =
           (if version_id = None \<or> version_id = Some (cv_version_id (rn_draft r)) then Some (rn_draft r)
            else (case rn_committed r of
                    Some c \<Rightarrow> if version_id = Some (cv_version_id c) then Some c else None
                  | None \<Rightarrow> None))
     in case selected of
          None \<Rightarrow> (Inl (ValueError ''version_conflict''), s)
        | Some v \<Rightarrow>
            (case evaluate_readiness E T t1 ttl (cv_snapshot v) (Some run_id) s of
               (Inl e, s1) \<Rightarrow> (Inl e, s1)
             | (Inr rd, s1) \<Rightarrow>
                 (Inr (cv_version_id v, rd),
                  put_run run_id (log_event (Ev_Readiness_Inspected run_id (cv_version_id v) (rd_ready rd)
                                    (rd_blockers rd) t2) r) s1))) s"

section \<open>Budgets and digests\<close>

definition input_digest_for :: "task_closure \<Rightarrow> string option" where
  "input_digest_for snapshot =
     (case input_binding_for snapshot (closure_operation_ref snapshot) of
        None \<Rightarrow> None
      | Some b \<Rightarrow> ref_digest (nb_input_ref b))"

definition result_digest :: "env \<Rightarrow> json \<Rightarrow> string result" where
  "result_digest E v =
     (case canonical_json_bytes (env_hash E) v of Inl e \<Rightarrow> Inl e | Inr b \<Rightarrow> Inr (digest_bytes (env_hash E) b []))"

definition check_attempt_budget :: "run_record \<Rightarrow> unit result" where
  "check_attempt_budget r =
     (let raw = dget (case rn_closure_contract r of None \<Rightarrow> [] | Some c \<Rightarrow> cc_resource_budget c) ''max_attempts'';
          exceeded = Inl (ValueError ''orchestration_attempt_limit_exceeded'')
      in if raw = JNull then Inr ()
         else (case py_int raw of
                 Inl _ \<Rightarrow> exceeded
               | Inr n \<Rightarrow> if n < 0 \<or> int (length (rn_attempts r)) \<ge> n then exceeded else Inr ()))"

section \<open>What a ready closure promises\<close>

text \<open>Each definition states one part without mentioning blockers.\<close>

definition payload_ready :: "env \<Rightarrow> task_closure \<Rightarrow> bool" where
  "payload_ready E snapshot =
     (\<forall>contract_ref. pa_io_contract_ref (tc_program snapshot) = Some contract_ref \<longrightarrow>
        (\<exists>contract. load_io_contract E contract_ref = Inr contract \<and>
           (\<forall>schema_ref. io_input_schema_ref contract = Some schema_ref \<longrightarrow>
              (\<exists>b schema value. input_binding_for snapshot (closure_operation_ref snapshot) = Some b \<and>
                 load_schema E schema_ref = Inr schema \<and> load_json_content E (nb_input_ref b) = Inr value \<and>
                 env_iter_errors E schema value = []))))"

definition program_ready :: "env \<Rightarrow> toolchain \<Rightarrow> resource_ref \<Rightarrow> bool" where
  "program_ready E T r =
     (\<exists>st source. env_stat E r = Inr (Some st) \<and> ct_integrity_verified st \<and> ct_declared_digest st = ref_digest r \<and>
        ct_media_type st = ''text/x-python'' \<and> env_get E r = Inr source \<and> utf8_valid source \<and>
        tl_ast_parse T source \<noteq> None \<and> validate_entry_signature T source = [] \<and> check_program E T source = Inr [])"

definition node_package_ready :: "env \<Rightarrow> string option \<Rightarrow> 'z slave_store_scheme \<Rightarrow> resource_ref \<Rightarrow> bool" where
  "node_package_ready E run_id s r =
     (\<exists>p. find_package (By_Ref r) run_id s = Some p \<and>
        (\<forall>e \<in> set (pv_capability_exports p). \<exists>c. load_io_contract E (ce_io_contract_ref e) = Inr c) \<and>
        (\<exists>i \<in> fst ` set (slave_capabilities s). slave_supports_package E i p s))"

definition orchestration_ready ::
  "env \<Rightarrow> toolchain \<Rightarrow> task_closure \<Rightarrow> string option \<Rightarrow> 'z slave_store_scheme \<Rightarrow> bool" where
  "orchestration_ready E T snapshot run_id s =
     (\<exists>r p h. ps_package_ref (tc_program_systems snapshot) = Some r \<and> find_package (By_Ref r) run_id s = Some p \<and>
        package_key p = DRIVER_ORCHESTRATOR_KEY \<and> orchestration_header p = Some h \<and>
        pv_publication_state p \<noteq> Abandoned \<and> \<not> not_replayable p (oh_export h) \<and>
        oh_max_live_nodes h \<le> oh_max_nodes h \<and>
        \<not> exceeds_budget (oh_max_nodes h) (dget (run_budget run_id s) ''max_nodes'') \<and>
        \<not> exceeds_budget (oh_max_live_nodes h) (dget (run_budget run_id s) ''max_live_nodes'') \<and>
        (tl_runtime_available T = Some False \<or> tl_docker T) \<and> same_io_contract snapshot (oh_export h) \<and>
        program_ready E T (oh_program h) \<and> (\<forall>n \<in> set (oh_node_packages h). node_package_ready E run_id s n))"

definition hole_ready ::
  "env \<Rightarrow> task_closure \<Rightarrow> string option \<Rightarrow> string \<Rightarrow> 'z slave_store_scheme \<Rightarrow> typed_hole \<Rightarrow> bool" where
  "hole_ready E snapshot run_id operation s hole =
     (\<exists>b target capability.
        th_status hole = ''bound'' \<and> nonempty (th_binding_ref hole) \<and>
        bindings_by_hole snapshot (th_hole_id hole) = Some b \<and> th_binding_ref hole = Some (cb_binding_id b) \<and>
        target = canonical_target_resource_id (rr_resource_id (cb_target_resource_ref b)) s \<and>
        map_of (slave_capabilities s) target = Some capability \<and> slave_is_active target s \<and>
        (case cb_capability_package_ref b of
           None \<Rightarrow> operation \<noteq> ''run_code'' \<and> (operation = [] \<or> JStr operation \<in> set (sd_operations capability))
         | Some r \<Rightarrow>
             \<exists>p e. find_package (By_Ref r) run_id s = Some p \<and> pv_publication_state p \<noteq> Abandoned \<and>
               export_for p (cb_capability_descriptor_ref b) = Inr e \<and> same_io_contract snapshot e \<and>
               slave_supports_package E target p s))"

definition ready_spec ::
  "env \<Rightarrow> toolchain \<Rightarrow> task_closure \<Rightarrow> string option \<Rightarrow> 'z slave_store_scheme \<Rightarrow> bool" where
  "ready_spec E T snapshot run_id s =
     (let operation = operation_name (closure_operation_ref snapshot); holes = sp_typed_holes (tc_compute snapshot) in
      inline_io_fields (tc_program snapshot) = [] \<and> payload_ready E snapshot \<and>
      (is_orchestration snapshot \<longrightarrow> orchestration_ready E T snapshot run_id s) \<and>
      (\<forall>hole \<in> set holes. hole_ready E snapshot run_id operation s hole) \<and>
      (operation \<noteq> [] \<and> holes = [] \<and> \<not> is_orchestration snapshot \<longrightarrow>
         slave_is_active default_target s \<and> operation \<noteq> ''run_code'' \<and>
         (\<exists>d. map_of (slave_capabilities s) default_target = Some d \<and> JStr operation \<in> set (sd_operations d))))"

lemma load_schema_InrD: "load_schema E r = Inr schema \<Longrightarrow> validate_schema E schema = Inr ()"
  by (auto simp: load_schema_def split: sum.splits)

lemma sort_by_Nil [simp]: "sort_by le xs = [] \<longleftrightarrow> xs = []"
  by (metis mset_sort_by mset_zero_iff)

lemma payload_blockers_Nil:
  "payload_blockers E schema_ref input_ref = Inr bs \<Longrightarrow>
   bs = [] \<longleftrightarrow> (\<exists>schema value. load_schema E schema_ref = Inr schema \<and> load_json_content E input_ref = Inr value \<and>
                              env_iter_errors E schema value = [])"
  by (auto simp: payload_blockers_def Let_def validate_value_def dest: load_schema_InrD split: sum.splits if_splits)

lemma input_schema_Nil:
  assumes "evaluate_input_schema E snapshot (closure_operation_ref snapshot) = Inr bs"
  shows "bs = [] \<longleftrightarrow> payload_ready E snapshot"
  using assms unfolding evaluate_input_schema_def payload_ready_def
  by (auto split: option.splits sum.splits if_splits dest: payload_blockers_Nil)

lemma typecheck_Nil: "typecheck_blockers E T source = Inr bs \<Longrightarrow> bs = [] \<longleftrightarrow> check_program E T source = Inr []"
  by (auto simp: typecheck_blockers_def Let_def filter_empty_conv split: sum.splits py_error.splits if_splits)

lemma program_Nil: "program_blockers E T p r = Inr bs \<Longrightarrow> bs = [] \<longleftrightarrow> program_ready E T r"
  unfolding program_blockers_def program_ready_def
  by (auto split: option.splits sum.splits if_splits list.splits dest: typecheck_Nil)

lemma all_ok_concat_Nil:
  assumes "all_ok (map f xs) = Inr bs" and "\<And>x b. x \<in> set xs \<Longrightarrow> f x = Inr b \<Longrightarrow> b = [] \<longleftrightarrow> P x"
  shows "concat bs = [] \<longleftrightarrow> (\<forall>x \<in> set xs. P x)"
  using assms
proof (induction xs arbitrary: bs)
  case (Cons x xs)
  from Cons.prems(1) obtain b bs' where b: "f x = Inr b" "all_ok (map f xs) = Inr bs'" "bs = b # bs'"
    by (cases "f x") (auto split: sum.splits)
  have "concat bs' = [] \<longleftrightarrow> (\<forall>y \<in> set xs. P y)"
    by (rule Cons.IH [OF b(2)]) (use Cons.prems(2) in simp)
  with b Cons.prems(2) [of x b] show ?case by simp
qed simp

lemma export_Nil: "export_blockers E p e = Inr bs \<Longrightarrow> bs = [] \<longleftrightarrow> (\<exists>c. load_io_contract E (ce_io_contract_ref e) = Inr c)"
  by (auto simp: export_blockers_def split: sum.splits if_splits)

lemma found_visible: "find_package a run_id s = Some p \<Longrightarrow> package_visible_to_run p run_id s"
  using find_package_SomeD(1) [of a run_id s p] by (simp add: package_candidate_def)

lemma node_package_Nil:
  assumes "node_package_blockers E run_id s r = Inr bs"
  shows "bs = [] \<longleftrightarrow> node_package_ready E run_id s r"
proof (cases "find_package (By_Ref r) run_id s")
  case (Some p)
  from assms Some obtain es where es: "all_ok (map (export_blockers E p) (pv_capability_exports p)) = Inr es"
    by (auto simp: node_package_blockers_def split: sum.splits)
  have "concat es = [] \<longleftrightarrow> (\<forall>e \<in> set (pv_capability_exports p). \<exists>c. load_io_contract E (ce_io_contract_ref e) = Inr c)"
    by (rule all_ok_concat_Nil [OF es]) (rule export_Nil)
  moreover have "list_ex (\<lambda>(i, _). slave_supports_package E i p s) (slave_capabilities s) \<longleftrightarrow>
      (\<exists>i \<in> fst ` set (slave_capabilities s). slave_supports_package E i p s)"
    by (force simp: list_ex_iff)
  moreover have "bs = [] \<longleftrightarrow> concat es = [] \<and> list_ex (\<lambda>(i, _). slave_supports_package E i p s) (slave_capabilities s)"
    using assms Some es found_visible [OF Some] by (auto simp: node_package_blockers_def split: if_splits)
  ultimately show ?thesis
    using Some unfolding node_package_ready_def by (simp only: option.inject simp_thms ex_simps)
qed (use assms in \<open>auto simp: node_package_blockers_def node_package_ready_def\<close>)

lemma limit_Nil:
  assumes "package_visible_to_run p run_id s"
  shows "limit_blockers T snapshot run_id p h s = [] \<longleftrightarrow>
     \<not> not_replayable p (oh_export h) \<and> oh_max_live_nodes h \<le> oh_max_nodes h \<and>
     (tl_runtime_available T = Some False \<or> tl_docker T) \<and> pv_publication_state p \<noteq> Abandoned \<and>
     \<not> exceeds_budget (oh_max_nodes h) (dget (run_budget run_id s) ''max_nodes'') \<and>
     \<not> exceeds_budget (oh_max_live_nodes h) (dget (run_budget run_id s) ''max_live_nodes'') \<and>
     same_io_contract snapshot (oh_export h)"
  using assms by (auto simp: limit_blockers_def budget_blockers_def)

lemma orchestration_Nil:
  assumes "evaluate_orchestration_package E T snapshot run_id s = Inr bs"
  shows "bs = [] \<longleftrightarrow> orchestration_ready E T snapshot run_id s"
proof (cases "\<exists>r p h. ps_package_ref (tc_program_systems snapshot) = Some r \<and> find_package (By_Ref r) run_id s = Some p \<and>
    package_key p = DRIVER_ORCHESTRATOR_KEY \<and> orchestration_header p = Some h")
  case True
  then obtain r p h where p: "ps_package_ref (tc_program_systems snapshot) = Some r" "find_package (By_Ref r) run_id s = Some p"
    "package_key p = DRIVER_ORCHESTRATOR_KEY" "orchestration_header p = Some h" by blast
  with assms obtain ps ns where parts: "program_blockers E T p (oh_program h) = Inr ps"
    "all_ok (map (node_package_blockers E run_id s) (oh_node_packages h)) = Inr ns"
    and bs: "bs = limit_blockers T snapshot run_id p h s @ ps @ concat ns"
    by (auto simp: evaluate_orchestration_package_def split: sum.splits)
  have "concat ns = [] \<longleftrightarrow> (\<forall>n \<in> set (oh_node_packages h). node_package_ready E run_id s n)"
    by (rule all_ok_concat_Nil [OF parts(2)]) (rule node_package_Nil)
  then have "bs = [] \<longleftrightarrow> limit_blockers T snapshot run_id p h s = [] \<and> program_ready E T (oh_program h) \<and>
      (\<forall>n \<in> set (oh_node_packages h). node_package_ready E run_id s n)"
    using program_Nil [OF parts(1)] bs by simp
  then show ?thesis
    using p limit_Nil [OF found_visible [OF p(2)]] by (auto simp: orchestration_ready_def)
next
  case False
  with assms show ?thesis
    by (auto simp: evaluate_orchestration_package_def orchestration_ready_def split: option.splits if_splits)
qed

lemma bound_package_Nil:
  assumes "package_visible_to_run p run_id s"
  shows "bound_package_blockers E snapshot run_id operation hole b target p s = [] \<longleftrightarrow>
     pv_publication_state p \<noteq> Abandoned \<and>
     (\<exists>e. export_for p (cb_capability_descriptor_ref b) = Inr e \<and> same_io_contract snapshot e) \<and>
     slave_supports_package E target p s"
  using assms by (auto simp: bound_package_blockers_def split: sum.splits)

lemma hole_Nil: "hole_blockers E snapshot run_id operation s hole = [] \<longleftrightarrow> hole_ready E snapshot run_id operation s hole"
  unfolding hole_blockers_def hole_ready_def Let_def
  by (auto split: option.splits simp: bound_package_Nil [OF found_visible])

lemma default_target_Nil:
  "default_target_blockers operation s = [] \<longleftrightarrow>
     slave_is_active default_target s \<and> operation \<noteq> ''run_code'' \<and>
     (\<exists>d. map_of (slave_capabilities s) default_target = Some d \<and> JStr operation \<in> set (sd_operations d))"
  by (cases "map_of (slave_capabilities s) default_target") (auto simp: default_target_blockers_def Let_def)

lemma readiness_iff:
  assumes "readiness_of E T snapshot run_id s = Inr rd"
  shows "rd_ready rd \<longleftrightarrow> ready_spec E T snapshot run_id s"
proof -
  from assms obtain input package where
    input: "evaluate_input_schema E snapshot (closure_operation_ref snapshot) = Inr input"
    and package: "(if is_orchestration snapshot then evaluate_orchestration_package E T snapshot run_id s else Inr []) = Inr package"
    by (auto simp: readiness_of_def Let_def split: sum.splits)
  have "package = [] \<longleftrightarrow> (is_orchestration snapshot \<longrightarrow> orchestration_ready E T snapshot run_id s)"
    using package orchestration_Nil [of E T snapshot run_id s package] by (cases "is_orchestration snapshot") auto
  moreover have "rd_ready rd \<longleftrightarrow> inline_io_fields (tc_program snapshot) = [] \<and> input = [] \<and> package = [] \<and>
      (\<forall>hole \<in> set (sp_typed_holes (tc_compute snapshot)).
         hole_blockers E snapshot run_id (operation_name (closure_operation_ref snapshot)) s hole = []) \<and>
      (operation_name (closure_operation_ref snapshot) \<noteq> [] \<and> sp_typed_holes (tc_compute snapshot) = [] \<and>
         \<not> is_orchestration snapshot \<longrightarrow>
         default_target_blockers (operation_name (closure_operation_ref snapshot)) s = [])"
    using assms unfolding readiness_of_def Let_def input package sum.case by (auto split: if_splits)
  ultimately show ?thesis
    unfolding ready_spec_def Let_def hole_Nil default_target_Nil input_schema_Nil [OF input] by blast
qed

section \<open>Effects\<close>

lemma snapshot_frame [simp]: "runs (snd (store_slave_snapshot ags s)) = runs s"
  by (simp add: store_slave_snapshot_def Let_def split: prod.split)

lemma list_agents_runs [simp]: "runs (snd (list_agents now ttl ws ro s)) = runs s"
  by (simp add: list_agents_def Let_def)

lemma refresh_runs [simp]: "runs (snd (refresh_slaves now ttl ws s)) = runs s"
proof -
  let ?ws = "if nonempty ws then the ws else default_workspace"
  obtain ags s1 where l: "list_agents now ttl ?ws (Some Slave) s = (ags, s1)" by fastforce
  obtain r2 s2 where st: "store_slave_snapshot ags s1 = (r2, s2)" by fastforce
  obtain r3 s3 where pr: "project_ready_capabilities None s2 = (r3, s3)" by fastforce
  have "runs s1 = runs s" "runs s2 = runs s1" "runs s3 = runs s2"
    using list_agents_runs [of now ttl ?ws "Some Slave" s] snapshot_frame [of ags s1] project_ready_frame(1) [of None s2]
    by (simp_all add: l st pr)
  then show ?thesis by (simp add: refresh_slaves_def l st pr split: sum.split)
qed

lemma refresh_frame: "refresh_slaves now ttl ws s = (x, s') \<Longrightarrow> runs s' = runs s"
  using refresh_runs [of now ttl ws s] by simp

lemma refresh_for_run_frame: "refresh_for_run now ttl run_id s = (x, s') \<Longrightarrow> runs s' = runs s"
  by (auto simp: refresh_for_run_def dest: refresh_frame split: option.splits sum.splits prod.splits)

lemma evaluate_readiness_frame:
  "evaluate_readiness E T now ttl snapshot run_id s = (x, s') \<Longrightarrow> runs s' = runs s"
  by (auto simp: evaluate_readiness_def dest: refresh_for_run_frame split: sum.splits prod.splits)

lemma evaluate_readiness_InrD:
  "evaluate_readiness E T now ttl snapshot run_id s = (Inr rd, s') \<Longrightarrow> readiness_of E T snapshot run_id s' = Inr rd"
  by (auto simp: evaluate_readiness_def split: sum.splits prod.splits)

lemma inspect_readiness_effect:
  "runs_next (runs s) (runs (snd (inspect_readiness E T ttl t1 t2 run_id version_id s)))"
  unfolding inspect_readiness_def Let_def
  by (rule with_run_effect)
    (auto intro!: runs_next_put run_next_log dest!: evaluate_readiness_frame split: option.split sum.split prod.split)

interpretation inspect: run_operation "inspect_readiness E T ttl t1 t2 run_id version_id"
  for E T ttl t1 t2 run_id version_id
  by unfold_locales (rule inspect_readiness_effect)

text \<open>
  Claim C28. The readiness evaluation decides the specification: it reports no blocker exactly when the
  closure is ready in the refreshed store. Every typed hole is then bound to an active Slave that
  advertises the operation or supports the bound package, which is visible, not abandoned and exports the
  bound descriptor under the closure's own contract; the input payload satisfies the contract's schema;
  and an orchestration's package is replayable, within budget, type-checked and has a Slave for every
  node package. The evaluation changes no Run.
\<close>

theorem readiness_decides:
  assumes "evaluate_readiness E T now ttl snapshot run_id s = (Inr rd, s')"
  shows "(rd_ready rd \<longleftrightarrow> ready_spec E T snapshot run_id s') \<and> (rd_ready rd \<longleftrightarrow> rd_blockers rd = []) \<and> runs s' = runs s"
proof -
  have r: "readiness_of E T snapshot run_id s' = Inr rd" by (rule evaluate_readiness_InrD [OF assms])
  then have "rd_ready rd \<longleftrightarrow> rd_blockers rd = []"
    by (auto simp: readiness_of_def Let_def split: sum.splits if_splits)
  with readiness_iff [OF r] evaluate_readiness_frame [OF assms] show ?thesis by blast
qed

text \<open>A draft whose only hole is bound to a registered Slave.\<close>

definition demo_hole :: typed_hole where
  "demo_hole = \<lparr>th_hole_id = ''h'', th_type = ''cpu'', th_constraint_refs = [], th_status = ''bound'',
     th_binding_ref = Some ''b'', th_provider_fillable = True\<rparr>"

definition demo_binding :: compute_binding where
  "demo_binding = \<lparr>cb_binding_id = ''b'', cb_hole_id = ''h'', cb_capability_descriptor_ref = plain_ref ''d'',
     cb_capability_package_ref = None, cb_target_resource_ref = plain_ref ''slave:s'', cb_constraint_evidence_refs = [],
     cb_bound_by = ''driver'', cb_bound_at = [], cb_runtime_profile = [], cb_activation_ref = None\<rparr>"

definition demo_closure :: task_closure where
  "demo_closure = (minimal_closure ''c'' [])
     \<lparr>tc_compute := \<lparr>sp_capability_requirements = [], sp_operation_ref = ''op:base'', sp_requirements = [],
        sp_typed_holes = [demo_hole], sp_terms = []\<rparr>, tc_compute_bindings := [demo_binding]\<rparr>"

definition demo_draft_run :: run_record where
  "demo_draft_run = demo_run\<lparr>rn_state := Thinking, rn_draft := demo_version\<lparr>cv_snapshot := demo_closure\<rparr>\<rparr>"

definition demo_store :: "run_record \<Rightarrow> slave_store" where
  "demo_store r = demo_p0\<lparr>runs := [(''r'', r)]\<rparr>"

definition demo_fresh :: "run_record \<Rightarrow> slave_store" where
  "demo_fresh r = (demo_store r)\<lparr>slave_agents := [(''s'', demo_slave)], slave_instances := [((''s'', ''i''), demo_slave)],
     slave_capabilities := [(''s'', \<lparr>sd_capabilities = [(''operations'', JArr [JStr ''base''])],
        sd_base_operations = [JStr ''base''], sd_operations = [JStr ''base'']\<rparr>)]\<rparr>"

definition demo_tools :: toolchain where
  "demo_tools = \<lparr>tl_ast_parse = (\<lambda>source. None), tl_pyright = (\<lambda>source. Pyright_Missing), tl_docker = False, tl_runtime_available = None\<rparr>"

lemma demo_refresh:
  assumes "rn_closure_contract r = Some demo_contract" and "rn_capability_activations r = []"
  shows "refresh_for_run 1 30000000 (Some ''r'') (demo_store r) = (Inr (), demo_fresh r)"
  using assms
  by (simp add: refresh_for_run_def refresh_slaves_def list_agents_def expire_stale_def dict_rewrite_def demo_store_def demo_fresh_def
      demo_p0_def demo_slave_def nonempty_def run_workspace_def demo_contract_def
      store_slave_snapshot_def select_slave_agents_def base_operations_def py_set_def dget_default_def project_ready_capabilities_def
      Let_def lease_cutoff_def ready_operations_def)

lemma demo_readiness_of:
  "\<exists>rd. readiness_of demo_env2 demo_tools demo_closure (Some ''r'') (demo_fresh r) = Inr rd \<and> rd_ready rd"
  by (simp add: readiness_of_def closure_operation_ref_def demo_closure_def minimal_closure_def
      evaluate_input_schema_def inline_io_fields_def is_orchestration_def DRIVER_ORCHESTRATOR_KEY_def hole_blockers_def demo_hole_def
      nonempty_def bindings_by_hole_def demo_binding_def canonical_target_resource_id_def demo_fresh_def rstrip_def endswith_def
      startswith_def slave_is_active_def demo_slave_def operation_name_def rsplit_last_def or_string_def Let_def)

lemma demo_readiness:
  assumes "rn_closure_contract r = Some demo_contract" and "rn_capability_activations r = []"
  obtains rd where "evaluate_readiness demo_env2 demo_tools 1 30000000 demo_closure (Some ''r'') (demo_store r) = (Inr rd, demo_fresh r)"
    and "rd_ready rd"
  using demo_readiness_of [of r] demo_refresh [OF assms] by (auto simp: evaluate_readiness_def)

lemma demo_draft_facts [simp]:
  "rn_closure_contract demo_draft_run = Some demo_contract" "rn_capability_activations demo_draft_run = []"
  "rn_state demo_draft_run = Thinking" "cv_snapshot (rn_draft demo_draft_run) = demo_closure"
  "cv_version_id (rn_draft demo_draft_run) = ''d''" "cv_snapshot_digest (rn_draft demo_draft_run) = demo_digest"
  by (simp_all add: demo_draft_run_def demo_run_def new_run_def demo_version_def)

theorem readiness_decides_witness:
  "ready_spec demo_env2 demo_tools demo_closure (Some ''r'') (demo_fresh demo_draft_run)"
  by (rule demo_readiness [of demo_draft_run]) (simp_all, blast dest: readiness_decides)

end
