(* ===== verification/Models.thy ===== *)
theory Models
  imports Contracts "HOL-Library.Monad_Syntax"
begin

text \<open>
  \<^verbatim>\<open>model_validate\<close> of the contract models that arrive as JSON (\<^verbatim>\<open>contracts/types.py\<close>,
  \<^verbatim>\<open>constraints.py\<close>, \<^verbatim>\<open>terms.py\<close>).

  A parser returns \<open>None\<close> where pydantic raises its \<^verbatim>\<open>ValidationError\<close>, and \<open>validated\<close> turns that into the
  error value. Every model forbids extra keys. Strings, lists and dictionaries are not coerced;
  booleans and integers are accepted in pydantic's lax forms.
\<close>

section \<open>Fields\<close>

definition only_fields :: "string list \<Rightarrow> dict \<Rightarrow> bool" where
  "only_fields ks d = list_all (\<lambda>(k, _). k \<in> set ks) d"

definition validated :: "string \<Rightarrow> ('j \<Rightarrow> 'a option) \<Rightarrow> 'j \<Rightarrow> 'a result" where
  "validated model parse v = (case parse v of None \<Rightarrow> Inl (ValidationError model) | Some x \<Rightarrow> Inr x)"

definition obj_in :: "string list \<Rightarrow> json \<Rightarrow> dict option" where
  "obj_in ks v = (case v of JObj d \<Rightarrow> if only_fields ks d then Some d else None | _ \<Rightarrow> None)"

fun as_str :: "json \<Rightarrow> string option" where
  "as_str (JStr s) = Some s"
| "as_str _ = None"

fun as_arr :: "json \<Rightarrow> json list option" where
  "as_arr (JArr xs) = Some xs"
| "as_arr _ = None"

fun as_obj :: "json \<Rightarrow> dict option" where
  "as_obj (JObj d) = Some d"
| "as_obj _ = None"

definition as_ref :: "json \<Rightarrow> resource_ref option" where
  "as_ref v = (case resource_ref_of_json v of Inl _ \<Rightarrow> None | Inr r \<Rightarrow> Some r)"

fun as_bool :: "json \<Rightarrow> bool option" where
  "as_bool (JBool b) = Some b"
| "as_bool (JInt i) = (if i = 0 then Some False else if i = 1 then Some True else None)"
| "as_bool (JFloat q) = (if q = 0 then Some False else if q = 1 then Some True else None)"
| "as_bool (JStr s) =
     (if lower s \<in> {''true'', ''t'', ''yes'', ''y'', ''on'', ''1''} then Some True
      else if lower s \<in> {''false'', ''f'', ''no'', ''n'', ''off'', ''0''} then Some False
      else None)"
| "as_bool _ = None"

fun as_int :: "json \<Rightarrow> int option" where
  "as_int (JInt i) = Some i"
| "as_int (JBool b) = Some (if b then 1 else 0)"
| "as_int (JFloat q) = (if of_int \<lfloor>q\<rfloor> = q then Some \<lfloor>q\<rfloor> else None)"
| "as_int (JStr s) = int_of_string s"
| "as_int _ = None"

definition nullable :: "(json \<Rightarrow> 'a option) \<Rightarrow> json \<Rightarrow> 'a option option" where
  "nullable f v = (if v = JNull then Some None else map_option Some (f v))"

definition as_list :: "(json \<Rightarrow> 'a option) \<Rightarrow> json \<Rightarrow> 'a list option" where
  "as_list f v = Option.bind (as_arr v) (\<lambda>xs. those (map f xs))"

text \<open>A required field, and a field with a default that applies when the key is absent.\<close>

definition required :: "(json \<Rightarrow> 'a option) \<Rightarrow> dict \<Rightarrow> string \<Rightarrow> 'a option" where
  "required f d k = Option.bind (map_of d k) f"

definition defaulted :: "(json \<Rightarrow> 'a option) \<Rightarrow> 'a \<Rightarrow> dict \<Rightarrow> string \<Rightarrow> 'a option" where
  "defaulted f x d k = (case map_of d k of None \<Rightarrow> Some x | Some v \<Rightarrow> f v)"

abbreviation as_strs :: "json \<Rightarrow> string list option" where
  "as_strs \<equiv> as_list as_str"

text \<open>\<^verbatim>\<open>list[dict[str, Any]]\<close>\<close>

definition as_dicts :: "json \<Rightarrow> json list option" where
  "as_dicts v = (case v of JArr xs \<Rightarrow> if list_all is_obj xs then Some xs else None | _ \<Rightarrow> None)"

section \<open>Models\<close>

definition constraint_ref_of :: "json \<Rightarrow> constraint_ref option" where
  "constraint_ref_of v = do {
     d \<leftarrow> obj_in [''constraint_id'', ''version'', ''digest''] v;
     i \<leftarrow> required as_str d ''constraint_id'';
     ver \<leftarrow> defaulted as_str ''1'' d ''version'';
     dig \<leftarrow> required as_str d ''digest'';
     Some \<lparr>cr_constraint_id = i, cr_version = ver, cr_digest = dig\<rparr>
   }"

definition typed_term_of :: "json \<Rightarrow> typed_term option" where
  "typed_term_of v = do {
     d \<leftarrow> obj_in [''term_id'', ''kind'', ''schema_ref'', ''value'', ''criticality'', ''constraint_ref'',
                 ''refinement_relation_ref'', ''provenance''] v;
     i \<leftarrow> defaulted (\<lambda>x. if truthy x then as_str x else Some ''term-anonymous'') [] d ''term_id'';
     kind \<leftarrow> required as_str d ''kind'';
     schema \<leftarrow> required as_str d ''schema_ref'';
     value \<leftarrow> map_of d ''value'';
     crit \<leftarrow> defaulted (\<lambda>x. if x = JStr ''required'' then Some True else if x = JStr ''advisory'' then Some False else None)
              True d ''criticality'';
     rel \<leftarrow> defaulted (nullable as_str) None d ''refinement_relation_ref'';
     prov \<leftarrow> defaulted as_dicts [] d ''provenance'';
     Some \<lparr>tt_term_id = i, tt_kind = kind, tt_schema_ref = schema, tt_value = value, tt_required = crit,
           tt_constraint_ref = dget d ''constraint_ref'', tt_refinement_relation_ref = rel, tt_provenance = prov\<rparr>
   }"

text \<open>\<^verbatim>\<open>model_post_init\<close> of a requirement and of a constraint fills an empty identifier with a digest prefix.\<close>

definition digest_id :: "hashing \<Rightarrow> string \<Rightarrow> nat \<Rightarrow> json \<Rightarrow> string \<Rightarrow> string \<Rightarrow> string option" where
  "digest_id H prefix n v domain i =
     (if i \<noteq> [] then Some i
      else (case digest_json H v domain of Inl _ \<Rightarrow> None | Inr dig \<Rightarrow> Some (prefix @ take n dig)))"

definition compute_requirement_of :: "hashing \<Rightarrow> json \<Rightarrow> compute_requirement option" where
  "compute_requirement_of H v = do {
     d \<leftarrow> obj_in [''requirement_id'', ''key'', ''value'', ''view'', ''constraint_ref''] v;
     i \<leftarrow> defaulted as_str [] d ''requirement_id'';
     key \<leftarrow> required as_str d ''key'';
     value \<leftarrow> map_of d ''value'';
     view \<leftarrow> required as_str d ''view'';
     cref \<leftarrow> defaulted (nullable constraint_ref_of) None d ''constraint_ref'';
     i' \<leftarrow> digest_id H ''requirement-'' 12 (JStr key) ''loom/requirement/v1'' i;
     Some \<lparr>rq_requirement_id = i', rq_key = key, rq_value = value, rq_view = view, rq_constraint_ref = cref\<rparr>
   }"

definition typed_hole_of :: "json \<Rightarrow> typed_hole option" where
  "typed_hole_of v = do {
     d \<leftarrow> obj_in [''hole_id'', ''type'', ''constraint_refs'', ''status'', ''binding_ref'', ''provider_fillable''] v;
     i \<leftarrow> required as_str d ''hole_id'';
     ty \<leftarrow> defaulted as_str ''ComputeRealization'' d ''type'';
     refs \<leftarrow> defaulted (as_list constraint_ref_of) [] d ''constraint_refs'';
     st \<leftarrow> defaulted as_str ''unbound'' d ''status'';
     b \<leftarrow> defaulted (nullable as_str) None d ''binding_ref'';
     p \<leftarrow> defaulted as_bool False d ''provider_fillable'';
     Some \<lparr>th_hole_id = i, th_type = ty, th_constraint_refs = refs, th_status = st, th_binding_ref = b,
           th_provider_fillable = p\<rparr>
   }"

definition compute_spec_of :: "hashing \<Rightarrow> json \<Rightarrow> compute_spec option" where
  "compute_spec_of H v = do {
     d \<leftarrow> obj_in [''capability_requirements'', ''operation_ref'', ''requirements'', ''typed_holes'', ''terms''] v;
     caps \<leftarrow> defaulted (as_list typed_term_of) [] d ''capability_requirements'';
     op \<leftarrow> defaulted as_str [] d ''operation_ref'';
     rqs \<leftarrow> defaulted (as_list (compute_requirement_of H)) [] d ''requirements'';
     holes \<leftarrow> defaulted (as_list typed_hole_of) [] d ''typed_holes'';
     ts \<leftarrow> defaulted (as_list typed_term_of) [] d ''terms'';
     Some \<lparr>sp_capability_requirements = caps, sp_operation_ref = op, sp_requirements = rqs, sp_typed_holes = holes,
           sp_terms = ts\<rparr>
   }"

definition compute_binding_of :: "json \<Rightarrow> compute_binding option" where
  "compute_binding_of v = do {
     d \<leftarrow> obj_in [''binding_id'', ''hole_id'', ''capability_descriptor_ref'', ''capability_package_ref'', ''target_resource_ref'',
                 ''constraint_evidence_refs'', ''bound_by'', ''bound_at'', ''runtime_profile'', ''activation_ref''] v;
     i \<leftarrow> required as_str d ''binding_id'';
     h \<leftarrow> required as_str d ''hole_id'';
     desc \<leftarrow> required as_ref d ''capability_descriptor_ref'';
     pkg \<leftarrow> defaulted (nullable as_ref) None d ''capability_package_ref'';
     target \<leftarrow> required as_ref d ''target_resource_ref'';
     ev \<leftarrow> defaulted as_strs [] d ''constraint_evidence_refs'';
     bby \<leftarrow> defaulted as_str ''driver'' d ''bound_by'';
     bat \<leftarrow> defaulted as_str [] d ''bound_at'';
     prof \<leftarrow> defaulted as_obj [] d ''runtime_profile'';
     act \<leftarrow> defaulted (nullable as_str) None d ''activation_ref'';
     Some \<lparr>cb_binding_id = i, cb_hole_id = h, cb_capability_descriptor_ref = desc, cb_capability_package_ref = pkg,
           cb_target_resource_ref = target, cb_constraint_evidence_refs = ev, cb_bound_by = bby, cb_bound_at = bat,
           cb_runtime_profile = prof, cb_activation_ref = act\<rparr>
   }"

definition constraint_of :: "hashing \<Rightarrow> json \<Rightarrow> constraint option" where
  "constraint_of H v = do {
     d \<leftarrow> obj_in [''subject'', ''predicate'', ''source'', ''fate'', ''relaxability'', ''enforcement'', ''propagation'',
                 ''evidence_requirements'', ''constraint_id''] v;
     subj \<leftarrow> defaulted as_strs [] d ''subject'';
     predicate \<leftarrow> required as_obj d ''predicate'';
     src \<leftarrow> defaulted as_str ''Requester'' d ''source'';
     fate \<leftarrow> defaulted as_str ''preserve'' d ''fate'';
     relax \<leftarrow> defaulted as_str ''RequesterMayRelax'' d ''relaxability'';
     enf \<leftarrow> defaulted as_str ''AdmissionBlock'' d ''enforcement'';
     prop \<leftarrow> defaulted as_obj [] d ''propagation'';
     evid \<leftarrow> defaulted as_dicts [] d ''evidence_requirements'';
     i \<leftarrow> defaulted as_str [] d ''constraint_id'';
     i' \<leftarrow> digest_id H ''constraint-'' 16 (JObj predicate) ''loom/constraint/v1'' i;
     Some \<lparr>cn_subject = subj, cn_predicate = predicate, cn_source = src, cn_fate = fate, cn_relaxability = relax,
           cn_enforcement = enf, cn_propagation = prop, cn_evidence_requirements = evid, cn_constraint_id = i'\<rparr>
   }"

definition execution_contract_of :: "json \<Rightarrow> execution_contract option" where
  "execution_contract_of v = do {
     d \<leftarrow> obj_in [''kind'', ''version''] v;
     kind \<leftarrow> defaulted as_str ''process:json_stdio'' d ''kind'';
     ver \<leftarrow> defaulted as_str ''1'' d ''version'';
     Some \<lparr>ec_kind = kind, ec_version = ver\<rparr>
   }"

definition capability_export_of :: "json \<Rightarrow> capability_export option" where
  "capability_export_of v = do {
     d \<leftarrow> obj_in [''capability_descriptor_ref'', ''io_contract_ref'', ''effect_class'', ''permissions'', ''replay_safety'',
                 ''runtime_binding''] v;
     desc \<leftarrow> required as_ref d ''capability_descriptor_ref'';
     io \<leftarrow> required as_ref d ''io_contract_ref'';
     eff \<leftarrow> required as_str d ''effect_class'';
     perms \<leftarrow> defaulted as_strs [] d ''permissions'';
     replay \<leftarrow> required as_str d ''replay_safety'';
     bind \<leftarrow> defaulted as_obj [] d ''runtime_binding'';
     (let e = \<lparr>ce_capability_descriptor_ref = desc, ce_io_contract_ref = io, ce_effect_class = eff, ce_permissions = perms,
               ce_replay_safety = replay, ce_runtime_binding = bind\<rparr>
      in if validate_refs e = Inr () then Some e else None)
   }"

text \<open>Evidence of a validation (\<^verbatim>\<open>ValidationEvidence\<close>), with its dump.\<close>

record validation_evidence =
  ve_evidence_id :: string
  ve_attempt_id :: string
  ve_execution_epoch :: int
  ve_validator_ref :: "resource_ref option"
  ve_schema_ref :: "resource_ref option"
  ve_input_digest :: "string option"
  ve_output_digest :: "string option"
  ve_pass :: bool
  ve_errors :: "json list"
  ve_by_slave :: bool
  ve_created_at :: string

definition validation_evidence_of :: "json \<Rightarrow> validation_evidence option" where
  "validation_evidence_of v = do {
     d \<leftarrow> obj_in [''evidence_id'', ''attempt_id'', ''execution_epoch'', ''validator_ref'', ''schema_ref'', ''input_digest'',
                 ''output_digest'', ''result'', ''errors'', ''issuer'', ''created_at''] v;
     i \<leftarrow> required as_str d ''evidence_id'';
     a \<leftarrow> required as_str d ''attempt_id'';
     ep \<leftarrow> required as_int d ''execution_epoch'';
     val \<leftarrow> defaulted (nullable as_ref) None d ''validator_ref'';
     sch \<leftarrow> defaulted (nullable as_ref) None d ''schema_ref'';
     inp \<leftarrow> defaulted (nullable as_str) None d ''input_digest'';
     out \<leftarrow> defaulted (nullable as_str) None d ''output_digest'';
     res \<leftarrow> required (\<lambda>x. if x = JStr ''pass'' then Some True else if x = JStr ''fail'' then Some False else None) d ''result'';
     errs \<leftarrow> defaulted as_dicts [] d ''errors'';
     iss \<leftarrow> required (\<lambda>x. if x = JStr ''slave'' then Some True else if x = JStr ''observer'' then Some False else None) d ''issuer'';
     created \<leftarrow> required as_str d ''created_at'';
     Some \<lparr>ve_evidence_id = i, ve_attempt_id = a, ve_execution_epoch = ep, ve_validator_ref = val, ve_schema_ref = sch,
           ve_input_digest = inp, ve_output_digest = out, ve_pass = res, ve_errors = errs, ve_by_slave = iss,
           ve_created_at = created\<rparr>
   }"

definition evidence_json :: "validation_evidence \<Rightarrow> json" where
  "evidence_json e = JObj
     [(''evidence_id'', JStr (ve_evidence_id e)), (''attempt_id'', JStr (ve_attempt_id e)),
      (''execution_epoch'', JInt (ve_execution_epoch e)),
      (''validator_ref'', case ve_validator_ref e of None \<Rightarrow> JNull | Some r \<Rightarrow> ref_json r),
      (''schema_ref'', case ve_schema_ref e of None \<Rightarrow> JNull | Some r \<Rightarrow> ref_json r),
      (''input_digest'', str_or_null (ve_input_digest e)), (''output_digest'', str_or_null (ve_output_digest e)),
      (''result'', JStr (if ve_pass e then ''pass'' else ''fail'')), (''errors'', JArr (ve_errors e)),
      (''issuer'', JStr (if ve_by_slave e then ''slave'' else ''observer'')), (''created_at'', JStr (ve_created_at e))]"

text \<open>A dumped evidence record parses back to itself, so the Observer may re-read its own dumps.\<close>

definition ref_ok :: "resource_ref \<Rightarrow> bool" where
  "ref_ok r = (validate_identity r \<and> list_all is_obj (rr_provenance r))"

lemma as_ref_dump: "ref_ok r \<Longrightarrow> as_ref (ref_json r) = Some r"
proof -
  assume "ref_ok r"
  moreover have "opt_str_field (str_or_null v) = Inr v" for v by (cases v) (simp_all add: str_or_null_def)
  ultimately show ?thesis
    by (cases r) (simp add: ref_ok_def as_ref_def resource_ref_of_json_def ref_json_def ref_fields_def dhas_def Let_def)
qed

lemma as_ref_ok: "as_ref v = Some r \<Longrightarrow> ref_ok r"
  by (auto simp: as_ref_def ref_ok_def resource_ref_of_json_def Let_def split: sum.splits json.splits if_splits)

lemma nullable_ref_dump:
  "(\<And>r. x = Some r \<Longrightarrow> ref_ok r) \<Longrightarrow> nullable as_ref (case x of None \<Rightarrow> JNull | Some r \<Rightarrow> ref_json r) = Some x"
  by (cases x) (auto simp: nullable_def as_ref_dump ref_json_def [symmetric], simp add: ref_json_def)

lemma nullable_str_dump [simp]: "nullable as_str (str_or_null x) = Some x"
  by (cases x) (simp_all add: nullable_def str_or_null_def)

definition evidence_ok :: "validation_evidence \<Rightarrow> bool" where
  "evidence_ok e =
     (pred_option ref_ok (ve_validator_ref e) \<and> pred_option ref_ok (ve_schema_ref e) \<and> list_all is_obj (ve_errors e))"

lemma evidence_roundtrip:
  assumes "evidence_ok e"
  shows "validation_evidence_of (evidence_json e) = Some e"
proof -
  have "nullable as_ref (case ve_validator_ref e of None \<Rightarrow> JNull | Some r \<Rightarrow> ref_json r) = Some (ve_validator_ref e)"
    "nullable as_ref (case ve_schema_ref e of None \<Rightarrow> JNull | Some r \<Rightarrow> ref_json r) = Some (ve_schema_ref e)"
    by (rule nullable_ref_dump; use assms in \<open>simp add: evidence_ok_def\<close>)+
  with assms show ?thesis
    by (cases e) (simp add: evidence_ok_def validation_evidence_of_def evidence_json_def obj_in_def only_fields_def required_def
        defaulted_def as_dicts_def)
qed

end
