(* ===== verification/Patches.thy ===== *)
theory Patches
  imports Readiness Models
begin

text \<open>
  From draft to execution (\<^verbatim>\<open>ObserverRepository\<close>: \<^verbatim>\<open>apply_patch\<close>, \<^verbatim>\<open>commit\<close>, \<^verbatim>\<open>start\<close>).

  A patch operation is the dictionary a caller sends; each kind is a definition on the copied snapshot.
  Only the materialization of a package also changes the Run record while the loop is running, so the
  loop carries the snapshot together with the package list, and an error keeps the packages added so
  far. The text of a pydantic error is represented by the name of the model that rejects its input.
\<close>

section \<open>State\<close>

record patch_receipt =
  pr_receipt :: string
  pr_run_id :: string
  pr_kind :: string
  pr_draft_version :: string
  pr_draft_digest :: string
  pr_snapshot :: task_closure
  pr_patch_cursor :: int
  pr_readiness :: readiness

record patch_store = slave_store +
  idempotency :: "(string \<times> patch_receipt) list"

type_synonym ('z, 'a) patch_op = "('z patch_store_scheme, 'a) op"

section \<open>Patch operations\<close>

definition op_kind :: "dict \<Rightarrow> json" where
  "op_kind op = or_else (or_else (dget op ''kind'') (dget op ''op'')) (dget op ''operation'')"

definition op_value :: "dict \<Rightarrow> json result" where
  "op_value op = (case map_of op ''value'' of None \<Rightarrow> Inl (KeyError ''value'') | Some v \<Rightarrow> Inr v)"

text \<open>\<^verbatim>\<open>metadata.setdefault(key, []).append(value)\<close>\<close>

definition append_metadata :: "string \<Rightarrow> json \<Rightarrow> task_closure \<Rightarrow> task_closure result" where
  "append_metadata k v c =
     (case dget_default (tc_metadata c) k (JArr []) of
        JArr xs \<Rightarrow> Inr (c\<lparr>tc_metadata := dset (tc_metadata c) k (JArr (xs @ [v]))\<rparr>)
      | _ \<Rightarrow> Inl (AttributeError ''append''))"

definition set_result_expectation :: "dict \<Rightarrow> task_closure \<Rightarrow> task_closure result" where
  "set_result_expectation op c =
     Inr (c\<lparr>tc_metadata := dset (tc_metadata c) ''result_expectation'' (dget_default op ''value'' (JObj []))\<rparr>)"

definition set_compute_spec :: "env \<Rightarrow> dict \<Rightarrow> task_closure \<Rightarrow> task_closure result" where
  "set_compute_spec E op c =
     (case op_value op of
        Inl e \<Rightarrow> Inl e
      | Inr v \<Rightarrow> (case validated ''ComputeSpec'' (compute_spec_of (env_hash E)) v of
                    Inl e \<Rightarrow> Inl e | Inr sp \<Rightarrow> Inr (c\<lparr>tc_compute := sp\<rparr>)))"

definition add_constraint :: "env \<Rightarrow> dict \<Rightarrow> task_closure \<Rightarrow> task_closure result" where
  "add_constraint E op c =
     (case op_value op of
        Inl e \<Rightarrow> Inl e
      | Inr v \<Rightarrow> (case validated ''Constraint'' (constraint_of (env_hash E)) v of
                    Inl e \<Rightarrow> Inl e | Inr k \<Rightarrow> Inr (c\<lparr>tc_constraints := tc_constraints c @ [k]\<rparr>)))"

definition tighten_constraint :: "dict \<Rightarrow> task_closure \<Rightarrow> task_closure result" where
  "tighten_constraint op c =
     (case op_value op of
        Inl e \<Rightarrow> Inl e
      | Inr (JObj v) \<Rightarrow>
          (case (map_of v ''parent'', map_of v ''child'') of
             (None, _) \<Rightarrow> Inl (KeyError ''parent'')
           | (_, None) \<Rightarrow> Inl (KeyError ''child'')
           | (Some (JObj parent), Some (JObj child)) \<Rightarrow>
               (case is_monotonic_tightening parent child of
                  Inl e \<Rightarrow> Inl e
                | Inr False \<Rightarrow> Inl (ValueError ''constraint_not_monotonic'')
                | Inr True \<Rightarrow> append_metadata ''refined_constraints'' (JObj child) c)
           | _ \<Rightarrow> Inl (AttributeError ''get''))
      | Inr _ \<Rightarrow> Inl (TypeError ''not subscriptable''))"

definition set_program_ref :: "dict \<Rightarrow> task_closure \<Rightarrow> task_closure result" where
  "set_program_ref op c =
     (case (case dget op ''value'' of
              JObj v \<Rightarrow> or_else (or_else (dget v ''program_ref'') (dget v ''operation_ref'')) (dget v ''ref'')
            | v \<Rightarrow> v) of
        JStr (x # xs) \<Rightarrow> Inr (c\<lparr>tc_program := (tc_program c)\<lparr>pa_operation_ref := x # xs\<rparr>\<rparr>)
      | _ \<Rightarrow> Inl (ValueError ''invalid_program_ref''))"

definition set_io_contract_ref :: "dict \<Rightarrow> task_closure \<Rightarrow> task_closure result" where
  "set_io_contract_ref op c =
     (case as_ref (case dget op ''value'' of
                     JObj v \<Rightarrow> if dhas v ''io_contract_ref'' then dget v ''io_contract_ref'' else JObj v
                   | v \<Rightarrow> v) of
        None \<Rightarrow> Inl (ValueError ''io_contract_ref_required'')
      | Some r \<Rightarrow> Inr (c\<lparr>tc_program := (tc_program c)\<lparr>pa_io_contract_ref := Some r\<rparr>\<rparr>))"

definition update_holes :: "(typed_hole list \<Rightarrow> typed_hole list) \<Rightarrow> task_closure \<Rightarrow> task_closure" where
  "update_holes f c = c\<lparr>tc_compute := (tc_compute c)\<lparr>sp_typed_holes := f (sp_typed_holes (tc_compute c))\<rparr>\<rparr>"

definition add_typed_hole :: "dict \<Rightarrow> task_closure \<Rightarrow> task_closure result" where
  "add_typed_hole op c =
     (case op_value op of
        Inl e \<Rightarrow> Inl e
      | Inr v \<Rightarrow>
          (case validated ''TypedHole'' typed_hole_of v of
             Inl e \<Rightarrow> Inl e
           | Inr h \<Rightarrow>
               if th_hole_id h \<in> th_hole_id ` set (sp_typed_holes (tc_compute c))
               then Inl (ValueError (''duplicate_typed_hole:'' @ th_hole_id h))
               else Inr (update_holes (\<lambda>hs. hs @ [h]) c)))"

definition bind_compute_hole :: "dict \<Rightarrow> task_closure \<Rightarrow> 'z slave_store_scheme \<Rightarrow> task_closure result" where
  "bind_compute_hole op c s =
     (case validated ''ComputeBinding'' compute_binding_of
             (case dget_default op ''value'' (JObj []) of
                JObj v \<Rightarrow> if dhas v ''binding'' then dget v ''binding'' else JObj v
              | v \<Rightarrow> v) of
        Inl e \<Rightarrow> Inl e
      | Inr b0 \<Rightarrow>
          let target = cb_target_resource_ref b0;
              b = b0\<lparr>cb_target_resource_ref := target\<lparr>rr_resource_id := canonical_target_resource_id (rr_resource_id target) s\<rparr>\<rparr>;
              this_hole = (\<lambda>h. th_hole_id h = cb_hole_id b)
          in if List.find this_hole (sp_typed_holes (tc_compute c)) = None
             then Inl (ValueError (''typed_hole_not_found:'' @ cb_hole_id b))
             else Inr (update_holes
                    (update_first this_hole (\<lambda>h. h\<lparr>th_status := ''bound'', th_binding_ref := Some (cb_binding_id b)\<rparr>))
                    (c\<lparr>tc_compute_bindings := filter (\<lambda>x. cb_hole_id x \<noteq> cb_hole_id b) (tc_compute_bindings c) @ [b]\<rparr>)))"

definition set_execution_payload :: "env \<Rightarrow> dict \<Rightarrow> task_closure \<Rightarrow> task_closure result" where
  "set_execution_payload E op c =
     (case dget_default op ''value'' (JObj []) of
        JObj v \<Rightarrow>
          (case Option.bind (map_of v ''input_ref'') as_ref of
             None \<Rightarrow> Inl (ValueError ''input_ref_required'')
           | Some input_ref \<Rightarrow>
               let given = dget v ''node_id'';
                   node_id = (if truthy given then py_str E given
                              else or_string (closure_operation_ref c) ''default'')
               in case py_iter (dget_default v ''provenance'' (JArr [])) of
                    None \<Rightarrow> Inl (TypeError ''object is not iterable'')
                  | Some prov \<Rightarrow>
                      if \<not> list_all is_obj prov then Inl (ValidationError ''NodeInputBinding'')
                      else Inr (c\<lparr>tc_node_input_bindings :=
                             filter (\<lambda>b. nb_node_id b \<noteq> node_id) (tc_node_input_bindings c) @
                             [\<lparr>nb_node_id = node_id, nb_input_ref = input_ref, nb_provenance = prov\<rparr>]\<rparr>))
      | _ \<Rightarrow> Inl (ValueError ''input_ref_required''))"

section \<open>Materializing a package\<close>

definition pair_of :: "json \<Rightarrow> (string \<times> json) result" where
  "pair_of v =
     (case py_iter v of
        None \<Rightarrow> Inl (TypeError ''cannot convert dictionary update sequence element'')
      | Some [JStr k, x] \<Rightarrow> Inr (k, x)
      | Some [k, x] \<Rightarrow> if hashable k then Inl (ValueError ''capability_package_header_invalid'') else Inl (TypeError ''unhashable type'')
      | Some _ \<Rightarrow> Inl (ValueError ''dictionary update sequence element has the wrong length''))"

definition header_of :: "json \<Rightarrow> dict result" where
  "header_of v =
     (if \<not> truthy v then Inr []
      else (case v of
              JObj d \<Rightarrow> Inr d
            | _ \<Rightarrow> (case py_iter v of
                      None \<Rightarrow> Inl (TypeError ''object is not iterable'')
                    | Some xs \<Rightarrow> (case all_ok (map pair_of xs) of
                                   Inl e \<Rightarrow> Inl e
                                 | Inr kvs \<Rightarrow> Inr (fold (\<lambda>(k, x) d. dset d k x) kvs [])))))"

definition header_fields :: "string list" where
  "header_fields = [''package_id'', ''package_version'', ''package_type'', ''execution'', ''capability_exports'', ''body'',
     ''package_digest'']"

definition str_or_given :: "env \<Rightarrow> json \<Rightarrow> string \<Rightarrow> string" where
  "str_or_given E v x = (if truthy v then py_str E v else x)"

text \<open>The construction inside the \<^verbatim>\<open>try\<close>; \<open>fresh_id\<close> and \<open>fresh_closure\<close> are the identifiers built from \<^verbatim>\<open>uuid4\<close>.\<close>

definition candidate_of :: "env \<Rightarrow> run_record \<Rightarrow> string \<Rightarrow> string \<Rightarrow> dict \<Rightarrow> package_version result" where
  "candidate_of E r fresh_id fresh_closure header =
     (case validated ''ExecutionContract'' execution_contract_of (dget header ''execution'') of
        Inl e \<Rightarrow> Inl e
      | Inr x \<Rightarrow>
          (case py_iter (dget header ''capability_exports'') of
             None \<Rightarrow> Inl (TypeError ''object is not iterable'')
           | Some items \<Rightarrow>
               (case all_ok (map (validated ''CapabilityExport'' capability_export_of) items) of
                  Inl e \<Rightarrow> Inl e
                | Inr exports \<Rightarrow>
                    (case dget header ''body'' of
                       JObj body \<Rightarrow>
                         make_package E
                           \<lparr>pv_package_type = py_str E (dget header ''package_type''),
                            pv_package_id = str_or_given E (dget header ''package_id'') fresh_id,
                            pv_package_version = str_or_given E (dget header ''package_version'') ''v1'',
                            pv_package_closure_version_ref = fresh_closure, pv_source_run_ref = rn_run_id r,
                            pv_source_closure_version_ref = cv_version_id (rn_draft r), pv_scope = Run_Bound,
                            pv_publication_state = Candidate,
                            pv_provenance = [[(''source'', JStr ''coding_agent''), (''run_id'', JStr (rn_run_id r))]],
                            pv_execution = x, pv_capability_exports = exports, pv_body = body,
                            pv_package_digest = str_or_given E (dget header ''package_digest'') []\<rparr>
                     | _ \<Rightarrow> Inl (ValidationError ''CapabilityPackageVersion'')))))"

definition as_value_error :: "py_error \<Rightarrow> py_error" where
  "as_value_error e =
     (case e of
        TypeError m \<Rightarrow> ValueError (or_string m ''capability_package_invalid'')
      | ValueError m \<Rightarrow> ValueError (or_string m ''capability_package_invalid'')
      | ValidationError m \<Rightarrow> ValueError (or_string m ''capability_package_invalid'')
      | _ \<Rightarrow> e)"

type_synonym patch_state = "task_closure \<times> package_version list"

definition bind_orchestrator :: "package_version \<Rightarrow> task_closure \<Rightarrow> task_closure result" where
  "bind_orchestrator p c =
     (if package_key p \<noteq> DRIVER_ORCHESTRATOR_KEY then Inr c
      else (case single_export p of
              Inl e \<Rightarrow> Inl e
            | Inr e \<Rightarrow> Inr (c\<lparr>tc_program_systems := (tc_program_systems c)
                \<lparr>ps_execution := pv_execution p,
                 ps_package_ref := Some ((plain_ref (version_ref p))\<lparr>rr_version_or_digest := Some (pv_package_digest p)\<rparr>),
                 ps_replay_safety := ce_replay_safety e\<rparr>\<rparr>)))"

text \<open>The part after the package has been found in the Run or added to it.\<close>

definition reference_package :: "package_version \<Rightarrow> task_closure \<Rightarrow> task_closure result" where
  "reference_package p c =
     (case bind_orchestrator p c of
        Inl e \<Rightarrow> Inl e
      | Inr c' \<Rightarrow> append_metadata ''capability_package_refs'' (JStr (version_ref p)) c')"

definition materialize_package ::
  "env \<Rightarrow> run_record \<Rightarrow> string \<Rightarrow> string \<Rightarrow> 'z slave_store_scheme \<Rightarrow> dict \<Rightarrow> patch_state \<Rightarrow> task_closure result \<times> package_version list" where
  "materialize_package E r fresh_id fresh_closure s op st =
     (let (c, packages) = st in
      case header_of (dget op ''value'') of
        Inl e \<Rightarrow> (Inl e, packages)
      | Inr header \<Rightarrow>
          if \<not> only_fields header_fields header \<or> \<not> list_all (dhas header) required_sections
          then (Inl (ValueError ''capability_package_header_invalid''), packages)
          else (case candidate_of E r fresh_id fresh_closure header of
                  Inl e \<Rightarrow> (Inl (as_value_error e), packages)
                | Inr p \<Rightarrow>
                    (case validate_package_exports E s p of
                       Inl e \<Rightarrow> (Inl e, packages)
                     | Inr _ \<Rightarrow>
                         (case List.find (\<lambda>q. pv_package_id q = pv_package_id p \<and> pv_package_version q = pv_package_version p) packages of
                            None \<Rightarrow> (reference_package p c, packages @ [p])
                          | Some q \<Rightarrow>
                              if pv_package_digest q \<noteq> pv_package_digest p
                              then (Inl (ValueError ''capability_package_identity_conflict''), packages)
                              else (reference_package q c, packages)))))"

text \<open>One operation of the loop, and the loop. \<open>fresh n\<close> gives the two identifiers the \<open>n\<close>-th operation may draw.\<close>

definition apply_op ::
  "env \<Rightarrow> run_record \<Rightarrow> string \<times> string \<Rightarrow> 'z slave_store_scheme \<Rightarrow> dict \<Rightarrow> patch_state \<Rightarrow> task_closure result \<times> package_version list" where
  "apply_op E r fresh s op st =
     (let (c, packages) = st; kind = op_kind op; on_snapshot = (\<lambda>x. (x, packages)) in
      if kind = JStr ''set_result_expectation'' then on_snapshot (set_result_expectation op c)
      else if kind = JStr ''set_compute_spec'' then on_snapshot (set_compute_spec E op c)
      else if kind = JStr ''add_constraint'' then on_snapshot (add_constraint E op c)
      else if kind = JStr ''tighten_constraint'' then on_snapshot (tighten_constraint op c)
      else if kind = JStr ''set_program_ref'' then on_snapshot (set_program_ref op c)
      else if kind = JStr ''set_io_contract_ref'' then on_snapshot (set_io_contract_ref op c)
      else if kind = JStr ''add_typed_hole'' then on_snapshot (add_typed_hole op c)
      else if kind = JStr ''materialize_capability_package_candidate''
      then materialize_package E r (fst fresh) (snd fresh) s op st
      else if kind = JStr ''bind_compute_hole'' then on_snapshot (bind_compute_hole op c s)
      else if kind = JStr ''set_execution_payload'' then on_snapshot (set_execution_payload E op c)
      else on_snapshot (Inl (ValueError (''unsupported_patch:'' @ py_str E kind))))"

fun apply_ops ::
  "env \<Rightarrow> run_record \<Rightarrow> (nat \<Rightarrow> string \<times> string) \<Rightarrow> 'z slave_store_scheme \<Rightarrow> nat \<Rightarrow> dict list \<Rightarrow> patch_state \<Rightarrow>
   task_closure result \<times> package_version list" where
  "apply_ops E r fresh s n [] (c, packages) = (Inr c, packages)"
| "apply_ops E r fresh s n (op # ops) st =
     (case apply_op E r (fresh n) s op st of
        (Inl e, packages) \<Rightarrow> (Inl e, packages)
      | (Inr c, packages) \<Rightarrow> apply_ops E r fresh s (Suc n) ops (c, packages))"

section \<open>apply\_patch\<close>

definition patchable :: "run_record \<Rightarrow> bool" where
  "patchable r =
     (rn_state r \<in> {Opened, Thinking, Awaiting_Decision} \<and>
      (rn_state r = Awaiting_Decision \<longrightarrow> pending_decision r = JStr ''repair''))"

text \<open>The new draft put into the record, with the transition that opens or reopens the refinement.\<close>

definition install_draft :: "time \<Rightarrow> closure_version \<Rightarrow> run_record \<Rightarrow> run_record result" where
  "install_draft now v r =
     (let r1 = r\<lparr>rn_draft := v\<rparr> in
      if rn_state r = Opened then do_transition now Refinement_Started None r1
      else if rn_state r = Awaiting_Decision
      then (case do_transition now Refinement_Started None r1 of
              Inl e \<Rightarrow> Inl e | Inr r2 \<Rightarrow> Inr (r2\<lparr>rn_outcome := None\<rparr>))
      else Inr r1)"

definition log_patch :: "string \<Rightarrow> closure_version \<Rightarrow> run_record \<Rightarrow> run_record" where
  "log_patch operation_id v r =
     (let r1 = log_event (Ev_Draft_Patched operation_id (cv_version_id v)) r;
          refs = dget_default (tc_metadata (cv_snapshot v)) ''capability_package_refs'' (JArr [])
      in if truthy refs then log_event (Ev_Packages_Materialized operation_id refs) r1 else r1)"

record patch_ids =
  pi_ops :: "nat \<Rightarrow> string \<times> string"
  pi_draft :: string
  pi_receipt :: string

definition finish_patch ::
  "env \<Rightarrow> toolchain \<Rightarrow> time \<Rightarrow> time \<Rightarrow> patch_ids \<Rightarrow> string \<Rightarrow> string \<Rightarrow> closure_version \<Rightarrow> run_record \<Rightarrow> ('z, patch_receipt) patch_op" where
  "finish_patch E T ttl now ids run_id operation_id v r s =
     (case evaluate_readiness E T now ttl (cv_snapshot v) (Some run_id) s of
        (Inl e, s1) \<Rightarrow> (Inl e, s1)
      | (Inr rd, s1) \<Rightarrow>
          let receipt = \<lparr>pr_receipt = pi_receipt ids, pr_run_id = run_id, pr_kind = ''draft'',
                pr_draft_version = cv_version_id v, pr_draft_digest = cv_snapshot_digest v, pr_snapshot = cv_snapshot v,
                pr_patch_cursor = cv_patch_cursor v, pr_readiness = rd\<rparr>
          in (Inr receipt,
              put_run run_id (log_patch operation_id v r)
                (s1\<lparr>idempotency := AList.update operation_id receipt (idempotency s1)\<rparr>)))"

definition apply_patch ::
  "env \<Rightarrow> toolchain \<Rightarrow> time \<Rightarrow> time \<Rightarrow> patch_ids \<Rightarrow> string \<Rightarrow> string \<Rightarrow> string \<Rightarrow> string \<Rightarrow> dict list \<Rightarrow> ('z, patch_receipt) patch_op" where
  "apply_patch E T ttl now ids run_id base_version base_digest operation_id ops s =
     (case map_of (idempotency s) operation_id of
        Some receipt \<Rightarrow> (Inr receipt, s)
      | None \<Rightarrow> with_run run_id (\<lambda>r.
          if cv_version_id (rn_draft r) \<noteq> base_version \<or> cv_snapshot_digest (rn_draft r) \<noteq> base_digest
          then (Inl (ValueError ''version_conflict''), s)
          else if \<not> patchable r then (Inl (ValueError ''illegal_state_transition''), s)
          else (case apply_ops E r (pi_ops ids) s 0 ops (cv_snapshot (rn_draft r), rn_capability_packages r) of
                  (Inl e, packages) \<Rightarrow> (Inl e, put_run run_id (r\<lparr>rn_capability_packages := packages\<rparr>) s)
                | (Inr c, packages) \<Rightarrow>
                    let r1 = r\<lparr>rn_capability_packages := packages\<rparr> in
                    (case canonical_digest (env_hash E) c of
                       Inl e \<Rightarrow> (Inl e, put_run run_id r1 s)
                     | Inr d \<Rightarrow>
                         let v = \<lparr>cv_version_id = pi_draft ids, cv_closure_id = cv_closure_id (rn_draft r),
                               cv_parent_version = Some (cv_version_id (rn_draft r)), cv_kind = ''draft'', cv_snapshot = c,
                               cv_snapshot_digest = d, cv_patch_cursor = cv_patch_cursor (rn_draft r) + 1\<rparr>
                         in case install_draft now v r1 of
                              Inl e \<Rightarrow> (Inl e, put_run run_id (r1\<lparr>rn_draft := v\<rparr>) s)
                            | Inr r2 \<Rightarrow> finish_patch E T ttl now ids run_id operation_id v r2 (put_run run_id r2 s)))) s)"

section \<open>commit and start\<close>

definition log_readiness :: "time \<Rightarrow> string \<Rightarrow> string \<Rightarrow> readiness \<Rightarrow> run_record \<Rightarrow> run_record" where
  "log_readiness now run_id version rd r =
     log_event (Ev_Readiness_Inspected run_id version (rd_ready rd) (rd_blockers rd) now) r"

definition commit_run ::
  "env \<Rightarrow> toolchain \<Rightarrow> time \<Rightarrow> time \<Rightarrow> string \<Rightarrow> string \<Rightarrow> string \<Rightarrow> string \<Rightarrow> ('z, closure_version) slave_op" where
  "commit_run E T ttl now fresh_version run_id version_id digest s = with_run run_id (\<lambda>r.
     if rn_state r \<noteq> Thinking then (Inl (ValueError ''illegal_state_transition''), s)
     else if cv_version_id (rn_draft r) \<noteq> version_id \<or> cv_snapshot_digest (rn_draft r) \<noteq> digest
     then (Inl (ValueError ''version_conflict''), s)
     else (case evaluate_readiness E T now ttl (cv_snapshot (rn_draft r)) (Some run_id) s of
             (Inl e, s1) \<Rightarrow> (Inl e, s1)
           | (Inr rd, s1) \<Rightarrow>
               let r1 = log_readiness now run_id (cv_version_id (rn_draft r)) rd r in
               if \<not> rd_ready rd then (Inl (readiness_error rd), put_run run_id r1 s1)
               else
                 let v = (rn_draft r)\<lparr>cv_kind := ''committed'', cv_version_id := fresh_version\<rparr>;
                     r2 = r1\<lparr>rn_committed := Some v\<rparr>
                 in case do_transition now Tr_Committed None r2 of
                      Inl e \<Rightarrow> (Inl e, put_run run_id r2 s1)
                    | Inr r3 \<Rightarrow> (Inr v, put_run run_id (log_event (Ev_Committed fresh_version) r3) s1))) s"

text \<open>\<^verbatim>\<open>record.committed.snapshot if record.committed is not None else record.draft.snapshot\<close>\<close>

definition run_snapshot :: "run_record \<Rightarrow> task_closure" where
  "run_snapshot r = cv_snapshot (case rn_committed r of Some v \<Rightarrow> v | None \<Rightarrow> rn_draft r)"

definition orchestration_provenance :: "run_record \<Rightarrow> package_version option \<Rightarrow> 'z run_store_scheme \<Rightarrow> dict result" where
  "orchestration_provenance r given s =
     (let version = (case rn_committed r of Some v \<Rightarrow> v | None \<Rightarrow> rn_draft r);
          package_ref = ps_package_ref (tc_program_systems (run_snapshot r));
          package = (case given of
                       Some p \<Rightarrow> Some p
                     | None \<Rightarrow> Option.bind package_ref (\<lambda>x. find_package (By_Ref x) (Some (rn_run_id r)) s));
          entry = (\<lambda>program. [(''parent_execution_ref'', str_or_null (rn_execution_id r)),
                     (''closure_version_ref'', JStr (cv_version_id version)),
                     (''orchestration_package_ref'', case package_ref of None \<Rightarrow> JNull | Some x \<Rightarrow> ref_json x),
                     (''orchestration_program_ref'', program)])
      in case package of
           None \<Rightarrow> Inr (entry JNull)
         | Some p \<Rightarrow> (case package_body_ref p ''program_content_ref'' of
                        Inl e \<Rightarrow> Inl e | Inr x \<Rightarrow> Inr (entry (ref_json x))))"

record start_result =
  sr_execution_id :: "string option"
  sr_state :: run_state
  sr_execution_epoch :: int

definition start_result_of :: "run_record \<Rightarrow> start_result" where
  "start_result_of r = \<lparr>sr_execution_id = rn_execution_id r, sr_state = rn_state r, sr_execution_epoch = rn_execution_epoch r\<rparr>"

definition new_attempt :: "string \<Rightarrow> string \<Rightarrow> int \<Rightarrow> attempt" where
  "new_attempt attempt_id target epoch =
     \<lparr>at_attempt_id = attempt_id, at_node_id = None, at_target = target, at_target_instance_id = None,
      at_target_agent_epoch = None, at_state = At_Created, at_execution_epoch = epoch, at_replaces_attempt_id = None,
      at_replaced_by_attempt_id = None, at_terminal_error = JNull, at_result_ref = None, at_value = JNull,
      at_validation_evidence = []\<rparr>"

definition begin_execution :: "string \<Rightarrow> run_record \<Rightarrow> run_record" where
  "begin_execution fresh_execution r =
     r\<lparr>rn_execution_epoch := (if rn_execution_id r = None then 1 else rn_execution_epoch r + 1),
       rn_execution_id := Some fresh_execution, rn_outcome := None\<rparr>"

text \<open>What follows the transition: the attempt of a single-node execution, and the start events.\<close>

definition first_attempt :: "string \<Rightarrow> closure_version \<Rightarrow> 'z slave_store_scheme \<Rightarrow> run_record \<Rightarrow> run_record" where
  "first_attempt fresh_attempt v s r =
     (if is_orchestration (cv_snapshot v) then r
      else
        let target = (case tc_compute_bindings (cv_snapshot v) of
                        [] \<Rightarrow> default_target
                      | b # _ \<Rightarrow> canonical_target_resource_id (rr_resource_id (cb_target_resource_ref b)) s)
        in r\<lparr>rn_attempts := rn_attempts r @ [new_attempt fresh_attempt target (rn_execution_epoch r)]\<rparr>)"

definition start_run ::
  "env \<Rightarrow> toolchain \<Rightarrow> time \<Rightarrow> time \<Rightarrow> string \<Rightarrow> string \<Rightarrow> string \<Rightarrow> string \<Rightarrow> ('z, start_result) slave_op" where
  "start_run E T ttl now fresh_execution fresh_attempt run_id version_id s = with_run run_id (\<lambda>r.
     let committed = (case rn_committed r of Some v \<Rightarrow> if cv_version_id v = version_id then Some v else None | None \<Rightarrow> None) in
     if rn_state r = Running \<and> rn_execution_id r \<noteq> None
     then (if committed = None then (Inl (ValueError ''closure_not_committed''), s) else (Inr (start_result_of r), s))
     else if rn_state r \<noteq> Run_Committed then (Inl (ValueError ''illegal_state_transition''), s)
     else case committed of
       None \<Rightarrow> (Inl (ValueError ''closure_not_committed''), s)
     | Some v \<Rightarrow>
         (case evaluate_readiness E T now ttl (cv_snapshot v) (Some run_id) s of
            (Inl e, s1) \<Rightarrow> (Inl e, s1)
          | (Inr rd, s1) \<Rightarrow>
              let r1 = log_readiness now run_id (cv_version_id v) rd r in
              if \<not> rd_ready rd then (Inl (readiness_error rd), put_run run_id r1 s1)
              else (case (if is_orchestration (cv_snapshot v) then Inr () else check_attempt_budget r1) of
                      Inl e \<Rightarrow> (Inl e, put_run run_id r1 s1)
                    | Inr _ \<Rightarrow>
                        let r2 = begin_execution fresh_execution r1 in
                        (case do_transition now Execution_Started None r2 of
                           Inl e \<Rightarrow> (Inl e, put_run run_id r2 s1)
                         | Inr r3 \<Rightarrow>
                             let r4 = log_event (Ev_Execution_Started (rn_execution_id r3) (rn_execution_epoch r3))
                                        (first_attempt fresh_attempt v s1 r3)
                             in if \<not> is_orchestration (cv_snapshot v)
                                then (Inr (start_result_of r4), put_run run_id r4 s1)
                                else
                                  let package_ref = ps_package_ref (tc_program_systems (cv_snapshot v));
                                      package = Option.bind package_ref (\<lambda>x. find_package (By_Ref x) (Some run_id) s1)
                                  in case orchestration_provenance r4 package s1 of
                                       Inl e \<Rightarrow> (Inl e, put_run run_id r4 s1)
                                     | Inr prov \<Rightarrow>
                                         let r5 = log_event (Ev_Orchestration_Started run_id (rn_execution_id r4)
                                                    (rn_execution_epoch r4)
                                                    (case package_ref of None \<Rightarrow> JNull | Some x \<Rightarrow> ref_json x) prov now) r4
                                         in (Inr (start_result_of r5), put_run run_id r5 s1))))) s"

section \<open>Effects on the Runs\<close>

lemma run_next_same_core:
  assumes "same_run r r'" and "rn_events r' = rn_events r" and "rn_state r' = rn_state r" and "execution_next r r'"
    and "run_core r \<Longrightarrow> run_core r'"
  shows "run_next r r'"
  by (rule run_nextI [where es = "[]"]) (use assms in auto)

lemma run_next_draft: "run_next r (r\<lparr>rn_draft := v\<rparr>)"
  by (rule run_next_same_core) (auto simp: same_run_def run_core_def pending_decision_def)

lemma run_next_attempts: "attempts_next (rn_attempts r) as \<Longrightarrow> run_next r (r\<lparr>rn_attempts := as\<rparr>)"
  by (rule run_next_same_core) (auto simp: same_run_def run_core_def pending_decision_def)

lemma run_next_nodes: "run_next r (r\<lparr>rn_dynamic_nodes := ns\<rparr>)"
  by (rule run_next_same_core) (auto simp: same_run_def run_core_def pending_decision_def)

lemma run_next_logI: "run_next r r' \<Longrightarrow> log_move e = None \<Longrightarrow> run_next r (log_event e r')"
  by (rule run_next_trans [OF _ run_next_log])

lemma log_patch_next: "run_next r (log_patch operation_id v r)"
  by (simp add: log_patch_def Let_def run_next_logI run_next_log)

lemma active_targets:
  "RUN_TRANSITIONS a Tr_Committed = Some b \<Longrightarrow> b = Run_Committed"
  "RUN_TRANSITIONS a Execution_Started = Some b \<Longrightarrow> b = Running"
  "RUN_TRANSITIONS a Run_Needs_Decision = Some b \<Longrightarrow> b = Awaiting_Decision"
  by (cases a; simp)+

lemma install_draft_next:
  assumes "install_draft now v r = Inr r'"
  shows "run_next r r'"
proof -
  have d: "run_next r (r\<lparr>rn_draft := v\<rparr>)" by (rule run_next_draft)
  have t: "run_next (r\<lparr>rn_draft := v\<rparr>) r2"
    if "do_transition now Refinement_Started None (r\<lparr>rn_draft := v\<rparr>) = Inr r1" and "r2 = r1 \<or> r2 = r1\<lparr>rn_outcome := None\<rparr>" for r1 r2
    by (rule idle_transition_next [where es = "[]", OF that(1)]) (use that(2) in \<open>auto simp: same_run_def\<close>)
  from assms show ?thesis
    by (auto simp: install_draft_def Let_def split: if_splits sum.splits intro: d run_next_trans [OF d t])
qed

lemma finish_patch_effect: 
  assumes "map_of (runs s) run_id = Some r"
  shows "runs_next (runs s) (runs (snd (finish_patch E T ttl now ids run_id operation_id v r s)))"
proof -
  obtain x s1 where ev: "evaluate_readiness E T now ttl (cv_snapshot v) (Some run_id) s = (x, s1)" by fastforce
  with assms have "map_of (runs s1) run_id = Some r" "runs s1 = runs s"
    using evaluate_readiness_frame [OF ev] by simp_all
  with ev show ?thesis
    by (auto simp: finish_patch_def Let_def split: sum.split intro!: runs_next_put log_patch_next)
qed

lemma apply_patch_effect:
  "runs_next (runs s) (runs (snd (apply_patch E T ttl now ids run_id bv bd operation_id ops s)))"
proof (cases "map_of (idempotency s) operation_id")
  case None
  show ?thesis unfolding apply_patch_def None option.case Let_def
  proof (rule with_run_effect, goal_cases)
    case (1 r)
    obtain x packages where ap: "apply_ops E r (pi_ops ids) s 0 ops (cv_snapshot (rn_draft r), rn_capability_packages r) = (x, packages)"
      by fastforce
    let ?r1 = "r\<lparr>rn_capability_packages := packages\<rparr>"
    have p: "run_next r ?r1" by (rule run_next_packages)
    have done_: "runs_next (runs s) (runs (snd (finish_patch E T ttl now ids run_id operation_id v r2 (put_run run_id r2 s))))"
      if "install_draft now v ?r1 = Inr r2" for v r2
      by (rule runs_next_trans [OF runs_next_put [OF 1 run_next_trans [OF p install_draft_next [OF that]]]])
        (use finish_patch_effect [of "put_run run_id r2 s"] in simp)
    show ?case
      using 1 p by (auto simp: ap split: sum.split intro!: runs_next_put done_ run_next_trans [OF p run_next_draft])
  qed
qed (simp add: apply_patch_def)

lemma log_readiness_next: "run_next r (log_readiness now run_id v rd r)"
  by (simp add: log_readiness_def run_next_log)

lemma log_readiness_simps [simp]:
  "rn_state (log_readiness now run_id v rd r) = rn_state r"
  "rn_execution_id (log_readiness now run_id v rd r) = rn_execution_id r"
  "rn_execution_epoch (log_readiness now run_id v rd r) = rn_execution_epoch r"
  "rn_draft (log_readiness now run_id v rd r) = rn_draft r"
  "rn_committed (log_readiness now run_id v rd r) = rn_committed r"
  "rn_closure_contract (log_readiness now run_id v rd r) = rn_closure_contract r"
  "rn_attempts (log_readiness now run_id v rd r) = rn_attempts r"
  "rn_capability_packages (log_readiness now run_id v rd r) = rn_capability_packages r"
  by (simp_all add: log_readiness_def)

lemma run_next_committed: "run_next r (r\<lparr>rn_committed := Some v\<rparr>)"
  by (rule run_next_same_core) (auto simp: same_run_def run_core_def pending_decision_def)

lemma commit_run_effect:
  "runs_next (runs s) (runs (snd (commit_run E T ttl now fresh run_id version_id digest s)))"
  unfolding commit_run_def Let_def
proof (rule with_run_effect, goal_cases)
  case (1 r)
  obtain x s1 where ev: "evaluate_readiness E T now ttl (cv_snapshot (rn_draft r)) (Some run_id) s = (x, s1)" by fastforce
  have frame: "runs s1 = runs s" by (rule evaluate_readiness_frame [OF ev])
  let ?v = "(rn_draft r)\<lparr>cv_kind := ''committed'', cv_version_id := fresh\<rparr>"
  have mid: "run_next r ((log_readiness now run_id (cv_version_id (rn_draft r)) rd r)\<lparr>rn_committed := Some ?v\<rparr>)" for rd
    by (rule run_next_trans [OF log_readiness_next run_next_committed])
  have fin: "run_next r (log_event (Ev_Committed fresh) r3)"
    if "do_transition now Tr_Committed None ((log_readiness now run_id (cv_version_id (rn_draft r)) rd r)\<lparr>rn_committed := Some ?v\<rparr>) = Inr r3" for rd r3
    by (rule run_next_trans [OF mid transition_next [where es = "[Ev_Committed fresh]", OF that]])
      (use that in \<open>auto elim!: do_transition_InrD dest!: active_targets simp: same_run_def run_core_def\<close>)
  show ?case
    using 1 ev frame by (auto split: sum.split intro!: runs_next_put mid fin log_readiness_next)
qed

lemma begin_execution_next: "rn_state r = Run_Committed \<Longrightarrow> run_next r (begin_execution fresh r)"
  by (rule run_next_same_core)
    (auto simp: begin_execution_def same_run_def run_core_def execution_next_def epoch_ok_def attempt_ids_def)

lemma first_attempt_next: "run_next r (first_attempt fresh v s r)"
  by (simp add: first_attempt_def Let_def run_next_attempts)

lemma first_attempt_simps [simp]:
  "rn_state (first_attempt fresh v s r) = rn_state r" "rn_execution_id (first_attempt fresh v s r) = rn_execution_id r"
  "rn_execution_epoch (first_attempt fresh v s r) = rn_execution_epoch r"
  "rn_committed (first_attempt fresh v s r) = rn_committed r"
  by (simp_all add: first_attempt_def Let_def)

lemma start_transition_next:
  assumes "rn_state r = Run_Committed" and "rn_committed r \<noteq> None"
    and "do_transition now Execution_Started None (begin_execution fresh r) = Inr r'"
  shows "run_next r r'"
proof (rule run_next_trans [OF begin_execution_next [OF assms(1)]])
  show "run_next (begin_execution fresh r) r'"
    by (rule transition_next [where es = "[]", OF assms(3)])
      (use assms in \<open>auto elim!: do_transition_InrD dest!: active_targets simp: same_run_def run_core_def begin_execution_def\<close>)
qed

lemma start_run_effect:
  "runs_next (runs s) (runs (snd (start_run E T ttl now fx fa run_id version_id s)))"
  unfolding start_run_def
proof (rule with_run_effect, goal_cases)
  case (1 r)
  show ?case
  proof (cases "rn_state r = Run_Committed \<and> (\<exists>v. rn_committed r = Some v \<and> cv_version_id v = version_id)")
    case True
    then obtain v where v: "rn_state r = Run_Committed" "rn_committed r = Some v" "cv_version_id v = version_id" by blast
    obtain x s1 where ev: "evaluate_readiness E T now ttl (cv_snapshot v) (Some run_id) s = (x, s1)" by fastforce
    have frame: "runs s1 = runs s" by (rule evaluate_readiness_frame [OF ev])
    let ?r1 = "\<lambda>rd. log_readiness now run_id (cv_version_id v) rd r"
    have r1: "run_next r (?r1 rd)" for rd by (rule log_readiness_next)
    have r2: "run_next r (begin_execution fx (?r1 rd))" for rd
      using v(1) by (intro run_next_trans [OF r1 begin_execution_next]) simp
    have r4: "run_next r (log_event e (first_attempt fa v s1 r3))"
      if "do_transition now Execution_Started None (begin_execution fx (?r1 rd)) = Inr r3" "log_move e = None" for rd r3 e
      using v by (intro run_next_logI [OF run_next_trans [OF run_next_trans [OF r1 start_transition_next [OF _ _ that(1)]]
              first_attempt_next]] that(2)) simp_all
    from 1 v ev frame show ?thesis
      by (auto simp: Let_def split: sum.split intro!: runs_next_put r1 r2 r4 run_next_logI [OF r4])
  next
    case False
    with 1 show ?thesis by (auto simp: Let_def split: option.split)
  qed
qed

interpretation apply_patch: run_operation "apply_patch E T ttl now ids run_id bv bd operation_id ops"
  for E T ttl now ids run_id bv bd operation_id ops
  by unfold_locales (rule apply_patch_effect)

interpretation commit_run: run_operation "commit_run E T ttl now fresh run_id version_id digest"
  for E T ttl now fresh run_id version_id digest
  by unfold_locales (rule commit_run_effect)

interpretation start_run: run_operation "start_run E T ttl now fx fa run_id version_id"
  for E T ttl now fx fa run_id version_id
  by unfold_locales (rule start_run_effect)

section \<open>Patches are ordered\<close>

lemma log_patch_simps [simp]:
  "rn_state (log_patch i v r) = rn_state r" "rn_draft (log_patch i v r) = rn_draft r"
  "rn_committed (log_patch i v r) = rn_committed r"
  by (simp_all add: log_patch_def Let_def)

lemma install_draft_InrD:
  assumes "install_draft now v r = Inr r'" and "patchable r"
  shows "rn_draft r' = v" and "rn_state r' = Thinking" and "rn_committed r' = rn_committed r"
  using assms by (auto simp: install_draft_def patchable_def Let_def elim!: do_transition_InrD split: if_splits sum.splits)

lemma apply_patch_InrE:
  assumes ok: "apply_patch E T ttl now ids run_id bv bd i ops s = (Inr rc, s')" and new: "map_of (idempotency s) i = None"
  obtains r c packages d v r2 rd s1 where
    "map_of (runs s) run_id = Some r" "cv_version_id (rn_draft r) = bv" "cv_snapshot_digest (rn_draft r) = bd" "patchable r"
    "apply_ops E r (pi_ops ids) s 0 ops (cv_snapshot (rn_draft r), rn_capability_packages r) = (Inr c, packages)"
    "canonical_digest (env_hash E) c = Inr d"
    "v = \<lparr>cv_version_id = pi_draft ids, cv_closure_id = cv_closure_id (rn_draft r), cv_parent_version = Some bv,
          cv_kind = ''draft'', cv_snapshot = c, cv_snapshot_digest = d, cv_patch_cursor = cv_patch_cursor (rn_draft r) + 1\<rparr>"
    "install_draft now v (r\<lparr>rn_capability_packages := packages\<rparr>) = Inr r2"
    "evaluate_readiness E T now ttl c (Some run_id) (put_run run_id r2 s) = (Inr rd, s1)"
    "rc = \<lparr>pr_receipt = pi_receipt ids, pr_run_id = run_id, pr_kind = ''draft'', pr_draft_version = pi_draft ids,
           pr_draft_digest = d, pr_snapshot = c, pr_patch_cursor = cv_patch_cursor v, pr_readiness = rd\<rparr>"
    "s' = put_run run_id (log_patch i v r2) (s1\<lparr>idempotency := AList.update i rc (idempotency s1)\<rparr>)"
  using assms
  by (auto simp: apply_patch_def with_run_def finish_patch_def Let_def split: option.splits if_splits sum.splits prod.splits)


text \<open>
  A patch operation identifier is applied at most once: repeating it returns the first receipt and
  changes nothing, whatever Run, base or operations the repetition names.
\<close>

theorem patch_replayed:
  assumes ok: "apply_patch E T ttl now ids run_id bv bd i ops s = (Inr rc, s')"
  shows "apply_patch E' T' ttl' now' ids' run_id' bv' bd' i ops' s' = (Inr rc, s')"
proof (cases "map_of (idempotency s) i")
  case None
  show ?thesis
    using ok None by (rule apply_patch_InrE) (simp add: apply_patch_def put_run_def)
qed (use ok in \<open>simp add: apply_patch_def\<close>)

section \<open>Commit and start are gated by readiness\<close>


text \<open>
  An execution starts only from a committed Run whose committed closure is ready in the refreshed
  store. It gets a new identifier and the first or the next epoch, and a closure that is not an orchestration
  gets exactly one new attempt, created in that epoch. Starting the same version again returns the same
  execution and changes nothing.
\<close>

theorem start_gate:
  assumes ok: "start_run E T ttl now fx fa run_id version_id s = (Inr res, s')"
    and r: "map_of (runs s) run_id = Some r" and idle: "rn_state r \<noteq> Running"
  shows "(\<exists>v rd s1 r'. rn_state r = Run_Committed \<and> rn_committed r = Some v \<and> cv_version_id v = version_id \<and>
      evaluate_readiness E T now ttl (cv_snapshot v) (Some run_id) s = (Inr rd, s1) \<and>
      ready_spec E T (cv_snapshot v) (Some run_id) s1 \<and>
      map_of (runs s') run_id = Some r' \<and> rn_state r' = Running \<and> rn_committed r' = Some v \<and> rn_execution_id r' = Some fx \<and>
      rn_execution_epoch r' = (if rn_execution_id r = None then 1 else rn_execution_epoch r + 1) \<and>
      (if is_orchestration (cv_snapshot v) then rn_attempts r' = rn_attempts r
       else \<exists>target. rn_attempts r' = rn_attempts r @ [new_attempt fa target (rn_execution_epoch r')]) \<and>
      res = start_result_of r') \<and>
    start_run E' T' ttl' now' fx' fa' run_id version_id s' = (Inr res, s')"
proof -
  from ok r idle obtain v rd s1 where v: "rn_state r = Run_Committed" "rn_committed r = Some v" "cv_version_id v = version_id"
    and ev: "evaluate_readiness E T now ttl (cv_snapshot v) (Some run_id) s = (Inr rd, s1)" "rd_ready rd"
    by (auto simp: start_run_def with_run_def Let_def split: option.splits if_splits sum.splits prod.splits)
  define r1 where "r1 = log_readiness now run_id version_id rd r"
  from ok r v ev obtain r3 r' where r3: "do_transition now Execution_Started None (begin_execution fx r1) = Inr r3"
    and r': "s' = put_run run_id r' s1" "res = start_result_of r'"
      "r' = log_event (Ev_Execution_Started (rn_execution_id r3) (rn_execution_epoch r3)) (first_attempt fa v s1 r3) \<or>
       (\<exists>e. r' = log_event e (log_event (Ev_Execution_Started (rn_execution_id r3) (rn_execution_epoch r3)) (first_attempt fa v s1 r3)))"
    by (auto simp: start_run_def with_run_def Let_def r1_def split: if_splits sum.splits)
  from r3 have st: "rn_state r3 = Running" "rn_committed r3 = rn_committed r1" "rn_execution_id r3 = Some fx"
      "rn_attempts r3 = rn_attempts r1"
      "rn_execution_epoch r3 = (if rn_execution_id r1 = None then 1 else rn_execution_epoch r1 + 1)"
    by (auto elim!: do_transition_InrD dest: active_targets simp: begin_execution_def)
  have r'_facts: "rn_state r' = Running" "rn_committed r' = Some v" "rn_execution_id r' = Some fx"
      "rn_execution_epoch r' = (if rn_execution_id r = None then 1 else rn_execution_epoch r + 1)"
    and attempts: "rn_attempts r' = rn_attempts (first_attempt fa v s1 r3)"
    using r'(3) st v(2) by (auto simp: r1_def)
  have "if is_orchestration (cv_snapshot v) then rn_attempts r' = rn_attempts r
       else \<exists>target. rn_attempts r' = rn_attempts r @ [new_attempt fa target (rn_execution_epoch r')]"
    using attempts st(4,5) r'_facts(4) by (auto simp: first_attempt_def Let_def r1_def)
  moreover have "map_of (runs s') run_id = Some r'" using r'(1) by simp
  ultimately show ?thesis
    using v ev r' r'_facts readiness_iff [OF evaluate_readiness_InrD [OF ev(1)]]
    by (auto simp: start_run_def with_run_def)
qed

section \<open>Evaluation\<close>

definition demo_ids :: patch_ids where
  "demo_ids = \<lparr>pi_ops = (\<lambda>n. (''p'', ''q'')), pi_draft = ''d2'', pi_receipt = ''rc''\<rparr>"

definition demo_patch_store :: patch_store where
  "demo_patch_store = \<lparr>message_receipts = [], message_receipt_events = [],
     runs = [(''r'', new_run ''r'' ''t'' ''g'' demo_version demo_contract False)], agents = [], driver_threads = [], agent_events = [],
     slave_agents = [], slave_instances = [], slave_capabilities = [], operation_descriptor_registry = [], idempotency = []\<rparr>"

definition demo_ops :: "dict list" where
  "demo_ops = [[(''kind'', JStr ''set_program_ref''), (''value'', JStr ''op:x'')]]"

lemma demo_refresh_empty:
  assumes "runs s = [(''r'', r)]" and "agents s = []" and "slave_agents s = []" and "slave_instances s = []" and "slave_capabilities s = []"
  shows "refresh_for_run now ttl (Some ''r'') s = (Inr (), s)"
  using assms
  by (simp add: refresh_for_run_def refresh_slaves_def list_agents_def expire_stale_def dict_rewrite_def store_slave_snapshot_def
      select_slave_agents_def project_ready_capabilities_def Let_def)

lemma demo_canonical [simp]: "canonical_digest (env_hash demo_env2) c = Inr demo_digest"
  by (simp add: canonical_digest_def)

lemma demo_patch:
  "\<exists>rc s'. apply_patch demo_env2 demo_tools 30000000 1 demo_ids ''r'' ''d'' demo_digest ''o1'' demo_ops demo_patch_store = (Inr rc, s')
     \<and> map_of (idempotency s') ''o2'' = None"
proof -
  let ?c = "cv_snapshot demo_version\<lparr>tc_program := (tc_program (cv_snapshot demo_version))\<lparr>pa_operation_ref := ''op:x''\<rparr>\<rparr>"
  define r0 where "r0 = new_run ''r'' ''t'' ''g'' demo_version demo_contract False"
  have ops: "apply_ops demo_env2 r0 f demo_patch_store 0 demo_ops (cv_snapshot (rn_draft r0), rn_capability_packages r0) = (Inr ?c, [])" for f
    by (simp add: demo_ops_def apply_op_def op_kind_def or_else_def set_program_ref_def r0_def new_run_def Let_def)
  have ready: "\<exists>rd. readiness_of demo_env2 demo_tools ?c (Some ''r'') s = Inr rd" for s :: patch_store
    by (simp add: readiness_of_def evaluate_input_schema_def is_orchestration_def DRIVER_ORCHESTRATOR_KEY_def demo_version_def
        minimal_closure_def Let_def)
  have store: "runs demo_patch_store = [(''r'', r0)]" "agents demo_patch_store = []" "slave_agents demo_patch_store = []"
    "slave_instances demo_patch_store = []" "slave_capabilities demo_patch_store = []" "idempotency demo_patch_store = []"
    by (simp_all add: demo_patch_store_def r0_def)
  have draft: "cv_version_id (rn_draft r0) = ''d''" "cv_snapshot_digest (rn_draft r0) = demo_digest" "rn_state r0 = Opened"
    by (simp_all add: r0_def new_run_def demo_version_def)
  obtain r2 where r2: "install_draft 1 v (r0\<lparr>rn_capability_packages := []\<rparr>) = Inr (r2 v)" for v
    using draft by (simp add: install_draft_def do_transition_def Let_def)
  have refreshed: "refresh_for_run 1 30000000 (Some ''r'') (put_run ''r'' r demo_patch_store) = (Inr (), put_run ''r'' r demo_patch_store)" for r
    by (rule demo_refresh_empty [where r = r]) (simp_all add: store put_run_def)
  define v where "v = \<lparr>cv_version_id = pi_draft demo_ids, cv_closure_id = cv_closure_id (rn_draft r0), cv_parent_version = Some ''d'',
      cv_kind = ''draft'', cv_snapshot = ?c, cv_snapshot_digest = demo_digest, cv_patch_cursor = cv_patch_cursor (rn_draft r0) + 1\<rparr>"
  obtain rd where rd: "evaluate_readiness demo_env2 demo_tools 1 30000000 (cv_snapshot v) (Some ''r'') (put_run ''r'' (r2 v) demo_patch_store)
      = (Inr rd, put_run ''r'' (r2 v) demo_patch_store)"
    using ready [of "put_run ''r'' (r2 v) demo_patch_store"] by (auto simp: evaluate_readiness_def refreshed v_def)
  have "apply_patch demo_env2 demo_tools 30000000 1 demo_ids ''r'' ''d'' demo_digest ''o1'' demo_ops demo_patch_store =
      finish_patch demo_env2 demo_tools 30000000 1 demo_ids ''r'' ''o1'' v (r2 v) (put_run ''r'' (r2 v) demo_patch_store)"
    using r2 [of v] by (simp add: apply_patch_def with_run_def store ops draft patchable_def v_def Let_def)
  then show ?thesis by (simp add: finish_patch_def rd Let_def) (simp add: put_run_def store)
qed


theorem patch_replayed_witness:
  "\<exists>rc s'. apply_patch demo_env2 demo_tools 30000000 1 demo_ids ''r'' ''d'' demo_digest ''o1'' demo_ops demo_patch_store = (Inr rc, s') \<and>
     apply_patch demo_env2 demo_tools 30000000 2 demo_ids ''other run'' [] [] ''o1'' [] s' = (Inr rc, s')"
proof -
  obtain rc s' where p: "apply_patch demo_env2 demo_tools 30000000 1 demo_ids ''r'' ''d'' demo_digest ''o1'' demo_ops demo_patch_store = (Inr rc, s')"
    using demo_patch by blast
  from p patch_replayed [OF p, of demo_env2 demo_tools 30000000 2 demo_ids "''other run''" "[]" "[]" "[]"] show ?thesis by blast
qed


definition demo_committed_run :: run_record where
  "demo_committed_run = demo_draft_run\<lparr>rn_state := Run_Committed, rn_committed := Some (rn_draft demo_draft_run)\<rparr>"

theorem start_gate_witness:
  "\<exists>res s' r'. start_run demo_env2 demo_tools 30000000 1 ''x'' ''a'' ''r'' ''d'' (demo_store demo_committed_run) = (Inr res, s') \<and>
     map_of (runs s') ''r'' = Some r' \<and> rn_state r' = Running \<and> rn_execution_epoch r' = 1 \<and> length (rn_attempts r') = 1 \<and>
     start_run demo_env2 demo_tools 30000000 2 ''y'' ''b'' ''r'' ''d'' s' = (Inr res, s')"
proof (rule demo_readiness [of demo_committed_run])
  fix rd
  assume rd: "evaluate_readiness demo_env2 demo_tools 1 30000000 demo_closure (Some ''r'') (demo_store demo_committed_run) = (Inr rd, demo_fresh demo_committed_run)"
    "rd_ready rd"
  have r: "map_of (runs (demo_store demo_committed_run)) ''r'' = Some demo_committed_run" by (simp add: demo_store_def)
  have facts: "rn_state demo_committed_run = Run_Committed" "rn_committed demo_committed_run = Some (rn_draft demo_draft_run)"
    "rn_execution_id demo_committed_run = None" "rn_attempts demo_committed_run = []" "rn_closure_contract demo_committed_run = Some demo_contract"
    by (simp_all add: demo_committed_run_def demo_draft_run_def demo_run_def new_run_def)
  have single: "\<not> is_orchestration demo_closure"
    by (simp add: is_orchestration_def demo_closure_def minimal_closure_def DRIVER_ORCHESTRATOR_KEY_def)
  from r rd facts single have "\<exists>res s'. start_run demo_env2 demo_tools 30000000 1 ''x'' ''a'' ''r'' ''d'' (demo_store demo_committed_run) = (Inr res, s')"
    by (simp add: start_run_def with_run_def do_transition_def begin_execution_def check_attempt_budget_def demo_contract_def Let_def)
  then obtain res s' where ok: "start_run demo_env2 demo_tools 30000000 1 ''x'' ''a'' ''r'' ''d'' (demo_store demo_committed_run) = (Inr res, s')" by blast
  have idle: "rn_state demo_committed_run \<noteq> Running" by (simp add: facts)
  from start_gate [OF ok r idle, of demo_env2 demo_tools 30000000 2 "''y''" "''b''"] ok facts single show ?thesis by auto
qed (simp_all add: demo_committed_run_def)

end
