(* ===== verification/Results.thy ===== *)
theory Results
  imports Patches
begin

text \<open>
  The report of a single-node execution (\<^verbatim>\<open>ObserverRepository.record_result\<close>).

  The success validator runs through the Slave executor registry in a subprocess; \<open>invoke\<close> stands for that
  call and gives the value it returns or the exception it raises. \<open>admit_report\<close> holds everything the
  method checks before it looks at the output, \<open>judge_report\<close> the Observer's own validation, and
  \<open>close_report\<close> the projection into the Run.
\<close>

section \<open>Success validators\<close>

type_synonym invoke = "string \<Rightarrow> json \<Rightarrow> json result"

definition validator_payload :: "env \<Rightarrow> invoke \<Rightarrow> resource_ref \<Rightarrow> json \<Rightarrow> dict result" where
  "validator_payload E invoke r value =
     res_bind (env_get E r) (\<lambda>program.
     res_bind (invoke program (if is_obj value then value else JObj [(''value'', value)])) (\<lambda>v.
     Inr (obj_of v)))"

text \<open>\<^verbatim>\<open>s[:n]\<close> of a string: its first \<open>n\<close> code points.\<close>

fun take_chars :: "nat \<Rightarrow> string \<Rightarrow> string" where
  "take_chars n [] = []"
| "take_chars n (c # s) =
     (if continuation (of_char c) then c # take_chars n s
      else (case n of 0 \<Rightarrow> [] | Suc m \<Rightarrow> c # take_chars m s))"

definition validator_exception :: "py_error \<Rightarrow> json" where
  "validator_exception e =
     JObj [(''path'', JStr ''$''), (''keyword'', JStr ''validator''), (''message'', JStr (take_chars 512 (error_message e)))]"

definition validator_status :: "env \<Rightarrow> dict \<Rightarrow> string" where
  "validator_status E payload = str_or E (dget payload ''result'') ''fail''"

definition error_objects :: "dict \<Rightarrow> dict list" where
  "error_objects payload = List.map_filter (\<lambda>v. case v of JObj d \<Rightarrow> Some d | _ \<Rightarrow> None) (arr_of (dget payload ''errors''))"

definition normalized_error :: "env \<Rightarrow> dict \<Rightarrow> json" where
  "normalized_error E d =
     JObj [(''path'', JStr (py_str E (dget_default d ''path'' (JStr ''$'')))),
           (''keyword'', JStr (py_str E (dget_default d ''keyword'' (JStr ''validator'')))),
           (''message'', JStr (take_chars 512 (py_str E (dget_default d ''message'' (JStr ''validator failed'')))))]"

text \<open>The verdict of the validator on a single-node result: whether it passed, and the errors it gave.\<close>

definition validator_verdict :: "env \<Rightarrow> invoke \<Rightarrow> resource_ref \<Rightarrow> json \<Rightarrow> bool \<times> json list" where
  "validator_verdict E invoke r value =
     (case validator_payload E invoke r value of
        Inl e \<Rightarrow> (False, [validator_exception e])
      | Inr payload \<Rightarrow> (validator_status E payload = ''pass'', map (normalized_error E) (error_objects payload)))"

section \<open>Output schema\<close>

definition schema_failure :: "string \<Rightarrow> string \<Rightarrow> string \<Rightarrow> json \<Rightarrow> string \<Rightarrow> schema_error" where
  "schema_failure path keyword message expected observed =
     \<lparr>se_path = path, se_keyword = keyword, se_message = message, se_expected = expected, se_observed = observed\<rparr>"

definition output_errors :: "env \<Rightarrow> string \<Rightarrow> resource_ref \<Rightarrow> json \<Rightarrow> schema_error list result" where
  "output_errors E message schema_ref value =
     (case load_schema E schema_ref of
        Inl e \<Rightarrow>
          if is_content_error e
          then Inr [schema_failure ''$'' ''schema'' message (JStr ''valid output schema'') (error_message e)]
          else Inl e
      | Inr schema \<Rightarrow> validate_value E schema value)"

section \<open>Admission of a report\<close>

record report =
  rp_attempt :: attempt
  rp_digest :: string
  rp_evidence :: "validation_evidence list"
  rp_contract :: "io_contract option"
  rp_input_digest :: "string option"

definition output_schema_of :: "report \<Rightarrow> resource_ref option" where
  "output_schema_of rp = Option.bind (rp_contract rp) io_output_schema_ref"

definition validator_of :: "report \<Rightarrow> resource_ref option" where
  "validator_of rp = Option.bind (rp_contract rp) io_success_validator_ref"

definition check_resource_ref :: "json \<Rightarrow> string \<Rightarrow> unit result" where
  "check_resource_ref raw digest =
     (if raw = JNull then Inr ()
      else (case as_ref raw of
              None \<Rightarrow> Inl (ValueError ''invalid_resource_ref'')
            | Some r \<Rightarrow> checks [(ref_digest r \<noteq> Some digest, ''resource_ref_digest_mismatch'')]))"

definition parse_evidence :: "string \<Rightarrow> int \<Rightarrow> string \<Rightarrow> json \<Rightarrow> validation_evidence result" where
  "parse_evidence attempt_id epoch digest item =
     (case validation_evidence_of item of
        None \<Rightarrow> Inl (ValueError ''invalid_validation_evidence'')
      | Some e \<Rightarrow>
          res_bind (checks
            [(ve_attempt_id e \<noteq> attempt_id \<or> ve_execution_epoch e \<noteq> epoch, ''stale_validation_evidence''),
             (\<not> ve_by_slave e, ''invalid_validation_evidence''),
             (ve_output_digest e \<noteq> None \<and> ve_output_digest e \<noteq> Some digest, ''validation_evidence_digest_mismatch'')])
          (\<lambda>_. Inr e))"

definition parse_evidences :: "string \<Rightarrow> int \<Rightarrow> string \<Rightarrow> json \<Rightarrow> validation_evidence list result" where
  "parse_evidences attempt_id epoch digest raw =
     (case raw of
        JArr items \<Rightarrow> all_ok (map (parse_evidence attempt_id epoch digest) items)
      | _ \<Rightarrow> Inl (ValueError ''invalid_validation_evidence''))"

definition report_contract :: "env \<Rightarrow> run_record \<Rightarrow> io_contract option result" where
  "report_contract E r =
     (case Option.bind (rn_committed r) (\<lambda>v. pa_io_contract_ref (tc_program (cv_snapshot v))) of
        None \<Rightarrow> Inr None
      | Some c \<Rightarrow> (case load_io_contract E c of
                     Inr io \<Rightarrow> Inr (Some io)
                   | Inl e \<Rightarrow> Inl (if is_content_error e then ValueError ''io_contract_invalid'' else e)))"

definition check_evidence :: "report \<Rightarrow> validation_evidence \<Rightarrow> unit result" where
  "check_evidence rp e =
     checks
       [(output_schema_of rp \<noteq> None \<and> \<not> same_ref (ve_schema_ref e) (output_schema_of rp), ''validation_evidence_schema_mismatch''),
        (\<not> same_ref (ve_validator_ref e) (validator_of rp), ''validation_evidence_validator_mismatch''),
        (ve_input_digest e \<noteq> None \<and> ve_input_digest e \<noteq> rp_input_digest rp, ''validation_evidence_input_digest_mismatch'')]"

text \<open>The attempt a report is for: the first with its identifier, in the current epoch and still active.\<close>

definition report_attempt :: "run_record \<Rightarrow> dict \<Rightarrow> attempt result" where
  "report_attempt r result =
     (case List.find (\<lambda>a. JStr (at_attempt_id a) = dget result ''attempt_id'') (rn_attempts r) of
        None \<Rightarrow> Inl (ValueError ''stale_attempt'')
      | Some a \<Rightarrow>
          (case py_int (dget result ''execution_epoch'') of
             Inl _ \<Rightarrow> Inl (ValueError ''stale_execution_epoch'')
           | Inr epoch \<Rightarrow>
               res_bind (checks
                 [(epoch \<noteq> rn_execution_epoch r, ''stale_execution_epoch''),
                  (at_execution_epoch a \<noteq> epoch, ''stale_execution_epoch''),
                  (\<not> attempt_active a, ''stale_attempt''),
                  (dget result ''execution_id'' \<noteq> str_or_null (rn_execution_id r), ''stale_execution_id'')])
               (\<lambda>_. Inr a)))"

definition admit_report :: "env \<Rightarrow> run_record \<Rightarrow> dict \<Rightarrow> report result" where
  "admit_report E r result =
     res_bind (checks [(rn_state r \<noteq> Running, ''execution_not_running'')]) (\<lambda>_.
     res_bind (report_attempt r result) (\<lambda>a.
     res_bind (checks [(\<not> dhas result ''value'', ''output_missing''), (dhas result ''digest'', ''redundant_result_digest'')]) (\<lambda>_.
     res_bind (result_digest E (dget result ''value'')) (\<lambda>digest.
     res_bind (check_resource_ref (dget result ''resource_ref'') digest) (\<lambda>_.
     res_bind (parse_evidences (at_attempt_id a) (at_execution_epoch a) digest
                 (or_else (dget result ''validation_evidence'') (JArr []))) (\<lambda>evidence.
     res_bind (report_contract E r) (\<lambda>contract.
     let rp = \<lparr>rp_attempt = a, rp_digest = digest, rp_evidence = evidence, rp_contract = contract,
               rp_input_digest = Option.bind (rn_committed r) (\<lambda>v. input_digest_for (cv_snapshot v))\<rparr>
     in res_bind (all_ok (map (check_evidence rp) evidence)) (\<lambda>_. Inr rp))))))))"

section \<open>The Observer's own validation\<close>

record evidence_stamp =
  es_suffix :: string
  es_created_at :: string

definition observer_evidence ::
  "report \<Rightarrow> evidence_stamp \<Rightarrow> bool \<Rightarrow> json list \<Rightarrow> validation_evidence" where
  "observer_evidence rp stamp pass errors =
     \<lparr>ve_evidence_id = ''evidence-'' @ at_attempt_id (rp_attempt rp) @ ''-'' @ es_suffix stamp,
      ve_attempt_id = at_attempt_id (rp_attempt rp), ve_execution_epoch = at_execution_epoch (rp_attempt rp),
      ve_validator_ref = validator_of rp, ve_schema_ref = output_schema_of rp, ve_input_digest = rp_input_digest rp,
      ve_output_digest = Some (rp_digest rp), ve_pass = pass, ve_errors = errors, ve_by_slave = False,
      ve_created_at = es_created_at stamp\<rparr>"

text \<open>
  A judgement: the evidence to store, the identifier of the schema evidence when there was a schema, the
  error that rejects the output, and whether the schema rejected it.
\<close>

record judgement =
  jd_evidence :: "validation_evidence list"
  jd_schema_evidence :: "string option"
  jd_error :: json
  jd_schema_rejects :: bool

definition coded_errors :: "string \<Rightarrow> json list \<Rightarrow> json" where
  "coded_errors code errors = JObj [(''code'', JStr code), (''errors'', JArr errors)]"

definition judge_validator :: "env \<Rightarrow> invoke \<Rightarrow> evidence_stamp \<Rightarrow> json \<Rightarrow> report \<Rightarrow> judgement \<Rightarrow> judgement" where
  "judge_validator E invoke stamp value rp j =
     (case validator_of rp of
        None \<Rightarrow> j
      | Some r \<Rightarrow>
          let (pass, errors) = validator_verdict E invoke r value
          in j\<lparr>jd_evidence := jd_evidence j @ [observer_evidence rp stamp pass errors],
               jd_error := (if pass then JNull else coded_errors ''success_validation_failed'' errors)\<rparr>)"

definition judge_report ::
  "env \<Rightarrow> invoke \<Rightarrow> evidence_stamp \<Rightarrow> evidence_stamp \<Rightarrow> json \<Rightarrow> report \<Rightarrow> judgement result" where
  "judge_report E invoke st1 st2 value rp =
     (let plain = \<lparr>jd_evidence = rp_evidence rp, jd_schema_evidence = None, jd_error = JNull, jd_schema_rejects = False\<rparr> in
      case output_schema_of rp of
        None \<Rightarrow> Inr (judge_validator E invoke st2 value rp plain)
      | Some schema_ref \<Rightarrow>
          res_bind (output_errors E ''output schema could not be evaluated'' schema_ref value) (\<lambda>errors.
          let ev = observer_evidence rp st1 (errors = []) (map schema_error_json errors);
              j = plain\<lparr>jd_evidence := rp_evidence rp @ [ev], jd_schema_evidence := Some (ve_evidence_id ev)\<rparr>
          in Inr (if errors \<noteq> []
                  then j\<lparr>jd_error := coded_errors ''output_schema_mismatch'' (map schema_error_json errors), jd_schema_rejects := True\<rparr>
                  else judge_validator E invoke st2 value rp j)))"

section \<open>Closing the report\<close>

definition set_attempt :: "(attempt \<Rightarrow> bool) \<Rightarrow> (attempt \<Rightarrow> attempt) \<Rightarrow> run_record \<Rightarrow> run_record" where
  "set_attempt p f r = r\<lparr>rn_attempts := update_first p f (rn_attempts r)\<rparr>"

definition close_attempt :: "string \<Rightarrow> attempt_state \<Rightarrow> run_record \<Rightarrow> run_record" where
  "close_attempt attempt_id st r = set_attempt (\<lambda>a. at_attempt_id a = attempt_id) (\<lambda>a. a\<lparr>at_state := st\<rparr>) r"

definition evidence_field :: "judgement \<Rightarrow> string \<times> json" where
  "evidence_field j = (''validation_evidence'', JArr (map evidence_json (jd_evidence j)))"

definition repair_outcome :: "dict \<Rightarrow> json \<Rightarrow> judgement \<Rightarrow> dict" where
  "repair_outcome result terminal_error j =
     dict_with result
       [(''disposition'', JStr ''awaiting_decision''), (''decision'', JStr ''repair''), (''resource_ref'', JNull),
        (''terminal_state'', JStr ''failed''), (''terminal_error'', terminal_error), (''error'', terminal_error), evidence_field j]"

definition attestation_outcome :: "dict \<Rightarrow> judgement \<Rightarrow> dict" where
  "attestation_outcome result j =
     dict_with result
       [(''disposition'', JStr ''awaiting_decision''), (''decision'', JStr ''attestation''),
        (''terminal_state'', JStr ''decision_required''), (''terminal_error'', JNull), evidence_field j]"

definition completed_outcome :: "dict \<Rightarrow> judgement \<Rightarrow> dict" where
  "completed_outcome result j =
     dict_with result
       [(''disposition'', JStr ''completed''), (''decision'', JNull), (''terminal_state'', JStr ''completed''), evidence_field j]"

definition result_event ::
  "string \<Rightarrow> report \<Rightarrow> json \<Rightarrow> json \<Rightarrow> string option \<Rightarrow> time \<Rightarrow> run_record \<Rightarrow> run_record" where
  "result_event phase rp error resource_ref evidence_id now r =
     log_event (Ev_Execution_Result phase (rn_execution_id r) (at_attempt_id (rp_attempt rp))
       (at_execution_epoch (rp_attempt rp)) error resource_ref evidence_id now) r"

text \<open>
  The phase of a failure event. A terminal error that is true but not a dictionary raises here, after the
  Run has been moved.
\<close>

definition failure_phase :: "json \<Rightarrow> string result" where
  "failure_phase terminal_error =
     (if \<not> truthy terminal_error then Inr ''execution_failed''
      else (case terminal_error of
              JObj d \<Rightarrow>
                if \<not> hashable (dget d ''code'') then Inl (TypeError ''unhashable type'')
                else if dget d ''code'' \<in> {JStr ''output_schema_mismatch'', JStr ''success_validation_failed''}
                then Inr ''io_schema_rejected''
                else Inr ''execution_failed''
            | _ \<Rightarrow> Inl (AttributeError ''get'')))"

definition fail_report ::
  "time \<Rightarrow> dict \<Rightarrow> report \<Rightarrow> judgement \<Rightarrow> json \<Rightarrow> string result \<Rightarrow> run_record \<Rightarrow> unit result \<times> run_record" where
  "fail_report now result rp j terminal_error phase r =
     (let r1 = (close_attempt (at_attempt_id (rp_attempt rp)) At_Failed r)
                 \<lparr>rn_outcome := Some (repair_outcome result terminal_error j)\<rparr>
      in case do_transition now Run_Needs_Decision (opt_json terminal_error) r1 of
           Inl e \<Rightarrow> (Inl e, r1)
         | Inr r2 \<Rightarrow>
             (case phase of
                Inl e \<Rightarrow> (Inl e, r2)
              | Inr name \<Rightarrow> (Inr (), result_event name rp terminal_error JNull
                               (if jd_schema_rejects j then jd_schema_evidence j else None) now r2)))"

definition attest_report :: "time \<Rightarrow> dict \<Rightarrow> report \<Rightarrow> judgement \<Rightarrow> json \<Rightarrow> run_record \<Rightarrow> unit result \<times> run_record" where
  "attest_report now result rp j terminal_error r =
     (let r1 = (close_attempt (at_attempt_id (rp_attempt rp)) At_Decision_Required r)\<lparr>rn_outcome := Some (attestation_outcome result j)\<rparr>
      in case do_transition now Run_Needs_Decision None r1 of
           Inl e \<Rightarrow> (Inl e, r1)
         | Inr r2 \<Rightarrow> (Inr (), result_event ''attestation_required'' rp terminal_error JNull None now r2))"

definition complete_report :: "time \<Rightarrow> dict \<Rightarrow> report \<Rightarrow> judgement \<Rightarrow> run_record \<Rightarrow> unit result \<times> run_record" where
  "complete_report now result rp j r =
     (let r1 = (close_attempt (at_attempt_id (rp_attempt rp)) At_Completed r)\<lparr>rn_outcome := Some (completed_outcome result j)\<rparr>
      in case do_transition now Run_Succeeded None r1 of
           Inl e \<Rightarrow> (Inl e, r1)
         | Inr r2 \<Rightarrow>
             (Inr (), result_event (if jd_schema_evidence j \<noteq> None then ''io_schema_validated'' else ''execution_completed'')
                        rp JNull (dget result ''resource_ref'') (jd_schema_evidence j) now r2))"

definition terminal_states :: "string list" where
  "terminal_states = [''completed'', ''failed'', ''decision_required'']"

definition close_report ::
  "env \<Rightarrow> time \<Rightarrow> dict \<Rightarrow> report \<Rightarrow> judgement \<Rightarrow> run_record \<Rightarrow> unit result \<times> run_record" where
  "close_report E now result rp j r =
     (if jd_schema_rejects j then fail_report now result rp j (jd_error j) (Inr ''io_schema_rejected'') r
      else
        let reported = str_or E (dget result ''terminal_state'') ''completed'';
            terminal_state = (if jd_error j \<noteq> JNull \<and> reported = ''completed'' then ''failed'' else reported);
            terminal_error = (if jd_error j \<noteq> JNull then jd_error j else dget result ''terminal_error'')
        in if reported \<notin> set terminal_states then (Inl (ValueError ''invalid_terminal_state''), r)
           else if terminal_state = ''failed'' then fail_report now result rp j terminal_error (failure_phase terminal_error) r
           else if terminal_state = ''decision_required'' then attest_report now result rp j terminal_error r
           else complete_report now result rp j r)"

definition record_result ::
  "env \<Rightarrow> invoke \<Rightarrow> time \<Rightarrow> evidence_stamp \<Rightarrow> evidence_stamp \<Rightarrow> string \<Rightarrow> dict \<Rightarrow> ('z, run_record) run_op" where
  "record_result E invoke now st1 st2 run_id result s = with_run run_id (\<lambda>r.
     case res_bind (admit_report E r result) (\<lambda>rp.
          res_bind (judge_report E invoke st1 st2 (dget result ''value'') rp) (\<lambda>j. Inr (rp, j))) of
       Inl e \<Rightarrow> (Inl e, s)
     | Inr (rp, j) \<Rightarrow>
         (case close_report E now result rp j r of
            (Inl e, r') \<Rightarrow> (Inl e, put_run run_id r' s)
          | (Inr _, r') \<Rightarrow> (Inr r', put_run run_id r' s))) s"

section \<open>Effects\<close>

lemma attempts_next_update_first:
  assumes "List.find p as = Some a" and "attempt_active a"
    and "\<And>x. at_attempt_id (f x) = at_attempt_id x \<and> at_node_id (f x) = at_node_id x \<and> at_target (f x) = at_target x \<and>
              at_execution_epoch (f x) = at_execution_epoch x"
  shows "attempts_next as (update_first p f as)"
proof -
  have "list_all2 attempt_next as (update_first p f as)"
    using assms(1,2)
  proof (induction as)
    case (Cons x as)
    then show ?case
      using assms(3) [of x] by (auto simp: attempt_next_def list.rel_refl split: if_splits)
  qed simp
  then show ?thesis unfolding attempts_next_def by (intro exI [of _ "update_first p f as"] exI [of _ "[]"]) simp
qed

lemma report_attempt_InrD:
  assumes "report_attempt r result = Inr a"
  shows "List.find (\<lambda>x. at_attempt_id x = at_attempt_id a) (rn_attempts r) = Some a" and "attempt_active a"
    and "at_execution_epoch a = rn_execution_epoch r" and "dget result ''execution_id'' = str_or_null (rn_execution_id r)"
    and "dget result ''attempt_id'' = JStr (at_attempt_id a)"
proof -
  from assms have f: "List.find (\<lambda>x. JStr (at_attempt_id x) = dget result ''attempt_id'') (rn_attempts r) = Some a"
    and rest: "attempt_active a" "at_execution_epoch a = rn_execution_epoch r" "dget result ''execution_id'' = str_or_null (rn_execution_id r)"
    by (auto simp: report_attempt_def split: option.splits sum.splits)
  from find_SomeD [OF f] show id: "dget result ''attempt_id'' = JStr (at_attempt_id a)" by simp
  from f show "List.find (\<lambda>x. at_attempt_id x = at_attempt_id a) (rn_attempts r) = Some a" by (simp add: id)
  from rest show "attempt_active a" "at_execution_epoch a = rn_execution_epoch r"
    "dget result ''execution_id'' = str_or_null (rn_execution_id r)" by simp_all
qed

lemma admit_report_InrD:
  assumes "admit_report E r result = Inr rp"
  shows "rn_state r = Running" and "report_attempt r result = Inr (rp_attempt rp)" and "report_contract E r = Inr (rp_contract rp)"
  using assms by (auto simp: admit_report_def Let_def split: if_splits)

lemma close_attempt_simps [simp]:
  "rn_state (close_attempt i st r) = rn_state r" "rn_events (close_attempt i st r) = rn_events r"
  "rn_execution_id (close_attempt i st r) = rn_execution_id r" "rn_execution_epoch (close_attempt i st r) = rn_execution_epoch r"
  "rn_committed (close_attempt i st r) = rn_committed r" "same_run q (close_attempt i st r) = same_run q r"
  "rn_attempts (close_attempt i st r) = update_first (\<lambda>a. at_attempt_id a = i) (\<lambda>a. a\<lparr>at_state := st\<rparr>) (rn_attempts r)"
  by (simp_all add: close_attempt_def set_attempt_def same_run_def)

lemma outcome_decisions [simp]:
  "dget (repair_outcome result err j) ''decision'' = JStr ''repair''"
  "dget (attestation_outcome result j) ''decision'' = JStr ''attestation''"
  by (simp_all add: repair_outcome_def attestation_outcome_def evidence_field_def dict_with_def)

text \<open>A Run that leaves the running state with a decision to make, or ends.\<close>

lemma decision_next:
  assumes "rn_state r = Running" and "same_run r r1" and "rn_events r1 = rn_events r" and "rn_state r1 = rn_state r"
    and "execution_next r r1" and "run_core r \<Longrightarrow> rn_execution_id r1 \<noteq> None \<and> rn_committed r1 \<noteq> None"
    and "do_transition now Run_Needs_Decision why r1 = Inr r2"
    and "same_run r2 r3" and "rn_events r3 = rn_events r2 @ es" and "\<forall>e \<in> set es. log_move e = None" and "rn_state r3 = rn_state r2"
    and "execution_next r2 r3" and "pending_decision r3 \<in> {JStr ''repair'', JStr ''attestation''}"
  shows "run_next r r3"
proof (rule run_next_trans)
  show "run_next r r1"
    by (rule run_next_same_core) (use assms(1-6) in \<open>auto simp: run_core_def\<close>)
  have "rn_state r3 = Awaiting_Decision"
    using do_transition_state [OF assms(7)] active_targets(3) assms(11) by metis
  then show "run_next r1 r3"
    using assms by (intro transition_next [OF assms(7-12)]) (auto simp: run_core_def)
qed

lemma running_next:
  assumes "rn_state r = Running" and "same_run r r1" and "rn_events r1 = rn_events r" and "rn_state r1 = rn_state r"
    and "execution_next r r1" and "run_core r \<Longrightarrow> rn_execution_id r1 \<noteq> None \<and> rn_committed r1 \<noteq> None"
  shows "run_next r r1"
  by (rule run_next_same_core) (use assms in \<open>auto simp: run_core_def\<close>)

lemma run_coreD: "run_core r \<Longrightarrow> rn_state r = Running \<Longrightarrow> rn_execution_id r \<noteq> None \<and> rn_committed r \<noteq> None"
  by (auto simp: run_core_def)

lemma closed_attempts:
  assumes "List.find (\<lambda>x. at_attempt_id x = i) (rn_attempts r) = Some a" and "attempt_active a"
  shows "attempts_next (rn_attempts r) (update_first (\<lambda>x. at_attempt_id x = i) (\<lambda>x. x\<lparr>at_state := st\<rparr>) (rn_attempts r))"
  by (rule attempts_next_update_first [OF assms]) simp

lemma closed_running:
  assumes "rn_state r = Running" and "List.find (\<lambda>x. at_attempt_id x = i) (rn_attempts r) = Some a" and "attempt_active a"
  shows "run_next r ((close_attempt i st r)\<lparr>rn_outcome := oc\<rparr>)"
  by (rule running_next [OF assms(1)])
    (use run_coreD [OF _ assms(1)] closed_attempts [OF assms(2,3)] in \<open>auto simp: same_run_def close_attempt_def set_attempt_def\<close>)

text \<open>The three ways to close a report, each from a running Run and for an attempt that is still active.\<close>

lemma decided_next:
  assumes "rn_state r = Running" and "List.find (\<lambda>x. at_attempt_id x = i) (rn_attempts r) = Some a" and "attempt_active a"
    and "do_transition now Run_Needs_Decision why ((close_attempt i st r)\<lparr>rn_outcome := Some oc\<rparr>) = Inr r2"
    and "dget oc ''decision'' \<in> {JStr ''repair'', JStr ''attestation''}"
    and "r3 = r2 \<or> (\<exists>e. r3 = log_event e r2 \<and> log_move e = None)"
  shows "run_next r r3"
proof -
  have core: "pending_decision r2 \<in> {JStr ''repair'', JStr ''attestation''}"
    using assms(4,5) by (auto elim!: do_transition_InrD simp: pending_decision_def)
  have "run_next r r2"
    by (rule decision_next [OF assms(1) _ _ _ _ _ assms(4), where es = "[]"])
      (use core run_coreD [OF _ assms(1)] closed_attempts [OF assms(2,3)] in
        \<open>auto simp: same_run_def close_attempt_def set_attempt_def\<close>)
  with assms(6) show ?thesis by (auto intro: run_next_logI)
qed

lemma fail_report_next:
  assumes "rn_state r = Running" and "List.find (\<lambda>x. at_attempt_id x = at_attempt_id (rp_attempt rp)) (rn_attempts r) = Some a"
    and "attempt_active a"
  shows "run_next r (snd (fail_report now result rp j err phase r))"
proof -
  let ?r1 = "(close_attempt (at_attempt_id (rp_attempt rp)) At_Failed r)\<lparr>rn_outcome := Some (repair_outcome result err j)\<rparr>"
  show ?thesis
  proof (cases "do_transition now Run_Needs_Decision (opt_json err) ?r1")
    case (Inl e)
    with closed_running [OF assms] show ?thesis by (simp add: fail_report_def)
  next
    case (Inr r2)
    show ?thesis
      by (rule decided_next [OF assms Inr]) (auto simp: fail_report_def Inr result_event_def split: sum.split)
  qed
qed

lemma attest_report_next:
  assumes "rn_state r = Running" and "List.find (\<lambda>x. at_attempt_id x = at_attempt_id (rp_attempt rp)) (rn_attempts r) = Some a"
    and "attempt_active a"
  shows "run_next r (snd (attest_report now result rp j err r))"
proof -
  let ?r1 = "(close_attempt (at_attempt_id (rp_attempt rp)) At_Decision_Required r)\<lparr>rn_outcome := Some (attestation_outcome result j)\<rparr>"
  show ?thesis
  proof (cases "do_transition now Run_Needs_Decision None ?r1")
    case (Inl e)
    with closed_running [OF assms] show ?thesis by (simp add: attest_report_def)
  next
    case (Inr r2)
    show ?thesis
      by (rule decided_next [OF assms Inr]) (auto simp: attest_report_def Inr result_event_def)
  qed
qed

lemma complete_report_next:
  assumes "rn_state r = Running" and "List.find (\<lambda>x. at_attempt_id x = at_attempt_id (rp_attempt rp)) (rn_attempts r) = Some a"
    and "attempt_active a"
  shows "run_next r (snd (complete_report now result rp j r))"
proof -
  let ?r1 = "(close_attempt (at_attempt_id (rp_attempt rp)) At_Completed r)\<lparr>rn_outcome := Some (completed_outcome result j)\<rparr>"
  have c: "run_next r ?r1" by (rule closed_running [OF assms])
  show ?thesis
  proof (cases "do_transition now Run_Succeeded None ?r1")
    case (Inl e)
    with c show ?thesis by (simp add: complete_report_def)
  next
    case (Inr r2)
    have "run_next ?r1 r2" by (rule idle_transition_next [where es = "[]", OF Inr]) (auto simp: same_run_def)
    with run_next_trans [OF c] show ?thesis
      by (simp add: complete_report_def Inr result_event_def run_next_logI)
  qed
qed

lemma close_report_next:
  assumes "rn_state r = Running" and "List.find (\<lambda>x. at_attempt_id x = at_attempt_id (rp_attempt rp)) (rn_attempts r) = Some a"
    and "attempt_active a"
  shows "run_next r (snd (close_report E now result rp j r))"
  using fail_report_next [OF assms] attest_report_next [OF assms] complete_report_next [OF assms]
  by (auto simp: close_report_def Let_def)

lemma record_result_effect:
  "runs_next (runs s) (runs (snd (record_result E invoke now st1 st2 run_id result s)))"
  unfolding record_result_def
proof (rule with_run_effect, goal_cases)
  case (1 r)
  show ?case
  proof (cases "res_bind (admit_report E r result) (\<lambda>rp. res_bind (judge_report E invoke st1 st2 (dget result ''value'') rp) (\<lambda>j. Inr (rp, j)))")
    case (Inr x)
    obtain rp j where x: "x = (rp, j)" by (cases x)
    from Inr have adm: "admit_report E r result = Inr rp" by (auto simp: x)
    note att = report_attempt_InrD [OF admit_report_InrD(2) [OF adm]]
    have "run_next r (snd (close_report E now result rp j r))"
      by (rule close_report_next [OF admit_report_InrD(1) [OF adm] att(1,2)])
    with 1 Inr show ?thesis
      by (cases "close_report E now result rp j r") (auto simp: x split: sum.split intro!: runs_next_put)
  qed simp
qed

interpretation record_result: run_operation "record_result E invoke now st1 st2 run_id result"
  for E invoke now st1 st2 run_id result
  by unfold_locales (rule record_result_effect)

section \<open>Only fenced and validated results are accepted\<close>

lemma close_report_state:
  assumes "close_report E now result rp j r = (Inr (), r')" and "rn_state r = Running"
  shows "rn_state r' = Run_Completed \<and> jd_error j = JNull \<and> \<not> jd_schema_rejects j \<or> rn_state r' = Awaiting_Decision"
  using assms
  by (auto simp: close_report_def fail_report_def attest_report_def complete_report_def result_event_def do_transition_def Let_def terminal_states_def
      split: if_splits sum.splits)

lemma close_report_attempts:
  assumes "close_report E now result rp j r = (Inr (), r')"
  shows "\<exists>st. rn_attempts r' = update_first (\<lambda>a. at_attempt_id a = at_attempt_id (rp_attempt rp)) (\<lambda>a. a\<lparr>at_state := st\<rparr>) (rn_attempts r)"
  using assms
  by (auto simp: close_report_def fail_report_def attest_report_def complete_report_def result_event_def Let_def
      elim!: do_transition_InrD split: if_splits sum.splits)

lemma judge_report_accepts:
  assumes "judge_report E invoke st1 st2 value rp = Inr j" and "jd_error j = JNull" and "\<not> jd_schema_rejects j"
  shows "\<And>schema_ref. output_schema_of rp = Some schema_ref \<Longrightarrow>
      \<exists>schema. load_schema E schema_ref = Inr schema \<and> env_iter_errors E schema value = []"
    and "\<And>v. validator_of rp = Some v \<Longrightarrow> fst (validator_verdict E invoke v value)"
  using assms
  by (auto simp: judge_report_def judge_validator_def output_errors_def validate_value_def coded_errors_def Let_def
      dest: load_schema_InrD split: option.splits sum.splits if_splits prod.splits)

text \<open>
  Claim C5. A result is accepted only while the Run is executing, for an attempt that is still active, in the
  current epoch and execution; every attempt that had already ended is unchanged. The Run is then completed
  or waits for a decision, and it is completed only when the Observer itself found the value valid under the
  output schema of the committed contract and the contract's success validator passed it. A second report,
  whatever it claims, is refused and changes nothing.
\<close>

theorem result_validated:
  assumes ok: "record_result E invoke now st1 st2 run_id result s = (Inr r', s')"
  shows "(\<exists>r a. map_of (runs s) run_id = Some r \<and> rn_state r = Running \<and> a \<in> set (rn_attempts r) \<and> attempt_active a \<and>
      dget result ''attempt_id'' = JStr (at_attempt_id a) \<and> at_execution_epoch a = rn_execution_epoch r \<and>
      dget result ''execution_id'' = str_or_null (rn_execution_id r) \<and> attempts_next (rn_attempts r) (rn_attempts r') \<and>
      rn_state r' \<in> {Run_Completed, Awaiting_Decision} \<and>
      (\<forall>v c contract. rn_state r' = Run_Completed \<and> rn_committed r = Some v \<and> pa_io_contract_ref (tc_program (cv_snapshot v)) = Some c \<and>
         load_io_contract E c = Inr contract \<longrightarrow>
         (\<forall>schema_ref. io_output_schema_ref contract = Some schema_ref \<longrightarrow>
            (\<exists>schema. load_schema E schema_ref = Inr schema \<and> env_iter_errors E schema (dget result ''value'') = [])) \<and>
         (\<forall>w. io_success_validator_ref contract = Some w \<longrightarrow> fst (validator_verdict E invoke w (dget result ''value''))))) \<and>
    record_result E' invoke' now' st1' st2' run_id result' s' = (Inl (ValueError ''execution_not_running''), s')"
proof -
  from ok obtain r rp j where r: "map_of (runs s) run_id = Some r" and adm: "admit_report E r result = Inr rp"
    and jd: "judge_report E invoke st1 st2 (dget result ''value'') rp = Inr j"
    and cl: "close_report E now result rp j r = (Inr (), r')" and s': "s' = put_run run_id r' s"
    by (auto simp: record_result_def with_run_def split: option.splits sum.splits prod.splits)
  note A = admit_report_InrD [OF adm]
  note B = report_attempt_InrD [OF A(2)]
  have st: "rn_state r' = Run_Completed \<and> jd_error j = JNull \<and> \<not> jd_schema_rejects j \<or> rn_state r' = Awaiting_Decision"
    by (rule close_report_state [OF cl A(1)])
  have contract: "rp_contract rp = Some contract"
    if "rn_committed r = Some v" "pa_io_contract_ref (tc_program (cv_snapshot v)) = Some c" "load_io_contract E c = Inr contract" for v c contract
    using A(3) that by (simp add: report_contract_def)
  have mem: "rp_attempt rp \<in> set (rn_attempts r)" using find_SomeD [OF B(1)] by simp
  have att: "attempts_next (rn_attempts r) (rn_attempts r')"
    using close_report_attempts [OF cl] closed_attempts [OF B(1,2)] by metis
  have "record_result E' invoke' now' st1' st2' run_id result' s' = (Inl (ValueError ''execution_not_running''), s')"
    using st by (auto simp: record_result_def with_run_def s' admit_report_def checks.simps)
  with r A(1) B mem att st judge_report_accepts [OF jd] contract show ?thesis
    by (intro conjI exI [of _ r] exI [of _ "rp_attempt rp"]) (auto simp: output_schema_of_def validator_of_def)
qed

text \<open>A running execution with one attempt, and the report of its result.\<close>

definition demo_running :: run_record where
  "demo_running = demo_committed_run\<lparr>rn_state := Running, rn_execution_id := Some ''x'', rn_attempts := [new_attempt ''a'' ''s'' 1]\<rparr>"

definition demo_result :: dict where
  "demo_result = [(''attempt_id'', JStr ''a''), (''execution_epoch'', JInt 1), (''execution_id'', JStr ''x''), (''value'', JInt 7)]"

definition demo_stamp :: evidence_stamp where
  "demo_stamp = \<lparr>es_suffix = ''1'', es_created_at = ''now''\<rparr>"

lemma demo_running_facts [simp]:
  "rn_state demo_running = Running" "rn_execution_id demo_running = Some ''x''" "rn_execution_epoch demo_running = 1"
  "rn_attempts demo_running = [new_attempt ''a'' ''s'' 1]" "rn_committed demo_running = Some (rn_draft demo_draft_run)"
  "pa_io_contract_ref (tc_program demo_closure) = None"
  by (simp_all add: demo_running_def demo_committed_run_def demo_draft_run_def demo_run_def new_run_def demo_closure_def minimal_closure_def)

lemma demo_admit: "\<exists>rp. admit_report demo_env2 demo_running demo_result = Inr rp \<and> rp_contract rp = None \<and> rp_evidence rp = []"
  by (simp add: admit_report_def report_attempt_def demo_result_def new_attempt_def attempt_active_def str_or_null_def dhas_def
      result_digest_def canonical_json_bytes_def demo_env2_def demo_sha_def check_resource_ref_def parse_evidences_def or_else_def
      report_contract_def Let_def)

lemma demo_reported:
  "\<exists>r'. record_result demo_env2 (\<lambda>p v. Inr v) 2 demo_stamp demo_stamp ''r'' demo_result (demo_store demo_running)
     = (Inr r', put_run ''r'' r' (demo_store demo_running)) \<and> rn_state r' = Run_Completed"
proof -
  obtain rp where rp: "admit_report demo_env2 demo_running demo_result = Inr rp" "rp_contract rp = None" using demo_admit by blast
  then show ?thesis
    by (simp add: record_result_def with_run_def demo_store_def judge_report_def output_schema_of_def judge_validator_def
        validator_of_def close_report_def demo_result_def str_or_def terminal_states_def complete_report_def do_transition_def
        result_event_def Let_def)
qed

theorem result_validated_witness:
  "\<exists>r' s'. record_result demo_env2 (\<lambda>p v. Inr v) 2 demo_stamp demo_stamp ''r'' demo_result (demo_store demo_running) = (Inr r', s') \<and>
     rn_state r' = Run_Completed \<and>
     record_result demo_env2 (\<lambda>p v. Inr v) 3 demo_stamp demo_stamp ''r'' demo_result s' = (Inl (ValueError ''execution_not_running''), s')"
proof -
  obtain r' s' where ok: "record_result demo_env2 (\<lambda>p v. Inr v) 2 demo_stamp demo_stamp ''r'' demo_result (demo_store demo_running) = (Inr r', s')"
    "rn_state r' = Run_Completed" using demo_reported by blast
  from result_validated [OF ok(1), of demo_env2 "\<lambda>p v. Inr v" 3 demo_stamp demo_stamp demo_result] ok show ?thesis by blast
qed

end
