(* ===== verification/Slave.thy ===== *)
theory Slave
  imports Plugins Results
begin

text \<open>
  The Slave service (\<^verbatim>\<open>slave/service.py\<close>, \<^verbatim>\<open>slave/executor.py\<close>): the registry of executors, the
  package cache, and the lifecycle of capability activations, that is provisioning, stopping, health
  inspection and reconciliation with the runtime providers. Dispatch of an attempt is in
  \<open>Slave_Run\<close>.

  The state is the in-memory service; the writes of \<^verbatim>\<open>_persist_activation\<close> go to the database, which is
  absent in this profile. The lock of an activation key makes each operation one step. The plugin host
  and the identifiers of reports are arguments.
\<close>

section \<open>Executors\<close>

record execution_result =
  xr_resource_ref :: resource_ref
  xr_value :: json
  xr_replay_safety :: string
  xr_terminal_state :: string
  xr_terminal_error :: json
  xr_validation_evidence :: "json list"
  xr_provenance :: json

definition execution_digest :: "execution_result \<Rightarrow> string" where
  "execution_digest r = digest_or_empty (xr_resource_ref r)"

record executor_descriptor =
  xd_package_type :: string
  xd_kind :: string
  xd_version :: string
  xd_operations :: "string list"
  xd_replay_safety :: string
  xd_effect_class :: string

definition executor_descriptor_ref :: "executor_descriptor \<Rightarrow> string" where
  "executor_descriptor_ref d = ''executor://'' @ xd_package_type d @ ''/'' @ xd_kind d @ ''/'' @ xd_version d"

record executor_adapter =
  ad_object :: nat
  ad_descriptor :: executor_descriptor
  ad_invoke :: "dict \<Rightarrow> string \<Rightarrow> execution_result result"

type_synonym executor_registry = "(contract_key \<times> executor_adapter) list"

text \<open>A reference to JSON content by its digest alone, as an executor or a provider computes it.\<close>

definition value_ref :: "env \<Rightarrow> json \<Rightarrow> resource_ref result" where
  "value_ref E v =
     (case canonical_json_bytes (env_hash E) v of
        Inl e \<Rightarrow> Inl e
      | Inr b \<Rightarrow> Inr ((plain_ref (content_prefix @ digest_bytes (env_hash E) b []))
                        \<lparr>rr_identity_criterion := Some ''content_digest''\<rparr>))"

definition make_result :: "env \<Rightarrow> json \<Rightarrow> string \<Rightarrow> execution_result result" where
  "make_result E v replay_safety =
     (case value_ref E v of
        Inl e \<Rightarrow> Inl e
      | Inr ref \<Rightarrow> Inr \<lparr>xr_resource_ref = ref, xr_value = v, xr_replay_safety = replay_safety, xr_terminal_state = ''completed'',
                         xr_terminal_error = JNull, xr_validation_evidence = [], xr_provenance = JNull\<rparr>)"

text \<open>
  What a program run as a child process ends with: the timeout, or an exit status and the standard
  output, \<open>None\<close> when it is not text. A program that is not text does not start.
\<close>

datatype process_outcome = Undecodable | Process_Timeout | Process_Exit int "string option"

definition process_descriptor :: executor_descriptor where
  "process_descriptor = \<lparr>xd_package_type = ''function'', xd_kind = ''process:json_stdio'', xd_version = ''1'',
     xd_operations = [''run_code''], xd_replay_safety = ''DeclaredByPackage'', xd_effect_class = ''Sandboxed''\<rparr>"

definition process_invoke :: "env \<Rightarrow> (string \<Rightarrow> dict \<Rightarrow> process_outcome) \<Rightarrow> dict \<Rightarrow> string \<Rightarrow> execution_result result" where
  "process_invoke E process payload program =
     (if program = [] then Inl (ValueError ''program_required'')
      else (case process program payload of
              Undecodable \<Rightarrow> Inl (ValueError ''utf-8'')
            | Process_Timeout \<Rightarrow> Inl (RuntimeError ''capability_timeout'')
            | Process_Exit status output \<Rightarrow>
                if status \<noteq> 0 then Inl (RuntimeError ''capability_exec_error'')
                else (case output of
                        None \<Rightarrow> Inl (ValueError ''utf-8'')
                      | Some out \<Rightarrow>
                          (case env_json_loads E (if strip out = [] then ''null'' else strip out) of
                             None \<Rightarrow> Inl (RuntimeError ''subprocess_invalid_json'')
                           | Some v \<Rightarrow> make_result E v (xd_replay_safety process_descriptor)))))"

definition executor_key :: "executor_descriptor \<Rightarrow> contract_key" where
  "executor_key d = (xd_package_type d, xd_kind d, xd_version d)"

definition register_executor :: "executor_adapter \<Rightarrow> (executor_registry, unit) op" where
  "register_executor a reg =
     (let d = ad_descriptor a in
      case map_of reg (executor_key d) of
        Some other \<Rightarrow>
          if ad_object other \<noteq> ad_object a
          then (Inl (ValueError (''executor_conflict:'' @ xd_package_type d @ ''/'' @ xd_kind d @ ''/'' @ xd_version d)), reg)
          else (Inr (), AList.update (executor_key d) a reg)
      | None \<Rightarrow> (Inr (), AList.update (executor_key d) a reg))"

definition get_executor :: "executor_registry \<Rightarrow> string \<Rightarrow> execution_contract \<Rightarrow> executor_adapter result" where
  "get_executor reg package_type x =
     (case map_of reg (package_type, ec_kind x, ec_version x) of
        Some a \<Rightarrow> Inr a
      | None \<Rightarrow> Inl (ValueError (''unsupported_executor:'' @ package_type @ ''/'' @ ec_kind x @ ''/'' @ ec_version x)))"

definition executor_supports :: "executor_registry \<Rightarrow> string \<Rightarrow> execution_contract \<Rightarrow> bool" where
  "executor_supports reg package_type x =
     (case get_executor reg package_type x of Inl _ \<Rightarrow> False | Inr _ \<Rightarrow> True)"

definition invoke_for :: "executor_registry \<Rightarrow> string \<Rightarrow> execution_contract \<Rightarrow> dict \<Rightarrow> string \<Rightarrow> execution_result result" where
  "invoke_for reg package_type x payload program =
     (case get_executor reg package_type x of Inl e \<Rightarrow> Inl e | Inr a \<Rightarrow> ad_invoke a payload program)"

section \<open>The service\<close>

record resource_event =
  rv_event_id :: string
  rv_resource_ref :: string
  rv_event_type :: string
  rv_package_version_ref :: string
  rv_package_digest :: string
  rv_target_slave :: string
  rv_evidence_refs :: "string list"

record slave_service =
  ss_slave_id :: string
  ss_workspace_id :: string
  ss_replica_state :: string
  ss_available :: bool
  ss_attempts :: "(string \<times> execution_result) list"
  ss_supported_operations :: "string list"
  ss_executors :: executor_registry
  ss_package_cache :: "(string \<times> package_version) list"
  ss_activations :: "(string \<times> activation) list"
  ss_resource_events :: "resource_event list"
  ss_pending_health_reports :: "(string \<times> health_report) list"
  ss_last_reported_health :: "(string \<times> (nat \<times> activation_state)) list"

type_synonym 'a service_op = "(slave_service, 'a) op"

definition package_cache_key :: "string \<Rightarrow> string \<Rightarrow> string" where
  "package_cache_key ref digest = ref @ ''#digest:'' @ lower digest"

definition cache_package :: "package_version \<Rightarrow> string \<Rightarrow> slave_service \<Rightarrow> slave_service" where
  "cache_package p command_ref s =
     s\<lparr>ss_package_cache := fold (\<lambda>alias cache. AList.update alias p (AList.update (package_cache_key alias (pv_package_digest p)) p cache))
         (remdups [command_ref, version_ref p]) (ss_package_cache s)\<rparr>"

definition find_cached_package :: "string \<Rightarrow> string option \<Rightarrow> slave_service \<Rightarrow> package_version option" where
  "find_cached_package ref digest s =
     (if nonempty digest
      then let requested = lower (the digest);
               named = (\<lambda>item. lower (pv_package_digest item) = requested \<and> ref = version_ref item)
           in (case map_of (ss_package_cache s) (package_cache_key ref requested) of
                 Some exact \<Rightarrow>
                   if lower (pv_package_digest exact) = requested then Some exact
                   else List.find named (map snd (ss_package_cache s))
               | None \<Rightarrow> List.find named (map snd (ss_package_cache s)))
      else map_of (ss_package_cache s) ref)"

definition exported_operations :: "package_version \<Rightarrow> string list" where
  "exported_operations p = map (\<lambda>ex. operation_name (rr_resource_id (ce_capability_descriptor_ref ex))) (pv_capability_exports p)"

definition capability_snapshot :: "slave_service \<Rightarrow> string list" where
  "capability_snapshot s =
     remdups (ss_supported_operations s @ concat (map (\<lambda>(_, a).
        if ac_desired_state a \<noteq> Desired_Running \<or> ac_activation_state a \<noteq> Ready then []
        else (case find_cached_package (ac_package_version_ref a) (Some (ac_package_digest a)) s of
                None \<Rightarrow> []
              | Some p \<Rightarrow> exported_operations p)) (ss_activations s)))"

definition uses_runtime_plugin :: "slave_service \<Rightarrow> package_version \<Rightarrow> bool" where
  "uses_runtime_plugin s p =
     (if package_key p = DRIVER_ORCHESTRATOR_KEY then False
      else \<not> executor_supports (ss_executors s) (pv_package_type p) (pv_execution p))"

section \<open>Lifecycle fencing\<close>

definition lifecycle_retry :: "activation option \<Rightarrow> desired_state \<Rightarrow> string \<Rightarrow> nat \<Rightarrow> string \<Rightarrow> bool result" where
  "lifecycle_retry existing desired digest revision key =
     (case existing of
        None \<Rightarrow> Inr False
      | Some a \<Rightarrow>
          if lower (ac_package_digest a) \<noteq> lower digest then Inl (RuntimeError ''capability_package_identity_conflict'')
          else if revision < ac_activation_revision a then Inl (RuntimeError ''stale_activation_revision'')
          else if revision = ac_activation_revision a
          then if ac_desired_state a \<noteq> desired then Inl (RuntimeError ''activation_revision_conflict'')
               else let terminal = (if desired = Desired_Running then ac_activation_state a = Ready
                                    else ac_activation_state a = Stopped)
                    in if ac_last_idempotency_key a \<noteq> key \<and> \<not> terminal
                       then Inl (RuntimeError ''activation_revision_conflict'') else Inr True
          else Inr False)"

definition accept_activation_revision :: "string \<Rightarrow> bool \<Rightarrow> slave_service \<Rightarrow> slave_service" where
  "accept_activation_revision key retry s =
     (if retry then s else s\<lparr>ss_pending_health_reports := AList.delete key (ss_pending_health_reports s)\<rparr>)"

definition remember_health_report :: "string \<Rightarrow> health_report \<Rightarrow> health_report service_op" where
  "remember_health_report key r s =
     (Inr r, s\<lparr>ss_last_reported_health :=
        AList.update key (hr_activation_revision r, hr_activation_state r) (ss_last_reported_health s)\<rparr>)"

definition put_activation :: "string \<Rightarrow> activation \<Rightarrow> slave_service \<Rightarrow> slave_service" where
  "put_activation key a s = s\<lparr>ss_activations := AList.update key a (ss_activations s)\<rparr>"

definition health :: "slave_service \<Rightarrow> string \<Rightarrow> package_version \<Rightarrow> activation_state \<Rightarrow> nat \<Rightarrow> string list \<Rightarrow> dict \<Rightarrow> health_report" where
  "health s report_id p state revision evidence details =
     \<lparr>hr_report_id = report_id, hr_package_version_ref = version_ref p, hr_package_digest = pv_package_digest p,
      hr_target_slave = ss_slave_id s, hr_activation_state = state, hr_evidence_refs = evidence, hr_details = details,
      hr_activation_revision = revision\<rparr>"

definition resource_frame :: "slave_service \<Rightarrow> health_report \<Rightarrow> string \<Rightarrow> resource_event" where
  "resource_frame s r event_type =
     \<lparr>rv_event_id = ''resource-'' @ hr_report_id r, rv_resource_ref = hr_package_version_ref r, rv_event_type = event_type,
      rv_package_version_ref = hr_package_version_ref r, rv_package_digest = hr_package_digest r, rv_target_slave = ss_slave_id s,
      rv_evidence_refs = hr_evidence_refs r\<rparr>"

definition add_event :: "resource_event \<Rightarrow> slave_service \<Rightarrow> slave_service" where
  "add_event ev s = s\<lparr>ss_resource_events := ss_resource_events s @ [ev]\<rparr>"

section \<open>Package validation\<close>

text \<open>An \<^verbatim>\<open>except\<close> clause that raises its own \<^verbatim>\<open>RuntimeError\<close>.\<close>

definition raise_as :: "(py_error \<Rightarrow> bool) \<Rightarrow> string \<Rightarrow> 'a result \<Rightarrow> 'a result" where
  "raise_as caught code r = (case r of Inl e \<Rightarrow> Inl (if caught e then RuntimeError code else e) | Inr x \<Rightarrow> Inr x)"

definition is_parse_error :: "py_error \<Rightarrow> bool" where
  "is_parse_error e = (is_value_error e \<or> (case e of TypeError _ \<Rightarrow> True | _ \<Rightarrow> False))"

definition is_read_error :: "py_error \<Rightarrow> bool" where
  "is_read_error e = (is_value_error e \<or> (case e of FileNotFoundError _ \<Rightarrow> True | _ \<Rightarrow> False))"

definition is_provision_error :: "py_error \<Rightarrow> bool" where
  "is_provision_error e = (is_content_error e \<or> (case e of RuntimeError _ \<Rightarrow> True | _ \<Rightarrow> False))"

definition read_json :: "env \<Rightarrow> resource_ref \<Rightarrow> json result" where
  "read_json E r =
     (case env_get E r of
        Inl e \<Rightarrow> Inl e
      | Inr raw \<Rightarrow> (case env_json_loads E raw of None \<Rightarrow> Inl (ValueError ''invalid_json'') | Some v \<Rightarrow> Inr v))"

definition slave_io_contract :: "env \<Rightarrow> resource_ref \<Rightarrow> io_contract result" where
  "slave_io_contract E r =
     (case env_get E r of
        Inl e \<Rightarrow> Inl e
      | Inr raw \<Rightarrow>
          raise_as is_parse_error ''io_contract_invalid''
            (case env_json_loads E raw of None \<Rightarrow> Inl (ValueError ''invalid_json'') | Some v \<Rightarrow> io_contract_of_json v))"

definition checked_schema :: "env \<Rightarrow> resource_ref \<Rightarrow> json result" where
  "checked_schema E r =
     (case read_json E r of
        Inl e \<Rightarrow> Inl e
      | Inr schema \<Rightarrow> (case validate_schema E schema of Inl e \<Rightarrow> Inl e | Inr _ \<Rightarrow> Inr schema))"

definition check_slave_schema :: "env \<Rightarrow> resource_ref option \<Rightarrow> unit result" where
  "check_slave_schema E r =
     (case r of
        None \<Rightarrow> Inr ()
      | Some ref \<Rightarrow> (case raise_as is_content_error ''io_contract_invalid'' (checked_schema E ref) of Inl e \<Rightarrow> Inl e | Inr _ \<Rightarrow> Inr ()))"

definition check_slave_validator :: "env \<Rightarrow> resource_ref option \<Rightarrow> unit result" where
  "check_slave_validator E r =
     (case r of
        None \<Rightarrow> Inr ()
      | Some ref \<Rightarrow> (case raise_as is_read_error ''io_contract_invalid'' (env_get E ref) of Inl e \<Rightarrow> Inl e | Inr _ \<Rightarrow> Inr ()))"

fun validate_slave_exports :: "env \<Rightarrow> capability_export list \<Rightarrow> unit result" where
  "validate_slave_exports E [] = Inr ()"
| "validate_slave_exports E (ex # exs) =
     (case slave_io_contract E (ce_io_contract_ref ex) of
        Inl e \<Rightarrow> Inl e
      | Inr c \<Rightarrow>
          (case check_slave_schema E (io_input_schema_ref c) of
             Inl e \<Rightarrow> Inl e
           | Inr _ \<Rightarrow>
               (case check_slave_schema E (io_output_schema_ref c) of
                  Inl e \<Rightarrow> Inl e
                | Inr _ \<Rightarrow>
                    (case check_slave_validator E (io_success_validator_ref c) of
                       Inl e \<Rightarrow> Inl e
                     | Inr _ \<Rightarrow> validate_slave_exports E exs))))"

text \<open>
  \<^verbatim>\<open>CapabilityPackageVersion.model_validate(package.model_dump(mode="json"))\<close>: the package is built
  again from its fields, so its references, its digest and its contract are checked again.
\<close>

definition export_valid :: "capability_export \<Rightarrow> bool" where
  "export_valid ex =
     (validate_identity (ce_capability_descriptor_ref ex) \<and> validate_identity (ce_io_contract_ref ex) \<and> validate_refs ex = Inr ())"

definition revalidate_package :: "env \<Rightarrow> package_version \<Rightarrow> package_version result" where
  "revalidate_package E p =
     raise_as is_parse_error ''capability_package_invalid''
       (if \<not> list_all export_valid (pv_capability_exports p) then Inl (ValidationError ''CapabilityPackageVersion'')
        else make_package E p)"

definition slave_body_ref :: "package_version \<Rightarrow> string \<Rightarrow> resource_ref result" where
  "slave_body_ref p field_name =
     (case map_of (pv_body p) field_name of
        None \<Rightarrow> Inl (RuntimeError (field_name @ ''_required''))
      | Some v \<Rightarrow> raise_as is_parse_error (field_name @ ''_required'') (resource_ref_of_json v))"

definition selected_export :: "package_version \<Rightarrow> compute_binding option \<Rightarrow> capability_export result" where
  "selected_export p b =
     (case b of
        None \<Rightarrow> Inl (RuntimeError ''capability_descriptor_binding_required'')
      | Some cb \<Rightarrow>
          raise_as is_value_error ''capability_descriptor_binding_mismatch'' (export_for p (cb_capability_descriptor_ref cb)))"

section \<open>Provisioning\<close>

definition pending_activation :: "slave_service \<Rightarrow> provision_command \<Rightarrow> package_version \<Rightarrow> activation option \<Rightarrow> activation" where
  "pending_activation s c p existing =
     \<lparr>ac_package_version_ref = (case existing of None \<Rightarrow> version_ref p | Some a \<Rightarrow> ac_package_version_ref a),
      ac_package_digest = (case existing of None \<Rightarrow> pv_package_digest p | Some a \<Rightarrow> ac_package_digest a),
      ac_target_slave = (case existing of None \<Rightarrow> ss_slave_id s | Some a \<Rightarrow> ac_target_slave a),
      ac_activation_closure_version_ref =
        or_string (pc_activation_closure_version_ref c) (pv_package_closure_version_ref p),
      ac_compute_binding_ref = (case pc_compute_binding c of None \<Rightarrow> [] | Some b \<Rightarrow> cb_binding_id b),
      ac_desired_state = Desired_Running, ac_activation_revision = pc_activation_revision c,
      ac_last_idempotency_key = pc_idempotency_key c,
      ac_evidence_refs = (case existing of None \<Rightarrow> [] | Some a \<Rightarrow> ac_evidence_refs a),
      ac_activation_state = Provisioning,
      ac_runtime_profile = (case existing of None \<Rightarrow> [] | Some a \<Rightarrow> ac_runtime_profile a)\<rparr>"

text \<open>\<^verbatim>\<open>getattr(exc, "code", None) or str(exc) or "runtime_plugin_unavailable"\<close>\<close>

definition plugin_code :: "plugin_error \<Rightarrow> string" where
  "plugin_code e =
     (case e of RuntimePluginError code message _ \<Rightarrow> or_string code message
      | Raised (RuntimeError m) \<Rightarrow> m
      | Raised _ \<Rightarrow> [])"

definition is_runtime_error :: "plugin_error \<Rightarrow> bool" where
  "is_runtime_error e = (case e of RuntimePluginError _ _ _ \<Rightarrow> True | Raised (RuntimeError _) \<Rightarrow> True | _ \<Rightarrow> False)"

definition raised :: "plugin_error \<Rightarrow> py_error" where
  "raised e = (case e of Raised x \<Rightarrow> x | RuntimePluginError code _ _ \<Rightarrow> RuntimeError code)"

definition as_runtime_error :: "plugin_error \<Rightarrow> py_error" where
  "as_runtime_error e =
     (if is_runtime_error e then RuntimeError (or_string (plugin_code e) ''runtime_plugin_unavailable'') else raised e)"

text \<open>\<^verbatim>\<open>dict(value or {})\<close>; of the iterables of pairs that \<^verbatim>\<open>dict\<close> accepts, those with text keys.\<close>

fun json_pair :: "json \<Rightarrow> (string \<times> json) result" where
  "json_pair (JArr [JStr k, v]) = Inr (k, v)"
| "json_pair _ = Inl (TypeError ''dictionary update sequence'')"

definition dict_of :: "json \<Rightarrow> dict result" where
  "dict_of v =
     (if \<not> truthy v then Inr []
      else (case v of
              JObj d \<Rightarrow> Inr d
            | JArr xs \<Rightarrow> (case all_ok (map json_pair xs) of Inl e \<Rightarrow> Inl e | Inr kvs \<Rightarrow> Inr (dict_with [] kvs))
            | _ \<Rightarrow> Inl (TypeError ''object is not iterable'')))"

definition provisioned_state :: "env \<Rightarrow> dict \<Rightarrow> (string \<times> activation_state) option" where
  "provisioned_state E response =
     (let state = str_or E (or_else (dget response ''activation_state'') (dget response ''state'')) ''ready'' in
      if state = ''ready'' then Some (state, Ready)
      else if state = ''degraded'' then Some (state, Degraded)
      else if state = ''failed'' then Some (state, Activation_Failed)
      else None)"

text \<open>
  What an answer of a provider changes in the activation; then the arguments of
  \<^verbatim>\<open>_persist_activation\<close> and of the report are read from it, and may raise once the activation is stored.
\<close>

definition answered_activation :: "env \<Rightarrow> dict \<Rightarrow> activation_state \<Rightarrow> activation \<Rightarrow> activation result" where
  "answered_activation E response state pending =
     (case py_iter (dget_default response ''evidence_refs'' (JArr [])) of
        None \<Rightarrow> Inl (TypeError ''object is not iterable'')
      | Some items \<Rightarrow>
          (case dict_of (dget response ''runtime_profile'') of
             Inl e \<Rightarrow> Inl e
           | Inr profile \<Rightarrow>
               Inr (pending\<lparr>ac_activation_state := state,
                     ac_evidence_refs := map (py_str E) (filter (\<lambda>v. v \<noteq> JNull) items),
                     ac_runtime_profile := profile\<rparr>)))"

definition answer_details :: "dict \<Rightarrow> activation_state \<Rightarrow> dict result" where
  "answer_details response state =
     (case dict_of (dget response ''runtime_handle'') of
        Inl e \<Rightarrow> Inl e
      | Inr _ \<Rightarrow>
          if state = Activation_Failed \<and> truthy (dget response ''details'') \<and> \<not> is_obj (dget response ''details'')
          then Inl (AttributeError ''get'')
          else dict_of (dget response ''details''))"

definition idempotent_report :: "string \<Rightarrow> string \<Rightarrow> package_version \<Rightarrow> activation_state \<Rightarrow> nat \<Rightarrow> string list \<Rightarrow> health_report service_op" where
  "idempotent_report report_id key p state revision evidence s =
     remember_health_report key (health s report_id p state revision evidence [(''idempotent'', JBool True)]) s"

definition answer_provision ::
  "env \<Rightarrow> string \<Rightarrow> provision_command \<Rightarrow> package_version \<Rightarrow> activation \<Rightarrow> dict \<Rightarrow> health_report service_op" where
  "answer_provision E report_id c p pending response s =
     (case provisioned_state E response of
        None \<Rightarrow> (Inl (RuntimeError ''runtime_plugin_protocol_error''), s)
      | Some (name, state) \<Rightarrow>
          (case answered_activation E response state pending of
             Inl e \<Rightarrow> (Inl e, s)
           | Inr a \<Rightarrow>
               let key = version_ref p; s1 = put_activation key a s in
               (case answer_details response state of
                  Inl e \<Rightarrow> (Inl e, s1)
                | Inr details \<Rightarrow>
                    let r = health s1 report_id p state (pc_activation_revision c) (ac_evidence_refs a)
                              (dict_with [(''runtime_plugin_id'', JStr (str_or E (dget response ''runtime_plugin_id'') [])),
                                 (''package_version_ref'', JStr key), (''package_digest'', JStr (pv_package_digest p))] details)
                    in remember_health_report key r (add_event (resource_frame s1 r (''activation_'' @ name)) s1))))"

definition provision_runtime ::
  "env \<Rightarrow> plugin_host option \<Rightarrow> string \<Rightarrow> provision_command \<Rightarrow> package_version \<Rightarrow> health_report service_op" where
  "provision_runtime E host report_id c p s =
     (case host of
        None \<Rightarrow> (Inl (RuntimeError ''runtime_plugin_not_found''), s)
      | Some h \<Rightarrow>
          if lower (pv_package_digest p) \<noteq> lower (pc_package_digest c)
          then (Inl (RuntimeError ''capability_package_digest_mismatch''), s)
          else (case validate_slave_exports E (pv_capability_exports p) of
            Inl e \<Rightarrow> (Inl e, s)
          | Inr _ \<Rightarrow>
              let key = version_ref p; existing = map_of (ss_activations s) key in
              if list_ex (\<lambda>(_, a). ac_package_version_ref a = key \<and> lower (ac_package_digest a) \<noteq> lower (pv_package_digest p))
                   (ss_activations s)
              then (Inl (RuntimeError ''capability_package_identity_conflict''), s)
              else (case lifecycle_retry existing Desired_Running (pv_package_digest p) (pc_activation_revision c) (pc_idempotency_key c) of
                Inl e \<Rightarrow> (Inl e, s)
              | Inr retry \<Rightarrow>
                  let s1 = accept_activation_revision key retry s in
                  if retry \<and> map_option ac_activation_state existing = Some Ready
                  then idempotent_report report_id key p Ready (pc_activation_revision c) (ac_evidence_refs (the existing)) s1
                  else
                    let pending = pending_activation s c p existing;
                        s2 = put_activation key pending (cache_package p (pc_package_version_ref c) s1)
                    in (case host_provision h p c of
                          Inl e \<Rightarrow>
                            (Inl (as_runtime_error e),
                             if is_runtime_error e then put_activation key (pending\<lparr>ac_activation_state := Activation_Failed\<rparr>) s2 else s2)
                        | Inr response \<Rightarrow> answer_provision E report_id c p pending response s2))))"

definition package_mark :: "string \<Rightarrow> package_version \<Rightarrow> string" where
  "package_mark prefix p = prefix @ take 16 (pv_package_digest p)"

definition program_available :: "env \<Rightarrow> resource_ref \<Rightarrow> bool result" where
  "program_available E ref =
     (case env_stat E ref of
        Inl e \<Rightarrow> Inl e
      | Inr None \<Rightarrow> Inr False
      | Inr (Some st) \<Rightarrow> Inr (ct_integrity_verified st \<and> ct_declared_digest st = ref_digest ref))"

definition fillable_ok :: "provision_command \<Rightarrow> package_version \<Rightarrow> unit result" where
  "fillable_ok c p =
     (let v = dget (pv_body p) ''provider_fillable_hole_refs'' in
      if \<not> truthy v then Inr ()
      else (case py_iter v of
              None \<Rightarrow> Inl (TypeError ''object is not iterable'')
            | Some _ \<Rightarrow>
                (case pc_compute_binding c of
                   None \<Rightarrow> Inl (RuntimeError ''provider_fillable_binding_required'')
                 | Some b \<Rightarrow> if cb_runtime_profile b = [] then Inl (RuntimeError ''provider_fillable_binding_required'') else Inr ())))"

definition answer_executor :: "string \<Rightarrow> provision_command \<Rightarrow> package_version \<Rightarrow> activation \<Rightarrow> health_report service_op" where
  "answer_executor report_id c p pending s =
     (let key = version_ref p;
          a = pending\<lparr>ac_activation_state := Ready,
                      ac_evidence_refs := [package_mark ''package-test:'' p, package_mark ''health:'' p]\<rparr>;
          s1 = put_activation key a s
      in (case get_executor (ss_executors s1) (pv_package_type p) (pv_execution p) of
            Inl e \<Rightarrow> (Inl e, s1)
          | Inr adapter \<Rightarrow>
              let r = health s1 report_id p Ready (pc_activation_revision c) (ac_evidence_refs a)
                        [(''operation'', JStr (rr_resource_id (ce_capability_descriptor_ref (hd (pv_capability_exports p))))),
                         (''execution'', execution_json (pv_execution p)),
                         (''executor_descriptor_ref'', JStr (executor_descriptor_ref (ad_descriptor adapter))),
                         (''package_version_ref'', JStr key), (''package_digest'', JStr (pv_package_digest p))]
              in remember_health_report key r (add_event (resource_frame s1 r ''activation_ready'') s1)))"

definition provision_executor :: "env \<Rightarrow> string \<Rightarrow> provision_command \<Rightarrow> package_version \<Rightarrow> health_report service_op" where
  "provision_executor E report_id c p s =
     (case raise_as is_provision_error ''io_contract_invalid'' (validate_slave_exports E (pv_capability_exports p)) of
        Inl e \<Rightarrow> (Inl e, s)
      | Inr _ \<Rightarrow>
          if lower (pv_package_digest p) \<noteq> lower (pc_package_digest c)
          then (Inl (RuntimeError ''capability_package_digest_mismatch''), s)
          else (case fillable_ok c p of
            Inl e \<Rightarrow> (Inl e, s)
          | Inr _ \<Rightarrow>
              let key = version_ref p; existing = map_of (ss_activations s) key in
              (case lifecycle_retry existing Desired_Running (pv_package_digest p) (pc_activation_revision c) (pc_idempotency_key c) of
                 Inl e \<Rightarrow> (Inl e, s)
               | Inr retry \<Rightarrow>
                   let s1 = accept_activation_revision key retry s in
                   if retry \<and> map_option ac_activation_state existing = Some Ready
                   then idempotent_report report_id key p Ready (pc_activation_revision c) (ac_evidence_refs (the existing)) s1
                   else
                     let pending = pending_activation s c p existing;
                         s2 = put_activation key pending (cache_package p (pc_package_version_ref c) s1)
                     in (case slave_body_ref p ''program_content_ref'' of
                           Inl e \<Rightarrow> (Inl e, s2)
                         | Inr ref \<Rightarrow>
                             (case program_available E ref of
                                Inl e \<Rightarrow> (Inl e, s2)
                              | Inr False \<Rightarrow>
                                  (Inl (RuntimeError ''program_content_unavailable''),
                                   put_activation key (pending\<lparr>ac_activation_state := Activation_Failed\<rparr>) s2)
                              | Inr True \<Rightarrow> answer_executor report_id c p pending s2)))))"

definition or_cached :: "package_version option \<Rightarrow> string \<Rightarrow> string \<Rightarrow> slave_service \<Rightarrow> package_version option" where
  "or_cached package ref digest s =
     (case package of Some p \<Rightarrow> Some p | None \<Rightarrow> find_cached_package ref (Some digest) s)"

definition provision ::
  "env \<Rightarrow> plugin_host option \<Rightarrow> string \<Rightarrow> provision_command \<Rightarrow> package_version option \<Rightarrow> health_report service_op" where
  "provision E host report_id c package s =
     (if pc_target_slave c \<noteq> ss_slave_id s then (Inl (RuntimeError ''provision_target_mismatch''), s)
      else if (case pc_compute_binding c of None \<Rightarrow> False | Some b \<Rightarrow> rr_resource_id (cb_target_resource_ref b) \<noteq> ss_slave_id s)
      then (Inl (RuntimeError ''binding_target_mismatch''), s)
      else (case or_cached package (pc_package_version_ref c) (pc_package_digest c) s of
        None \<Rightarrow> (Inl (RuntimeError ''capability_package_not_found''), s)
      | Some given \<Rightarrow>
          (case revalidate_package E given of
             Inl e \<Rightarrow> (Inl e, s)
           | Inr p \<Rightarrow>
               if pc_package_version_ref c \<noteq> version_ref p then (Inl (RuntimeError ''capability_package_ref_mismatch''), s)
               else if package_key p = DRIVER_ORCHESTRATOR_KEY then (Inl (RuntimeError ''driver_side_executor_required''), s)
               else if uses_runtime_plugin s p then provision_runtime E host report_id c p s
               else provision_executor E report_id c p s)))"

section \<open>Stopping\<close>

definition stopping_activation :: "slave_service \<Rightarrow> deprovision_command \<Rightarrow> package_version \<Rightarrow> activation option \<Rightarrow> activation" where
  "stopping_activation s c p existing =
     (case existing of
        Some a \<Rightarrow> a\<lparr>ac_desired_state := Desired_Stopped, ac_activation_revision := dc_activation_revision c,
                    ac_last_idempotency_key := dc_idempotency_key c\<rparr>
      | None \<Rightarrow> \<lparr>ac_package_version_ref = version_ref p, ac_package_digest = pv_package_digest p, ac_target_slave = ss_slave_id s,
                 ac_activation_closure_version_ref = pv_package_closure_version_ref p, ac_compute_binding_ref = [],
                 ac_desired_state = Desired_Stopped, ac_activation_revision = dc_activation_revision c,
                 ac_last_idempotency_key = dc_idempotency_key c, ac_evidence_refs = [package_mark ''deprovision:'' p],
                 ac_activation_state = Not_Installed, ac_runtime_profile = []\<rparr>)"

text \<open>
  Another activation of the same package that is wanted and up. The test of the sources excludes the
  former object of this key, which the dictionary no longer holds when the test runs.
\<close>

definition shared_ready :: "package_version \<Rightarrow> slave_service \<Rightarrow> bool" where
  "shared_ready p s =
     list_ex (\<lambda>(_, a). lower (ac_package_digest a) = lower (pv_package_digest p) \<and> ac_desired_state a = Desired_Running \<and>
        ac_activation_state a \<in> {Ready, Degraded, Provisioning}) (ss_activations s)"

definition deprovision_locked ::
  "env \<Rightarrow> plugin_host option \<Rightarrow> string \<Rightarrow> deprovision_command \<Rightarrow> package_version \<Rightarrow> health_report service_op" where
  "deprovision_locked E host report_id c p s =
     (if lower (pv_package_digest p) \<noteq> lower (dc_package_digest c)
      then (Inl (RuntimeError ''capability_package_digest_mismatch''), s)
      else (case host of
        None \<Rightarrow> (Inl (RuntimeError ''runtime_plugin_not_found''), s)
      | Some h \<Rightarrow>
          let key = version_ref p; existing = map_of (ss_activations s) key in
          (case lifecycle_retry existing Desired_Stopped (pv_package_digest p) (dc_activation_revision c) (dc_idempotency_key c) of
             Inl e \<Rightarrow> (Inl e, s)
           | Inr retry \<Rightarrow>
               let s1 = accept_activation_revision key retry s;
                   evidence = (case existing of Some a \<Rightarrow> ac_evidence_refs a | None \<Rightarrow> [package_mark ''deprovision:'' p]);
                   desired = stopping_activation s c p existing;
                   s2 = put_activation key desired (cache_package p (dc_package_version_ref c) s1);
                   stopped = desired\<lparr>ac_activation_state := Stopped\<rparr>
               in if retry \<and> map_option ac_activation_state existing = Some Stopped
                  then idempotent_report report_id key p Stopped (dc_activation_revision c) evidence s2
                  else if shared_ready p s2
                  then let s3 = put_activation key stopped s2 in
                       remember_health_report key (health s3 report_id p Stopped (dc_activation_revision c) evidence
                         [(''shared_runtime_preserved'', JBool True)]) s3
                  else (case host_deprovision h p c of
                          Inl e \<Rightarrow> (Inl (as_runtime_error e), s2)
                        | Inr response \<Rightarrow>
                            let s3 = put_activation key stopped s2;
                                r = health s3 report_id p Stopped (dc_activation_revision c) evidence
                                      [(''runtime_plugin_id'', JStr (str_or E (dget response ''runtime_plugin_id'') [])),
                                       (''idempotent'', JBool (truthy (dget response ''idempotent'')))]
                            in remember_health_report key r (add_event (resource_frame s3 r ''activation_stopped'') s3)))))"

definition deprovision ::
  "env \<Rightarrow> plugin_host option \<Rightarrow> string \<Rightarrow> deprovision_command \<Rightarrow> package_version option \<Rightarrow> health_report service_op" where
  "deprovision E host report_id c package s =
     (if dc_target_slave c \<noteq> ss_slave_id s then (Inl (RuntimeError ''provision_target_mismatch''), s)
      else (case or_cached package (dc_package_version_ref c) (dc_package_digest c) s of
        None \<Rightarrow> (Inl (RuntimeError ''capability_package_not_found''), s)
      | Some given \<Rightarrow>
          (case revalidate_package E given of
             Inl e \<Rightarrow> (Inl e, s)
           | Inr p \<Rightarrow>
               if dc_package_version_ref c \<noteq> version_ref p then (Inl (RuntimeError ''capability_package_ref_mismatch''), s)
               else if \<not> uses_runtime_plugin s p then (Inl (RuntimeError ''unsupported_deprovision_contract''), s)
               else deprovision_locked E host report_id c p s)))"

section \<open>Health\<close>

fun state_name :: "activation_state \<Rightarrow> string" where
  "state_name Not_Installed = ''not_installed''"
| "state_name Provisioning = ''provisioning''"
| "state_name Ready = ''ready''"
| "state_name Degraded = ''degraded''"
| "state_name Stopped = ''stopped''"
| "state_name Activation_Failed = ''failed''"
| "state_name Lost = ''lost''"

definition activation_json :: "activation \<Rightarrow> dict" where
  "activation_json a =
     [(''package_version_ref'', JStr (ac_package_version_ref a)), (''package_digest'', JStr (ac_package_digest a)),
      (''target_slave'', JStr (ac_target_slave a)),
      (''activation_closure_version_ref'', JStr (ac_activation_closure_version_ref a)),
      (''compute_binding_ref'', JStr (ac_compute_binding_ref a)),
      (''desired_state'', JStr (case ac_desired_state a of Desired_Running \<Rightarrow> ''running'' | Desired_Stopped \<Rightarrow> ''stopped'')),
      (''activation_revision'', JInt (int (ac_activation_revision a))),
      (''last_idempotency_key'', JStr (ac_last_idempotency_key a)),
      (''evidence_refs'', JArr (map JStr (ac_evidence_refs a))), (''activation_state'', JStr (state_name (ac_activation_state a))),
      (''runtime_profile'', JObj (ac_runtime_profile a))]"

definition local_activation :: "slave_service \<Rightarrow> activation \<Rightarrow> dict" where
  "local_activation s a =
     dict_with (activation_json a) [(''workspace_id'', JStr (ss_workspace_id s)), (''slave_id'', JStr (ss_slave_id s))]"

text \<open>The reports that still wait for an acknowledgement; one whose activation has moved on is dropped.\<close>

definition still_pending :: "slave_service \<Rightarrow> string \<times> health_report \<Rightarrow> bool" where
  "still_pending s = (\<lambda>(key, r).
     case map_of (ss_activations s) key of
       None \<Rightarrow> False
     | Some a \<Rightarrow> ac_desired_state a = Desired_Running \<and> ac_activation_revision a = hr_activation_revision r)"

definition redeliver :: "slave_service \<Rightarrow> health_report list \<times> slave_service" where
  "redeliver s =
     (map snd (filter (still_pending s) (ss_pending_health_reports s)),
      s\<lparr>ss_pending_health_reports := filter (still_pending s) (ss_pending_health_reports s)\<rparr>)"

definition observed_state :: "dict \<Rightarrow> activation_state" where
  "observed_state inspected =
     (if truthy (dget inspected ''identity_match'') \<and> truthy (dget inspected ''healthy'') then Ready
      else if truthy (dget inspected ''exists'') \<and> truthy (dget inspected ''running'') then Degraded
      else Activation_Failed)"

definition inspect_one ::
  "plugin_host option \<Rightarrow> slave_service \<Rightarrow> package_version \<Rightarrow> activation \<Rightarrow> (activation_state \<times> dict) result" where
  "inspect_one host s p a =
     (if ac_activation_state a = Activation_Failed then Inr (Activation_Failed, [])
      else (case host of
              None \<Rightarrow> Inr (Activation_Failed, [(''code'', JStr ''runtime_plugin_not_found'')])
            | Some h \<Rightarrow>
                (case host_inspect h p (local_activation s a) of
                   Inr inspected \<Rightarrow> Inr (observed_state inspected, [(''inspect'', JObj inspected)])
                 | Inl e \<Rightarrow>
                     if is_runtime_error e then Inr (Activation_Failed, [(''code'', JStr (plugin_code e))])
                     else Inl (raised e))))"

definition inspect_activation ::
  "plugin_host option \<Rightarrow> (string \<Rightarrow> string) \<Rightarrow> string \<Rightarrow> health_report option service_op" where
  "inspect_activation host fresh key s =
     (case map_of (ss_activations s) key of
        None \<Rightarrow> (Inr None, s)
      | Some a \<Rightarrow>
          if map_of (ss_pending_health_reports s) key \<noteq> None \<or> ac_desired_state a \<noteq> Desired_Running then (Inr None, s)
          else (case find_cached_package (ac_package_version_ref a) (Some (ac_package_digest a)) s of
            None \<Rightarrow> (Inr None, s)
          | Some p \<Rightarrow>
              if \<not> uses_runtime_plugin s p then (Inr None, s)
              else (case inspect_one host s p a of
                Inl e \<Rightarrow> (Inl e, s)
              | Inr (state, details) \<Rightarrow>
                  if map_of (ss_last_reported_health s) key = Some (ac_activation_revision a, state) then (Inr None, s)
                  else
                    let s1 = (if state \<noteq> ac_activation_state a then put_activation key (a\<lparr>ac_activation_state := state\<rparr>) s else s);
                        r = \<lparr>hr_report_id = fresh key, hr_package_version_ref = ac_package_version_ref a,
                             hr_package_digest = ac_package_digest a, hr_target_slave = ss_slave_id s,
                             hr_activation_state = state, hr_evidence_refs = ac_evidence_refs a, hr_details = details,
                             hr_activation_revision = ac_activation_revision a\<rparr>
                    in (Inr (Some r), s1\<lparr>ss_pending_health_reports := AList.update key r (ss_pending_health_reports s1)\<rparr>))))"

fun inspect_keys ::
  "plugin_host option \<Rightarrow> (string \<Rightarrow> string) \<Rightarrow> string list \<Rightarrow> health_report list service_op" where
  "inspect_keys host fresh [] s = (Inr [], s)"
| "inspect_keys host fresh (key # keys) s =
     (case inspect_activation host fresh key s of
        (Inl e, s1) \<Rightarrow> (Inl e, s1)
      | (Inr r, s1) \<Rightarrow>
          (case inspect_keys host fresh keys s1 of
             (Inl e, s2) \<Rightarrow> (Inl e, s2)
           | (Inr rs, s2) \<Rightarrow> (Inr ((case r of None \<Rightarrow> [] | Some rep \<Rightarrow> [rep]) @ rs), s2)))"

definition inspect_activation_health :: "plugin_host option \<Rightarrow> (string \<Rightarrow> string) \<Rightarrow> health_report list service_op" where
  "inspect_activation_health host fresh s =
     (let (waiting, s1) = redeliver s in
      case inspect_keys host fresh (map fst (ss_activations s1)) s1 of
        (Inl e, s2) \<Rightarrow> (Inl e, s2)
      | (Inr rs, s2) \<Rightarrow> (Inr (waiting @ rs), s2))"

definition acknowledge_health_report :: "string \<Rightarrow> slave_service \<Rightarrow> slave_service" where
  "acknowledge_health_report report_id s =
     (case List.find (\<lambda>(_, r). hr_report_id r = report_id) (ss_pending_health_reports s) of
        None \<Rightarrow> s
      | Some (key, r) \<Rightarrow>
          s\<lparr>ss_last_reported_health := AList.update key (hr_activation_revision r, hr_activation_state r) (ss_last_reported_health s),
            ss_pending_health_reports := AList.delete key (ss_pending_health_reports s)\<rparr>)"

section \<open>Reconciliation\<close>

definition reconcile_entry :: "slave_service \<Rightarrow> string \<Rightarrow> activation \<Rightarrow> package_version \<Rightarrow> dict" where
  "reconcile_entry s key a p =
     [(''activation_key'', JStr key), (''workspace_id'', JStr (ss_workspace_id s)), (''slave_id'', JStr (ss_slave_id s)),
      (''target_slave'', JStr (ss_slave_id s)), (''package_version_ref'', JStr (version_ref p)),
      (''package_digest'', JStr (pv_package_digest p)), (''package_type'', JStr (pv_package_type p)),
      (''execution'', execution_json (pv_execution p)), (''package_payload'', JObj (package_json p)),
      (''desired_state'', JStr (case ac_desired_state a of Desired_Running \<Rightarrow> ''running'' | Desired_Stopped \<Rightarrow> ''stopped'')),
      (''activation_revision'', JInt (int (ac_activation_revision a))), (''runtime_profile'', JObj (ac_runtime_profile a))]"

definition reconcilable :: "slave_service \<Rightarrow> (string \<times> activation \<times> package_version) list" where
  "reconcilable s =
     concat (map (\<lambda>(key, a).
       case find_cached_package (ac_package_version_ref a) (Some (ac_package_digest a)) s of
         None \<Rightarrow> []
       | Some p \<Rightarrow> if uses_runtime_plugin s p then [(key, a, p)] else []) (ss_activations s))"

text \<open>The search for the answer about one activation, in the order of the answers; it stops at the first.\<close>

fun find_in_items :: "string \<Rightarrow> json list \<Rightarrow> dict option result" where
  "find_in_items key [] = Inr None"
| "find_in_items key (JObj d # items) = (if dget d ''activation_key'' = JStr key then Inr (Some d) else find_in_items key items)"
| "find_in_items key (v # items) = Inl (AttributeError ''get'')"

fun find_in_groups :: "string \<Rightarrow> dict \<Rightarrow> dict option result" where
  "find_in_groups key [] = Inr None"
| "find_in_groups key ((_, JObj grp) # groups) =
     (case py_iter (dget_default grp ''activations'' (JArr [])) of
        None \<Rightarrow> Inl (TypeError ''object is not iterable'')
      | Some items \<Rightarrow>
          (case find_in_items key items of
             Inl e \<Rightarrow> Inl e
           | Inr None \<Rightarrow> find_in_groups key groups
           | Inr (Some d) \<Rightarrow> Inr (Some d)))"
| "find_in_groups key (_ # groups) = find_in_groups key groups"

definition reconciled_name :: "env \<Rightarrow> dict \<Rightarrow> activation \<Rightarrow> string result" where
  "reconciled_name E item a =
     (if truthy (dget item ''activation_state'') then Inr (py_str E (dget item ''activation_state''))
      else if truthy (dget item ''inspect'')
      then (case dget item ''inspect'' of
              JObj d \<Rightarrow> Inr (if truthy (dget d ''running'') then ''ready'' else state_name (ac_activation_state a))
            | _ \<Rightarrow> Inl (AttributeError ''get''))
      else Inr (state_name (ac_activation_state a)))"

definition reconciled_state :: "string \<Rightarrow> activation_state option" where
  "reconciled_state name =
     (if name = ''ready'' then Some Ready else if name = ''degraded'' then Some Degraded
      else if name = ''failed'' then Some Activation_Failed else if name = ''stopped'' then Some Stopped
      else if name = ''lost'' then Some Lost else None)"

definition reconciled_activation :: "env \<Rightarrow> dict \<Rightarrow> activation \<Rightarrow> activation result" where
  "reconciled_activation E item a =
     (case reconciled_name E item a of
        Inl e \<Rightarrow> Inl e
      | Inr name \<Rightarrow>
          let a1 = (case reconciled_state name of None \<Rightarrow> a | Some st \<Rightarrow> a\<lparr>ac_activation_state := st\<rparr>)
          in Inr (case dget item ''runtime_profile'' of JObj d \<Rightarrow> a1\<lparr>ac_runtime_profile := d\<rparr> | _ \<Rightarrow> a1))"

fun apply_reconciled :: "env \<Rightarrow> dict \<Rightarrow> (string \<times> activation \<times> package_version) list \<Rightarrow> unit service_op" where
  "apply_reconciled E response [] s = (Inr (), s)"
| "apply_reconciled E response ((key, sent, p) # entries) s =
     (case map_of (ss_activations s) key of
        None \<Rightarrow> apply_reconciled E response entries s
      | Some a \<Rightarrow>
          (case find_in_groups key response of
             Inl e \<Rightarrow> (Inl e, s)
           | Inr None \<Rightarrow>
               apply_reconciled E response entries
                 (if ac_desired_state sent \<noteq> Desired_Stopped then put_activation key (a\<lparr>ac_activation_state := Lost\<rparr>) s else s)
           | Inr (Some item) \<Rightarrow>
               (case reconciled_activation E item a of
                  Inl e \<Rightarrow> (Inl e, s)
                | Inr a' \<Rightarrow> apply_reconciled E response entries (put_activation key a' s))))"

definition reconcile_activations :: "env \<Rightarrow> plugin_host option \<Rightarrow> dict service_op" where
  "reconcile_activations E host s =
     (case host of
        None \<Rightarrow> (Inr [], s)
      | Some h \<Rightarrow>
          if ss_activations s = [] then (Inr [], s)
          else
            let entries = reconcilable s in
            (case (case host_reconcile E h (map (\<lambda>(key, a, p). reconcile_entry s key a p) entries) of
                     Inl (RuntimePluginError _ _ _) \<Rightarrow> Inr []
                   | Inl (Raised e) \<Rightarrow> Inl e
                   | Inr response \<Rightarrow> Inr response) of
               Inl e \<Rightarrow> (Inl e, s)
             | Inr response \<Rightarrow>
                 (case apply_reconciled E response entries s of
                    (Inl e, s1) \<Rightarrow> (Inl e, s1)
                  | (Inr _, s1) \<Rightarrow> (Inr response, s1))))"

end
