(* ===== verification/Slave_Lifecycle.thy ===== *)
theory Slave_Lifecycle
  imports Slave
begin

text \<open>
  The lifecycle of activations on a Slave: what every operation of \<^verbatim>\<open>SlaveService\<close> keeps (the identity of
  a package coordinate, the order of revisions), when a package is provisioned, what is advertised, and
  how health reports are delivered.
\<close>

section \<open>What every operation keeps\<close>

definition activation_next :: "activation \<Rightarrow> activation \<Rightarrow> bool" where
  "activation_next a b =
     (ac_package_version_ref b = ac_package_version_ref a \<and> ac_package_digest b = ac_package_digest a \<and>
      ac_target_slave b = ac_target_slave a \<and> ac_activation_revision a \<le> ac_activation_revision b \<and>
      (ac_activation_revision b = ac_activation_revision a \<longrightarrow> ac_desired_state b = ac_desired_state a))"

definition activations_next :: "(string \<times> activation) list \<Rightarrow> (string \<times> activation) list \<Rightarrow> bool" where
  "activations_next as bs = (\<forall>key a. map_of as key = Some a \<longrightarrow> (\<exists>b. map_of bs key = Some b \<and> activation_next a b))"

definition service_next :: "slave_service \<Rightarrow> slave_service \<Rightarrow> bool" where
  "service_next s s' =
     (ss_slave_id s' = ss_slave_id s \<and> ss_workspace_id s' = ss_workspace_id s \<and> ss_executors s' = ss_executors s \<and>
      ss_supported_operations s' = ss_supported_operations s \<and> activations_next (ss_activations s) (ss_activations s') \<and>
      (\<exists>evs. ss_resource_events s' = ss_resource_events s @ evs) \<and>
      (\<forall>i r. map_of (ss_attempts s) i = Some r \<longrightarrow> map_of (ss_attempts s') i = Some r))"

definition service_wf :: "slave_service \<Rightarrow> bool" where
  "service_wf s =
     (dict_wf (ss_activations s) \<and> dict_wf (ss_pending_health_reports s) \<and>
      (\<forall>key a. map_of (ss_activations s) key = Some a \<longrightarrow> ac_package_version_ref a = key \<and> ac_target_slave a = ss_slave_id s) \<and>
      (\<forall>key r. map_of (ss_pending_health_reports s) key = Some r \<longrightarrow>
         (\<exists>a. map_of (ss_activations s) key = Some a \<and> hr_package_version_ref r = key \<and>
              hr_activation_revision r \<le> ac_activation_revision a)) \<and>
      (\<forall>key n st. map_of (ss_last_reported_health s) key = Some (n, st) \<longrightarrow>
         (\<exists>a. map_of (ss_activations s) key = Some a \<and> n \<le> ac_activation_revision a)))"

lemma activation_next_refl [simp]: "activation_next a a"
  by (simp add: activation_next_def)

lemma activation_next_trans: "activation_next a b \<Longrightarrow> activation_next b c \<Longrightarrow> activation_next a c"
  unfolding activation_next_def by auto

lemma activation_next_fields [simp]:
  "activation_next a (b\<lparr>ac_activation_state := st\<rparr>) = activation_next a b"
  "activation_next a (b\<lparr>ac_evidence_refs := ev\<rparr>) = activation_next a b"
  "activation_next a (b\<lparr>ac_runtime_profile := rt\<rparr>) = activation_next a b"
  by (simp_all add: activation_next_def)

lemma activations_next_refl [simp]: "activations_next as as"
  by (simp add: activations_next_def)

lemma activations_next_trans:
  assumes "activations_next as bs" and "activations_next bs cs"
  shows "activations_next as cs"
  using assms unfolding activations_next_def by (meson activation_next_trans)

lemma activations_next_update:
  assumes "\<And>a. map_of as key = Some a \<Longrightarrow> activation_next a b"
  shows "activations_next as (AList.update key b as)"
  using assms by (auto simp: activations_next_def update_conv)

lemma service_next_refl [simp]: "service_next s s"
  by (simp add: service_next_def)

lemma service_next_trans:
  assumes "service_next s t" and "service_next t u"
  shows "service_next s u"
  using assms unfolding service_next_def by (auto intro: activations_next_trans)

text \<open>A change that is no lifecycle change: the activations stay, events and attempts may be added.\<close>

lemma service_next_frame:
  "service_next s (accept_activation_revision key retry s)" "service_next s (cache_package p ref s)"
  "service_next s (snd (remember_health_report key r s))" "service_next s (add_event ev s)"
  "service_next s (acknowledge_health_report i s)" "service_next s (snd (redeliver s))"
  "service_next s (s\<lparr>ss_pending_health_reports := prs\<rparr>)"
  by (auto simp: service_next_def accept_activation_revision_def cache_package_def remember_health_report_def add_event_def
      acknowledge_health_report_def redeliver_def split: option.splits)

lemma service_next_put:
  assumes "\<And>a. map_of (ss_activations s) key = Some a \<Longrightarrow> activation_next a b"
  shows "service_next s (put_activation key b s)"
  using activations_next_update [of "ss_activations s", OF assms] by (simp add: service_next_def put_activation_def)

lemma activations_frame [simp]:
  "ss_activations (accept_activation_revision key retry s) = ss_activations s"
  "ss_activations (cache_package p ref s) = ss_activations s"
  "ss_activations (snd (remember_health_report key r s)) = ss_activations s"
  "ss_activations (add_event ev s) = ss_activations s"
  "ss_activations (put_activation key a s) = AList.update key a (ss_activations s)"
  by (auto simp: accept_activation_revision_def cache_package_def remember_health_report_def add_event_def put_activation_def)

lemma lifecycle_retry_InrD:
  assumes "lifecycle_retry existing desired digest revision key = Inr retry" and "existing = Some a"
  shows "lower (ac_package_digest a) = lower digest" and "ac_activation_revision a \<le> revision"
    and "revision = ac_activation_revision a \<Longrightarrow> ac_desired_state a = desired"
    and "retry \<longleftrightarrow> revision = ac_activation_revision a"
  using assms by (auto simp: lifecycle_retry_def Let_def split: if_splits)

lemma pending_next:
  assumes "lifecycle_retry existing Desired_Running digest (pc_activation_revision c) key = Inr retry" and "existing = Some a"
  shows "activation_next a (pending_activation s c p existing)"
  using lifecycle_retry_InrD [OF assms] assms(2) by (auto simp: activation_next_def pending_activation_def)

lemma stopping_next:
  assumes "lifecycle_retry existing Desired_Stopped digest (dc_activation_revision c) key = Inr retry" and "existing = Some a"
  shows "activation_next a (stopping_activation s c p existing)"
  using lifecycle_retry_InrD [OF assms] assms(2) by (auto simp: activation_next_def stopping_activation_def)

text \<open>The interface that the operations share: each is a step of the service and keeps its invariant.\<close>

locale service_operation =
  fixes f :: "'a service_op"
  assumes step: "service_wf s \<Longrightarrow> service_next s (snd (f s))"
    and keeps: "service_wf s \<Longrightarrow> service_wf (snd (f s))"
begin

lemma revision_kept:
  assumes "service_wf s" and "map_of (ss_activations s) key = Some a"
  shows "\<exists>b. map_of (ss_activations (snd (f s))) key = Some b \<and> activation_next a b"
  using step [OF assms(1)] assms(2) by (auto simp: service_next_def activations_next_def)

lemma composes:
  assumes "service_wf s" and "service_next t s"
  shows "service_next t (snd (f s)) \<and> service_wf (snd (f s))"
  using service_next_trans [OF assms(2) step [OF assms(1)]] keeps [OF assms(1)] by simp

end

section \<open>The building blocks\<close>

definition service_step :: "slave_service \<Rightarrow> slave_service \<Rightarrow> bool" where
  "service_step s s' = (service_wf s \<longrightarrow> service_next s s' \<and> service_wf s')"

lemma service_step_refl [simp]: "service_step s s"
  by (simp add: service_step_def)

lemma service_step_trans:
  assumes "service_step s t" and "service_step t u"
  shows "service_step s u"
  using assms unfolding service_step_def by (blast intro: service_next_trans)

lemma service_wfD:
  assumes "service_wf s" and "map_of (ss_activations s) key = Some a"
  shows "ac_package_version_ref a = key" and "ac_target_slave a = ss_slave_id s"
  using assms unfolding service_wf_def by blast+

lemma service_wf_pendingD:
  assumes "service_wf s" and "(key, r) \<in> set (ss_pending_health_reports s)"
  obtains a where "map_of (ss_activations s) key = Some a" and "hr_package_version_ref r = key"
    and "hr_activation_revision r \<le> ac_activation_revision a"
proof -
  from assms have "map_of (ss_pending_health_reports s) key = Some r" by (simp add: service_wf_def)
  with assms(1) that show thesis unfolding service_wf_def by blast
qed

lemma service_wf_lastD:
  assumes "service_wf s" and "map_of (ss_last_reported_health s) key = Some (n, st)"
  obtains a where "map_of (ss_activations s) key = Some a" and "n \<le> ac_activation_revision a"
  using assms unfolding service_wf_def by blast

text \<open>The invariant after a change of the reports only.\<close>

lemma service_wf_reports:
  assumes "service_wf s" and "ss_activations s' = ss_activations s" and "ss_slave_id s' = ss_slave_id s"
    and "dict_wf (ss_pending_health_reports s')"
    and "\<And>key r. (key, r) \<in> set (ss_pending_health_reports s') \<Longrightarrow> (key, r) \<in> set (ss_pending_health_reports s) \<or>
           (\<exists>a. map_of (ss_activations s) key = Some a \<and> hr_package_version_ref r = key \<and> hr_activation_revision r \<le> ac_activation_revision a)"
    and "\<And>key n st. map_of (ss_last_reported_health s') key = Some (n, st) \<Longrightarrow> map_of (ss_last_reported_health s) key = Some (n, st) \<or>
           (\<exists>a. map_of (ss_activations s) key = Some a \<and> n \<le> ac_activation_revision a)"
  shows "service_wf s'"
  unfolding service_wf_def
proof (intro conjI allI impI)
  show "dict_wf (ss_activations s')" using assms(1,2) by (simp add: service_wf_def)
  show "dict_wf (ss_pending_health_reports s')" by (rule assms(4))
  show "ac_package_version_ref a = key" "ac_target_slave a = ss_slave_id s'" if "map_of (ss_activations s') key = Some a" for key a
    using that assms(2,3) service_wfD [OF assms(1), of key a] by simp_all
  show "\<exists>a. map_of (ss_activations s') key = Some a \<and> hr_package_version_ref r = key \<and> hr_activation_revision r \<le> ac_activation_revision a"
    if "map_of (ss_pending_health_reports s') key = Some r" for key r
    using assms(5) [OF map_of_SomeD [OF that]] by (auto simp: assms(2) elim: service_wf_pendingD [OF assms(1)])
  show "\<exists>a. map_of (ss_activations s') key = Some a \<and> n \<le> ac_activation_revision a"
    if "map_of (ss_last_reported_health s') key = Some (n, st)" for key n st
    using assms(6) [OF that] by (auto simp: assms(2) elim: service_wf_lastD [OF assms(1)])
qed

lemma delete_mem: "x \<in> set (AList.delete k al) \<Longrightarrow> x \<in> set al"
  by (simp add: AList.delete_eq)

lemma frame_step [simp]:
  "service_step s (accept_activation_revision key retry s)" "service_step s (cache_package p ref s)"
  "service_step s (add_event ev s)"
proof -
  have "service_wf (accept_activation_revision key retry s)" if wf: "service_wf s"
    by (rule service_wf_reports [OF wf])
      (use wf in \<open>cases retry; auto simp: accept_activation_revision_def service_wf_def distinct_delete dest: delete_mem\<close>)+
  then show "service_step s (accept_activation_revision key retry s)" by (simp add: service_step_def service_next_frame)
  have "service_wf (cache_package p ref s) = service_wf s" "service_wf (add_event ev s) = service_wf s"
    by (simp_all add: service_wf_def cache_package_def add_event_def)
  then show "service_step s (cache_package p ref s)" "service_step s (add_event ev s)"
    by (simp_all add: service_step_def service_next_frame)
qed

lemma put_step:
  assumes "service_wf s \<Longrightarrow> ac_package_version_ref b = key \<and> ac_target_slave b = ss_slave_id s"
    and "\<And>a. service_wf s \<Longrightarrow> map_of (ss_activations s) key = Some a \<Longrightarrow> activation_next a b"
  shows "service_step s (put_activation key b s)"
  unfolding service_step_def
proof (intro impI conjI)
  assume wf: "service_wf s"
  then show "service_next s (put_activation key b s)" by (intro service_next_put assms(2))
  have rev: "ac_activation_revision a \<le> ac_activation_revision b" if "map_of (ss_activations s) key = Some a" for a
    using assms(2) [OF wf that] by (simp add: activation_next_def)
  show "service_wf (put_activation key b s)"
    unfolding service_wf_def
  proof (intro conjI allI impI)
    show "dict_wf (ss_activations (put_activation key b s))" "dict_wf (ss_pending_health_reports (put_activation key b s))"
      using wf by (simp_all add: service_wf_def dict_wf_set put_activation_def)
  next
    fix k a assume "map_of (ss_activations (put_activation key b s)) k = Some a"
    then show "ac_package_version_ref a = k" "ac_target_slave a = ss_slave_id (put_activation key b s)"
      using assms(1) [OF wf] service_wfD [OF wf, of k a] by (auto simp: update_conv put_activation_def split: if_splits)
  next
    fix k r assume "map_of (ss_pending_health_reports (put_activation key b s)) k = Some r"
    then have "(k, r) \<in> set (ss_pending_health_reports s)" by (simp add: put_activation_def map_of_SomeD)
    from service_wf_pendingD [OF wf this] obtain a where "map_of (ss_activations s) k = Some a" "hr_package_version_ref r = k"
      "hr_activation_revision r \<le> ac_activation_revision a" by blast
    then show "\<exists>a. map_of (ss_activations (put_activation key b s)) k = Some a \<and> hr_package_version_ref r = k \<and>
        hr_activation_revision r \<le> ac_activation_revision a"
      using rev by (auto simp: update_conv intro: order_trans)
  next
    fix k n st assume "map_of (ss_last_reported_health (put_activation key b s)) k = Some (n, st)"
    then have "map_of (ss_last_reported_health s) k = Some (n, st)" by (simp add: put_activation_def)
    from service_wf_lastD [OF wf this] obtain a where "map_of (ss_activations s) k = Some a" "n \<le> ac_activation_revision a" by blast
    then show "\<exists>a. map_of (ss_activations (put_activation key b s)) k = Some a \<and> n \<le> ac_activation_revision a"
      using rev by (auto simp: update_conv intro: order_trans)
  qed
qed

lemma remember_step:
  assumes "service_wf s \<Longrightarrow> \<exists>a. map_of (ss_activations s) key = Some a \<and> hr_activation_revision r \<le> ac_activation_revision a"
  shows "service_step s (snd (remember_health_report key r s))"
  unfolding service_step_def
proof (intro impI conjI)
  assume wf: "service_wf s"
  show "service_next s (snd (remember_health_report key r s))" by (rule service_next_frame)
  show "service_wf (snd (remember_health_report key r s))"
    by (rule service_wf_reports [OF wf]) (use assms [OF wf] wf in \<open>auto simp: remember_health_report_def service_wf_def update_conv split: if_splits\<close>)
qed

lemma find_pendingD:
  assumes "List.find (\<lambda>(_, r). hr_report_id r = i) prs = Some (key, r)"
  shows "(key, r) \<in> set prs" and "hr_report_id r = i"
  using find_SomeD [OF assms] by simp_all

lemma acknowledge_step: "service_step s (acknowledge_health_report i s)"
  unfolding service_step_def
proof (intro impI conjI)
  assume wf: "service_wf s"
  show "service_next s (acknowledge_health_report i s)" by (rule service_next_frame)
  show "service_wf (acknowledge_health_report i s)"
  proof (cases "List.find (\<lambda>(_, r). hr_report_id r = i) (ss_pending_health_reports s)")
    case (Some kr)
    obtain key r where kr: "kr = (key, r)" by fastforce
    from service_wf_pendingD [OF wf find_pendingD(1) [OF Some [unfolded kr]]]
    have "\<exists>a. map_of (ss_activations s) key = Some a \<and> hr_activation_revision r \<le> ac_activation_revision a" by blast
    then show ?thesis
      by (intro service_wf_reports [OF wf]) (use Some kr wf in \<open>auto simp: acknowledge_health_report_def service_wf_def update_conv
          distinct_delete split: if_splits dest: delete_mem\<close>)
  qed (use wf in \<open>simp add: acknowledge_health_report_def\<close>)
qed

lemma redeliver_step: "service_step s (snd (redeliver s))"
  unfolding service_step_def
proof (intro impI conjI)
  assume wf: "service_wf s"
  show "service_next s (snd (redeliver s))" by (rule service_next_frame)
  show "service_wf (snd (redeliver s))"
    by (rule service_wf_reports [OF wf]) (use wf in \<open>auto simp: redeliver_def service_wf_def distinct_map_filter\<close>)
qed

section \<open>The operations are steps\<close>

lemma slave_id_frame [simp]:
  "ss_slave_id (accept_activation_revision key retry s) = ss_slave_id s" "ss_slave_id (cache_package p ref s) = ss_slave_id s"
  "ss_slave_id (put_activation key a s) = ss_slave_id s" "ss_slave_id (add_event ev s) = ss_slave_id s"
  by (simp_all add: accept_activation_revision_def cache_package_def put_activation_def add_event_def)

lemma idempotent_report_step:
  assumes "map_of (ss_activations s) key = Some a" and "revision \<le> ac_activation_revision a"
  shows "service_step s (snd (idempotent_report report_id key p st revision ev s))"
  unfolding idempotent_report_def by (rule remember_step) (use assms in \<open>simp add: health_def\<close>)

lemma store_step:
  assumes "service_wf s \<Longrightarrow> ac_package_version_ref b = key \<and> ac_target_slave b = ss_slave_id s"
    and "\<And>a. service_wf s \<Longrightarrow> map_of (ss_activations s) key = Some a \<Longrightarrow> activation_next a b"
  shows "service_step s (put_activation key b (cache_package p ref (accept_activation_revision key retry s)))"
    (is "service_step s (put_activation key b ?t)")
  unfolding service_step_def
proof (intro impI)
  assume wf: "service_wf s"
  have t: "service_step s ?t" by (rule service_step_trans [OF frame_step(1) frame_step(2)])
  have "service_step ?t (put_activation key b ?t)" by (rule put_step) (use assms [OF wf] in simp_all)
  with service_step_trans [OF t this] wf show "service_next s (put_activation key b ?t) \<and> service_wf (put_activation key b ?t)"
    by (simp add: service_step_def)
qed

lemma pending_ids:
  assumes "service_wf s" and "existing = map_of (ss_activations s) (version_ref p)"
  shows "ac_package_version_ref (pending_activation s c p existing) = version_ref p"
    and "ac_target_slave (pending_activation s c p existing) = ss_slave_id s"
    and "ac_package_version_ref (stopping_activation s d p existing) = version_ref p"
    and "ac_target_slave (stopping_activation s d p existing) = ss_slave_id s"
proof -
  have "ac_package_version_ref a = version_ref p \<and> ac_target_slave a = ss_slave_id s" if "existing = Some a" for a
    using service_wfD [OF assms(1), of "version_ref p" a] assms(2) that by simp
  then show "ac_package_version_ref (pending_activation s c p existing) = version_ref p"
    "ac_target_slave (pending_activation s c p existing) = ss_slave_id s"
    "ac_package_version_ref (stopping_activation s d p existing) = version_ref p"
    "ac_target_slave (stopping_activation s d p existing) = ss_slave_id s"
    by (cases existing; simp add: pending_activation_def stopping_activation_def)+
qed

lemma put_same_step:
  assumes "map_of (ss_activations s) key = Some a" and "activation_next a b"
  shows "service_step s (put_activation key b s)"
proof (rule put_step)
  assume "service_wf s"
  from service_wfD [OF this assms(1)] assms(2)
  show "ac_package_version_ref b = key \<and> ac_target_slave b = ss_slave_id s" by (simp add: activation_next_def)
qed (use assms in simp)

lemma report_step:
  assumes "map_of (ss_activations s) key = Some a" and "hr_activation_revision r \<le> ac_activation_revision a"
  shows "service_step s (snd (remember_health_report key r (add_event ev s)))"
  by (rule service_step_trans [OF frame_step(3)], rule remember_step) (use assms in simp)

lemma answer_provision_step:
  assumes "map_of (ss_activations s) (version_ref p) = Some pending"
    and "ac_activation_revision pending = pc_activation_revision c"
  shows "service_step s (snd (answer_provision E report_id c p pending response s))"
proof (cases "provisioned_state E response")
  case (Some ns)
  obtain n st where ns: "ns = (n, st)" by fastforce
  show ?thesis
  proof (cases "answered_activation E response st pending")
    case (Inr a)
    then have nx: "activation_next pending a" and rev: "ac_activation_revision a = pc_activation_revision c"
      using assms(2) by (auto simp: answered_activation_def split: option.splits sum.splits)
    let ?s1 = "put_activation (version_ref p) a s"
    have put: "service_step s ?s1" by (rule put_same_step [OF assms(1) nx])
    show ?thesis
    proof (cases "answer_details response st")
      case (Inr details)
      have "service_step ?s1 (snd (answer_provision E report_id c p pending response s))"
        using Some ns \<open>answered_activation E response st pending = Inr a\<close> Inr rev
        by (auto simp: answer_provision_def Let_def health_def update_conv intro!: report_step [where a = a])
      then show ?thesis by (rule service_step_trans [OF put])
    qed (use Some ns Inr put in \<open>simp add: answer_provision_def Let_def\<close>)
  qed (use Some ns in \<open>simp add: answer_provision_def\<close>)
qed (simp add: answer_provision_def)

lemma answer_executor_step:
  assumes "map_of (ss_activations s) (version_ref p) = Some pending"
    and "ac_activation_revision pending = pc_activation_revision c"
  shows "service_step s (snd (answer_executor report_id c p pending s))"
proof -
  let ?a = "pending\<lparr>ac_activation_state := Ready, ac_evidence_refs := [package_mark ''package-test:'' p, package_mark ''health:'' p]\<rparr>"
  let ?s1 = "put_activation (version_ref p) ?a s"
  have put: "service_step s ?s1" by (rule put_same_step [OF assms(1)]) simp
  show ?thesis
  proof (cases "get_executor (ss_executors ?s1) (pv_package_type p) (pv_execution p)")
    case (Inr adapter)
    have "service_step ?s1 (snd (answer_executor report_id c p pending s))"
      using Inr assms(2) by (auto simp: answer_executor_def Let_def health_def update_conv intro!: report_step [where a = ?a])
    then show ?thesis by (rule service_step_trans [OF put])
  qed (use put in \<open>simp add: answer_executor_def Let_def\<close>)
qed

lemma provision_store_step:
  assumes "lifecycle_retry (map_of (ss_activations s) (version_ref p)) Desired_Running digest (pc_activation_revision c) k = Inr retry"
    and "pending = pending_activation s c p (map_of (ss_activations s) (version_ref p))"
  shows "service_step s (put_activation (version_ref p) pending (cache_package p ref (accept_activation_revision (version_ref p) retry s)))"
  unfolding assms(2) by (rule store_step) (simp add: pending_ids, rule pending_next [OF assms(1)])

lemma pending_revision [simp]:
  "ac_activation_revision (pending_activation s c p existing) = pc_activation_revision c"
  by (simp add: pending_activation_def)

lemma retry_report_step:
  assumes "lifecycle_retry (map_of (ss_activations s) key) desired digest revision k = Inr retry"
    and "retry \<and> map_option ac_activation_state (map_of (ss_activations s) key) = Some st"
  shows "service_step s (snd (idempotent_report report_id key p st revision ev (accept_activation_revision key retry s)))"
proof -
  from assms(2) obtain a where a: "map_of (ss_activations s) key = Some a" by auto
  have rev: "revision \<le> ac_activation_revision a" using lifecycle_retry_InrD(4) [OF assms(1) a] assms(2) by simp
  show ?thesis by (rule service_step_trans [OF frame_step(1) idempotent_report_step [where a = a]]) (simp_all add: a rev)
qed

lemma provision_runtime_step: "service_step s (snd (provision_runtime E host report_id c p s))"
proof -
  let ?key = "version_ref p" and ?existing = "map_of (ss_activations s) (version_ref p)"
  let ?pending = "pending_activation s c p ?existing"
  let ?stored = "\<lambda>retry. put_activation ?key ?pending (cache_package p (pc_package_version_ref c) (accept_activation_revision ?key retry s))"
  have stored: "map_of (ss_activations (?stored retry)) ?key = Some ?pending" for retry by (simp add: update_conv)
  have fail: "service_step s (put_activation ?key (?pending\<lparr>ac_activation_state := Activation_Failed\<rparr>) (?stored retry))"
    if "lifecycle_retry ?existing Desired_Running (pv_package_digest p) (pc_activation_revision c) (pc_idempotency_key c) = Inr retry" for retry
    by (rule service_step_trans [OF provision_store_step [OF that refl] put_same_step [OF stored]]) simp
  have answer: "service_step s (snd (answer_provision E report_id c p ?pending response (?stored retry)))"
    if "lifecycle_retry ?existing Desired_Running (pv_package_digest p) (pc_activation_revision c) (pc_idempotency_key c) = Inr retry" for retry response
    by (rule service_step_trans [OF provision_store_step [OF that refl] answer_provision_step [OF stored]]) simp
  show ?thesis
    unfolding provision_runtime_def Let_def
    by (auto split: option.split sum.split intro: retry_report_step provision_store_step fail answer)
qed

lemma provision_executor_step: "service_step s (snd (provision_executor E report_id c p s))"
proof -
  let ?key = "version_ref p" and ?existing = "map_of (ss_activations s) (version_ref p)"
  let ?pending = "pending_activation s c p ?existing"
  let ?stored = "\<lambda>retry. put_activation ?key ?pending (cache_package p (pc_package_version_ref c) (accept_activation_revision ?key retry s))"
  have stored: "map_of (ss_activations (?stored retry)) ?key = Some ?pending" for retry by (simp add: update_conv)
  have fail: "service_step s (put_activation ?key (?pending\<lparr>ac_activation_state := Activation_Failed\<rparr>) (?stored retry))"
    if "lifecycle_retry ?existing Desired_Running (pv_package_digest p) (pc_activation_revision c) (pc_idempotency_key c) = Inr retry" for retry
    by (rule service_step_trans [OF provision_store_step [OF that refl] put_same_step [OF stored]]) simp
  have answer: "service_step s (snd (answer_executor report_id c p ?pending (?stored retry)))"
    if "lifecycle_retry ?existing Desired_Running (pv_package_digest p) (pc_activation_revision c) (pc_idempotency_key c) = Inr retry" for retry
    by (rule service_step_trans [OF provision_store_step [OF that refl] answer_executor_step [OF stored]]) simp
  show ?thesis
    unfolding provision_executor_def Let_def
    by (auto split: option.split sum.split bool.split intro: retry_report_step provision_store_step fail answer)
qed

lemma provision_step: "service_step s (snd (provision E host report_id c package s))"
  unfolding provision_def
  by (auto split: option.split sum.split intro: provision_runtime_step provision_executor_step)

lemma deprovision_locked_step: "service_step s (snd (deprovision_locked E host report_id c p s))"
proof -
  let ?key = "version_ref p" and ?existing = "map_of (ss_activations s) (version_ref p)"
  let ?desired = "stopping_activation s c p ?existing"
  let ?retry = "\<lambda>retry. lifecycle_retry ?existing Desired_Stopped (pv_package_digest p) (dc_activation_revision c) (dc_idempotency_key c) = Inr retry"
  let ?stored = "\<lambda>retry. put_activation ?key ?desired (cache_package p (dc_package_version_ref c) (accept_activation_revision ?key retry s))"
  let ?stopped = "\<lambda>retry. put_activation ?key (?desired\<lparr>ac_activation_state := Stopped\<rparr>) (?stored retry)"
  have rev: "ac_activation_revision ?desired = dc_activation_revision c" by (simp add: stopping_activation_def split: option.splits)
  have stored: "service_step s (?stored retry)" if "?retry retry" for retry
    by (rule store_step) (simp add: pending_ids, rule stopping_next [OF that])
  have stopped: "service_step s (?stopped retry)" if "?retry retry" for retry
    by (rule service_step_trans [OF stored [OF that] put_same_step [where a = ?desired]]) (simp_all add: update_conv)
  have again: "service_step s (snd (idempotent_report report_id ?key p Stopped (dc_activation_revision c) ev (?stored retry)))"
    if "?retry retry" for retry ev
    by (rule service_step_trans [OF stored [OF that] idempotent_report_step [where a = ?desired]]) (simp_all add: update_conv rev)
  have quiet: "service_step s (snd (remember_health_report ?key (health t report_id p Stopped (dc_activation_revision c) ev details) (?stopped retry)))"
    if "?retry retry" for retry ev details t
    by (rule service_step_trans [OF stopped [OF that] remember_step]) (simp add: update_conv health_def rev)
  have loud: "service_step s (snd (remember_health_report ?key (health t report_id p Stopped (dc_activation_revision c) ev details)
      (add_event frame (?stopped retry))))" if "?retry retry" for retry ev details t frame
    by (rule service_step_trans [OF stopped [OF that] report_step [where a = "?desired\<lparr>ac_activation_state := Stopped\<rparr>"]])
      (simp_all add: update_conv health_def rev)
  show ?thesis
  proof (cases host)
    case (Some h)
    show ?thesis
    proof (cases "lifecycle_retry ?existing Desired_Stopped (pv_package_digest p) (dc_activation_revision c) (dc_idempotency_key c)")
      case (Inr retry)
      with Some show ?thesis
        by (cases "host_deprovision h p c"; cases retry)
          (simp_all add: deprovision_locked_def Let_def stored again quiet loud)
    qed (simp add: deprovision_locked_def Let_def Some)
  qed (simp add: deprovision_locked_def)
qed

lemma deprovision_step: "service_step s (snd (deprovision E host report_id c package s))"
  unfolding deprovision_def by (auto split: option.split sum.split intro: deprovision_locked_step)

lemma inspect_activation_step: "service_step s (snd (inspect_activation host fresh key s))"
proof (cases "\<exists>r. fst (inspect_activation host fresh key s) = Inr (Some r)")
  case True
  then obtain a p st details where a: "map_of (ss_activations s) key = Some a"
    and result: "snd (inspect_activation host fresh key s) =
      (let s1 = (if st \<noteq> ac_activation_state a then put_activation key (a\<lparr>ac_activation_state := st\<rparr>) s else s);
           r = \<lparr>hr_report_id = fresh key, hr_package_version_ref = ac_package_version_ref a,
                hr_package_digest = ac_package_digest a, hr_target_slave = ss_slave_id s,
                hr_activation_state = st, hr_evidence_refs = ac_evidence_refs a, hr_details = details,
                hr_activation_revision = ac_activation_revision a\<rparr>
       in s1\<lparr>ss_pending_health_reports := AList.update key r (ss_pending_health_reports s1)\<rparr>)"
    by (auto simp: inspect_activation_def Let_def split: option.splits if_splits sum.splits)
  define s1 where "s1 = (if st \<noteq> ac_activation_state a then put_activation key (a\<lparr>ac_activation_state := st\<rparr>) s else s)"
  have s1: "service_step s s1" unfolding s1_def by (simp add: put_same_step [OF a])
  have look: "\<exists>b. map_of (ss_activations s1) key = Some b \<and> ac_activation_revision b = ac_activation_revision a"
    by (simp add: s1_def a update_conv)
  have "service_step s1 (s1\<lparr>ss_pending_health_reports := AList.update key r (ss_pending_health_reports s1)\<rparr>)"
    if "hr_package_version_ref r = key" "hr_activation_revision r = ac_activation_revision a" for r
    unfolding service_step_def
  proof (intro impI conjI)
    assume wf: "service_wf s1"
    show "service_wf (s1\<lparr>ss_pending_health_reports := AList.update key r (ss_pending_health_reports s1)\<rparr>)"
    proof (rule service_wf_reports [OF wf])
      show "dict_wf (ss_pending_health_reports (s1\<lparr>ss_pending_health_reports := AList.update key r (ss_pending_health_reports s1)\<rparr>))"
        using wf by (simp add: service_wf_def dict_wf_set)
      fix k q assume "(k, q) \<in> set (ss_pending_health_reports (s1\<lparr>ss_pending_health_reports := AList.update key r (ss_pending_health_reports s1)\<rparr>))"
      then have "(k, q) = (key, r) \<or> (k, q) \<in> set (ss_pending_health_reports s1)" by (auto dest: dict_set_mem)
      then show "(k, q) \<in> set (ss_pending_health_reports s1) \<or> (\<exists>a. map_of (ss_activations s1) k = Some a \<and>
          hr_package_version_ref q = k \<and> hr_activation_revision q \<le> ac_activation_revision a)" using look that by auto
    qed simp_all
  qed (rule service_next_frame)
  then have fin: "service_step s (s1\<lparr>ss_pending_health_reports := AList.update key r (ss_pending_health_reports s1)\<rparr>)"
    if "hr_package_version_ref r = key" "hr_activation_revision r = ac_activation_revision a" for r
    using service_step_trans [OF s1] that by blast
  show ?thesis unfolding service_step_def
  proof (intro impI)
    assume wf: "service_wf s"
    show "service_next s (snd (inspect_activation host fresh key s)) \<and> service_wf (snd (inspect_activation host fresh key s))"
      using wf fin service_wfD(1) [OF wf a] unfolding result Let_def s1_def [symmetric] by (simp add: service_step_def)
  qed
next
  case False
  then have "snd (inspect_activation host fresh key s) = s"
    by (auto simp: inspect_activation_def Let_def split: option.splits if_splits sum.splits prod.splits)
  then show ?thesis by simp
qed

lemma inspect_keys_step: "service_step s (snd (inspect_keys host fresh keys s))"
proof (induction keys arbitrary: s)
  case (Cons key keys)
  obtain r s1 where one: "inspect_activation host fresh key s = (r, s1)" by fastforce
  have first: "service_step s s1" using inspect_activation_step [of s host fresh key] one by simp
  show ?case
  proof (cases r)
    case (Inr rep)
    have "snd (inspect_keys host fresh (key # keys) s) = snd (inspect_keys host fresh keys s1)"
      using one Inr by (simp split: prod.splits sum.splits)
    with service_step_trans [OF first Cons.IH] show ?thesis by simp
  qed (use one first in simp)
qed simp

lemma inspect_health_step: "service_step s (snd (inspect_activation_health host fresh s))"
proof -
  have "snd (inspect_activation_health host fresh s) =
      snd (inspect_keys host fresh (map fst (ss_activations (snd (redeliver s)))) (snd (redeliver s)))"
    by (simp add: inspect_activation_health_def split: prod.splits sum.splits)
  with service_step_trans [OF redeliver_step inspect_keys_step] show ?thesis by simp
qed

lemma reconciled_next:
  assumes "reconciled_activation E item a = Inr b"
  shows "activation_next a b"
  using assms by (auto simp: reconciled_activation_def Let_def split: sum.splits option.splits json.splits)

lemma apply_reconciled_step: "service_step s (snd (apply_reconciled E response entries s))"
proof (induction entries arbitrary: s)
  case (Cons entry entries)
  obtain key sent p where entry: "entry = (key, sent, p)" by (cases entry) auto
  show ?case
  proof (cases "map_of (ss_activations s) key")
    case None
    then show ?thesis using Cons.IH [of s] by (simp add: entry)
  next
    case (Some a)
    have lost: "service_step s (put_activation key (a\<lparr>ac_activation_state := Lost\<rparr>) s)" by (rule put_same_step [OF Some]) simp
    have found: "service_step s (put_activation key b s)" if "reconciled_activation E item a = Inr b" for item b
      by (rule put_same_step [OF Some reconciled_next [OF that]])
    show ?thesis using Some Cons.IH service_step_trans [OF lost Cons.IH] service_step_trans [OF found Cons.IH]
      by (auto simp: entry split: sum.split option.split)
  qed
qed simp

lemma reconcile_step: "service_step s (snd (reconcile_activations E host s))"
  using apply_reconciled_step
  by (auto simp: reconcile_activations_def Let_def split: option.split sum.split prod.split plugin_error.split) (metis snd_conv)+

text \<open>The operations of the service as interpretations of the interface.\<close>

lemma service_operationI:
  assumes "\<And>s. service_step s (snd (f s))"
  shows "service_operation f"
  using assms by unfold_locales (auto simp: service_step_def)

interpretation provisioning: service_operation "provision E host report_id c package" for E host report_id c package
  by (rule service_operationI provision_step)+

interpretation stopping: service_operation "deprovision E host report_id c package" for E host report_id c package
  by (rule service_operationI deprovision_step)+

interpretation inspection: service_operation "inspect_activation_health host fresh" for host fresh
  by (rule service_operationI inspect_health_step)+

interpretation acknowledgement: service_operation "\<lambda>s. (Inr (), acknowledge_health_report report_id s)" for report_id
  by (rule service_operationI) (simp add: acknowledge_step)

interpretation reconciliation: service_operation "reconcile_activations E host" for E host
  by (rule service_operationI reconcile_step)+

end
