(* ===== verification/Slave_Properties.thy ===== *)
theory Slave_Properties
  imports Slave_Lifecycle
begin

text \<open>
  What the lifecycle commands of a Slave promise: the grounds of a report of provisioning, the rejection
  of stale commands, the advertised capabilities, the delivery of health reports and the answer to a
  provider that cannot be reached.
\<close>

section \<open>What a successful command has established\<close>

text \<open>The report of a command and the activation that it leaves.\<close>

definition reports :: "slave_service \<Rightarrow> package_version \<Rightarrow> nat \<Rightarrow> desired_state \<Rightarrow> health_report \<Rightarrow> slave_service \<Rightarrow> bool" where
  "reports s p revision desired r s' =
     (hr_package_version_ref r = version_ref p \<and> hr_package_digest r = pv_package_digest p \<and> hr_target_slave r = ss_slave_id s \<and>
      hr_activation_revision r = revision \<and>
      map_of (ss_last_reported_health s') (version_ref p) = Some (revision, hr_activation_state r) \<and>
      (\<exists>a. map_of (ss_activations s') (version_ref p) = Some a \<and> ac_activation_revision a = revision \<and> ac_desired_state a = desired \<and>
           ac_activation_state a = hr_activation_state r \<and> lower (ac_package_digest a) = lower (pv_package_digest p)))"

lemma idempotent_reports:
  assumes "idempotent_report report_id (version_ref p) p st revision ev s = (Inr r, s')" and "ss_slave_id s = ss_slave_id t"
    and "map_of (ss_activations s) (version_ref p) = Some a" and "ac_activation_revision a = revision"
    and "ac_desired_state a = desired" and "ac_activation_state a = st" and "lower (ac_package_digest a) = lower (pv_package_digest p)"
  shows "reports t p revision desired r s' \<and> hr_activation_state r = st"
  using assms by (auto simp: idempotent_report_def remember_health_report_def health_def reports_def update_conv)

lemma pending_digest:
  assumes "lifecycle_retry existing desired (pv_package_digest p) revision k = Inr retry"
  shows "lower (ac_package_digest (pending_activation s c p existing)) = lower (pv_package_digest p)"
    and "lower (ac_package_digest (stopping_activation s d p existing)) = lower (pv_package_digest p)"
  using lifecycle_retry_InrD(1) [OF assms]
  by (cases existing; simp add: pending_activation_def stopping_activation_def)+

lemma answer_provision_reports:
  assumes "answer_provision E report_id c p pending response s = (Inr r, s')" and "ss_slave_id s = ss_slave_id t"
    and "ac_activation_revision pending = pc_activation_revision c" and "ac_desired_state pending = Desired_Running"
    and "lower (ac_package_digest pending) = lower (pv_package_digest p)"
  shows "reports t p (pc_activation_revision c) Desired_Running r s' \<and> (\<exists>n. provisioned_state E response = Some (n, hr_activation_state r))"
  using assms
  by (auto simp: answer_provision_def answered_activation_def Let_def remember_health_report_def health_def reports_def update_conv
      add_event_def put_activation_def split: option.splits sum.splits)

lemma answer_executor_reports:
  assumes "answer_executor report_id c p pending s = (Inr r, s')" and "ss_slave_id s = ss_slave_id t"
    and "ac_activation_revision pending = pc_activation_revision c" and "ac_desired_state pending = Desired_Running"
    and "lower (ac_package_digest pending) = lower (pv_package_digest p)"
  shows "reports t p (pc_activation_revision c) Desired_Running r s' \<and> hr_activation_state r = Ready"
  using assms
  by (auto simp: answer_executor_def Let_def remember_health_report_def health_def reports_def update_conv
      add_event_def put_activation_def split: option.splits sum.splits)

lemma pending_desired [simp]: "ac_desired_state (pending_activation s c p existing) = Desired_Running"
  by (simp add: pending_activation_def)

lemma retry_reports:
  assumes "lifecycle_retry (map_of (ss_activations s) (version_ref p)) desired (pv_package_digest p) revision k = Inr retry"
    and "retry \<and> map_option ac_activation_state (map_of (ss_activations s) (version_ref p)) = Some st"
    and "idempotent_report report_id (version_ref p) p st revision ev (accept_activation_revision (version_ref p) retry s) = (Inr r, s')"
  shows "reports s p revision desired r s' \<and> hr_activation_state r = st"
proof -
  from assms(2) obtain a where a: "map_of (ss_activations s) (version_ref p) = Some a" "ac_activation_state a = st" by auto
  note d = lifecycle_retry_InrD [OF assms(1) a(1)]
  have "revision = ac_activation_revision a" using d(4) assms(2) by simp
  then show ?thesis using d a by (intro idempotent_reports [OF assms(3), where a = a]) auto
qed

text \<open>
  Where a report of provisioning comes from: the activation was ready at this revision, a provider that
  the host routes the package to has answered, or the program of an executor is in the content store.
\<close>

definition provision_ground ::
  "env \<Rightarrow> plugin_host option \<Rightarrow> provision_command \<Rightarrow> package_version \<Rightarrow> slave_service \<Rightarrow> activation_state \<Rightarrow> bool" where
  "provision_ground E host c p s st =
     ((\<exists>a. map_of (ss_activations s) (version_ref p) = Some a \<and> ac_activation_state a = Ready \<and> st = Ready \<and>
           ac_activation_revision a = pc_activation_revision c) \<or>
      (uses_runtime_plugin s p \<and>
       (\<exists>h plugin response n. host = Some h \<and> host_get h p = Inr plugin \<and> rp_provision plugin p c = Inr response \<and>
          provisioned_state E response = Some (n, st))) \<or>
      (\<not> uses_runtime_plugin s p \<and> st = Ready \<and>
       (\<exists>ref. slave_body_ref p ''program_content_ref'' = Inr ref \<and> program_available E ref = Inr True)))"

lemma provision_runtime_InrD:
  assumes "provision_runtime E host report_id c p s = (Inr r, s')" and "uses_runtime_plugin s p"
  shows "lower (pv_package_digest p) = lower (pc_package_digest c)" and "validate_slave_exports E (pv_capability_exports p) = Inr ()"
    and "reports s p (pc_activation_revision c) Desired_Running r s'" and "provision_ground E host c p s (hr_activation_state r)"
proof -
  let ?existing = "map_of (ss_activations s) (version_ref p)"
  from assms(1) obtain h retry where h: "host = Some h" and digest: "lower (pv_package_digest p) = lower (pc_package_digest c)"
    and exports: "validate_slave_exports E (pv_capability_exports p) = Inr ()"
    and retry: "lifecycle_retry ?existing Desired_Running (pv_package_digest p) (pc_activation_revision c) (pc_idempotency_key c) = Inr retry"
    by (auto simp: provision_runtime_def Let_def split: option.splits sum.splits if_splits)
  show "lower (pv_package_digest p) = lower (pc_package_digest c)" "validate_slave_exports E (pv_capability_exports p) = Inr ()"
    by (rule digest, rule exports)
  have "reports s p (pc_activation_revision c) Desired_Running r s' \<and> provision_ground E host c p s (hr_activation_state r)"
  proof (cases "retry \<and> map_option ac_activation_state ?existing = Some Ready")
    case True
    then obtain a where a: "?existing = Some a" "ac_activation_state a = Ready" by auto
    have "ac_activation_revision a = pc_activation_revision c" using lifecycle_retry_InrD(4) [OF retry a(1)] True by simp
    moreover have "idempotent_report report_id (version_ref p) p Ready (pc_activation_revision c) (ac_evidence_refs a)
        (accept_activation_revision (version_ref p) retry s) = (Inr r, s')"
      using assms(1) h digest exports retry True a by (auto simp: provision_runtime_def Let_def split: if_splits)
    note retry_reports [OF retry True this]
    ultimately show ?thesis using a by (auto simp: provision_ground_def)
  next
    case False
    let ?pending = "pending_activation s c p ?existing"
    let ?s2 = "put_activation (version_ref p) ?pending (cache_package p (pc_package_version_ref c) (accept_activation_revision (version_ref p) retry s))"
    from False assms(1) h digest exports retry obtain response where provided: "host_provision h p c = Inr response"
      and answer: "answer_provision E report_id c p ?pending response ?s2 = (Inr r, s')"
      by (auto simp: provision_runtime_def Let_def split: if_splits sum.splits)
    have "reports s p (pc_activation_revision c) Desired_Running r s' \<and>
        (\<exists>n. provisioned_state E response = Some (n, hr_activation_state r))"
      by (rule answer_provision_reports [OF answer]) (simp_all add: pending_digest [OF retry])
    moreover obtain plugin where "host_get h p = Inr plugin" "rp_provision plugin p c = Inr response"
      using provided by (auto simp: host_provision_def split: sum.splits)
    ultimately show ?thesis using h assms(2) unfolding provision_ground_def by blast
  qed
  then show "reports s p (pc_activation_revision c) Desired_Running r s'" "provision_ground E host c p s (hr_activation_state r)"
    by simp_all
qed

lemma provision_executor_InrD:
  assumes "provision_executor E report_id c p s = (Inr r, s')" and "\<not> uses_runtime_plugin s p"
  shows "lower (pv_package_digest p) = lower (pc_package_digest c)" and "validate_slave_exports E (pv_capability_exports p) = Inr ()"
    and "reports s p (pc_activation_revision c) Desired_Running r s'" and "provision_ground E host c p s (hr_activation_state r)"
proof -
  let ?existing = "map_of (ss_activations s) (version_ref p)"
  from assms(1) obtain retry where digest: "lower (pv_package_digest p) = lower (pc_package_digest c)"
    and exports: "validate_slave_exports E (pv_capability_exports p) = Inr ()" and fill: "fillable_ok c p = Inr ()"
    and retry: "lifecycle_retry ?existing Desired_Running (pv_package_digest p) (pc_activation_revision c) (pc_idempotency_key c) = Inr retry"
    by (auto simp: provision_executor_def raise_as_def Let_def split: option.splits sum.splits if_splits)
  show "lower (pv_package_digest p) = lower (pc_package_digest c)" "validate_slave_exports E (pv_capability_exports p) = Inr ()"
    by (rule digest, rule exports)
  have "reports s p (pc_activation_revision c) Desired_Running r s' \<and> provision_ground E host c p s (hr_activation_state r)"
  proof (cases "retry \<and> map_option ac_activation_state ?existing = Some Ready")
    case True
    then obtain a where a: "?existing = Some a" "ac_activation_state a = Ready" by auto
    have "ac_activation_revision a = pc_activation_revision c" using lifecycle_retry_InrD(4) [OF retry a(1)] True by simp
    moreover have "idempotent_report report_id (version_ref p) p Ready (pc_activation_revision c) (ac_evidence_refs a)
        (accept_activation_revision (version_ref p) retry s) = (Inr r, s')"
      using assms(1) digest exports fill retry True a by (auto simp: provision_executor_def raise_as_def Let_def split: if_splits)
    note retry_reports [OF retry True this]
    ultimately show ?thesis using a by (auto simp: provision_ground_def)
  next
    case False
    let ?pending = "pending_activation s c p ?existing"
    let ?s2 = "put_activation (version_ref p) ?pending (cache_package p (pc_package_version_ref c) (accept_activation_revision (version_ref p) retry s))"
    from False assms(1) digest exports fill retry obtain ref where "slave_body_ref p ''program_content_ref'' = Inr ref"
      "program_available E ref = Inr True" and answer: "answer_executor report_id c p ?pending ?s2 = (Inr r, s')"
      by (auto simp: provision_executor_def raise_as_def Let_def split: if_splits sum.splits bool.splits)
    moreover have "reports s p (pc_activation_revision c) Desired_Running r s' \<and> hr_activation_state r = Ready"
      by (rule answer_executor_reports [OF answer]) (simp_all add: pending_digest [OF retry])
    ultimately show ?thesis using assms(2) unfolding provision_ground_def by blast
  qed
  then show "reports s p (pc_activation_revision c) Desired_Running r s'" "provision_ground E host c p s (hr_activation_state r)"
    by simp_all
qed

lemma revalidate_package_InrD:
  assumes "revalidate_package E p = Inr q"
  shows "\<exists>d. q = p\<lparr>pv_package_digest := d\<rparr>" and "package_digest_of E q = Inr (pv_package_digest q)"
    and "list_all export_valid (pv_capability_exports q)"
proof -
  from assms have ok: "list_all export_valid (pv_capability_exports p)" and made: "make_package E p = Inr q"
    by (auto simp: revalidate_package_def raise_as_def split: sum.splits if_splits)
  from make_package_InrD [OF made] obtain d where q: "q = p\<lparr>pv_package_digest := d\<rparr>" "package_digest_of E p = Inr d" by blast
  then show "\<exists>d. q = p\<lparr>pv_package_digest := d\<rparr>" "list_all export_valid (pv_capability_exports q)" using ok by auto
  show "package_digest_of E q = Inr (pv_package_digest q)" using q package_digest_irrelevant [of E d p] by simp
qed

lemma provision_InrD:
  assumes "provision E host report_id c package s = (Inr r, s')"
  obtains given p where "or_cached package (pc_package_version_ref c) (pc_package_digest c) s = Some given"
    and "revalidate_package E given = Inr p" and "pc_package_version_ref c = version_ref p" and "pc_target_slave c = ss_slave_id s"
    and "package_key p \<noteq> DRIVER_ORCHESTRATOR_KEY"
    and "(if uses_runtime_plugin s p then provision_runtime E host report_id c p s else provision_executor E report_id c p s) = (Inr r, s')"
  using assms by (auto simp: provision_def split: if_splits option.splits sum.splits)

section \<open>Properties\<close>

text \<open>
  Claim C15. Provisioning is sound. When a Slave reports a package as provisioned, the command named this
  Slave, the package was built again from its fields and its content has the digest that it and the
  command declare, every export passed its checks and its input and output contract could be read, and the report
  rests on a ground: the activation was ready at this revision, the provider that serves the package's
  contract answered, or the program is in the content store with its integrity verified. The activation
  of the coordinate then has the revision of the command and the state of the report.
\<close>

theorem provision_sound:
  assumes "provision E host report_id c package s = (Inr r, s')"
  shows "pc_target_slave c = ss_slave_id s \<and>
         (\<exists>p. version_ref p = pc_package_version_ref c \<and> package_digest_of E p = Inr (pv_package_digest p) \<and>
              lower (pv_package_digest p) = lower (pc_package_digest c) \<and> list_all export_valid (pv_capability_exports p) \<and>
              validate_slave_exports E (pv_capability_exports p) = Inr () \<and>
              reports s p (pc_activation_revision c) Desired_Running r s' \<and> provision_ground E host c p s (hr_activation_state r))"
proof (intro conjI)
  obtain given p where p: "revalidate_package E given = Inr p" "pc_package_version_ref c = version_ref p"
    and target: "pc_target_slave c = ss_slave_id s"
    and run: "(if uses_runtime_plugin s p then provision_runtime E host report_id c p s else provision_executor E report_id c p s) = (Inr r, s')"
    by (rule provision_InrD [OF assms])
  show "pc_target_slave c = ss_slave_id s" by (rule target)
  have "lower (pv_package_digest p) = lower (pc_package_digest c)" "validate_slave_exports E (pv_capability_exports p) = Inr ()"
    "reports s p (pc_activation_revision c) Desired_Running r s'" "provision_ground E host c p s (hr_activation_state r)"
    using run by (cases "uses_runtime_plugin s p"; simp add: provision_runtime_InrD provision_executor_InrD)+
  with p revalidate_package_InrD(2,3) [OF p(1)] show "\<exists>p. version_ref p = pc_package_version_ref c \<and> package_digest_of E p = Inr (pv_package_digest p) \<and>
      lower (pv_package_digest p) = lower (pc_package_digest c) \<and> list_all export_valid (pv_capability_exports p) \<and>
      validate_slave_exports E (pv_capability_exports p) = Inr () \<and>
      reports s p (pc_activation_revision c) Desired_Running r s' \<and> provision_ground E host c p s (hr_activation_state r)"
    by (intro exI [of _ p]) simp
qed

lemma stale_retry:
  assumes "revision < ac_activation_revision a \<or> (revision = ac_activation_revision a \<and> ac_desired_state a \<noteq> desired)"
  shows "\<exists>e. lifecycle_retry (Some a) desired digest revision k = Inl e"
  using assms by (auto simp: lifecycle_retry_def)

text \<open>
  Claim C17. A stale command changes nothing. When the coordinate already has an activation of a higher
  revision, or of the same revision with the other desired state, provisioning and stopping raise and
  leave the whole service as it was.
\<close>

theorem stale_command_rejected:
  "(map_of (ss_activations s) (pc_package_version_ref c) = Some a \<longrightarrow>
    pc_activation_revision c < ac_activation_revision a \<or>
    (pc_activation_revision c = ac_activation_revision a \<and> ac_desired_state a = Desired_Stopped) \<longrightarrow>
    (\<exists>e. provision E host report_id c package s = (Inl e, s))) \<and>
   (map_of (ss_activations s) (dc_package_version_ref d) = Some a \<longrightarrow>
    dc_activation_revision d < ac_activation_revision a \<or>
    (dc_activation_revision d = ac_activation_revision a \<and> ac_desired_state a = Desired_Running) \<longrightarrow>
    (\<exists>e. deprovision E host report_id d package s = (Inl e, s)))"
proof (intro conjI impI)
  assume a: "map_of (ss_activations s) (pc_package_version_ref c) = Some a"
    and old: "pc_activation_revision c < ac_activation_revision a \<or>
         (pc_activation_revision c = ac_activation_revision a \<and> ac_desired_state a = Desired_Stopped)"
  have stale: "\<exists>e. lifecycle_retry (Some a) Desired_Running digest (pc_activation_revision c) k = Inl e" for digest k
    using old by (intro stale_retry) auto
  have "\<exists>e. provision_runtime E host report_id c p s = (Inl e, s)" "\<exists>e. provision_executor E report_id c p s = (Inl e, s)"
    if "pc_package_version_ref c = version_ref p" for p
    using a that stale [of "pv_package_digest p" "pc_idempotency_key c"]
    by (auto simp: provision_runtime_def provision_executor_def Let_def split: option.split sum.split)
  then show "\<exists>e. provision E host report_id c package s = (Inl e, s)"
    by (auto simp: provision_def split: option.split sum.split)
next
  assume a: "map_of (ss_activations s) (dc_package_version_ref d) = Some a"
    and old: "dc_activation_revision d < ac_activation_revision a \<or>
         (dc_activation_revision d = ac_activation_revision a \<and> ac_desired_state a = Desired_Running)"
  have stale: "\<exists>e. lifecycle_retry (Some a) Desired_Stopped digest (dc_activation_revision d) k = Inl e" for digest k
    using old by (intro stale_retry) auto
  have "\<exists>e. deprovision_locked E host report_id d p s = (Inl e, s)" if "dc_package_version_ref d = version_ref p" for p
    using a that stale [of "pv_package_digest p" "dc_idempotency_key d"]
    by (auto simp: deprovision_locked_def Let_def split: option.split sum.split)
  then show "\<exists>e. deprovision E host report_id d package s = (Inl e, s)"
    by (auto simp: deprovision_def split: option.split sum.split)
qed

section \<open>Delivery of health reports\<close>

lemma inspect_activation_pending:
  assumes "inspect_activation host fresh key s = (r, s1)"
  shows "map_of (ss_pending_health_reports s) k = Some q \<Longrightarrow> map_of (ss_pending_health_reports s1) k = Some q"
    and "r = Inr (Some rep) \<Longrightarrow> map_of (ss_pending_health_reports s) key = None"
    and "r = Inr (Some rep) \<Longrightarrow> service_wf s \<Longrightarrow> hr_package_version_ref rep = key"
proof -
  have "(r = Inr (Some rep) \<longrightarrow> map_of (ss_pending_health_reports s) key = None \<and>
        (\<exists>a. map_of (ss_activations s) key = Some a \<and> hr_package_version_ref rep = ac_package_version_ref a)) \<and>
      (map_of (ss_pending_health_reports s) k = Some q \<longrightarrow> map_of (ss_pending_health_reports s1) k = Some q)"
    using assms
    by (auto simp: inspect_activation_def Let_def put_activation_def update_conv split: option.splits if_splits sum.splits)
  then show "map_of (ss_pending_health_reports s) k = Some q \<Longrightarrow> map_of (ss_pending_health_reports s1) k = Some q"
    "r = Inr (Some rep) \<Longrightarrow> map_of (ss_pending_health_reports s) key = None"
    "r = Inr (Some rep) \<Longrightarrow> service_wf s \<Longrightarrow> hr_package_version_ref rep = key"
    using service_wfD(1) [of s key] by auto
qed

lemma inspect_keys_pending:
  assumes "inspect_keys host fresh keys s = (Inr rs, s')" and "service_wf s"
  shows "map_of (ss_pending_health_reports s) k = Some q \<Longrightarrow> map_of (ss_pending_health_reports s') k = Some q"
    and "rep \<in> set rs \<Longrightarrow> map_of (ss_pending_health_reports s) (hr_package_version_ref rep) = None"
proof -
  have "(map_of (ss_pending_health_reports s) k = Some q \<longrightarrow> map_of (ss_pending_health_reports s') k = Some q) \<and>
      (\<forall>rep \<in> set rs. map_of (ss_pending_health_reports s) (hr_package_version_ref rep) = None)"
    using assms
  proof (induction keys arbitrary: s rs)
    case (Cons key keys)
    obtain r0 s1 rs1 where one: "inspect_activation host fresh key s = (Inr r0, s1)"
      and rest: "inspect_keys host fresh keys s1 = (Inr rs1, s')" and rs: "rs = (case r0 of None \<Rightarrow> [] | Some rep \<Rightarrow> [rep]) @ rs1"
      using Cons.prems(1) by (auto split: sum.splits prod.splits)
    have wf1: "service_wf s1" using inspect_activation_step [of s host fresh key] one Cons.prems(2) by (simp add: service_step_def)
    note ih = Cons.IH [OF rest wf1] and kept = inspect_activation_pending(1) [OF one]
    have "map_of (ss_pending_health_reports s) (hr_package_version_ref rep) = None" if "rep \<in> set rs" for rep
    proof (cases "r0 = Some rep")
      case True
      then show ?thesis using inspect_activation_pending(2,3) [OF one] Cons.prems(2) by auto
    next
      case False
      with that rs have "rep \<in> set rs1" by (cases r0) auto
      then have "map_of (ss_pending_health_reports s1) (hr_package_version_ref rep) = None" using ih by blast
      then show ?thesis using kept [of "hr_package_version_ref rep"] by (cases "map_of (ss_pending_health_reports s) (hr_package_version_ref rep)") auto
    qed
    then show ?case using ih kept by blast
  qed simp
  then show "map_of (ss_pending_health_reports s) k = Some q \<Longrightarrow> map_of (ss_pending_health_reports s') k = Some q"
    "rep \<in> set rs \<Longrightarrow> map_of (ss_pending_health_reports s) (hr_package_version_ref rep) = None" by blast+
qed

lemma redeliver_pending:
  assumes "service_wf s" and "map_of (ss_pending_health_reports s) key = Some r" and "still_pending s (key, r)"
  shows "r \<in> set (fst (redeliver s))" and "map_of (ss_pending_health_reports (snd (redeliver s))) key = Some r"
    and "q \<in> set (fst (redeliver s)) \<Longrightarrow> hr_package_version_ref q = key \<Longrightarrow> q = r"
proof -
  have member: "(key, r) \<in> set (ss_pending_health_reports s)" by (rule map_of_SomeD [OF assms(2)])
  then show "r \<in> set (fst (redeliver s))" using assms(3) by (force simp: redeliver_def)
  have "dict_wf (filter (still_pending s) (ss_pending_health_reports s))"
    using assms(1) by (simp add: service_wf_def distinct_map_filter)
  then show "map_of (ss_pending_health_reports (snd (redeliver s))) key = Some r"
    using member assms(3) by (simp add: redeliver_def)
  assume "q \<in> set (fst (redeliver s))" and ref: "hr_package_version_ref q = key"
  then obtain k where k: "(k, q) \<in> set (ss_pending_health_reports s)" by (auto simp: redeliver_def)
  have "hr_package_version_ref q = k" by (rule service_wf_pendingD [OF assms(1) k])
  with ref k have "map_of (ss_pending_health_reports s) key = Some q" using assms(1) by (simp add: service_wf_def)
  with assms(2) show "q = r" by simp
qed

lemma find_cached_cong:
  assumes "ss_package_cache s = ss_package_cache t"
  shows "find_cached_package ref d s = find_cached_package ref d t"
  unfolding find_cached_package_def assms by (rule refl)

lemma acknowledge_found:
  assumes "map_of (ss_pending_health_reports s) key = Some r"
    and "\<And>k q. (k, q) \<in> set (ss_pending_health_reports s) \<Longrightarrow> hr_report_id q = hr_report_id r \<Longrightarrow> k = key"
    and "dict_wf (ss_pending_health_reports s)"
  shows "List.find (\<lambda>(_, q). hr_report_id q = hr_report_id r) (ss_pending_health_reports s) = Some (key, r)"
proof (cases "List.find (\<lambda>(_, q). hr_report_id q = hr_report_id r) (ss_pending_health_reports s)")
  case None
  then show ?thesis using find_NoneD [OF None, of "(key, r)"] map_of_SomeD [OF assms(1)] by simp
next
  case (Some kq)
  obtain k q where kq: "kq = (k, q)" by fastforce
  note found = find_pendingD [OF Some [unfolded kq]]
  have "k = key" by (rule assms(2) [OF found])
  with found(1) assms(1,3) have "q = r" by simp
  with Some kq \<open>k = key\<close> show ?thesis by simp
qed

text \<open>
  Health reports are delivered until they are acknowledged, and once. A report that waits and
  whose activation still runs at its revision is among the reports of the next inspection, is the only
  one for its coordinate there, and waits on; after its acknowledgement the inspection of the same
  state at the same revision stays silent and changes nothing.
\<close>

theorem health_report_delivery:
  assumes "service_wf s" and "map_of (ss_pending_health_reports s) key = Some r"
    and "map_of (ss_activations s) key = Some a" and "ac_desired_state a = Desired_Running"
    and "ac_activation_revision a = hr_activation_revision r"
  shows "(inspect_activation_health host fresh s = (Inr rs, s') \<longrightarrow>
          {q \<in> set rs. hr_package_version_ref q = key} = {r} \<and> map_of (ss_pending_health_reports s') key = Some r) \<and>
         (t = acknowledge_health_report (hr_report_id r) s \<longrightarrow>
          (\<forall>k q. (k, q) \<in> set (ss_pending_health_reports s) \<longrightarrow> hr_report_id q = hr_report_id r \<longrightarrow> k = key) \<longrightarrow>
          find_cached_package (ac_package_version_ref a) (Some (ac_package_digest a)) s = Some p \<longrightarrow>
          inspect_one host t p a = Inr (hr_activation_state r, details) \<longrightarrow>
          inspect_activation host fresh key t = (Inr None, t))"
proof (rule conjI; (intro impI)?)
  have waits: "still_pending s (key, r)" using assms(3-5) by (simp add: still_pending_def)
  note again = redeliver_pending [OF assms(1,2) waits]
  assume "inspect_activation_health host fresh s = (Inr rs, s')"
  then obtain rs1 where rest: "inspect_keys host fresh (map fst (ss_activations (snd (redeliver s)))) (snd (redeliver s)) = (Inr rs1, s')"
    and rs: "rs = fst (redeliver s) @ rs1"
    by (auto simp: inspect_activation_health_def Let_def split: prod.splits sum.splits)
  have wf: "service_wf (snd (redeliver s))" using redeliver_step [of s] assms(1) by (simp add: service_step_def)
  note kept = inspect_keys_pending [OF rest wf]
  have ref: "hr_package_version_ref r = key" using service_wf_pendingD [OF assms(1) map_of_SomeD [OF assms(2)]] by blast
  have "q = r" if "q \<in> set rs" "hr_package_version_ref q = key" for q
    using that rs again(2,3) kept(2) [of q] by auto
  then show "{q \<in> set rs. hr_package_version_ref q = key} = {r} \<and> map_of (ss_pending_health_reports s') key = Some r"
    using again(1) rs ref kept(1) [OF again(2)] by auto
next
  assume t: "t = acknowledge_health_report (hr_report_id r) s"
    and unique: "\<forall>k q. (k, q) \<in> set (ss_pending_health_reports s) \<longrightarrow> hr_report_id q = hr_report_id r \<longrightarrow> k = key"
    and found: "find_cached_package (ac_package_version_ref a) (Some (ac_package_digest a)) s = Some p"
    and seen: "inspect_one host t p a = Inr (hr_activation_state r, details)"
  have "dict_wf (ss_pending_health_reports s)" using assms(1) by (simp add: service_wf_def)
  from acknowledge_found [OF assms(2) unique [rule_format] this]
  have t': "t = s\<lparr>ss_last_reported_health := AList.update key (hr_activation_revision r, hr_activation_state r) (ss_last_reported_health s),
            ss_pending_health_reports := AList.delete key (ss_pending_health_reports s)\<rparr>"
    unfolding t acknowledge_health_report_def by (simp del: find_Some_iff)
  have "find_cached_package (ac_package_version_ref a) (Some (ac_package_digest a)) t = Some p"
    using found find_cached_cong [of t s] by (simp add: t')
  moreover have "map_of (ss_activations t) key = Some a" "map_of (ss_last_reported_health t) key = Some (ac_activation_revision a, hr_activation_state r)"
    using assms(3,5) by (simp_all add: t' update_conv)
  ultimately show "inspect_activation host fresh key t = (Inr None, t)"
    using seen by (simp add: inspect_activation_def)
qed

section \<open>Advertised capabilities\<close>

lemma snapshot_iff:
  "op \<in> set (capability_snapshot s) \<longleftrightarrow> op \<in> set (ss_supported_operations s) \<or>
     (\<exists>key a p. (key, a) \<in> set (ss_activations s) \<and> ac_desired_state a = Desired_Running \<and> ac_activation_state a = Ready \<and>
        find_cached_package (ac_package_version_ref a) (Some (ac_package_digest a)) s = Some p \<and> op \<in> set (exported_operations p))"
  by (fastforce simp: capability_snapshot_def split: option.splits if_splits)

lemma find_cached_digest:
  assumes "find_cached_package ref (Some d) s = Some p" and "d \<noteq> []"
  shows "lower (pv_package_digest p) = lower d"
  using assms
  by (auto simp: find_cached_package_def nonempty_def Let_def split: option.splits if_splits dest: find_SomeD)

lemma cached_fresh:
  assumes "lower d = lower (pv_package_digest p)"
    and "ss_package_cache t = ss_package_cache (cache_package p (version_ref p) s)"
  shows "find_cached_package (version_ref p) (Some d) t = Some p"
proof -
  have keys: "package_cache_key (version_ref p) (lower d) = package_cache_key (version_ref p) (pv_package_digest p)"
    by (simp add: package_cache_key_def assms(1))
  have distinct: "package_cache_key (version_ref p) (pv_package_digest p) \<noteq> version_ref p" by (simp add: package_cache_key_def)
  show ?thesis
    using assms distinct unfolding find_cached_package_def Let_def option.sel keys
    by (simp add: cache_package_def update_conv)
qed

lemma cache_frame [simp]:
  "ss_package_cache (put_activation key a s) = ss_package_cache s" "ss_package_cache (add_event ev s) = ss_package_cache s"
  "ss_package_cache (snd (remember_health_report key r s)) = ss_package_cache s"
  by (simp_all add: put_activation_def add_event_def remember_health_report_def)

lemma answers_cache:
  "ss_package_cache (snd (answer_provision E report_id c p pending response s)) = ss_package_cache s"
  "ss_package_cache (snd (answer_executor report_id c p pending s)) = ss_package_cache s"
  by (auto simp: answer_provision_def answer_executor_def Let_def split: option.split sum.split)

lemma provisioned_cached:
  assumes "provision E host report_id c package s = (Inr r, s')" and "revalidate_package E given = Inr p"
    and "or_cached package (pc_package_version_ref c) (pc_package_digest c) s = Some given"
    and "map_option ac_activation_state (map_of (ss_activations s) (version_ref p)) \<noteq> Some Ready"
  shows "\<exists>t. ss_package_cache s' = ss_package_cache (cache_package p (version_ref p) t)"
proof -
  have ref: "pc_package_version_ref c = version_ref p"
    and run: "(if uses_runtime_plugin s p then provision_runtime E host report_id c p s else provision_executor E report_id c p s) = (Inr r, s')"
    using assms(1-3) by (auto simp: provision_def split: if_splits)
  let ?stored = "\<lambda>retry. put_activation (version_ref p) (pending_activation s c p (map_of (ss_activations s) (version_ref p)))
      (cache_package p (pc_package_version_ref c) (accept_activation_revision (version_ref p) retry s))"
  have "\<exists>retry response. s' = snd (answer_provision E report_id c p (pending_activation s c p (map_of (ss_activations s) (version_ref p))) response (?stored retry)) \<or>
      s' = snd (answer_executor report_id c p (pending_activation s c p (map_of (ss_activations s) (version_ref p))) (?stored retry))"
    using run assms(4)
    by (auto simp: provision_runtime_def provision_executor_def Let_def split: if_splits option.splits sum.splits bool.splits) (metis snd_conv)+
  then show ?thesis using ref by (auto simp: answers_cache)
qed

text \<open>
  A Slave advertises what it can serve. Every advertised operation is a supported one or an
  export of a cached package whose digest is that of an activation that is wanted and ready; and once a
  package is provisioned as ready, each of its exported operations is advertised.
\<close>

theorem advertised_capabilities:
  "(op \<in> set (capability_snapshot s) \<longrightarrow> op \<notin> set (ss_supported_operations s) \<longrightarrow>
    (\<exists>key a p. (key, a) \<in> set (ss_activations s) \<and> ac_desired_state a = Desired_Running \<and> ac_activation_state a = Ready \<and>
       (ac_package_digest a \<noteq> [] \<longrightarrow> lower (pv_package_digest p) = lower (ac_package_digest a)) \<and> op \<in> set (exported_operations p))) \<and>
   (service_wf s \<longrightarrow> provision E host report_id c package s = (Inr r, s') \<longrightarrow> hr_activation_state r = Ready \<longrightarrow>
    or_cached package (pc_package_version_ref c) (pc_package_digest c) s = Some given \<longrightarrow> revalidate_package E given = Inr p \<longrightarrow>
    map_option ac_activation_state (map_of (ss_activations s) (version_ref p)) \<noteq> Some Ready \<longrightarrow>
    set (exported_operations p) \<subseteq> set (capability_snapshot s'))"
proof (intro conjI impI)
  assume "op \<in> set (capability_snapshot s)" and "op \<notin> set (ss_supported_operations s)"
  then obtain key a p where "(key, a) \<in> set (ss_activations s)" "ac_desired_state a = Desired_Running" "ac_activation_state a = Ready"
    "find_cached_package (ac_package_version_ref a) (Some (ac_package_digest a)) s = Some p" "op \<in> set (exported_operations p)"
    unfolding snapshot_iff by blast
  then show "\<exists>key a p. (key, a) \<in> set (ss_activations s) \<and> ac_desired_state a = Desired_Running \<and> ac_activation_state a = Ready \<and>
      (ac_package_digest a \<noteq> [] \<longrightarrow> lower (pv_package_digest p) = lower (ac_package_digest a)) \<and> op \<in> set (exported_operations p)"
    using find_cached_digest by blast
next
  assume wf: "service_wf s" and run: "provision E host report_id c package s = (Inr r, s')" and ready: "hr_activation_state r = Ready"
    and given: "or_cached package (pc_package_version_ref c) (pc_package_digest c) s = Some given" "revalidate_package E given = Inr p"
    and new: "map_option ac_activation_state (map_of (ss_activations s) (version_ref p)) \<noteq> Some Ready"
  have wf': "service_wf s'" using provisioning.keeps [OF wf, of E host report_id c package] run by simp
  have "reports s p (pc_activation_revision c) Desired_Running r s'"
    using run given by (auto elim!: provision_InrD dest: provision_runtime_InrD(3) provision_executor_InrD(3) split: if_splits)
  then obtain a where a: "map_of (ss_activations s') (version_ref p) = Some a" "ac_desired_state a = Desired_Running"
    "ac_activation_state a = Ready" "lower (ac_package_digest a) = lower (pv_package_digest p)" using ready by (auto simp: reports_def)
  obtain t where "ss_package_cache s' = ss_package_cache (cache_package p (version_ref p) t)"
    using provisioned_cached [OF run given(2,1) new] by blast
  from cached_fresh [OF a(4) this] service_wfD(1) [OF wf' a(1)]
  have "find_cached_package (ac_package_version_ref a) (Some (ac_package_digest a)) s' = Some p" by simp
  with a(2,3) map_of_SomeD [OF a(1)] show "set (exported_operations p) \<subseteq> set (capability_snapshot s')"
    unfolding subset_iff snapshot_iff by blast
qed

section \<open>A provider that cannot be reached\<close>

definition lost :: "activation \<Rightarrow> activation" where
  "lost a = a\<lparr>ac_activation_state := Lost\<rparr>"

lemma reconcilable_iff:
  "(key, a, p) \<in> set (reconcilable s) \<longleftrightarrow> (key, a) \<in> set (ss_activations s) \<and>
     find_cached_package (ac_package_version_ref a) (Some (ac_package_digest a)) s = Some p \<and> uses_runtime_plugin s p"
  by (fastforce simp: reconcilable_def split: option.splits if_splits)

lemma apply_unanswered:
  "fst (apply_reconciled E [] entries s) = Inr () \<and>
   map_of (ss_activations (snd (apply_reconciled E [] entries s))) key =
     (if \<exists>sent p. (key, sent, p) \<in> set entries \<and> ac_desired_state sent \<noteq> Desired_Stopped
      then map_option lost (map_of (ss_activations s) key) else map_of (ss_activations s) key)"
proof (induction entries arbitrary: s)
  case (Cons entry entries)
  obtain k sent p where entry: "entry = (k, sent, p)" by (cases entry) auto
  show ?case
  proof (cases "map_of (ss_activations s) k")
    case None
    then show ?thesis using Cons.IH [of s] by (auto simp: entry)
  next
    case (Some a)
    let ?s1 = "if ac_desired_state sent \<noteq> Desired_Stopped then put_activation k (a\<lparr>ac_activation_state := Lost\<rparr>) s else s"
    have "apply_reconciled E [] (entry # entries) s = apply_reconciled E [] entries ?s1" by (simp add: entry Some)
    then show ?thesis using Cons.IH [of ?s1] Some by (auto simp: entry update_conv lost_def)
  qed
qed simp

text \<open>
  Unreachable providers lose their activations. When the reconciliation fails with an error of
  the plugin host, the Slave answers with no observation and marks exactly those activations lost that
  are wanted running and whose cached package a runtime plugin serves; every other activation stays as
  it is.
\<close>

theorem unreachable_marked_lost:
  assumes "service_wf s"
    and "host_reconcile E h (map (\<lambda>(key, a, p). reconcile_entry s key a p) (reconcilable s)) = Inl (RuntimePluginError code msg details)"
  shows "fst (reconcile_activations E (Some h) s) = Inr [] \<and>
         (map_of (ss_activations s) key = Some a \<longrightarrow>
          map_of (ss_activations (snd (reconcile_activations E (Some h) s))) key =
           Some (if ac_desired_state a = Desired_Running \<and>
                    (\<exists>p. find_cached_package (ac_package_version_ref a) (Some (ac_package_digest a)) s = Some p \<and> uses_runtime_plugin s p)
                 then a\<lparr>ac_activation_state := Lost\<rparr> else a))"
proof (intro conjI impI)
  let ?after = "apply_reconciled E [] (reconcilable s) s"
  have ok: "fst ?after = Inr ()" using apply_unanswered by blast
  have ran: "reconcile_activations E (Some h) s = (Inr [], snd ?after)" if "ss_activations s \<noteq> []"
    using that assms(2) ok by (auto simp: reconcile_activations_def Let_def split: prod.splits sum.splits)
  show "fst (reconcile_activations E (Some h) s) = Inr []"
    using ran by (cases "ss_activations s = []") (simp_all add: reconcile_activations_def)
  assume a: "map_of (ss_activations s) key = Some a"
  then have some: "ss_activations s \<noteq> []" by auto
  have one: "(key, b) \<in> set (ss_activations s) \<longleftrightarrow> b = a" for b
  proof -
    have "dict_wf (ss_activations s)" using assms(1) by (simp add: service_wf_def)
    from map_of_eq_Some_iff [OF this, of key b] a show ?thesis by auto
  qed
  have cond: "(\<exists>sent p. (key, sent, p) \<in> set (reconcilable s) \<and> ac_desired_state sent \<noteq> Desired_Stopped) \<longleftrightarrow>
      ac_desired_state a = Desired_Running \<and>
      (\<exists>p. find_cached_package (ac_package_version_ref a) (Some (ac_package_digest a)) s = Some p \<and> uses_runtime_plugin s p)"
    by (cases "ac_desired_state a") (simp_all add: reconcilable_iff one)
  show "map_of (ss_activations (snd (reconcile_activations E (Some h) s))) key =
           Some (if ac_desired_state a = Desired_Running \<and>
                    (\<exists>p. find_cached_package (ac_package_version_ref a) (Some (ac_package_digest a)) s = Some p \<and> uses_runtime_plugin s p)
                 then a\<lparr>ac_activation_state := Lost\<rparr> else a)"
    unfolding ran [OF some] snd_conv using apply_unanswered [of E "reconcilable s" s key] a
    by (simp only: cond option.map lost_def if_distrib [where f = Some])
qed

section \<open>Witnesses\<close>

definition demo_service :: slave_service where
  "demo_service = \<lparr>ss_slave_id = ''s'', ss_workspace_id = ''w'', ss_replica_state = ''ready'', ss_available = True, ss_attempts = [],
     ss_supported_operations = [''run_code''], ss_executors = [], ss_package_cache = [], ss_activations = [], ss_resource_events = [],
     ss_pending_health_reports = [], ss_last_reported_health = []\<rparr>"

definition demo_provision_command :: "nat \<Rightarrow> provision_command" where
  "demo_provision_command revision = \<lparr>pc_command_id = ''c'', pc_package_version_ref = ''capability-package://p/v1'', pc_package_digest = demo_digest,
     pc_target_slave = ''s'', pc_workspace_id = ''w'', pc_activation_closure_version_ref = [], pc_compute_binding = None,
     pc_idempotency_key = ''k'', pc_activation_revision = revision\<rparr>"

definition demo_provision :: "health_report result \<times> slave_service" where
  "demo_provision = provision demo_env2 (Some demo_host) ''h1'' (demo_provision_command 2) (Some demo_package) demo_service"

definition demo_provisioned :: slave_service where
  "demo_provisioned = snd demo_provision"

lemma demo_service_wf: "service_wf demo_service"
  by (simp add: service_wf_def demo_service_def)

lemma demo_provision_ready: "map_sum (\<lambda>e. ()) hr_activation_state (fst demo_provision) = Inr Ready"
  by code_simp

lemma demo_provision_ok:
  obtains r where "provision demo_env2 (Some demo_host) ''h1'' (demo_provision_command 2) (Some demo_package) demo_service = (Inr r, demo_provisioned)"
    and "hr_activation_state r = Ready"
proof -
  obtain r where "fst demo_provision = Inr r" "hr_activation_state r = Ready"
    using demo_provision_ready by (cases "fst demo_provision") auto
  then show thesis by (intro that [of r]) (simp_all add: demo_provisioned_def prod_eq_iff flip: demo_provision_def)
qed

theorem provision_sound_witness:
  "pc_target_slave (demo_provision_command 2) = ss_slave_id demo_service \<and>
   (\<exists>p. version_ref p = pc_package_version_ref (demo_provision_command 2) \<and>
        package_digest_of demo_env2 p = Inr (pv_package_digest p))"
proof -
  obtain r where "provision demo_env2 (Some demo_host) ''h1'' (demo_provision_command 2) (Some demo_package) demo_service = (Inr r, demo_provisioned)"
    by (rule demo_provision_ok)
  from provision_sound [OF this] show ?thesis by blast
qed

lemma demo_active: "map_of (ss_activations demo_provisioned) ''capability-package://p/v1'' =
    Some \<lparr>ac_package_version_ref = ''capability-package://p/v1'', ac_package_digest = demo_digest, ac_target_slave = ''s'',
      ac_activation_closure_version_ref = ''c'', ac_compute_binding_ref = [], ac_desired_state = Desired_Running,
      ac_activation_revision = 2, ac_last_idempotency_key = ''k'', ac_evidence_refs = [], ac_activation_state = Ready,
      ac_runtime_profile = []\<rparr>"
  by code_simp

theorem stale_command_rejected_witness:
  "\<exists>e. provision demo_env2 (Some demo_host) ''h2'' (demo_provision_command 1) None demo_provisioned = (Inl e, demo_provisioned)"
proof (rule stale_command_rejected [THEN conjunct1, rule_format])
  show "map_of (ss_activations demo_provisioned) (pc_package_version_ref (demo_provision_command 1)) = Some (the (map_of (ss_activations demo_provisioned) ''capability-package://p/v1''))"
    by (simp add: demo_provision_command_def demo_active)
qed (simp add: demo_active demo_provision_command_def)

theorem advertised_capabilities_witness: "''op'' \<in> set (capability_snapshot demo_provisioned)"
proof -
  obtain r where r: "provision demo_env2 (Some demo_host) ''h1'' (demo_provision_command 2) (Some demo_package) demo_service = (Inr r, demo_provisioned)"
    "hr_activation_state r = Ready" by (rule demo_provision_ok)
  have valid: "case revalidate_package demo_env2 demo_package of Inl _ \<Rightarrow> False | Inr p \<Rightarrow> exported_operations p = [''op'']" by code_simp
  then obtain p where p: "revalidate_package demo_env2 demo_package = Inr p" "exported_operations p = [''op'']" by (auto split: sum.splits)
  have "set (exported_operations p) \<subseteq> set (capability_snapshot demo_provisioned)"
    by (rule advertised_capabilities [THEN conjunct2, rule_format, OF demo_service_wf r _ p(1)]) (simp_all add: or_cached_def demo_service_def)
  then show ?thesis by (simp add: p(2))
qed

definition demo_down :: "(string \<Rightarrow> string) \<Rightarrow> health_report list result \<times> slave_service" where
  "demo_down fresh = inspect_activation_health None fresh demo_provisioned"

definition demo_waiting :: slave_service where
  "demo_waiting = snd (demo_down (\<lambda>key. ''h3''))"

lemma demo_provisioned_wf: "service_wf demo_provisioned"
  using provisioning.keeps [OF demo_service_wf] by (simp add: demo_provisioned_def demo_provision_def)

lemma demo_waiting_wf: "service_wf demo_waiting"
  using inspection.keeps [OF demo_provisioned_wf] by (simp add: demo_waiting_def demo_down_def)

lemma demo_waiting_report:
  "map_of (ss_pending_health_reports demo_waiting) ''capability-package://p/v1'' =
     Some \<lparr>hr_report_id = ''h3'', hr_package_version_ref = ''capability-package://p/v1'', hr_package_digest = demo_digest,
       hr_target_slave = ''s'', hr_activation_state = Activation_Failed, hr_evidence_refs = [],
       hr_details = [(''code'', JStr ''runtime_plugin_not_found'')], hr_activation_revision = 2\<rparr>"
  "map_option (\<lambda>a. (ac_desired_state a, ac_activation_revision a)) (map_of (ss_activations demo_waiting) ''capability-package://p/v1'') =
     Some (Desired_Running, 2)"
  "case fst (inspect_activation_health None (\<lambda>key. ''h4'') demo_waiting) of Inl _ \<Rightarrow> False | Inr _ \<Rightarrow> True"
  by code_simp+

theorem health_report_delivery_witness:
  "\<exists>rs s'. inspect_activation_health None (\<lambda>key. ''h4'') demo_waiting = (Inr rs, s') \<and>
     map hr_report_id (filter (\<lambda>q. hr_package_version_ref q = ''capability-package://p/v1'') rs) \<noteq> []"
proof -
  obtain rs s' where run: "inspect_activation_health None (\<lambda>key. ''h4'') demo_waiting = (Inr rs, s')"
    using demo_waiting_report(3) by (cases "inspect_activation_health None (\<lambda>key. ''h4'') demo_waiting") (auto split: sum.splits)
  obtain a where a: "map_of (ss_activations demo_waiting) ''capability-package://p/v1'' = Some a"
    "ac_desired_state a = Desired_Running" "ac_activation_revision a = 2" using demo_waiting_report(2) by auto
  have "{q \<in> set rs. hr_package_version_ref q = ''capability-package://p/v1''} \<noteq> {}"
    using health_report_delivery [OF demo_waiting_wf demo_waiting_report(1) a(1,2), THEN conjunct1, rule_format, OF _ run] a(3) by simp
  then show ?thesis using run by (auto simp: filter_empty_conv)
qed

definition demo_broken_host :: plugin_host where
  "demo_broken_host = demo_host\<lparr>ho_plugins := [((''function'', ''k'', ''1''),
     demo_plugin\<lparr>rp_reconcile := (\<lambda>acts. Inl (plugin_fail ''runtime_plugin_unavailable''))\<rparr>)]\<rparr>"

lemma demo_unreachable:
  "case host_reconcile demo_env2 demo_broken_host (map (\<lambda>(key, a, p). reconcile_entry demo_provisioned key a p) (reconcilable demo_provisioned)) of
     Inl (RuntimePluginError code _ _) \<Rightarrow> True | _ \<Rightarrow> False"
  by code_simp

theorem unreachable_marked_lost_witness: "fst (reconcile_activations demo_env2 (Some demo_broken_host) demo_provisioned) = Inr []"
proof -
  obtain code msg details where
    "host_reconcile demo_env2 demo_broken_host (map (\<lambda>(key, a, p). reconcile_entry demo_provisioned key a p) (reconcilable demo_provisioned)) =
       Inl (RuntimePluginError code msg details)"
    using demo_unreachable by (auto split: sum.splits plugin_error.splits)
  from unreachable_marked_lost [OF demo_provisioned_wf this] show ?thesis by blast
qed

end
