(* ===== verification/Slave_Run.thy ===== *)
theory Slave_Run
  imports Slave_Properties
begin

text \<open>
  Dispatch of an attempt to a Slave (\<^verbatim>\<open>SlaveService.run\<close> with the admission of its input and the
  validation of its output), and the invariant of the whole service.

  The content store is read through the environment and written through \<open>put\<close>, which returns the
  reference of the stored bytes. Each run gets two stamps for the identifiers and times of its evidence.
\<close>

section \<open>Admission\<close>

definition closure_operation :: "task_closure \<Rightarrow> string" where
  "closure_operation cl = or_string (pa_operation_ref (tc_program cl)) (sp_operation_ref (tc_compute cl))"

definition admission_binding :: "task_closure \<Rightarrow> string \<Rightarrow> node_input_binding option" where
  "admission_binding cl operation =
     (let ref = closure_operation cl;
          named = (if ref \<noteq> [] then operation_name ref else operation)
      in List.find (\<lambda>b. nb_node_id b \<in> {ref, named, operation, ''default''}) (tc_node_input_bindings cl))"

definition as_payload :: "json \<Rightarrow> dict" where
  "as_payload v = (case v of JObj d \<Rightarrow> d | _ \<Rightarrow> [(''value'', v)])"

text \<open>The value against the schema of the input, if there is one.\<close>

definition check_input_value :: "env \<Rightarrow> resource_ref option \<Rightarrow> json \<Rightarrow> unit result" where
  "check_input_value E schema_ref v =
     (case schema_ref of
        None \<Rightarrow> Inr ()
      | Some ref \<Rightarrow>
          (case raise_as is_content_error ''payload_schema_mismatch''
                  (res_bind (checked_schema E ref) (\<lambda>schema. validate_value E schema v)) of
             Inl e \<Rightarrow> Inl e
           | Inr errors \<Rightarrow> if errors \<noteq> [] then Inl (RuntimeError ''payload_schema_mismatch'') else Inr ()))"

definition validate_input_payload :: "env \<Rightarrow> capability_export \<Rightarrow> dict \<Rightarrow> unit result" where
  "validate_input_payload E ex payload =
     res_bind (slave_io_contract E (ce_io_contract_ref ex)) (\<lambda>c. check_input_value E (io_input_schema_ref c) (JObj payload))"

definition admission_payload :: "env \<Rightarrow> dict \<Rightarrow> string \<Rightarrow> task_closure option \<Rightarrow> capability_export \<Rightarrow> dict result" where
  "admission_payload E payload operation closure ex =
     (case closure of
        None \<Rightarrow> Inr payload
      | Some cl \<Rightarrow>
          if tc_node_input_bindings cl = [] then Inr payload
          else (case admission_binding cl operation of
                  None \<Rightarrow> Inl (RuntimeError ''input_binding_missing'')
                | Some b \<Rightarrow>
                    res_bind (slave_io_contract E (ce_io_contract_ref ex)) (\<lambda>c.
                    res_bind (raise_as is_content_error ''payload_schema_mismatch'' (read_json E (nb_input_ref b))) (\<lambda>v.
                    res_bind (check_input_value E (io_input_schema_ref c) v) (\<lambda>_.
                    Inr (as_payload v))))))"

section \<open>Validation of the result\<close>

definition slave_evidence ::
  "evidence_stamp \<Rightarrow> string \<Rightarrow> int \<Rightarrow> io_contract \<Rightarrow> string option \<Rightarrow> string \<Rightarrow> bool \<Rightarrow> json list \<Rightarrow> json result" where
  "slave_evidence stamp attempt_id epoch c input_digest output_digest pass errors =
     (if \<not> list_all is_obj errors then Inl (ValidationError ''ValidationEvidence'')
      else Inr (evidence_json
        \<lparr>ve_evidence_id = ''evidence-'' @ attempt_id @ ''-'' @ es_suffix stamp, ve_attempt_id = attempt_id, ve_execution_epoch = epoch,
         ve_validator_ref = io_success_validator_ref c, ve_schema_ref = io_output_schema_ref c, ve_input_digest = input_digest,
         ve_output_digest = Some output_digest, ve_pass = pass, ve_errors = errors, ve_by_slave = True,
         ve_created_at = es_created_at stamp\<rparr>))"

definition result_errors :: "env \<Rightarrow> resource_ref \<Rightarrow> json \<Rightarrow> schema_error list result" where
  "result_errors E schema_ref v =
     (case res_bind (checked_schema E schema_ref) (\<lambda>schema. validate_value E schema v) of
        Inl e \<Rightarrow>
          if is_content_error e
          then Inr [schema_failure ''$'' ''schema'' ''output schema could not be evaluated'' (JStr ''valid output schema'') (error_message e)]
          else Inl e
      | Inr errors \<Rightarrow> Inr errors)"

text \<open>The rejection by a schema ends the validation: \<open>Inl\<close> of the inner sum is the failed result.\<close>

definition judge_schema ::
  "env \<Rightarrow> evidence_stamp \<Rightarrow> string \<Rightarrow> int \<Rightarrow> io_contract \<Rightarrow> string option \<Rightarrow> execution_result \<Rightarrow> (execution_result + json list) result" where
  "judge_schema E stamp attempt_id epoch c input_digest r =
     (case io_output_schema_ref c of
        None \<Rightarrow> Inr (Inr [])
      | Some ref \<Rightarrow>
          res_bind (result_errors E ref (xr_value r)) (\<lambda>errors.
          res_bind (slave_evidence stamp attempt_id epoch c input_digest (execution_digest r) (errors = []) (map schema_error_json errors)) (\<lambda>ev.
          Inr (if errors \<noteq> []
               then Inl (r\<lparr>xr_terminal_state := ''failed'',
                           xr_terminal_error := JObj [(''code'', JStr ''output_schema_mismatch''), (''errors'', JArr (map schema_error_json errors))],
                           xr_validation_evidence := [ev]\<rparr>)
               else Inr [ev]))))"

definition process_contract :: execution_contract where
  "process_contract = \<lparr>ec_kind = ''process:json_stdio'', ec_version = ''1''\<rparr>"

definition judge_success ::
  "env \<Rightarrow> executor_registry \<Rightarrow> evidence_stamp \<Rightarrow> string \<Rightarrow> int \<Rightarrow> io_contract \<Rightarrow> string option \<Rightarrow> json list \<Rightarrow> execution_result \<Rightarrow>
   execution_result result" where
  "judge_success E reg stamp attempt_id epoch c input_digest evidence r =
     (case io_success_validator_ref c of
        Some ref \<Rightarrow>
          res_bind (env_get E ref) (\<lambda>program.
          res_bind (invoke_for reg ''function'' process_contract (as_payload (xr_value r)) program) (\<lambda>verdict.
          let payload = obj_of (xr_value verdict);
              pass = (dget payload ''result'' = JStr ''pass'');
              errors = arr_of (dget payload ''errors'')
          in res_bind (slave_evidence stamp attempt_id epoch c input_digest (execution_digest r) pass errors) (\<lambda>ev.
             Inr (if \<not> pass
                  then r\<lparr>xr_terminal_state := ''failed'',
                         xr_terminal_error := JObj [(''code'', JStr ''success_validation_failed''), (''errors'', JArr errors)],
                         xr_validation_evidence := evidence @ [ev]\<rparr>
                  else r\<lparr>xr_validation_evidence := evidence @ [ev]\<rparr>))))
      | None \<Rightarrow>
          if io_success_semantics c \<noteq> JNull
          then Inr (r\<lparr>xr_terminal_state := ''decision_required'', xr_terminal_error := JObj [(''code'', JStr ''attestation_required'')],
                      xr_validation_evidence := evidence\<rparr>)
          else Inr (r\<lparr>xr_validation_evidence := evidence\<rparr>))"

definition terminal_input_digest :: "task_closure option \<Rightarrow> string option" where
  "terminal_input_digest closure =
     (case closure of
        None \<Rightarrow> None
      | Some cl \<Rightarrow>
          (case input_binding_for cl (closure_operation cl) of None \<Rightarrow> None | Some b \<Rightarrow> ref_digest (nb_input_ref b)))"

definition validate_terminal_result ::
  "env \<Rightarrow> executor_registry \<Rightarrow> evidence_stamp \<Rightarrow> evidence_stamp \<Rightarrow> string \<Rightarrow> int \<Rightarrow> task_closure option \<Rightarrow> capability_export \<Rightarrow>
   execution_result \<Rightarrow> execution_result result" where
  "validate_terminal_result E reg st1 st2 attempt_id epoch closure ex r =
     res_bind (slave_io_contract E (ce_io_contract_ref ex)) (\<lambda>c.
     let input_digest = terminal_input_digest closure in
     res_bind (judge_schema E st1 attempt_id epoch c input_digest r) (\<lambda>verdict.
     (case verdict of
        Inl rejected \<Rightarrow> Inr rejected
      | Inr evidence \<Rightarrow> judge_success E reg st2 attempt_id epoch c input_digest evidence r)))"

section \<open>Running an attempt\<close>

record run_request =
  rq_attempt_id :: string
  rq_operation :: string
  rq_payload :: dict
  rq_closure :: "task_closure option"
  rq_binding :: "compute_binding option"
  rq_execution_epoch :: int

definition slave_package :: "run_request \<Rightarrow> slave_service \<Rightarrow> package_version option result" where
  "slave_package q s =
     (case rq_binding q of
        Some b \<Rightarrow>
          (case cb_capability_package_ref b of
             Some ref \<Rightarrow>
               (case find_cached_package (rr_resource_id ref) (ref_digest ref) s of
                  None \<Rightarrow> Inl (RuntimeError ''capability_package_not_installed'')
                | Some p \<Rightarrow> Inr (Some p))
           | None \<Rightarrow>
               if rq_operation q \<notin> set (ss_supported_operations s)
               then Inl (RuntimeError (''capability_unavailable:'' @ rq_operation q)) else Inr None)
      | None \<Rightarrow>
          if rq_operation q \<notin> set (ss_supported_operations s)
          then Inl (RuntimeError (''capability_unavailable:'' @ rq_operation q)) else Inr None)"

fun check_holes :: "compute_binding list \<Rightarrow> typed_hole list \<Rightarrow> unit result" where
  "check_holes bindings [] = Inr ()"
| "check_holes bindings (h # hs) =
     (if th_status h \<noteq> ''bound'' \<or> \<not> nonempty (th_binding_ref h)
      then Inl (RuntimeError (''typed_hole_unbound:'' @ th_hole_id h))
      else (case find_last (\<lambda>b. cb_hole_id b = th_hole_id h) bindings of
              None \<Rightarrow> Inl (RuntimeError (''compute_binding_missing:'' @ th_hole_id h))
            | Some b \<Rightarrow>
                if Some (cb_binding_id b) \<noteq> th_binding_ref h
                then Inl (RuntimeError (''compute_binding_missing:'' @ th_hole_id h))
                else check_holes bindings hs))"

definition check_closure :: "run_request \<Rightarrow> slave_service \<Rightarrow> unit result" where
  "check_closure q s =
     (case rq_closure q of
        None \<Rightarrow> Inr ()
      | Some cl \<Rightarrow>
          let expected = operation_name (closure_operation cl) in
          if expected \<noteq> [] \<and> expected \<noteq> rq_operation q then Inl (RuntimeError ''operation_binding_mismatch'')
          else (case check_holes (tc_compute_bindings cl) (sp_typed_holes (tc_compute cl)) of
                  Inl e \<Rightarrow> Inl e
                | Inr _ \<Rightarrow>
                    (case rq_binding q of
                       Some b \<Rightarrow>
                         if rr_resource_id (cb_target_resource_ref b) \<noteq> ss_slave_id s
                         then Inl (RuntimeError ''binding_target_mismatch'') else Inr ()
                     | None \<Rightarrow> Inr ())))"

text \<open>The guards up to the point where a known attempt is answered from memory.\<close>

definition admit_attempt :: "env \<Rightarrow> run_request \<Rightarrow> slave_service \<Rightarrow> (package_version \<times> capability_export) result" where
  "admit_attempt E q s =
     (if \<not> ss_available s \<or> ss_replica_state s \<noteq> ''ready'' then Inl (RuntimeError ''slave_unavailable'')
      else res_bind (slave_package q s) (\<lambda>found.
           res_bind (check_closure q s) (\<lambda>_.
           case found of
             None \<Rightarrow> Inl (RuntimeError ''capability_package_required'')
           | Some given \<Rightarrow>
               res_bind (revalidate_package E given) (\<lambda>p.
               res_bind (selected_export p (rq_binding q)) (\<lambda>ex. Inr (p, ex))))))"

definition provenance_base :: "package_version \<Rightarrow> dict" where
  "provenance_base p = [(''package_version_ref'', JStr (version_ref p)), (''package_digest'', JStr (pv_package_digest p))]"

definition invoke_runtime ::
  "env \<Rightarrow> plugin_host option \<Rightarrow> run_request \<Rightarrow> package_version \<Rightarrow> capability_export \<Rightarrow> dict \<Rightarrow> slave_service \<Rightarrow> execution_result result" where
  "invoke_runtime E host q p ex payload s =
     (case map_of (ss_activations s) (version_ref p) of
        None \<Rightarrow> Inl (RuntimeError ''capability_activation_not_ready'')
      | Some a \<Rightarrow>
          if ac_activation_state a \<noteq> Ready then Inl (RuntimeError ''capability_activation_not_ready'')
          else (case host of
            None \<Rightarrow> Inl (RuntimeError ''runtime_plugin_not_found'')
          | Some h \<Rightarrow>
              (case host_invoke h p ex payload (local_activation s a) (rq_attempt_id q) of
                 Inl e \<Rightarrow> Inl (as_runtime_error e)
               | Inr response \<Rightarrow>
                   if \<not> dhas response ''value'' then Inl (RuntimeError ''runtime_plugin_protocol_error'')
                   else
                     res_bind (value_ref E (dget response ''value'')) (\<lambda>ref.
                     res_bind (dict_of (dget response ''provenance'')) (\<lambda>extra.
                     Inr \<lparr>xr_resource_ref = ref, xr_value = dget response ''value'',
                          xr_replay_safety = str_or E (dget response ''replay_safety'') (ce_replay_safety ex),
                          xr_terminal_state = str_or E (dget response ''terminal_state'') ''completed'',
                          xr_terminal_error = dget response ''terminal_error'', xr_validation_evidence = [],
                          xr_provenance = JObj (dict_with (provenance_base p @
                            [(''capability_descriptor_ref'', ref_json (ce_capability_descriptor_ref ex)),
                             (''execution'', execution_json (pv_execution p)),
                             (''runtime_plugin_id'', JStr (str_or E (dget response ''runtime_plugin_id'') []))]) extra)\<rparr>)))))"

text \<open>
  The content store checks what it returns for a reference against the digest of the reference, so the
  expected digest that the sources pass along adds nothing to the read.
\<close>

definition invoke_executor :: "env \<Rightarrow> package_version \<Rightarrow> dict \<Rightarrow> slave_service \<Rightarrow> execution_result result" where
  "invoke_executor E p payload s =
     res_bind (slave_body_ref p ''program_content_ref'') (\<lambda>ref.
     res_bind (env_get E ref) (\<lambda>program.
     res_bind (get_executor (ss_executors s) (pv_package_type p) (pv_execution p)) (\<lambda>adapter.
     res_bind (ad_invoke adapter payload program) (\<lambda>r.
     Inr (r\<lparr>xr_provenance := JObj (provenance_base p @
            [(''program_content_ref'', ref_json ref), (''execution'', execution_json (pv_execution p)),
             (''executor_descriptor_ref'', JStr (executor_descriptor_ref (ad_descriptor adapter)))])\<rparr>)))))"

definition execute_attempt ::
  "env \<Rightarrow> plugin_host option \<Rightarrow> evidence_stamp \<Rightarrow> evidence_stamp \<Rightarrow> run_request \<Rightarrow> package_version \<Rightarrow> capability_export \<Rightarrow>
   slave_service \<Rightarrow> execution_result result" where
  "execute_attempt E host st1 st2 q p ex s =
     res_bind (admission_payload E (rq_payload q) (rq_operation q) (rq_closure q) ex) (\<lambda>payload.
     res_bind (validate_input_payload E ex payload) (\<lambda>_.
     res_bind (if uses_runtime_plugin s p then invoke_runtime E host q p ex payload s else invoke_executor E p payload s) (\<lambda>r.
     validate_terminal_result E (ss_executors s) st1 st2 (rq_attempt_id q) (rq_execution_epoch q) (rq_closure q) ex r)))"

definition run_attempt ::
  "env \<Rightarrow> plugin_host option \<Rightarrow> (string \<Rightarrow> string \<Rightarrow> resource_ref result) \<Rightarrow> evidence_stamp \<Rightarrow> evidence_stamp \<Rightarrow> run_request \<Rightarrow>
   execution_result service_op" where
  "run_attempt E host put st1 st2 q s =
     (case admit_attempt E q s of
        Inl e \<Rightarrow> (Inl e, s)
      | Inr (p, ex) \<Rightarrow>
          (case map_of (ss_attempts s) (rq_attempt_id q) of
             Some r \<Rightarrow> (Inr r, s)
           | None \<Rightarrow>
               (case execute_attempt E host st1 st2 q p ex s of
                  Inl e \<Rightarrow> (Inl e, s)
                | Inr r \<Rightarrow>
                    (case res_bind (canonical_json_bytes (env_hash E) (xr_value r)) (\<lambda>body. put body ''application/json'') of
                       Inl e \<Rightarrow> (Inl e, s)
                     | Inr ref \<Rightarrow>
                         let r' = r\<lparr>xr_resource_ref := ref\<rparr> in
                         (Inr r', s\<lparr>ss_attempts := AList.update (rq_attempt_id q) r' (ss_attempts s)\<rparr>)))))"

section \<open>What a run establishes\<close>

lemma revalidated_digest:
  assumes "revalidate_package E given = Inr p" and "pv_package_digest given \<noteq> []"
  shows "pv_package_digest p = lower (pv_package_digest given)"
  using assms by (auto simp: revalidate_package_def raise_as_def make_package_def post_init_def Let_def split: sum.splits if_splits)

lemma admit_attempt_InrD:
  assumes "admit_attempt E q s = Inr (p, ex)"
  obtains b ref given where "ss_available s" and "ss_replica_state s = ''ready''" and "rq_binding q = Some b"
    and "cb_capability_package_ref b = Some ref" and "find_cached_package (rr_resource_id ref) (ref_digest ref) s = Some given"
    and "revalidate_package E given = Inr p" and "export_for p (cb_capability_descriptor_ref b) = Inr ex"
    and "check_closure q s = Inr ()"
  using assms
  by (auto simp: admit_attempt_def slave_package_def selected_export_def raise_as_def
      split: if_splits option.splits sum.splits)

lemma admitted_digest:
  assumes "find_cached_package ref (Some d) s = Some given" and "revalidate_package E given = Inr p" and "d \<noteq> []"
  shows "lower (pv_package_digest p) = lower d"
proof -
  have given: "lower (pv_package_digest given) = lower d" by (rule find_cached_digest [OF assms(1,3)])
  with assms(3) have "pv_package_digest given \<noteq> []" by (auto simp: lower_def)
  from revalidated_digest [OF assms(2) this] given show ?thesis by simp
qed

text \<open>The schema, if there is one, could be read, is admissible and accepts the value.\<close>

definition accepts :: "env \<Rightarrow> resource_ref option \<Rightarrow> json \<Rightarrow> bool" where
  "accepts E schema_ref v =
     (case schema_ref of
        None \<Rightarrow> True
      | Some ref \<Rightarrow> \<exists>schema. checked_schema E ref = Inr schema \<and> validate_value E schema v = Inr [])"

lemma check_input_value_iff: "check_input_value E ref v = Inr () \<longleftrightarrow> accepts E ref v"
  by (auto simp: check_input_value_def accepts_def raise_as_def res_bind_def split: option.splits sum.splits)

definition validator_passes :: "env \<Rightarrow> executor_registry \<Rightarrow> io_contract \<Rightarrow> json \<Rightarrow> bool" where
  "validator_passes E reg c v =
     (case io_success_validator_ref c of
        None \<Rightarrow> io_success_semantics c = JNull
      | Some ref \<Rightarrow> \<exists>program verdict. env_get E ref = Inr program \<and>
          invoke_for reg ''function'' process_contract (as_payload v) program = Inr verdict \<and>
          dget (obj_of (xr_value verdict)) ''result'' = JStr ''pass'')"

lemma result_errors_Nil: "result_errors E ref v = Inr [] \<longleftrightarrow> accepts E (Some ref) v"
  by (auto simp: result_errors_def accepts_def res_bind_def split: sum.splits if_splits)

lemma judge_schema_accepts:
  assumes "judge_schema E st attempt_id epoch c dg r = Inr (Inr evidence)"
  shows "accepts E (io_output_schema_ref c) (xr_value r)"
proof (cases "io_output_schema_ref c")
  case (Some ref)
  with assms have "result_errors E ref (xr_value r) = Inr []"
    by (auto simp: judge_schema_def split: if_splits)
  with Some show ?thesis by (simp add: result_errors_Nil)
qed (simp add: accepts_def)

lemma judge_schema_rejects:
  assumes "judge_schema E st attempt_id epoch c dg r = Inr (Inl rejected)"
  shows "xr_terminal_state rejected = ''failed'' \<and> xr_value rejected = xr_value r"
  using assms by (auto simp: judge_schema_def split: option.splits if_splits)

lemma judge_success_value:
  assumes "judge_success E reg st attempt_id epoch c dg evidence r = Inr r'"
  shows "xr_value r' = xr_value r" and "xr_terminal_state r' = ''completed'' \<Longrightarrow> validator_passes E reg c (xr_value r)"
  using assms
  by (auto simp: judge_success_def validator_passes_def Let_def split: option.splits if_splits)

lemma validate_terminal_InrD:
  assumes "validate_terminal_result E reg st1 st2 attempt_id epoch closure ex r = Inr r'"
  obtains c where "slave_io_contract E (ce_io_contract_ref ex) = Inr c" and "xr_value r' = xr_value r"
    and "xr_terminal_state r' = ''completed'' \<Longrightarrow>
           accepts E (io_output_schema_ref c) (xr_value r') \<and> validator_passes E reg c (xr_value r')"
proof -
  from assms obtain c verdict where c: "slave_io_contract E (ce_io_contract_ref ex) = Inr c"
    and verdict: "judge_schema E st1 attempt_id epoch c (terminal_input_digest closure) r = Inr verdict"
    and final: "(case verdict of Inl rejected \<Rightarrow> Inr rejected
        | Inr evidence \<Rightarrow> judge_success E reg st2 attempt_id epoch c (terminal_input_digest closure) evidence r) = Inr r'"
    by (auto simp: validate_terminal_result_def Let_def)
  show thesis
  proof (cases verdict)
    case (Inl rejected)
    with verdict final judge_schema_rejects [of E st1 attempt_id epoch c "terminal_input_digest closure" r rejected]
    show thesis by (intro that [OF c]) auto
  next
    case (Inr evidence)
    with verdict final judge_schema_accepts [of E st1 attempt_id epoch c "terminal_input_digest closure" r evidence]
      judge_success_value [of E reg st2 attempt_id epoch c "terminal_input_digest closure" evidence r r']
    show thesis by (intro that [OF c]) auto
  qed
qed

lemma execute_attempt_InrD:
  assumes "execute_attempt E host st1 st2 q p ex s = Inr r"
  obtains c payload where "slave_io_contract E (ce_io_contract_ref ex) = Inr c"
    and "admission_payload E (rq_payload q) (rq_operation q) (rq_closure q) ex = Inr payload"
    and "accepts E (io_input_schema_ref c) (JObj payload)"
    and "xr_terminal_state r = ''completed'' \<Longrightarrow>
           accepts E (io_output_schema_ref c) (xr_value r) \<and> validator_passes E (ss_executors s) c (xr_value r)"
proof -
  from assms obtain payload raw where payload: "admission_payload E (rq_payload q) (rq_operation q) (rq_closure q) ex = Inr payload"
    and input: "validate_input_payload E ex payload = Inr ()"
    and final: "validate_terminal_result E (ss_executors s) st1 st2 (rq_attempt_id q) (rq_execution_epoch q) (rq_closure q) ex raw = Inr r"
    by (auto simp: execute_attempt_def)
  obtain c where c: "slave_io_contract E (ce_io_contract_ref ex) = Inr c"
    and ok: "xr_terminal_state r = ''completed'' \<Longrightarrow>
           accepts E (io_output_schema_ref c) (xr_value r) \<and> validator_passes E (ss_executors s) c (xr_value r)"
    by (rule validate_terminal_InrD [OF final]) blast
  have "accepts E (io_input_schema_ref c) (JObj payload)"
    using input c by (auto simp: validate_input_payload_def check_input_value_iff)
  from that [OF c payload this ok] show thesis .
qed

lemma run_attempt_cases:
  assumes "run_attempt E host put st1 st2 q s = (Inr r, s')"
  obtains (known) p ex where "admit_attempt E q s = Inr (p, ex)" and "map_of (ss_attempts s) (rq_attempt_id q) = Some r" and "s' = s"
  | (fresh) p ex r0 body where "admit_attempt E q s = Inr (p, ex)" and "map_of (ss_attempts s) (rq_attempt_id q) = None"
      and "execute_attempt E host st1 st2 q p ex s = Inr r0" and "canonical_json_bytes (env_hash E) (xr_value r0) = Inr body"
      and "put body ''application/json'' = Inr (xr_resource_ref r)" and "r = r0\<lparr>xr_resource_ref := xr_resource_ref r\<rparr>"
      and "s' = s\<lparr>ss_attempts := AList.update (rq_attempt_id q) r (ss_attempts s)\<rparr>"
  using assms by (fastforce simp: run_attempt_def Let_def split: sum.splits option.splits)

lemma admit_attempt_frame:
  assumes "ss_available s' = ss_available s" and "ss_replica_state s' = ss_replica_state s" and "ss_slave_id s' = ss_slave_id s"
    and "ss_supported_operations s' = ss_supported_operations s" and "ss_package_cache s' = ss_package_cache s"
    and "rq_operation q' = rq_operation q" and "rq_closure q' = rq_closure q" and "rq_binding q' = rq_binding q"
  shows "admit_attempt E q' s' = admit_attempt E q s"
  unfolding admit_attempt_def slave_package_def check_closure_def find_cached_cong [OF assms(5)] assms(1-4,6-8) by (rule refl)

lemma run_attempt_step: "service_step s (snd (run_attempt E host put st1 st2 q s))"
proof (cases "run_attempt E host put st1 st2 q s")
  case (Pair res s')
  show ?thesis
  proof (cases res)
    case (Inl e)
    with Pair have "s' = s" by (auto simp: run_attempt_def Let_def split: sum.splits option.splits)
    with Pair show ?thesis by simp
  next
    case (Inr r)
    have "service_step s s'"
    proof (rule run_attempt_cases [OF Pair [unfolded Inr]])
      assume none: "map_of (ss_attempts s) (rq_attempt_id q) = None"
        and s': "s' = s\<lparr>ss_attempts := AList.update (rq_attempt_id q) r (ss_attempts s)\<rparr>"
      have "service_wf s' = service_wf s" by (simp add: s' service_wf_def)
      moreover have "service_next s s'" using none by (auto simp: s' service_next_def update_conv)
      ultimately show "service_step s s'" by (simp add: service_step_def)
    qed simp
    with Pair show ?thesis by simp
  qed
qed

interpretation dispatching: service_operation "run_attempt E host put st1 st2 q" for E host put st1 st2 q
  by (rule service_operationI run_attempt_step)+

section \<open>Properties\<close>

text \<open>
  Claim C6. A completed attempt is a validated one. When a Slave runs a new attempt and returns, it was
  available, the binding named a cached package whose content has the digest of the binding and an
  export that the package declares exactly once, the input of the attempt satisfies the input schema of
  that export, and the result is stored under the reference of its own bytes; when the result is
  completed, its value satisfies the output schema and the success validator passed.
\<close>

theorem attempt_validated:
  assumes "run_attempt E host put st1 st2 q s = (Inr r, s')" and "map_of (ss_attempts s) (rq_attempt_id q) = None"
  shows "(ss_available s \<and> ss_replica_state s = ''ready'' \<and> map_of (ss_attempts s') (rq_attempt_id q) = Some r) \<and>
         (\<exists>b ref p ex c payload body. rq_binding q = Some b \<and> cb_capability_package_ref b = Some ref \<and>
           package_digest_of E p = Inr (pv_package_digest p) \<and>
           (\<forall>d. ref_digest ref = Some d \<longrightarrow> d \<noteq> [] \<longrightarrow> lower (pv_package_digest p) = lower d) \<and>
           export_for p (cb_capability_descriptor_ref b) = Inr ex \<and> slave_io_contract E (ce_io_contract_ref ex) = Inr c \<and>
           admission_payload E (rq_payload q) (rq_operation q) (rq_closure q) ex = Inr payload \<and>
           accepts E (io_input_schema_ref c) (JObj payload) \<and>
           (xr_terminal_state r = ''completed'' \<longrightarrow>
              accepts E (io_output_schema_ref c) (xr_value r) \<and> validator_passes E (ss_executors s) c (xr_value r)) \<and>
           canonical_json_bytes (env_hash E) (xr_value r) = Inr body \<and> put body ''application/json'' = Inr (xr_resource_ref r))"
proof (rule conjI)
  obtain p ex r0 body where admit: "admit_attempt E q s = Inr (p, ex)" and run: "execute_attempt E host st1 st2 q p ex s = Inr r0"
    and body: "canonical_json_bytes (env_hash E) (xr_value r0) = Inr body" "put body ''application/json'' = Inr (xr_resource_ref r)"
    and r: "r = r0\<lparr>xr_resource_ref := xr_resource_ref r\<rparr>" and s': "s' = s\<lparr>ss_attempts := AList.update (rq_attempt_id q) r (ss_attempts s)\<rparr>"
    using run_attempt_cases [OF assms(1)] assms(2) by (metis option.distinct(1))
  obtain b ref given where up: "ss_available s" "ss_replica_state s = ''ready''" and b: "rq_binding q = Some b" "cb_capability_package_ref b = Some ref"
    and found: "find_cached_package (rr_resource_id ref) (ref_digest ref) s = Some given" and p: "revalidate_package E given = Inr p"
    and ex: "export_for p (cb_capability_descriptor_ref b) = Inr ex"
    by (rule admit_attempt_InrD [OF admit])
  obtain c payload where io: "slave_io_contract E (ce_io_contract_ref ex) = Inr c"
    "admission_payload E (rq_payload q) (rq_operation q) (rq_closure q) ex = Inr payload" "accepts E (io_input_schema_ref c) (JObj payload)"
    and out: "xr_terminal_state r0 = ''completed'' \<longrightarrow>
      accepts E (io_output_schema_ref c) (xr_value r0) \<and> validator_passes E (ss_executors s) c (xr_value r0)"
    by (rule execute_attempt_InrD [OF run]) blast
  have same: "xr_value r = xr_value r0" "xr_terminal_state r = xr_terminal_state r0" by (subst r, simp)+
  show "ss_available s \<and> ss_replica_state s = ''ready'' \<and> map_of (ss_attempts s') (rq_attempt_id q) = Some r"
    using up by (simp add: s' update_conv)
  have digest: "\<forall>d. ref_digest ref = Some d \<longrightarrow> d \<noteq> [] \<longrightarrow> lower (pv_package_digest p) = lower d"
    using admitted_digest [OF _ p] found by auto
  show "\<exists>b ref p ex c payload body. rq_binding q = Some b \<and> cb_capability_package_ref b = Some ref \<and>
           package_digest_of E p = Inr (pv_package_digest p) \<and>
           (\<forall>d. ref_digest ref = Some d \<longrightarrow> d \<noteq> [] \<longrightarrow> lower (pv_package_digest p) = lower d) \<and>
           export_for p (cb_capability_descriptor_ref b) = Inr ex \<and> slave_io_contract E (ce_io_contract_ref ex) = Inr c \<and>
           admission_payload E (rq_payload q) (rq_operation q) (rq_closure q) ex = Inr payload \<and>
           accepts E (io_input_schema_ref c) (JObj payload) \<and>
           (xr_terminal_state r = ''completed'' \<longrightarrow>
              accepts E (io_output_schema_ref c) (xr_value r) \<and> validator_passes E (ss_executors s) c (xr_value r)) \<and>
           canonical_json_bytes (env_hash E) (xr_value r) = Inr body \<and> put body ''application/json'' = Inr (xr_resource_ref r)"
    unfolding same using b revalidate_package_InrD(2) [OF p] digest ex io out body by blast
qed

text \<open>
  An attempt runs once. After a run has returned, running the same attempt again, with any
  payload and whatever the provider or the executor would answer now, returns the first result and
  changes nothing.
\<close>

theorem attempt_replayed:
  assumes "run_attempt E host put st1 st2 q s = (Inr r, s')"
  shows "run_attempt E host' put' st1' st2' (q\<lparr>rq_payload := payload, rq_execution_epoch := epoch\<rparr>) s' = (Inr r, s')"
proof -
  let ?q = "q\<lparr>rq_payload := payload, rq_execution_epoch := epoch\<rparr>"
  have kept: "(\<exists>p ex. admit_attempt E q s = Inr (p, ex)) \<and> map_of (ss_attempts s') (rq_attempt_id q) = Some r \<and>
      (\<exists>as. s' = s\<lparr>ss_attempts := as\<rparr>)"
    by (rule run_attempt_cases [OF assms]) (simp, metis slave_service.surjective slave_service.update_convs(5), auto simp: update_conv)
  then have "admit_attempt E ?q s' = admit_attempt E q s" by (intro admit_attempt_frame) auto
  with kept show ?thesis by (auto simp: run_attempt_def)
qed

text \<open>
  The bound input is the authority. When the closure of an attempt has input bindings, the
  payload that the caller sends has no influence: the run returns the same result and leaves the same
  state for every payload.
\<close>

theorem bound_input_authority:
  assumes "rq_closure q = Some cl" and "tc_node_input_bindings cl \<noteq> []"
  shows "run_attempt E host put st1 st2 (q\<lparr>rq_payload := payload\<rparr>) s = run_attempt E host put st1 st2 q s"
proof -
  let ?q = "q\<lparr>rq_payload := payload\<rparr>"
  have admit: "admit_attempt E ?q s = admit_attempt E q s" by (rule admit_attempt_frame) simp_all
  have same_id: "rq_attempt_id ?q = rq_attempt_id q" by simp
  have runtime: "invoke_runtime E host ?q p ex pl s = invoke_runtime E host q p ex pl s" for p ex pl
    unfolding invoke_runtime_def same_id by (rule refl)
  have "admission_payload E payload (rq_operation q) (rq_closure q) ex = admission_payload E (rq_payload q) (rq_operation q) (rq_closure q) ex" for ex
    using assms by (simp add: admission_payload_def)
  then have same_run: "execute_attempt E host st1 st2 ?q p ex s = execute_attempt E host st1 st2 q p ex s" for p ex
    unfolding execute_attempt_def runtime by simp
  show ?thesis unfolding run_attempt_def admit same_id same_run by (rule refl)
qed

section \<open>The history of a service\<close>

inductive slave_step :: "env \<Rightarrow> slave_service \<Rightarrow> slave_service \<Rightarrow> bool" for E where
  step_provision: "slave_step E s (snd (provision E host report_id c package s))"
| step_deprovision: "slave_step E s (snd (deprovision E host report_id d package s))"
| step_inspect: "slave_step E s (snd (inspect_activation_health host fresh s))"
| step_acknowledge: "slave_step E s (acknowledge_health_report report_id s)"
| step_reconcile: "slave_step E s (snd (reconcile_activations E host s))"
| step_run: "slave_step E s (snd (run_attempt E host put st1 st2 q s))"

inductive_cases slave_stepE: "slave_step E s s'"

lemma slave_step_service: "slave_step E s s' \<Longrightarrow> service_step s s'"
  by (erule slave_stepE)
    (simp_all add: provision_step deprovision_step inspect_health_step acknowledge_step reconcile_step run_attempt_step)

lemma slave_steps_service: "(slave_step E)\<^sup>*\<^sup>* s s' \<Longrightarrow> service_step s s'"
  by (induction rule: rtranclp_induct) (auto intro: service_step_trans slave_step_service)


section \<open>Witnesses\<close>

definition demo_binding :: compute_binding where
  "demo_binding = \<lparr>cb_binding_id = ''b'', cb_hole_id = ''h'', cb_capability_descriptor_ref = ce_capability_descriptor_ref demo_export,
     cb_capability_package_ref = Some ((plain_ref ''capability-package://p/v1'')\<lparr>rr_version_or_digest := Some demo_digest\<rparr>),
     cb_target_resource_ref = plain_ref ''s'', cb_constraint_evidence_refs = [], cb_bound_by = ''d'', cb_bound_at = [],
     cb_runtime_profile = [], cb_activation_ref = None\<rparr>"

definition demo_run_request :: run_request where
  "demo_run_request = \<lparr>rq_attempt_id = ''a1'', rq_operation = ''op'', rq_payload = [(''x'', JInt 1)], rq_closure = None,
     rq_binding = Some demo_binding, rq_execution_epoch = 1\<rparr>"

definition demo_put :: "string \<Rightarrow> string \<Rightarrow> resource_ref result" where
  "demo_put body media_type = Inr (content_ref demo_digest media_type)"

definition demo_stamp1 :: evidence_stamp where
  "demo_stamp1 = \<lparr>es_suffix = ''1'', es_created_at = ''t''\<rparr>"

definition demo_ran :: "execution_result result \<times> slave_service" where
  "demo_ran = run_attempt demo_env2 (Some demo_host) demo_put demo_stamp1 demo_stamp1 demo_run_request demo_provisioned"

lemma demo_ran_state: "map_sum (\<lambda>e. ()) (\<lambda>r. (xr_value r, xr_terminal_state r)) (fst demo_ran) = Inr (JInt 3, ''completed'')"
  "map fst (ss_attempts demo_provisioned) = []"
  by code_simp+

lemma demo_ran_ok:
  obtains r where "run_attempt demo_env2 (Some demo_host) demo_put demo_stamp1 demo_stamp1 demo_run_request demo_provisioned = (Inr r, snd demo_ran)"
proof -
  obtain r where "fst demo_ran = Inr r" using demo_ran_state(1) by (cases "fst demo_ran") auto
  then show thesis by (intro that [of r]) (simp add: prod_eq_iff flip: demo_ran_def)
qed

theorem attempt_validated_witness:
  "ss_available demo_provisioned \<and> (\<exists>(r :: execution_result) body.
     run_attempt demo_env2 (Some demo_host) demo_put demo_stamp1 demo_stamp1 demo_run_request demo_provisioned = (Inr r, snd demo_ran) \<and>
     canonical_json_bytes (env_hash demo_env2) (xr_value r) = Inr body \<and> demo_put body ''application/json'' = Inr (xr_resource_ref r))"
proof -
  obtain r where run: "run_attempt demo_env2 (Some demo_host) demo_put demo_stamp1 demo_stamp1 demo_run_request demo_provisioned = (Inr r, snd demo_ran)"
    by (rule demo_ran_ok)
  have "map_of (ss_attempts demo_provisioned) (rq_attempt_id demo_run_request) = None" using demo_ran_state(2) by simp
  from attempt_validated [OF run this] run show ?thesis by blast
qed

theorem attempt_replayed_witness:
  "\<exists>r. run_attempt demo_env2 None demo_put demo_stamp1 demo_stamp1 (demo_run_request\<lparr>rq_payload := [], rq_execution_epoch := 2\<rparr>) (snd demo_ran)
       = (Inr r, snd demo_ran)"
proof -
  obtain r where "run_attempt demo_env2 (Some demo_host) demo_put demo_stamp1 demo_stamp1 demo_run_request demo_provisioned = (Inr r, snd demo_ran)"
    by (rule demo_ran_ok)
  from attempt_replayed [OF this] show ?thesis by blast
qed

definition demo_bound_closure :: task_closure where
  "demo_bound_closure = (minimal_closure ''c'' [])\<lparr>tc_node_input_bindings :=
     [\<lparr>nb_node_id = ''default'', nb_input_ref = plain_ref (content_prefix @ demo_digest), nb_provenance = []\<rparr>]\<rparr>"

theorem bound_input_authority_witness:
  "run_attempt demo_env2 (Some demo_host) demo_put demo_stamp1 demo_stamp1 (demo_run_request\<lparr>rq_closure := Some demo_bound_closure, rq_payload := []\<rparr>) demo_provisioned
   = run_attempt demo_env2 (Some demo_host) demo_put demo_stamp1 demo_stamp1 (demo_run_request\<lparr>rq_closure := Some demo_bound_closure\<rparr>) demo_provisioned"
  using bound_input_authority [of "demo_run_request\<lparr>rq_closure := Some demo_bound_closure\<rparr>" demo_bound_closure demo_env2 "Some demo_host"
      demo_put demo_stamp1 demo_stamp1 "[]" demo_provisioned] by (simp add: demo_bound_closure_def)


end
