(* ===== verification/Worker.thy ===== *)
theory Worker
  imports Slave_Run
begin

text \<open>
  The boundary between a Driver and a Slave: the worker endpoints of a Slave (\<^verbatim>\<open>slave/app.py\<close>: the epochs of
  Drivers, \<^verbatim>\<open>dispatch\<close>, \<^verbatim>\<open>provision\<close>, \<^verbatim>\<open>deprovision\<close>) and the Driver's reading of their answers
  (\<^verbatim>\<open>driver/worker.py\<close>). A request is the envelope that the framework has parsed; a response is its
  status and its JSON object. An exception that no handler of the endpoint names stays an error.
\<close>

section \<open>Endpoints of a Slave\<close>

record http_response =
  hp_status :: nat
  hp_json :: dict

record slave_app =
  ap_service :: slave_service
  ap_driver_epochs :: "(string \<times> int) list"
  ap_internal_api_secret :: string

record dispatch_request =
  dr_attempt_id :: string
  dr_execution_id :: string
  dr_execution_epoch :: int
  dr_workspace_id :: "string option"
  dr_operation :: string
  dr_payload :: dict
  dr_closure :: "task_closure option"
  dr_binding :: "compute_binding option"
  dr_driver_id :: "string option"
  dr_driver_epoch :: "int option"

record provision_request =
  pq_command :: provision_command
  pq_package :: package_version
  pq_driver_id :: "string option"
  pq_driver_epoch :: "int option"

record deprovision_request =
  dq_command :: deprovision_command
  dq_package :: "package_version option"
  dq_driver_id :: "string option"
  dq_driver_epoch :: "int option"

definition record_driver_epoch :: "string option \<Rightarrow> int option \<Rightarrow> (slave_app, unit) op" where
  "record_driver_epoch driver_id driver_epoch a =
     (if strip (ap_internal_api_secret a) = [] then (Inr (), a)
      else (case (driver_id, driver_epoch) of
              (Some d, Some n) \<Rightarrow>
                if strip d = [] then (Inl (ValueError ''driver_identity_required''), a)
                else (case map_of (ap_driver_epochs a) d of
                        None \<Rightarrow> (Inr (), a\<lparr>ap_driver_epochs := AList.update d n (ap_driver_epochs a)\<rparr>)
                      | Some m \<Rightarrow>
                          if n < m then (Inl (ValueError ''stale_driver_epoch''), a)
                          else (Inr (), a\<lparr>ap_driver_epochs := AList.update d (max n (if m = 0 then n else m)) (ap_driver_epochs a)\<rparr>))
            | _ \<Rightarrow> (Inl (ValueError ''driver_identity_required''), a)))"

definition http_error :: "nat \<Rightarrow> string \<Rightarrow> http_response" where
  "http_error status detail = \<lparr>hp_status = status, hp_json = [(''detail'', JStr detail)]\<rparr>"

definition dispatch_error :: "py_error \<Rightarrow> http_response result" where
  "dispatch_error e =
     (case e of
        KeyError k \<Rightarrow> Inr (http_error 400 (''missing_field:'' @ k))
      | ValueError m \<Rightarrow> Inr (http_error 422 m)
      | ValidationError m \<Rightarrow> Inr (http_error 422 m)
      | RuntimeError m \<Rightarrow> Inr (http_error 409 m)
      | DomainError code _ \<Rightarrow> Inr (http_error 409 code)
      | _ \<Rightarrow> Inl e)"

definition lifecycle_error :: "py_error \<Rightarrow> http_response result" where
  "lifecycle_error e =
     (case e of
        ValueError m \<Rightarrow> Inr (http_error 409 m)
      | ValidationError m \<Rightarrow> Inr (http_error 409 m)
      | RuntimeError m \<Rightarrow> Inr (http_error 409 m)
      | DomainError code _ \<Rightarrow> Inr (http_error 409 code)
      | _ \<Rightarrow> Inl e)"

definition targets_slave :: "compute_binding \<Rightarrow> slave_service \<Rightarrow> bool" where
  "targets_slave b s =
     (let target = rstrip CHR ''/'' (rr_resource_id (cb_target_resource_ref b))
      in target = ss_slave_id s \<or> endswith target (CHR ''/'' # ss_slave_id s) \<or> endswith target (CHR '':'' # ss_slave_id s))"

definition requested_workspace :: "string option \<Rightarrow> slave_service \<Rightarrow> string" where
  "requested_workspace w s = (if nonempty w then the w else ss_workspace_id s)"

definition dispatch_answer :: "dispatch_request \<Rightarrow> execution_result \<Rightarrow> dict" where
  "dispatch_answer q r =
     [(''type'', JStr ''dispatch_ack''), (''accepted'', JBool True), (''attempt_id'', JStr (dr_attempt_id q)),
      (''execution_id'', JStr (dr_execution_id q)), (''execution_epoch'', JInt (dr_execution_epoch q)),
      (''terminal_report'', JObj
        [(''type'', JStr ''terminal_report''), (''attempt_id'', JStr (dr_attempt_id q)), (''execution_id'', JStr (dr_execution_id q)),
         (''execution_epoch'', JInt (dr_execution_epoch q)), (''state'', JStr (xr_terminal_state r)), (''error'', xr_terminal_error r),
         (''validation_evidence'', JArr (xr_validation_evidence r)), (''provenance'', xr_provenance r),
         (''result'', JObj
           [(''resource_ref'', ref_json (xr_resource_ref r)), (''value'', xr_value r), (''replay_safety'', JStr (xr_replay_safety r)),
            (''provenance'', xr_provenance r)])])]"

definition run_of_dispatch :: "dispatch_request \<Rightarrow> run_request" where
  "run_of_dispatch q =
     \<lparr>rq_attempt_id = dr_attempt_id q, rq_operation = dr_operation q, rq_payload = dr_payload q, rq_closure = dr_closure q,
      rq_binding = dr_binding q, rq_execution_epoch = dr_execution_epoch q\<rparr>"

definition dispatch_endpoint ::
  "env \<Rightarrow> plugin_host option \<Rightarrow> (string \<Rightarrow> string \<Rightarrow> resource_ref result) \<Rightarrow> evidence_stamp \<Rightarrow> evidence_stamp \<Rightarrow> dispatch_request \<Rightarrow>
   (slave_app, http_response) op" where
  "dispatch_endpoint E host put st1 st2 q a =
     (case record_driver_epoch (dr_driver_id q) (dr_driver_epoch q) a of
        (Inl e, a1) \<Rightarrow> (dispatch_error e, a1)
      | (Inr _, a1) \<Rightarrow>
          let s = ap_service a1 in
          if requested_workspace (dr_workspace_id q) s \<noteq> ss_workspace_id s
          then (dispatch_error (ValueError ''workspace_binding_mismatch''), a1)
          else if (case dr_binding q of None \<Rightarrow> False | Some b \<Rightarrow> \<not> targets_slave b s)
          then (dispatch_error (ValueError ''target_slave_mismatch''), a1)
          else (case run_attempt E host put st1 st2 (run_of_dispatch q) s of
                  (Inl e, s') \<Rightarrow> (dispatch_error e, a1\<lparr>ap_service := s'\<rparr>)
                | (Inr r, s') \<Rightarrow> (Inr \<lparr>hp_status = 200, hp_json = dispatch_answer q r\<rparr>, a1\<lparr>ap_service := s'\<rparr>)))"

definition health_json :: "health_report \<Rightarrow> json" where
  "health_json r = JObj
     [(''report_id'', JStr (hr_report_id r)), (''package_version_ref'', JStr (hr_package_version_ref r)),
      (''package_digest'', JStr (hr_package_digest r)), (''target_slave'', JStr (hr_target_slave r)),
      (''activation_state'', JStr (state_name (hr_activation_state r))), (''evidence_refs'', JArr (map JStr (hr_evidence_refs r))),
      (''details'', JObj (hr_details r)), (''activation_revision'', JInt (int (hr_activation_revision r)))]"

definition lifecycle_answer :: "health_report result \<times> slave_service \<Rightarrow> slave_app \<Rightarrow> http_response result \<times> slave_app" where
  "lifecycle_answer out a =
     (case out of
        (Inl e, s') \<Rightarrow> (lifecycle_error e, a\<lparr>ap_service := s'\<rparr>)
      | (Inr r, s') \<Rightarrow> (Inr \<lparr>hp_status = 200, hp_json = [(''accepted'', JBool True), (''health_report'', health_json r)]\<rparr>,
                        a\<lparr>ap_service := s'\<rparr>))"

definition provision_endpoint ::
  "env \<Rightarrow> plugin_host option \<Rightarrow> string \<Rightarrow> provision_request \<Rightarrow> (slave_app, http_response) op" where
  "provision_endpoint E host report_id q a =
     (case record_driver_epoch (pq_driver_id q) (pq_driver_epoch q) a of
        (Inl e, a1) \<Rightarrow> (lifecycle_error e, a1)
      | (Inr _, a1) \<Rightarrow>
          if pc_workspace_id (pq_command q) \<noteq> ss_workspace_id (ap_service a1)
          then (lifecycle_error (ValueError ''workspace_binding_mismatch''), a1)
          else if pc_target_slave (pq_command q) \<noteq> ss_slave_id (ap_service a1)
          then (lifecycle_error (ValueError ''target_slave_mismatch''), a1)
          else lifecycle_answer (provision E host report_id (pq_command q) (Some (pq_package q)) (ap_service a1)) a1)"

definition deprovision_endpoint ::
  "env \<Rightarrow> plugin_host option \<Rightarrow> string \<Rightarrow> deprovision_request \<Rightarrow> (slave_app, http_response) op" where
  "deprovision_endpoint E host report_id q a =
     (case record_driver_epoch (dq_driver_id q) (dq_driver_epoch q) a of
        (Inl e, a1) \<Rightarrow> (lifecycle_error e, a1)
      | (Inr _, a1) \<Rightarrow>
          if dc_workspace_id (dq_command q) \<noteq> ss_workspace_id (ap_service a1)
          then (lifecycle_error (ValueError ''workspace_binding_mismatch''), a1)
          else if dc_target_slave (dq_command q) \<noteq> ss_slave_id (ap_service a1)
          then (lifecycle_error (ValueError ''target_slave_mismatch''), a1)
          else lifecycle_answer (deprovision E host report_id (dq_command q) (dq_package q) (ap_service a1)) a1)"

section \<open>The session of a Driver with a Slave\<close>

text \<open>
  The result of a dispatch as the Driver reads it; fields that the code takes from the response without
  a check stay JSON. A payload is sent only when the closure binds no input.
\<close>

record worker_result =
  wr_resource_ref :: resource_ref
  wr_value :: json
  wr_replay_safety :: json
  wr_terminal_state :: string
  wr_terminal_error :: json
  wr_validation_evidence :: json
  wr_provenance :: json

definition worker_request ::
  "string \<Rightarrow> string \<Rightarrow> int \<Rightarrow> string \<Rightarrow> string \<Rightarrow> dict \<Rightarrow> task_closure \<Rightarrow> compute_binding option \<Rightarrow> string option \<Rightarrow> int option \<Rightarrow>
   dispatch_request" where
  "worker_request attempt_id execution_id epoch workspace_id operation payload closure binding driver_id driver_epoch =
     \<lparr>dr_attempt_id = attempt_id, dr_execution_id = execution_id, dr_execution_epoch = epoch, dr_workspace_id = Some workspace_id,
      dr_operation = operation, dr_payload = (if tc_node_input_bindings closure = [] then payload else []), dr_closure = Some closure,
      dr_binding = binding, dr_driver_id = driver_id, dr_driver_epoch = driver_epoch\<rparr>"

definition error_detail :: "env \<Rightarrow> string \<Rightarrow> http_response \<Rightarrow> py_error" where
  "error_detail E missing response = RuntimeError (py_str E (dget_default (hp_json response) ''detail'' (JStr missing)))"

definition read_result :: "json \<Rightarrow> string \<Rightarrow> dict \<Rightarrow> worker_result result" where
  "read_result result state report =
     (case result of
        JObj d \<Rightarrow>
          (case map_of d ''resource_ref'' of
             None \<Rightarrow> Inl (KeyError ''resource_ref'')
           | Some ref \<Rightarrow>
               res_bind (resource_ref_of_json ref) (\<lambda>r.
                 case map_of d ''value'' of
                   None \<Rightarrow> Inl (KeyError ''value'')
                 | Some v \<Rightarrow> Inr \<lparr>wr_resource_ref = r, wr_value = v,
                     wr_replay_safety = dget_default d ''replay_safety'' (JStr ''Idempotent''), wr_terminal_state = state,
                     wr_terminal_error = or_else (dget report ''error'') (dget report ''terminal_error''),
                     wr_validation_evidence = or_else (dget report ''validation_evidence'') (JArr []),
                     wr_provenance = or_else (dget d ''provenance'') (dget report ''provenance'')\<rparr>))
      | _ \<Rightarrow> Inl (TypeError ''indices must be integers''))"

definition read_dispatch :: "env \<Rightarrow> string \<Rightarrow> string \<Rightarrow> int \<Rightarrow> http_response \<Rightarrow> worker_result result" where
  "read_dispatch E attempt_id execution_id epoch response =
     (if hp_status response \<ge> 400 then Inl (error_detail E ''worker_dispatch_failed'' response)
      else
        let envelope = hp_json response in
        case or_else (dget envelope ''terminal_report'') (JObj []) of
          JObj report \<Rightarrow>
            let state = str_or E (dget report ''state'') [] in
            if dget envelope ''accepted'' \<noteq> JBool True \<or> state \<notin> {''completed'', ''failed'', ''decision_required''}
            then Inl (RuntimeError ''worker_dispatch_not_completed'')
            else if dget envelope ''attempt_id'' \<noteq> JStr attempt_id \<or> dget report ''attempt_id'' \<noteq> JStr attempt_id
            then Inl (RuntimeError ''stale_attempt'')
            else if dget envelope ''execution_id'' \<noteq> JStr execution_id \<or> dget report ''execution_id'' \<noteq> JStr execution_id
            then Inl (RuntimeError ''stale_execution_id'')
            else if \<not> py_eq (dget report ''execution_epoch'') (JInt epoch) \<or> \<not> py_eq (dget envelope ''execution_epoch'') (JInt epoch)
            then Inl (RuntimeError ''stale_execution_epoch'')
            else read_result (or_else (dget report ''result'') (JObj [])) state report
        | _ \<Rightarrow> Inl (AttributeError ''get''))"

definition health_of_json :: "json \<Rightarrow> health_report option" where
  "health_of_json v = do {
     d \<leftarrow> obj_in [''report_id'', ''package_version_ref'', ''package_digest'', ''target_slave'', ''activation_state'', ''evidence_refs'',
                 ''details'', ''activation_revision''] v;
     i \<leftarrow> required as_str d ''report_id'';
     ref \<leftarrow> required as_str d ''package_version_ref'';
     dig \<leftarrow> required as_str d ''package_digest'';
     tgt \<leftarrow> required as_str d ''target_slave'';
     st \<leftarrow> required (\<lambda>x. if x = JStr ''ready'' then Some Ready else if x = JStr ''degraded'' then Some Degraded
                         else if x = JStr ''failed'' then Some Activation_Failed else if x = JStr ''stopped'' then Some Stopped else None)
            d ''activation_state'';
     evs \<leftarrow> defaulted as_strs [] d ''evidence_refs'';
     det \<leftarrow> defaulted as_obj [] d ''details'';
     revision \<leftarrow> required as_int d ''activation_revision'';
     (if revision < 1 then None
      else Some \<lparr>hr_report_id = i, hr_package_version_ref = ref, hr_package_digest = dig, hr_target_slave = tgt,
                 hr_activation_state = st, hr_evidence_refs = evs, hr_details = det, hr_activation_revision = nat revision\<rparr>)
   }"

definition read_health :: "env \<Rightarrow> string \<Rightarrow> http_response \<Rightarrow> health_report result" where
  "read_health E missing response =
     (if hp_status response \<ge> 400 then Inl (error_detail E missing response)
      else (case health_of_json (or_else (dget (hp_json response) ''health_report'') (JObj (hp_json response))) of
              None \<Rightarrow> Inl (ValidationError ''CapabilityHealthReport'')
            | Some r \<Rightarrow> Inr r))"

text \<open>\<^verbatim>\<open>_post\<close>: what the transport ends with, and the error that the caller sees.\<close>

datatype transport = Timed_Out | Transport_Failed | Delivered http_response

datatype worker_error = Worker_Unavailable string | Worker_Error py_error

definition post :: "transport \<Rightarrow> (http_response \<Rightarrow> 'a result) \<Rightarrow> worker_error + 'a" where
  "post t read =
     (case t of
        Timed_Out \<Rightarrow> Inl (Worker_Unavailable ''worker_operation_timeout'')
      | Transport_Failed \<Rightarrow> Inl (Worker_Unavailable ''worker_unavailable'')
      | Delivered response \<Rightarrow> (case read response of Inl e \<Rightarrow> Inl (Worker_Error e) | Inr x \<Rightarrow> Inr x))"

definition worker_dispatch :: "env \<Rightarrow> transport \<Rightarrow> string \<Rightarrow> string \<Rightarrow> int \<Rightarrow> worker_error + worker_result" where
  "worker_dispatch E t attempt_id execution_id epoch = post t (read_dispatch E attempt_id execution_id epoch)"

definition worker_provision :: "env \<Rightarrow> transport \<Rightarrow> worker_error + health_report" where
  "worker_provision E t = post t (read_health E ''worker_provision_failed'')"

definition worker_deprovision :: "env \<Rightarrow> transport \<Rightarrow> worker_error + health_report" where
  "worker_deprovision E t = post t (read_health E ''worker_deprovision_failed'')"

section \<open>Fencing by Driver epochs\<close>

lemma record_epoch_kept:
  assumes "map_of (ap_driver_epochs a) d = Some m"
  shows "\<exists>m'. map_of (ap_driver_epochs (snd (record_driver_epoch i n a))) d = Some m' \<and> m \<le> m'"
  using assms
  by (cases i; cases n; cases "map_of (ap_driver_epochs a) (the i)") (auto simp: record_driver_epoch_def update_conv)

lemma record_epoch_frame [simp]:
  "ap_service (snd (record_driver_epoch i n a)) = ap_service a"
  "ap_internal_api_secret (snd (record_driver_epoch i n a)) = ap_internal_api_secret a"
  by (auto simp: record_driver_epoch_def split: option.split)

lemma record_epoch_service: "record_driver_epoch i n a = (res, b) \<Longrightarrow> ap_service b = ap_service a"
  using record_epoch_frame(1) [of i n a] by simp

lemma record_epoch_failed: "record_driver_epoch i n a = (Inl e, a') \<Longrightarrow> a' = a"
  by (auto simp: record_driver_epoch_def split: option.splits if_splits)

lemma record_epoch_stale:
  assumes "strip (ap_internal_api_secret a) \<noteq> []" and "strip d \<noteq> []" and "map_of (ap_driver_epochs a) d = Some m" and "n < m"
  shows "record_driver_epoch (Some d) (Some n) a = (Inl (ValueError ''stale_driver_epoch''), a)"
  using assms by (simp add: record_driver_epoch_def)

text \<open>
  The contract of an endpoint: it records the epoch of its Driver before anything else, leaves the
  service alone when that fails, and otherwise changes the service by operations of the service.
\<close>

locale fenced_endpoint =
  fixes f :: "(slave_app, http_response) op" and driver :: "string option" and epoch :: "int option"
    and failure :: "py_error \<Rightarrow> http_response result"
  assumes rejects: "record_driver_epoch driver epoch a = (Inl e, a') \<Longrightarrow> f a = (failure e, a')"
    and records: "ap_driver_epochs (snd (f a)) = ap_driver_epochs (snd (record_driver_epoch driver epoch a))"
    and keeps_secret: "ap_internal_api_secret (snd (f a)) = ap_internal_api_secret a"
    and operates: "service_step (ap_service a) (ap_service (snd (f a)))"
begin

lemma epoch_kept:
  assumes "map_of (ap_driver_epochs a) d = Some m"
  shows "\<exists>m'. map_of (ap_driver_epochs (snd (f a))) d = Some m' \<and> m \<le> m'"
  unfolding records by (rule record_epoch_kept [OF assms])

lemma stale_rejected:
  assumes "strip (ap_internal_api_secret a) \<noteq> []" and "driver = Some d" and "strip d \<noteq> []" and "epoch = Some n"
    and "map_of (ap_driver_epochs a) d = Some m" and "n < m"
  shows "f a = (failure (ValueError ''stale_driver_epoch''), a)"
  using rejects record_epoch_stale [OF assms(1,3,5,6)] assms(2,4) by blast

end

lemma lifecycle_answer_frame [simp]:
  "ap_driver_epochs (snd (lifecycle_answer out a)) = ap_driver_epochs a"
  "ap_internal_api_secret (snd (lifecycle_answer out a)) = ap_internal_api_secret a"
  "ap_service (snd (lifecycle_answer out a)) = snd out"
  by (auto simp: lifecycle_answer_def split: prod.split sum.split)

interpretation dispatch: fenced_endpoint "dispatch_endpoint E host put st1 st2 q" "dr_driver_id q" "dr_driver_epoch q" dispatch_error
  for E host put st1 st2 q
proof
  fix a
  obtain res a1 where rec: "record_driver_epoch (dr_driver_id q) (dr_driver_epoch q) a = (res, a1)" by force
  then have same: "ap_service a1 = ap_service a" "ap_internal_api_secret a1 = ap_internal_api_secret a"
    using record_epoch_frame [of "dr_driver_id q" "dr_driver_epoch q" a] by simp_all
  obtain out s' where run: "run_attempt E host put st1 st2 (run_of_dispatch q) (ap_service a) = (out, s')" by force
  have step: "service_step (ap_service a) s'" using run_attempt_step [of "ap_service a" E host put st1 st2 "run_of_dispatch q"] run by simp
  show "ap_driver_epochs (snd (dispatch_endpoint E host put st1 st2 q a)) = ap_driver_epochs (snd (record_driver_epoch (dr_driver_id q) (dr_driver_epoch q) a))"
    "ap_internal_api_secret (snd (dispatch_endpoint E host put st1 st2 q a)) = ap_internal_api_secret a"
    "service_step (ap_service a) (ap_service (snd (dispatch_endpoint E host put st1 st2 q a)))"
    using rec same run step by (auto simp: dispatch_endpoint_def Let_def split: sum.split)
qed (simp add: dispatch_endpoint_def)

interpretation provision: fenced_endpoint "provision_endpoint E host report_id q" "pq_driver_id q" "pq_driver_epoch q" lifecycle_error
  for E host report_id q
proof
  fix a
  obtain res a1 where rec: "record_driver_epoch (pq_driver_id q) (pq_driver_epoch q) a = (res, a1)" by force
  then have same: "ap_service a1 = ap_service a" "ap_internal_api_secret a1 = ap_internal_api_secret a"
    using record_epoch_frame [of "pq_driver_id q" "pq_driver_epoch q" a] by simp_all
  show "ap_driver_epochs (snd (provision_endpoint E host report_id q a)) = ap_driver_epochs (snd (record_driver_epoch (pq_driver_id q) (pq_driver_epoch q) a))"
    "ap_internal_api_secret (snd (provision_endpoint E host report_id q a)) = ap_internal_api_secret a"
    "service_step (ap_service a) (ap_service (snd (provision_endpoint E host report_id q a)))"
    using rec same provision_step by (auto simp: provision_endpoint_def split: sum.split)
qed (simp add: provision_endpoint_def)

interpretation deprovision: fenced_endpoint "deprovision_endpoint E host report_id q" "dq_driver_id q" "dq_driver_epoch q" lifecycle_error
  for E host report_id q
proof
  fix a
  obtain res a1 where rec: "record_driver_epoch (dq_driver_id q) (dq_driver_epoch q) a = (res, a1)" by force
  then have same: "ap_service a1 = ap_service a" "ap_internal_api_secret a1 = ap_internal_api_secret a"
    using record_epoch_frame [of "dq_driver_id q" "dq_driver_epoch q" a] by simp_all
  show "ap_driver_epochs (snd (deprovision_endpoint E host report_id q a)) = ap_driver_epochs (snd (record_driver_epoch (dq_driver_id q) (dq_driver_epoch q) a))"
    "ap_internal_api_secret (snd (deprovision_endpoint E host report_id q a)) = ap_internal_api_secret a"
    "service_step (ap_service a) (ap_service (snd (deprovision_endpoint E host report_id q a)))"
    using rec same deprovision_step by (auto simp: deprovision_endpoint_def split: sum.split)
qed (simp add: deprovision_endpoint_def)

text \<open>The steps of a Slave process: the requests of Drivers, and the health loop.\<close>

inductive app_step :: "env \<Rightarrow> slave_app \<Rightarrow> slave_app \<Rightarrow> bool" for E where
  app_dispatch: "app_step E a (snd (dispatch_endpoint E host put st1 st2 q a))"
| app_provision: "app_step E a (snd (provision_endpoint E host report_id q a))"
| app_deprovision: "app_step E a (snd (deprovision_endpoint E host report_id q a))"
| app_inspect: "app_step E a (a\<lparr>ap_service := snd (inspect_activation_health host fresh (ap_service a))\<rparr>)"
| app_acknowledge: "app_step E a (a\<lparr>ap_service := acknowledge_health_report report_id (ap_service a)\<rparr>)"

inductive_cases app_stepE: "app_step E a a'"

lemma app_step_keeps:
  assumes "app_step E a a'"
  shows "ap_internal_api_secret a' = ap_internal_api_secret a \<and> service_step (ap_service a) (ap_service a') \<and>
         (\<forall>d m. map_of (ap_driver_epochs a) d = Some m \<longrightarrow> (\<exists>m'. map_of (ap_driver_epochs a') d = Some m' \<and> m \<le> m'))"
  using assms
proof cases
  case (app_dispatch host put st1 st2 q)
  show ?thesis unfolding app_dispatch by (blast intro: dispatch.keeps_secret dispatch.operates dispatch.epoch_kept)
next
  case (app_provision host report_id q)
  show ?thesis unfolding app_provision by (blast intro: provision.keeps_secret provision.operates provision.epoch_kept)
next
  case (app_deprovision host report_id q)
  show ?thesis unfolding app_deprovision by (blast intro: deprovision.keeps_secret deprovision.operates deprovision.epoch_kept)
qed (auto intro: inspect_health_step acknowledge_step)

lemma app_steps_keep:
  assumes "(app_step E)\<^sup>*\<^sup>* a a'"
  shows "ap_internal_api_secret a' = ap_internal_api_secret a \<and> service_step (ap_service a) (ap_service a') \<and>
         (\<forall>d m. map_of (ap_driver_epochs a) d = Some m \<longrightarrow> (\<exists>m'. map_of (ap_driver_epochs a') d = Some m' \<and> m \<le> m'))"
  using assms
proof (induction rule: rtranclp_induct)
  case (step b c)
  have one: "ap_internal_api_secret c = ap_internal_api_secret b" "service_step (ap_service b) (ap_service c)"
    "\<And>d m. map_of (ap_driver_epochs b) d = Some m \<Longrightarrow> \<exists>m'. map_of (ap_driver_epochs c) d = Some m' \<and> m \<le> m'"
    using app_step_keeps [OF step(2)] by blast+
  have "\<exists>m'. map_of (ap_driver_epochs c) d = Some m' \<and> m \<le> m'" if "map_of (ap_driver_epochs a) d = Some m" for d m
    using step.IH that one(3) order_trans by meson
  moreover have "service_step (ap_service a) (ap_service c)" by (rule service_step_trans [OF _ one(2)]) (use step.IH in blast)
  ultimately show ?case using step.IH one(1) by simp
qed auto

text \<open>
  Claim C23. The endpoints of a Slave fence Drivers by their epochs: with a shared secret, once an epoch of
  a Driver is recorded, then after any requests and health inspections every dispatch, provisioning or
  stopping request of that Driver with a lower epoch is refused as stale and changes nothing, and a
  well-formed service has stayed well formed.
\<close>

theorem driver_epoch_fenced:
  assumes "(app_step E)\<^sup>*\<^sup>* a a'" and "strip (ap_internal_api_secret a) \<noteq> []" and "strip d \<noteq> []"
    and "map_of (ap_driver_epochs a) d = Some m" and "n < m"
  shows "(dr_driver_id q = Some d \<and> dr_driver_epoch q = Some n \<longrightarrow>
            dispatch_endpoint E host put st1 st2 q a' = (Inr (http_error 422 ''stale_driver_epoch''), a')) \<and>
         (pq_driver_id p = Some d \<and> pq_driver_epoch p = Some n \<longrightarrow>
            provision_endpoint E host report_id p a' = (Inr (http_error 409 ''stale_driver_epoch''), a')) \<and>
         (dq_driver_id u = Some d \<and> dq_driver_epoch u = Some n \<longrightarrow>
            deprovision_endpoint E host report_id u a' = (Inr (http_error 409 ''stale_driver_epoch''), a')) \<and>
         (service_wf (ap_service a) \<longrightarrow> service_wf (ap_service a'))"
proof -
  have keep: "ap_internal_api_secret a' = ap_internal_api_secret a" "service_step (ap_service a) (ap_service a')"
    "\<exists>m'. map_of (ap_driver_epochs a') d = Some m' \<and> m \<le> m'" using app_steps_keep [OF assms(1)] assms(4) by blast+
  then obtain m' where m': "map_of (ap_driver_epochs a') d = Some m'" "n < m'" using assms(5) by auto
  have secret: "strip (ap_internal_api_secret a') \<noteq> []" using keep(1) assms(2) by simp
  have "dispatch_endpoint E host put st1 st2 q a' = (Inr (http_error 422 ''stale_driver_epoch''), a')"
    if "dr_driver_id q = Some d" "dr_driver_epoch q = Some n"
    using dispatch.stale_rejected [OF secret that(1) assms(3) that(2) m'] by (simp add: dispatch_error_def)
  moreover have "provision_endpoint E host report_id p a' = (Inr (http_error 409 ''stale_driver_epoch''), a')"
    if "pq_driver_id p = Some d" "pq_driver_epoch p = Some n"
    using provision.stale_rejected [OF secret that(1) assms(3) that(2) m'] by (simp add: lifecycle_error_def)
  moreover have "deprovision_endpoint E host report_id u a' = (Inr (http_error 409 ''stale_driver_epoch''), a')"
    if "dq_driver_id u = Some d" "dq_driver_epoch u = Some n"
    using deprovision.stale_rejected [OF secret that(1) assms(3) that(2) m'] by (simp add: lifecycle_error_def)
  moreover have "service_wf (ap_service a')" if "service_wf (ap_service a)" using keep(2) that by (simp add: service_step_def)
  ultimately show ?thesis by blast
qed

section \<open>Delivery\<close>

text \<open>What the Driver reads of a result: an error that is false as a condition arrives as null.\<close>

definition delivered_result :: "execution_result \<Rightarrow> worker_result" where
  "delivered_result r =
     \<lparr>wr_resource_ref = xr_resource_ref r, wr_value = xr_value r, wr_replay_safety = JStr (xr_replay_safety r),
      wr_terminal_state = xr_terminal_state r, wr_terminal_error = or_else (xr_terminal_error r) JNull,
      wr_validation_evidence = JArr (xr_validation_evidence r), wr_provenance = xr_provenance r\<rparr>"

lemma ref_dump_parse: "resource_ref_of_json (ref_json r) = (if ref_ok r then Inr r else Inl (ValidationError ''ResourceRef''))"
proof -
  have "opt_str_field (str_or_null v) = Inr v" for v by (cases v) (simp_all add: str_or_null_def)
  then show ?thesis
    by (cases r) (simp add: ref_ok_def resource_ref_of_json_def ref_json_def ref_fields_def dhas_def Let_def conj_commute)
qed

lemma read_answer:
  "read_dispatch E i x n \<lparr>hp_status = 200, hp_json = dispatch_answer q r\<rparr> =
     (if xr_terminal_state r \<notin> {''completed'', ''failed'', ''decision_required''} then Inl (RuntimeError ''worker_dispatch_not_completed'')
      else if dr_attempt_id q \<noteq> i then Inl (RuntimeError ''stale_attempt'')
      else if dr_execution_id q \<noteq> x then Inl (RuntimeError ''stale_execution_id'')
      else if dr_execution_epoch q \<noteq> n then Inl (RuntimeError ''stale_execution_epoch'')
      else if ref_ok (xr_resource_ref r) then Inr (delivered_result r) else Inl (ValidationError ''ResourceRef''))"
proof -
  have state: "str_or E (JStr s) [] = s" for s by (simp add: str_or_def py_str_def)
  have or: "or_else (JArr xs) (JArr []) = JArr xs" "or_else v v = v" "or_else (JObj (y # ys)) v = JObj (y # ys)" for xs v y ys
    by (auto simp: or_else_def)
  have num: "py_eq (JInt k) (JInt n) \<longleftrightarrow> k = n" for k by auto
  show ?thesis
    by (simp add: read_dispatch_def dispatch_answer_def Let_def state or num read_result_def ref_dump_parse delivered_result_def
        dget_default_def)
qed

text \<open>
  Claim C22. A Driver that reads an answer of a Slave's dispatch endpoint accepts it only for the attempt,
  execution and epoch of the request it belongs to, and then holds exactly the result that the Slave keeps
  for that attempt; a refused request raises, and a kept result of a known terminal state with a valid
  reference arrives.
\<close>

theorem dispatch_delivery:
  assumes "dispatch_endpoint E host put st1 st2 q a = (Inr response, a')"
  shows "(worker_dispatch E (Delivered response) i x n = Inr w \<longrightarrow>
            i = dr_attempt_id q \<and> x = dr_execution_id q \<and> n = dr_execution_epoch q \<and>
            (\<exists>r. map_of (ss_attempts (ap_service a')) i = Some r \<and> w = delivered_result r)) \<and>
         (hp_status response = 200 \<longrightarrow>
            (\<exists>r. map_of (ss_attempts (ap_service a')) (dr_attempt_id q) = Some r \<and>
                 (xr_terminal_state r \<in> {''completed'', ''failed'', ''decision_required''} \<and> ref_ok (xr_resource_ref r) \<longrightarrow>
                    worker_dispatch E (Delivered response) (dr_attempt_id q) (dr_execution_id q) (dr_execution_epoch q) =
                      Inr (delivered_result r)))) \<and>
         (hp_status response \<noteq> 200 \<longrightarrow> (\<exists>e. worker_dispatch E (Delivered response) i x n = Inl (Worker_Error e)))"
proof -
  consider (refused) status detail where "response = http_error status detail" "400 \<le> status"
    | (ran) s r s' where "run_attempt E host put st1 st2 (run_of_dispatch q) s = (Inr r, s')" "ap_service a' = s'"
        "response = \<lparr>hp_status = 200, hp_json = dispatch_answer q r\<rparr>"
    using assms by (auto simp: dispatch_endpoint_def dispatch_error_def Let_def split: prod.splits sum.splits if_splits py_error.splits)
  then show ?thesis
  proof cases
    case refused
    then show ?thesis by (simp add: worker_dispatch_def post_def read_dispatch_def http_error_def)
  next
    case ran
    have "map_of (ss_attempts s') (dr_attempt_id q) = Some r"
      by (rule run_attempt_cases [OF ran(1)]) (simp_all add: run_of_dispatch_def update_conv)
    then show ?thesis unfolding ran(2,3) worker_dispatch_def post_def transport.case read_answer by auto
  qed
qed

text \<open>
  A report in one of the states that a report may have survives the way to the Driver; the Driver learns
  the outcome of provisioning and stopping as the service returned it.
\<close>

definition report_ok :: "health_report \<Rightarrow> bool" where
  "report_ok r \<longleftrightarrow> hr_activation_state r \<in> {Ready, Degraded, Activation_Failed, Stopped} \<and> 1 \<le> hr_activation_revision r"

lemma health_dump_parse: "health_of_json (health_json r) = (if report_ok r then Some r else None)"
proof -
  have "those (map as_str (map JStr xs)) = Some xs" for xs by (induction xs) simp_all
  then have strs: "as_strs (JArr (map JStr xs)) = Some xs" for xs by (simp add: as_list_def del: map_map)
  show ?thesis
    by (cases r; cases "hr_activation_state r")
      (auto simp: report_ok_def health_of_json_def health_json_def obj_in_def only_fields_def required_def defaulted_def strs)
qed

lemma truthy_health [simp]: "truthy (health_json r)"
  by (simp add: health_json_def)

lemma read_lifecycle:
  assumes "lifecycle_answer out b = (Inr response, a')" and "read_health E missing response = Inr r"
  shows "out = (Inr r, ap_service a')"
proof -
  obtain s' where out: "out = (Inr r, s')" and "a' = b\<lparr>ap_service := s'\<rparr>"
    using assms
    by (cases out; cases "fst out")
      (auto simp: lifecycle_answer_def read_health_def or_else_def lifecycle_error_def http_error_def health_dump_parse split: if_splits py_error.splits option.splits)
  then show ?thesis by simp
qed

lemma health_delivery:
  shows "provision_endpoint E host report_id q a = (Inr response, a') \<Longrightarrow> worker_provision E (Delivered response) = Inr r \<Longrightarrow>
         provision E host report_id (pq_command q) (Some (pq_package q)) (ap_service a) = (Inr r, ap_service a')"
    and "deprovision_endpoint E host report_id d a = (Inr response, a') \<Longrightarrow> worker_deprovision E (Delivered response) = Inr r \<Longrightarrow>
         deprovision E host report_id (dq_command d) (dq_package d) (ap_service a) = (Inr r, ap_service a')"
proof -
  have refused: "lifecycle_error e = Inr response \<Longrightarrow> read_health E missing response = Inr x \<Longrightarrow> False" for e missing x
    by (auto simp: lifecycle_error_def read_health_def http_error_def split: py_error.splits)
  have post: "post (Delivered response) (read_health E missing) = Inr x \<longleftrightarrow> read_health E missing response = Inr x" for missing x
    by (simp add: post_def split: sum.split)
  show "provision_endpoint E host report_id q a = (Inr response, a') \<Longrightarrow> worker_provision E (Delivered response) = Inr r \<Longrightarrow>
      provision E host report_id (pq_command q) (Some (pq_package q)) (ap_service a) = (Inr r, ap_service a')"
    using refused read_lifecycle
    by (auto simp: provision_endpoint_def worker_provision_def post dest!: record_epoch_service split: prod.splits sum.splits if_splits)
  show "deprovision_endpoint E host report_id d a = (Inr response, a') \<Longrightarrow> worker_deprovision E (Delivered response) = Inr r \<Longrightarrow>
      deprovision E host report_id (dq_command d) (dq_package d) (ap_service a) = (Inr r, ap_service a')"
    using refused read_lifecycle
    by (auto simp: deprovision_endpoint_def worker_deprovision_def post dest!: record_epoch_service split: prod.splits sum.splits if_splits)
qed

section \<open>A concrete Slave\<close>

definition demo_app :: slave_app where
  "demo_app = \<lparr>ap_service = demo_provisioned, ap_driver_epochs = [(''d'', 5)], ap_internal_api_secret = ''secret''\<rparr>"

definition demo_dispatch :: "int \<Rightarrow> dispatch_request" where
  "demo_dispatch n =
     \<lparr>dr_attempt_id = rq_attempt_id demo_run_request, dr_execution_id = ''x'', dr_execution_epoch = rq_execution_epoch demo_run_request,
      dr_workspace_id = None, dr_operation = rq_operation demo_run_request, dr_payload = rq_payload demo_run_request,
      dr_closure = rq_closure demo_run_request, dr_binding = rq_binding demo_run_request, dr_driver_id = Some ''d'', dr_driver_epoch = Some n\<rparr>"

theorem driver_epoch_fenced_witness:
  "dispatch_endpoint demo_env2 (Some demo_host) demo_put demo_stamp1 demo_stamp1 (demo_dispatch 4) demo_app =
     (Inr (http_error 422 ''stale_driver_epoch''), demo_app)"
proof -
  have "strip (ap_internal_api_secret demo_app) \<noteq> []" "strip ''d'' \<noteq> []" "map_of (ap_driver_epochs demo_app) ''d'' = Some 5" "(4::int) < 5"
    by (simp_all add: demo_app_def strip_def is_space_def)
  from driver_epoch_fenced [OF rtranclp.rtrancl_refl this, of "demo_dispatch 4" demo_env2 "Some demo_host" demo_put demo_stamp1 demo_stamp1]
  show ?thesis by (simp add: demo_dispatch_def)
qed

theorem dispatch_delivery_witness:
  "\<exists>response a' r. dispatch_endpoint demo_env2 (Some demo_host) demo_put demo_stamp1 demo_stamp1 (demo_dispatch 6) demo_app = (Inr response, a') \<and>
     worker_dispatch demo_env2 (Delivered response) ''a1'' ''x'' 1 = Inr (delivered_result r) \<and>
     map_of (ss_attempts (ap_service a')) ''a1'' = Some r"
proof -
  have "case dispatch_endpoint demo_env2 (Some demo_host) demo_put demo_stamp1 demo_stamp1 (demo_dispatch 6) demo_app of
      (Inl _, _) \<Rightarrow> False | (Inr response, _) \<Rightarrow> \<not> isl (worker_dispatch demo_env2 (Delivered response) ''a1'' ''x'' 1)" by code_simp
  then obtain response a' where run: "dispatch_endpoint demo_env2 (Some demo_host) demo_put demo_stamp1 demo_stamp1 (demo_dispatch 6) demo_app = (Inr response, a')"
    "\<not> isl (worker_dispatch demo_env2 (Delivered response) ''a1'' ''x'' 1)" by (auto split: sum.splits prod.splits)
  then obtain w where w: "worker_dispatch demo_env2 (Delivered response) ''a1'' ''x'' 1 = Inr w"
    by (cases "worker_dispatch demo_env2 (Delivered response) ''a1'' ''x'' 1") auto
  from dispatch_delivery [OF run(1), THEN conjunct1, rule_format, OF w] run(1) w show ?thesis by auto
qed

end
