(* ===== verification/Nodes.thy ===== *)
theory Nodes
  imports Results
begin

text \<open>
  Dynamic nodes of an orchestration (\<^verbatim>\<open>ObserverRepository\<close>: \<^verbatim>\<open>accept_node_intent\<close>,
  \<^verbatim>\<open>dispatch_dynamic_node\<close>, \<^verbatim>\<open>reassign_dynamic_node\<close>, \<^verbatim>\<open>record_dynamic_node_result\<close>,
  \<^verbatim>\<open>fail_dynamic_node\<close>, and the replay of the node list from the event log).

  The asyncio lock per Run makes each operation one step. The write of a node's output into the content
  store is the parameter \<open>put\<close>.
\<close>

section \<open>Node lists\<close>

definition set_node_state :: "string \<Rightarrow> node_state \<Rightarrow> run_record \<Rightarrow> run_record" where
  "set_node_state node_id st r =
     r\<lparr>rn_dynamic_nodes := update_first (\<lambda>n. dn_node_id n = node_id) (\<lambda>n. n\<lparr>dn_state := st\<rparr>) (rn_dynamic_nodes r)\<rparr>"

definition find_node :: "string \<Rightarrow> run_record \<Rightarrow> dynamic_node option" where
  "find_node node_id r = List.find (\<lambda>n. dn_node_id n = node_id) (rn_dynamic_nodes r)"

definition executing :: "run_record \<Rightarrow> bool" where
  "executing r = (rn_state r = Running \<and> rn_execution_id r \<noteq> None)"

definition live_nodes :: "run_record \<Rightarrow> dynamic_node list" where
  "live_nodes r = filter (\<lambda>n. dn_state n \<notin> {Node_Completed, Node_Failed, Node_Decision_Required}) (rn_dynamic_nodes r)"

section \<open>Accepting an intent\<close>

record node_limits =
  nl_package :: package_version
  nl_allowed :: "resource_ref list"
  nl_max_nodes :: int
  nl_max_live_nodes :: int

text \<open>The checks before the request is logged.\<close>

definition orchestration_limits :: "run_record \<Rightarrow> string \<Rightarrow> node_intent \<Rightarrow> 'z run_store_scheme \<Rightarrow> node_limits result" where
  "orchestration_limits r run_id intent s =
     res_bind (checks [(\<not> executing r, ''execution_not_running''),
                       (Some (ni_execution_id intent) \<noteq> rn_execution_id r, ''node_intent_execution_mismatch'')]) (\<lambda>_.
     case ps_package_ref (tc_program_systems (run_snapshot r)) of
       None \<Rightarrow> Inl (ValueError ''orchestration_package_not_bound'')
     | Some pref \<Rightarrow>
         if \<not> is_orchestration (run_snapshot r) then Inl (ValueError ''orchestration_package_not_bound'')
         else (case find_package (By_Ref pref) (Some run_id) s of
                 None \<Rightarrow> Inl (ValueError (if find_package (By_Ref pref) None s \<noteq> None
                                         then ''capability_package_scope_mismatch'' else ''orchestration_package_not_found''))
               | Some p \<Rightarrow>
                   if package_key p \<noteq> DRIVER_ORCHESTRATOR_KEY then Inl (ValueError ''orchestration_package_not_found'')
                   else (case (body_refs p ''allowed_node_package_refs'', body_int p ''max_nodes'', body_int p ''max_live_nodes'') of
                           (Some refs, Some n, Some l) \<Rightarrow>
                             Inr \<lparr>nl_package = p, nl_allowed = refs, nl_max_nodes = n, nl_max_live_nodes = l\<rparr>
                         | _ \<Rightarrow> Inl (ValueError ''orchestration_package_invalid''))))"

definition node_requested :: "string \<Rightarrow> run_event \<Rightarrow> bool" where
  "node_requested intent_id e = (case e of Ev_Node_Requested _ _ _ i _ _ _ \<Rightarrow> i = intent_id | _ \<Rightarrow> False)"

definition log_request ::
  "time \<Rightarrow> string \<Rightarrow> node_intent \<Rightarrow> package_version \<Rightarrow> 'z run_store_scheme \<Rightarrow> run_record \<Rightarrow> run_record result" where
  "log_request now run_id intent p s r =
     (if list_ex (node_requested (ni_intent_id intent)) (rn_events r) then Inr r
      else res_bind (orchestration_provenance r (Some p) s) (\<lambda>prov.
             Inr (log_event (Ev_Node_Requested run_id (rn_execution_id r) (rn_execution_epoch r) (ni_intent_id intent) intent prov now) r)))"

definition ref_eq :: "resource_ref \<Rightarrow> resource_ref \<Rightarrow> bool" where
  "ref_eq a b = py_eq (ref_json a) (ref_json b)"

definition same_intent :: "dynamic_node \<Rightarrow> node_intent \<Rightarrow> bool" where
  "same_intent n i =
     (ref_eq (dn_package_ref n) (ni_package_ref i) \<and>
      ref_eq (dn_capability_descriptor_ref n) (ni_capability_descriptor_ref i) \<and>
      list_all2 ref_eq (dn_input_refs n) (ni_input_refs i))"

definition limit_checks :: "node_limits \<Rightarrow> run_record \<Rightarrow> (bool \<times> string) list" where
  "limit_checks l r =
     [(int (length (rn_dynamic_nodes r)) \<ge> nl_max_nodes l, ''orchestration_node_limit_exceeded''),
      (int (length (live_nodes r)) \<ge> nl_max_live_nodes l, ''orchestration_live_node_limit_exceeded'')]"

definition exact_ref :: "resource_ref \<Rightarrow> resource_ref \<Rightarrow> bool" where
  "exact_ref a b = (rr_resource_id a = rr_resource_id b \<and> digest_or_empty a = digest_or_empty b)"

text \<open>The package and the export the intent asks for.\<close>

definition node_export_of ::
  "node_limits \<Rightarrow> run_record \<Rightarrow> string \<Rightarrow> node_intent \<Rightarrow> 'z run_store_scheme \<Rightarrow> (package_version \<times> capability_export) result" where
  "node_export_of l r run_id intent s =
     res_bind (checks (limit_checks l r @
                [(\<not> list_ex (exact_ref (ni_package_ref intent)) (nl_allowed l), ''node_package_not_allowed'')])) (\<lambda>_.
     case find_package (By_Ref (ni_package_ref intent)) (Some run_id) s of
       None \<Rightarrow> Inl (ValueError ''node_package_not_found'')
     | Some p \<Rightarrow>
         res_bind (checks
           [(digest_or_empty (ni_package_ref intent) \<noteq> lower (pv_package_digest p), ''node_package_digest_mismatch''),
            (\<not> package_visible_to_run p (Some (rn_run_id r)) s, ''capability_package_scope_mismatch''),
            (pv_publication_state p = Abandoned, ''capability_package_abandoned'')]) (\<lambda>_.
         case export_for p (ni_capability_descriptor_ref intent) of
           Inl _ \<Rightarrow> Inl (ValueError ''node_capability_export_not_found'')
         | Inr e \<Rightarrow> Inr (p, e)))"

definition content_error_as :: "string \<Rightarrow> py_error \<Rightarrow> py_error" where
  "content_error_as code e = (if is_content_error e then ValueError code else e)"

definition or_content_error :: "string \<Rightarrow> 'a result \<Rightarrow> 'a result" where
  "or_content_error code m = (case m of Inl e \<Rightarrow> Inl (content_error_as code e) | Inr x \<Rightarrow> Inr x)"

definition check_node_input :: "env \<Rightarrow> capability_export \<Rightarrow> node_intent \<Rightarrow> unit result" where
  "check_node_input E e intent =
     res_bind (or_content_error ''node_io_contract_unavailable'' (load_io_contract E (ce_io_contract_ref e))) (\<lambda>contract.
     case io_input_schema_ref contract of
       None \<Rightarrow> Inr ()
     | Some schema_ref \<Rightarrow>
         res_bind (or_content_error ''node_input_schema_mismatch''
           (res_bind (load_schema E schema_ref) (\<lambda>schema.
            res_bind (all_ok (map (load_json_content E) (ni_input_refs intent))) (\<lambda>values.
            validate_value E schema (case values of [v] \<Rightarrow> v | _ \<Rightarrow> JObj [(''inputs'', JArr values)]))))) (\<lambda>errors.
         if errors = [] then Inr ()
         else Inl (ValueError (''node_input_schema_mismatch:'' @ env_json_dumps E (JArr (map schema_error_json errors))))))"

text \<open>\<^verbatim>\<open>_collect_content_ref_digests\<close>, as the list of the digests it adds.\<close>

definition content_digest_of :: "dict \<Rightarrow> string list" where
  "content_digest_of d =
     (if \<not> dhas d ''resource_id'' then []
      else (case as_ref (JObj d) of
              Some r \<Rightarrow> if is_content_ref r then [digest_or_empty r] else []
            | None \<Rightarrow> []))"

fun collect_digests :: "json \<Rightarrow> string list"
and collect_list :: "json list \<Rightarrow> string list"
and collect_items :: "(string \<times> json) list \<Rightarrow> string list" where
  "collect_digests (JObj d) = content_digest_of d @ collect_items d"
| "collect_digests (JArr xs) = collect_list xs"
| "collect_digests _ = []"
| "collect_list [] = []"
| "collect_list (x # xs) = collect_digests x @ collect_list xs"
| "collect_items [] = []"
| "collect_items ((k, v) # d) = collect_digests v @ collect_items d"

text \<open>The digests an input may have: the bound root inputs, everything they refer to, and completed results.\<close>

definition root_digests :: "env \<Rightarrow> resource_ref \<Rightarrow> string list result" where
  "root_digests E r =
     (if \<not> is_content_ref r then Inr []
      else (case load_json_content E r of
              Inr v \<Rightarrow> Inr (digest_or_empty r # collect_digests v)
            | Inl e \<Rightarrow> if is_content_error e then Inr [digest_or_empty r] else Inl e))"

definition result_digests :: "run_record \<Rightarrow> string list" where
  "result_digests r = List.map_filter (\<lambda>a.
     if at_state a = At_Completed
     then (case at_result_ref a of Some x \<Rightarrow> if is_content_ref x then Some (digest_or_empty x) else None | None \<Rightarrow> None)
     else None) (rn_attempts r)"

definition authorized_digests :: "env \<Rightarrow> run_record \<Rightarrow> string list result" where
  "authorized_digests E r =
     res_bind (all_ok (map (root_digests E \<circ> nb_input_ref) (tc_node_input_bindings (run_snapshot r)))) (\<lambda>roots.
     Inr (concat roots @ result_digests r))"

definition available_input :: "env \<Rightarrow> resource_ref \<Rightarrow> unit result" where
  "available_input E x =
     or_content_error ''node_input_unavailable''
       (res_bind (require_content_ref x) (\<lambda>_. res_bind (load_json_content E x) (\<lambda>_. Inr ())))"

definition check_input_ref :: "env \<Rightarrow> string list \<Rightarrow> resource_ref \<Rightarrow> unit result" where
  "check_input_ref E authorized x =
     res_bind (available_input E x) (\<lambda>_. checks [(digest_or_empty x \<notin> set authorized, ''node_input_not_allowed'')])"

definition locality_of :: "task_closure \<Rightarrow> json" where
  "locality_of c =
     (case List.find (\<lambda>q. rq_key q = ''loom.data.locality.v1'') (sp_requirements (tc_compute c)) of
        None \<Rightarrow> JNull | Some q \<Rightarrow> rq_value q)"

definition denied_permissions :: "run_record \<Rightarrow> capability_export \<Rightarrow> bool" where
  "denied_permissions r e =
     (case rn_closure_contract r of
        None \<Rightarrow> False
      | Some c \<Rightarrow> \<not> set (ce_permissions e) \<subseteq> set (cc_allowed_effects c))"

definition wrong_locality :: "env \<Rightarrow> run_record \<Rightarrow> string \<Rightarrow> 'z slave_store_scheme \<Rightarrow> bool" where
  "wrong_locality E r target s =
     (let v = locality_of (run_snapshot r) in v \<noteq> JNull \<and> canonical_target_resource_id (py_str E v) s \<noteq> target)"

text \<open>The checks after the Slave snapshot has been refreshed; the result is the canonical target.\<close>

definition admit_node ::
  "env \<Rightarrow> node_limits \<Rightarrow> package_version \<Rightarrow> capability_export \<Rightarrow> run_record \<Rightarrow> node_intent \<Rightarrow> string \<Rightarrow> 'z slave_store_scheme \<Rightarrow> string result" where
  "admit_node E l p e r intent selected_target s =
     res_bind (check_node_input E e intent) (\<lambda>_.
     res_bind (authorized_digests E r) (\<lambda>authorized.
     res_bind (all_ok (map (check_input_ref E authorized) (ni_input_refs intent))) (\<lambda>_.
     let target = canonical_target_resource_id selected_target s in
     res_bind (checks ([(selected_target = [], ''node_target_unavailable''),
                        (\<not> slave_supports_package E target p s, ''node_target_unavailable''),
                        (denied_permissions r e, ''node_permission_denied''),
                        (wrong_locality E r target s, ''node_target_unavailable'')] @ limit_checks l r)) (\<lambda>_.
     Inr target))))"

definition new_node :: "node_intent \<Rightarrow> run_record \<Rightarrow> dynamic_node" where
  "new_node intent r =
     (let x = (case rn_execution_id r of None \<Rightarrow> [] | Some x \<Rightarrow> x) in
      \<lparr>dn_node_id = ''node-'' @ x @ ''-'' @ nat_digits (length (rn_dynamic_nodes r) + 1),
       dn_parent_execution_ref = x, dn_intent_id = ni_intent_id intent, dn_package_ref = ni_package_ref intent,
       dn_capability_descriptor_ref = ni_capability_descriptor_ref intent, dn_input_refs = ni_input_refs intent,
       dn_state = Node_Accepted\<rparr>)"

definition node_provenance :: "dynamic_node \<Rightarrow> dict \<Rightarrow> dict" where
  "node_provenance n prov =
     dict_with prov [(''node_package_ref'', ref_json (dn_package_ref n)),
                     (''capability_descriptor_ref'', ref_json (dn_capability_descriptor_ref n))]"

definition add_node ::
  "time \<Rightarrow> string \<Rightarrow> package_version \<Rightarrow> node_intent \<Rightarrow> string \<Rightarrow> 'z run_store_scheme \<Rightarrow> run_record \<Rightarrow> dynamic_node result \<times> run_record" where
  "add_node now run_id p intent target s r =
     (let n = new_node intent r; r1 = r\<lparr>rn_dynamic_nodes := rn_dynamic_nodes r @ [n]\<rparr> in
      case orchestration_provenance r1 (Some p) s of
        Inl e \<Rightarrow> (Inl e, r1)
      | Inr prov \<Rightarrow>
          (Inr n, log_event (Ev_Node_Accepted run_id (rn_execution_id r1) (rn_execution_epoch r1) (dn_node_id n) (ni_intent_id intent)
                    (ni_package_ref intent) (ni_capability_descriptor_ref intent) (ni_input_refs intent) target
                    (node_provenance n prov) now) r1))"

definition accept_node_intent ::
  "env \<Rightarrow> time \<Rightarrow> time \<Rightarrow> string \<Rightarrow> node_intent \<Rightarrow> string \<Rightarrow> ('z, dynamic_node) slave_op" where
  "accept_node_intent E ttl now run_id intent selected_target s = with_run run_id (\<lambda>r0.
     case orchestration_limits r0 run_id intent s of
       Inl e \<Rightarrow> (Inl e, s)
     | Inr l \<Rightarrow>
         (case log_request now run_id intent (nl_package l) s r0 of
            Inl e \<Rightarrow> (Inl e, s)
          | Inr r \<Rightarrow>
              let s1 = put_run run_id r s in
              (case List.find (\<lambda>n. dn_intent_id n = ni_intent_id intent) (rn_dynamic_nodes r) of
                 Some n \<Rightarrow> (if same_intent n intent then Inr n else Inl (ValueError ''node_intent_conflict''), s1)
               | None \<Rightarrow>
                   (case node_export_of l r run_id intent s1 of
                      Inl e \<Rightarrow> (Inl e, s1)
                    | Inr (p, e) \<Rightarrow>
                        (case refresh_slaves now ttl (Some (run_workspace r)) s1 of
                           (Inl err, s2) \<Rightarrow> (Inl err, s2)
                         | (Inr _, s2) \<Rightarrow>
                             (case admit_node E l p e r intent selected_target s2 of
                                Inl err \<Rightarrow> (Inl err, s2)
                              | Inr target \<Rightarrow>
                                  (case add_node now run_id (nl_package l) intent target s2 r of
                                     (x, r') \<Rightarrow> (x, put_run run_id r' s2)))))))) s"

section \<open>Dispatching\<close>

definition accepted_target :: "string \<Rightarrow> run_record \<Rightarrow> string option" where
  "accepted_target node_id r =
     (case find_last (\<lambda>e. case e of
                 Ev_Node_Accepted _ _ _ i _ _ _ _ _ _ _ \<Rightarrow> i = node_id
               | Ev_Node_Reassigned _ _ _ i _ _ _ _ _ _ _ \<Rightarrow> i = node_id
               | _ \<Rightarrow> False) (rn_events r) of
        Some (Ev_Node_Accepted _ _ _ _ _ _ _ _ target _ _) \<Rightarrow> Some target
      | _ \<Rightarrow> None)"

definition node_attempt :: "string \<Rightarrow> string \<Rightarrow> string \<Rightarrow> agent_record \<Rightarrow> int \<Rightarrow> string option \<Rightarrow> attempt" where
  "node_attempt attempt_id node_id target agent epoch replaces =
     (new_attempt attempt_id target epoch)
       \<lparr>at_node_id := Some node_id, at_target_instance_id := Some (ag_instance_id agent),
        at_target_agent_epoch := Some (ag_epoch agent), at_replaces_attempt_id := replaces\<rparr>"

text \<open>The checks of a dispatch after the refresh.\<close>

definition dispatch_agent ::
  "env \<Rightarrow> run_record \<Rightarrow> string \<Rightarrow> dynamic_node \<Rightarrow> string \<Rightarrow> 'z slave_store_scheme \<Rightarrow> agent_record result" where
  "dispatch_agent E r run_id n target s =
     res_bind (checks [(accepted_target (dn_node_id n) r \<noteq> None \<and> accepted_target (dn_node_id n) r \<noteq> Some target, ''node_target_mismatch'')]) (\<lambda>_.
     case find_package (By_Ref (dn_package_ref n)) (Some run_id) s of
       None \<Rightarrow> Inl (ValueError ''node_target_unavailable'')
     | Some p \<Rightarrow>
         res_bind (checks [(\<not> slave_supports_package E target p s, ''node_target_unavailable'')]) (\<lambda>_.
         case export_for p (dn_capability_descriptor_ref n) of
           Inl _ \<Rightarrow> Inl (ValueError ''node_capability_export_not_found'')
         | Inr _ \<Rightarrow>
             (case map_of (slave_agents s) target of
                None \<Rightarrow> Inl (KeyError target)
              | Some agent \<Rightarrow> res_bind (check_attempt_budget r) (\<lambda>_. Inr agent))))"

definition dispatch_dynamic_node ::
  "env \<Rightarrow> time \<Rightarrow> time \<Rightarrow> string \<Rightarrow> string \<Rightarrow> string \<Rightarrow> string \<Rightarrow> ('z, attempt) slave_op" where
  "dispatch_dynamic_node E ttl now fresh_attempt run_id node_id target s = with_run run_id (\<lambda>r.
     if \<not> executing r then (Inl (ValueError ''execution_not_running''), s)
     else case find_node node_id r of
       None \<Rightarrow> (Inl (ValueError ''dynamic_node_not_found''), s)
     | Some n \<Rightarrow>
         if dn_state n \<noteq> Node_Accepted then (Inl (ValueError ''dynamic_node_not_dispatchable''), s)
         else if target = [] then (Inl (ValueError ''node_target_unavailable''), s)
         else (case refresh_slaves now ttl (Some (run_workspace r)) s of
                 (Inl e, s1) \<Rightarrow> (Inl e, s1)
               | (Inr _, s1) \<Rightarrow>
                   let normalized = canonical_target_resource_id target s1 in
                   (case dispatch_agent E r run_id n normalized s1 of
                      Inl e \<Rightarrow> (Inl e, s1)
                    | Inr agent \<Rightarrow>
                        let a = node_attempt fresh_attempt node_id normalized agent (rn_execution_epoch r) None;
                            r1 = set_node_state node_id Node_Dispatched (r\<lparr>rn_attempts := rn_attempts r @ [a]\<rparr>)
                        in case orchestration_provenance r1 None s1 of
                             Inl e \<Rightarrow> (Inl e, put_run run_id r1 s1)
                           | Inr prov \<Rightarrow>
                               (Inr a, put_run run_id (log_event (Ev_Node_Dispatched run_id (rn_execution_id r) (rn_execution_epoch r)
                                   node_id fresh_attempt normalized (ag_instance_id agent) (ag_epoch agent) (dn_package_ref n)
                                   (dn_capability_descriptor_ref n) (dn_input_refs n) (node_provenance n prov) now) r1) s1)))) s"

section \<open>Reassignment\<close>

definition find_attempt :: "string \<Rightarrow> string \<Rightarrow> run_record \<Rightarrow> attempt option" where
  "find_attempt attempt_id node_id r =
     List.find (\<lambda>a. at_attempt_id a = attempt_id \<and> at_node_id a = Some node_id) (rn_attempts r)"

definition active_attempts :: "string \<Rightarrow> run_record \<Rightarrow> attempt list" where
  "active_attempts node_id r = filter (\<lambda>a. at_node_id a = Some node_id \<and> attempt_active a) (rn_attempts r)"

definition reassignment_allowed :: "run_record \<Rightarrow> bool" where
  "reassignment_allowed r =
     (case rn_closure_contract r of
        None \<Rightarrow> False
      | Some c \<Rightarrow> truthy (dget_default (cc_recovery_policy c) ''allow_reassignment'' (JBool False)))"

text \<open>The node and the lost attempt, after the fencing checks.\<close>

definition reassign_subject ::
  "run_record \<Rightarrow> string \<Rightarrow> string \<Rightarrow> string \<Rightarrow> int \<Rightarrow> (dynamic_node \<times> attempt) result" where
  "reassign_subject r node_id lost_attempt_id execution_id epoch =
     res_bind (checks [(\<not> executing r, ''execution_not_running''),
                       (Some execution_id \<noteq> rn_execution_id r, ''stale_execution_id''),
                       (epoch \<noteq> rn_execution_epoch r, ''stale_execution_epoch'')]) (\<lambda>_.
     case find_node node_id r of
       None \<Rightarrow> Inl (ValueError ''dynamic_node_not_found'')
     | Some n \<Rightarrow>
         (case find_attempt lost_attempt_id node_id r of
            None \<Rightarrow> Inl (ValueError ''stale_attempt'')
          | Some a \<Rightarrow> Inr (n, a)))"

text \<open>The checks before the refresh, for an attempt that has not been replaced yet.\<close>

definition reassign_package ::
  "env \<Rightarrow> run_record \<Rightarrow> string \<Rightarrow> dynamic_node \<Rightarrow> attempt \<Rightarrow> 'z run_store_scheme \<Rightarrow> (package_version \<times> capability_export) result" where
  "reassign_package E r run_id n old s =
     res_bind (checks
       [(dn_state n \<noteq> Node_Dispatched, ''dynamic_node_not_dispatchable''),
        (active_attempts (dn_node_id n) r \<noteq> [old], ''stale_attempt''),
        (at_execution_epoch old \<noteq> rn_execution_epoch r, ''stale_attempt''),
        (\<not> reassignment_allowed r, ''reassignment_not_allowed'')]) (\<lambda>_.
     case find_package (By_Ref (dn_package_ref n)) (Some run_id) s of
       None \<Rightarrow> Inl (ValueError ''node_target_unavailable'')
     | Some p \<Rightarrow>
         (case export_for p (dn_capability_descriptor_ref n) of
            Inl _ \<Rightarrow> Inl (ValueError ''node_capability_export_not_found'')
          | Inr e \<Rightarrow>
              res_bind (checks [(denied_permissions r e, ''node_permission_denied'')]) (\<lambda>_.
              res_bind (all_ok (map (available_input E) (dn_input_refs n))) (\<lambda>_.
              res_bind (check_attempt_budget r) (\<lambda>_. Inr (p, e))))))"

text \<open>The checks against the refreshed snapshot: the old lease must be lost and the new target usable.\<close>

definition lost_source :: "attempt \<Rightarrow> 'z slave_store_scheme \<Rightarrow> agent_record result" where
  "lost_source old s =
     (case map_of (slave_instances s) (at_target old, case at_target_instance_id old of None \<Rightarrow> [] | Some i \<Rightarrow> i) of
        None \<Rightarrow> Inl (ValueError ''worker_lease_not_lost'')
      | Some source \<Rightarrow>
          res_bind (checks [(ag_epoch source \<noteq> (case at_target_agent_epoch old of None \<Rightarrow> 0 | Some k \<Rightarrow> k), ''worker_lease_not_lost''),
                            (ag_lease_state source \<notin> {Lease_Expired, Lease_Released}, ''worker_lease_active'')]) (\<lambda>_.
          Inr source))"

definition reassign_agent ::
  "env \<Rightarrow> run_record \<Rightarrow> attempt \<Rightarrow> package_version \<Rightarrow> string \<Rightarrow> 'z slave_store_scheme \<Rightarrow> agent_record result" where
  "reassign_agent E r old p target s =
     res_bind (checks [(target = [], ''node_target_unavailable''), (target = at_target old, ''node_target_unavailable''),
                       (\<not> slave_supports_package E target p s, ''node_target_unavailable''),
                       (wrong_locality E r target s, ''node_target_unavailable'')]) (\<lambda>_.
     case map_of (slave_agents s) target of None \<Rightarrow> Inl (KeyError target) | Some agent \<Rightarrow> Inr agent)"

definition lease_state_name :: "lease_state \<Rightarrow> string" where
  "lease_state_name st = (case st of Lease_Active \<Rightarrow> ''active'' | Lease_Expired \<Rightarrow> ''expired'' | Lease_Released \<Rightarrow> ''released'')"

definition lost_attempt :: "string \<Rightarrow> lease_state \<Rightarrow> attempt \<Rightarrow> attempt" where
  "lost_attempt replacement_id st a =
     a\<lparr>at_state := At_Lost,
       at_terminal_error := JObj [(''code'', JStr ''worker_lost''), (''lease_state'', JStr (lease_state_name st))],
       at_replaced_by_attempt_id := Some replacement_id\<rparr>"

definition reassignment_details ::
  "run_record \<Rightarrow> attempt \<Rightarrow> agent_record \<Rightarrow> agent_record \<Rightarrow> dynamic_node \<Rightarrow> capability_export \<Rightarrow> dict" where
  "reassignment_details r old source agent n e =
     [(''from_instance_id'', str_or_null (at_target_instance_id old)),
      (''from_agent_epoch'', case at_target_agent_epoch old of None \<Rightarrow> JNull | Some k \<Rightarrow> JInt k),
      (''to_instance_id'', JStr (ag_instance_id agent)), (''to_agent_epoch'', JInt (ag_epoch agent)),
      (''source_lease_state'', JStr (lease_state_name (ag_lease_state source))),
      (''reassignment_authorization'', JObj
         [(''policy'', JStr ''allow_reassignment''), (''value'', JBool True),
          (''closure_version_ref'', JStr (cv_version_id (case rn_committed r of Some v \<Rightarrow> v | None \<Rightarrow> rn_draft r))),
          (''user_id'', JStr (case rn_closure_contract r of Some c \<Rightarrow> cc_user_id c | None \<Rightarrow> ''user-default'')),
          (''origin_conversation_ref'',
             JStr (case rn_closure_contract r of Some c \<Rightarrow> cc_origin_conversation_ref c | None \<Rightarrow> rn_task_ref r))]),
      (''package_ref'', ref_json (dn_package_ref n)), (''package_replay_safety'', JStr (ce_replay_safety e)),
      (''input_refs'', JArr (map ref_json (dn_input_refs n)))]"

text \<open>The updated copy that replaces the record.\<close>

definition replace_attempt ::
  "time \<Rightarrow> string \<Rightarrow> string \<Rightarrow> dynamic_node \<Rightarrow> attempt \<Rightarrow> attempt \<Rightarrow> agent_record \<Rightarrow> agent_record \<Rightarrow> capability_export \<Rightarrow> run_record \<Rightarrow> run_record" where
  "replace_attempt now run_id reason n old new source agent e r =
     (let r1 = set_attempt (\<lambda>a. at_attempt_id a = at_attempt_id old) (lost_attempt (at_attempt_id new) (ag_lease_state source)) r;
          r2 = set_node_state (dn_node_id n) Node_Dispatched (r1\<lparr>rn_attempts := rn_attempts r1 @ [new]\<rparr>)
      in log_event (Ev_Node_Reassigned run_id (rn_execution_id r) (rn_execution_epoch r) (dn_node_id n) (at_attempt_id old)
           (at_attempt_id new) (at_target old) (at_target new) reason (reassignment_details r old source agent n e) now) r2)"

definition reassign_dynamic_node ::
  "env \<Rightarrow> time \<Rightarrow> time \<Rightarrow> string \<Rightarrow> string \<Rightarrow> string \<Rightarrow> string \<Rightarrow> string \<Rightarrow> int \<Rightarrow> string \<Rightarrow> string \<Rightarrow> ('z, attempt) slave_op" where
  "reassign_dynamic_node E ttl now fresh_attempt run_id node_id lost_attempt_id execution_id epoch target reason s = with_run run_id (\<lambda>r.
     case reassign_subject r node_id lost_attempt_id execution_id epoch of
       Inl e \<Rightarrow> (Inl e, s)
     | Inr (n, old) \<Rightarrow>
         if nonempty (at_replaced_by_attempt_id old)
         then (case List.find (\<lambda>a. Some (at_attempt_id a) = at_replaced_by_attempt_id old) (rn_attempts r) of
                 None \<Rightarrow> (Inl (ValueError ''stale_attempt''), s)
               | Some replacement \<Rightarrow> (Inr replacement, s))
         else (case reassign_package E r run_id n old s of
                 Inl e \<Rightarrow> (Inl e, s)
               | Inr (p, e) \<Rightarrow>
                   (case refresh_slaves now ttl (Some (run_workspace r)) s of
                      (Inl err, s1) \<Rightarrow> (Inl err, s1)
                    | (Inr _, s1) \<Rightarrow>
                        let normalized = canonical_target_resource_id target s1 in
                        (case res_bind (lost_source old s1) (\<lambda>source.
                              res_bind (reassign_agent E r old p normalized s1) (\<lambda>agent. Inr (source, agent))) of
                           Inl err \<Rightarrow> (Inl err, s1)
                         | Inr (source, agent) \<Rightarrow>
                             let new = node_attempt fresh_attempt node_id normalized agent (rn_execution_epoch r) (Some (at_attempt_id old))
                             in (Inr new, put_run run_id (replace_attempt now run_id reason n old new source agent e r) s1))))) s"

section \<open>Results of a node\<close>

definition find_node_attempt :: "json \<Rightarrow> string \<Rightarrow> run_record \<Rightarrow> attempt option" where
  "find_node_attempt attempt_id node_id r =
     find_last (\<lambda>a. JStr (at_attempt_id a) = attempt_id \<and> at_node_id a = Some node_id) (rn_attempts r)"

record node_report =
  nr_node :: dynamic_node
  nr_attempt :: attempt
  nr_digest :: string
  nr_terminal_state :: string
  nr_evidence :: "validation_evidence list"

text \<open>Fencing and evidence of a node report; \<^verbatim>\<open>None\<close> evidence is empty, anything but a list is refused.\<close>

definition admit_node_report :: "env \<Rightarrow> run_record \<Rightarrow> string \<Rightarrow> dict \<Rightarrow> node_report result" where
  "admit_node_report E r node_id result =
     res_bind (checks [(\<not> executing r, ''execution_not_running'')]) (\<lambda>_.
     case find_node node_id r of
       None \<Rightarrow> Inl (ValueError ''dynamic_node_not_found'')
     | Some n \<Rightarrow>
         res_bind (checks [(dget result ''execution_id'' \<noteq> str_or_null (rn_execution_id r), ''stale_execution_id'')]) (\<lambda>_.
         case py_int (dget result ''execution_epoch'') of
           Inl _ \<Rightarrow> Inl (ValueError ''stale_execution_epoch'')
         | Inr epoch \<Rightarrow>
             res_bind (checks [(epoch \<noteq> rn_execution_epoch r, ''stale_execution_epoch'')]) (\<lambda>_.
             case find_node_attempt (dget result ''attempt_id'') node_id r of
               None \<Rightarrow> Inl (ValueError ''stale_attempt'')
             | Some a \<Rightarrow>
                 res_bind (checks [(at_execution_epoch a \<noteq> epoch, ''stale_attempt''), (\<not> attempt_active a, ''stale_attempt''),
                                   (\<not> dhas result ''value'', ''output_missing''), (dhas result ''digest'', ''redundant_result_digest'')]) (\<lambda>_.
                 res_bind (result_digest E (dget result ''value'')) (\<lambda>digest.
                 let reported = str_or E (dget result ''terminal_state'') ''completed'' in
                 res_bind (checks [(reported \<notin> set terminal_states, ''invalid_terminal_state'')]) (\<lambda>_.
                 res_bind (if dget result ''validation_evidence'' = JNull then Inr []
                           else parse_evidences (at_attempt_id a) epoch digest (dget result ''validation_evidence'')) (\<lambda>evidence.
                 Inr \<lparr>nr_node = n, nr_attempt = a, nr_digest = digest, nr_terminal_state = reported, nr_evidence = evidence\<rparr>)))))))"

definition node_package_of :: "string \<Rightarrow> dynamic_node \<Rightarrow> 'z run_store_scheme \<Rightarrow> package_version result" where
  "node_package_of run_id n s =
     (case find_package (By_Ref (dn_package_ref n)) (Some run_id) s of
        None \<Rightarrow> Inl (ValueError ''node_package_not_found'')
      | Some p \<Rightarrow>
          if pv_package_digest p \<noteq> (case ref_digest (dn_package_ref n) of None \<Rightarrow> [] | Some d \<Rightarrow> d)
          then Inl (ValueError ''node_package_digest_mismatch'') else Inr p)"

definition check_node_evidence :: "io_contract \<Rightarrow> validation_evidence \<Rightarrow> unit result" where
  "check_node_evidence contract e =
     checks [(\<not> same_ref (ve_schema_ref e) (io_output_schema_ref contract), ''validation_evidence_schema_mismatch''),
             (\<not> same_ref (ve_validator_ref e) (io_success_validator_ref contract), ''validation_evidence_validator_mismatch'')]"

text \<open>
  The \<^verbatim>\<open>try\<close> block: the contract when it could be loaded, and the errors of the output. An error whose
  text starts with \<^verbatim>\<open>validation_evidence_\<close> is raised, any other content error becomes a schema error.
\<close>

definition node_contract_errors ::
  "env \<Rightarrow> package_version \<Rightarrow> node_report \<Rightarrow> json \<Rightarrow> (io_contract option \<times> schema_error list) result" where
  "node_contract_errors E p nr value =
     (let failed = (\<lambda>contract e.
            if \<not> is_content_error e \<or> startswith (error_message e) ''validation_evidence_'' then Inl e
            else Inr (contract, [schema_failure ''$'' ''schema'' ''node output schema could not be evaluated''
                                   (JStr ''valid output schema'') (error_message e)]))
      in case res_bind (export_for p (dn_capability_descriptor_ref (nr_node nr))) (\<lambda>e. load_io_contract E (ce_io_contract_ref e)) of
           Inl e \<Rightarrow> failed None e
         | Inr contract \<Rightarrow>
             (case res_bind (all_ok (map (check_node_evidence contract) (nr_evidence nr))) (\<lambda>_.
                   case io_output_schema_ref contract of
                     None \<Rightarrow> Inr []
                   | Some schema_ref \<Rightarrow> res_bind (load_schema E schema_ref) (\<lambda>schema. validate_value E schema value)) of
                Inl e \<Rightarrow> failed (Some contract) e
              | Inr errors \<Rightarrow> Inr (Some contract, errors)))"

text \<open>The success validator of a node; it passes when it says so and reports no error object.\<close>

definition node_validator_errors :: "env \<Rightarrow> invoke \<Rightarrow> resource_ref \<Rightarrow> json \<Rightarrow> bool \<times> json list" where
  "node_validator_errors E invoke r value =
     (case validator_payload E invoke r value of
        Inl e \<Rightarrow> (False, [validator_exception e])
      | Inr payload \<Rightarrow>
          let errors = map JObj (error_objects payload) in (validator_status E payload = ''pass'' \<and> errors = [], errors))"

definition node_judgement ::
  "env \<Rightarrow> invoke \<Rightarrow> evidence_stamp \<Rightarrow> node_report \<Rightarrow> json \<Rightarrow> io_contract option \<times> schema_error list \<Rightarrow>
   validation_evidence list \<times> schema_error list" where
  "node_judgement E invoke stamp nr value ce =
     (case ce of
        (Some contract, []) \<Rightarrow>
          (case io_success_validator_ref contract of
             None \<Rightarrow> (nr_evidence nr, [])
           | Some w \<Rightarrow>
               let (pass, errors) = node_validator_errors E invoke w value;
                   ev = \<lparr>ve_evidence_id = ''evidence-'' @ at_attempt_id (nr_attempt nr) @ ''-'' @ es_suffix stamp,
                         ve_attempt_id = at_attempt_id (nr_attempt nr), ve_execution_epoch = at_execution_epoch (nr_attempt nr),
                         ve_validator_ref = Some w, ve_schema_ref = io_output_schema_ref contract, ve_input_digest = None,
                         ve_output_digest = Some (nr_digest nr), ve_pass = pass, ve_errors = errors, ve_by_slave = False,
                         ve_created_at = es_created_at stamp\<rparr>
               in (nr_evidence nr @ [ev],
                   if pass then []
                   else [schema_failure ''$'' ''validator'' ''node output validator failed'' (JStr ''validator pass'')
                           (env_json_dumps E (JArr errors))]))
      | (_, errors) \<Rightarrow> (nr_evidence nr, errors))"

fun node_terminal :: "string \<Rightarrow> node_state" where
  "node_terminal st = (if st = ''failed'' then Node_Failed else if st = ''decision_required'' then Node_Decision_Required else Node_Completed)"

fun attempt_terminal :: "node_state \<Rightarrow> attempt_state" where
  "attempt_terminal Node_Failed = At_Failed"
| "attempt_terminal Node_Decision_Required = At_Decision_Required"
| "attempt_terminal _ = At_Completed"

definition node_error :: "dict \<Rightarrow> schema_error list \<Rightarrow> json" where
  "node_error result errors =
     (if errors \<noteq> []
      then coded_errors (if list_ex (\<lambda>e. se_keyword e = ''validator'') errors then ''success_validation_failed'' else ''output_schema_mismatch'')
             (map schema_error_json errors)
      else if is_obj (dget result ''terminal_error'') then dget result ''terminal_error'' else JNull)"

definition close_node_attempt ::
  "string \<Rightarrow> string \<Rightarrow> node_state \<Rightarrow> resource_ref \<Rightarrow> json \<Rightarrow> json \<Rightarrow> validation_evidence list \<Rightarrow> run_record \<Rightarrow> run_record" where
  "close_node_attempt attempt_id node_id st result_ref value err evidence r =
     r\<lparr>rn_attempts := update_last (\<lambda>a. at_attempt_id a = attempt_id \<and> at_node_id a = Some node_id)
         (\<lambda>a. a\<lparr>at_state := attempt_terminal st, at_result_ref := Some result_ref, at_value := value, at_terminal_error := err,
               at_validation_evidence := map evidence_json evidence\<rparr>) (rn_attempts r)\<rparr>"

definition node_outcome ::
  "node_state \<Rightarrow> json \<Rightarrow> resource_ref \<Rightarrow> json \<Rightarrow> string \<Rightarrow> string \<Rightarrow> run_record \<Rightarrow> dict" where
  "node_outcome st err result_ref value node_id attempt_id r =
     (let attestation = (st = Node_Decision_Required) in
      [(''disposition'', JStr ''awaiting_decision''), (''decision'', JStr (if attestation then ''attestation'' else ''repair'')),
       (''terminal_state'', JStr (if attestation then ''decision_required'' else ''failed'')), (''terminal_error'', err),
       (''resource_ref'', if attestation then ref_json result_ref else JNull), (''value'', value), (''node_id'', JStr node_id),
       (''attempt_id'', JStr attempt_id), (''execution_id'', str_or_null (rn_execution_id r)),
       (''execution_epoch'', JInt (rn_execution_epoch r))])"

definition result_provenance :: "dynamic_node \<Rightarrow> json \<Rightarrow> json \<Rightarrow> bool \<Rightarrow> dict \<Rightarrow> dict" where
  "result_provenance n attempt_id target with_slave prov =
     dict_with prov ([(''node_package_ref'', ref_json (dn_package_ref n)), (''attempt_id'', attempt_id), (''target'', target)] @
                     (if with_slave then [(''slave_id'', target)] else []))"

text \<open>The projection of the judged report into the Run.\<close>

definition close_node_report ::
  "time \<Rightarrow> string \<Rightarrow> node_report \<Rightarrow> dict \<Rightarrow> validation_evidence list \<Rightarrow> schema_error list \<Rightarrow> resource_ref \<Rightarrow> 'z run_store_scheme \<Rightarrow> run_record \<Rightarrow>
   unit result \<times> run_record" where
  "close_node_report now run_id nr result evidence errors result_ref s r =
     (let n = nr_node nr; a = nr_attempt nr; value = dget result ''value'';
          st = (if errors \<noteq> [] then Node_Failed else node_terminal (nr_terminal_state nr));
          err = node_error result errors;
          r1 = set_node_state (dn_node_id n) st
                 (close_node_attempt (at_attempt_id a) (dn_node_id n) st result_ref value err evidence r);
          finish = (\<lambda>r2.
            case orchestration_provenance r2 None s of
              Inl e \<Rightarrow> (Inl e, r2)
            | Inr prov \<Rightarrow>
                (Inr (), log_event (Ev_Node_Completed run_id (rn_execution_id r2) (at_execution_epoch a) (dn_node_id n)
                   (Some (at_attempt_id a)) (Some (at_target a)) (dn_package_ref n) (dn_input_refs n) (Some result_ref) st err
                   (map evidence_json evidence)
                   (result_provenance n (JStr (at_attempt_id a)) (JStr (at_target a)) True prov) now) r2))
      in if st = Node_Completed then finish r1
         else
           let r2 = r1\<lparr>rn_outcome := Some (node_outcome st err result_ref value (dn_node_id n) (at_attempt_id a) r1)\<rparr>
           in case do_transition now Run_Needs_Decision (opt_json err) r2 of
                Inl e \<Rightarrow> (Inl e, r2)
              | Inr r3 \<Rightarrow> finish r3)"

definition record_dynamic_node_result ::
  "env \<Rightarrow> invoke \<Rightarrow> (string \<Rightarrow> string \<Rightarrow> resource_ref result) \<Rightarrow> time \<Rightarrow> evidence_stamp \<Rightarrow> string \<Rightarrow> string \<Rightarrow> dict \<Rightarrow> ('z, dynamic_node) run_op" where
  "record_dynamic_node_result E invoke put now stamp run_id node_id result s = with_run run_id (\<lambda>r.
     let value = dget result ''value'' in
     case res_bind (admit_node_report E r node_id result) (\<lambda>nr.
          res_bind (node_package_of run_id (nr_node nr) s) (\<lambda>p.
          res_bind (node_contract_errors E p nr value) (\<lambda>ce.
          res_bind (canonical_json_bytes (env_hash E) value) (\<lambda>body.
          res_bind (put body ''application/json'') (\<lambda>result_ref.
          Inr (nr, node_judgement E invoke stamp nr value ce, result_ref)))))) of
       Inl e \<Rightarrow> (Inl e, s)
     | Inr (nr, (evidence, errors), result_ref) \<Rightarrow>
         (case close_node_report now run_id nr result evidence errors result_ref (put_run run_id r s) r of
            (Inl e, r') \<Rightarrow> (Inl e, put_run run_id r' s)
          | (Inr _, r') \<Rightarrow>
              (Inr ((nr_node nr)\<lparr>dn_state := (if errors \<noteq> [] then Node_Failed else node_terminal (nr_terminal_state nr))\<rparr>),
               put_run run_id r' s))) s"

section \<open>Failing a node\<close>

definition fail_attempts :: "string \<Rightarrow> string option \<Rightarrow> json \<Rightarrow> attempt list \<Rightarrow> attempt list" where
  "fail_attempts node_id attempt_id reason as =
     map (\<lambda>a. if at_node_id a = Some node_id \<and> (attempt_id = None \<or> attempt_id = Some (at_attempt_id a)) \<and> attempt_active a
              then a\<lparr>at_state := At_Failed, at_terminal_error := reason\<rparr> else a) as"

definition decision_outcome :: "string \<Rightarrow> string \<Rightarrow> json \<Rightarrow> json \<Rightarrow> run_record \<Rightarrow> dict" where
  "decision_outcome decision terminal_state err resource_ref r =
     [(''disposition'', JStr ''awaiting_decision''), (''decision'', JStr decision), (''terminal_state'', JStr terminal_state),
      (''terminal_error'', err), (''resource_ref'', resource_ref), (''execution_id'', str_or_null (rn_execution_id r)),
      (''execution_epoch'', JInt (rn_execution_epoch r))]"

definition stale_failure :: "string option \<Rightarrow> string \<Rightarrow> run_record \<Rightarrow> bool" where
  "stale_failure attempt_id node_id r =
     (case attempt_id of
        None \<Rightarrow> False
      | Some i \<Rightarrow> (case find_attempt i node_id r of
                     None \<Rightarrow> True
                   | Some a \<Rightarrow> at_execution_epoch a \<noteq> rn_execution_epoch r \<or> \<not> attempt_active a))"

definition fail_dynamic_node ::
  "time \<Rightarrow> string \<Rightarrow> string \<Rightarrow> string option \<Rightarrow> dict option \<Rightarrow> ('z, dynamic_node) run_op" where
  "fail_dynamic_node now run_id node_id attempt_id err s = with_run run_id (\<lambda>r.
     case find_node node_id r of
       None \<Rightarrow> (Inl (ValueError ''dynamic_node_not_found''), s)
     | Some n \<Rightarrow>
         let reason = JObj (case err of Some (x # xs) \<Rightarrow> x # xs | _ \<Rightarrow> [(''code'', JStr ''dynamic_node_failed'')]) in
         if stale_failure attempt_id node_id r then (Inl (ValueError ''stale_attempt''), s)
         else
           let failed_attempt = find_last (\<lambda>a. at_node_id a = Some node_id \<and> (attempt_id = None \<or> attempt_id = Some (at_attempt_id a))) (rn_attempts r);
               target = map_option at_target failed_attempt;
               r1 = (set_node_state node_id Node_Failed r)\<lparr>rn_attempts := fail_attempts node_id attempt_id reason (rn_attempts r)\<rparr>
           in case do_transition now Run_Needs_Decision (Some reason) r1 of
                Inl e \<Rightarrow> (Inl e, put_run run_id r1 s)
              | Inr r2 \<Rightarrow>
                  let r3 = r2\<lparr>rn_outcome := Some (decision_outcome ''repair'' ''failed'' reason JNull r2)\<rparr> in
                  (case orchestration_provenance r3 None (put_run run_id r3 s) of
                     Inl e \<Rightarrow> (Inl e, put_run run_id r3 s)
                   | Inr prov \<Rightarrow>
                       let r4 = log_event (Ev_Node_Completed run_id (rn_execution_id r3) (rn_execution_epoch r3) node_id attempt_id target
                                  (dn_package_ref n) (dn_input_refs n) None Node_Failed reason []
                                  (result_provenance n (str_or_null attempt_id) (str_or_null target) False prov) now) r3;
                           r5 = log_event (Ev_Orchestration_Failed run_id (rn_execution_id r3) (rn_execution_epoch r3) (Some node_id)
                                  reason prov now) r4
                       in (Inr (n\<lparr>dn_state := Node_Failed\<rparr>), put_run run_id r5 s))) s"

section \<open>Effects on the Runs\<close>

lemma set_node_state_next: "run_next r (set_node_state i st r)"
  unfolding set_node_state_def by (rule run_next_nodes)

lemma log_request_next: "log_request now run_id intent p s r = Inr r' \<Longrightarrow> run_next r r'"
  by (auto simp: log_request_def intro: run_next_log split: if_splits)

lemma add_node_next: "run_next r (snd (add_node now run_id p intent target s r))"
  by (auto simp: add_node_def Let_def split: sum.split intro: run_next_nodes run_next_logI)

lemma put_frame_next:
  assumes "runs s1 = runs s" and "map_of (runs s) k = Some r" and "run_next r r'"
  shows "runs_next (runs s) (AList.update k r' (runs s1))"
  using assms by (simp add: runs_next_put)

lemma accept_node_effect:
  "runs_next (runs s) (runs (snd (accept_node_intent E ttl now run_id intent target s)))"
  unfolding accept_node_intent_def
proof (rule with_run_effect, goal_cases)
  case (1 r0)
  have put: "runs_next (runs s) (runs (put_run run_id r s))" if "log_request now run_id intent p s r0 = Inr r" for p r
    using runs_next_put [OF 1 log_request_next [OF that]] by simp
  have frame: "runs_next (runs s) (runs s2)"
    if "log_request now run_id intent p s r0 = Inr r" "refresh_slaves now ttl ws (put_run run_id r s) = (x, s2)" for p r ws x s2
    using put [OF that(1)] refresh_frame [OF that(2)] by simp
  have final: "runs_next (runs s) (runs (put_run run_id r' s2))"
    if "log_request now run_id intent p s r0 = Inr r" "refresh_slaves now ttl ws (put_run run_id r s) = (x, s2)"
      "add_node now run_id p' intent t s2 r = (y, r')" for p r ws x s2 p' t y r'
  proof (rule runs_next_trans [OF frame [OF that(1,2)]])
    have "map_of (runs s2) run_id = Some r" using refresh_frame [OF that(2)] by simp
    moreover have "run_next r r'" using add_node_next [of r now run_id p' intent t s2] that(3) by simp
    ultimately show "runs_next (runs s2) (runs (put_run run_id r' s2))" unfolding runs_put_run by (rule runs_next_put)
  qed
  show ?case
    by (auto simp: Let_def intro: put [unfolded runs_put_run] frame final [unfolded runs_put_run] split: sum.split option.split prod.split)
qed

lemma dispatch_node_effect:
  "runs_next (runs s) (runs (snd (dispatch_dynamic_node E ttl now fa run_id node_id target s)))"
  unfolding dispatch_dynamic_node_def
proof (rule with_run_effect, goal_cases)
  case (1 r)
  have step: "run_next r (set_node_state node_id st (r\<lparr>rn_attempts := rn_attempts r @ [a]\<rparr>))" for st a
    by (rule run_next_trans [OF run_next_attempts set_node_state_next]) simp
  show ?case
    using 1 by (auto simp: Let_def intro!: put_frame_next [OF _ 1] run_next_logI step dest: refresh_frame
        split: sum.split option.split prod.split)
qed

lemma find_attempt_SomeD: "find_attempt i node_id r = Some a \<Longrightarrow> at_attempt_id a = i \<and> at_node_id a = Some node_id \<and> a \<in> set (rn_attempts r)"
  by (auto simp: find_attempt_def dest: find_SomeD)

lemma map_ids_update_first: "(\<And>a. at_attempt_id (f a) = at_attempt_id a) \<Longrightarrow>
    map at_attempt_id (update_first p f as) = map at_attempt_id as"
  by (rule map_update_first) simp

lemma replace_attempt_next:
  assumes run: "rn_state r = Running" and old: "find_attempt i node_id r = Some old" and act: "attempt_active old"
  shows "run_next r (replace_attempt now run_id reason n old new source agent e r)"
proof -
  let ?p = "\<lambda>a. at_attempt_id a = at_attempt_id old" and ?f = "lost_attempt (at_attempt_id new) (ag_lease_state source)"
  let ?r1 = "r\<lparr>rn_attempts := update_first ?p ?f (rn_attempts r) @ [new]\<rparr>"
  have ids: "map at_attempt_id (update_first ?p ?f (rn_attempts r)) = map at_attempt_id (rn_attempts r)"
    by (rule map_ids_update_first) (simp add: lost_attempt_def)
  have mem: "old \<in> set (rn_attempts r)" using find_attempt_SomeD [OF old] by blast
  have "attempts_next (rn_attempts r) (update_first ?p ?f (rn_attempts r) @ [new])" if d: "distinct (attempt_ids ?r1)"
  proof -
    from d have "distinct (map at_attempt_id (rn_attempts r))" by (simp add: attempt_ids_def ids)
    then have "List.find ?p (rn_attempts r) = Some old"
      using mem by (intro find_unique) (auto simp: distinct_map inj_on_def)
    then have "attempts_next (rn_attempts r) (update_first ?p ?f (rn_attempts r))"
      by (rule attempts_next_update_first [OF _ act]) (simp add: lost_attempt_def)
    then show ?thesis by (rule attempts_next_trans) simp
  qed
  then have "execution_next r ?r1" by (auto simp: execution_next_def epoch_ok_def attempt_ids_def ids)
  then have "run_next r ?r1"
    by (intro running_next [OF run]) (use run_coreD [OF _ run] in \<open>auto simp: same_run_def\<close>)
  then show ?thesis
    by (auto simp: replace_attempt_def set_attempt_def Let_def intro!: run_next_logI run_next_trans [OF _ set_node_state_next])
qed

lemma reassign_package_active:
  assumes "reassign_package E r run_id n old s = Inr x"
  shows "attempt_active old"
proof -
  from assms have "active_attempts (dn_node_id n) r = [old]" by (auto simp: reassign_package_def)
  then have "old \<in> set (active_attempts (dn_node_id n) r)" by simp
  then show ?thesis by (simp add: active_attempts_def)
qed

lemma reassign_node_effect:
  "runs_next (runs s) (runs (snd (reassign_dynamic_node E ttl now fa run_id node_id lost x ep target reason s)))"
  unfolding reassign_dynamic_node_def
proof (rule with_run_effect, goal_cases)
  case (1 r)
  show ?case
  proof (cases "reassign_subject r node_id lost x ep")
    case (Inr no)
    obtain n old where no: "no = (n, old)" by (cases no)
    from Inr have sub: "rn_state r = Running" "find_attempt lost node_id r = Some old"
      by (auto simp: no reassign_subject_def executing_def split: option.splits)
    have rep: "run_next r (replace_attempt now run_id reason n old new source agent e r)"
      if "reassign_package E r run_id n old s = Inr pe" for pe new source agent e
      by (rule replace_attempt_next [OF sub reassign_package_active [OF that]])
    show ?thesis
      using 1 by (auto simp: Inr no Let_def intro!: put_frame_next [OF _ 1] rep dest: refresh_frame split: sum.split option.split prod.split)
  qed simp
qed

lemma attempts_next_update_last:
  assumes "find_last p as = Some a" and "attempt_active a"
    and "\<And>x. at_attempt_id (f x) = at_attempt_id x \<and> at_node_id (f x) = at_node_id x \<and> at_target (f x) = at_target x \<and>
              at_execution_epoch (f x) = at_execution_epoch x"
  shows "attempts_next as (update_last p f as)"
proof -
  have "list_all2 attempt_next xs (update_first p f xs)" if "List.find p xs = Some a" for xs
    using that assms(2)
  proof (induction xs)
    case (Cons x xs)
    then show ?case using assms(3) [of x] by (auto simp: attempt_next_def list.rel_refl split: if_splits)
  qed simp
  from this [of "rev as"] assms(1) have "list_all2 attempt_next as (update_last p f as)"
    by (simp add: find_last_def update_last_def list_all2_rev1)
  then show ?thesis unfolding attempts_next_def by (intro exI [of _ "update_last p f as"] exI [of _ "[]"]) simp
qed

lemma admit_node_report_InrD:
  assumes "admit_node_report E r node_id result = Inr nr"
  shows "rn_state r = Running" and "find_node node_id r = Some (nr_node nr)" and "attempt_active (nr_attempt nr)"
    and "find_last (\<lambda>a. at_attempt_id a = at_attempt_id (nr_attempt nr) \<and> at_node_id a = Some node_id) (rn_attempts r) = Some (nr_attempt nr)"
    and "at_execution_epoch (nr_attempt nr) = rn_execution_epoch r" and "dget result ''execution_id'' = str_or_null (rn_execution_id r)"
    and "dget result ''attempt_id'' = JStr (at_attempt_id (nr_attempt nr))"
    and "rn_execution_id r \<noteq> None" and "nr_terminal_state nr \<in> set terminal_states"
proof -
  from assms have f: "find_node_attempt (dget result ''attempt_id'') node_id r = Some (nr_attempt nr)"
    and rest: "rn_state r = Running" "find_node node_id r = Some (nr_node nr)" "attempt_active (nr_attempt nr)"
      "at_execution_epoch (nr_attempt nr) = rn_execution_epoch r" "dget result ''execution_id'' = str_or_null (rn_execution_id r)"
      "rn_execution_id r \<noteq> None" "nr_terminal_state nr \<in> set terminal_states"
    by (auto simp: admit_node_report_def executing_def Let_def split: option.splits sum.splits)
  then have id: "dget result ''attempt_id'' = JStr (at_attempt_id (nr_attempt nr))"
    by (auto simp: find_node_attempt_def find_last_def dest: find_SomeD)
  with f show "find_last (\<lambda>a. at_attempt_id a = at_attempt_id (nr_attempt nr) \<and> at_node_id a = Some node_id) (rn_attempts r) = Some (nr_attempt nr)"
    by (simp add: find_node_attempt_def)
  from rest id show "rn_state r = Running" "find_node node_id r = Some (nr_node nr)" "attempt_active (nr_attempt nr)"
    "at_execution_epoch (nr_attempt nr) = rn_execution_epoch r" "dget result ''execution_id'' = str_or_null (rn_execution_id r)"
    "dget result ''attempt_id'' = JStr (at_attempt_id (nr_attempt nr))" "rn_execution_id r \<noteq> None"
    "nr_terminal_state nr \<in> set terminal_states" by simp_all
qed

lemma find_node_SomeD: "find_node i r = Some n \<Longrightarrow> dn_node_id n = i \<and> n \<in> set (rn_dynamic_nodes r)"
  by (auto simp: find_node_def dest: find_SomeD)

lemma node_outcome_decision [simp]: "dget (node_outcome st err x v n a r) ''decision'' = JStr (if st = Node_Decision_Required then ''attestation'' else ''repair'')"
  by (simp add: node_outcome_def Let_def)

lemma execution_next_outcome [simp]: "execution_next r (q\<lparr>rn_outcome := oc\<rparr>) = execution_next r q"
  by (simp add: execution_next_def epoch_ok_def attempt_ids_def)

lemma close_node_report_next:
  assumes adm: "admit_node_report E r node_id result = Inr nr"
  shows "run_next r (snd (close_node_report now run_id nr result evidence errors result_ref s r))"
proof -
  note A = admit_node_report_InrD [OF adm]
  have id: "dn_node_id (nr_node nr) = node_id" using find_node_SomeD [OF A(2)] by simp
  define st where "st = (if errors \<noteq> [] then Node_Failed else node_terminal (nr_terminal_state nr))"
  define r1 where "r1 = set_node_state node_id st (close_node_attempt (at_attempt_id (nr_attempt nr)) node_id st result_ref
      (dget result ''value'') (node_error result errors) evidence r)"
  have att: "attempts_next (rn_attempts r) (rn_attempts r1)"
    by (auto simp: r1_def set_node_state_def close_node_attempt_def intro!: attempts_next_update_last [OF A(4,3)])
  have r1: "same_run r r1" "rn_events r1 = rn_events r" "rn_state r1 = rn_state r" "execution_next r r1"
      "rn_execution_id r1 = rn_execution_id r" "rn_committed r1 = rn_committed r"
    using att by (auto simp: r1_def set_node_state_def close_node_attempt_def same_run_def)
  have quiet: "run_next r r1"
    by (rule running_next [OF A(1) r1(1-4)]) (use r1 run_coreD [OF _ A(1)] in auto)
  have open1: "run_next r (r1\<lparr>rn_outcome := oc\<rparr>)" for oc
    by (rule running_next [OF A(1)]) (use r1 run_coreD [OF _ A(1)] att in \<open>auto simp: same_run_def\<close>)
  have decided: "run_next r r3"
    if "do_transition now Run_Needs_Decision why (r1\<lparr>rn_outcome := Some (node_outcome st' err result_ref v n a q)\<rparr>) = Inr r3" for why err v n a q r3 st'
    by (rule decision_next [OF A(1) _ _ _ _ _ that, where es = "[]"])
      (use r1 run_coreD [OF _ A(1)] att that in \<open>auto simp: same_run_def elim!: do_transition_InrD simp: pending_decision_def\<close>)
  show ?thesis
    unfolding close_node_report_def Let_def id st_def [symmetric] r1_def [symmetric]
    by (auto intro: quiet open1 decided run_next_logI split: sum.split)
qed

lemma record_node_effect:
  "runs_next (runs s) (runs (snd (record_dynamic_node_result E invoke put now stamp run_id node_id result s)))"
  unfolding record_dynamic_node_result_def Let_def
proof (rule with_run_effect, goal_cases)
  case (1 r)
  have close: "run_next r r'"
    if "admit_node_report E r node_id result = Inr nr" "close_node_report now run_id nr result ev er x s' r = (y, r')" for nr ev er x s' y r'
    using close_node_report_next [OF that(1), of now run_id ev er x s'] that(2) by simp
  show ?case
    using 1 by (auto intro!: runs_next_put elim!: close split: sum.split prod.split)
qed

lemma fail_attempts_next: "attempts_next as (fail_attempts node_id attempt_id reason as)"
  unfolding fail_attempts_def by (rule attempts_next_map) (auto simp: attempt_next_def)

lemma fail_node_effect:
  "runs_next (runs s) (runs (snd (fail_dynamic_node now run_id node_id attempt_id err s)))"
  unfolding fail_dynamic_node_def Let_def
proof (rule with_run_effect, goal_cases)
  case (1 r)
  let ?r1 = "\<lambda>why. (set_node_state node_id Node_Failed r)\<lparr>rn_attempts := fail_attempts node_id attempt_id why (rn_attempts r)\<rparr>"
  have r1: "run_next r (?r1 why)" for why
    by (rule run_next_trans [OF set_node_state_next run_next_attempts]) (simp add: set_node_state_def fail_attempts_next)
  have r3: "run_next r (r2\<lparr>rn_outcome := Some (decision_outcome ''repair'' ''failed'' err' JNull q)\<rparr>)"
    if "do_transition now Run_Needs_Decision x (?r1 why) = Inr r2" for x why err' q r2
    by (rule run_next_trans [OF r1 transition_next [where es = "[]", OF that]])
      (use that in \<open>auto elim!: do_transition_InrD dest!: active_targets
          simp: same_run_def run_core_def pending_decision_def decision_outcome_def\<close>)
  show ?case
    using 1 by (auto intro!: runs_next_put r1 r3 run_next_logI split: sum.split option.split)
qed

interpretation accept_node: run_operation "accept_node_intent E ttl now run_id intent target" for E ttl now run_id intent target
  by unfold_locales (rule accept_node_effect)

interpretation dispatch_node: run_operation "dispatch_dynamic_node E ttl now fa run_id node_id target"
  for E ttl now fa run_id node_id target
  by unfold_locales (rule dispatch_node_effect)

interpretation reassign_node: run_operation "reassign_dynamic_node E ttl now fa run_id node_id lost x ep target reason"
  for E ttl now fa run_id node_id lost x ep target reason
  by unfold_locales (rule reassign_node_effect)

interpretation record_node: run_operation "record_dynamic_node_result E invoke put now stamp run_id node_id result"
  for E invoke put now stamp run_id node_id result
  by unfold_locales (rule record_node_effect)

interpretation fail_node: run_operation "fail_dynamic_node now run_id node_id attempt_id err" for now run_id node_id attempt_id err
  by unfold_locales (rule fail_node_effect)

end
