(* ===== verification/Node_Properties.thy ===== *)
theory Node_Properties
  imports Nodes
begin

text \<open>
  What the node operations guarantee: the admission of an intent, the dispatch and the reassignment of a
  node, and the acceptance of a node's result.
\<close>

section \<open>Admission\<close>

text \<open>The digests the inputs of a node may have, as a specification.\<close>

definition input_authorized :: "env \<Rightarrow> run_record \<Rightarrow> string \<Rightarrow> bool" where
  "input_authorized E r d \<longleftrightarrow>
     (\<exists>b \<in> set (tc_node_input_bindings (run_snapshot r)). is_content_ref (nb_input_ref b) \<and>
        (d = digest_or_empty (nb_input_ref b) \<or>
         (\<exists>v. load_json_content E (nb_input_ref b) = Inr v \<and> d \<in> set (collect_digests v)))) \<or>
     (\<exists>a \<in> set (rn_attempts r). \<exists>x. at_state a = At_Completed \<and> at_result_ref a = Some x \<and> is_content_ref x \<and> d = digest_or_empty x)"

lemma all_ok_InrD: "all_ok (map f xs) = Inr ys \<Longrightarrow> x \<in> set xs \<Longrightarrow> \<exists>y \<in> set ys. f x = Inr y"
proof (induction xs arbitrary: ys)
  case (Cons a xs)
  then show ?case by (cases "f a") (auto split: sum.splits)
qed simp

lemma all_ok_setD: "all_ok (map f xs) = Inr ys \<Longrightarrow> y \<in> set ys \<Longrightarrow> \<exists>x \<in> set xs. f x = Inr y"
proof (induction xs arbitrary: ys)
  case (Cons a xs)
  then show ?case by (cases "f a") (auto split: sum.splits)
qed simp

lemma root_digests_authorized:
  assumes "root_digests E (nb_input_ref b) = Inr ds" "d \<in> set ds" "b \<in> set (tc_node_input_bindings (run_snapshot r))"
  shows "input_authorized E r d"
proof -
  from assms(1,2) have "is_content_ref (nb_input_ref b) \<and>
        (d = digest_or_empty (nb_input_ref b) \<or> (\<exists>v. load_json_content E (nb_input_ref b) = Inr v \<and> d \<in> set (collect_digests v)))"
    by (auto simp: root_digests_def split: if_splits sum.splits)
  with assms(3) show ?thesis by (auto simp: input_authorized_def)
qed

lemma in_map_filter: "y \<in> set (List.map_filter f xs) \<longleftrightarrow> (\<exists>x \<in> set xs. f x = Some y)"
  by (force simp: List.map_filter_def)

lemma result_digests_authorized: "d \<in> set (result_digests r) \<Longrightarrow> input_authorized E r d"
  unfolding result_digests_def in_map_filter input_authorized_def by (fastforce split: if_splits option.splits)

lemma authorized_digests_spec:
  assumes "authorized_digests E r = Inr ds" "d \<in> set ds"
  shows "input_authorized E r d"
proof -
  from assms(1) obtain roots where roots: "all_ok (map (root_digests E \<circ> nb_input_ref) (tc_node_input_bindings (run_snapshot r))) = Inr roots"
    and ds: "ds = concat roots @ result_digests r"
    by (auto simp: authorized_digests_def)
  from assms(2) ds consider rs where "rs \<in> set roots" "d \<in> set rs" | "d \<in> set (result_digests r)" by auto
  then show ?thesis
  proof cases
    case (1 rs)
    from all_ok_setD [OF roots 1(1)] obtain b
      where "b \<in> set (tc_node_input_bindings (run_snapshot r))" "root_digests E (nb_input_ref b) = Inr rs" by auto
    then show ?thesis using root_digests_authorized 1(2) by blast
  qed (rule result_digests_authorized)
qed

lemma available_inputD: "available_input E x = Inr () \<Longrightarrow> \<exists>v. load_json_content E x = Inr v"
  by (auto simp: available_input_def or_content_error_def split: sum.splits)

text \<open>The facts an admitted intent has been checked for, in the Run \<open>r\<close> and the refreshed store \<open>s\<close>.\<close>

definition node_admissible ::
  "env \<Rightarrow> run_record \<Rightarrow> string \<Rightarrow> node_intent \<Rightarrow> string \<Rightarrow> 'z slave_store_scheme \<Rightarrow> bool" where
  "node_admissible E r run_id intent target s \<longleftrightarrow>
     (\<exists>(l :: node_limits) p e. nl_max_nodes l > int (length (rn_dynamic_nodes r)) \<and> nl_max_live_nodes l > int (length (live_nodes r)) \<and>
        package_key (nl_package l) = DRIVER_ORCHESTRATOR_KEY \<and>
        body_refs (nl_package l) ''allowed_node_package_refs'' = Some (nl_allowed l) \<and>
        body_int (nl_package l) ''max_nodes'' = Some (nl_max_nodes l) \<and> body_int (nl_package l) ''max_live_nodes'' = Some (nl_max_live_nodes l) \<and>
        (\<exists>x \<in> set (nl_allowed l). exact_ref (ni_package_ref intent) x) \<and>
        find_package (By_Ref (ni_package_ref intent)) (Some run_id) s = Some p \<and>
        digest_or_empty (ni_package_ref intent) = lower (pv_package_digest p) \<and> pv_publication_state p \<noteq> Abandoned \<and>
        package_visible_to_run p (Some (rn_run_id r)) s \<and>
        export_for p (ni_capability_descriptor_ref intent) = Inr e \<and> \<not> denied_permissions r e \<and>
        slave_supports_package E target p s \<and> \<not> wrong_locality E r target s \<and>
        (\<forall>x \<in> set (ni_input_refs intent). (\<exists>v. load_json_content E x = Inr v) \<and> input_authorized E r (digest_or_empty x)))"

lemma all_ok_check_input:
  assumes "all_ok (map (check_input_ref E ds) xs) = Inr us" "authorized_digests E r = Inr ds" "x \<in> set xs"
  shows "(\<exists>v. load_json_content E x = Inr v) \<and> input_authorized E r (digest_or_empty x)"
proof -
  from all_ok_InrD [OF assms(1,3)] obtain u where "check_input_ref E ds x = Inr u" by blast
  then have "available_input E x = Inr ()" "digest_or_empty x \<in> set ds"
    by (auto simp: check_input_ref_def)
  then show ?thesis using available_inputD authorized_digests_spec [OF assms(2)] by blast
qed


lemma log_request_same:
  "log_request now run_id intent p s r0 = Inr r \<Longrightarrow> (r = r0 \<or> (\<exists>e. node_requested (ni_intent_id intent) e \<and> r = log_event e r0))"
  by (force simp: log_request_def node_requested_def split: if_splits)

lemma node_export_ofD:
  assumes "node_export_of l r run_id intent s = Inr (p, e)"
  shows "nl_max_nodes l > int (length (rn_dynamic_nodes r))" "nl_max_live_nodes l > int (length (live_nodes r))"
    "\<exists>x \<in> set (nl_allowed l). exact_ref (ni_package_ref intent) x"
    "find_package (By_Ref (ni_package_ref intent)) (Some run_id) s = Some p"
    "digest_or_empty (ni_package_ref intent) = lower (pv_package_digest p)" "pv_publication_state p \<noteq> Abandoned"
    "package_visible_to_run p (Some (rn_run_id r)) s" "export_for p (ni_capability_descriptor_ref intent) = Inr e"
  using assms by (auto simp: node_export_of_def limit_checks_def list_ex_iff split: option.splits sum.splits)

lemma orchestration_limitsD:
  assumes "orchestration_limits r run_id intent s = Inr l"
  shows "executing r" "rn_execution_id r = Some (ni_execution_id intent)" "is_orchestration (run_snapshot r)"
    "package_key (nl_package l) = DRIVER_ORCHESTRATOR_KEY" "body_refs (nl_package l) ''allowed_node_package_refs'' = Some (nl_allowed l)"
    "body_int (nl_package l) ''max_nodes'' = Some (nl_max_nodes l)" "body_int (nl_package l) ''max_live_nodes'' = Some (nl_max_live_nodes l)"
  using assms by (auto simp: orchestration_limits_def split: option.splits if_splits)

lemma package_frame:
  assumes "runs t = runs s"
  shows "find_package a k t = find_package a k s" "package_visible_to_run p k t = package_visible_to_run p k s"
  using find_package_cong [OF assms] assms by (simp_all add: package_visible_to_run_def cong: option.case_cong)

lemma admit_nodeD:
  assumes "admit_node E l p e r intent selected s = Inr target"
  shows "target = canonical_target_resource_id selected s" "slave_supports_package E target p s"
    "\<not> denied_permissions r e" "\<not> wrong_locality E r target s"
    "\<And>x. x \<in> set (ni_input_refs intent) \<Longrightarrow> (\<exists>v. load_json_content E x = Inr v) \<and> input_authorized E r (digest_or_empty x)"
  using assms all_ok_check_input by (auto simp: admit_node_def Let_def)


text \<open>A successful \<^verbatim>\<open>accept_node_intent\<close> repeats an earlier intent or adds a node.\<close>

lemma accept_cases:
  assumes ok: "accept_node_intent E ttl now run_id intent selected s = (Inr n, s')"
    and run: "map_of (runs s) run_id = Some r0"
  obtains (repeated) l r where "orchestration_limits r0 run_id intent s = Inr l" "log_request now run_id intent (nl_package l) s r0 = Inr r"
      "List.find (\<lambda>n. dn_intent_id n = ni_intent_id intent) (rn_dynamic_nodes r) = Some n" "same_intent n intent" "s' = put_run run_id r s"
  | (added) l r p e ags s2 target r' where "orchestration_limits r0 run_id intent s = Inr l"
      "log_request now run_id intent (nl_package l) s r0 = Inr r"
      "List.find (\<lambda>n. dn_intent_id n = ni_intent_id intent) (rn_dynamic_nodes r) = None"
      "node_export_of l r run_id intent (put_run run_id r s) = Inr (p, e)"
      "refresh_slaves now ttl (Some (run_workspace r)) (put_run run_id r s) = (Inr ags, s2)"
      "admit_node E l p e r intent selected s2 = Inr target"
      "add_node now run_id (nl_package l) intent target s2 r = (Inr n, r')" "s' = put_run run_id r' s2"
proof -
  from ok run obtain l where l: "orchestration_limits r0 run_id intent s = Inr l"
    by (auto simp: accept_node_intent_def with_run_def split: sum.splits)
  with ok run obtain r where r: "log_request now run_id intent (nl_package l) s r0 = Inr r"
    by (auto simp: accept_node_intent_def with_run_def split: sum.splits)
  show ?thesis
  proof (cases "List.find (\<lambda>n. dn_intent_id n = ni_intent_id intent) (rn_dynamic_nodes r)")
    case (Some m)
    with ok run l r have "m = n" "same_intent n intent" "s' = put_run run_id r s"
      by (auto simp: accept_node_intent_def with_run_def Let_def split: if_splits)
    with Some show ?thesis by (intro repeated [OF l r]) simp_all
  next
    case None
    with ok run l r show ?thesis
      by (auto simp: accept_node_intent_def with_run_def Let_def split: sum.splits prod.splits intro: added [OF l r])
  qed
qed


text \<open>An executing orchestration with a node package and a worker that runs it.\<close>

definition demo_ref :: "string \<Rightarrow> resource_ref" where
  "demo_ref i = (plain_ref i)\<lparr>rr_version_or_digest := Some demo_digest, rr_identity_criterion := Some ''descriptor_digest''\<rparr>"

definition demo_content :: resource_ref where
  "demo_content = (plain_ref (content_prefix @ demo_digest))\<lparr>rr_identity_criterion := Some ''content_digest''\<rparr>"

definition demo_orchestrator :: package_version where
  "demo_orchestrator = demo_package\<lparr>pv_package_id := ''o'', pv_execution := \<lparr>ec_kind = ''container:python_orchestrator'', ec_version = ''1''\<rparr>,
     pv_body := [(''program_content_ref'', ref_json demo_content), (''allowed_node_package_refs'', JArr [ref_json (demo_ref ''capability-package://p/v1'')]),
                 (''max_nodes'', JInt 2), (''max_live_nodes'', JInt 2)]\<rparr>"

definition demo_orch_closure :: task_closure where
  "demo_orch_closure = demo_closure\<lparr>tc_program_systems := (tc_program_systems demo_closure)
     \<lparr>ps_execution := \<lparr>ec_kind = ''container:python_orchestrator'', ec_version = ''1''\<rparr>,
      ps_package_ref := Some (demo_ref ''capability-package://o/v1'')\<rparr>\<rparr>"

definition demo_orch_run :: run_record where
  "demo_orch_run = demo_running\<lparr>rn_attempts := [], rn_capability_packages := [demo_package, demo_orchestrator],
     rn_committed := Some (demo_version\<lparr>cv_snapshot := demo_orch_closure\<rparr>)\<rparr>"

definition demo_worker :: agent_record where
  "demo_worker = demo_slave\<lparr>ag_capabilities := [(''executor_kinds'', JArr [JObj [(''package_type'', JStr ''function''), (''kind'', JStr ''k'')]])]\<rparr>"

definition demo_orch_store :: slave_store where
  "demo_orch_store = demo_p0\<lparr>runs := [(''r'', demo_orch_run)], agents := [((''w'', Slave, ''s'', ''i''), demo_worker)]\<rparr>"

definition demo_intent :: node_intent where
  "demo_intent = \<lparr>ni_intent_id = ''n1'', ni_execution_id = ''x'', ni_package_ref = demo_ref ''capability-package://p/v1'',
     ni_capability_descriptor_ref = ce_capability_descriptor_ref demo_export, ni_input_refs = []\<rparr>"

lemma returned: "\<not> isl (fst z) \<Longrightarrow> \<exists>x s. z = (Inr x, s)"
  by (metis isl_def prod.collapse sum.exhaust)

lemma demo_accepted: "\<not> isl (fst (accept_node_intent demo_env2 30000000 1 ''r'' demo_intent ''s'' demo_orch_store))"
  by code_simp

lemma demo_orch_lookup: "map_of (runs demo_orch_store) ''r'' = Some demo_orch_run" "rn_dynamic_nodes demo_orch_run = []"
  by (simp_all add: demo_orch_store_def demo_orch_run_def demo_running_def demo_committed_run_def demo_draft_run_def demo_run_def new_run_def)


section \<open>Reassignment\<close>

lemma filter_update_first:
  "filter q xs = [x] \<Longrightarrow> q x \<Longrightarrow> List.find p xs = Some x \<Longrightarrow> \<not> q (f x) \<Longrightarrow> filter q (update_first p f xs) = []"
proof (induction xs)
  case (Cons y ys)
  show ?case
  proof (cases "p y")
    case True
    then show ?thesis using Cons.prems by (simp split: if_splits)
  next
    case False
    with Cons.prems(3) have found: "List.find p ys = Some x" by simp
    then have "x \<in> set ys" by (simp add: find_SomeD)
    with Cons.prems(1,2) have "\<not> q y" by (auto simp: filter_empty_conv)
    with False found Cons show ?thesis by simp
  qed
qed simp

lemma reassign_subjectD:
  assumes "reassign_subject r node_id lost x ep = Inr (n, old)"
  shows "executing r" "rn_execution_id r = Some x" "rn_execution_epoch r = ep" "find_node node_id r = Some n" "find_attempt lost node_id r = Some old"
  using assms by (auto simp: reassign_subject_def split: option.splits)

lemma reassign_packageD:
  assumes "reassign_package E r run_id n old s = Inr (p, e)"
  shows "dn_state n = Node_Dispatched" "active_attempts (dn_node_id n) r = [old]" "at_execution_epoch old = rn_execution_epoch r"
    "reassignment_allowed r" "find_package (By_Ref (dn_package_ref n)) (Some run_id) s = Some p" "\<not> denied_permissions r e"
  using assms by (auto simp: reassign_package_def split: option.splits sum.splits)

text \<open>The worker of an attempt, as the refreshed snapshot has it.\<close>

definition attempt_worker :: "attempt \<Rightarrow> 'z slave_store_scheme \<Rightarrow> agent_record option" where
  "attempt_worker a s =
     map_of (slave_instances s) (at_target a, case at_target_instance_id a of None \<Rightarrow> [] | Some i \<Rightarrow> i)"

lemma lost_sourceD:
  assumes "lost_source old s = Inr src"
  shows "attempt_worker old s = Some src" "ag_lease_state src \<noteq> Lease_Active"
    "ag_epoch src = (case at_target_agent_epoch old of None \<Rightarrow> 0 | Some k \<Rightarrow> k)"
  using assms by (auto simp: lost_source_def attempt_worker_def split: option.splits)

lemma reassign_agentD:
  assumes "reassign_agent E r old p target s = Inr agent"
  shows "target \<noteq> at_target old" "slave_supports_package E target p s" "map_of (slave_agents s) target = Some agent"
    "\<not> wrong_locality E r target s"
  using assms by (auto simp: reassign_agent_def split: option.splits)

lemma replace_attempt_active:
  assumes act: "active_attempts (dn_node_id n) r = [old]" and new: "at_node_id new = Some (dn_node_id n)" "attempt_active new"
    and ids: "distinct (attempt_ids r)"
  shows "active_attempts (dn_node_id n) (replace_attempt now run_id reason n old new source agent e r) = [new]"
proof -
  have "old \<in> set (active_attempts (dn_node_id n) r)" using act by simp
  then have mem: "old \<in> set (rn_attempts r)" by (simp add: active_attempts_def)
  have "List.find (\<lambda>a. at_attempt_id a = at_attempt_id old) (rn_attempts r) = Some old"
    using ids mem by (intro find_unique) (auto simp: attempt_ids_def distinct_map inj_on_def)
  moreover have "at_node_id old = Some (dn_node_id n) \<and> attempt_active old"
    using \<open>old \<in> set (active_attempts (dn_node_id n) r)\<close> by (simp add: active_attempts_def)
  ultimately show ?thesis
    using filter_update_first [OF act [unfolded active_attempts_def], of _ "lost_attempt (at_attempt_id new) (ag_lease_state source)"] new
    by (simp add: active_attempts_def replace_attempt_def set_node_state_def set_attempt_def lost_attempt_def attempt_active_def)
qed

text \<open>
  Claim C10. Reassignment of a node. A node is taken from its worker only in the execution and epoch the caller
  names. If the lost attempt was already replaced, the replacement is returned and nothing changes. Otherwise
  the closure allows reassignment, the node is dispatched and the lost attempt was its only active attempt of
  the current epoch, the worker that held it is known, has the epoch it was dispatched with and its lease is
  not active, the new target is another Slave that supports the package, and afterwards the new attempt, which
  names the one it replaces, is the only active attempt of the node.
\<close>

theorem node_reassignment:
  assumes ok: "reassign_dynamic_node E ttl now fresh run_id node_id lost x ep target reason s = (Inr a, s')"
    and run: "map_of (runs s) run_id = Some r" and ids: "distinct (attempt_ids r)"
  shows "executing r \<and> rn_execution_id r = Some x \<and> rn_execution_epoch r = ep \<and>
    (\<exists>old. find_attempt lost node_id r = Some old \<and>
       (s' = s \<and> a \<in> set (rn_attempts r) \<and> at_replaced_by_attempt_id old = Some (at_attempt_id a) \<or>
        reassignment_allowed r \<and> active_attempts node_id r = [old] \<and> at_execution_epoch old = ep \<and>
        (\<exists>n p ags s1 src r'. find_node node_id r = Some n \<and> dn_state n = Node_Dispatched \<and>
           find_package (By_Ref (dn_package_ref n)) (Some run_id) s = Some p \<and>
           refresh_slaves now ttl (Some (run_workspace r)) s = (Inr ags, s1) \<and>
           attempt_worker old s1 = Some src \<and> ag_lease_state src \<noteq> Lease_Active \<and>
           ag_epoch src = (case at_target_agent_epoch old of None \<Rightarrow> 0 | Some k \<Rightarrow> k) \<and>
           at_target a = canonical_target_resource_id target s1 \<and> at_target a \<noteq> at_target old \<and>
           slave_supports_package E (at_target a) p s1 \<and> at_replaces_attempt_id a = Some lost \<and> at_execution_epoch a = ep \<and>
           s' = put_run run_id r' s1 \<and> active_attempts node_id r' = [a])))"
proof -
  from ok run obtain n old where sub: "reassign_subject r node_id lost x ep = Inr (n, old)"
    by (auto simp: reassign_dynamic_node_def with_run_def split: sum.splits)
  note S = reassign_subjectD [OF sub]
  have id: "dn_node_id n = node_id" "at_attempt_id old = lost"
    using find_node_SomeD [OF S(4)] find_attempt_SomeD [OF S(5)] by simp_all
  show ?thesis
  proof (cases "nonempty (at_replaced_by_attempt_id old)")
    case True
    with ok run sub have "List.find (\<lambda>a. Some (at_attempt_id a) = at_replaced_by_attempt_id old) (rn_attempts r) = Some a" "s' = s"
      by (auto simp: reassign_dynamic_node_def with_run_def split: option.splits)
    with S find_SomeD show ?thesis by (metis (lifting))
  next
    case False
    with ok run sub obtain p e ags s1 src agent where
      pe: "reassign_package E r run_id n old s = Inr (p, e)" and
      s1: "refresh_slaves now ttl (Some (run_workspace r)) s = (Inr ags, s1)" and
      src: "lost_source old s1 = Inr src" and
      ag: "reassign_agent E r old p (canonical_target_resource_id target s1) s1 = Inr agent" and
      a: "a = node_attempt fresh node_id (canonical_target_resource_id target s1) agent (rn_execution_epoch r) (Some (at_attempt_id old))" and
      s': "s' = put_run run_id (replace_attempt now run_id reason n old a src agent e r) s1"
      by (auto simp: reassign_dynamic_node_def with_run_def Let_def split: sum.splits prod.splits)
    note P = reassign_packageD [OF pe] and L = lost_sourceD [OF src] and A = reassign_agentD [OF ag]
    have aa: "at_target a = canonical_target_resource_id target s1" "at_replaces_attempt_id a = Some lost" "at_execution_epoch a = ep"
        "at_node_id a = Some (dn_node_id n)" "attempt_active a"
      using S(3) id by (simp_all add: a node_attempt_def new_attempt_def attempt_active_def)
    from replace_attempt_active [OF P(2) aa(4,5) ids] id
    have "active_attempts node_id (replace_attempt now run_id reason n old a src agent e r) = [a]" by simp
    with S P L A(1,2) aa s1 s' id show ?thesis by metis
  qed
qed

text \<open>The node was dispatched to the worker \<open>s\<close>, whose lease has expired; the worker \<open>t\<close> takes over.\<close>

definition demo_node :: dynamic_node where
  "demo_node = (new_node demo_intent demo_orch_run)\<lparr>dn_state := Node_Dispatched\<rparr>"

definition demo_lost_run :: run_record where
  "demo_lost_run = demo_orch_run\<lparr>rn_dynamic_nodes := [demo_node],
     rn_attempts := [node_attempt ''a1'' (dn_node_id demo_node) ''s'' demo_worker 1 None],
     rn_closure_contract := Some (demo_contract\<lparr>cc_recovery_policy := [(''allow_reassignment'', JBool True)]\<rparr>)\<rparr>"

definition demo_lost_store :: slave_store where
  "demo_lost_store = demo_p0\<lparr>runs := [(''r'', demo_lost_run)],
     agents := [((''w'', Slave, ''s'', ''i''), demo_worker\<lparr>ag_lease_state := Lease_Expired\<rparr>),
                ((''w'', Slave, ''t'', ''j''), demo_worker\<lparr>ag_agent_id := ''t'', ag_instance_id := ''j''\<rparr>)]\<rparr>"

lemma demo_reassigned:
  "\<not> isl (fst (reassign_dynamic_node demo_env2 30000000 1 ''a2'' ''r'' ''node-x-1'' ''a1'' ''x'' 1 ''t'' ''lost'' demo_lost_store))"
  by code_simp

theorem node_reassignment_witness:
  "\<exists>a s' r'. reassign_dynamic_node demo_env2 30000000 1 ''a2'' ''r'' ''node-x-1'' ''a1'' ''x'' 1 ''t'' ''lost'' demo_lost_store = (Inr a, s') \<and>
     map_of (runs s') ''r'' = Some r' \<and> active_attempts ''node-x-1'' r' = [a] \<and> at_target a \<noteq> ''s''"
proof -
  obtain a s' where ok: "reassign_dynamic_node demo_env2 30000000 1 ''a2'' ''r'' ''node-x-1'' ''a1'' ''x'' 1 ''t'' ''lost'' demo_lost_store = (Inr a, s')"
    using returned [OF demo_reassigned] by blast
  have run: "map_of (runs demo_lost_store) ''r'' = Some demo_lost_run" by (simp add: demo_lost_store_def)
  have att: "rn_attempts demo_lost_run = [node_attempt ''a1'' (dn_node_id demo_node) ''s'' demo_worker 1 None]"
    by (simp add: demo_lost_run_def)
  then have "distinct (attempt_ids demo_lost_run)" by (simp add: attempt_ids_def)
  from node_reassignment [OF ok run this] ok show ?thesis
    by (auto simp: find_attempt_def att node_attempt_def new_attempt_def split: if_splits)
qed

end
