(* ===== verification/Orchestration.thy ===== *)
theory Orchestration
  imports Node_Properties
begin

text \<open>
  Completing, recovering and replaying an orchestration (\<^verbatim>\<open>ObserverRepository\<close>:
  \<^verbatim>\<open>complete_orchestration\<close>, \<^verbatim>\<open>recover_stale_runs\<close>, \<^verbatim>\<open>_dynamic_nodes_from_events\<close>).
\<close>

section \<open>Completion\<close>

text \<open>The \<^verbatim>\<open>try\<close> block: the final value when it could be loaded, the contract when it could, and the schema errors.\<close>

record final_output =
  fo_value :: "json option"
  fo_contract :: "io_contract option"
  fo_errors :: "schema_error list"

definition final_failure :: "py_error \<Rightarrow> schema_error" where
  "final_failure e =
     schema_failure ''$'' ''schema'' ''final output schema could not be evaluated'' (JStr ''valid final output'') (error_message e)"

definition load_final :: "env \<Rightarrow> resource_ref \<Rightarrow> resource_ref \<Rightarrow> final_output result" where
  "load_final E final_ref contract_ref =
     (let failed = (\<lambda>value contract e.
            if is_content_error e
            then Inr \<lparr>fo_value = value, fo_contract = contract, fo_errors = [final_failure e]\<rparr> else Inl e)
      in case load_json_content E final_ref of
           Inl e \<Rightarrow> failed None None e
         | Inr value \<Rightarrow>
             (case load_io_contract E contract_ref of
                Inl e \<Rightarrow> failed (Some value) None e
              | Inr contract \<Rightarrow>
                  (case (case io_output_schema_ref contract of
                           None \<Rightarrow> Inr []
                         | Some schema_ref \<Rightarrow> res_bind (load_schema E schema_ref) (\<lambda>schema. validate_value E schema value)) of
                     Inl e \<Rightarrow> failed (Some value) (Some contract) e
                   | Inr errors \<Rightarrow> Inr \<lparr>fo_value = Some value, fo_contract = Some contract, fo_errors = errors\<rparr>)))"

definition digest_failure :: "string \<Rightarrow> resource_ref \<Rightarrow> schema_error" where
  "digest_failure digest final_ref =
     schema_failure ''$'' ''digest'' ''final ref digest mismatch'' (JStr digest)
       (case ref_digest final_ref of None \<Rightarrow> [] | Some d \<Rightarrow> d)"

definition lineage_failure :: "resource_ref \<Rightarrow> schema_error" where
  "lineage_failure final_ref =
     schema_failure ''$'' ''lineage'' ''final output must reference a completed dynamic node''
       (JStr ''completed node result'') (rr_resource_id final_ref)"

text \<open>The last completed attempt of each node, with the lineage entry it contributes.\<close>

definition completed_attempt :: "run_record \<Rightarrow> dynamic_node \<Rightarrow> (attempt \<times> resource_ref) option" where
  "completed_attempt r n =
     (case find_last (\<lambda>a. at_node_id a = Some (dn_node_id n) \<and> at_state a = At_Completed \<and> at_result_ref a \<noteq> None) (rn_attempts r) of
        None \<Rightarrow> None
      | Some a \<Rightarrow> map_option (Pair a) (at_result_ref a))"

definition lineage_entry :: "dict \<Rightarrow> dynamic_node \<Rightarrow> attempt \<times> resource_ref \<Rightarrow> json" where
  "lineage_entry prov n ar =
     (let (a, x) = ar in JObj
      [(''node_id'', JStr (dn_node_id n)), (''intent_id'', JStr (dn_intent_id n)), (''package_ref'', ref_json (dn_package_ref n)),
       (''input_refs'', JArr (map ref_json (dn_input_refs n))), (''attempt_id'', JStr (at_attempt_id a)), (''target'', JStr (at_target a)),
       (''execution_epoch'', JInt (at_execution_epoch a)), (''result_ref'', ref_json x),
       (''provenance'', JObj (result_provenance n (JStr (at_attempt_id a)) (JStr (at_target a)) True prov))])"

definition completed_results :: "run_record \<Rightarrow> (dynamic_node \<times> attempt \<times> resource_ref) list" where
  "completed_results r = List.map_filter (\<lambda>n. map_option (Pair n) (completed_attempt r n)) (rn_dynamic_nodes r)"

text \<open>The success validator of the whole orchestration: only a result other than \<^verbatim>\<open>"pass"\<close> has its errors read.\<close>

definition final_validator_errors :: "env \<Rightarrow> invoke \<Rightarrow> resource_ref \<Rightarrow> json \<Rightarrow> json list" where
  "final_validator_errors E invoke w value =
     (case validator_payload E invoke w value of
        Inl e \<Rightarrow> [validator_exception e]
      | Inr payload \<Rightarrow> if dget payload ''result'' \<noteq> JStr ''pass'' then map JObj (error_objects payload) else [])"

definition checked_errors :: "run_record \<Rightarrow> resource_ref \<Rightarrow> final_output \<Rightarrow> string \<Rightarrow> schema_error list" where
  "checked_errors r final_ref fo digest =
     fo_errors fo @
     (if digest_or_empty final_ref \<noteq> digest then [digest_failure digest final_ref] else []) @
     (if digest \<notin> set (map (\<lambda>(n, a, x). digest_or_empty x) (completed_results r)) then [lineage_failure final_ref] else [])"

definition with_validator :: "env \<Rightarrow> invoke \<Rightarrow> final_output \<Rightarrow> json \<Rightarrow> schema_error list \<Rightarrow> schema_error list" where
  "with_validator E invoke fo value errors =
     (case Option.bind (fo_contract fo) io_success_validator_ref of
        None \<Rightarrow> errors
      | Some w \<Rightarrow>
          if errors \<noteq> [] then errors
          else (case final_validator_errors E invoke w value of
                  [] \<Rightarrow> []
                | es \<Rightarrow> [schema_failure ''$'' ''validator'' ''final output validator failed'' (JStr ''validator pass'')
                          (env_json_dumps E (JArr es))]))"

definition final_errors :: "env \<Rightarrow> invoke \<Rightarrow> run_record \<Rightarrow> resource_ref \<Rightarrow> final_output \<Rightarrow> schema_error list result" where
  "final_errors E invoke r final_ref fo =
     (case fo_value fo of
        None \<Rightarrow> Inr (fo_errors fo)
      | Some value \<Rightarrow>
          res_bind (result_digest E value) (\<lambda>digest.
          Inr (with_validator E invoke fo value (checked_errors r final_ref fo digest))))"

definition completion_error :: "schema_error list \<Rightarrow> json" where
  "completion_error errors =
     coded_errors (if list_ex (\<lambda>e. se_keyword e = ''lineage'') errors then ''orchestration_lineage_mismatch'' else ''output_schema_mismatch'')
       (map schema_error_json errors)"

definition requires_attestation :: "final_output \<Rightarrow> bool" where
  "requires_attestation fo =
     (case fo_contract fo of
        None \<Rightarrow> False
      | Some c \<Rightarrow> io_success_validator_ref c = None \<and> io_success_semantics c \<noteq> JNull)"

definition opt_value :: "json option \<Rightarrow> json" where
  "opt_value v = (case v of None \<Rightarrow> JNull | Some x \<Rightarrow> x)"

definition finish_orchestration ::
  "time \<Rightarrow> string \<Rightarrow> resource_ref \<Rightarrow> final_output \<Rightarrow> schema_error list \<Rightarrow> dict \<Rightarrow> run_record \<Rightarrow> run_record result" where
  "finish_orchestration now run_id final_ref fo errors prov r =
     (if errors \<noteq> []
      then res_bind (do_transition now Run_Needs_Decision (Some (completion_error errors)) r) (\<lambda>r1.
             Inr (log_event (Ev_Orchestration_Failed run_id (rn_execution_id r1) (rn_execution_epoch r1) None (completion_error errors) prov now)
                    (r1\<lparr>rn_outcome := Some (decision_outcome ''repair'' ''failed'' (completion_error errors) JNull r1 @
                                            [(''provenance'', JObj prov)])\<rparr>)))
      else if requires_attestation fo
      then res_bind (do_transition now Run_Needs_Decision None r) (\<lambda>r1.
             Inr (log_event (Ev_Orchestration_Decision run_id (rn_execution_id r1) (rn_execution_epoch r1) final_ref prov now)
                    (r1\<lparr>rn_outcome := Some (decision_outcome ''attestation'' ''decision_required'' JNull (ref_json final_ref) r1 @
                                            [(''value'', opt_value (fo_value fo)), (''provenance'', JObj prov)])\<rparr>)))
      else
        let lineage = map (\<lambda>(n, ar). lineage_entry prov n ar) (completed_results r)
        in res_bind (do_transition now Run_Succeeded None r) (\<lambda>r1.
             Inr (log_event (Ev_Orchestration_Completed run_id (rn_execution_id r1) (rn_execution_epoch r1) final_ref lineage prov now)
                    (r1\<lparr>rn_outcome := Some
                       [(''terminal_state'', JStr ''completed''), (''disposition'', JStr ''completed''), (''decision'', JNull),
                        (''resource_ref'', ref_json final_ref), (''value'', opt_value (fo_value fo)),
                        (''execution_id'', str_or_null (rn_execution_id r1)), (''execution_epoch'', JInt (rn_execution_epoch r1)),
                        (''lineage'', JArr lineage), (''provenance'', JObj prov)]\<rparr>))))"

definition completion_contract :: "run_record \<Rightarrow> resource_ref result" where
  "completion_contract r =
     res_bind (checks
       [(\<not> executing r, ''execution_not_running''),
        (\<not> is_orchestration (run_snapshot r), ''orchestration_not_running''),
        (list_ex (\<lambda>n. dn_state n \<in> {Node_Failed, Node_Decision_Required}) (rn_dynamic_nodes r), ''dynamic_nodes_not_successful''),
        (list_ex (\<lambda>n. dn_state n \<noteq> Node_Completed) (rn_dynamic_nodes r), ''dynamic_nodes_not_terminal'')]) (\<lambda>_.
     case pa_io_contract_ref (tc_program (run_snapshot r)) of
       None \<Rightarrow> Inl (ValueError ''io_contract_unavailable'')
     | Some c \<Rightarrow> Inr c)"

definition complete_orchestration ::
  "env \<Rightarrow> invoke \<Rightarrow> time \<Rightarrow> string \<Rightarrow> resource_ref \<Rightarrow> ('z, run_record) run_op" where
  "complete_orchestration E invoke now run_id final_ref s = with_run run_id (\<lambda>r.
     case res_bind (completion_contract r) (\<lambda>contract_ref.
          res_bind (load_final E final_ref contract_ref) (\<lambda>fo.
          let package = Option.bind (ps_package_ref (tc_program_systems (run_snapshot r))) (\<lambda>x. find_package (By_Ref x) (Some run_id) s)
          in res_bind (final_errors E invoke r final_ref fo) (\<lambda>errors.
             res_bind (orchestration_provenance r package s) (\<lambda>prov.
             finish_orchestration now run_id final_ref fo errors prov r)))) of
       Inl e \<Rightarrow> (Inl e, s)
     | Inr r' \<Rightarrow> (Inr r', put_run run_id r' s)) s"

section \<open>Recovery after a restart\<close>

definition replayable :: "package_version \<Rightarrow> bool result" where
  "replayable p = res_bind (single_export p) (\<lambda>e. Inr (\<not> not_replayable p e))"

definition fail_active :: "json \<Rightarrow> run_record \<Rightarrow> run_record" where
  "fail_active reason r =
     r\<lparr>rn_attempts := map (\<lambda>a. if attempt_active a then a\<lparr>at_state := At_Failed, at_terminal_error := reason\<rparr> else a) (rn_attempts r)\<rparr>"

definition replay_reason :: json where
  "replay_reason = JObj [(''code'', JStr ''driver_restarted''), (''action'', JStr ''replay_orchestration'')]"

text \<open>A replayable orchestration stays running in the next epoch, with its dispatched nodes to be dispatched again.\<close>

definition replay_run :: "time \<Rightarrow> run_record \<Rightarrow> run_record" where
  "replay_run now r =
     (let r1 = fail_active replay_reason (r\<lparr>rn_execution_epoch := rn_execution_epoch r + 1\<rparr>);
          r2 = r1\<lparr>rn_dynamic_nodes := map (\<lambda>n. if dn_state n = Node_Dispatched then n\<lparr>dn_state := Node_Accepted\<rparr> else n) (rn_dynamic_nodes r1)\<rparr>
      in log_event (Ev_Recovered (rn_run_id r) (rn_execution_id r) replay_reason (Some (rn_execution_epoch r2)) now) r2)"

definition abandon_reason :: "run_record \<Rightarrow> json" where
  "abandon_reason r =
     JObj [(''code'', JStr (if rn_state r = Running \<and> (case rn_committed r of None \<Rightarrow> False | Some v \<Rightarrow> is_orchestration (cv_snapshot v))
                            then ''orchestration_not_replayable'' else ''observer_restarted''))]"

definition abandon_run :: "time \<Rightarrow> run_record \<Rightarrow> run_record result" where
  "abandon_run now r =
     (let reason = abandon_reason r; r1 = fail_active reason r in
      res_bind (do_transition now Tr_Failed (Some reason) r1) (\<lambda>r2.
      Inr (log_event (Ev_Recovered (rn_run_id r) (rn_execution_id r2) reason None now)
             (r2\<lparr>rn_outcome := Some (run_outcome ''failed'' (JStr ''failed'') reason r2)\<rparr>))))"

text \<open>One Run of the loop; \<^verbatim>\<open>single_export\<close> may raise, which ends the loop.\<close>

definition recover_run :: "time \<Rightarrow> 'z run_store_scheme \<Rightarrow> run_record \<Rightarrow> run_record result" where
  "recover_run now s r =
     (let orchestrating = (executing r \<and> is_orchestration (run_snapshot r));
          package = Option.bind (ps_package_ref (tc_program_systems (run_snapshot r)))
                      (\<lambda>x. find_package (By_Ref x) (Some (rn_run_id r)) s)
      in case (if orchestrating then (case package of None \<Rightarrow> Inr False | Some p \<Rightarrow> replayable p) else Inr False) of
           Inl e \<Rightarrow> Inl e
         | Inr True \<Rightarrow> Inr (replay_run now r)
         | Inr False \<Rightarrow> abandon_run now r)"

fun recover_runs :: "time \<Rightarrow> string list \<Rightarrow> string list \<Rightarrow> ('z, string list) run_op" where
  "recover_runs now owners [] s = (Inr [], s)"
| "recover_runs now owners (k # ks) s =
     (case map_of (runs s) k of
        None \<Rightarrow> recover_runs now owners ks s
      | Some r \<Rightarrow>
          if rn_run_id r \<in> set owners \<or> rn_state r \<notin> {Thinking, Running} then recover_runs now owners ks s
          else (case recover_run now s r of
                  Inl e \<Rightarrow> (Inl e, s)
                | Inr r' \<Rightarrow>
                    (case recover_runs now owners ks (put_run k r' s) of
                       (Inl e, s') \<Rightarrow> (Inl e, s')
                     | (Inr ids, s') \<Rightarrow> (Inr (rn_run_id r # ids), s'))))"

definition recover_stale_runs :: "time \<Rightarrow> string list \<Rightarrow> ('z, string list) run_op" where
  "recover_stale_runs now owners s = recover_runs now owners (map fst (runs s)) s"

section \<open>Replay of the node list\<close>

definition replay_node_event :: "run_event \<Rightarrow> (string \<times> dynamic_node) list \<Rightarrow> (string \<times> dynamic_node) list" where
  "replay_node_event e nodes =
     (let set_state = (\<lambda>i st. case map_of nodes i of
            Some n \<Rightarrow> if i \<noteq> [] then AList.update i (n\<lparr>dn_state := st\<rparr>) nodes else nodes | None \<Rightarrow> nodes)
      in case e of
           Ev_Node_Accepted _ x _ i intent_id package_ref descriptor input_refs _ _ _ \<Rightarrow>
             if i \<noteq> [] \<and> nonempty x \<and> intent_id \<noteq> []
             then AList.update i \<lparr>dn_node_id = i, dn_parent_execution_ref = the x, dn_intent_id = intent_id, dn_package_ref = package_ref,
                    dn_capability_descriptor_ref = descriptor, dn_input_refs = input_refs, dn_state = Node_Accepted\<rparr> nodes
             else nodes
         | Ev_Node_Reassigned _ _ _ i _ _ _ _ _ _ _ \<Rightarrow> set_state i Node_Dispatched
         | Ev_Node_Dispatched _ _ _ i _ _ _ _ _ _ _ _ _ \<Rightarrow> set_state i Node_Dispatched
         | Ev_Node_Completed _ _ _ i _ _ _ _ _ st _ _ _ _ \<Rightarrow>
             if st \<in> {Node_Completed, Node_Failed, Node_Decision_Required} then set_state i st else nodes
         | _ \<Rightarrow> nodes)"

definition dynamic_nodes_from_events :: "run_event list \<Rightarrow> dynamic_node list" where
  "dynamic_nodes_from_events es = map snd (fold replay_node_event es [])"

section \<open>Effects on the Runs\<close>

lemma finish_orchestration_next:
  assumes "finish_orchestration now run_id final_ref fo errors prov r = Inr r'"
  shows "run_next r r'"
proof -
  have dec: "run_next r (log_event e (r1\<lparr>rn_outcome := Some oc\<rparr>))"
    if "do_transition now Run_Needs_Decision why r = Inr r1" "dget oc ''decision'' \<in> {JStr ''repair'', JStr ''attestation''}" "log_move e = None"
    for why r1 oc e
    by (rule transition_next [where es = "[e]", OF that(1)])
      (use that in \<open>auto elim!: do_transition_InrD dest!: active_targets simp: same_run_def run_core_def pending_decision_def\<close>)
  have suc: "run_next r (log_event e (r1\<lparr>rn_outcome := oc\<rparr>))"
    if "do_transition now Run_Succeeded None r = Inr r1" "log_move e = None" for r1 oc e
    by (rule idle_transition_next [where es = "[e]", OF that(1)]) (use that in \<open>auto simp: same_run_def\<close>)
  show ?thesis
  proof (cases "errors \<noteq> [] \<or> requires_attestation fo")
    case True
    with assms show ?thesis
      by (auto simp: finish_orchestration_def Let_def decision_outcome_def split: if_splits intro!: dec)
  next
    case False
    with assms show ?thesis
      by (auto simp: finish_orchestration_def Let_def intro!: suc)
  qed
qed

lemma complete_orchestration_effect:
  "runs_next (runs s) (runs (snd (complete_orchestration E invoke now run_id final_ref s)))"
  unfolding complete_orchestration_def Let_def
  by (rule with_run_effect) (auto intro!: runs_next_put finish_orchestration_next split: sum.split)

lemma fail_active_attempts: "attempts_next (rn_attempts r) (rn_attempts (fail_active reason r))"
  unfolding fail_active_def by (auto intro!: attempts_next_map simp: attempt_next_def)

lemma fail_active_next: "run_next r (fail_active reason r)"
  using fail_active_attempts [of r reason] unfolding fail_active_def by (intro run_next_attempts) simp

lemma replay_run_next:
  assumes "executing r"
  shows "run_next r (replay_run now r)"
proof -
  have ex: "rn_state r = Running" "rn_execution_id r \<noteq> None" using assms by (auto simp: executing_def)
  let ?r0 = "r\<lparr>rn_execution_epoch := rn_execution_epoch r + 1\<rparr>"
  have "run_next r ?r0"
    by (rule running_next [OF ex(1)])
      (use ex run_coreD [OF _ ex(1)] in \<open>auto simp: same_run_def execution_next_def epoch_ok_def attempt_ids_def\<close>)
  then show ?thesis
    unfolding replay_run_def Let_def
    by (intro run_next_logI run_next_trans [OF _ run_next_nodes] run_next_trans [OF _ fail_active_next]) simp_all
qed

lemma abandon_run_next:
  assumes "abandon_run now r = Inr r'"
  shows "run_next r r'"
proof -
  let ?r1 = "fail_active (abandon_reason r) r"
  from assms obtain r2 where r2: "do_transition now Tr_Failed (Some (abandon_reason r)) ?r1 = Inr r2"
    and r': "r' = log_event (Ev_Recovered (rn_run_id r) (rn_execution_id r2) (abandon_reason r) None now)
               (r2\<lparr>rn_outcome := Some (run_outcome ''failed'' (JStr ''failed'') (abandon_reason r) r2)\<rparr>)"
    by (auto simp: abandon_run_def Let_def)
  have "run_next ?r1 r'"
    by (rule idle_transition_next [OF r2, where es = "[Ev_Recovered (rn_run_id r) (rn_execution_id r2) (abandon_reason r) None now]"])
      (auto simp: r' same_run_def)
  then show ?thesis by (rule run_next_trans [OF fail_active_next])
qed

lemma recover_run_next: "recover_run now s r = Inr r' \<Longrightarrow> run_next r r'"
  by (auto simp: recover_run_def Let_def intro: replay_run_next abandon_run_next split: sum.splits bool.splits if_splits)

lemma recover_runs_effect: "runs_next (runs s) (runs (snd (recover_runs now owners ks s)))"
proof (induction ks arbitrary: s)
  case (Cons k ks)
  show ?case
  proof (cases "map_of (runs s) k")
    case (Some r)
    have step: "runs_next (runs s) (runs (snd (recover_runs now owners ks (put_run k r' s))))" if "recover_run now s r = Inr r'" for r'
      using runs_next_trans [OF runs_next_put [OF Some recover_run_next [OF that]]] Cons.IH [of "put_run k r' s"] by simp
    show ?thesis
      using Cons.IH [of s] by (auto simp: Some split: sum.split prod.split dest!: step)
  qed (simp add: Cons.IH)
qed simp

lemma recover_stale_effect: "runs_next (runs s) (runs (snd (recover_stale_runs now owners s)))"
  unfolding recover_stale_runs_def by (rule recover_runs_effect)

interpretation complete_orchestration: run_operation "complete_orchestration E invoke now run_id final_ref"
  for E invoke now run_id final_ref
  by unfold_locales (rule complete_orchestration_effect)

interpretation recover_stale: run_operation "recover_stale_runs now owners" for now owners
  by unfold_locales (rule recover_stale_effect)

section \<open>Completion is validated\<close>

text \<open>What the Observer itself has checked of a final output.\<close>

definition final_checked :: "env \<Rightarrow> invoke \<Rightarrow> resource_ref \<Rightarrow> run_record \<Rightarrow> bool" where
  "final_checked E invoke final_ref r \<longleftrightarrow>
     (\<exists>contract_ref contract value. pa_io_contract_ref (tc_program (run_snapshot r)) = Some contract_ref \<and>
        load_io_contract E contract_ref = Inr contract \<and> load_json_content E final_ref = Inr value \<and>
        (\<forall>x. io_output_schema_ref contract = Some x \<longrightarrow>
           (\<exists>schema. load_schema E x = Inr schema \<and> validate_value E schema value = Inr [])) \<and>
        result_digest E value = Inr (digest_or_empty final_ref) \<and>
        (\<exists>n \<in> set (rn_dynamic_nodes r). \<exists>a x. completed_attempt r n = Some (a, x) \<and> digest_or_empty x = digest_or_empty final_ref) \<and>
        (case io_success_validator_ref contract of
           Some w \<Rightarrow> final_validator_errors E invoke w value = []
         | None \<Rightarrow> io_success_semantics contract = JNull))"

lemma load_final_clean:
  assumes "load_final E final_ref contract_ref = Inr fo" "fo_errors fo = []"
  shows "\<exists>value contract. fo_value fo = Some value \<and> fo_contract fo = Some contract \<and> load_json_content E final_ref = Inr value \<and>
    load_io_contract E contract_ref = Inr contract \<and>
    (\<forall>x. io_output_schema_ref contract = Some x \<longrightarrow> (\<exists>schema. load_schema E x = Inr schema \<and> validate_value E schema value = Inr []))"
  using assms by (auto simp: load_final_def Let_def split: sum.splits if_splits option.splits)

lemma completed_results_iff: "(n, ar) \<in> set (completed_results r) \<longleftrightarrow> n \<in> set (rn_dynamic_nodes r) \<and> completed_attempt r n = Some ar"
  by (force simp: completed_results_def List.map_filter_def)

lemma with_validator_clean:
  assumes "with_validator E invoke fo value errors = []"
  shows "errors = []" "\<And>c w. fo_contract fo = Some c \<Longrightarrow> io_success_validator_ref c = Some w \<Longrightarrow> final_validator_errors E invoke w value = []"
  using assms by (auto simp: with_validator_def split: option.splits if_splits list.splits)

lemma checked_errors_clean:
  assumes "checked_errors r final_ref fo digest = []"
  shows "fo_errors fo = []" "digest = digest_or_empty final_ref"
    "\<exists>n \<in> set (rn_dynamic_nodes r). \<exists>a x. completed_attempt r n = Some (a, x) \<and> digest_or_empty x = digest"
  using assms by (auto simp: checked_errors_def completed_results_iff split: if_splits) blast

lemma final_errors_clean:
  assumes "final_errors E invoke r final_ref fo = Inr []" "fo_value fo = Some value"
  shows "fo_errors fo = []" "result_digest E value = Inr (digest_or_empty final_ref)"
    "\<exists>n \<in> set (rn_dynamic_nodes r). \<exists>a x. completed_attempt r n = Some (a, x) \<and> digest_or_empty x = digest_or_empty final_ref"
    "\<And>c w. fo_contract fo = Some c \<Longrightarrow> io_success_validator_ref c = Some w \<Longrightarrow> final_validator_errors E invoke w value = []"
proof -
  from assms obtain digest where d: "result_digest E value = Inr digest" "with_validator E invoke fo value (checked_errors r final_ref fo digest) = []"
    by (auto simp: final_errors_def)
  note W = with_validator_clean [OF d(2)] and K = checked_errors_clean [OF with_validator_clean(1) [OF d(2)]]
  show "fo_errors fo = []" "\<And>c w. fo_contract fo = Some c \<Longrightarrow> io_success_validator_ref c = Some w \<Longrightarrow> final_validator_errors E invoke w value = []"
    by (fact K(1), fact W(2))
  from d(1) K(2,3) show "result_digest E value = Inr (digest_or_empty final_ref)"
    "\<exists>n \<in> set (rn_dynamic_nodes r). \<exists>a x. completed_attempt r n = Some (a, x) \<and> digest_or_empty x = digest_or_empty final_ref" by simp_all
qed

lemma final_checkedI:
  assumes "pa_io_contract_ref (tc_program (run_snapshot r)) = Some c" "load_final E final_ref c = Inr fo"
    "final_errors E invoke r final_ref fo = Inr []" "\<not> requires_attestation fo"
  shows "final_checked E invoke final_ref r"
proof -
  have "fo_errors fo = []" using assms(3) final_errors_clean(1) [OF assms(3)] by (cases "fo_value fo") (auto simp: final_errors_def)
  from load_final_clean [OF assms(2) this] obtain out contract where
    v: "fo_value fo = Some out" "fo_contract fo = Some contract" "load_json_content E final_ref = Inr out"
      "load_io_contract E c = Inr contract"
      "\<forall>x. io_output_schema_ref contract = Some x \<longrightarrow> (\<exists>schema. load_schema E x = Inr schema \<and> validate_value E schema out = Inr [])"
    by blast
  note C = final_errors_clean [OF assms(3) v(1)]
  have "case io_success_validator_ref contract of Some w \<Rightarrow> final_validator_errors E invoke w out = []
      | None \<Rightarrow> io_success_semantics contract = JNull"
    using assms(4) v(2) C(4) [OF v(2)] by (auto simp: requires_attestation_def split: option.split)
  with assms(1) v C(2,3) show ?thesis unfolding final_checked_def by blast
qed

lemma completion_contractD:
  assumes "completion_contract r = Inr c"
  shows "executing r" "is_orchestration (run_snapshot r)" "\<And>n. n \<in> set (rn_dynamic_nodes r) \<Longrightarrow> dn_state n = Node_Completed"
    "pa_io_contract_ref (tc_program (run_snapshot r)) = Some c"
  using assms by (auto simp: completion_contract_def list_ex_iff split: option.splits)

lemma finish_orchestration_state:
  assumes "finish_orchestration now run_id final_ref fo errors prov r = Inr r'" "rn_state r = Running"
  shows "errors = [] \<and> \<not> requires_attestation fo \<and> rn_state r' = Run_Completed \<or> rn_state r' = Awaiting_Decision"
  using assms by (auto simp: finish_orchestration_def Let_def split: if_splits dest!: do_transition_state)

text \<open>
  Claim C11. Completion of an orchestration. \<^verbatim>\<open>complete_orchestration\<close> succeeds only while the Run executes an
  orchestration whose dynamic nodes have all completed. The Run is then completed or waits for a decision, and
  it is completed only if the committed contract and the final value could be loaded, the value is valid
  under the output schema, its digest is the one the final reference names and the one of the result of a
  completed node, and the success validator reported no error; without a validator no success semantics may
  be left to attest.
\<close>

theorem completion_validated:
  assumes ok: "complete_orchestration E invoke now run_id final_ref s = (Inr r', s')"
    and run: "map_of (runs s) run_id = Some r"
  shows "executing r \<and> is_orchestration (run_snapshot r) \<and> (\<forall>n \<in> set (rn_dynamic_nodes r). dn_state n = Node_Completed) \<and>
    map_of (runs s') run_id = Some r' \<and>
    (rn_state r' = Run_Completed \<and> final_checked E invoke final_ref r \<or> rn_state r' = Awaiting_Decision)"
proof -
  from ok run obtain c fo errors prov where
    c: "completion_contract r = Inr c" and fo: "load_final E final_ref c = Inr fo" and
    errors: "final_errors E invoke r final_ref fo = Inr errors" and
    fin: "finish_orchestration now run_id final_ref fo errors prov r = Inr r'" and s': "s' = put_run run_id r' s"
    by (auto simp: complete_orchestration_def with_run_def Let_def split: sum.splits)
  note C = completion_contractD [OF c]
  have "rn_state r = Running" using C(1) by (simp add: executing_def)
  note F = finish_orchestration_state [OF fin this]
  have "errors = [] \<Longrightarrow> \<not> requires_attestation fo \<Longrightarrow> final_checked E invoke final_ref r"
    using final_checkedI [OF C(4) fo] errors by blast
  with C F s' show ?thesis by auto
qed

text \<open>An orchestration whose node has completed with the result that is the final output.\<close>

definition demo_final_run :: run_record where
  "demo_final_run = demo_orch_run\<lparr>rn_dynamic_nodes := [demo_node\<lparr>dn_state := Node_Completed\<rparr>],
     rn_attempts := [(node_attempt ''a1'' (dn_node_id demo_node) ''s'' demo_worker 1 None)\<lparr>at_state := At_Completed, at_result_ref := Some demo_content\<rparr>],
     rn_committed := Some (demo_version\<lparr>cv_snapshot := demo_orch_closure
       \<lparr>tc_program := (tc_program demo_orch_closure)\<lparr>pa_io_contract_ref := Some demo_content\<rparr>\<rparr>\<rparr>)\<rparr>"

definition demo_final_store :: slave_store where
  "demo_final_store = demo_p0\<lparr>runs := [(''r'', demo_final_run)]\<rparr>"

definition silent_failure :: invoke where
  "silent_failure program value = Inr (JObj [(''result'', JStr ''fail'')])"

definition demo_completion :: "run_record result \<times> slave_store" where
  "demo_completion = complete_orchestration demo_env2 silent_failure 2 ''r'' demo_content demo_final_store"

lemma demo_completed: "map_sum (\<lambda>e. ()) rn_state (fst demo_completion) = Inr Run_Completed"
  by code_simp

theorem completion_validated_witness:
  "\<exists>r' s'. demo_completion = (Inr r', s') \<and> rn_state r' = Run_Completed \<and>
     final_checked demo_env2 silent_failure demo_content demo_final_run"
proof -
  obtain r' s' where z: "demo_completion = (Inr r', s')" and st: "rn_state r' = Run_Completed"
    using demo_completed by (cases "fst demo_completion") (auto, metis prod.collapse)
  have "map_of (runs demo_final_store) ''r'' = Some demo_final_run" by (simp add: demo_final_store_def)
  from completion_validated [OF z [unfolded demo_completion_def] this] st z show ?thesis by auto
qed

section \<open>A silent validator failure\<close>



end
