(* ===== verification/Node_Log.thy ===== *)
theory Node_Log
  imports Orchestration
begin

text \<open>
  The node list and the event log agree: rebuilding the dynamic nodes of a Run from its events
  (\<^verbatim>\<open>_dynamic_nodes_from_events\<close>) gives the list the node operations keep, and where it does not.
\<close>

section \<open>Numbered node identifiers\<close>

definition node_name :: "string \<Rightarrow> nat \<Rightarrow> string" where
  "node_name x k = ''node-'' @ x @ ''-'' @ nat_digits k"

definition numbered :: "dynamic_node list \<Rightarrow> bool" where
  "numbered ns \<longleftrightarrow> (\<forall>i < length ns. \<exists>x. dn_node_id (ns ! i) = node_name x (i + 1))"

lemma of_char_small: "n < 256 \<Longrightarrow> of_char (char_of n :: char) = (n :: nat)"
  by (simp add: of_char_of)

lemma digit_not_dash: "(d :: nat) < 10 \<Longrightarrow> char_of (48 + d) \<noteq> CHR ''-''"
proof
  assume "d < 10" "char_of (48 + d) = CHR ''-''"
  then have "(of_char (char_of (48 + d) :: char) :: nat) = of_char CHR ''-''" by simp
  with \<open>d < 10\<close> show False by (simp add: of_char_small)
qed

lemma digits_no_dash: "CHR ''-'' \<notin> set (nat_digits n)"
proof (induction n rule: nat_digits.induct)
  case (1 n)
  show ?case
    using 1 digit_not_dash [of n] digit_not_dash [of "n mod 10"]
    by (subst nat_digits.simps) (auto simp del: nat_digits.simps split: if_splits)
qed

definition digits_value :: "string \<Rightarrow> nat" where
  "digits_value s = foldl (\<lambda>a c. 10 * a + (of_char c - 48)) 0 s"

lemma digits_value_digits [simp]: "digits_value (nat_digits n) = n"
proof (induction n rule: nat_digits.induct)
  case (1 n)
  show ?case
    using 1 by (subst nat_digits.simps) (auto simp: digits_value_def of_char_small simp del: nat_digits.simps)
qed

lemma node_name_inj:
  assumes "node_name x k = node_name y m"
  shows "k = m"
proof -
  have suffix: "takeWhile (\<lambda>c. c \<noteq> CHR ''-'') (List.rev (node_name x k)) = List.rev (nat_digits k)" for x k
    using digits_no_dash [of k] by (auto simp: node_name_def takeWhile_tail takeWhile_eq_all_conv)
  from suffix [of x k] suffix [of y m] assms have "nat_digits k = nat_digits m" by simp
  then have "digits_value (nat_digits k) = digits_value (nat_digits m)" by simp
  then show ?thesis by simp
qed

lemma numbered_distinct:
  assumes "numbered ns"
  shows "distinct (map dn_node_id ns)"
  unfolding distinct_conv_nth
proof (intro allI impI notI)
  fix i j
  assume ij: "i < length (map dn_node_id ns)" "j < length (map dn_node_id ns)" "i \<noteq> j" "map dn_node_id ns ! i = map dn_node_id ns ! j"
  with assms obtain x y where "node_name x (i + 1) = node_name y (j + 1)" by (auto simp: numbered_def) metis
  with ij(3) show False by (auto dest: node_name_inj)
qed

section \<open>The invariant\<close>

definition replay_nodes :: "run_event list \<Rightarrow> (string \<times> dynamic_node) list" where
  "replay_nodes es = fold replay_node_event es []"

definition indexed :: "dynamic_node list \<Rightarrow> (string \<times> dynamic_node) list" where
  "indexed ns = map (\<lambda>n. (dn_node_id n, n)) ns"

definition nodes_logged :: "run_record \<Rightarrow> bool" where
  "nodes_logged r \<longleftrightarrow> numbered (rn_dynamic_nodes r) \<and> replay_nodes (rn_events r) = indexed (rn_dynamic_nodes r)"

lemma nodes_loggedD: "nodes_logged r \<Longrightarrow> dynamic_nodes_from_events (rn_events r) = rn_dynamic_nodes r"
  by (simp add: nodes_logged_def dynamic_nodes_from_events_def replay_nodes_def indexed_def comp_def)

lemma replay_nodes_snoc [simp]: "replay_nodes (es @ [e]) = replay_node_event e (replay_nodes es)"
  by (simp add: replay_nodes_def)

text \<open>The events that say nothing about a node.\<close>

definition silent :: "run_event \<Rightarrow> bool" where
  "silent e \<longleftrightarrow> (\<forall>ns. replay_node_event e ns = ns)"

lemma nodes_logged_silent:
  assumes "nodes_logged r" "rn_dynamic_nodes r' = rn_dynamic_nodes r" "rn_events r' = rn_events r @ es" "list_all silent es"
  shows "nodes_logged r'"
proof -
  have "fold replay_node_event es ns = ns" if "list_all silent es" for es ns
    using that by (induction es) (auto simp: silent_def)
  with assms show ?thesis by (simp add: nodes_logged_def replay_nodes_def)
qed

lemma map_of_indexed: "map_of (indexed ns) i = List.find (\<lambda>n. dn_node_id n = i) ns"
  by (induction ns) (auto simp: indexed_def)

lemma update_indexed:
  "distinct (map dn_node_id ns) \<Longrightarrow> List.find (\<lambda>n. dn_node_id n = i) ns = Some n \<Longrightarrow> dn_node_id n' = i \<Longrightarrow> n' = f n \<Longrightarrow>
   AList.update i n' (indexed ns) = indexed (update_first (\<lambda>n. dn_node_id n = i) f ns)"
  by (induction ns) (auto simp: indexed_def split: if_splits)

lemma update_indexed_new:
  "i \<notin> set (map dn_node_id ns) \<Longrightarrow> dn_node_id n = i \<Longrightarrow> AList.update i n (indexed ns) = indexed (ns @ [n])"
  by (induction ns) (auto simp: indexed_def)

lemma numbered_update:
  assumes "numbered ns" "\<And>n. dn_node_id (f n) = dn_node_id n"
  shows "numbered (update_first p f ns)"
proof -
  have "map dn_node_id (update_first p f ns) = map dn_node_id ns" using assms(2) by (rule map_update_first)
  then have l: "length (update_first p f ns) = length ns" and
    "dn_node_id (update_first p f ns ! i) = dn_node_id (ns ! i)" if "i < length ns" for i
    using that by (metis length_map, metis length_map nth_map)
  with assms(1) show ?thesis by (auto simp: numbered_def)
qed

text \<open>An event that moves a node of the list to a state, logged together with the move.\<close>

lemma nodes_logged_state:
  assumes log: "nodes_logged r" and n: "find_node i r = Some n"
    and ev: "\<And>ns. replay_node_event e ns =
        (case map_of ns i of Some n \<Rightarrow> if i \<noteq> [] then AList.update i (n\<lparr>dn_state := st\<rparr>) ns else ns | None \<Rightarrow> ns)"
    and r': "rn_dynamic_nodes r' = rn_dynamic_nodes (set_node_state i st r)" "rn_events r' = rn_events r @ es @ [e] @ es'"
      "list_all silent es" "list_all silent es'"
  shows "nodes_logged r'"
proof -
  from log have num: "numbered (rn_dynamic_nodes r)" and rep: "replay_nodes (rn_events r) = indexed (rn_dynamic_nodes r)"
    by (simp_all add: nodes_logged_def)
  have quiet: "fold replay_node_event xs ns = ns" if "list_all silent xs" for xs ns
    using that by (induction xs) (auto simp: silent_def)
  have id: "dn_node_id n = i" "i \<noteq> []" using find_node_SomeD [OF n] num by (auto simp: numbered_def node_name_def in_set_conv_nth)
  have find: "List.find (\<lambda>n. dn_node_id n = i) (rn_dynamic_nodes r) = Some n" using n by (simp add: find_node_def)
  let ?ns = "update_first (\<lambda>n. dn_node_id n = i) (\<lambda>n. n\<lparr>dn_state := st\<rparr>) (rn_dynamic_nodes r)"
  have "replay_nodes (rn_events r') = replay_node_event e (indexed (rn_dynamic_nodes r))"
    using r' rep by (simp add: replay_nodes_def quiet)
  also have "\<dots> = AList.update i (n\<lparr>dn_state := st\<rparr>) (indexed (rn_dynamic_nodes r))"
    using id(2) find by (simp add: ev map_of_indexed)
  also have "\<dots> = indexed ?ns"
    by (rule update_indexed [OF numbered_distinct [OF num] find]) (simp_all add: id)
  finally show ?thesis
    using numbered_update [OF num, of "\<lambda>n. n\<lparr>dn_state := st\<rparr>"] r'(1) by (simp add: nodes_logged_def set_node_state_def)
qed

lemma nodes_logged_new:
  assumes log: "nodes_logged r" and n: "n = new_node intent r"
    and ok: "rn_execution_id r = Some x" "x \<noteq> []" "ni_intent_id intent \<noteq> []"
    and r': "rn_dynamic_nodes r' = rn_dynamic_nodes r @ [n]"
      "rn_events r' = rn_events r @ [Ev_Node_Accepted k (Some x) ep (dn_node_id n) (ni_intent_id intent) (ni_package_ref intent)
         (ni_capability_descriptor_ref intent) (ni_input_refs intent) target prov now]"
  shows "nodes_logged r'"
proof -
  from log have num: "numbered (rn_dynamic_nodes r)" and rep: "replay_nodes (rn_events r) = indexed (rn_dynamic_nodes r)"
    by (simp_all add: nodes_logged_def)
  have id: "dn_node_id n = node_name x (length (rn_dynamic_nodes r) + 1)" using ok(1) by (simp add: n new_node_def node_name_def)
  have num': "numbered (rn_dynamic_nodes r')"
    using num id by (auto simp: r'(1) numbered_def nth_append less_Suc_eq)
  from numbered_distinct [OF this] have "dn_node_id n \<notin> set (map dn_node_id (rn_dynamic_nodes r))" by (simp add: r'(1))
  from update_indexed_new [OF this refl] have "AList.update (dn_node_id n) n (indexed (rn_dynamic_nodes r)) = indexed (rn_dynamic_nodes r')"
    by (simp add: r'(1))
  moreover have "dn_node_id n \<noteq> []" by (simp add: id node_name_def)
  moreover have "n = \<lparr>dn_node_id = dn_node_id n, dn_parent_execution_ref = x, dn_intent_id = ni_intent_id intent,
      dn_package_ref = ni_package_ref intent, dn_capability_descriptor_ref = ni_capability_descriptor_ref intent,
      dn_input_refs = ni_input_refs intent, dn_state = Node_Accepted\<rparr>" using ok(1) by (simp add: n new_node_def)
  ultimately show ?thesis
    using num' ok by (simp add: nodes_logged_def r'(2) rep replay_node_event_def nonempty_def Let_def)
qed

section \<open>Node operations keep the list and the log together\<close>

lemma silent_simps [simp]:
  "silent (Ev_Transition a b c d e)" "silent (Ev_Node_Requested k x ep i intent prov now)"
  "silent (Ev_Orchestration_Failed k x ep j why prov now)"
  by (simp_all add: silent_def replay_node_event_def Let_def)

lemma log_request_nodes: "log_request now run_id intent p s r = Inr r' \<Longrightarrow> nodes_logged r \<Longrightarrow> nodes_logged r'"
  by (auto simp: log_request_def intro: nodes_logged_silent [where es = "[_]"] split: if_splits)

lemma accept_nodes_logged:
  assumes ok: "accept_node_intent E ttl now run_id intent t s = (Inr n, s')" and run: "map_of (runs s) run_id = Some r0"
    and log: "nodes_logged r0" and wf: "ni_intent_id intent \<noteq> []" "ni_execution_id intent \<noteq> []"
  shows "\<exists>r'. map_of (runs s') run_id = Some r' \<and> nodes_logged r'"
  using ok run
proof (cases rule: accept_cases)
  case (repeated l r)
  then show ?thesis using log_request_nodes [OF _ log] by auto
next
  case (added l r p e ags s2 target r')
  have x: "rn_execution_id r = Some (ni_execution_id intent)"
    using orchestration_limitsD(2) [OF added(1)] log_request_same [OF added(2)] by auto
  from added(7) have "nodes_logged r'"
    by (auto simp: add_node_def Let_def x intro!: nodes_logged_new [OF log_request_nodes [OF added(2) log] refl x wf(2,1)] split: sum.splits)
  with added(8) show ?thesis by simp
qed

lemma dispatch_nodes_logged:
  assumes ok: "dispatch_dynamic_node E ttl now fa run_id node_id t s = (Inr a, s')" and run: "map_of (runs s) run_id = Some r"
    and log: "nodes_logged r"
  shows "\<exists>r'. map_of (runs s') run_id = Some r' \<and> nodes_logged r'"
proof -
  from ok run obtain n r' s1 p1 p2 p3 p4 p5 p6 p7 p8 p9 p10 p11 p12 where n: "find_node node_id r = Some n" and s': "s' = put_run run_id r' s1"
    and r': "rn_dynamic_nodes r' = rn_dynamic_nodes (set_node_state node_id Node_Dispatched r)"
      "rn_events r' = rn_events r @ [Ev_Node_Dispatched p1 p2 p3 node_id p4 p5 p6 p7 p8 p9 p10 p11 p12]"
    by (auto simp: dispatch_dynamic_node_def with_run_def Let_def set_node_state_def split: if_splits option.splits sum.splits prod.splits)
  have "nodes_logged r'"
    by (rule nodes_logged_state [OF log n _ r'(1), where es = "[]" and es' = "[]"]) (auto simp: r'(2) replay_node_event_def Let_def)
  with s' show ?thesis by simp
qed

lemma reassign_nodes_logged:
  assumes ok: "reassign_dynamic_node E ttl now fa run_id node_id lost x ep t why s = (Inr a, s')" and run: "map_of (runs s) run_id = Some r"
    and log: "nodes_logged r"
  shows "\<exists>r'. map_of (runs s') run_id = Some r' \<and> nodes_logged r'"
proof -
  from ok run obtain n old where sub: "reassign_subject r node_id lost x ep = Inr (n, old)"
    by (auto simp: reassign_dynamic_node_def with_run_def split: sum.splits)
  note S = reassign_subjectD [OF sub]
  from ok run sub consider "s' = s"
    | new src agent e s1 where "s' = put_run run_id (replace_attempt now run_id why n old new src agent e r) s1"
    by (auto simp: reassign_dynamic_node_def with_run_def Let_def split: if_splits option.splits sum.splits prod.splits)
  then show ?thesis
  proof cases
    case 1
    with run log show ?thesis by simp
  next
    case (2 new src agent e s1)
    have id: "dn_node_id n = node_id" using find_node_SomeD [OF S(4)] by simp
    have "nodes_logged (replace_attempt now run_id why n old new src agent e r)"
      by (rule nodes_logged_state [OF log S(4), where es = "[]" and es' = "[]" and st = Node_Dispatched])
        (auto simp: replace_attempt_def set_attempt_def set_node_state_def Let_def id replay_node_event_def)
    with 2 show ?thesis by simp
  qed
qed

lemma record_nodes_logged:
  assumes ok: "record_dynamic_node_result E invoke put now stamp run_id node_id result s = (Inr m, s')"
    and run: "map_of (runs s) run_id = Some r" and log: "nodes_logged r"
  shows "\<exists>r'. map_of (runs s') run_id = Some r' \<and> nodes_logged r'"
proof -
  from ok run obtain nr ev er x r' where adm: "admit_node_report E r node_id result = Inr nr"
    and cl: "close_node_report now run_id nr result ev er x (put_run run_id r s) r = (Inr (), r')" and s': "s' = put_run run_id r' s"
    by (auto simp: record_dynamic_node_result_def with_run_def Let_def split: sum.splits prod.splits)
  note n = admit_node_report_InrD(2) [OF adm]
  have id: "dn_node_id (nr_node nr) = node_id" using find_node_SomeD [OF n] by simp
  define st where "st = (if er \<noteq> [] then Node_Failed else node_terminal (nr_terminal_state nr))"
  have st: "st \<in> {Node_Completed, Node_Failed, Node_Decision_Required}" by (auto simp: st_def)
  have "\<exists>es p1 p2 p3 p4 p5 p6 p7 p8 p9 p10 p11 p12. list_all silent es \<and>
      rn_dynamic_nodes r' = rn_dynamic_nodes (set_node_state node_id st r) \<and>
      rn_events r' = rn_events r @ es @ [Ev_Node_Completed p1 p2 p3 node_id p4 p5 p6 p7 p8 st p9 p10 p11 p12]"
  proof (cases "st = Node_Completed")
    case True
    with cl show ?thesis
      unfolding close_node_report_def Let_def id st_def [symmetric]
      by - (rule exI [of _ "[]"], auto simp: set_node_state_def close_node_attempt_def split: sum.splits)
  next
    case False
    let ?r1 = "set_node_state node_id st (close_node_attempt (at_attempt_id (nr_attempt nr)) node_id st x (dget result ''value'')
        (node_error result er) ev r)"
    from False cl obtain oc why r3 p1 p2 p3 p4 p5 p6 p7 p8 p9 p10 p11 p12 where tr: "do_transition now Run_Needs_Decision why (?r1\<lparr>rn_outcome := oc\<rparr>) = Inr r3"
      and e: "r' = log_event (Ev_Node_Completed p1 p2 p3 node_id p4 p5 p6 p7 p8 st p9 p10 p11 p12) r3"
      unfolding close_node_report_def Let_def id st_def [symmetric] by (auto split: sum.splits)
    from tr obtain target where "r3 = log_event (Ev_Transition Run_Needs_Decision (rn_state ?r1) target now why) (?r1\<lparr>rn_outcome := oc, rn_state := target\<rparr>)"
      by (auto elim: do_transition_InrD)
    then have "rn_dynamic_nodes r3 = rn_dynamic_nodes (set_node_state node_id st r)"
      "rn_events r3 = rn_events r @ [Ev_Transition Run_Needs_Decision (rn_state ?r1) target now why]"
      by (simp_all add: set_node_state_def close_node_attempt_def)
    with e show ?thesis by - (rule exI [of _ "[Ev_Transition Run_Needs_Decision (rn_state ?r1) target now why]"], auto)
  qed
  then obtain es p1 p2 p3 p4 p5 p6 p7 p8 p9 p10 p11 p12 where
    r': "rn_dynamic_nodes r' = rn_dynamic_nodes (set_node_state node_id st r)" "list_all silent es"
      "rn_events r' = rn_events r @ es @ [Ev_Node_Completed p1 p2 p3 node_id p4 p5 p6 p7 p8 st p9 p10 p11 p12]" by blast
  have "nodes_logged r'"
    by (rule nodes_logged_state [OF log n _ r'(1), where es = es and es' = "[]"]) (use st in \<open>auto simp: r'(2,3) replay_node_event_def Let_def\<close>)
  with s' show ?thesis by simp
qed

lemma fail_nodes_logged:
  assumes ok: "fail_dynamic_node now run_id node_id attempt_id err s = (Inr m, s')"
    and run: "map_of (runs s) run_id = Some r" and log: "nodes_logged r"
  shows "\<exists>r'. map_of (runs s') run_id = Some r' \<and> nodes_logged r'"
proof -
  let ?r1 = "\<lambda>why. (set_node_state node_id Node_Failed r)\<lparr>rn_attempts := fail_attempts node_id attempt_id why (rn_attempts r)\<rparr>"
  from ok run obtain n why r2 oc q1 q2 q3 q4 q5 q6 q7 p1 p2 p3 p4 p5 p6 p7 p8 p9 p10 p11 p12 where n: "find_node node_id r = Some n"
    and tr: "do_transition now Run_Needs_Decision (Some why) (?r1 why) = Inr r2"
    and s': "s' = put_run run_id (log_event (Ev_Orchestration_Failed q1 q2 q3 q4 q5 q6 q7)
        (log_event (Ev_Node_Completed p1 p2 p3 node_id p4 p5 p6 p7 p8 Node_Failed p9 p10 p11 p12) (r2\<lparr>rn_outcome := oc\<rparr>))) s"
    by (auto simp: fail_dynamic_node_def with_run_def Let_def split: if_splits option.splits sum.splits)
  from tr obtain target where r2: "r2 = log_event (Ev_Transition Run_Needs_Decision (rn_state r) target now (Some why)) ((?r1 why)\<lparr>rn_state := target\<rparr>)"
    by (auto elim!: do_transition_InrD simp: set_node_state_def)
  let ?r' = "log_event (Ev_Orchestration_Failed q1 q2 q3 q4 q5 q6 q7)
        (log_event (Ev_Node_Completed p1 p2 p3 node_id p4 p5 p6 p7 p8 Node_Failed p9 p10 p11 p12) (r2\<lparr>rn_outcome := oc\<rparr>))"
  have "nodes_logged ?r'"
    by (rule nodes_logged_state [OF log n, where es = "[Ev_Transition Run_Needs_Decision (rn_state r) target now (Some why)]"
          and es' = "[Ev_Orchestration_Failed q1 q2 q3 q4 q5 q6 q7]" and st = Node_Failed])
      (auto simp: r2 set_node_state_def replay_node_event_def Let_def)
  with s' show ?thesis by simp
qed

section \<open>Reachable node lists\<close>

text \<open>A successful node operation of one Run; the identifiers of an intent are not empty, as its model demands.\<close>

inductive node_step :: "string \<Rightarrow> 'z slave_store_scheme \<Rightarrow> 'z slave_store_scheme \<Rightarrow> bool" for run_id where
  accepted: "accept_node_intent E ttl now run_id intent t s = (Inr n, s') \<Longrightarrow> ni_intent_id intent \<noteq> [] \<Longrightarrow>
    ni_execution_id intent \<noteq> [] \<Longrightarrow> node_step run_id s s'"
| dispatched: "dispatch_dynamic_node E ttl now fa run_id node_id t s = (Inr a, s') \<Longrightarrow> node_step run_id s s'"
| reassigned: "reassign_dynamic_node E ttl now fa run_id node_id lost x ep t why s = (Inr a, s') \<Longrightarrow> node_step run_id s s'"
| recorded: "record_dynamic_node_result E invoke put now stamp run_id node_id result s = (Inr m, s') \<Longrightarrow> node_step run_id s s'"
| failed: "fail_dynamic_node now run_id node_id attempt_id err s = (Inr m, s') \<Longrightarrow> node_step run_id s s'"

lemma node_step_logged:
  "node_step run_id s s' \<Longrightarrow> map_of (runs s) run_id = Some r \<Longrightarrow> nodes_logged r \<Longrightarrow>
   \<exists>r'. map_of (runs s') run_id = Some r' \<and> nodes_logged r'"
  by (induction rule: node_step.induct)
    (auto intro: accept_nodes_logged dispatch_nodes_logged reassign_nodes_logged record_nodes_logged fail_nodes_logged)

text \<open>
  Claim C32. Replaying the event log gives the node list. From a Run without nodes, after any sequence of
  successful accept, dispatch, reassign, record and fail operations, \<^verbatim>\<open>_dynamic_nodes_from_events\<close> rebuilds
  exactly the dynamic nodes the Run holds, in their order and states.
\<close>

theorem node_log_replay:
  assumes steps: "(node_step run_id)\<^sup>*\<^sup>* s s'" and run: "map_of (runs s) run_id = Some r"
    and fresh: "rn_dynamic_nodes r = []" "dynamic_nodes_from_events (rn_events r) = []"
  shows "\<exists>r'. map_of (runs s') run_id = Some r' \<and> dynamic_nodes_from_events (rn_events r') = rn_dynamic_nodes r'"
proof -
  have "nodes_logged r" using fresh by (simp add: nodes_logged_def numbered_def indexed_def dynamic_nodes_from_events_def replay_nodes_def)
  from steps run this have "\<exists>r'. map_of (runs s') run_id = Some r' \<and> nodes_logged r'"
    by (induction arbitrary: r rule: converse_rtranclp_induct) (auto dest: node_step_logged)
  then show ?thesis using nodes_loggedD by blast
qed

theorem node_log_replay_witness:
  "\<exists>n s' r'. accept_node_intent demo_env2 30000000 1 ''r'' demo_intent ''s'' demo_orch_store = (Inr n, s') \<and>
     map_of (runs s') ''r'' = Some r' \<and> dynamic_nodes_from_events (rn_events r') = rn_dynamic_nodes r'"
proof -
  obtain n s' where ok: "accept_node_intent demo_env2 30000000 1 ''r'' demo_intent ''s'' demo_orch_store = (Inr n, s')"
    using returned [OF demo_accepted] by blast
  then have "node_step ''r'' demo_orch_store s'" by (rule accepted) (simp_all add: demo_intent_def)
  then have "(node_step ''r'')\<^sup>*\<^sup>* demo_orch_store s'" by blast
  moreover have "rn_events demo_orch_run = []"
    by (simp add: demo_orch_run_def demo_running_def demo_committed_run_def demo_draft_run_def demo_run_def new_run_def)
  ultimately show ?thesis
    using node_log_replay [of "''r''" demo_orch_store s' demo_orch_run] demo_orch_lookup ok by (auto simp: dynamic_nodes_from_events_def)
qed

section \<open>Recovery is not logged per node\<close>

text \<open>
  The replay of a stale orchestration puts its dispatched nodes back to accepted without a node
  event. If the log and the list agreed before and a node was dispatched, they disagree afterwards: the
  node list rebuilt from the events says the node is still dispatched.
\<close>

theorem recovery_breaks_node_log:
  assumes agree: "dynamic_nodes_from_events (rn_events r) = rn_dynamic_nodes r"
    and n: "n \<in> set (rn_dynamic_nodes r)" "dn_state n = Node_Dispatched"
  shows "dynamic_nodes_from_events (rn_events (replay_run now r)) = rn_dynamic_nodes r \<and>
    dynamic_nodes_from_events (rn_events (replay_run now r)) \<noteq> rn_dynamic_nodes (replay_run now r)"
proof -
  have ev: "dynamic_nodes_from_events (rn_events (replay_run now r)) = rn_dynamic_nodes r"
    using agree by (simp add: replay_run_def Let_def fail_active_def dynamic_nodes_from_events_def replay_node_event_def)
  have "\<forall>m \<in> set (rn_dynamic_nodes (replay_run now r)). dn_state m \<noteq> Node_Dispatched"
    by (auto simp: replay_run_def Let_def fail_active_def)
  with n ev show ?thesis by auto
qed

theorem recovery_breaks_node_log_witness:
  "\<exists>es. let r = demo_lost_run\<lparr>rn_events := es\<rparr> in
     dynamic_nodes_from_events (rn_events (replay_run 1 r)) \<noteq> rn_dynamic_nodes (replay_run 1 r)"
proof -
  define es where "es = [Ev_Node_Accepted ''r'' (Some ''x'') 1 ''node-x-1'' ''n1'' (ni_package_ref demo_intent)
      (ni_capability_descriptor_ref demo_intent) [] ''s'' [] 1,
    Ev_Node_Dispatched ''r'' (Some ''x'') 1 ''node-x-1'' ''a1'' ''s'' ''i'' 1 (ni_package_ref demo_intent) (ni_capability_descriptor_ref demo_intent) [] [] 1]"
  let ?r = "demo_lost_run\<lparr>rn_events := es\<rparr>"
  have x: "rn_execution_id demo_orch_run = Some ''x''" by (simp add: demo_orch_run_def)
  have "dynamic_nodes_from_events (rn_events ?r) = rn_dynamic_nodes ?r"
    by (simp add: dynamic_nodes_from_events_def replay_node_event_def es_def demo_lost_run_def demo_node_def new_node_def Let_def
        nonempty_def x demo_orch_lookup(2) nat_digits.simps demo_intent_def, code_simp)
  moreover have "demo_node \<in> set (rn_dynamic_nodes ?r)" "dn_state demo_node = Node_Dispatched"
    by (simp_all add: demo_lost_run_def demo_node_def)
  ultimately show ?thesis unfolding Let_def using recovery_breaks_node_log [of ?r demo_node 1] by blast
qed

end
