(* ===== verification/Repository.thy ===== *)
theory Repository
  imports Node_Log
begin

text \<open>
  The whole \<^verbatim>\<open>ObserverRepository\<close> as a state machine: one step per public operation that writes, in any
  order and with any arguments. Steps that return an error are steps too, with the state they leave.
\<close>

section \<open>Operations that leave the Runs alone\<close>

lemma persist_runs [simp]: "runs (persist_message_receipt r s) = runs s"
  by (simp add: persist_message_receipt_def record_message_receipt_event_def Let_def)

lemma receipt_runs [simp]:
  "runs (snd (create_or_get_message_receipt now ws rid conv prompt s)) = runs s"
  "runs (snd (queue_message_receipt now ws rid s)) = runs s"
  "runs (snd (retry_message_receipt now ws rid why s)) = runs s"
  "runs (snd (interrupt_message_receipt now ws rid s)) = runs s"
  "runs (snd (claim_message_receipt now ws rid tok cv s)) = runs s"
  "runs (snd (update_message_receipt now ws rid tok' new atx rn oc s)) = runs s"
  "runs (snd (release_message_receipt now ws rid tok s)) = runs s"
  "runs (snd (recover_message_receipts_for_driver now ws s)) = runs s"
  by (simp_all add: create_or_get_message_receipt_def queue_message_receipt_def retry_message_receipt_def interrupt_message_receipt_def
      claim_message_receipt_def update_message_receipt_def release_message_receipt_def recover_message_receipts_for_driver_def Let_def
      split: option.split)

lemma bind_thread_runs [simp]: "runs (snd (bind_thread b s)) = runs s"
  by (simp add: bind_thread_def)

lemma heartbeat_runs [simp]: "runs (snd (heartbeat_agent H ttl t1 t2 aid iid lease e ws ro s)) = runs s"
  by (simp add: heartbeat_agent_def Let_def split: option.split)

lemma agent_runs [simp]:
  "runs (snd (register_agent H now lease g s)) = runs s"
  "runs (snd (set_turn_state ws cv st rq tn ep s)) = runs s"
  by (simp_all add: register_agent_def set_turn_state_def Let_def split: option.split)

lemma release_runs [simp]: "runs (snd (release_agent H ttl t1 t2 t3 aid iid lease e ws ro s)) = runs s"
  using heartbeat_runs [of H ttl t1 t2 aid iid lease e ws ro s]
  by (auto simp: release_agent_def simp del: heartbeat_runs split: prod.splits sum.splits option.splits)

lemma descriptor_runs [simp]: "runs (snd (register_operation_descriptor E ref d given s)) = runs s"
  by (auto simp: register_operation_descriptor_def split: sum.split option.split)

section \<open>Growth of the Run table\<close>

text \<open>
  What a step may do to the Runs: each existing Run moves to a successor, and a Run that appears is well
  formed under its own identifier.
\<close>

definition runs_grow :: "(string \<times> run_record) list \<Rightarrow> (string \<times> run_record) list \<Rightarrow> bool" where
  "runs_grow rs rs' \<longleftrightarrow> dict_wf rs' \<and>
     (\<forall>k r. map_of rs k = Some r \<longrightarrow> (\<exists>r'. map_of rs' k = Some r' \<and> run_next r r')) \<and>
     (\<forall>k r'. map_of rs k = None \<longrightarrow> map_of rs' k = Some r' \<longrightarrow> rn_run_id r' = k \<and> run_wf r')"

lemma runs_next_grow: "runs_next rs rs' \<Longrightarrow> dict_wf rs \<Longrightarrow> runs_grow rs rs'"
  unfolding runs_next_def runs_grow_def by (metis option.rel_cases option.sel option.distinct(1))

lemma runs_growD: "runs_grow rs rs' \<Longrightarrow> map_of rs k = Some r \<Longrightarrow> map_of rs' k = Some r' \<Longrightarrow> run_next r r'"
  unfolding runs_grow_def by (metis option.inject)

lemma runs_grow_new: "runs_grow rs rs' \<Longrightarrow> map_of rs k = None \<Longrightarrow> map_of rs' k = Some r' \<Longrightarrow> rn_run_id r' = k \<and> run_wf r'"
  unfolding runs_grow_def by blast

lemma run_next_id: "run_next r r' \<Longrightarrow> rn_run_id r' = rn_run_id r"
  by (simp add: run_next_def same_run_def)

lemma runs_grow_trans:
  assumes "runs_grow a b" "runs_grow b c"
  shows "runs_grow a c"
proof -
  have "\<exists>r'. map_of c k = Some r' \<and> run_next r r'" if "map_of a k = Some r" for k r
    using assms that run_next_trans unfolding runs_grow_def by metis
  moreover have "rn_run_id r' = k \<and> run_wf r'" if "map_of a k = None" "map_of c k = Some r'" for k r'
  proof (cases "map_of b k")
    case (Some r)
    from runs_growD [OF assms(2) Some that(2)] have n: "run_next r r'" .
    with runs_grow_new [OF assms(1) that(1) Some] show ?thesis using run_next_wf run_next_id by metis
  qed (rule runs_grow_new [OF assms(2) _ that(2)])
  ultimately show ?thesis using assms(2) by (simp add: runs_grow_def)
qed

lemma runs_grow_wf:
  assumes g: "runs_grow rs rs'" and wf: "runs_wf rs"
  shows "runs_wf rs'"
proof -
  have "rn_run_id r' = k \<and> run_wf r'" if r': "map_of rs' k = Some r'" for k r'
  proof (cases "map_of rs k")
    case (Some r)
    with wf have "rn_run_id r = k" "run_wf r" by (auto simp: runs_wf_def)
    with runs_growD [OF g Some r'] show ?thesis using run_next_wf run_next_id by metis
  qed (rule runs_grow_new [OF g _ r'])
  with g show ?thesis by (simp add: runs_wf_def runs_grow_def)
qed

context run_operation
begin

lemma grows: "dict_wf (runs s) \<Longrightarrow> runs_grow (runs s) (runs (snd (opn s)))"
  using runs_next_grow effect by blast

end

lemma frame_grows: "runs s' = runs s \<Longrightarrow> dict_wf (runs s) \<Longrightarrow> runs_grow (runs s) (runs s')"
  using runs_next_grow by simp

lemma open_run_grows:
  assumes "open_run H now fresh fd run_id task_ref goal ar c user ws s = (Inr r, s')" "map_of (runs s) (rn_run_id r) = None"
    "dict_wf (runs s)"
  shows "runs_grow (runs s) (runs s')"
proof -
  from assms(1) obtain rid v cc where r: "r = log_event (Ev_Opened rid now) (new_run rid task_ref goal v cc ar)" and s': "s' = put_run rid r s"
    by (auto simp: open_run_def Let_def split: sum.splits)
  have "run_wf r" by (simp add: r run_wf_def run_core_def epoch_ok_def new_run_def)
  moreover have "rn_run_id r = rid" by (simp add: r new_run_def)
  ultimately show ?thesis using assms(2,3) dict_wf_set [of "runs s" rid r] by (auto simp: s' runs_grow_def)
qed

section \<open>Steps of the repository\<close>

text \<open>
  A new Run has an identifier that is not in use: the generated ones are drawn from \<^verbatim>\<open>uuid4\<close>. What happens
  to a Run whose identifier a caller supplies again is the subject of a property of its own.
\<close>

inductive repo_step :: "'z patch_store_scheme \<Rightarrow> 'z patch_store_scheme \<Rightarrow> bool" where
  step_open: "open_run H t fresh fd ko task goal ar contract user ws s = (Inr r, s') \<Longrightarrow> map_of (runs s) (rn_run_id r) = None \<Longrightarrow> repo_step s s'"
| step_create_receipt: "repo_step s (snd (create_or_get_message_receipt t ws rid conv prompt s))"
| step_queue_receipt: "repo_step s (snd (queue_message_receipt t ws rid s))"
| step_retry_receipt: "repo_step s (snd (retry_message_receipt t ws rid reason s))"
| step_interrupt_receipt: "repo_step s (snd (interrupt_message_receipt t ws rid s))"
| step_claim_receipt: "repo_step s (snd (claim_message_receipt t ws rid token conv' s))"
| step_update_receipt: "repo_step s (snd (update_message_receipt t ws rid token new txt' rn oc s))"
| step_release_receipt: "repo_step s (snd (release_message_receipt t ws rid token s))"
| step_recover_receipts: "repo_step s (snd (recover_message_receipts_for_driver t ws s))"
| step_register: "repo_step s (snd (register_agent H t lease g s))"
| step_heartbeat: "repo_step s (snd (heartbeat_agent H ttl t u aid iid lease ep wso ro s))"
| step_release: "repo_step s (snd (release_agent H ttl t u v aid iid lease ep wso ro s))"
| step_agents: "repo_step s (snd (list_agents t ttl ws roo s))"
| step_bind: "repo_step s (snd (bind_thread b s))"
| step_turn: "repo_step s (snd (set_turn_state ws conv st rq tn epo s))"
| step_refresh: "repo_step s (snd (refresh_slaves t ttl wso s))"
| step_descriptor: "repo_step s (snd (register_operation_descriptor E k d given s))"
| step_message: "repo_step s (snd (append_message t fresh k role content rq s))"
| step_signal: "repo_step s (snd (record_agent_signal t k kind payload s))"
| step_refine: "repo_step s (snd (begin_refinement t k s))"
| step_inspect: "repo_step s (snd (inspect_readiness E T ttl t u k version s))"
| step_patch: "repo_step s (snd (apply_patch E T ttl t ids k base digest operation ops s))"
| step_commit: "repo_step s (snd (commit_run E T ttl t fresh k version digest s))"
| step_start: "repo_step s (snd (start_run E T ttl t fresh fa k version s))"
| step_result: "repo_step s (snd (record_result E invoke t stamp stamp' k result s))"
| step_accept: "repo_step s (snd (accept_node_intent E ttl t k intent target s))"
| step_dispatch: "repo_step s (snd (dispatch_dynamic_node E ttl t fa k node target s))"
| step_reassign: "repo_step s (snd (reassign_dynamic_node E ttl t fa k node lost x ep target why s))"
| step_node_result: "repo_step s (snd (record_dynamic_node_result E invoke put t stamp k node result s))"
| step_node_failure: "repo_step s (snd (fail_dynamic_node t k node attempt err s))"
| step_complete: "repo_step s (snd (complete_orchestration E invoke t k ref s))"
| step_resolve: "repo_step s (snd (resolve_run t u k decision s))"
| step_cancel: "repo_step s (snd (cancel_run t k why' s))"
| step_fail: "repo_step s (snd (fail_run t k why' s))"
| step_close: "repo_step s (snd (close_run t k s))"
| step_recover: "repo_step s (snd (recover_stale_runs t owners s))"
| step_abandon: "repo_step s (snd (abandon_capability_package t pref key s))"
| step_promote: "repo_step s (snd (promote_capability_package E t arg key approved s))"
| step_desire: "repo_step s (snd (set_capability_desired t arg target desired key' ko wso cref bref rebuild s))"
| step_health: "repo_step s (snd (record_capability_health t rep ko s))"
| step_activate: "repo_step s (snd (execute_activation_targets t u p desired wso execute bid ko targets s))"

lemmas operation_grows =
  append_message.grows agent_signal.grows begin_refinement.grows inspect.grows apply_patch.grows commit_run.grows start_run.grows record_result.grows accept_node.grows dispatch_node.grows reassign_node.grows record_node.grows fail_node.grows complete_orchestration.grows resolve_run.grows cancel_run.grows fail_run.grows close_run.grows recover_stale.grows abandon.grows promote.grows set_desired.grows record_health.grows execute_targets.grows

lemma repo_step_grows: "repo_step s s' \<Longrightarrow> dict_wf (runs s) \<Longrightarrow> runs_grow (runs s) (runs s')"
proof (induction rule: repo_step.induct)
  case step_open
  then show ?case by (rule open_run_grows)
qed (rule frame_grows, simp, assumption | rule operation_grows, assumption)+

lemma reachable_grows: "repo_step\<^sup>*\<^sup>* s s' \<Longrightarrow> dict_wf (runs s) \<Longrightarrow> runs_grow (runs s) (runs s')"
proof (induction rule: rtranclp_induct)
  case base
  then show ?case using runs_next_grow by blast
next
  case (step s1 s2)
  then have g: "runs_grow (runs s) (runs s1)" by simp
  then have "dict_wf (runs s1)" by (simp add: runs_grow_def)
  from runs_grow_trans [OF g repo_step_grows [OF step(2) this]] show ?case .
qed

section \<open>The life of every Run\<close>

text \<open>
  Claim C1. Every reachable Run is consistent. From a repository without Runs, after any sequence of operations
  (successful or not) every Run is stored under its own identifier, and the state it shows is the one its event
  log replays to along legal transitions. A committed or running Run has its committed version, a running one
  an execution, and a Run that waits for a decision waits for a repair or an attestation.
\<close>

theorem repository_invariant:
  assumes steps: "repo_step\<^sup>*\<^sup>* s s'" and init: "runs s = []" and run: "map_of (runs s') k = Some r"
  shows "rn_run_id r = k \<and> replay_log Opened (rn_events r) = Some (rn_state r) \<and>
    (rn_state r \<in> {Run_Committed, Running} \<longrightarrow> rn_committed r \<noteq> None) \<and> (rn_state r = Running \<longrightarrow> rn_execution_id r \<noteq> None) \<and>
    (rn_state r = Awaiting_Decision \<longrightarrow> pending_decision r \<in> {JStr ''repair'', JStr ''attestation''})"
proof -
  have "runs_wf (runs s)" by (simp add: init runs_wf_def)
  then have "runs_wf (runs s')" using runs_grow_wf [OF reachable_grows [OF steps]] by (simp add: runs_wf_def)
  with run have "rn_run_id r = k" "run_wf r" by (simp_all add: runs_wf_def)
  then show ?thesis by (auto simp: run_wf_def run_core_def)
qed


text \<open>A repository in which a Run is opened, refined and cancelled.\<close>

definition demo_empty :: patch_store where
  "demo_empty = \<lparr>message_receipts = [], message_receipt_events = [], runs = [], agents = [], driver_threads = [], agent_events = [],
     slave_agents = [], slave_instances = [], slave_capabilities = [], operation_descriptor_registry = [], idempotency = []\<rparr>"

definition demo_open :: "string option \<Rightarrow> patch_store \<Rightarrow> run_record result \<times> patch_store" where
  "demo_open k = open_run demo_sha 1 ''r'' ''d'' k ''t'' ''g'' False None ''u'' ''w''"

definition demo_opened :: patch_store where
  "demo_opened = snd (demo_open None demo_empty)"

definition demo_refined :: patch_store where
  "demo_refined = snd (begin_refinement 2 ''r'' demo_opened)"

definition demo_cancelled :: patch_store where
  "demo_cancelled = snd (cancel_run 3 ''r'' JNull demo_refined)"

lemma demo_open_ok: "map_sum (\<lambda>e. ()) rn_run_id (fst (demo_open None demo_empty)) = Inr ''r''"
  by code_simp

lemma demo_states:
  "map_option rn_state (map_of (runs demo_refined) ''r'') = Some Thinking"
  "map_option rn_state (map_of (runs demo_cancelled) ''r'') = Some Cancelled"
  by code_simp+

lemma demo_steps: "repo_step\<^sup>*\<^sup>* demo_empty demo_refined" "repo_step\<^sup>*\<^sup>* demo_refined demo_cancelled"
proof -
  obtain r where "fst (demo_open None demo_empty) = Inr r" "rn_run_id r = ''r''"
    using demo_open_ok by (cases "fst (demo_open None demo_empty)") auto
  then have "repo_step demo_empty demo_opened"
    by (intro step_open) (auto simp: demo_opened_def demo_open_def demo_empty_def prod_eq_iff)
  moreover have "repo_step demo_opened demo_refined" unfolding demo_refined_def by (rule step_refine)
  ultimately show "repo_step\<^sup>*\<^sup>* demo_empty demo_refined" by (simp add: rtranclp.rtrancl_into_rtrancl)
  have "repo_step demo_refined demo_cancelled" unfolding demo_cancelled_def by (rule step_cancel)
  then show "repo_step\<^sup>*\<^sup>* demo_refined demo_cancelled" by blast
qed

theorem repository_invariant_witness:
  "\<exists>r. map_of (runs demo_refined) ''r'' = Some r \<and> replay_log Opened (rn_events r) = Some Thinking"
proof -
  from demo_states(1) obtain r where r: "map_of (runs demo_refined) ''r'' = Some r" "rn_state r = Thinking" by auto
  from repository_invariant [OF demo_steps(1) _ r(1)] r show ?thesis by (simp add: demo_empty_def)
qed

lemma demo_refined_wf: "runs_wf (runs demo_refined)"
  by (rule runs_grow_wf [OF reachable_grows [OF demo_steps(1)]]) (simp_all add: demo_empty_def runs_wf_def)


section \<open>Opening a Run again\<close>



end
