(* ===== verification/Driver_Commands.thy ===== *)
theory Driver_Commands
  imports Repository
begin

text \<open>
  The command channel of a Driver (\<^verbatim>\<open>ObserverRepository.execute_driver_command\<close>): the command table, the check of
  the Driver's lease, the receipts of requests, the workspace scope of Runs and packages, and the dispatch of
  every command to its repository operation.

  A command is modelled after the coercion of its argument dictionary: each constructor of \<open>driver_call\<close> carries
  the arguments of one handler in the types the handler coerces them to, and \<open>Malformed\<close> is a command whose
  coercion raises (a missing argument, a payload its model rejects, an unknown command). A response carries the
  value that the handler projects to JSON. The identifiers drawn from \<^verbatim>\<open>uuid4\<close>, the clock readings, the iteration
  order of the set of workspaces and the external parties are the fields of \<open>driver_context\<close>.
\<close>

section \<open>Commands\<close>

definition DRIVER_COMMANDS :: "string list" where
  "DRIVER_COMMANDS =
     [''run.open'', ''run.begin'', ''run.get'', ''run.patch'', ''run.commit'', ''run.start'', ''run.close'', ''run.cancel'',
      ''run.fail'', ''run.resolve'', ''run.readiness'', ''run.recovery.list'', ''run.recovery.mark'', ''run.result'',
      ''message.append'', ''message.claim'', ''message.update'', ''message.release'', ''agent_signal.record'', ''thread.bind'',
      ''thread.get'', ''turn.state'', ''capability.list'', ''capability.get'', ''capability.health'', ''capability.desire'',
      ''node.accept'', ''node.dispatch'', ''node.reassign'', ''node.result'', ''node.fail'']"

definition DRIVER_RUN_SCOPED_COMMANDS :: "string list" where
  "DRIVER_RUN_SCOPED_COMMANDS =
     [''run.get'', ''run.begin'', ''run.patch'', ''run.commit'', ''run.start'', ''run.close'', ''run.cancel'', ''run.fail'',
      ''run.resolve'', ''run.readiness'', ''run.result'', ''message.append'', ''agent_signal.record'', ''capability.health'',
      ''capability.desire'', ''node.accept'', ''node.dispatch'', ''node.reassign'', ''node.result'', ''node.fail'']"

datatype (plugins del: size lifting transfer quickcheck_random quickcheck_exhaustive
    quickcheck_narrowing quickcheck_full_exhaustive quickcheck_bounded_forall) driver_call =
    Run_Open "string option" string string bool "closure_contract option" string
  | Run_Begin string
  | Run_Get string
  | Run_Patch string "string option" "dict list"
  | Run_Commit string string string
  | Run_Start string string
  | Run_Result string dict
  | Run_Final string resource_ref
  | Run_Close string
  | Run_Cancel string json
  | Run_Fail string json
  | Run_Resolve string string
  | Run_Readiness string "string option"
  | Recovery_List
  | Recovery_Mark "string list"
  | Message_Append string string string "string option"
  | Message_Claim string string "string option"
  | Message_Update string string "receipt_state option" "string option" "string option" "json option"
  | Message_Release string string
  | Signal_Record string string dict
  | Thread_Bind thread_binding
  | Thread_Get string
  | Turn_State string turn_state "string option" "string option"
  | Capability_List "string option" bool
  | Capability_Get package_arg "string option"
  | Capability_Desire package_arg string "desired_state option" string "string option" string string bool
  | Capability_Health health_report "string option"
  | Node_Accept string node_intent string
  | Node_Dispatch string string string
  | Node_Reassign string string string string int string string
  | Node_Result string string dict
  | Node_Fail string string "string option" dict
  | Malformed string "string option" py_error

fun command_name :: "driver_call \<Rightarrow> string" where
  "command_name (Run_Open _ _ _ _ _ _) = ''run.open''"
| "command_name (Run_Begin _) = ''run.begin''"
| "command_name (Run_Get _) = ''run.get''"
| "command_name (Run_Patch _ _ _) = ''run.patch''"
| "command_name (Run_Commit _ _ _) = ''run.commit''"
| "command_name (Run_Start _ _) = ''run.start''"
| "command_name (Run_Result _ _) = ''run.result''"
| "command_name (Run_Final _ _) = ''run.result''"
| "command_name (Run_Close _) = ''run.close''"
| "command_name (Run_Cancel _ _) = ''run.cancel''"
| "command_name (Run_Fail _ _) = ''run.fail''"
| "command_name (Run_Resolve _ _) = ''run.resolve''"
| "command_name (Run_Readiness _ _) = ''run.readiness''"
| "command_name Recovery_List = ''run.recovery.list''"
| "command_name (Recovery_Mark _) = ''run.recovery.mark''"
| "command_name (Message_Append _ _ _ _) = ''message.append''"
| "command_name (Message_Claim _ _ _) = ''message.claim''"
| "command_name (Message_Update _ _ _ _ _ _) = ''message.update''"
| "command_name (Message_Release _ _) = ''message.release''"
| "command_name (Signal_Record _ _ _) = ''agent_signal.record''"
| "command_name (Thread_Bind _) = ''thread.bind''"
| "command_name (Thread_Get _) = ''thread.get''"
| "command_name (Turn_State _ _ _ _) = ''turn.state''"
| "command_name (Capability_List _ _) = ''capability.list''"
| "command_name (Capability_Get _ _) = ''capability.get''"
| "command_name (Capability_Desire _ _ _ _ _ _ _ _) = ''capability.desire''"
| "command_name (Capability_Health _ _) = ''capability.health''"
| "command_name (Node_Accept _ _ _) = ''node.accept''"
| "command_name (Node_Dispatch _ _ _) = ''node.dispatch''"
| "command_name (Node_Reassign _ _ _ _ _ _ _) = ''node.reassign''"
| "command_name (Node_Result _ _ _) = ''node.result''"
| "command_name (Node_Fail _ _ _ _) = ''node.fail''"
| "command_name (Malformed name _ _) = name"

text \<open>\<^verbatim>\<open>args.get("run_id")\<close>, the Run a scoped command names.\<close>

fun named_run :: "driver_call \<Rightarrow> string option" where
  "named_run (Run_Begin k) = Some k"
| "named_run (Run_Get k) = Some k"
| "named_run (Run_Patch k _ _) = Some k"
| "named_run (Run_Commit k _ _) = Some k"
| "named_run (Run_Start k _) = Some k"
| "named_run (Run_Result k _) = Some k"
| "named_run (Run_Final k _) = Some k"
| "named_run (Run_Close k) = Some k"
| "named_run (Run_Cancel k _) = Some k"
| "named_run (Run_Fail k _) = Some k"
| "named_run (Run_Resolve k _) = Some k"
| "named_run (Run_Readiness k _) = Some k"
| "named_run (Message_Append k _ _ _) = Some k"
| "named_run (Signal_Record k _ _) = Some k"
| "named_run (Capability_Get _ k) = k"
| "named_run (Capability_Desire _ _ _ _ k _ _ _) = k"
| "named_run (Capability_Health _ k) = k"
| "named_run (Node_Accept k _ _) = Some k"
| "named_run (Node_Dispatch k _ _) = Some k"
| "named_run (Node_Reassign k _ _ _ _ _ _) = Some k"
| "named_run (Node_Result k _ _) = Some k"
| "named_run (Node_Fail k _ _ _) = Some k"
| "named_run (Malformed _ k _) = k"
| "named_run _ = None"

record driver_command =
  dc_request_id :: string
  dc_driver_id :: string
  dc_instance_id :: string
  dc_lease_id :: string
  dc_driver_epoch :: int
  dc_workspace_id :: "string option"
  dc_call :: driver_call

record capability_view =
  cw_agent :: agent_record
  cw_operations :: "json list"

datatype (plugins del: size lifting transfer quickcheck_random quickcheck_exhaustive
    quickcheck_narrowing quickcheck_full_exhaustive quickcheck_bounded_forall) driver_response =
    Resp_Opened run_record
  | Resp_Run run_record
  | Resp_Patch patch_receipt
  | Resp_Version closure_version
  | Resp_Start start_result
  | Resp_Readiness string readiness
  | Resp_Runs "run_record list"
  | Resp_Recovered "string list"
  | Resp_Event run_event
  | Resp_Receipt message_receipt
  | Resp_Thread "thread_binding option"
  | Resp_Capabilities "capability_view list" "package_version list"
  | Resp_Package package_version
  | Resp_Activation activation
  | Resp_Node dynamic_node
  | Resp_Attempt attempt

record driver_store = patch_store +
  driver_requests :: "((string \<times> string) \<times> (string \<times> driver_response)) list"

type_synonym ('z, 'a) driver_op = "('z driver_store_scheme, 'a) op"

record driver_context =
  cx_env :: env
  cx_tools :: toolchain
  cx_ttl :: time
  cx_invoke :: invoke
  cx_put :: "string \<Rightarrow> string \<Rightarrow> resource_ref result"
  cx_set_order :: "string list \<Rightarrow> string list"
  cx_now :: time
  cx_then :: time
  cx_fresh :: string
  cx_fresh2 :: string
  cx_ids :: patch_ids
  cx_stamp :: evidence_stamp
  cx_stamp2 :: evidence_stamp

section \<open>Workspace scope\<close>

definition assert_run_workspace :: "string \<Rightarrow> string \<Rightarrow> 'z run_store_scheme \<Rightarrow> run_record result" where
  "assert_run_workspace run_id workspace_id s =
     (case map_of (runs s) run_id of
        None \<Rightarrow> Inl (KeyError run_id)
      | Some r \<Rightarrow> if run_workspace r \<noteq> workspace_id then Inl (ValueError ''workspace_binding_mismatch'') else Inr r)"

definition assert_optional_run :: "string option \<Rightarrow> string \<Rightarrow> 'z run_store_scheme \<Rightarrow> unit result" where
  "assert_optional_run run_id workspace_id s =
     (case run_id of None \<Rightarrow> Inr () | Some k \<Rightarrow> res_bind (assert_run_workspace k workspace_id s) (\<lambda>_. Inr ()))"

definition assert_package_workspace :: "package_arg \<Rightarrow> string \<Rightarrow> string option \<Rightarrow> 'z run_store_scheme \<Rightarrow> package_version result" where
  "assert_package_workspace a workspace_id run_id s =
     res_bind (assert_optional_run run_id workspace_id s) (\<lambda>_.
     res_bind (get_capability_package a run_id s) (\<lambda>p.
     res_bind (assert_run_workspace (pv_source_run_ref p) workspace_id s) (\<lambda>_. Inr p)))"

definition is_key_error :: "py_error \<Rightarrow> bool" where
  "is_key_error e = (case e of KeyError _ \<Rightarrow> True | _ \<Rightarrow> False)"

definition admit_run_scope :: "driver_call \<Rightarrow> string \<Rightarrow> 'z run_store_scheme \<Rightarrow> unit result" where
  "admit_run_scope call workspace_id s =
     (if command_name call \<notin> set DRIVER_RUN_SCOPED_COMMANDS then Inr ()
      else (case assert_optional_run (named_run call) workspace_id s of
              Inl e \<Rightarrow> if is_key_error e \<and> command_name call = ''node.fail'' then Inr () else Inl e
            | Inr _ \<Rightarrow> Inr ()))"

definition admit_driver_arguments :: "driver_call \<Rightarrow> string \<Rightarrow> 'z run_store_scheme \<Rightarrow> unit result" where
  "admit_driver_arguments call workspace_id s =
     res_bind (admit_run_scope call workspace_id s) (\<lambda>_.
     case call of
       Capability_Get a k \<Rightarrow> res_bind (assert_package_workspace a workspace_id k s) (\<lambda>_. Inr ())
     | Capability_Desire a _ _ _ k _ _ _ \<Rightarrow> res_bind (assert_package_workspace a workspace_id k s) (\<lambda>_. Inr ())
     | Capability_Health rep None \<Rightarrow>
         res_bind (assert_package_workspace (By_Id (hr_package_version_ref rep)) workspace_id None s) (\<lambda>_. Inr ())
     | _ \<Rightarrow> Inr ())"

section \<open>The lease of the Driver\<close>

fun list_workspace_agents ::
  "time \<Rightarrow> time \<Rightarrow> string list \<Rightarrow> 'z agent_store_scheme \<Rightarrow> agent_record list \<times> 'z agent_store_scheme" where
  "list_workspace_agents now ttl [] s = ([], s)"
| "list_workspace_agents now ttl (w # ws) s =
     (let (xs, s1) = list_agents now ttl w (Some Driver) s; (ys, s2) = list_workspace_agents now ttl ws s1 in (xs @ ys, s2))"

definition driver_workspaces :: "'z agent_store_scheme \<Rightarrow> string list" where
  "driver_workspaces s = remdups (map (\<lambda>(k, a). fst k) (filter (\<lambda>(k, a). fst (snd k) = Driver) (agents s)))"

definition candidate_drivers ::
  "driver_context \<Rightarrow> driver_command \<Rightarrow> 'z agent_store_scheme \<Rightarrow> agent_record list \<times> 'z agent_store_scheme" where
  "candidate_drivers cx c s =
     (let requested = (if nonempty (dc_workspace_id c) then the (dc_workspace_id c) else default_workspace);
          (ags, s1) = list_agents (cx_now cx) (cx_ttl cx) requested (Some Driver) s
      in if dc_workspace_id c = None \<and> ags = []
         then list_workspace_agents (cx_now cx) (cx_ttl cx) (cx_set_order cx (driver_workspaces s1)) s1
         else (ags, s1))"

definition admit_driver :: "driver_context \<Rightarrow> driver_command \<Rightarrow> ('z, agent_record) agent_op" where
  "admit_driver cx c s =
     (let (ags, s1) = candidate_drivers cx c s in
      case List.find (\<lambda>a. ag_agent_id a = dc_driver_id c \<and> ag_lease_state a = Lease_Active) ags of
        None \<Rightarrow> (Inl (stale_lease Driver), s1)
      | Some a \<Rightarrow>
          if ag_instance_id a \<noteq> dc_instance_id c \<or> ag_epoch a \<noteq> dc_driver_epoch c then (Inl (stale_lease Driver), s1)
          else (case lookup_agent (ag_workspace_id a) Driver (dc_driver_id c) (Some (dc_instance_id c)) s1 of
                  None \<Rightarrow> (Inl (stale_lease Driver), s1)
                | Some b \<Rightarrow>
                    if ag_lease_id_hash b \<noteq> lease_hash (env_hash (cx_env cx)) (dc_lease_id c) then (Inl (stale_lease Driver), s1)
                    else (Inr a, s1)))"

section \<open>Dispatch\<close>

definition respond :: "('a \<Rightarrow> driver_response) \<Rightarrow> 'a result \<times> 's \<Rightarrow> driver_response result \<times> 's" where
  "respond f z = (map_sum (\<lambda>e. e) f (fst z), snd z)"

fun assert_runs :: "string list \<Rightarrow> string \<Rightarrow> 'z run_store_scheme \<Rightarrow> unit result" where
  "assert_runs [] ws s = Inr ()"
| "assert_runs (k # ks) ws s = res_bind (assert_run_workspace k ws s) (\<lambda>_. assert_runs ks ws s)"

definition recovery_list :: "string \<Rightarrow> 'z run_store_scheme \<Rightarrow> run_record list" where
  "recovery_list workspace_id s =
     filter (\<lambda>r. rn_state r \<in> {Thinking, Running} \<and>
                 (case rn_closure_contract r of None \<Rightarrow> True | Some c \<Rightarrow> cc_workspace_id c = workspace_id)) (map snd (runs s))"

definition capability_views :: "'z slave_store_scheme \<Rightarrow> capability_view list" where
  "capability_views s =
     map (\<lambda>(i, a). \<lparr>cw_agent = a, cw_operations =
        (case map_of (slave_capabilities s) (ag_agent_id a) of None \<Rightarrow> [] | Some d \<Rightarrow> sd_operations d)\<rparr>) (slave_agents s)"

definition list_capabilities :: "driver_context \<Rightarrow> string \<Rightarrow> string option \<Rightarrow> bool \<Rightarrow> ('z, driver_response) slave_op" where
  "list_capabilities cx ws k include_abandoned s =
     (case assert_optional_run k ws s of
        Inl e \<Rightarrow> (Inl e, s)
      | Inr _ \<Rightarrow>
          (case refresh_slaves (cx_now cx) (cx_ttl cx) (Some ws) s of
             (Inl e, s1) \<Rightarrow> (Inl e, s1)
           | (Inr _, s1) \<Rightarrow>
               (case list_capability_packages k include_abandoned s1 of
                  Inl e \<Rightarrow> (Inl e, s1)
                | Inr ps \<Rightarrow> (Inr (Resp_Capabilities (capability_views s1) ps), s1))))"

definition patch_current ::
  "driver_context \<Rightarrow> string \<Rightarrow> string \<Rightarrow> string option \<Rightarrow> dict list \<Rightarrow> ('z, patch_receipt) patch_op" where
  "patch_current cx request_id k operation_id ops s =
     (case get_run k s of
        (Inl e, s1) \<Rightarrow> (Inl e, s1)
      | (Inr r, s1) \<Rightarrow>
          apply_patch (cx_env cx) (cx_tools cx) (cx_ttl cx) (cx_now cx) (cx_ids cx) (rn_run_id r) (cv_version_id (rn_draft r))
            (cv_snapshot_digest (rn_draft r)) (if nonempty operation_id then the operation_id else request_id) ops s1)"

definition mark_recovery :: "time \<Rightarrow> string \<Rightarrow> string list \<Rightarrow> ('z, string list) run_op" where
  "mark_recovery now ws owners s =
     (case assert_runs owners ws s of Inl e \<Rightarrow> (Inl e, s) | Inr _ \<Rightarrow> recover_stale_runs now owners s)"

fun dispatch_call :: "driver_context \<Rightarrow> driver_command \<Rightarrow> string \<Rightarrow> driver_call \<Rightarrow> ('z, driver_response) patch_op" where
  "dispatch_call cx c ws (Run_Open k task goal reassign contract user) s =
     respond Resp_Opened (open_run (env_hash (cx_env cx)) (cx_now cx) (cx_fresh cx) (cx_fresh2 cx) k task goal reassign contract user ws s)"
| "dispatch_call cx c ws (Run_Begin k) s = respond Resp_Run (begin_refinement (cx_now cx) k s)"
| "dispatch_call cx c ws (Run_Get k) s = respond Resp_Run (get_run k s)"
| "dispatch_call cx c ws (Run_Patch k operation_id ops) s = respond Resp_Patch (patch_current cx (dc_request_id c) k operation_id ops s)"
| "dispatch_call cx c ws (Run_Commit k version digest) s =
     respond Resp_Version (commit_run (cx_env cx) (cx_tools cx) (cx_ttl cx) (cx_now cx) (cx_fresh cx) k version digest s)"
| "dispatch_call cx c ws (Run_Start k version) s =
     respond Resp_Start (start_run (cx_env cx) (cx_tools cx) (cx_ttl cx) (cx_now cx) (cx_fresh cx) (cx_fresh2 cx) k version s)"
| "dispatch_call cx c ws (Run_Result k result) s =
     respond Resp_Run (record_result (cx_env cx) (cx_invoke cx) (cx_now cx) (cx_stamp cx) (cx_stamp2 cx) k result s)"
| "dispatch_call cx c ws (Run_Final k ref) s = respond Resp_Run (complete_orchestration (cx_env cx) (cx_invoke cx) (cx_now cx) k ref s)"
| "dispatch_call cx c ws (Run_Close k) s = respond Resp_Run (close_run (cx_now cx) k s)"
| "dispatch_call cx c ws (Run_Cancel k reason) s = respond Resp_Run (cancel_run (cx_now cx) k reason s)"
| "dispatch_call cx c ws (Run_Fail k reason) s = respond Resp_Run (fail_run (cx_now cx) k reason s)"
| "dispatch_call cx c ws (Run_Resolve k decision) s = respond Resp_Run (resolve_run (cx_now cx) (cx_then cx) k decision s)"
| "dispatch_call cx c ws (Run_Readiness k version) s =
     respond (\<lambda>(v, rd). Resp_Readiness v rd) (inspect_readiness (cx_env cx) (cx_tools cx) (cx_ttl cx) (cx_now cx) (cx_then cx) k version s)"
| "dispatch_call cx c ws Recovery_List s = (Inr (Resp_Runs (recovery_list ws s)), s)"
| "dispatch_call cx c ws (Recovery_Mark owners) s = respond Resp_Recovered (mark_recovery (cx_now cx) ws owners s)"
| "dispatch_call cx c ws (Message_Append k role content request_id) s =
     respond Resp_Event (append_message (cx_now cx) (cx_fresh cx) k role content
       (if nonempty request_id then request_id else Some (dc_request_id c)) s)"
| "dispatch_call cx c ws (Message_Claim request_id token conv) s =
     respond Resp_Receipt (claim_message_receipt (cx_now cx) ws request_id token conv s)"
| "dispatch_call cx c ws (Message_Update request_id token st reply k outcome) s =
     respond Resp_Receipt (update_message_receipt (cx_now cx) ws request_id token st reply k outcome s)"
| "dispatch_call cx c ws (Message_Release request_id token) s =
     respond Resp_Receipt (release_message_receipt (cx_now cx) ws request_id token s)"
| "dispatch_call cx c ws (Signal_Record k kind payload) s = respond Resp_Event (record_agent_signal (cx_now cx) k kind payload s)"
| "dispatch_call cx c ws (Thread_Bind b) s =
     respond (\<lambda>b. Resp_Thread (Some b)) (bind_thread (b\<lparr>tb_workspace_id := ws, tb_driver_epoch := dc_driver_epoch c\<rparr>) s)"
| "dispatch_call cx c ws (Thread_Get conv) s = (Inr (Resp_Thread (get_thread ws conv s)), s)"
| "dispatch_call cx c ws (Turn_State conv st request_id turn_id) s =
     respond (\<lambda>b. Resp_Thread (Some b)) (set_turn_state ws conv st request_id turn_id (Some (dc_driver_epoch c)) s)"
| "dispatch_call cx c ws (Capability_List k include_abandoned) s = list_capabilities cx ws k include_abandoned s"
| "dispatch_call cx c ws (Capability_Get a k) s = respond Resp_Package (get_capability_package a k s, s)"
| "dispatch_call cx c ws (Capability_Desire a target desired key k closure_ref binding_ref rebuild) s =
     respond Resp_Activation (set_capability_desired (cx_now cx) a target desired key k (Some ws) closure_ref binding_ref rebuild s)"
| "dispatch_call cx c ws (Capability_Health rep k) s = respond Resp_Activation (record_capability_health (cx_now cx) rep k s)"
| "dispatch_call cx c ws (Node_Accept k intent target) s =
     respond Resp_Node (accept_node_intent (cx_env cx) (cx_ttl cx) (cx_now cx) k intent target s)"
| "dispatch_call cx c ws (Node_Dispatch k node target) s =
     respond Resp_Attempt (dispatch_dynamic_node (cx_env cx) (cx_ttl cx) (cx_now cx) (cx_fresh cx) k node target s)"
| "dispatch_call cx c ws (Node_Reassign k node lost execution_id epoch target reason) s =
     respond Resp_Attempt (reassign_dynamic_node (cx_env cx) (cx_ttl cx) (cx_now cx) (cx_fresh cx) k node lost execution_id epoch target
       (if reason = [] then ''worker_lease_expired'' else reason) s)"
| "dispatch_call cx c ws (Node_Result k node result) s =
     respond Resp_Node (record_dynamic_node_result (cx_env cx) (cx_invoke cx) (cx_put cx) (cx_now cx) (cx_stamp cx) k node result s)"
| "dispatch_call cx c ws (Node_Fail k node attempt_id err) s = respond Resp_Node (fail_dynamic_node (cx_now cx) k node attempt_id (Some err) s)"
| "dispatch_call cx c ws (Malformed name k e) s = (Inl e, s)"

definition execute_driver_command :: "driver_context \<Rightarrow> driver_command \<Rightarrow> ('z, driver_response) driver_op" where
  "execute_driver_command cx c s =
     (let name = command_name (dc_call c); key = (dc_driver_id c, dc_request_id c) in
      if name \<notin> set DRIVER_COMMANDS then (Inl (ValueError ''driver_command_not_allowed''), s)
      else (case admit_driver cx c s of
              (Inl e, s1) \<Rightarrow> (Inl e, s1)
            | (Inr a, s1) \<Rightarrow>
                (case map_of (driver_requests s1) key of
                   Some (previous, response) \<Rightarrow>
                     (if previous \<noteq> name then Inl (ValueError ''request_id_reused'') else Inr response, s1)
                 | None \<Rightarrow>
                     (case admit_driver_arguments (dc_call c) (ag_workspace_id a) s1 of
                        Inl e \<Rightarrow> (Inl e, s1)
                      | Inr _ \<Rightarrow>
                          (case dispatch_call cx c (ag_workspace_id a) (dc_call c) s1 of
                             (Inl e, s2) \<Rightarrow> (Inl e, s2)
                           | (Inr response, s2) \<Rightarrow>
                               (Inr response, s2\<lparr>driver_requests := AList.update key (name, response) (driver_requests s2)\<rparr>))))))"

section \<open>Only the leased Driver is served\<close>

text \<open>Expiry is the only thing that happens to an agent record while a command is admitted.\<close>

definition aged :: "(agent_key \<times> agent_record) list \<Rightarrow> (agent_key \<times> agent_record) list \<Rightarrow> bool" where
  "aged xs ys \<longleftrightarrow> (\<forall>k b. map_of ys k = Some b \<longrightarrow> (\<exists>a. map_of xs k = Some a \<and> (b = a \<or> b = a\<lparr>ag_lease_state := Lease_Expired\<rparr>)))"

lemma aged_refl [simp]: "aged xs xs"
  by (auto simp: aged_def)

lemma aged_trans:
  assumes "aged xs ys" "aged ys zs"
  shows "aged xs zs"
  unfolding aged_def
proof (intro allI impI)
  fix k c
  assume "map_of zs k = Some c"
  with assms(2) obtain b where b: "map_of ys k = Some b" "c = b \<or> c = b\<lparr>ag_lease_state := Lease_Expired\<rparr>"
    unfolding aged_def by blast
  with assms(1) obtain a where "map_of xs k = Some a" "b = a \<or> b = a\<lparr>ag_lease_state := Lease_Expired\<rparr>"
    unfolding aged_def by blast
  with b(2) show "\<exists>a. map_of xs k = Some a \<and> (c = a \<or> c = a\<lparr>ag_lease_state := Lease_Expired\<rparr>)" by auto
qed

lemma aged_active: "aged xs ys \<Longrightarrow> map_of ys k = Some a \<Longrightarrow> ag_lease_state a = Lease_Active \<Longrightarrow> map_of xs k = Some a"
  unfolding aged_def by fastforce

lemma aged_expire_stale: "aged ags (expire_stale now ttl ws ro ags)"
  unfolding aged_def expire_stale_def map_of_dict_rewrite by (auto split: if_splits)

lemma list_agents_frame: "snd (list_agents now ttl ws ro s) = s\<lparr>agents := expire_stale now ttl ws ro (agents s)\<rparr>"
  by (simp add: list_agents_def Let_def)

lemma expired_differs: "ag_lease_state a = Lease_Active \<Longrightarrow> a\<lparr>ag_lease_state := Lease_Expired\<rparr> \<noteq> a"
  by (metis agent_record.ext_inject agent_record.surjective agent_record.update_convs(10) lease_state.distinct(1))

lemma list_agents_active:
  assumes mem: "a \<in> set (fst (list_agents now ttl ws (Some Driver) s))" and act: "ag_lease_state a = Lease_Active" and wf: "agents_wf (agents s)"
  shows "map_of (agents s) (agent_key_of a) = Some a \<and> ag_role a = Driver \<and> lease_cutoff now ttl \<le> ag_last_seen_at a"
proof -
  let ?ags = "expire_stale now ttl ws (Some Driver) (agents s)"
  from mem obtain k where k: "(k, a) \<in> set ?ags" "fst k = ws" "fst (snd k) = Driver" by (auto simp: list_agents_def Let_def)
  have wf': "agents_wf ?ags" by (rule expire_stale_wf [OF wf])
  then have m: "map_of ?ags k = Some a" using k(1) by (auto simp: agents_wf_def)
  with wf' have key: "agent_key_of a = k" unfolding agents_wf_def by blast
  from m have "map_of (agents s) k = Some a" using aged_active [OF aged_expire_stale _ act] by blast
  moreover have "lease_cutoff now ttl \<le> ag_last_seen_at a"
    using m act k(2,3) unfolding expire_stale_def map_of_dict_rewrite by (auto dest: expired_differs split: if_splits)
  ultimately show ?thesis using key k(3) by (auto simp: agent_key_of_def)
qed

definition admission_frame :: "'z agent_store_scheme \<Rightarrow> 'z agent_store_scheme \<Rightarrow> bool" where
  "admission_frame s s' \<longleftrightarrow> s' = s\<lparr>agents := agents s'\<rparr> \<and> aged (agents s) (agents s') \<and> (agents_wf (agents s) \<longrightarrow> agents_wf (agents s'))"

lemma admission_frame_refl [simp]: "admission_frame s s"
  by (simp add: admission_frame_def)

lemma admission_frame_trans: "admission_frame a b \<Longrightarrow> admission_frame b c \<Longrightarrow> admission_frame a c"
  unfolding admission_frame_def using aged_trans by (metis agent_store.update_convs(1) agent_store.surjective)

lemma admission_frame_list: "admission_frame s (snd (list_agents now ttl ws ro s))"
  by (simp add: admission_frame_def list_agents_frame aged_expire_stale expire_stale_wf)

lemma list_workspace_agents_frame: "admission_frame s (snd (list_workspace_agents now ttl ws s))"
proof (induction ws arbitrary: s)
  case (Cons w ws)
  show ?case
    using admission_frame_trans [OF admission_frame_list Cons.IH] by (simp add: Let_def case_prod_beta)
qed simp

lemma list_workspace_agents_active:
  assumes "a \<in> set (fst (list_workspace_agents now ttl ws s))" "ag_lease_state a = Lease_Active" "agents_wf (agents s)"
  shows "map_of (agents s) (agent_key_of a) = Some a \<and> ag_role a = Driver \<and> lease_cutoff now ttl \<le> ag_last_seen_at a"
  using assms
proof (induction ws arbitrary: s)
  case (Cons w ws)
  let ?s1 = "snd (list_agents now ttl w (Some Driver) s)"
  from Cons.prems(1) consider "a \<in> set (fst (list_agents now ttl w (Some Driver) s))" | "a \<in> set (fst (list_workspace_agents now ttl ws ?s1))"
    by (auto simp: Let_def case_prod_beta)
  then show ?case
  proof cases
    case 2
    from admission_frame_list [of s now ttl w "Some Driver"] have fr: "aged (agents s) (agents ?s1)" "agents_wf (agents ?s1)"
      using Cons.prems(3) unfolding admission_frame_def by blast+
    from Cons.IH [OF 2 Cons.prems(2) fr(2)] aged_active [OF fr(1) _ Cons.prems(2)] show ?thesis by blast
  qed (use list_agents_active Cons.prems in blast)
qed simp

lemma candidate_drivers_frame: "admission_frame s (snd (candidate_drivers cx c s))"
  using admission_frame_trans [OF admission_frame_list list_workspace_agents_frame] admission_frame_list
  by (auto simp: candidate_drivers_def Let_def case_prod_beta)

lemma candidate_drivers_active:
  assumes "a \<in> set (fst (candidate_drivers cx c s))" "ag_lease_state a = Lease_Active" "agents_wf (agents s)"
  shows "map_of (agents s) (agent_key_of a) = Some a \<and> ag_role a = Driver \<and> lease_cutoff (cx_now cx) (cx_ttl cx) \<le> ag_last_seen_at a"
proof -
  have via: "map_of (agents s) (agent_key_of a) = Some a \<and> ag_role a = Driver \<and> lease_cutoff (cx_now cx) (cx_ttl cx) \<le> ag_last_seen_at a"
    if "a \<in> set (fst (list_workspace_agents (cx_now cx) (cx_ttl cx) ws (snd (list_agents (cx_now cx) (cx_ttl cx) w (Some Driver) s))))" for ws w
    using list_workspace_agents_active [of a "cx_now cx" "cx_ttl cx" "w # ws" s] that assms(2,3) by (auto simp: Let_def case_prod_beta)
  from assms(1) show ?thesis
    using via list_agents_active [OF _ assms(2,3)] by (auto simp: candidate_drivers_def Let_def case_prod_beta split: if_splits)
qed

lemma lookup_agent_instance: "lookup_agent ws ro aid (Some iid) s = Some a \<Longrightarrow> ag_instance_id a = iid"
proof -
  let ?p = "\<lambda>((w, r, i, _), a). w = ws \<and> r = ro \<and> i = aid \<and> (Some iid = None \<or> Some iid = Some (ag_instance_id a))"
  let ?m = "map snd (filter ?p (agents s))"
  assume "lookup_agent ws ro aid (Some iid) s = Some a"
  then have "a \<in> set (sort_key (\<lambda>a. - ag_updated_at a) ?m)" unfolding lookup_agent_def
    by (cases "sort_key (\<lambda>a. - ag_updated_at a) ?m") simp_all
  then have "a \<in> set ?m" by (simp only: set_sort)
  then show ?thesis by auto
qed

text \<open>The record of the Driver that may issue a command: present, active, seen in time, with the epoch and the lease.\<close>

definition holds_lease :: "driver_context \<Rightarrow> driver_command \<Rightarrow> 'z agent_store_scheme \<Rightarrow> agent_record \<Rightarrow> bool" where
  "holds_lease cx c s a \<longleftrightarrow>
     map_of (agents s) (ag_workspace_id a, Driver, dc_driver_id c, dc_instance_id c) = Some a \<and> ag_lease_state a = Lease_Active \<and>
     ag_epoch a = dc_driver_epoch c \<and> ag_lease_id_hash a = lease_hash (env_hash (cx_env cx)) (dc_lease_id c) \<and>
     lease_cutoff (cx_now cx) (cx_ttl cx) \<le> ag_last_seen_at a"

lemma admit_driver_frame: "admit_driver cx c s = (x, s1) \<Longrightarrow> admission_frame s s1"
  using candidate_drivers_frame [of s cx c]
  by (auto simp: admit_driver_def Let_def case_prod_beta split: option.splits if_splits)

lemma admit_driver_InrD:
  assumes adm: "admit_driver cx c s = (Inr a, s1)" and wf: "agents_wf (agents s)"
  shows "holds_lease cx c s a"
proof -
  obtain ags where cd: "candidate_drivers cx c s = (ags, s1)" and
    f: "List.find (\<lambda>a. ag_agent_id a = dc_driver_id c \<and> ag_lease_state a = Lease_Active) ags = Some a" and
    e: "ag_instance_id a = dc_instance_id c" "ag_epoch a = dc_driver_epoch c" and
    b: "\<exists>b. lookup_agent (ag_workspace_id a) Driver (dc_driver_id c) (Some (dc_instance_id c)) s1 = Some b \<and>
       ag_lease_id_hash b = lease_hash (env_hash (cx_env cx)) (dc_lease_id c)"
    using adm by (auto simp: admit_driver_def Let_def case_prod_beta split: option.splits if_splits) (metis prod.collapse)
  have a: "a \<in> set ags" "ag_agent_id a = dc_driver_id c" "ag_lease_state a = Lease_Active" using find_SomeD [OF f] by auto
  have act: "map_of (agents s) (agent_key_of a) = Some a" "ag_role a = Driver" "lease_cutoff (cx_now cx) (cx_ttl cx) \<le> ag_last_seen_at a"
    using candidate_drivers_active [of a cx c s] a wf cd by auto
  have key: "agent_key_of a = (ag_workspace_id a, Driver, dc_driver_id c, dc_instance_id c)"
    using a(2) e(1) act(2) by (simp add: agent_key_of_def)
  from admit_driver_frame [OF adm] wf have fr: "agents_wf (agents s1)" "aged (agents s) (agents s1)" unfolding admission_frame_def by blast+
  from b obtain b i where b: "map_of (agents s1) (ag_workspace_id a, Driver, dc_driver_id c, i) = Some b" "ag_instance_id b = dc_instance_id c"
    "ag_lease_id_hash b = lease_hash (env_hash (cx_env cx)) (dc_lease_id c)"
    using lookup_agent_SomeD lookup_agent_instance fr(1) unfolding agents_wf_def by metis
  then have "agent_key_of b = (ag_workspace_id a, Driver, dc_driver_id c, i)" using fr(1) unfolding agents_wf_def by blast
  with b(2) have "i = dc_instance_id c" by (simp add: agent_key_of_def)
  with fr(2) b(1) key have "\<exists>a0. map_of (agents s) (agent_key_of a) = Some a0 \<and> (b = a0 \<or> b = a0\<lparr>ag_lease_state := Lease_Expired\<rparr>)"
    unfolding aged_def by metis
  with act(1) b(3) have "ag_lease_id_hash a = lease_hash (env_hash (cx_env cx)) (dc_lease_id c)" by auto
  with act key a e show ?thesis unfolding holds_lease_def by simp
qed


end
