(* ===== verification/Driver_Scope.thy ===== *)
theory Driver_Scope
  imports Driver_Commands
begin

text \<open>
  What the command channel guarantees beyond the lease: a command is a sequence of repository steps, a request is
  answered once, and a command reaches only Runs of its Driver's workspace, with the exception it has.
\<close>

section \<open>Operations of one Run\<close>

text \<open>The contract of an operation that names a Run: every other Run is left as it is.\<close>

locale scoped_operation =
  fixes opn :: "string \<Rightarrow> ('z, 'a) run_op"
  assumes others: "j \<noteq> k \<Longrightarrow> map_of (runs (snd (opn k s))) j = map_of (runs s) j"
begin

lemma foreign_kept:
  assumes "map_of (runs s) j = Some r" and "map_of (runs s) k = None \<or> (\<exists>r'. map_of (runs s) k = Some r' \<and> run_workspace r' \<noteq> run_workspace r)"
  shows "map_of (runs (snd (opn k s))) j = Some r"
proof -
  from assms have "j \<noteq> k" by auto
  with assms(1) show ?thesis by (simp add: others)
qed

end

lemma with_run_others:
  assumes "\<And>r. map_of (runs s) k = Some r \<Longrightarrow> map_of (runs (snd (f r))) j = map_of (runs s) j"
  shows "map_of (runs (snd (with_run k f s))) j = map_of (runs s) j"
  using assms by (simp add: with_run_def split: option.split)

lemma put_other: "j \<noteq> k \<Longrightarrow> runs s1 = runs s \<Longrightarrow> map_of (AList.update k r (runs s1)) j = map_of (runs s) j"
  by (simp add: update_conv)

lemmas scoped_intros = with_run_others put_other

interpretation message: scoped_operation "\<lambda>k. append_message t fresh k role content rq" for t fresh role content rq
proof
  fix j k :: string and s :: "'z run_store_scheme"
  assume "j \<noteq> k"
  then show "map_of (runs (snd (append_message t fresh k role content rq s))) j = map_of (runs s) j"
    unfolding append_message_def Let_def by (auto intro!: scoped_intros simp: update_conv split: option.split)
qed

interpretation signal: scoped_operation "\<lambda>k. record_agent_signal t k kind payload" for t kind payload
  by unfold_locales (auto simp: record_agent_signal_def Let_def update_conv intro!: scoped_intros)

interpretation refine: scoped_operation "\<lambda>k. begin_refinement t k" for t
  by unfold_locales (auto simp: begin_refinement_def Let_def update_conv intro!: scoped_intros split: sum.split)

interpretation cancelling: scoped_operation "\<lambda>k. cancel_run t k why" for t why
  by unfold_locales (auto simp: cancel_run_def Let_def update_conv intro!: scoped_intros split: sum.split)

interpretation failing: scoped_operation "\<lambda>k. fail_run t k why" for t why
  by unfold_locales (auto simp: fail_run_def Let_def update_conv intro!: scoped_intros split: sum.split)

interpretation closing: scoped_operation "\<lambda>k. close_run t k" for t
  by unfold_locales (auto simp: close_run_def Let_def update_conv intro!: scoped_intros split: sum.split)

interpretation resolving: scoped_operation "\<lambda>k. resolve_run t u k decision" for t u decision
  by unfold_locales (auto simp: resolve_run_def Let_def update_conv intro!: scoped_intros split: sum.split option.split bool.split)

interpretation inspecting: scoped_operation "\<lambda>k. inspect_readiness E T ttl t u k version" for E T ttl t u version
  by unfold_locales (auto simp: inspect_readiness_def Let_def update_conv intro!: scoped_intros dest!: evaluate_readiness_frame
      split: sum.split option.split prod.split)

interpretation committing: scoped_operation "\<lambda>k. commit_run E T ttl t fresh k version digest" for E T ttl t fresh version digest
  by unfold_locales (auto simp: commit_run_def Let_def update_conv intro!: scoped_intros dest!: evaluate_readiness_frame
      split: sum.split prod.split)

interpretation starting: scoped_operation "\<lambda>k. start_run E T ttl t fx fa k version" for E T ttl t fx fa version
  by unfold_locales (auto simp: start_run_def Let_def update_conv intro!: scoped_intros dest!: evaluate_readiness_frame
      split: sum.split option.split prod.split)

interpretation reporting: scoped_operation "\<lambda>k. record_result E invoke t st1 st2 k result" for E invoke t st1 st2 result
  by unfold_locales (auto simp: record_result_def update_conv intro!: scoped_intros split: sum.split prod.split)

interpretation completing: scoped_operation "\<lambda>k. complete_orchestration E invoke t k ref" for E invoke t ref
  by unfold_locales (auto simp: complete_orchestration_def Let_def update_conv intro!: scoped_intros split: sum.split)

interpretation accepting: scoped_operation "\<lambda>k. accept_node_intent E ttl t k intent target" for E ttl t intent target
  by unfold_locales (auto simp: accept_node_intent_def Let_def update_conv intro!: scoped_intros dest!: refresh_frame
      split: sum.split option.split prod.split)

interpretation dispatching: scoped_operation "\<lambda>k. dispatch_dynamic_node E ttl t fa k node target" for E ttl t fa node target
  by unfold_locales (auto simp: dispatch_dynamic_node_def Let_def update_conv intro!: scoped_intros dest!: refresh_frame
      split: sum.split option.split prod.split)

interpretation reassigning: scoped_operation "\<lambda>k. reassign_dynamic_node E ttl t fa k node lost x ep target why" for E ttl t fa node lost x ep target why
  by unfold_locales (auto simp: reassign_dynamic_node_def Let_def update_conv intro!: scoped_intros dest!: refresh_frame
      split: sum.split option.split prod.split)

interpretation recording: scoped_operation "\<lambda>k. record_dynamic_node_result E invoke put t stamp k node result" for E invoke put t stamp node result
  by unfold_locales (auto simp: record_dynamic_node_result_def Let_def update_conv intro!: scoped_intros split: sum.split prod.split)

interpretation node_failing: scoped_operation "\<lambda>k. fail_dynamic_node t k node attempt err" for t node attempt err
  by unfold_locales (auto simp: fail_dynamic_node_def Let_def update_conv intro!: scoped_intros split: sum.split option.split)

lemma finish_patch_others:
  assumes "j \<noteq> k"
  shows "map_of (runs (snd (finish_patch E T ttl t ids k operation v r s))) j = map_of (runs s) j"
proof -
  obtain x s1 where ev: "evaluate_readiness E T t ttl (cv_snapshot v) (Some k) s = (x, s1)" by fastforce
  with assms evaluate_readiness_frame [OF ev] show ?thesis by (auto simp: finish_patch_def Let_def update_conv split: sum.split)
qed

interpretation patching: scoped_operation "\<lambda>k. apply_patch E T ttl t ids k base digest operation ops" for E T ttl t ids base digest operation ops
  by unfold_locales (auto simp: apply_patch_def Let_def update_conv finish_patch_others intro!: scoped_intros
      split: sum.split option.split prod.split)

section \<open>Workspace isolation\<close>

lemma respond_snd [simp]: "snd (respond f z) = snd z"
  by (simp add: respond_def)

text \<open>The commands whose reach is not the Run they name.\<close>

definition wide_commands :: "string set" where
  "wide_commands = {''run.open'', ''run.recovery.mark'', ''capability.desire'', ''capability.health''}"

lemma list_capabilities_runs: "runs (snd (list_capabilities cx ws k ab s)) = runs s"
  by (auto simp: list_capabilities_def split: sum.split prod.split dest: refresh_frame)

lemma get_run_runs: "snd (get_run k s) = s"
  by (auto simp: get_run_def with_run_def split: option.split)

lemma patch_current_others: "j \<noteq> k \<Longrightarrow> rn_run_id r = k \<Longrightarrow> map_of (runs s) k = Some r \<Longrightarrow>
    map_of (runs (snd (patch_current cx rq k operation ops s))) j = map_of (runs s) j"
  by (simp add: patch_current_def get_run_def with_run_def patching.others)

lemma patch_missing: "map_of (runs s) k = None \<Longrightarrow> snd (patch_current cx rq k operation ops s) = s"
  by (simp add: patch_current_def get_run_def with_run_def)

lemma dispatch_others:
  assumes "command_name call \<notin> wide_commands" and "\<And>k. named_run call = Some k \<Longrightarrow> j \<noteq> k" and "runs_wf (runs s)"
  shows "map_of (runs (snd (dispatch_call cx c ws call s))) j = map_of (runs s) j"
proof (cases call)
  case (Run_Patch k operation ops)
  show ?thesis
  proof (cases "map_of (runs s) k")
    case (Some r)
    then have "rn_run_id r = k" using assms(3) by (simp add: runs_wf_def)
    with Some Run_Patch assms(2) show ?thesis by (simp add: patch_current_others)
  qed (simp add: Run_Patch patch_missing)
qed (use assms in \<open>auto simp: wide_commands_def message.others signal.others refine.others cancelling.others failing.others closing.others
      resolving.others inspecting.others committing.others starting.others reporting.others completing.others accepting.others
      dispatching.others reassigning.others recording.others node_failing.others list_capabilities_runs get_run_runs\<close>)

lemma admit_scope_named:
  assumes "admit_driver_arguments call ws s = Inr ()" "command_name call \<in> set DRIVER_RUN_SCOPED_COMMANDS" "named_run call = Some k"
  shows "map_of (runs s) k = None \<or> (\<exists>r. map_of (runs s) k = Some r \<and> run_workspace r = ws)"
  using assms
  by (auto simp: admit_driver_arguments_def admit_run_scope_def assert_optional_run_def assert_run_workspace_def is_key_error_def
      split: option.splits if_splits)

lemma scoped_or_unnamed:
  assumes "command_name call \<in> set DRIVER_COMMANDS" "command_name call \<notin> wide_commands" "named_run call = Some k"
    "\<And>a. call \<noteq> Capability_Get a (Some k)" "\<And>name e. call \<noteq> Malformed name (Some k) e"
  shows "command_name call \<in> set DRIVER_RUN_SCOPED_COMMANDS"
  using assms by (cases call) (auto simp: DRIVER_RUN_SCOPED_COMMANDS_def wide_commands_def)

lemma admitted_runs: "admit_driver cx c s = (x, s1) \<Longrightarrow> runs s1 = runs s"
proof -
  assume "admit_driver cx c s = (x, s1)"
  then have "s1 = s\<lparr>agents := agents s1\<rparr>" using admit_driver_frame unfolding admission_frame_def by blast
  from arg_cong [OF this, of runs] show ?thesis by simp
qed

lemma admitted_requests:
  fixes s :: "'z driver_store_scheme"
  assumes "admit_driver cx c s = (x, s1)"
  shows "driver_requests s1 = driver_requests s"
proof -
  from assms have "s1 = s\<lparr>agents := agents s1\<rparr>" using admit_driver_frame unfolding admission_frame_def by blast
  from arg_cong [OF this, of driver_requests] show ?thesis by simp
qed


section \<open>Requests are answered once\<close>

text \<open>
  Claim C14. The receipt of a request. After a command has succeeded, every later command with its request
  identifier from the admitted Driver leaves the repository as it is: it gets the first response if it has the
  same name, whatever its arguments are, and is refused otherwise.
\<close>

theorem driver_request_replayed:
  assumes ok: "execute_driver_command cx c s = (Inr response, s')"
    and adm: "admit_driver cx' c' s' = (Inr a, s1)" and known: "command_name (dc_call c') \<in> set DRIVER_COMMANDS"
    and same: "dc_driver_id c' = dc_driver_id c" "dc_request_id c' = dc_request_id c"
  shows "execute_driver_command cx' c' s' =
    (if command_name (dc_call c') = command_name (dc_call c) then Inr response else Inl (ValueError ''request_id_reused''), s1)"
proof -
  have "map_of (driver_requests s') (dc_driver_id c, dc_request_id c) = Some (command_name (dc_call c), response)"
    using ok by (auto simp: execute_driver_command_def Let_def update_conv split: if_splits prod.splits sum.splits option.splits)
  with admitted_requests [OF adm] adm known same show ?thesis by (simp add: execute_driver_command_def Let_def)
qed

section \<open>Recovery reaches every workspace\<close>

lemma recover_runs_others: "k \<notin> set ks \<Longrightarrow> recover_runs now owners ks s = (x, s') \<Longrightarrow> map_of (runs s') k = map_of (runs s) k"
proof (induction ks arbitrary: s x)
  case (Cons i ks)
  then show ?case
    by (auto simp: update_conv split: option.splits if_splits sum.splits prod.splits dest!: Cons.IH [rotated])
qed simp

lemma recover_thinking:
  assumes "rn_state r = Thinking"
  shows "\<exists>r'. recover_run now s r = Inr r' \<and> rn_state r' = Run_Failed"
  using assms by (simp add: recover_run_def executing_def abandon_run_def do_transition_def fail_active_def Let_def)

lemma recover_runs_fails:
  "recover_runs now owners ks s = (Inr ids, s') \<Longrightarrow> distinct ks \<Longrightarrow> k \<in> set ks \<Longrightarrow> map_of (runs s) k = Some r \<Longrightarrow> rn_run_id r = k \<Longrightarrow>
   rn_state r = Thinking \<Longrightarrow> k \<notin> set owners \<Longrightarrow> \<exists>r'. map_of (runs s') k = Some r' \<and> rn_state r' = Run_Failed"
proof (induction ks arbitrary: s ids)
  case (Cons i ks)
  show ?case
  proof (cases "i = k")
    case True
    from recover_thinking [OF Cons.prems(6)] obtain r' where r': "recover_run now s r = Inr r'" "rn_state r' = Run_Failed" by blast
    obtain x s2 where rest: "recover_runs now owners ks (put_run k r' s) = (x, s2)" by fastforce
    with Cons.prems True r' have "s2 = s'" by (auto split: sum.splits)
    with recover_runs_others [OF _ rest, of k] Cons.prems(2) True r'(2) show ?thesis by simp
  next
    case False
    have step: "\<exists>r'. map_of (runs s') k = Some r' \<and> rn_state r' = Run_Failed"
      if "recover_runs now owners ks s2 = (Inr ids2, s')" "map_of (runs s2) k = Some r" for s2 ids2
      using Cons.IH [OF that(1) _ _ that(2)] Cons.prems False by simp
    from Cons.prems(1,4) False show ?thesis
      by (auto simp: update_conv split: option.splits if_splits sum.splits prod.splits intro: step)
  qed
qed simp

text \<open>
  Claim C37. \<^verbatim>\<open>run.recovery.mark\<close> checks the workspace of the Runs to keep, not of the Runs it ends: when it
  succeeds, every Run in refinement that is not among the kept ones has failed, also those of other workspaces.
\<close>

theorem recovery_mark_crosses_workspaces:
  assumes ok: "dispatch_call cx c ws (Recovery_Mark owners) s = (Inr response, s')" and wf: "runs_wf (runs s)"
    and run: "map_of (runs s) k = Some r" and st: "rn_state r = Thinking" and other: "k \<notin> set owners"
  shows "\<exists>r'. map_of (runs s') k = Some r' \<and> rn_state r' = Run_Failed"
proof -
  obtain ids where ids: "recover_runs (cx_now cx) owners (map fst (runs s)) s = (Inr ids, s')"
    using ok by (auto simp: respond_def mark_recovery_def recover_stale_runs_def split: sum.splits)
      (metis map_sum.simps old.sum.exhaust prod.collapse Inl_Inr_False)
  have "distinct (map fst (runs s))" "rn_run_id r = k" using wf run by (auto simp: runs_wf_def)
  moreover have "k \<in> set (map fst (runs s))" using map_of_SomeD [OF run] by force
  ultimately show ?thesis using recover_runs_fails [OF ids] run st other by blast
qed

section \<open>Commands are repository steps\<close>

lemmas step_paths = repo_step.intros(2-) [THEN r_into_rtranclp [of repo_step]]

definition opens_fresh :: "driver_context \<Rightarrow> driver_call \<Rightarrow> 'z run_store_scheme \<Rightarrow> bool" where
  "opens_fresh cx call s \<longleftrightarrow>
     (case call of
        Run_Open k _ _ _ _ _ \<Rightarrow> map_of (runs s) (if nonempty k then the k else cx_fresh cx) = None
      | _ \<Rightarrow> True)"

lemma open_path:
  assumes "map_of (runs s) (if nonempty k then the k else fresh) = None"
  shows "repo_step\<^sup>*\<^sup>* s (snd (open_run H t fresh fd k task goal ar ct user ws s))"
proof (cases "open_run H t fresh fd k task goal ar ct user ws s")
  case (Pair x s')
  show ?thesis
  proof (cases x)
    case (Inl e)
    with Pair have "s' = s" by (auto simp: open_run_def Let_def split: sum.splits)
    with Pair show ?thesis by simp
  next
    case (Inr r)
    with Pair have "rn_run_id r = (if nonempty k then the k else fresh)" by (auto simp: open_run_def Let_def new_run_def split: sum.splits)
    with assms have "map_of (runs s) (rn_run_id r) = None" by simp
    from r_into_rtranclp [of repo_step, OF step_open [OF Pair [unfolded Inr] this]] Pair show ?thesis by simp
  qed
qed

lemma list_capabilities_path: "repo_step\<^sup>*\<^sup>* s (snd (list_capabilities cx ws k ab s))"
  using r_into_rtranclp [of repo_step, OF step_refresh [of s "cx_now cx" "cx_ttl cx" "Some ws"]]
  by (auto simp: list_capabilities_def split: sum.split prod.split)

lemma patch_path: "repo_step\<^sup>*\<^sup>* s (snd (patch_current cx rq k operation ops s))"
  by (auto simp: patch_current_def get_run_def with_run_def intro: step_paths split: option.split)

lemma mark_path: "repo_step\<^sup>*\<^sup>* s (snd (mark_recovery t ws owners s))"
  by (auto simp: mark_recovery_def intro: step_paths split: sum.split)

lemma dispatch_path:
  assumes "opens_fresh cx call s"
  shows "repo_step\<^sup>*\<^sup>* s (snd (dispatch_call cx c ws call s))"
  using assms
  by (cases call)
    (auto simp: opens_fresh_def open_path list_capabilities_path patch_path mark_path get_run_runs
      simp del: split_paired_All intro: step_paths)

lemma list_workspace_path: "repo_step\<^sup>*\<^sup>* s (snd (list_workspace_agents t ttl ws s))"
proof (induction ws arbitrary: s)
  case (Cons w ws)
  from converse_rtranclp_into_rtranclp [OF step_agents Cons.IH] show ?case by (simp add: Let_def case_prod_beta)
qed simp

lemma candidate_path: "repo_step\<^sup>*\<^sup>* s (snd (candidate_drivers cx c s))"
  using converse_rtranclp_into_rtranclp [OF step_agents list_workspace_path]
  by (auto simp: candidate_drivers_def Let_def case_prod_beta intro: step_paths)

lemma admit_path: "admit_driver cx c s = (x, s1) \<Longrightarrow> repo_step\<^sup>*\<^sup>* s s1"
  using candidate_path [of s cx c] by (auto simp: admit_driver_def Let_def case_prod_beta split: option.splits if_splits)

lemma execute_outcome:
  assumes "admit_driver cx c s = (x, s1)"
  shows "snd (execute_driver_command cx c s) = s \<or> snd (execute_driver_command cx c s) = s1 \<or>
    (\<exists>ws y s2. dispatch_call cx c ws (dc_call c) s1 = (y, s2) \<and>
       (snd (execute_driver_command cx c s) = s2 \<or> (\<exists>q. snd (execute_driver_command cx c s) = s2\<lparr>driver_requests := q\<rparr>)))"
  unfolding execute_driver_command_def Let_def assms
  by (simp split: if_split sum.split option.split prod.split) blast


section \<open>An example session\<close>

text \<open>A Driver of the workspace \<open>w\<close>, a Run \<open>r\<close> of its workspace and a Run \<open>q\<close> of the workspace \<open>v\<close>, both in refinement.\<close>

definition demo_driver_agent :: agent_record where
  "demo_driver_agent = demo_slave\<lparr>ag_role := Driver, ag_agent_id := ''d'', ag_lease_id_hash := lease_hash demo_sha ''l''\<rparr>"

definition demo_session_run :: "string \<Rightarrow> string \<Rightarrow> run_record" where
  "demo_session_run k ws = (log_event (Ev_Transition Refinement_Started Opened Thinking 1 None)
     (new_run k ''t'' ''g'' demo_version (demo_contract\<lparr>cc_workspace_id := ws\<rparr>) False))\<lparr>rn_state := Thinking\<rparr>"

definition demo_session :: driver_store where
  "demo_session = \<lparr>message_receipts = [], message_receipt_events = [], runs = [(''r'', demo_session_run ''r'' ''w''), (''q'', demo_session_run ''q'' ''v'')],
     agents = [((''w'', Driver, ''d'', ''i''), demo_driver_agent)], driver_threads = [], agent_events = [], slave_agents = [],
     slave_instances = [], slave_capabilities = [], operation_descriptor_registry = [], idempotency = [], driver_requests = []\<rparr>"

definition demo_context :: driver_context where
  "demo_context = \<lparr>cx_env = demo_env2, cx_tools = demo_tools, cx_ttl = 30000000, cx_invoke = silent_failure,
     cx_put = (\<lambda>b m. Inr demo_content), cx_set_order = (\<lambda>ws. ws), cx_now = 2, cx_then = 3, cx_fresh = ''f'', cx_fresh2 = ''g'', cx_ids = demo_ids,
     cx_stamp = demo_stamp, cx_stamp2 = demo_stamp\<rparr>"

definition demo_command :: "string \<Rightarrow> string \<Rightarrow> driver_call \<Rightarrow> driver_command" where
  "demo_command rq lease call = \<lparr>dc_request_id = rq, dc_driver_id = ''d'', dc_instance_id = ''i'', dc_lease_id = lease, dc_driver_epoch = 1,
     dc_workspace_id = Some ''w'', dc_call = call\<rparr>"

lemma demo_session_admitted: "\<not> isl (fst (admit_driver demo_context (demo_command rq ''l'' call) demo_session))"
  by (simp add: admit_driver_def candidate_drivers_def list_agents_def expire_stale_def dict_rewrite_def demo_session_def demo_context_def
      demo_command_def demo_driver_agent_def demo_slave_def nonempty_def lookup_agent_def Let_def demo_env2_def lease_cutoff_def)

lemma demo_session_wf: "runs_wf (runs demo_session)" "agents_wf (agents demo_session)"
proof -
  have "run_wf (demo_session_run k ws)" "rn_run_id (demo_session_run k ws) = k" for k ws
    by (simp_all add: demo_session_run_def run_wf_def run_core_def epoch_ok_def new_run_def)
  then show "runs_wf (runs demo_session)" by (simp add: demo_session_def runs_wf_def)
  show "agents_wf (agents demo_session)"
    by (simp add: demo_session_def agents_wf_def agent_key_of_def demo_driver_agent_def demo_slave_def)
qed

lemma demo_session_lookup:
  "map_of (runs demo_session) ''q'' = Some (demo_session_run ''q'' ''v'')" "run_workspace (demo_session_run k ws) = ws"
  "rn_state (demo_session_run k ws) = Thinking"
  by (simp_all add: demo_session_def demo_session_run_def run_workspace_def new_run_def)

lemma demo_session_agent:
  assumes "admit_driver demo_context (demo_command rq ''l'' call) demo_session = (Inr a, s1)"
  shows "ag_workspace_id a = ''w''"
proof -
  from admit_driver_InrD [OF assms demo_session_wf(2)] have "map_of (agents demo_session) (ag_workspace_id a, Driver, ''d'', ''i'') = Some a"
    by (simp add: holds_lease_def demo_command_def)
  then show ?thesis by (simp add: demo_session_def split: if_splits)
qed



definition demo_after :: driver_store where
  "demo_after = snd (execute_driver_command demo_context (demo_command ''q1'' ''l'' (Run_Cancel ''r'' JNull)) demo_session)"

lemma demo_after_ok:
  "\<not> isl (fst (execute_driver_command demo_context (demo_command ''q1'' ''l'' (Run_Cancel ''r'' JNull)) demo_session))"
  "\<not> isl (fst (admit_driver demo_context (demo_command ''q1'' ''l'' (Run_Cancel ''q'' JNull)) demo_after))"
  by code_simp+

theorem driver_request_replayed_witness:
  "\<exists>response s1. execute_driver_command demo_context (demo_command ''q1'' ''l'' (Run_Cancel ''r'' JNull)) demo_session = (Inr response, demo_after) \<and>
     execute_driver_command demo_context (demo_command ''q1'' ''l'' (Run_Cancel ''q'' JNull)) demo_after = (Inr response, s1)"
proof -
  obtain response where ok: "execute_driver_command demo_context (demo_command ''q1'' ''l'' (Run_Cancel ''r'' JNull)) demo_session = (Inr response, demo_after)"
    using returned [OF demo_after_ok(1)] by (auto simp: demo_after_def)
  obtain a s1 where adm: "admit_driver demo_context (demo_command ''q1'' ''l'' (Run_Cancel ''q'' JNull)) demo_after = (Inr a, s1)"
    using returned [OF demo_after_ok(2)] by blast
  from driver_request_replayed [OF ok adm] ok show ?thesis by (simp add: demo_command_def DRIVER_COMMANDS_def)
qed

theorem recovery_mark_crosses_workspaces_witness:
  "\<exists>response s' r'. dispatch_call demo_context (demo_command ''q1'' ''l'' (Recovery_Mark [])) ''w'' (Recovery_Mark []) demo_session = (Inr response, s') \<and>
     run_workspace (demo_session_run ''q'' ''v'') = ''v'' \<and> map_of (runs s') ''q'' = Some r' \<and> rn_state r' = Run_Failed"
proof -
  have "\<not> isl (fst (dispatch_call demo_context (demo_command ''q1'' ''l'' (Recovery_Mark [])) ''w'' (Recovery_Mark []) demo_session))"
    by code_simp
  from returned [OF this] obtain response s' where
    ok: "dispatch_call demo_context (demo_command ''q1'' ''l'' (Recovery_Mark [])) ''w'' (Recovery_Mark []) demo_session = (Inr response, s')" by blast
  from recovery_mark_crosses_workspaces [OF ok demo_session_wf(1) demo_session_lookup(1,3)] ok show ?thesis
    by (auto simp: demo_session_lookup(2))
qed


end
