(* ===== verification/Node_Runtime.thy ===== *)
theory Node_Runtime
  imports Worker Driver_Scope "HOL-Library.Char_ord" "HOL-Library.List_Lexorder" "HOL-Library.Multiset"
begin

text \<open>
  The Driver's side of dynamic nodes (\<^verbatim>\<open>driver/orchestration_runtime.py\<close>): the choice of a target among the
  Slaves that the Observer knows and the Driver is connected to (\<^verbatim>\<open>_select_target\<close>), and the execution of one
  attempt on its target (\<^verbatim>\<open>_execute_attempt\<close>), which takes the desired state from the Observer,
  provisions the package, reports the health, runs the attempt and hands the result back.
\<close>

section \<open>The choice of a target\<close>

record node_runtime =
  nx_slaves :: "(string \<times> slave_service) list"
  nx_workers :: "string list"
  nx_driver_id :: "string option"
  nx_driver_epoch :: "int option"
  nx_round_robin_cursor :: "(string \<times> nat) list"

definition connected :: "node_runtime \<Rightarrow> string \<Rightarrow> bool" where
  "connected rt i \<longleftrightarrow> i \<in> set (nx_workers rt) \<or> map_of (nx_slaves rt) i \<noteq> None"

definition available_targets ::
  "env \<Rightarrow> package_version \<Rightarrow> string set \<Rightarrow> node_runtime \<Rightarrow> 'z slave_store_scheme \<Rightarrow> string list" where
  "available_targets E p exclude rt s =
     sort (filter (\<lambda>i. slave_supports_package E i p s \<and> connected rt i \<and> i \<notin> exclude) (map fst (slave_capabilities s)))"

definition activation_targets :: "package_version \<Rightarrow> run_record \<Rightarrow> string list" where
  "activation_targets p r =
     map ac_target_slave
       (filter (\<lambda>a. ac_package_version_ref a = version_ref p \<and> ac_activation_state a = Ready) (rn_capability_activations r))"

definition candidate_targets :: "string list \<Rightarrow> string list \<Rightarrow> string list" where
  "candidate_targets available ready =
     (let both = filter (\<lambda>i. i \<in> set ready) available in if both = [] then available else both)"

definition cursor_key :: "package_version \<Rightarrow> resource_ref \<Rightarrow> string" where
  "cursor_key p descriptor = version_ref p @ ''#descriptor:'' @ digest_or_id descriptor"

definition allowed_effects :: "run_record \<Rightarrow> string set" where
  "allowed_effects r = (case rn_closure_contract r of None \<Rightarrow> {} | Some c \<Rightarrow> set (cc_allowed_effects c))"

definition next_target :: "string \<Rightarrow> string list \<Rightarrow> node_runtime \<Rightarrow> string \<times> node_runtime" where
  "next_target key candidates rt =
     (let cursor = (case map_of (nx_round_robin_cursor rt) key of None \<Rightarrow> 0 | Some n \<Rightarrow> n)
      in (candidates ! (cursor mod length candidates),
          rt\<lparr>nx_round_robin_cursor := AList.update key (cursor + 1) (nx_round_robin_cursor rt)\<rparr>))"

definition select_target ::
  "env \<Rightarrow> package_version \<Rightarrow> resource_ref \<Rightarrow> run_record \<Rightarrow> string set \<Rightarrow> 'z slave_store_scheme \<Rightarrow> (node_runtime, string) op" where
  "select_target E p descriptor r exclude s rt =
     (case export_for p descriptor of
        Inl e \<Rightarrow> (Inl (if is_value_error e then RuntimeError ''node_capability_export_not_found'' else e), rt)
      | Inr ex \<Rightarrow>
          if ce_permissions ex \<noteq> [] \<and> \<not> set (ce_permissions ex) \<subseteq> allowed_effects r
          then (Inl (RuntimeError ''node_permission_denied''), rt)
          else
            let available = available_targets E p exclude rt s; locality = locality_of (run_snapshot r) in
            if available = [] then (Inl (RuntimeError ''node_target_unavailable''), rt)
            else if locality \<noteq> JNull
            then (if py_str E locality \<notin> set available then (Inl (RuntimeError ''node_target_unavailable''), rt)
                  else (Inr (py_str E locality), rt))
            else (case next_target (cursor_key p descriptor) (candidate_targets available (activation_targets p r)) rt of
                    (t, rt') \<Rightarrow> (Inr t, rt')))"

lemma candidates_sub: "set (candidate_targets available ready) \<subseteq> set available"
  by (auto simp: candidate_targets_def Let_def)

lemma candidates_nonempty [simp]: "candidate_targets available ready = [] \<longleftrightarrow> available = []"
  by (auto simp: candidate_targets_def Let_def)

lemma available_iff:
  "i \<in> set (available_targets E p exclude rt s) \<longleftrightarrow>
     map_of (slave_capabilities s) i \<noteq> None \<and> slave_supports_package E i p s \<and> connected rt i \<and> i \<notin> exclude"
  by (auto simp: available_targets_def map_of_eq_None_iff)

lemma next_target_in: "candidates \<noteq> [] \<Longrightarrow> fst (next_target key candidates rt) \<in> set candidates"
  by (simp add: next_target_def Let_def)

lemma select_target_available:
  assumes "select_target E p descriptor r exclude s rt = (Inr t, rt')"
  shows "t \<in> set (available_targets E p exclude rt s)"
proof -
  let ?cs = "candidate_targets (available_targets E p exclude rt s) (activation_targets p r)"
  have "fst (next_target key ?cs rt) \<in> set (available_targets E p exclude rt s)" if "available_targets E p exclude rt s \<noteq> []" for key
    using next_target_in [of ?cs key rt] candidates_sub that by auto
  then show "t \<in> set (available_targets E p exclude rt s)"
    using assms by (auto simp: select_target_def Let_def split: sum.splits if_splits prod.splits) (metis fst_conv)+
qed

lemma select_target_frame:
  assumes "select_target E p descriptor r exclude s rt = (out, rt')"
  shows "connected rt' = connected rt"
proof -
  have "nx_workers rt' = nx_workers rt \<and> nx_slaves rt' = nx_slaves rt"
    using assms by (auto simp: select_target_def next_target_def Let_def split: sum.splits if_splits)
  then show ?thesis by (simp add: connected_def fun_eq_iff)
qed

text \<open>
  Claim C26. A target that the Driver selects passes every check that the Observer makes of a target when
  it admits the node: it is a registered Slave under its own identifier that supports the package, the
  permissions of the export are allowed and the data locality holds. The Driver is connected to it, it
  is not excluded, and without a locality a Slave on which the package is ready comes before any other.
\<close>

theorem selected_target_admissible:
  assumes "select_target E p descriptor r exclude s rt = (Inr t, rt')"
  shows "canonical_target_resource_id t s = t \<and> slave_supports_package E t p s \<and> \<not> wrong_locality E r t s \<and>
         (\<exists>ex. export_for p descriptor = Inr ex \<and> \<not> denied_permissions r ex) \<and> connected rt t \<and> t \<notin> exclude \<and>
         (locality_of (run_snapshot r) = JNull \<and> t \<notin> set (activation_targets p r) \<longrightarrow>
            set (available_targets E p exclude rt s) \<inter> set (activation_targets p r) = {})"
proof -
  let ?available = "available_targets E p exclude rt s" and ?v = "locality_of (run_snapshot r)"
  obtain ex where ex: "export_for p descriptor = Inr ex" "ce_permissions ex = [] \<or> set (ce_permissions ex) \<subseteq> allowed_effects r"
    and av: "?available \<noteq> []"
    and t: "if ?v \<noteq> JNull then py_str E ?v \<in> set ?available \<and> t = py_str E ?v
            else t = fst (next_target (cursor_key p descriptor) (candidate_targets ?available (activation_targets p r)) rt)"
    using assms by (auto simp: select_target_def Let_def split: sum.splits if_splits prod.splits)
  let ?cs = "candidate_targets ?available (activation_targets p r)"
  have mem: "t \<in> set ?cs" if "?v = JNull" using next_target_in [of ?cs] av t that by simp
  have here: "t \<in> set ?available" using t mem candidates_sub by (cases "?v = JNull") auto
  then have can: "canonical_target_resource_id t s = t" by (auto simp: available_iff canonical_target_resource_id_def)
  moreover have "\<not> wrong_locality E r t s" using t can by (auto simp: wrong_locality_def Let_def split: if_splits)
  moreover have "\<not> denied_permissions r ex"
    using ex(2) by (auto simp: denied_permissions_def allowed_effects_def split: option.splits)
  moreover have "set ?available \<inter> set (activation_targets p r) = {}" if "?v = JNull" "t \<notin> set (activation_targets p r)"
    using mem [OF that(1)] that(2) by (auto simp: candidate_targets_def Let_def filter_empty_conv split: if_splits)
  ultimately show ?thesis using ex(1) here by (auto simp: available_iff)
qed

section \<open>Round robin\<close>

fun select_times ::
  "nat \<Rightarrow> env \<Rightarrow> package_version \<Rightarrow> resource_ref \<Rightarrow> run_record \<Rightarrow> string set \<Rightarrow> 'z slave_store_scheme \<Rightarrow> node_runtime \<Rightarrow> string result list" where
  "select_times 0 E p descriptor r exclude s rt = []"
| "select_times (Suc n) E p descriptor r exclude s rt =
     (case select_target E p descriptor r exclude s rt of
        (t, rt') \<Rightarrow> t # select_times n E p descriptor r exclude s rt')"

definition cursor_of :: "node_runtime \<Rightarrow> string \<Rightarrow> nat" where
  "cursor_of rt key = (case map_of (nx_round_robin_cursor rt) key of None \<Rightarrow> 0 | Some n \<Rightarrow> n)"

definition candidates ::
  "env \<Rightarrow> package_version \<Rightarrow> run_record \<Rightarrow> string set \<Rightarrow> 'z slave_store_scheme \<Rightarrow> node_runtime \<Rightarrow> string list" where
  "candidates E p r exclude s rt = candidate_targets (available_targets E p exclude rt s) (activation_targets p r)"

lemma select_free:
  assumes "export_for p descriptor = Inr ex" and "set (ce_permissions ex) \<subseteq> allowed_effects r"
    and "locality_of (run_snapshot r) = JNull" and "candidates E p r exclude s rt \<noteq> []"
  shows "select_target E p descriptor r exclude s rt =
    (Inr (candidates E p r exclude s rt ! (cursor_of rt (cursor_key p descriptor) mod length (candidates E p r exclude s rt))),
     rt\<lparr>nx_round_robin_cursor := AList.update (cursor_key p descriptor) (cursor_of rt (cursor_key p descriptor) + 1) (nx_round_robin_cursor rt)\<rparr>)"
  using assms by (simp add: select_target_def next_target_def candidates_def cursor_of_def Let_def)

lemma select_times_cyclic:
  assumes "export_for p descriptor = Inr ex" and "set (ce_permissions ex) \<subseteq> allowed_effects r"
    and "locality_of (run_snapshot r) = JNull" and "candidates E p r exclude s rt = cs" and "cs \<noteq> []"
  shows "select_times n E p descriptor r exclude s rt =
    map (\<lambda>i. Inr (cs ! ((cursor_of rt (cursor_key p descriptor) + i) mod length cs))) [0..<n]"
  using assms(4)
proof (induction n arbitrary: rt)
  case (Suc n)
  let ?k = "cursor_key p descriptor"
  let ?rt = "rt\<lparr>nx_round_robin_cursor := AList.update ?k (Suc (cursor_of rt ?k)) (nx_round_robin_cursor rt)\<rparr>"
  have cs: "candidates E p r exclude s ?rt = cs" using Suc.prems by (simp add: candidates_def available_targets_def connected_def)
  have cur: "cursor_of ?rt ?k = Suc (cursor_of rt ?k)" by (simp add: cursor_of_def update_conv)
  have "select_target E p descriptor r exclude s rt = (Inr (cs ! (cursor_of rt ?k mod length cs)), ?rt)"
    using select_free [OF assms(1-3), of E exclude s rt] Suc.prems assms(5) by simp
  then show ?case using Suc.IH [OF cs]
    by (simp add: cur upt_conv_Cons map_Suc_upt [symmetric] del: upt_Suc)
qed simp

text \<open>
  Claim C25. The choice is fair. While neither the Observer's view nor the connections change, and no data
  locality applies, as many selections for one export as there are candidates choose every candidate
  exactly once, wherever the cursor stands.
\<close>

theorem round_robin_fair:
  assumes "export_for p descriptor = Inr ex" and "set (ce_permissions ex) \<subseteq> allowed_effects r"
    and "locality_of (run_snapshot r) = JNull" and "candidates E p r exclude s rt = cs" and "cs \<noteq> []"
  shows "mset (select_times (length cs) E p descriptor r exclude s rt) = image_mset Inr (mset cs)"
proof -
  let ?c = "cursor_of rt (cursor_key p descriptor)"
  have "map (\<lambda>i. cs ! ((?c + i) mod length cs)) [0..<length cs] = rotate ?c cs"
    by (rule nth_equalityI) (simp_all add: nth_rotate)
  then have "map Inr (map (\<lambda>i. cs ! ((?c + i) mod length cs)) [0..<length cs]) = map Inr (rotate ?c cs)" by simp
  then have "select_times (length cs) E p descriptor r exclude s rt = map Inr (rotate ?c cs)"
    unfolding select_times_cyclic [OF assms] by (simp only: map_map comp_def)
  moreover have "mset (rotate ?c cs) = mset cs" by (metis append_take_drop_id mset_append rotate_drop_take union_commute)
  ultimately show ?thesis by simp
qed

text \<open>
  Claim C39. The Driver does not resolve the data locality as the Observer does: a locality written as a
  resource identifier of an available Slave satisfies the Observer's check for that Slave, and the Driver
  refuses the node for the lack of a target.
\<close>

theorem locality_alias_refused:
  assumes "export_for p descriptor = Inr ex" and "set (ce_permissions ex) \<subseteq> allowed_effects r"
    and "locality_of (run_snapshot r) = JStr v" and "map_of (slave_capabilities s) v = None"
    and "canonical_target_resource_id v s = t"
  shows "\<not> wrong_locality E r t s \<and> select_target E p descriptor r exclude s rt = (Inl (RuntimeError ''node_target_unavailable''), rt)"
proof -
  have "v \<notin> set (available_targets E p exclude rt s)" using assms(4) by (simp add: available_iff)
  then show ?thesis using assms by (auto simp: select_target_def wrong_locality_def Let_def py_str_def)
qed

section \<open>Executing an attempt\<close>

text \<open>
  What surrounds one execution: the content store and the validators of the Observer, the plugin host
  and the identifiers of an embedded Slave, the clock, and the answers of the worker sessions.
\<close>

record attempt_io =
  ai_env :: env
  ai_invoke :: invoke
  ai_put :: "string \<Rightarrow> string \<Rightarrow> resource_ref result"
  ai_host :: "plugin_host option"
  ai_report_id :: string
  ai_slave_stamp1 :: evidence_stamp
  ai_slave_stamp2 :: evidence_stamp
  ai_stamp :: evidence_stamp
  ai_now1 :: time
  ai_now2 :: time
  ai_now3 :: time
  ai_provision :: "provision_command \<Rightarrow> package_version \<Rightarrow> transport"
  ai_dispatch :: "dispatch_request \<Rightarrow> transport"

definition execution_input :: "attempt_io \<Rightarrow> dynamic_node \<Rightarrow> resource_ref result" where
  "execution_input io n =
     (case dn_input_refs n of
        [x] \<Rightarrow> Inr x
      | xs \<Rightarrow> res_bind (all_ok (map (load_json_content (ai_env io)) xs)) (\<lambda>vs.
               res_bind (canonical_json_bytes (env_hash (ai_env io)) (JObj [(''inputs'', JArr vs)])) (\<lambda>body.
               ai_put io body ''application/json'')))"

definition node_binding :: "dynamic_node \<Rightarrow> string \<Rightarrow> compute_binding" where
  "node_binding n target =
     \<lparr>cb_binding_id = ''binding-'' @ dn_node_id n, cb_hole_id = dn_node_id n,
      cb_capability_descriptor_ref = dn_capability_descriptor_ref n, cb_capability_package_ref = Some (dn_package_ref n),
      cb_target_resource_ref = plain_ref target, cb_constraint_evidence_refs = [], cb_bound_by = ''driver'', cb_bound_at = [],
      cb_runtime_profile = [], cb_activation_ref = None\<rparr>"

definition node_closure :: "dynamic_node \<Rightarrow> capability_export \<Rightarrow> resource_ref \<Rightarrow> task_closure" where
  "node_closure n ex input =
     (let c = minimal_closure (dn_node_id n) []; operation_ref = rr_resource_id (dn_capability_descriptor_ref n)
      in c\<lparr>tc_program := (tc_program c)\<lparr>pa_operation_ref := operation_ref, pa_io_contract_ref := Some (ce_io_contract_ref ex)\<rparr>,
           tc_node_input_bindings := [\<lparr>nb_node_id = operation_ref, nb_input_ref = input, nb_provenance = []\<rparr>]\<rparr>)"

definition closure_version_of :: "run_record \<Rightarrow> package_version \<Rightarrow> string" where
  "closure_version_of r p = (case rn_committed r of Some v \<Rightarrow> cv_version_id v | None \<Rightarrow> pv_package_closure_version_ref p)"

definition execution_name :: "run_record \<Rightarrow> string" where
  "execution_name r = (case rn_execution_id r of None \<Rightarrow> ''None'' | Some x \<Rightarrow> x)"

definition attempt_inputs ::
  "attempt_io \<Rightarrow> string \<Rightarrow> dynamic_node \<Rightarrow> 'z slave_store_scheme \<Rightarrow> (package_version \<times> run_record \<times> capability_export \<times> resource_ref) result" where
  "attempt_inputs io run_id n s =
     res_bind (get_capability_package (By_Ref (dn_package_ref n)) (Some run_id) s) (\<lambda>p.
     case map_of (runs s) run_id of
       None \<Rightarrow> Inl (KeyError run_id)
     | Some r \<Rightarrow>
         (case export_for p (dn_capability_descriptor_ref n) of
            Inl e \<Rightarrow> Inl (if is_value_error e then RuntimeError ''node_capability_export_not_found'' else e)
          | Inr ex \<Rightarrow> res_bind (execution_input io n) (\<lambda>input. Inr (p, r, ex, input))))"

definition node_command :: "dynamic_node \<Rightarrow> string \<Rightarrow> package_version \<Rightarrow> run_record \<Rightarrow> activation \<Rightarrow> provision_command" where
  "node_command n target p r desired =
     \<lparr>pc_command_id = ''provision-'' @ dn_node_id n, pc_package_version_ref = version_ref p, pc_package_digest = pv_package_digest p,
      pc_target_slave = target, pc_workspace_id = run_workspace r, pc_activation_closure_version_ref = closure_version_of r p,
      pc_compute_binding = Some (node_binding n target), pc_idempotency_key = ac_last_idempotency_key desired,
      pc_activation_revision = ac_activation_revision desired\<rparr>"

definition provision_node ::
  "attempt_io \<Rightarrow> string \<Rightarrow> provision_command \<Rightarrow> package_version \<Rightarrow> node_runtime \<Rightarrow> (worker_error + health_report) \<times> node_runtime" where
  "provision_node io target command p rt =
     (if target \<in> set (nx_workers rt) then (worker_provision (ai_env io) (ai_provision io command p), rt)
      else (case map_of (nx_slaves rt) target of
              None \<Rightarrow> (Inl (Worker_Error (RuntimeError (''node_target_unavailable:'' @ target))), rt)
            | Some sv \<Rightarrow>
                (case provision (ai_env io) (ai_host io) (ai_report_id io) command (Some p) sv of
                   (out, sv') \<Rightarrow> (case out of Inl e \<Rightarrow> Inl (Worker_Error e) | Inr rep \<Rightarrow> Inr rep,
                                  rt\<lparr>nx_slaves := AList.update target sv' (nx_slaves rt)\<rparr>))))"

text \<open>The result of an embedded Slave is used as it is.\<close>

definition embedded_result :: "execution_result \<Rightarrow> worker_result" where
  "embedded_result r =
     \<lparr>wr_resource_ref = xr_resource_ref r, wr_value = xr_value r, wr_replay_safety = JStr (xr_replay_safety r),
      wr_terminal_state = xr_terminal_state r, wr_terminal_error = xr_terminal_error r,
      wr_validation_evidence = JArr (xr_validation_evidence r), wr_provenance = xr_provenance r\<rparr>"

definition node_run_request :: "dynamic_node \<Rightarrow> attempt \<Rightarrow> run_record \<Rightarrow> capability_export \<Rightarrow> resource_ref \<Rightarrow> run_request" where
  "node_run_request n a r ex input =
     \<lparr>rq_attempt_id = at_attempt_id a, rq_operation = operation_name (rr_resource_id (dn_capability_descriptor_ref n)), rq_payload = [],
      rq_closure = Some (node_closure n ex input), rq_binding = Some (node_binding n (at_target a)),
      rq_execution_epoch = rn_execution_epoch r\<rparr>"

definition run_node ::
  "attempt_io \<Rightarrow> dynamic_node \<Rightarrow> attempt \<Rightarrow> run_record \<Rightarrow> capability_export \<Rightarrow> resource_ref \<Rightarrow> node_runtime \<Rightarrow>
   (worker_error + worker_result) \<times> node_runtime" where
  "run_node io n a r ex input rt =
     (let q = node_run_request n a r ex input; target = at_target a in
      if target \<in> set (nx_workers rt)
      then (worker_dispatch (ai_env io)
              (ai_dispatch io (worker_request (at_attempt_id a) (execution_name r) (rn_execution_epoch r) (run_workspace r) (rq_operation q) []
                 (node_closure n ex input) (rq_binding q) (nx_driver_id rt) (nx_driver_epoch rt)))
              (at_attempt_id a) (execution_name r) (rn_execution_epoch r), rt)
      else (case map_of (nx_slaves rt) target of
              None \<Rightarrow> (Inl (Worker_Error (RuntimeError (''node_target_unavailable:'' @ target))), rt)
            | Some sv \<Rightarrow>
                (case run_attempt (ai_env io) (ai_host io) (ai_put io) (ai_slave_stamp1 io) (ai_slave_stamp2 io) q sv of
                   (out, sv') \<Rightarrow> (case out of Inl e \<Rightarrow> Inl (Worker_Error e) | Inr x \<Rightarrow> Inr (embedded_result x),
                                  rt\<lparr>nx_slaves := AList.update target sv' (nx_slaves rt)\<rparr>))))"

definition node_report_dict :: "attempt \<Rightarrow> run_record \<Rightarrow> worker_result \<Rightarrow> dict" where
  "node_report_dict a r w =
     [(''attempt_id'', JStr (at_attempt_id a)), (''execution_id'', str_or_null (rn_execution_id r)),
      (''execution_epoch'', JInt (rn_execution_epoch r)), (''value'', wr_value w), (''terminal_state'', JStr (wr_terminal_state w)),
      (''terminal_error'', wr_terminal_error w), (''validation_evidence'', wr_validation_evidence w)]"

definition attempt_result_ref :: "string \<Rightarrow> attempt \<Rightarrow> 'z run_store_scheme \<Rightarrow> resource_ref result" where
  "attempt_result_ref run_id a s =
     (case map_of (runs s) run_id of
        None \<Rightarrow> Inl (KeyError run_id)
      | Some r \<Rightarrow>
          (case List.find (\<lambda>x. at_attempt_id x = at_attempt_id a) (rn_attempts r) of
             None \<Rightarrow> Inl (RuntimeError ''coroutine raised StopIteration'')
           | Some x \<Rightarrow> (case at_result_ref x of None \<Rightarrow> Inl (ValidationError ''ResourceRef'') | Some ref \<Rightarrow> Inr ref)))"

definition raised :: "py_error \<Rightarrow> worker_error + 'a" where
  "raised e = Inl (Worker_Error e)"

definition desire_node ::
  "attempt_io \<Rightarrow> string \<Rightarrow> dynamic_node \<Rightarrow> string \<Rightarrow> package_version \<Rightarrow> run_record \<Rightarrow> ('z, activation) slave_op" where
  "desire_node io run_id n target p r =
     set_capability_desired (ai_now1 io) (By_Ref (dn_package_ref n)) target (Some Desired_Running)
       (execution_name r @ ''-'' @ dn_node_id n @ ''-'' @ pv_package_digest p) (Some run_id) None (closure_version_of r p)
       (cb_binding_id (node_binding n target)) False"

definition execute_node_attempt ::
  "attempt_io \<Rightarrow> string \<Rightarrow> dynamic_node \<Rightarrow> attempt \<Rightarrow> node_runtime \<Rightarrow> 'z slave_store_scheme \<Rightarrow>
   (worker_error + resource_ref) \<times> node_runtime \<times> 'z slave_store_scheme" where
  "execute_node_attempt io run_id n a rt s =
     (case attempt_inputs io run_id n s of
        Inl e \<Rightarrow> (raised e, rt, s)
      | Inr (p, r, ex, input) \<Rightarrow>
     (case desire_node io run_id n (at_target a) p r s of
        (Inl e, s1) \<Rightarrow> (raised e, rt, s1)
      | (Inr desired, s1) \<Rightarrow>
     (case provision_node io (at_target a) (node_command n (at_target a) p r desired) p rt of
        (Inl e, rt1) \<Rightarrow> (Inl e, rt1, s1)
      | (Inr rep, rt1) \<Rightarrow>
     (case record_capability_health (ai_now2 io) rep (Some run_id) s1 of
        (Inl e, s2) \<Rightarrow> (raised e, rt1, s2)
      | (Inr _, s2) \<Rightarrow>
     (case run_node io n a r ex input rt1 of
        (Inl e, rt2) \<Rightarrow> (Inl e, rt2, s2)
      | (Inr w, rt2) \<Rightarrow>
     (case record_dynamic_node_result (ai_env io) (ai_invoke io) (ai_put io) (ai_now3 io) (ai_stamp io) run_id (dn_node_id n)
             (node_report_dict a r w) s2 of
        (Inl e, s3) \<Rightarrow> (raised e, rt2, s3)
      | (Inr done_node, s3) \<Rightarrow>
          if dn_state done_node \<noteq> Node_Completed then (raised (RuntimeError ''dynamic_node_failed''), rt2, s3)
          else (case attempt_result_ref run_id a s3 of Inl e \<Rightarrow> raised e | Inr ref \<Rightarrow> Inr ref, rt2, s3)))))))"

section \<open>One attempt across Observer and Slave\<close>

lemma update_first_find: "List.find p xs = Some x \<Longrightarrow> f x \<in> set (update_first p f xs)"
  by (induction xs) (auto split: if_splits)

lemma find_by_key:
  assumes "distinct (map g ys)" and "y \<in> set ys"
  shows "List.find (\<lambda>x. g x = g y) ys = Some y"
  using assms by (induction ys) auto

lemma find_update_last:
  assumes "find_last (\<lambda>x. g x = i \<and> q x) xs = Some x" and "distinct (map g xs)" and "\<And>y. g (f y) = g y"
  shows "List.find (\<lambda>y. g y = i) (update_last (\<lambda>x. g x = i \<and> q x) f xs) = Some (f x)"
proof -
  let ?ys = "update_last (\<lambda>x. g x = i \<and> q x) f xs"
  have x: "List.find (\<lambda>x. g x = i \<and> q x) (rev xs) = Some x" using assms(1) by (simp add: find_last_def)
  have "f x \<in> set ?ys" using update_first_find [OF x] by (simp add: update_last_def)
  moreover have "map g ?ys = map g xs" using assms(3) by (simp add: update_last_def rev_map [symmetric] map_update_first)
  moreover have "g (f x) = i" using find_SomeD [OF x] assms(3) by simp
  ultimately show ?thesis using find_by_key [of g ?ys "f x"] assms(2) by simp
qed

lemma record_node_completed:
  assumes "record_dynamic_node_result E invoke put now stamp run_id node_id result s = (Inr d, s')" and "dn_state d = Node_Completed"
    and "map_of (runs s) run_id = Some r" and "distinct (map at_attempt_id (rn_attempts r))"
  obtains i body ref r' y where "dget result ''attempt_id'' = JStr i" and "canonical_json_bytes (env_hash E) (dget result ''value'') = Inr body"
    and "put body ''application/json'' = Inr ref" and "map_of (runs s') run_id = Some r'"
    and "List.find (\<lambda>x. at_attempt_id x = i) (rn_attempts r') = Some y" and "at_state y = At_Completed"
    and "at_result_ref y = Some ref" and "at_value y = dget result ''value''"
proof -
  obtain nr p ce body ref ev er r' where adm: "admit_node_report E r node_id result = Inr nr"
    and body: "canonical_json_bytes (env_hash E) (dget result ''value'') = Inr body" "put body ''application/json'' = Inr ref"
    and judged: "node_judgement E invoke stamp nr (dget result ''value'') ce = (ev, er)"
    and closed: "close_node_report now run_id nr result ev er ref (put_run run_id r s) r = (Inr (), r')"
    and s': "s' = put_run run_id r' s"
    and d: "d = (nr_node nr)\<lparr>dn_state := (if er \<noteq> [] then Node_Failed else node_terminal (nr_terminal_state nr))\<rparr>"
    using assms(1,3) by (auto simp: record_dynamic_node_result_def with_run_def Let_def split: sum.splits prod.splits)
  note A = admit_node_report_InrD [OF adm]
  have id: "dn_node_id (nr_node nr) = node_id" using find_node_SomeD [OF A(2)] by simp
  have st: "(if er \<noteq> [] then Node_Failed else node_terminal (nr_terminal_state nr)) = Node_Completed" using assms(2) d by simp
  let ?i = "at_attempt_id (nr_attempt nr)"
  let ?f = "\<lambda>a. a\<lparr>at_state := attempt_terminal Node_Completed, at_result_ref := Some ref, at_value := dget result ''value'',
    at_terminal_error := node_error result er, at_validation_evidence := map evidence_json ev\<rparr>"
  have "rn_attempts r' = update_last (\<lambda>a. at_attempt_id a = ?i \<and> at_node_id a = Some node_id) ?f (rn_attempts r)"
    using closed unfolding close_node_report_def Let_def st id
    by (auto simp: close_node_attempt_def set_node_state_def log_event_def split: sum.splits)
  moreover have "List.find (\<lambda>x. at_attempt_id x = ?i) (update_last (\<lambda>a. at_attempt_id a = ?i \<and> at_node_id a = Some node_id) ?f (rn_attempts r)) =
      Some (?f (nr_attempt nr))"
    by (rule find_update_last [OF A(4) assms(4)]) simp
  ultimately show thesis using body A(7) s' by (intro that [of ?i body ref r' "?f (nr_attempt nr)"]) (simp_all add: put_run_def update_conv)
qed

lemma desired_attempts:
  assumes "dict_wf (runs s)"
  shows "map_option rn_attempts (map_of (runs (snd (set_capability_desired now a target desired key run_id ws cref bref rebuild s))) j) =
         map_option rn_attempts (map_of (runs s) j)"
  by (auto simp: set_capability_desired_def Let_def project_result_frame put_run_def update_conv replace_activation_def log_event_def
      dest!: activation_record_InrD [OF _ assms] split: option.split sum.split)

lemma health_attempts:
  assumes "dict_wf (runs s)"
  shows "map_option rn_attempts (map_of (runs (snd (record_capability_health now rep run_id s))) j) = map_option rn_attempts (map_of (runs s) j)"
  by (auto simp: record_capability_health_def Let_def project_result_frame put_run_def update_conv replace_activation_def log_event_def
      dest!: activation_record_InrD [OF _ assms] split: option.split sum.split)

lemma desire_frame:
  assumes "desire_node io run_id n target p r s = (out, s1)" and "dict_wf (runs s)"
  shows "dict_wf (runs s1)" and "map_option rn_attempts (map_of (runs s1) j) = map_option rn_attempts (map_of (runs s) j)"
proof -
  have s1: "s1 = snd (desire_node io run_id n target p r s)" using assms(1) by simp
  show "dict_wf (runs s1)" using set_desired_effect [OF assms(2)] assms(2) unfolding s1 desire_node_def runs_next_def by blast
  show "map_option rn_attempts (map_of (runs s1) j) = map_option rn_attempts (map_of (runs s) j)"
    unfolding s1 desire_node_def by (rule desired_attempts [OF assms(2)])
qed

lemma execute_attempt_InrE:
  assumes "execute_node_attempt io run_id n a rt s = (Inr ref, rt', s')"
  obtains p r ex input d s1 rep rt1 h s2 w fin where "attempt_inputs io run_id n s = Inr (p, r, ex, input)"
    and "desire_node io run_id n (at_target a) p r s = (Inr d, s1)"
    and "provision_node io (at_target a) (node_command n (at_target a) p r d) p rt = (Inr rep, rt1)"
    and "record_capability_health (ai_now2 io) rep (Some run_id) s1 = (Inr h, s2)"
    and "run_node io n a r ex input rt1 = (Inr w, rt')"
    and "record_dynamic_node_result (ai_env io) (ai_invoke io) (ai_put io) (ai_now3 io) (ai_stamp io) run_id (dn_node_id n)
           (node_report_dict a r w) s2 = (Inr fin, s')"
    and "dn_state fin = Node_Completed" and "attempt_result_ref run_id a s' = Inr ref"
  using assms by (auto simp: execute_node_attempt_def raised_def split: sum.splits prod.splits if_splits)

lemma attempt_inputs_InrD:
  assumes "attempt_inputs io run_id n s = Inr (p, r, ex, input)"
  shows "get_capability_package (By_Ref (dn_package_ref n)) (Some run_id) s = Inr p" and "map_of (runs s) run_id = Some r"
proof -
  obtain q where q: "get_capability_package (By_Ref (dn_package_ref n)) (Some run_id) s = Inr q"
    using assms by (auto simp: attempt_inputs_def)
  show "get_capability_package (By_Ref (dn_package_ref n)) (Some run_id) s = Inr p" "map_of (runs s) run_id = Some r"
    using assms q by (cases "map_of (runs s) run_id"; cases "export_for q (dn_capability_descriptor_ref n)"; simp add: attempt_inputs_def)+
qed

lemma provision_embedded:
  assumes "provision_node io target c p rt = (Inr rep, rt1)" and "target \<notin> set (nx_workers rt)"
  obtains sv sv1 where "map_of (nx_slaves rt) target = Some sv"
    and "provision (ai_env io) (ai_host io) (ai_report_id io) c (Some p) sv = (Inr rep, sv1)"
    and "rt1 = rt\<lparr>nx_slaves := AList.update target sv1 (nx_slaves rt)\<rparr>"
  using assms by (auto simp: provision_node_def split: option.splits prod.splits sum.splits)

lemma run_embedded:
  assumes "run_node io n a r ex input rt = (Inr w, rt')" and "at_target a \<notin> set (nx_workers rt)"
    and "map_of (nx_slaves rt) (at_target a) = Some sv"
  obtains x sv' where "run_attempt (ai_env io) (ai_host io) (ai_put io) (ai_slave_stamp1 io) (ai_slave_stamp2 io)
      (node_run_request n a r ex input) sv = (Inr x, sv')" and "w = embedded_result x"
    and "rt' = rt\<lparr>nx_slaves := AList.update (at_target a) sv' (nx_slaves rt)\<rparr>"
  using assms by (auto simp: run_node_def Let_def split: prod.splits sum.splits)

lemma provisioned_revision:
  assumes "provision E host report_id c (Some p) sv = (Inr rep, sv1)"
  shows "\<exists>b. map_of (ss_activations sv1) (pc_package_version_ref c) = Some b \<and> ac_activation_revision b = pc_activation_revision c \<and>
             ac_desired_state b = Desired_Running"
proof -
  obtain given q where q: "pc_package_version_ref c = version_ref q"
    and run: "(if uses_runtime_plugin sv q then provision_runtime E host report_id c q sv else provision_executor E report_id c q sv) = (Inr rep, sv1)"
    by (rule provision_InrD [OF assms])
  have "reports sv q (pc_activation_revision c) Desired_Running rep sv1"
    using run by (cases "uses_runtime_plugin sv q") (simp_all add: provision_runtime_InrD provision_executor_InrD)
  then show ?thesis using q by (auto simp: reports_def)
qed


section \<open>Two Slaves\<close>

definition demo_details :: slave_details where
  "demo_details = \<lparr>sd_capabilities = ag_capabilities demo_worker, sd_base_operations = [], sd_operations = []\<rparr>"

definition demo_two :: slave_store where
  "demo_two = demo_orch_store\<lparr>slave_agents := [(''u'', demo_worker), (''s'', demo_worker)],
     slave_capabilities := [(''u'', demo_details), (''s'', demo_details)]\<rparr>"

definition demo_runtime :: node_runtime where
  "demo_runtime = \<lparr>nx_slaves = [], nx_workers = [''s'', ''u''], nx_driver_id = None, nx_driver_epoch = None, nx_round_robin_cursor = []\<rparr>"

definition demo_local_run :: run_record where
  "demo_local_run = demo_orch_run\<lparr>rn_committed := Some (demo_version\<lparr>cv_snapshot := demo_orch_closure\<lparr>tc_compute :=
     (tc_compute demo_orch_closure)\<lparr>sp_requirements := [\<lparr>rq_requirement_id = ''q'', rq_key = ''loom.data.locality.v1'', rq_value = JStr ''slave://s'',
       rq_view = [], rq_constraint_ref = None\<rparr>]\<rparr>\<rparr>\<rparr>)\<rparr>"

lemma demo_descriptor: "export_for demo_package (ce_capability_descriptor_ref demo_export) = Inr demo_export" "ce_permissions demo_export = []"
  by code_simp+

theorem selected_target_admissible_witness:
  "\<exists>t rt'. select_target demo_env2 demo_package (ce_capability_descriptor_ref demo_export) demo_orch_run {''u''} demo_two demo_runtime = (Inr t, rt') \<and>
     slave_supports_package demo_env2 t demo_package demo_two \<and> \<not> wrong_locality demo_env2 demo_orch_run t demo_two"
proof -
  have "\<not> isl (fst (select_target demo_env2 demo_package (ce_capability_descriptor_ref demo_export) demo_orch_run {''u''} demo_two demo_runtime))"
    by code_simp
  then obtain t rt' where "select_target demo_env2 demo_package (ce_capability_descriptor_ref demo_export) demo_orch_run {''u''} demo_two demo_runtime = (Inr t, rt')"
    using returned by blast
  with selected_target_admissible [OF this] show ?thesis by blast
qed

theorem round_robin_fair_witness:
  "mset (select_times 2 demo_env2 demo_package (ce_capability_descriptor_ref demo_export) demo_orch_run {} demo_two demo_runtime) =
     {#Inr ''s'', Inr ''u''#}"
proof -
  have "candidates demo_env2 demo_package demo_orch_run {} demo_two demo_runtime = [''s'', ''u'']"
    "locality_of (run_snapshot demo_orch_run) = JNull" by code_simp+
  from round_robin_fair [OF demo_descriptor(1) _ this(2,1)] show ?thesis by (simp add: demo_descriptor(2) numeral_2_eq_2)
qed

theorem locality_alias_refused_witness:
  "\<not> wrong_locality demo_env2 demo_local_run ''s'' demo_two \<and>
   select_target demo_env2 demo_package (ce_capability_descriptor_ref demo_export) demo_local_run {} demo_two demo_runtime =
     (Inl (RuntimeError ''node_target_unavailable''), demo_runtime)"
proof (rule locality_alias_refused [OF demo_descriptor(1)])
  show "locality_of (run_snapshot demo_local_run) = JStr ''slave://s''" by code_simp
  show "map_of (slave_capabilities demo_two) ''slave://s'' = None" by code_simp
  show "canonical_target_resource_id ''slave://s'' demo_two = ''s''" by code_simp
qed (simp add: demo_descriptor(2))

definition demo_live :: attempt where
  "demo_live = \<lparr>at_attempt_id = ''a1'', at_node_id = Some (dn_node_id demo_node), at_target = ss_slave_id demo_service, at_target_instance_id = None,
     at_target_agent_epoch = None, at_state = At_Running, at_execution_epoch = rn_execution_epoch demo_orch_run, at_replaces_attempt_id = None,
     at_replaced_by_attempt_id = None, at_terminal_error = JNull, at_result_ref = None, at_value = JNull, at_validation_evidence = []\<rparr>"

definition demo_live_run :: run_record where
  "demo_live_run = demo_orch_run\<lparr>rn_dynamic_nodes := [demo_node], rn_attempts := [demo_live]\<rparr>"

definition demo_live_store :: slave_store where
  "demo_live_store = demo_two\<lparr>runs := [(''r'', demo_live_run)]\<rparr>"

definition demo_io :: attempt_io where
  "demo_io = \<lparr>ai_env = demo_env2, ai_invoke = (\<lambda>x y. Inl (ValueError [])), ai_put = demo_put, ai_host = Some demo_host, ai_report_id = ''h1'',
     ai_slave_stamp1 = demo_stamp1, ai_slave_stamp2 = demo_stamp1, ai_stamp = demo_stamp1, ai_now1 = 1, ai_now2 = 2, ai_now3 = 3,
     ai_provision = (\<lambda>c p. Timed_Out), ai_dispatch = (\<lambda>q. Timed_Out)\<rparr>"

definition demo_embedded :: node_runtime where
  "demo_embedded = demo_runtime\<lparr>nx_workers := [], nx_slaves := [(ss_slave_id demo_service, demo_service)]\<rparr>"

definition demo_wanted :: activation where
  "demo_wanted = \<lparr>ac_package_version_ref = ''capability-package://p/v1'', ac_package_digest = demo_digest, ac_target_slave = ''s'',
     ac_activation_closure_version_ref = ''d'', ac_compute_binding_ref = ''binding-node-x-1'', ac_desired_state = Desired_Running,
     ac_activation_revision = 1, ac_last_idempotency_key = ''x-node-x-1-'' @ demo_digest, ac_evidence_refs = [],
     ac_activation_state = Provisioning, ac_runtime_profile = []\<rparr>"

definition demo_up :: health_report where
  "demo_up = \<lparr>hr_report_id = ''h1'', hr_package_version_ref = ''capability-package://p/v1'', hr_package_digest = demo_digest, hr_target_slave = ''s'',
     hr_activation_state = Ready, hr_evidence_refs = [],
     hr_details = [(''runtime_plugin_id'', JStr []), (''package_version_ref'', JStr ''capability-package://p/v1''), (''package_digest'', JStr demo_digest)],
     hr_activation_revision = 1\<rparr>"

definition demo_answer :: dict where
  "demo_answer = [(''attempt_id'', JStr ''a1''), (''execution_id'', JStr ''x''), (''execution_epoch'', JInt 1), (''value'', JInt 3),
     (''terminal_state'', JStr ''completed''), (''terminal_error'', JNull), (''validation_evidence'', JArr [])]"

abbreviation demo_desire :: "activation result \<times> slave_store" where
  "demo_desire \<equiv> desire_node demo_io ''r'' demo_node ''s'' demo_package demo_live_run demo_live_store"

abbreviation demo_install :: "(worker_error + health_report) \<times> node_runtime" where
  "demo_install \<equiv> provision_node demo_io ''s'' (node_command demo_node ''s'' demo_package demo_live_run demo_wanted) demo_package demo_embedded"

abbreviation demo_health_step :: "activation result \<times> slave_store" where
  "demo_health_step \<equiv> record_capability_health 2 demo_up (Some ''r'') (snd demo_desire)"

abbreviation demo_node_step :: "dynamic_node result \<times> slave_store" where
  "demo_node_step \<equiv> record_dynamic_node_result demo_env2 (ai_invoke demo_io) demo_put 3 demo_stamp1 ''r'' (dn_node_id demo_node) demo_answer (snd demo_health_step)"

lemma demo_stage_inputs:
  "attempt_inputs demo_io ''r'' demo_node demo_live_store = Inr (demo_package, demo_live_run, demo_export, content_ref demo_digest ''application/json'')"
  by code_simp

lemma demo_stage_desire: "fst demo_desire = Inr demo_wanted"
  by code_simp

lemma demo_stage_install: "fst demo_install = Inr demo_up"
  by code_simp

lemma demo_stage_health: "\<not> isl (fst demo_health_step)"
  by code_simp

lemma demo_stage_run:
  "case fst (run_node demo_io demo_node demo_live demo_live_run demo_export (content_ref demo_digest ''application/json'') (snd demo_install)) of
     Inl _ \<Rightarrow> False | Inr w \<Rightarrow> node_report_dict demo_live demo_live_run w = demo_answer"
  by code_simp

lemma demo_stage_result:
  "case demo_node_step of (Inl _, _) \<Rightarrow> False | (Inr d, s3) \<Rightarrow> dn_state d = Node_Completed \<and> \<not> isl (attempt_result_ref ''r'' demo_live s3)"
  by code_simp

lemma demo_node_completed:
  obtains ref rt' s' where "execute_node_attempt demo_io ''r'' demo_node demo_live demo_embedded demo_live_store = (Inr ref, rt', s')"
proof -
  have live: "at_target demo_live = ''s''" by (simp add: demo_live_def demo_service_def)
  have io: "ai_env demo_io = demo_env2" "ai_put demo_io = demo_put" "ai_stamp demo_io = demo_stamp1" "ai_now2 demo_io = 2" "ai_now3 demo_io = 3"
    by (simp_all add: demo_io_def)
  obtain s1 rt1 h s2 where des: "demo_desire = (Inr demo_wanted, s1)" and inst: "demo_install = (Inr demo_up, rt1)"
    and health: "record_capability_health 2 demo_up (Some ''r'') s1 = (Inr h, s2)"
    using demo_stage_desire demo_stage_install demo_stage_health returned by (metis prod.collapse snd_conv)
  obtain w rt2 where run: "run_node demo_io demo_node demo_live demo_live_run demo_export (content_ref demo_digest ''application/json'') rt1 = (Inr w, rt2)"
    and w: "node_report_dict demo_live demo_live_run w = demo_answer"
    using demo_stage_run inst by (cases "run_node demo_io demo_node demo_live demo_live_run demo_export (content_ref demo_digest ''application/json'') rt1") (auto split: sum.splits)
  obtain d s3 ref where fin: "record_dynamic_node_result demo_env2 (ai_invoke demo_io) demo_put 3 demo_stamp1 ''r'' (dn_node_id demo_node) demo_answer s2 = (Inr d, s3)"
    "dn_state d = Node_Completed" "attempt_result_ref ''r'' demo_live s3 = Inr ref"
    using demo_stage_result des health by (auto simp: isl_def split: sum.splits prod.splits) (metis sum.exhaust)
  have "execute_node_attempt demo_io ''r'' demo_node demo_live demo_embedded demo_live_store = (Inr ref, rt2, s3)"
    by (simp add: execute_node_attempt_def demo_stage_inputs live io des inst health run w fin)
  then show thesis by (rule that)
qed


end
