(* ===== verification/Node_Recovery.thy ===== *)
theory Node_Recovery
  imports Node_Runtime
begin

text \<open>
  The life of one node in the Driver (\<^verbatim>\<open>_execute_node\<close> and \<^verbatim>\<open>_recover_attempt\<close> of
  \<^verbatim>\<open>driver/orchestration_runtime.py\<close>): dispatch, execution, and the replacement of an attempt whose worker is
  lost. A loop that sleeps is a recursion over its ticks, each with the readings of the clocks and a
  fresh identifier; it is \<open>None\<close> while it still waits.
\<close>

section \<open>Recovery of an attempt\<close>

record tick =
  tk_now :: time
  tk_loop :: time
  tk_fresh :: string

definition lease_lost :: "string \<Rightarrow> string \<Rightarrow> 'z slave_store_scheme \<Rightarrow> bool" where
  "lease_lost target instance_id s =
     (case map_of (slave_instances s) (target, instance_id) of
        None \<Rightarrow> False
      | Some source \<Rightarrow> ag_lease_state source \<in> {Lease_Expired, Lease_Released})"

text \<open>The first loop waits until the lease of the worker has ended; it hands on the ticks that are left.\<close>

fun await_lease_end ::
  "time \<Rightarrow> string \<Rightarrow> string \<Rightarrow> time \<Rightarrow> tick list \<Rightarrow> 'z slave_store_scheme \<Rightarrow> (tick list result \<times> 'z slave_store_scheme) option" where
  "await_lease_end ttl target instance_id deadline [] s = None"
| "await_lease_end ttl target instance_id deadline (k # ks) s =
     (case refresh_slaves (tk_now k) ttl None s of
        (Inl e, s1) \<Rightarrow> Some (Inl e, s1)
      | (Inr _, s1) \<Rightarrow>
          if lease_lost target instance_id s1 then Some (Inr ks, s1)
          else if tk_loop k \<ge> deadline then Some (Inl (RuntimeError ''node_recovery_exhausted''), s1)
          else await_lease_end ttl target instance_id deadline ks s1)"

definition target_missing :: "py_error \<Rightarrow> bool" where
  "target_missing e =
     (case e of
        RuntimeError m \<Rightarrow> m = ''node_target_unavailable''
      | ValueError m \<Rightarrow> m = ''node_target_unavailable''
      | DomainError code _ \<Rightarrow> code = ''node_target_unavailable''
      | _ \<Rightarrow> False)"

definition try_replacement ::
  "env \<Rightarrow> time \<Rightarrow> tick \<Rightarrow> string \<Rightarrow> dynamic_node \<Rightarrow> attempt \<Rightarrow> package_version \<Rightarrow> node_runtime \<Rightarrow> 'z slave_store_scheme \<Rightarrow>
   attempt result \<times> node_runtime \<times> 'z slave_store_scheme" where
  "try_replacement E ttl k run_id n a p rt s =
     (case map_of (runs s) run_id of
        None \<Rightarrow> (Inl (KeyError run_id), rt, s)
      | Some r \<Rightarrow>
          (case select_target E p (dn_capability_descriptor_ref n) r {at_target a} s rt of
             (Inl e, rt1) \<Rightarrow> (Inl e, rt1, s)
           | (Inr t, rt1) \<Rightarrow>
               (case reassign_dynamic_node E ttl (tk_now k) (tk_fresh k) run_id (dn_node_id n) (at_attempt_id a) (execution_name r)
                       (rn_execution_epoch r) t ''worker_lease_expired'' s of
                  (out, s1) \<Rightarrow> (out, rt1, s1))))"

fun await_replacement ::
  "env \<Rightarrow> time \<Rightarrow> string \<Rightarrow> dynamic_node \<Rightarrow> attempt \<Rightarrow> package_version \<Rightarrow> time \<Rightarrow> tick list \<Rightarrow> node_runtime \<Rightarrow> 'z slave_store_scheme \<Rightarrow>
   (attempt result \<times> node_runtime \<times> 'z slave_store_scheme) option" where
  "await_replacement E ttl run_id n a p deadline [] rt s = None"
| "await_replacement E ttl run_id n a p deadline (k # ks) rt s =
     (if tk_loop k \<ge> deadline then Some (Inl (RuntimeError ''node_recovery_exhausted''), rt, s)
      else (case refresh_slaves (tk_now k) ttl None s of
              (Inl e, s1) \<Rightarrow> Some (Inl e, rt, s1)
            | (Inr _, s1) \<Rightarrow>
                (case try_replacement E ttl k run_id n a p rt s1 of
                   (Inr b, rt1, s2) \<Rightarrow> Some (Inr b, rt1, s2)
                 | (Inl e, rt1, s2) \<Rightarrow>
                     if target_missing e then await_replacement E ttl run_id n a p deadline ks rt1 s2 else Some (Inl e, rt1, s2))))"

definition recover_attempt ::
  "env \<Rightarrow> time \<Rightarrow> string \<Rightarrow> dynamic_node \<Rightarrow> attempt \<Rightarrow> time \<Rightarrow> tick list \<Rightarrow> node_runtime \<Rightarrow> 'z slave_store_scheme \<Rightarrow>
   (attempt result \<times> node_runtime \<times> 'z slave_store_scheme) option" where
  "recover_attempt E ttl run_id n a deadline ks rt s =
     (case at_target_instance_id a of
        None \<Rightarrow> Some (Inl (KeyError ''target_instance_id''), rt, s)
      | Some instance_id \<Rightarrow>
          (case await_lease_end ttl (at_target a) instance_id deadline ks s of
             None \<Rightarrow> None
           | Some (Inl e, s1) \<Rightarrow> Some (Inl e, rt, s1)
           | Some (Inr rest, s1) \<Rightarrow>
               (case get_capability_package (By_Ref (dn_package_ref n)) (Some run_id) s1 of
                  Inl e \<Rightarrow> Some (Inl e, rt, s1)
                | Inr p \<Rightarrow> await_replacement E ttl run_id n a p deadline rest rt s1)))"

section \<open>Execution of a node\<close>

text \<open>One round of the execution loop has its surroundings, the ticks of its recovery and its deadline.\<close>

record round =
  ro_io :: attempt_io
  ro_ticks :: "tick list"
  ro_deadline :: time

fun execute_rounds ::
  "env \<Rightarrow> time \<Rightarrow> string \<Rightarrow> dynamic_node \<Rightarrow> attempt \<Rightarrow> round list \<Rightarrow> node_runtime \<Rightarrow> 'z slave_store_scheme \<Rightarrow>
   (resource_ref result \<times> node_runtime \<times> 'z slave_store_scheme) option" where
  "execute_rounds E ttl run_id n a [] rt s = None"
| "execute_rounds E ttl run_id n a (x # xs) rt s =
     (case execute_node_attempt (ro_io x) run_id n a rt s of
        (Inr ref, rt1, s1) \<Rightarrow> Some (Inr ref, rt1, s1)
      | (Inl (Worker_Error e), rt1, s1) \<Rightarrow> Some (Inl e, rt1, s1)
      | (Inl (Worker_Unavailable _), rt1, s1) \<Rightarrow>
          (case recover_attempt E ttl run_id n a (ro_deadline x) (ro_ticks x) rt1 s1 of
             None \<Rightarrow> None
           | Some (Inl e, rt2, s2) \<Rightarrow> Some (Inl e, rt2, s2)
           | Some (Inr b, rt2, s2) \<Rightarrow> execute_rounds E ttl run_id n b xs rt2 s2))"

text \<open>The attempt to start with: a fresh one, or the active one, replaced when its worker is lost.\<close>

definition node_attempts :: "dynamic_node \<Rightarrow> run_record \<Rightarrow> attempt list" where
  "node_attempts n r = filter (\<lambda>a. at_node_id a = Some (dn_node_id n)) (rn_attempts r)"

definition first_attempt ::
  "env \<Rightarrow> time \<Rightarrow> string \<Rightarrow> dynamic_node \<Rightarrow> string \<Rightarrow> tick \<Rightarrow> time \<Rightarrow> tick list \<Rightarrow> node_runtime \<Rightarrow> 'z slave_store_scheme \<Rightarrow>
   (attempt result \<times> node_runtime \<times> 'z slave_store_scheme) option" where
  "first_attempt E ttl run_id n target k deadline ks rt s =
     (case map_of (runs s) run_id of
        None \<Rightarrow> Some (Inl (KeyError run_id), rt, s)
      | Some r \<Rightarrow>
          if dn_state n = Node_Accepted
          then (case dispatch_dynamic_node E ttl (tk_now k) (tk_fresh k) run_id (dn_node_id n) target s of (out, s1) \<Rightarrow> Some (out, rt, s1))
          else if dn_state n = Node_Dispatched
          then (case find_last attempt_active (node_attempts n r) of
                  None \<Rightarrow> Some (Inl (RuntimeError ''dynamic_node_not_dispatchable''), rt, s)
                | Some a \<Rightarrow>
                    (case refresh_slaves (tk_now k) ttl None s of
                       (Inl e, s1) \<Rightarrow> Some (Inl e, rt, s1)
                     | (Inr _, s1) \<Rightarrow>
                         (case at_target_instance_id a of
                            None \<Rightarrow> Some (Inl (KeyError ''target_instance_id''), rt, s1)
                          | Some i \<Rightarrow> if lease_lost (at_target a) i s1 then recover_attempt E ttl run_id n a deadline ks rt s1
                                     else Some (Inr a, rt, s1))))
          else Some (Inl (RuntimeError ''dynamic_node_not_dispatchable''), rt, s))"

definition error_text :: "py_error \<Rightarrow> string" where
  "error_text e = (if error_message e = [] then ''dynamic_node_failed'' else error_message e)"

definition fail_node :: "time \<Rightarrow> string \<Rightarrow> dynamic_node \<Rightarrow> py_error \<Rightarrow> 'z slave_store_scheme \<Rightarrow> 'z slave_store_scheme" where
  "fail_node now run_id n e s =
     (case map_of (runs s) run_id of
        None \<Rightarrow> s
      | Some r \<Rightarrow>
          snd (fail_dynamic_node now run_id (dn_node_id n)
                 (case node_attempts n r of [] \<Rightarrow> None | as \<Rightarrow> Some (at_attempt_id (last as)))
                 (Some [(''code'', JStr (error_text e))]) s))"

definition execute_node ::
  "env \<Rightarrow> time \<Rightarrow> string \<Rightarrow> dynamic_node \<Rightarrow> string \<Rightarrow> tick \<Rightarrow> time \<Rightarrow> tick list \<Rightarrow> round list \<Rightarrow> time \<Rightarrow> node_runtime \<Rightarrow> 'z slave_store_scheme \<Rightarrow>
   (resource_ref result \<times> node_runtime \<times> 'z slave_store_scheme) option" where
  "execute_node E ttl run_id n target k deadline ks rounds fail_now rt s =
     (let failed = (\<lambda>e rt1 s1. Some (Inl (RuntimeError ''dynamic_node_failed''), rt1, fail_node fail_now run_id n e s1)) in
      case first_attempt E ttl run_id n target k deadline ks rt s of
        None \<Rightarrow> None
      | Some (Inl e, rt1, s1) \<Rightarrow> failed e rt1 s1
      | Some (Inr a, rt1, s1) \<Rightarrow>
          (case execute_rounds E ttl run_id n a rounds rt1 s1 of
             None \<Rightarrow> None
           | Some (Inl e, rt2, s2) \<Rightarrow> failed e rt2 s2
           | Some (Inr ref, rt2, s2) \<Rightarrow> Some (Inr ref, rt2, s2)))"

section \<open>What a recovery does\<close>

text \<open>While a recovery waits, the store changes only by refreshing the Slaves.\<close>

inductive refreshed :: "time \<Rightarrow> 'z slave_store_scheme \<Rightarrow> 'z slave_store_scheme \<Rightarrow> bool" for ttl where
  here: "refreshed ttl s s"
| next_view: "refresh_slaves now ttl w s = (out, s1) \<Longrightarrow> refreshed ttl s1 s2 \<Longrightarrow> refreshed ttl s s2"

lemma refreshed_one: "refresh_slaves now ttl w s = (out, s1) \<Longrightarrow> refreshed ttl s s1"
  by (blast intro: refreshed.intros)

lemma refreshed_trans: "refreshed ttl s s1 \<Longrightarrow> refreshed ttl s1 s2 \<Longrightarrow> refreshed ttl s s2"
  by (induction rule: refreshed.induct) (auto intro: refreshed.intros)

lemma refreshed_runs: "refreshed ttl s s1 \<Longrightarrow> runs s1 = runs s"
  by (induction rule: refreshed.induct) (auto dest: refresh_frame)

lemma await_lease_endD:
  assumes "await_lease_end ttl target i deadline ks s = Some (Inr rest, s1)"
  shows "lease_lost target i s1" and "set rest \<subseteq> set ks" and "refreshed ttl s s1"
proof -
  have "lease_lost target i s1 \<and> set rest \<subseteq> set ks \<and> refreshed ttl s s1" using assms
  proof (induction ttl target i deadline ks s rule: await_lease_end.induct)
    case (2 ttl target i deadline k ks s)
    then obtain ags s0 where ref: "refresh_slaves (tk_now k) ttl None s = (Inr ags, s0)" by (auto split: prod.splits sum.splits)
    with 2 show ?case by (auto intro: refreshed_one refreshed.next_view [OF ref] split: if_splits)
  qed simp
  then show "lease_lost target i s1" "set rest \<subseteq> set ks" "refreshed ttl s s1" by auto
qed

lemma reassign_error_refreshed:
  assumes "reassign_dynamic_node E ttl now fresh run_id node_id old_id x ep target why s = (Inl e, s1)"
  shows "refreshed ttl s s1"
proof -
  have "s1 = s \<or> (\<exists>w out. refresh_slaves now ttl w s = (out, s1))"
    using assms by (auto simp: reassign_dynamic_node_def with_run_def Let_def split: option.splits sum.splits prod.splits if_splits)
  then show ?thesis using refreshed.here refreshed_one by blast
qed

lemma try_replacement_error_refreshed:
  assumes "try_replacement E ttl k run_id n a p rt s = (Inl e, rt1, s1)"
  shows "refreshed ttl s s1"
  using assms by (auto simp: try_replacement_def intro: refreshed.here reassign_error_refreshed split: option.splits prod.splits sum.splits)

lemma try_replacement_frame:
  assumes "try_replacement E ttl k run_id n a p rt s = (out, rt1, s1)"
  shows "connected rt1 = connected rt"
  using assms by (auto simp: try_replacement_def dest: select_target_frame split: option.splits prod.splits sum.splits)

definition replaced_by ::
  "env \<Rightarrow> time \<Rightarrow> tick \<Rightarrow> string \<Rightarrow> dynamic_node \<Rightarrow> attempt \<Rightarrow> package_version \<Rightarrow> node_runtime \<Rightarrow> attempt \<Rightarrow> 'z slave_store_scheme \<Rightarrow> 'z slave_store_scheme \<Rightarrow> bool" where
  "replaced_by E ttl k run_id n a p rt b s s' =
     (\<exists>r t. map_of (runs s) run_id = Some r \<and> t \<noteq> at_target a \<and> slave_supports_package E t p s \<and> connected rt t \<and>
        reassign_dynamic_node E ttl (tk_now k) (tk_fresh k) run_id (dn_node_id n) (at_attempt_id a) (execution_name r) (rn_execution_epoch r) t
          ''worker_lease_expired'' s = (Inr b, s'))"

lemma try_replacementD:
  assumes "try_replacement E ttl k run_id n a p rt s = (Inr b, rt1, s1)"
  shows "replaced_by E ttl k run_id n a p rt b s s1"
proof -
  obtain r t where "map_of (runs s) run_id = Some r"
    and sel: "select_target E p (dn_capability_descriptor_ref n) r {at_target a} s rt = (Inr t, rt1)"
    and "reassign_dynamic_node E ttl (tk_now k) (tk_fresh k) run_id (dn_node_id n) (at_attempt_id a) (execution_name r)
           (rn_execution_epoch r) t ''worker_lease_expired'' s = (Inr b, s1)"
    using assms by (auto simp: try_replacement_def split: option.splits prod.splits sum.splits)
  with select_target_available(1) [OF sel] show ?thesis by (auto simp: replaced_by_def available_iff)
qed

lemma await_replacementD:
  assumes "await_replacement E ttl run_id n a p deadline ks rt s = Some (Inr b, rt', s')"
  shows "\<exists>k\<in>set ks. \<exists>s1. tk_loop k < deadline \<and> refreshed ttl s s1 \<and> replaced_by E ttl k run_id n a p rt b s1 s'"
  using assms
proof (induction E ttl run_id n a p deadline ks rt s rule: await_replacement.induct)
  case (2 E ttl run_id n a p deadline k ks rt s)
  then obtain s1 ags where soon: "tk_loop k < deadline" and ref: "refresh_slaves (tk_now k) ttl None s = (Inr ags, s1)"
    by (auto split: if_splits prod.splits sum.splits)
  obtain out rt1 s2 where try_: "try_replacement E ttl k run_id n a p rt s1 = (out, rt1, s2)" by (metis prod_cases3)
  show ?case
  proof (cases out)
    case (Inr c)
    with 2(2) soon ref try_ have "c = b" "s2 = s'" by simp_all
    with try_replacementD [OF try_ [unfolded Inr]] soon refreshed_one [OF ref] show ?thesis by auto
  next
    case (Inl e)
    with 2(2) soon ref try_ have "target_missing e" "await_replacement E ttl run_id n a p deadline ks rt1 s2 = Some (Inr b, rt', s')"
      by (auto split: if_splits)
    moreover have "\<not> deadline \<le> tk_loop k" using soon by simp
    ultimately obtain k' s3 where "k' \<in> set ks" "tk_loop k' < deadline" and s3: "refreshed ttl s2 s3"
      and repl: "replaced_by E ttl k' run_id n a p rt1 b s3 s'"
      using 2(1) [OF _ ref [symmetric] refl try_ [symmetric] Inl refl] by blast
    moreover have "refreshed ttl s s3"
      by (rule refreshed_trans [OF refreshed_one [OF ref] refreshed_trans [OF try_replacement_error_refreshed [OF try_ [unfolded Inl]] s3]])
    moreover have "replaced_by E ttl k' run_id n a p rt b s3 s'"
      using repl unfolding replaced_by_def try_replacement_frame [OF try_] .
    ultimately show ?thesis by auto
  qed
qed simp

text \<open>
  Claim C24. A recovery replaces an attempt only when the Observer has seen the lease of its worker end,
  before its deadline, and on another Slave, which supports the package and to which the Driver is
  connected. Until then it has only refreshed the view of the Slaves, and every Run is as it was; the
  replacement is the answer of the Observer's reassignment, in the execution and epoch of the Run.
\<close>

theorem recovery_replaces_lost:
  fixes s :: "'z slave_store_scheme"
  assumes "recover_attempt E ttl run_id n a deadline ks rt s = Some (Inr b, rt', s')"
  shows "\<exists>i (s1 :: 'z slave_store_scheme) p k s2. at_target_instance_id a = Some i \<and> refreshed ttl s s1 \<and> lease_lost (at_target a) i s1 \<and>
           get_capability_package (By_Ref (dn_package_ref n)) (Some run_id) s1 = Inr p \<and> refreshed ttl s1 s2 \<and> runs s2 = runs s \<and>
           k \<in> set ks \<and> tk_loop k < deadline \<and> replaced_by E ttl k run_id n a p rt b s2 s'"
proof -
  obtain i rest s1 p where i: "at_target_instance_id a = Some i"
    and lost: "await_lease_end ttl (at_target a) i deadline ks s = Some (Inr rest, s1)"
    and p: "get_capability_package (By_Ref (dn_package_ref n)) (Some run_id) s1 = Inr p"
    and repl: "await_replacement E ttl run_id n a p deadline rest rt s1 = Some (Inr b, rt', s')"
    using assms by (auto simp: recover_attempt_def split: option.splits sum.splits prod.splits)
  obtain k s2 where "k \<in> set rest" "tk_loop k < deadline" and s2: "refreshed ttl s1 s2" and "replaced_by E ttl k run_id n a p rt b s2 s'"
    using await_replacementD [OF repl] by blast
  moreover have "runs s2 = runs s" using refreshed_runs [OF s2] refreshed_runs [OF await_lease_endD(3) [OF lost]] by simp
  ultimately show ?thesis using await_lease_endD [OF lost] i p by blast
qed

text \<open>
  Claim C27. A recovery returns: once each of its two loops can read the clock at or after the deadline,
  it has ended with a replacement or an error.
\<close>

theorem recovery_returns:
  assumes "deadline \<le> tk_loop u" and "deadline \<le> tk_loop v"
  shows "\<exists>out. recover_attempt E ttl run_id n a deadline (ks @ [u, v]) rt s = Some out"
proof -
  have one: "\<exists>out s1. await_lease_end ttl x i deadline (ks @ [u, v]) s0 = Some (out, s1) \<and> (\<forall>rest. out = Inr rest \<longrightarrow> v \<in> set rest)" for x i s0
    using assms(1) by (induction ks arbitrary: s0) (auto split: prod.split sum.split)
  have two: "\<exists>out. await_replacement E ttl run_id n a p deadline rest rt0 s0 = Some out" if "v \<in> set rest" for p rest rt0 s0
    using that assms(2) by (induction rest arbitrary: rt0 s0) (auto split: prod.split sum.split)
  show ?thesis
  proof (cases "at_target_instance_id a")
    case (Some i)
    obtain out s1 where out: "await_lease_end ttl (at_target a) i deadline (ks @ [u, v]) s = Some (out, s1)" "\<forall>rest. out = Inr rest \<longrightarrow> v \<in> set rest"
      using one by blast
    with Some two show ?thesis by (cases out) (auto simp: recover_attempt_def split: sum.split)
  qed (simp add: recover_attempt_def)
qed

text \<open>
  The loops refresh the Slaves without naming a workspace, which the Observer reads as its default one.
\<close>

lemma refresh_elsewhere:
  assumes "\<forall>k \<in> fst ` set (agents s). fst k \<noteq> default_workspace"
  shows "\<exists>s1. refresh_slaves now ttl None s = (Inr [], s1) \<and> slave_instances s1 = [] \<and> fst ` set (agents s1) = fst ` set (agents s)"
proof -
  let ?ags = "expire_stale now ttl default_workspace (Some Slave) (agents s)"
  have keys: "fst ` set ?ags = fst ` set (agents s)" by (simp add: expire_stale_def flip: set_map)
  then have "filter (\<lambda>(k, a). fst k = default_workspace \<and> (Some Slave = None \<or> Some Slave = Some (fst (snd k)))) ?ags = []"
    using assms unfolding filter_empty_conv by (metis (mono_tags, lifting) case_prod_beta image_eqI)
  then have "list_agents now ttl default_workspace (Some Slave) s = ([], s\<lparr>agents := ?ags\<rparr>)" by (simp add: list_agents_def Let_def)
  then show ?thesis using keys
    by (simp add: refresh_slaves_def nonempty_def store_slave_snapshot_def select_slave_agents_def project_ready_capabilities_def Let_def)
qed

text \<open>
  Claim C40. With an embedded Observer and no agent in the default workspace, a lost attempt is never
  replaced: whatever the leases in the workspace of the Run, the recovery waits until its deadline and
  ends exhausted.
\<close>

theorem foreign_workspace_unrecoverable:
  assumes "\<forall>k \<in> fst ` set (agents s). fst k \<noteq> default_workspace" and "at_target_instance_id a = Some i"
    and "list_ex (\<lambda>k. deadline \<le> tk_loop k) ks"
  shows "\<exists>s'. recover_attempt E ttl run_id n a deadline ks rt s = Some (Inl (RuntimeError ''node_recovery_exhausted''), rt, s')"
proof -
  have "\<exists>s'. await_lease_end ttl (at_target a) i deadline ks s = Some (Inl (RuntimeError ''node_recovery_exhausted''), s')"
    using assms(1,3)
  proof (induction ks arbitrary: s)
    case (Cons k ks)
    obtain s1 where s1: "refresh_slaves (tk_now k) ttl None s = (Inr [], s1)" "slave_instances s1 = []"
      "fst ` set (agents s1) = fst ` set (agents s)" using refresh_elsewhere [OF Cons.prems(1)] by blast
    have "\<not> lease_lost (at_target a) i s1" by (simp add: lease_lost_def s1(2))
    with s1 Cons.IH [of s1] Cons.prems show ?case by (cases "deadline \<le> tk_loop k") simp_all
  qed simp
  then show ?thesis by (auto simp: recover_attempt_def assms(2))
qed

section \<open>A lost worker\<close>

definition demo_home_run :: run_record where
  "demo_home_run = demo_lost_run\<lparr>rn_closure_contract := Some (demo_contract\<lparr>cc_workspace_id := default_workspace,
     cc_recovery_policy := [(''allow_reassignment'', JBool True)]\<rparr>)\<rparr>"

definition demo_home_store :: slave_store where
  "demo_home_store = demo_p0\<lparr>runs := [(''r'', demo_home_run)],
     agents := [((default_workspace, Slave, ''s'', ''i''), demo_worker\<lparr>ag_lease_state := Lease_Expired\<rparr>),
                ((default_workspace, Slave, ''t'', ''j''), demo_worker\<lparr>ag_agent_id := ''t'', ag_instance_id := ''j''\<rparr>)]\<rparr>"

definition demo_lost :: attempt where
  "demo_lost = node_attempt ''a1'' (dn_node_id demo_node) ''s'' demo_worker 1 None"

definition demo_tick :: "time \<Rightarrow> tick" where
  "demo_tick t = \<lparr>tk_now = 1, tk_loop = t, tk_fresh = ''a2''\<rparr>"

definition demo_pair :: node_runtime where
  "demo_pair = demo_runtime\<lparr>nx_workers := [''s'', ''t'']\<rparr>"

lemma demo_recovered:
  "case recover_attempt demo_env2 30000000 ''r'' demo_node demo_lost 9 [demo_tick 1, demo_tick 2] demo_pair demo_home_store of
     Some (Inr b, _) \<Rightarrow> at_attempt_id b = ''a2'' | _ \<Rightarrow> False"
  by code_simp

theorem recovery_replaces_lost_witness:
  "\<exists>b rt' s' i (s1 :: slave_store) p k s2.
     recover_attempt demo_env2 30000000 ''r'' demo_node demo_lost 9 [demo_tick 1, demo_tick 2] demo_pair demo_home_store = Some (Inr b, rt', s') \<and>
     refreshed 30000000 demo_home_store s1 \<and> lease_lost ''s'' i s1 \<and> refreshed 30000000 s1 s2 \<and> runs s2 = runs demo_home_store \<and>
     tk_loop k < 9 \<and> replaced_by demo_env2 30000000 k ''r'' demo_node demo_lost p demo_pair b s2 s'"
proof -
  have [simp]: "at_target demo_lost = ''s''" by code_simp
  obtain b rt' s' where ok: "recover_attempt demo_env2 30000000 ''r'' demo_node demo_lost 9 [demo_tick 1, demo_tick 2] demo_pair demo_home_store = Some (Inr b, rt', s')"
    using demo_recovered by (auto split: option.splits sum.splits prod.splits)
  from recovery_replaces_lost [OF ok] ok show ?thesis unfolding \<open>at_target demo_lost = ''s''\<close> by blast
qed

theorem recovery_returns_witness:
  "\<exists>out. recover_attempt demo_env2 30000000 ''r'' demo_node demo_lost 9 ([demo_tick 1] @ [demo_tick 9, demo_tick 10]) demo_pair demo_home_store = Some out"
  by (rule recovery_returns) (simp_all add: demo_tick_def)

theorem foreign_workspace_unrecoverable_witness:
  "\<exists>s'. recover_attempt demo_env2 30000000 ''r'' demo_node demo_lost 9 [demo_tick 1, demo_tick 9] demo_pair demo_lost_store =
     Some (Inl (RuntimeError ''node_recovery_exhausted''), demo_pair, s')"
proof (rule foreign_workspace_unrecoverable)
  show "\<forall>k \<in> fst ` set (agents demo_lost_store). fst k \<noteq> default_workspace" by (simp add: demo_lost_store_def default_workspace_def)
  show "at_target_instance_id demo_lost = Some ''i''" by code_simp
qed (simp add: demo_tick_def)

end
