(* ===== verification/Turns.thy ===== *)
theory Turns
  imports Prelude "HOL-Library.Sublist"
begin

text \<open>
  The turn coordinator of a Driver (\<^verbatim>\<open>driver/coordinator.py\<close>): turns of one conversation run in the order
  of their submission, and all conversations share one lane to the coding agent.

  The code is a set of coroutines on one event loop. Each definition below is one segment between two
  \<^verbatim>\<open>await\<close>s, which nothing interrupts; \<open>turn_step\<close> interleaves them. A worker of a conversation is
  where its coroutine waits: at the head of its loop, for the lane, for the provider to begin a turn,
  for the turn itself, or for the provider to end it. A turn object and its future are named by a
  number, the order of enqueuing. A context is its turn, the epoch and the interruption flag; the workspace
  and the owner generation are constants of the coordinator, and the thread, process and buffers of a
  context belong to the provider. The provider, the control client and the turn executor appear as the
  values that their calls return.
\<close>

section \<open>State\<close>

record turn =
  tn_object :: nat
  tn_request_id :: string
  tn_conversation_ref :: string
  tn_prompt :: string
  tn_claim_token :: string

record turn_context =
  cx_turn :: turn
  cx_driver_epoch :: nat
  cx_interrupt_requested :: bool

datatype future = Unresolved | Resolved json | Failed py_error | Cancelled

datatype worker =
    Absent
  | At_Loop
  | Awaiting_Lane turn
  | Beginning turn
  | Executing turn turn_context
  | Ending turn

record coordinator =
  co_driver_epoch :: nat
  co_manage_provider_context :: bool
  co_lane :: "string option"
  co_queues :: "string \<Rightarrow> turn list"
  co_workers :: "string \<Rightarrow> worker"
  co_active :: "string \<Rightarrow> turn_context option"
  co_waiting :: "string \<Rightarrow> turn option"
  co_pending_by_request :: "string \<Rightarrow> nat option"
  co_submitting :: "string \<Rightarrow> bool"
  co_completed :: "string \<Rightarrow> json option"
  co_cancelled :: "nat \<Rightarrow> bool"
  co_futures :: "nat \<Rightarrow> future"
  co_shutdown :: bool
  co_next :: nat

definition new_coordinator :: "nat \<Rightarrow> bool \<Rightarrow> coordinator" where
  "new_coordinator epoch managed =
     \<lparr>co_driver_epoch = epoch, co_manage_provider_context = managed, co_lane = None, co_queues = (\<lambda>_. []), co_workers = (\<lambda>_. Absent),
      co_active = (\<lambda>_. None), co_waiting = (\<lambda>_. None), co_pending_by_request = (\<lambda>_. None), co_submitting = (\<lambda>_. False),
      co_completed = (\<lambda>_. None), co_cancelled = (\<lambda>_. False), co_futures = (\<lambda>_. Unresolved), co_shutdown = False, co_next = 0\<rparr>"

definition resolve :: "nat \<Rightarrow> future \<Rightarrow> coordinator \<Rightarrow> coordinator" where
  "resolve i outcome c =
     (if co_futures c i = Unresolved then c\<lparr>co_futures := (co_futures c)(i := outcome)\<rparr> else c)"

definition set_worker :: "string \<Rightarrow> worker \<Rightarrow> coordinator \<Rightarrow> coordinator" where
  "set_worker k w c = c\<lparr>co_workers := (co_workers c)(k := w)\<rparr>"

section \<open>Submission\<close>

text \<open>
  The answer of a submission: a finished outcome, the answer of a claim that another owner holds, or
  the future to wait for. Up to the claim, the submissions of one request hold its lock.
\<close>

datatype submission = Finished json | Foreign json | Shared nat

definition enqueue :: "string \<Rightarrow> string \<Rightarrow> string \<Rightarrow> string \<Rightarrow> coordinator \<Rightarrow> submission \<times> coordinator" where
  "enqueue request_id conversation_ref prompt claim_token c =
     (let t = \<lparr>tn_object = co_next c, tn_request_id = request_id, tn_conversation_ref = conversation_ref, tn_prompt = prompt,
               tn_claim_token = claim_token\<rparr>;
          c1 = c\<lparr>co_next := co_next c + 1, co_pending_by_request := (co_pending_by_request c)(request_id := Some (co_next c)),
                 co_queues := (co_queues c)(conversation_ref := co_queues c conversation_ref @ [t])\<rparr>
      in (Shared (co_next c),
          if co_workers c conversation_ref = Absent then set_worker conversation_ref At_Loop c1 else c1))"

definition begin_submit ::
  "bool \<Rightarrow> string \<Rightarrow> string \<Rightarrow> string \<Rightarrow> string \<Rightarrow> coordinator \<Rightarrow> submission option \<times> coordinator" where
  "begin_submit has_control request_id conversation_ref prompt claim_token c =
     (case co_completed c request_id of
        Some outcome \<Rightarrow> (Some (Finished outcome), c)
      | None \<Rightarrow>
          (case co_pending_by_request c request_id of
             Some i \<Rightarrow> (Some (Shared i), c)
           | None \<Rightarrow>
               if has_control then (None, c\<lparr>co_submitting := (co_submitting c)(request_id := True)\<rparr>)
               else (case enqueue request_id conversation_ref prompt claim_token c of (s, c1) \<Rightarrow> (Some s, c1))))"

text \<open>After the claim: the state and the token of the answer, each the empty string when it is missing.\<close>

definition finish_submit ::
  "string \<Rightarrow> string \<Rightarrow> string \<Rightarrow> string \<Rightarrow> dict \<Rightarrow> string \<Rightarrow> string \<Rightarrow> coordinator \<Rightarrow> submission \<times> coordinator" where
  "finish_submit request_id conversation_ref prompt claim_token claim claim_state claimed_token c0 =
     (let c = c0\<lparr>co_submitting := (co_submitting c0)(request_id := False)\<rparr> in
      if claim_state \<in> {''completed'', ''failed'', ''interrupted''}
      then (Finished (JObj claim), c\<lparr>co_completed := (co_completed c)(request_id := Some (JObj claim))\<rparr>)
      else if claim_state = ''in_flight'' \<and> dget claim ''claim_token'' \<noteq> JStr claim_token then (Foreign (JObj claim), c)
      else enqueue request_id conversation_ref prompt (if claimed_token \<noteq> [] then claimed_token else claim_token) c)"

section \<open>The worker of a conversation\<close>

text \<open>The head of the loop: it ends on shutdown or with an empty queue, and takes the next turn otherwise.\<close>

definition take_turn :: "string \<Rightarrow> coordinator \<Rightarrow> coordinator" where
  "take_turn k c =
     (if co_shutdown c then set_worker k Absent c
      else (case co_queues c k of
              [] \<Rightarrow> set_worker k Absent c
            | t # ts \<Rightarrow> set_worker k (Awaiting_Lane t)
                (c\<lparr>co_queues := (co_queues c)(k := ts), co_waiting := (co_waiting c)(k := Some t)\<rparr>)))"

definition new_context :: "turn \<Rightarrow> coordinator \<Rightarrow> turn_context" where
  "new_context t c = \<lparr>cx_turn = t, cx_driver_epoch = co_driver_epoch c, cx_interrupt_requested = False\<rparr>"

definition activate :: "string \<Rightarrow> turn \<Rightarrow> coordinator \<Rightarrow> coordinator" where
  "activate k t c =
     set_worker k (Executing t (new_context t c))
       (c\<lparr>co_waiting := (co_waiting c)(k := None), co_active := (co_active c)(k := Some (new_context t c))\<rparr>)"

text \<open>The end of the \<^verbatim>\<open>finally\<close> clause, with the release of the lane.\<close>

definition leave_turn :: "string \<Rightarrow> turn \<Rightarrow> coordinator \<Rightarrow> coordinator" where
  "leave_turn k t c =
     set_worker k At_Loop
       (c\<lparr>co_pending_by_request := (co_pending_by_request c)(tn_request_id t := None),
          co_waiting := (if co_waiting c k = Some t then (co_waiting c)(k := None) else co_waiting c), co_lane := None\<rparr>)"

definition enter_lane :: "string \<Rightarrow> turn \<Rightarrow> coordinator \<Rightarrow> coordinator" where
  "enter_lane k t c =
     (let c1 = c\<lparr>co_lane := Some k\<rparr> in
      if co_cancelled c (tn_object t) then leave_turn k t c1
      else if co_manage_provider_context c then set_worker k (Beginning t) c1
      else activate k t c1)"

definition begin_failed :: "string \<Rightarrow> turn \<Rightarrow> py_error \<Rightarrow> coordinator \<Rightarrow> coordinator" where
  "begin_failed k t e c = leave_turn k t (resolve (tn_object t) (Failed e) c)"

definition end_active :: "string \<Rightarrow> turn \<Rightarrow> coordinator \<Rightarrow> coordinator" where
  "end_active k t c = set_worker k (Ending t) (c\<lparr>co_active := (co_active c)(k := None)\<rparr>)"

definition finish_turn :: "string \<Rightarrow> turn \<Rightarrow> json result \<Rightarrow> coordinator \<Rightarrow> coordinator" where
  "finish_turn k t outcome c =
     (case outcome of
        Inr v \<Rightarrow> end_active k t (resolve (tn_object t) (Resolved v) (c\<lparr>co_completed := (co_completed c)(tn_request_id t := Some v)\<rparr>))
      | Inl e \<Rightarrow> end_active k t (resolve (tn_object t) (Failed e) c))"

section \<open>Interruption and shutdown\<close>

definition interrupted_outcome :: "string \<Rightarrow> turn \<Rightarrow> json" where
  "interrupted_outcome k t =
     JObj [(''conversation_ref'', JStr k), (''request_id'', JStr (tn_request_id t)), (''status'', JStr ''interrupted'')]"

definition interrupt_pending :: "string \<Rightarrow> turn \<Rightarrow> coordinator \<Rightarrow> json result \<times> coordinator" where
  "interrupt_pending k t c =
     (Inr (interrupted_outcome k t),
      (resolve (tn_object t) (Resolved (interrupted_outcome k t)) c)
        \<lparr>co_pending_by_request := (co_pending_by_request c)(tn_request_id t := None)\<rparr>)"

definition mark_interrupted :: "string \<Rightarrow> turn_context \<Rightarrow> coordinator \<Rightarrow> coordinator" where
  "mark_interrupted k cx c =
     (let cx' = cx\<lparr>cx_interrupt_requested := True\<rparr> in
      c\<lparr>co_active := (co_active c)(k := Some cx'),
        co_workers := (case co_workers c k of Executing t _ \<Rightarrow> (co_workers c)(k := Executing t cx') | _ \<Rightarrow> co_workers c)\<rparr>)"

definition interrupt :: "string \<Rightarrow> coordinator \<Rightarrow> json result \<times> coordinator" where
  "interrupt k c =
     (case co_active c k of
        Some cx \<Rightarrow>
          if cx_driver_epoch cx \<noteq> co_driver_epoch c then (Inl (RuntimeError ''stale_driver_epoch''), c)
          else (Inr (JObj [(''conversation_ref'', JStr k), (''request_id'', JStr (tn_request_id (cx_turn cx))),
                           (''status'', JStr ''interrupt_requested'')]), mark_interrupted k cx c)
      | None \<Rightarrow>
          (case co_queues c k of
             t # ts \<Rightarrow> interrupt_pending k t (c\<lparr>co_queues := (co_queues c)(k := ts)\<rparr>)
           | [] \<Rightarrow>
               (case co_waiting c k of
                  Some t \<Rightarrow>
                    interrupt_pending k t (c\<lparr>co_cancelled := (co_cancelled c)(tn_object t := True), co_waiting := (co_waiting c)(k := None)\<rparr>)
                | None \<Rightarrow> (Inl (ValueError ''conversation_not_active''), c))))"

definition shutdown :: "coordinator \<Rightarrow> coordinator" where
  "shutdown c = c\<lparr>co_shutdown := True\<rparr>"

text \<open>
  The cancellation that \<^verbatim>\<open>shutdown\<close> delivers to a worker where it waits. Inside the lane the future of its
  turn is cancelled; before the lane the error leaves the loop at once.
\<close>

definition cancel_worker :: "string \<Rightarrow> coordinator \<Rightarrow> coordinator" where
  "cancel_worker k c =
     (case co_workers c k of
        Beginning t \<Rightarrow> set_worker k Absent (leave_turn k t (resolve (tn_object t) Cancelled c))
      | Executing t cx \<Rightarrow>
          set_worker k Absent (leave_turn k t ((resolve (tn_object t) Cancelled c)\<lparr>co_active := (co_active c)(k := None)\<rparr>))
      | Ending t \<Rightarrow> set_worker k Absent (leave_turn k t c)
      | _ \<Rightarrow> set_worker k Absent c)"

section \<open>Interleaving\<close>

datatype turn_event = Started turn | Quiet

text \<open>A step is labelled with the turn whose execution it leaves the worker in.\<close>

definition entered :: "string \<Rightarrow> coordinator \<Rightarrow> turn_event" where
  "entered k c = (case co_workers c k of Executing t cx \<Rightarrow> Started t | _ \<Rightarrow> Quiet)"

inductive turn_step :: "coordinator \<Rightarrow> turn_event \<Rightarrow> coordinator \<Rightarrow> bool" where
  step_submit: "\<not> co_submitting c r \<Longrightarrow> turn_step c Quiet (snd (begin_submit has_control r k prompt token c))"
| step_claimed: "co_submitting c r \<Longrightarrow> turn_step c Quiet (snd (finish_submit r k prompt token claim state token' c))"
| step_take: "co_workers c k = At_Loop \<Longrightarrow> turn_step c Quiet (take_turn k c)"
| step_enter: "co_workers c k = Awaiting_Lane t \<Longrightarrow> co_lane c = None \<Longrightarrow>
    turn_step c (entered k (enter_lane k t c)) (enter_lane k t c)"
| step_begun: "co_workers c k = Beginning t \<Longrightarrow> turn_step c (entered k (activate k t c)) (activate k t c)"
| step_begin_failed: "co_workers c k = Beginning t \<Longrightarrow> turn_step c Quiet (begin_failed k t e c)"
| step_finish: "co_workers c k = Executing t cx \<Longrightarrow> turn_step c Quiet (finish_turn k t outcome c)"
| step_ended: "co_workers c k = Ending t \<Longrightarrow> turn_step c Quiet (leave_turn k t c)"
| step_interrupt: "turn_step c Quiet (snd (interrupt k c))"
| step_shutdown: "turn_step c Quiet (shutdown c)"
| step_cancel: "co_shutdown c \<Longrightarrow> turn_step c Quiet (cancel_worker k c)"

inductive turn_run :: "coordinator \<Rightarrow> turn_event list \<Rightarrow> coordinator \<Rightarrow> bool" where
  run_none: "turn_run c [] c"
| run_more: "turn_run c es c1 \<Longrightarrow> turn_step c1 e c2 \<Longrightarrow> turn_run c (es @ [e]) c2"

inductive_cases turn_stepE: "turn_step c e c'"

lemma entered_simps [simp]:
  "entered k (enter_lane k t c) = (if co_cancelled c (tn_object t) \<or> co_manage_provider_context c then Quiet else Started t)"
  "entered k (activate k t c) = Started t"
  by (simp_all add: entered_def enter_lane_def leave_turn_def activate_def set_worker_def Let_def)

section \<open>The lane\<close>

fun in_lane :: "worker \<Rightarrow> bool" where
  "in_lane (Beginning t) = True"
| "in_lane (Executing t cx) = True"
| "in_lane (Ending t) = True"
| "in_lane w = False"

fun running :: "worker \<Rightarrow> turn_context option" where
  "running (Executing t cx) = Some cx"
| "running w = None"

text \<open>The turns that a worker has taken and not started.\<close>

fun taken :: "worker \<Rightarrow> turn list" where
  "taken (Awaiting_Lane t) = [t]"
| "taken (Beginning t) = [t]"
| "taken w = []"

definition upcoming :: "coordinator \<Rightarrow> string \<Rightarrow> turn list" where
  "upcoming c k = taken (co_workers c k) @ co_queues c k"

definition lane_inv :: "coordinator \<Rightarrow> bool" where
  "lane_inv c = (\<forall>k. (in_lane (co_workers c k) \<longleftrightarrow> co_lane c = Some k) \<and> co_active c k = running (co_workers c k))"

definition order_inv :: "(string \<Rightarrow> turn list) \<Rightarrow> coordinator \<Rightarrow> bool" where
  "order_inv started c =
     (\<forall>k. sorted_wrt (<) (map tn_object (started k @ upcoming c k)) \<and>
          (\<forall>t \<in> set (started k @ upcoming c k). tn_object t < co_next c \<and> tn_conversation_ref t = k))"

lemma set_worker_simps [simp]:
  "co_workers (set_worker k w c) = (co_workers c)(k := w)" "co_lane (set_worker k w c) = co_lane c"
  "co_queues (set_worker k w c) = co_queues c" "co_active (set_worker k w c) = co_active c" "co_next (set_worker k w c) = co_next c"
  "co_cancelled (set_worker k w c) = co_cancelled c"
  "co_manage_provider_context (set_worker k w c) = co_manage_provider_context c"
  by (simp_all add: set_worker_def)

lemma resolve_simps [simp]:
  "co_workers (resolve i f c) = co_workers c" "co_lane (resolve i f c) = co_lane c" "co_queues (resolve i f c) = co_queues c"
  "co_active (resolve i f c) = co_active c" "co_next (resolve i f c) = co_next c" "co_cancelled (resolve i f c) = co_cancelled c"
  "co_manage_provider_context (resolve i f c) = co_manage_provider_context c"
  by (simp_all add: resolve_def)

lemmas segment_defs = begin_submit_def finish_submit_def enqueue_def take_turn_def activate_def leave_turn_def enter_lane_def
  begin_failed_def end_active_def finish_turn_def interrupt_pending_def mark_interrupted_def interrupt_def shutdown_def
  cancel_worker_def new_context_def

lemma lane_inv_move:
  assumes "lane_inv c" and "co_workers c' = (co_workers c)(k := w)" and "co_active c' = (co_active c)(k := running w)"
    and "in_lane w \<longleftrightarrow> co_lane c' = Some k" and "\<And>j. j \<noteq> k \<Longrightarrow> co_lane c' = Some j \<longleftrightarrow> co_lane c = Some j"
  shows "lane_inv c'"
  using assms by (auto simp: lane_inv_def)

lemma lane_inv_idle:
  assumes "lane_inv c" and "co_workers c' = (co_workers c)(k := w)" and "\<not> in_lane (co_workers c k)" and "\<not> in_lane w"
    and "co_active c' = co_active c" and "co_lane c' = co_lane c"
  shows "lane_inv c'"
proof (rule lane_inv_move [OF assms(1,2)])
  have "running w = None" using assms(4) by (cases w) auto
  moreover have "co_active c k = None" using assms(1,3) by (cases "co_workers c k") (auto simp: lane_inv_def)
  ultimately show "co_active c' = (co_active c)(k := running w)" using assms(5) by auto
qed (use assms in \<open>auto simp: lane_inv_def\<close>)

lemma lane_inv_frame:
  assumes "lane_inv c" and "co_workers c' = co_workers c" and "co_active c' = co_active c" and "co_lane c' = co_lane c"
  shows "lane_inv c'"
  using assms by (simp add: lane_inv_def)

lemma lane_heldD:
  assumes "lane_inv c" and "in_lane (co_workers c k)"
  shows "co_lane c = Some k"
  using assms by (simp add: lane_inv_def)

lemma lane_inv_submit:
  assumes "lane_inv c"
  shows "lane_inv (snd (begin_submit has_control r k prompt token c))"
    and "lane_inv (snd (finish_submit r k prompt token claim st token' c))"
proof -
  have enq: "lane_inv (snd (enqueue r k prompt tk c0))" if "lane_inv c0" for c0 tk
  proof (cases "co_workers c0 k = Absent")
    case True
    with that show ?thesis by (intro lane_inv_idle [OF that, of _ k At_Loop]) (simp_all add: enqueue_def Let_def)
  qed (use that in \<open>simp add: enqueue_def Let_def lane_inv_def\<close>)
  show "lane_inv (snd (begin_submit has_control r k prompt token c))"
  proof -
    have "lane_inv (c\<lparr>co_submitting := (co_submitting c)(r := True)\<rparr>)" by (rule lane_inv_frame [OF assms]) simp_all
    with assms enq [OF assms, of token] show ?thesis
      by (cases "enqueue r k prompt token c") (simp add: begin_submit_def split: option.split)
  qed
  have "lane_inv (c\<lparr>co_submitting := (co_submitting c)(r := False)\<rparr>)" by (rule lane_inv_frame [OF assms]) simp_all
  then show "lane_inv (snd (finish_submit r k prompt token claim st token' c))"
    using enq lane_inv_frame by (auto simp: finish_submit_def Let_def)
qed

lemma lane_inv_leave:
  assumes "lane_inv c" and "co_lane c = Some k" and "co_active c k = None"
  shows "lane_inv (leave_turn k t c)" and "lane_inv (set_worker k Absent (leave_turn k t c))"
  by (rule lane_inv_move [OF assms(1), of _ k], use assms in \<open>auto simp: leave_turn_def\<close>)+

lemma lane_inv_interrupt:
  assumes "lane_inv c"
  shows "lane_inv (snd (interrupt k c))"
proof (cases "co_active c k")
  case None
  then show ?thesis using assms
    by (auto simp: interrupt_def interrupt_pending_def lane_inv_def split: list.split option.split)
next
  case (Some cx)
  then obtain t where w: "co_workers c k = Executing t cx" using assms by (cases "co_workers c k") (auto simp: lane_inv_def)
  let ?cx = "cx\<lparr>cx_interrupt_requested := True\<rparr>"
  have "lane_inv (mark_interrupted k cx c)"
    by (rule lane_inv_move [OF assms, of _ k "Executing t ?cx"])
      (use w lane_heldD [OF assms, of k] in \<open>simp_all add: mark_interrupted_def Let_def\<close>)
  with Some assms show ?thesis by (simp add: interrupt_def)
qed

lemma lane_inv_step:
  assumes "turn_step c e c'" and "lane_inv c"
  shows "lane_inv c'"
  using assms(1)
proof cases
  case (step_take k)
  then show ?thesis using assms(2)
    by (cases "co_shutdown c"; cases "co_queues c k")
      (auto simp: take_turn_def intro: lane_inv_idle [OF assms(2), of _ k Absent] lane_inv_idle [OF assms(2), of _ k "Awaiting_Lane (hd (co_queues c k))"])
next
  case (step_enter k t)
  let ?c1 = "c\<lparr>co_lane := Some k\<rparr>"
  have active: "co_active c k = None" using assms(2) step_enter(3) by (simp add: lane_inv_def)
  have "lane_inv (leave_turn k t ?c1)"
    by (rule lane_inv_move [OF assms(2), of _ k At_Loop]) (use step_enter active in \<open>auto simp: leave_turn_def\<close>)
  moreover have "lane_inv (set_worker k (Beginning t) ?c1)"
    by (rule lane_inv_move [OF assms(2), of _ k "Beginning t"]) (use step_enter active in auto)
  moreover have "lane_inv (activate k t ?c1)"
    by (rule lane_inv_move [OF assms(2), of _ k "Executing t (new_context t ?c1)"]) (use step_enter active in \<open>auto simp: activate_def\<close>)
  ultimately show ?thesis unfolding step_enter(2) enter_lane_def Let_def by simp
next
  case (step_begun k t)
  then show ?thesis using lane_heldD [OF assms(2), of k]
    by (intro lane_inv_move [OF assms(2), of _ k "Executing t (new_context t c)"]) (auto simp: activate_def)
next
  case (step_begin_failed k t e)
  have "co_active c k = None" using assms(2) step_begin_failed(3) by (simp add: lane_inv_def)
  moreover have "lane_inv (resolve (tn_object t) (Failed e) c)" by (rule lane_inv_frame [OF assms(2)]) simp_all
  moreover have "co_lane c = Some k" using lane_heldD [OF assms(2), of k] step_begin_failed(3) by simp
  ultimately show ?thesis unfolding step_begin_failed(2) begin_failed_def by (intro lane_inv_leave(1)) simp_all
next
  case (step_finish k t cx outcome)
  have held: "co_lane c = Some k" using lane_heldD [OF assms(2), of k] step_finish(3) by simp
  show ?thesis unfolding step_finish(2)
    by (rule lane_inv_move [OF assms(2), of _ k "Ending t"]) (simp_all add: finish_turn_def end_active_def held split: sum.split)
next
  case (step_ended k t)
  have "co_lane c = Some k" "co_active c k = None" using lane_heldD [OF assms(2), of k] assms(2) step_ended(3)
    by (simp_all add: lane_inv_def)
  then show ?thesis unfolding step_ended(2) by (rule lane_inv_leave(1) [OF assms(2)])
next
  case (step_cancel k)
  show ?thesis
  proof (cases "in_lane (co_workers c k)")
    case True
    have held: "co_lane c = Some k" by (rule lane_heldD [OF assms(2) True])
    have quiet: "co_active c k = None" if "running (co_workers c k) = None" using assms(2) that by (simp add: lane_inv_def)
    have "co_workers (cancel_worker k c) = (co_workers c)(k := Absent)" "co_lane (cancel_worker k c) = None"
      "co_active (cancel_worker k c) = (co_active c)(k := None)"
      using True quiet by (cases "co_workers c k"; simp add: cancel_worker_def leave_turn_def fun_upd_idem)+
    then have "lane_inv (cancel_worker k c)" by (intro lane_inv_move [OF assms(2), of _ k Absent]) (simp_all add: held)
    with step_cancel show ?thesis by simp
  next
    case False
    then have "cancel_worker k c = set_worker k Absent c" by (cases "co_workers c k") (simp_all add: cancel_worker_def)
    with step_cancel False show ?thesis by (auto intro: lane_inv_idle [OF assms(2)])
  qed
qed (use assms(2) in \<open>simp_all add: lane_inv_submit lane_inv_interrupt shutdown_def lane_inv_frame [OF assms(2)]\<close>)

section \<open>The order of turns\<close>

text \<open>
  What a step does to the turns that have not started: it drops some, appends the one that was just
  submitted, or starts the first one of a conversation.
\<close>

definition drops :: "coordinator \<Rightarrow> coordinator \<Rightarrow> bool" where
  "drops c c' \<longleftrightarrow> co_next c' = co_next c \<and> (\<forall>k. subseq (upcoming c' k) (upcoming c k))"

definition appends :: "coordinator \<Rightarrow> coordinator \<Rightarrow> bool" where
  "appends c c' \<longleftrightarrow> co_next c' = Suc (co_next c) \<and>
     (\<exists>t. tn_object t = co_next c \<and>
          upcoming c' = (upcoming c)(tn_conversation_ref t := upcoming c (tn_conversation_ref t) @ [t]))"

definition starts :: "turn \<Rightarrow> coordinator \<Rightarrow> coordinator \<Rightarrow> bool" where
  "starts t c c' \<longleftrightarrow> co_next c' = co_next c \<and> (\<exists>k. upcoming c = (upcoming c')(k := t # upcoming c' k))"

lemma drops_move:
  assumes "co_workers c' = (co_workers c)(k := w)" and "co_queues c' = (co_queues c)(k := q)" and "co_next c' = co_next c"
    and "subseq (taken w @ q) (taken (co_workers c k) @ co_queues c k)"
  shows "drops c c'"
  using assms by (auto simp: drops_def upcoming_def)

lemma drops_leave: "drops c (leave_turn k t c)"
  by (rule drops_move [of _ _ k At_Loop "co_queues c k"]) (simp_all add: leave_turn_def subseq_drop_many)

lemma drops_resolve: "drops (resolve i f c) c' = drops c c'"
  by (simp add: drops_def upcoming_def)

lemma enqueue_appends: "appends c (snd (enqueue r k prompt token c))"
  unfolding appends_def
  by (auto simp: enqueue_def Let_def upcoming_def fun_eq_iff
      intro!: exI [of _ "\<lparr>tn_object = co_next c, tn_request_id = r, tn_conversation_ref = k, tn_prompt = prompt, tn_claim_token = token\<rparr>"])

lemma submit_order:
  "drops c (snd (begin_submit has_control r k prompt token c)) \<or> appends c (snd (begin_submit has_control r k prompt token c))"
  "drops c (snd (finish_submit r k prompt token claim st token' c)) \<or> appends c (snd (finish_submit r k prompt token claim st token' c))"
proof -
  show "drops c (snd (begin_submit has_control r k prompt token c)) \<or> appends c (snd (begin_submit has_control r k prompt token c))"
    using enqueue_appends [of c r k prompt token]
    by (cases "enqueue r k prompt token c") (simp add: begin_submit_def drops_def upcoming_def split: option.split)
  let ?c = "c\<lparr>co_submitting := (co_submitting c)(r := False)\<rparr>"
  have "upcoming ?c = upcoming c" by (simp add: upcoming_def fun_eq_iff)
  then have "appends c c'" if "appends ?c c'" for c' using that by (simp add: appends_def)
  then show "drops c (snd (finish_submit r k prompt token claim st token' c)) \<or>
      appends c (snd (finish_submit r k prompt token claim st token' c))"
    using enqueue_appends [of ?c r k prompt] by (simp add: finish_submit_def Let_def drops_def upcoming_def)
qed

lemma interrupt_drops: "drops c (snd (interrupt k c))"
proof (cases "co_active c k")
  case None
  then show ?thesis
    by (auto simp: interrupt_def interrupt_pending_def drops_def upcoming_def subseq_append' split: list.split option.split)
qed (auto simp: interrupt_def mark_interrupted_def Let_def drops_def upcoming_def split: worker.split)

lemma step_order:
  assumes "turn_step c e c'"
  shows "e = Quiet \<and> (drops c c' \<or> appends c c') \<or> (\<exists>t. e = Started t \<and> starts t c c')"
  using assms
proof cases
  case (step_take k)
  then have "drops c c'" unfolding step_take(2)
    by (intro drops_move [of _ _ k "co_workers (take_turn k c) k" "co_queues (take_turn k c) k"])
      (auto simp: take_turn_def split: list.split)
  with step_take(1) show ?thesis by blast
next
  case (step_enter k t)
  let ?c1 = "c\<lparr>co_lane := Some k\<rparr>"
  have "drops c (leave_turn k t ?c1)" using drops_leave [of ?c1 k t] by (simp add: drops_def upcoming_def)
  moreover have "drops c (set_worker k (Beginning t) ?c1)"
    by (rule drops_move [of _ _ k "Beginning t" "co_queues c k"]) (simp_all add: step_enter)
  moreover have "starts t c (activate k t ?c1)"
    by (auto simp: starts_def upcoming_def activate_def step_enter fun_eq_iff intro!: exI [of _ k])
  moreover have "e = (if co_cancelled c (tn_object t) \<or> co_manage_provider_context c then Quiet else Started t)"
    using step_enter(1) by simp
  ultimately show ?thesis unfolding step_enter(2) by (auto simp: enter_lane_def Let_def)
next
  case (step_begun k t)
  have "starts t c (activate k t c)" using step_begun(3)
    by (auto simp: starts_def upcoming_def activate_def fun_eq_iff intro!: exI [of _ k])
  then show ?thesis by (simp add: step_begun)
next
  case (step_begin_failed k t e)
  have "drops c c'" unfolding step_begin_failed(2) begin_failed_def using drops_leave drops_resolve by blast
  with step_begin_failed(1) show ?thesis by blast
next
  case (step_finish k t cx outcome)
  then have "drops c c'" unfolding step_finish(2)
    by (intro drops_move [of _ _ k "Ending t" "co_queues c k"]) (simp_all add: finish_turn_def end_active_def split: sum.split)
  with step_finish(1) show ?thesis by blast
next
  case (step_cancel k)
  have "drops c c'" unfolding step_cancel(2)
    by (rule drops_move [of _ _ k Absent "co_queues c k"])
      (simp_all add: cancel_worker_def leave_turn_def subseq_drop_many split: worker.split)
  with step_cancel(1) show ?thesis by blast
qed (use submit_order interrupt_drops drops_leave in \<open>auto simp: shutdown_def drops_def upcoming_def\<close>)

text \<open>The started turns of a conversation, in order, and the invariant of the order.\<close>

fun started :: "turn_event list \<Rightarrow> string \<Rightarrow> turn list" where
  "started [] k = []"
| "started (Started t # es) k = (if tn_conversation_ref t = k then t # started es k else started es k)"
| "started (Quiet # es) k = started es k"

lemma started_append [simp]: "started (es @ fs) k = started es k @ started fs k"
  by (induction es k rule: started.induct) simp_all

lemma sorted_wrt_subseq:
  assumes "subseq xs ys" and "sorted_wrt P ys"
  shows "sorted_wrt P xs"
  using assms by (induction rule: list_emb.induct) (auto dest: list_emb_set)

lemma subseq_set: "subseq xs ys \<Longrightarrow> set xs \<subseteq> set ys"
  by (auto dest: list_emb_set)

lemma order_shrink:
  assumes "order_inv (started es) c" and "co_next c' = co_next c" and "\<And>k. subseq (upcoming c' k) (upcoming c k)"
  shows "order_inv (started es) c'"
  unfolding order_inv_def
proof (intro allI conjI)
  fix k
  have sub: "subseq (started es k @ upcoming c' k) (started es k @ upcoming c k)" using assms(3) [of k] by (simp add: subseq_append')
  from sorted_wrt_subseq [OF subseq_map [OF this]]
  show "sorted_wrt (<) (map tn_object (started es k @ upcoming c' k))" using assms(1) [unfolded order_inv_def] by blast
  show "\<forall>t\<in>set (started es k @ upcoming c' k). tn_object t < co_next c' \<and> tn_conversation_ref t = k"
    using assms(1,2) subseq_set [OF assms(3), of k] by (auto simp: order_inv_def)
qed

lemma order_step:
  assumes "turn_step c e c'" and "order_inv (started es) c"
  shows "order_inv (started (es @ [e])) c'"
  using step_order [OF assms(1)]
proof (elim disjE conjE exE)
  assume "e = Quiet" "drops c c'"
  then show ?thesis using order_shrink [OF assms(2), of c'] by (simp add: drops_def order_inv_def)
next
  assume e: "e = Quiet" and app: "appends c c'"
  then obtain t where t: "tn_object t = co_next c" "co_next c' = Suc (co_next c)"
    "upcoming c' = (upcoming c)(tn_conversation_ref t := upcoming c (tn_conversation_ref t) @ [t])"
    by (auto simp: appends_def)
  have "sorted_wrt (<) (map tn_object (started es k @ upcoming c' k)) \<and>
      (\<forall>u\<in>set (started es k @ upcoming c' k). tn_object u < co_next c' \<and> tn_conversation_ref u = k)" for k
  proof -
    let ?ts = "started es k @ upcoming c k"
    have old: "sorted_wrt (<) (map tn_object ?ts)" "\<forall>u\<in>set ?ts. tn_object u < co_next c \<and> tn_conversation_ref u = k"
      using assms(2) [unfolded order_inv_def] by blast+
    have now: "started es k @ upcoming c' k = (if tn_conversation_ref t = k then ?ts @ [t] else ?ts)" by (simp add: t(3))
    have "sorted_wrt (<) (map tn_object (?ts @ [t]))"
      unfolding map_append sorted_wrt_append using old by (auto simp: t(1) sorted_wrt_append)
    moreover have "\<forall>u\<in>set ?ts. tn_object u < co_next c' \<and> tn_conversation_ref u = k" using old(2) t(2) less_SucI by metis
    ultimately show ?thesis unfolding now using old(1) t(1,2) by simp
  qed
  then show ?thesis by (simp add: order_inv_def e)
next
  fix t
  assume e: "e = Started t" and "starts t c c'"
  then obtain k where k: "co_next c' = co_next c" "upcoming c = (upcoming c')(k := t # upcoming c' k)" by (auto simp: starts_def)
  have "tn_conversation_ref t = k" using assms(2) k(2) by (simp add: order_inv_def)
  then have "started (es @ [e]) j @ upcoming c' j = started es j @ upcoming c j" for j by (simp add: e k(2))
  then show ?thesis using assms(2) unfolding order_inv_def k(1) by simp
qed

lemma initial_inv: "lane_inv (new_coordinator epoch managed)" "order_inv (started []) (new_coordinator epoch managed)"
  by (simp_all add: lane_inv_def order_inv_def upcoming_def new_coordinator_def)

lemma run_inv:
  assumes "turn_run c0 es c" and "c0 = new_coordinator epoch managed"
  shows "lane_inv c \<and> order_inv (started es) c"
  using assms by (induction rule: turn_run.induct) (auto simp: initial_inv intro: lane_inv_step order_step simp del: started_append)

section \<open>Interrupted turns\<close>

text \<open>
  A coordinator that does not manage the context of its provider, as the Driver service creates it: no
  worker waits for a turn to begin.
\<close>

definition unmanaged :: "coordinator \<Rightarrow> bool" where
  "unmanaged c \<longleftrightarrow> \<not> co_manage_provider_context c \<and> (\<forall>k t. co_workers c k \<noteq> Beginning t)"

lemma unmanaged_move:
  assumes "unmanaged c" and "co_manage_provider_context c' = co_manage_provider_context c"
    and "co_workers c' = (co_workers c)(k := w)" and "\<And>t. w \<noteq> Beginning t"
  shows "unmanaged c'"
  using assms by (auto simp: unmanaged_def)

lemma unmanaged_enqueue:
  assumes "unmanaged c"
  shows "unmanaged (snd (enqueue r k prompt token c))"
  using assms by (auto simp: enqueue_def Let_def unmanaged_def)

lemma unmanaged_leave:
  assumes "unmanaged c"
  shows "unmanaged (leave_turn k t c)"
  using assms by (simp add: leave_turn_def unmanaged_def)

lemma unmanaged_step:
  assumes "turn_step c e c'" and "unmanaged c"
  shows "unmanaged c'"
  using assms(1)
proof cases
  case (step_submit r has_control k prompt token)
  then show ?thesis using assms(2) unmanaged_enqueue [OF assms(2), of r k prompt token]
    by (cases "enqueue r k prompt token c") (simp add: begin_submit_def unmanaged_def split: option.split)
next
  case (step_claimed r k prompt token claim st token')
  have "unmanaged (c\<lparr>co_submitting := (co_submitting c)(r := False)\<rparr>)" using assms(2) by (simp add: unmanaged_def)
  from unmanaged_enqueue [OF this] assms(2) show ?thesis by (simp add: step_claimed finish_submit_def Let_def unmanaged_def)
next
  case (step_take k)
  then show ?thesis using assms(2) by (simp add: take_turn_def unmanaged_def split: list.split)
next
  case (step_enter k t)
  then show ?thesis using assms(2) by (simp add: enter_lane_def Let_def leave_turn_def activate_def unmanaged_def)
next
  case (step_finish k t cx outcome)
  then show ?thesis using assms(2) by (simp add: finish_turn_def end_active_def unmanaged_def split: sum.split)
next
  case (step_interrupt k)
  then show ?thesis using assms(2)
    by (simp add: interrupt_def interrupt_pending_def mark_interrupted_def Let_def unmanaged_def split: option.split list.split worker.split)
next
  case (step_cancel k)
  then show ?thesis using assms(2) by (simp add: cancel_worker_def leave_turn_def unmanaged_def split: worker.split)
qed (use assms(2) in \<open>simp_all add: unmanaged_leave shutdown_def, simp_all add: unmanaged_def\<close>)

lemma unmanaged_run:
  assumes "turn_run c es c'" and "unmanaged c"
  shows "unmanaged c'"
  using assms by (induction rule: turn_run.induct) (auto intro: unmanaged_step)

text \<open>A cancelled turn stays cancelled.\<close>

lemma cancelled_kept [simp]:
  "co_cancelled (snd (enqueue r k prompt token c)) = co_cancelled c"
  "co_cancelled (snd (begin_submit has_control r k prompt token c)) = co_cancelled c"
  "co_cancelled (take_turn k c) = co_cancelled c" "co_cancelled (activate k t c) = co_cancelled c"
  "co_cancelled (leave_turn k t c) = co_cancelled c" "co_cancelled (finish_turn k t outcome c) = co_cancelled c"
  "co_cancelled (cancel_worker k c) = co_cancelled c"
proof -
  show enq: "co_cancelled (snd (enqueue r k prompt token c)) = co_cancelled c" by (simp add: enqueue_def Let_def)
  then show "co_cancelled (snd (begin_submit has_control r k prompt token c)) = co_cancelled c"
    by (cases "enqueue r k prompt token c") (simp add: begin_submit_def split: option.split)
  show leave: "co_cancelled (leave_turn k t c) = co_cancelled c" for t c by (simp add: leave_turn_def)
  show "co_cancelled (take_turn k c) = co_cancelled c" by (simp add: take_turn_def split: list.split)
  show "co_cancelled (activate k t c) = co_cancelled c" by (simp add: activate_def)
  show "co_cancelled (finish_turn k t outcome c) = co_cancelled c" by (simp add: finish_turn_def end_active_def split: sum.split)
  show "co_cancelled (cancel_worker k c) = co_cancelled c" by (simp add: cancel_worker_def leave split: worker.split)
qed

lemma cancelled_step:
  assumes "turn_step c e c'" and "co_cancelled c i"
  shows "co_cancelled c' i"
  using assms(1)
proof cases
  case (step_interrupt k)
  have "co_cancelled (snd (interrupt k c)) i"
    by (cases "co_active c k"; cases "co_queues c k"; cases "co_waiting c k")
      (simp_all add: interrupt_def interrupt_pending_def mark_interrupted_def Let_def assms(2))
  then show ?thesis by (simp add: step_interrupt)
qed (use assms(2) in \<open>simp_all add: finish_submit_def Let_def enter_lane_def begin_failed_def shutdown_def\<close>)

definition dead :: "turn \<Rightarrow> coordinator \<Rightarrow> bool" where
  "dead t c \<longleftrightarrow> unmanaged c \<and>
     (co_cancelled c (tn_object t) \<or> tn_object t < co_next c \<and> (\<forall>k. t \<notin> set (upcoming c k)))"

lemma dead_step:
  assumes "turn_step c e c'" and "dead t c"
  shows "dead t c' \<and> e \<noteq> Started t"
proof
  have un: "unmanaged c" using assms(2) by (simp add: dead_def)
  have "\<forall>k. t \<notin> set (upcoming c' k)" if "tn_object t < co_next c \<and> (\<forall>k. t \<notin> set (upcoming c k))"
    using step_order [OF assms(1)]
  proof (elim disjE conjE exE)
    assume "drops c c'"
    then show ?thesis using that subseq_set unfolding drops_def by blast
  next
    assume "appends c c'"
    then show ?thesis using that assms(2) by (auto simp: appends_def dead_def split: if_splits)
  next
    fix u assume "starts u c c'"
    then obtain j where j: "upcoming c = (upcoming c')(j := u # upcoming c' j)" by (auto simp: starts_def)
    show ?thesis using that unfolding j by (metis fun_upd_apply list.set_intros(2))
  qed
  moreover have "co_next c \<le> co_next c'" using step_order [OF assms(1)] by (auto simp: drops_def appends_def starts_def)
  ultimately show "dead t c'"
    using assms(2) cancelled_step [OF assms(1)] unmanaged_step [OF assms(1) un] by (auto simp: dead_def)
  show "e \<noteq> Started t" using assms(1)
  proof cases
    case (step_enter k u)
    then have "u \<in> set (upcoming c k)" by (simp add: upcoming_def)
    then show ?thesis using step_enter(1) assms(2) by (auto simp: dead_def split: if_splits)
  qed (use un in \<open>auto simp: unmanaged_def\<close>)
qed

lemma dead_run:
  assumes "turn_run c es c'" and "dead t c"
  shows "dead t c' \<and> Started t \<notin> set es"
  using assms by (induction rule: turn_run.induct) (auto dest: dead_step)

section \<open>Schedules\<close>

text \<open>
  A schedule names the next segment to run. Playing it gives a run of the coordinator without control
  client, or nothing when a segment is not enabled.
\<close>

datatype move = Submit string string | Take string | Enter string | Begun string | Finish string json | Ended string | Interrupt string

fun play1 :: "move \<Rightarrow> coordinator \<Rightarrow> (turn_event \<times> coordinator) option" where
  "play1 (Submit r k) c = (if co_submitting c r then None else Some (Quiet, snd (begin_submit False r k [] [] c)))"
| "play1 (Take k) c = (case co_workers c k of At_Loop \<Rightarrow> Some (Quiet, take_turn k c) | _ \<Rightarrow> None)"
| "play1 (Enter k) c =
     (case co_workers c k of
        Awaiting_Lane t \<Rightarrow>
          if co_lane c = None
          then Some (entered k (enter_lane k t c), enter_lane k t c)
          else None
      | _ \<Rightarrow> None)"
| "play1 (Begun k) c = (case co_workers c k of Beginning t \<Rightarrow> Some (entered k (activate k t c), activate k t c) | _ \<Rightarrow> None)"
| "play1 (Finish k v) c = (case co_workers c k of Executing t cx \<Rightarrow> Some (Quiet, finish_turn k t (Inr v) c) | _ \<Rightarrow> None)"
| "play1 (Ended k) c = (case co_workers c k of Ending t \<Rightarrow> Some (Quiet, leave_turn k t c) | _ \<Rightarrow> None)"
| "play1 (Interrupt k) c = Some (Quiet, snd (interrupt k c))"

fun play :: "move list \<Rightarrow> coordinator \<Rightarrow> (turn_event list \<times> coordinator) option" where
  "play [] c = Some ([], c)"
| "play (m # ms) c =
     (case play1 m c of
        None \<Rightarrow> None
      | Some (e, c1) \<Rightarrow> (case play ms c1 of None \<Rightarrow> None | Some (es, c2) \<Rightarrow> Some (e # es, c2)))"

lemma step_enter_event:
  assumes "co_workers c k = Awaiting_Lane t" and "co_lane c = None"
    and "e = (if co_cancelled c (tn_object t) \<or> co_manage_provider_context c then Quiet else Started t)"
  shows "turn_step c e (enter_lane k t c)"
  using step_enter [OF assms(1,2)] by (simp add: assms(3))

lemma step_begun_event: "co_workers c k = Beginning t \<Longrightarrow> turn_step c (Started t) (activate k t c)"
  using step_begun by fastforce

lemma play1_step: "play1 m c = Some (e, c') \<Longrightarrow> turn_step c e c'"
  by (cases m) (auto split: worker.splits if_splits intro: turn_step.intros step_enter_event step_begun_event)

lemma turn_run_trans:
  assumes "turn_run c1 fs c2" and "turn_run c es c1"
  shows "turn_run c (es @ fs) c2"
  using assms by (induction rule: turn_run.induct) (auto simp: append_assoc [symmetric] simp del: append_assoc intro: turn_run.intros)

lemma turn_run_one: "turn_step c e c' \<Longrightarrow> turn_run c [e] c'"
  using run_more [OF run_none] by fastforce

lemma play_run: "play ms c = Some (es, c') \<Longrightarrow> turn_run c es c'"
proof (induction ms c arbitrary: es c' rule: play.induct)
  case (2 m ms c)
  then obtain e c1 fs where one: "play1 m c = Some (e, c1)" and rest: "play ms c1 = Some (fs, c')" and es: "es = [e] @ fs"
    by (auto split: option.splits)
  show ?case unfolding es
    by (rule turn_run_trans [OF "2.IH" [OF one refl rest] turn_run_one [OF play1_step [OF one]]])
qed (auto intro: run_none)

lemma played:
  assumes "case play ms c of None \<Rightarrow> False | Some (es, c') \<Rightarrow> P es c'"
  shows "\<exists>es c'. turn_run c es c' \<and> P es c'"
  using assms play_run [of ms c] by (auto split: option.splits)

section \<open>Properties\<close>

text \<open>
  Claim C20. In every run of the coordinator, whatever the interleaving of submissions, workers,
  interruptions and shutdown: at most one conversation has an active context, and it is the one that
  holds the lane; the turns of a conversation start in the order of their submission, each at most once,
  and every turn still to come was submitted after all those that have started.
\<close>

theorem turn_lane_exclusive:
  assumes "turn_run (new_coordinator epoch managed) es c"
  shows "(co_active c j \<noteq> None \<longrightarrow> co_active c k \<noteq> None \<longrightarrow> j = k) \<and>
         (co_active c k \<noteq> None \<longrightarrow> co_lane c = Some k) \<and>
         sorted_wrt (<) (map tn_object (started es k @ upcoming c k)) \<and>
         (\<forall>t\<in>set (started es k @ upcoming c k). tn_conversation_ref t = k \<and> tn_object t < co_next c)"
proof -
  have inv: "lane_inv c" "order_inv (started es) c" using run_inv [OF assms refl] by blast+
  have held: "co_lane c = Some i" if "co_active c i \<noteq> None" for i
    using inv(1) [unfolded lane_inv_def, THEN spec, of i] that by (cases "co_workers c i") simp_all
  have "j = k" if "co_active c j \<noteq> None" "co_active c k \<noteq> None" using held [OF that(1)] held [OF that(2)] by simp
  moreover have "sorted_wrt (<) (map tn_object (started es k @ upcoming c k))"
    "\<forall>t\<in>set (started es k @ upcoming c k). tn_conversation_ref t = k \<and> tn_object t < co_next c"
    using inv(2) [unfolded order_inv_def] by blast+
  ultimately show ?thesis using held by blast
qed

text \<open>
  Claim C21. In a coordinator that does not manage its provider's context, as the Driver service sets it
  up, an interruption of a conversation with no active turn that succeeds answers for one turn of that
  conversation, leaves the future of that turn resolved, and the turn never starts afterwards.
\<close>

theorem interrupted_turn_never_starts:
  assumes "turn_run (new_coordinator epoch False) es c" and "co_active c k = None" and "interrupt k c = (Inr v, c1)"
  shows "\<exists>t. v = interrupted_outcome k t \<and> co_futures c1 (tn_object t) \<noteq> Unresolved \<and>
             (\<forall>fs c2. turn_run c1 fs c2 \<longrightarrow> Started t \<notin> set fs)"
proof -
  have order: "order_inv (started es) c" using run_inv [OF assms(1) refl] by blast
  have "unmanaged c" by (rule unmanaged_run [OF assms(1)]) (simp add: unmanaged_def new_coordinator_def)
  then have un: "unmanaged c1" using unmanaged_step [OF step_interrupt [of c k]] assms(3) by simp
  have settled: "co_futures (resolve i (Resolved w) c0) i \<noteq> Unresolved" for i w c0 by (simp add: resolve_def)
  have "\<exists>t. v = interrupted_outcome k t \<and> co_futures c1 (tn_object t) \<noteq> Unresolved \<and> dead t c1"
  proof (cases "co_queues c k")
    case Nil
    with assms(2,3) obtain t where "co_waiting c k = Some t"
      "interrupt_pending k t (c\<lparr>co_cancelled := (co_cancelled c)(tn_object t := True), co_waiting := (co_waiting c)(k := None)\<rparr>) = (Inr v, c1)"
      by (auto simp: interrupt_def split: option.splits)
    with un settled show ?thesis by (auto simp: interrupt_pending_def dead_def)
  next
    case (Cons t ts)
    then have c1: "interrupt_pending k t (c\<lparr>co_queues := (co_queues c)(k := ts)\<rparr>) = (Inr v, c1)"
      using assms(2,3) by (simp add: interrupt_def)
    have up: "upcoming c1 = (upcoming c)(k := taken (co_workers c k) @ ts)" "co_next c1 = co_next c"
      using c1 by (auto simp: interrupt_pending_def upcoming_def)
    have dist: "distinct (map tn_object (upcoming c k))" "\<forall>j. \<forall>u\<in>set (upcoming c j). tn_object u < co_next c \<and> tn_conversation_ref u = j"
      using order by (auto simp: order_inv_def sorted_wrt_append strict_sorted_iff)
    have mem: "upcoming c k = taken (co_workers c k) @ t # ts" by (simp add: upcoming_def Cons)
    have "t \<notin> set (upcoming c1 j)" for j
    proof (cases "j = k")
      case True
      then show ?thesis using dist(1) by (auto simp: up mem)
    next
      case False
      then show ?thesis using dist(2) mem by (metis fun_upd_apply in_set_conv_decomp up(1))
    qed
    moreover have "tn_object t < co_next c1" using dist(2) mem up(2) by (metis in_set_conv_decomp)
    ultimately show ?thesis using un settled c1 by (auto simp: interrupt_pending_def dead_def)
  qed
  then show ?thesis using dead_run by blast
qed

text \<open>
  With no active turn, an interruption takes the head of the queue before the turn that waits
  for the lane: the turn submitted first stays in place, uncancelled and unresolved, and goes on to
  start, while the one behind it, submitted later, is answered as interrupted.
\<close>

theorem interrupt_skips_waiting:
  assumes "turn_run (new_coordinator epoch False) es c" and "co_workers c k = Awaiting_Lane t" and "co_queues c k = u # us"
    and "\<not> co_cancelled c (tn_object t)" and "co_futures c (tn_object t) = Unresolved" and "co_lane c = None"
  shows "fst (interrupt k c) = Inr (interrupted_outcome k u) \<and> tn_object t < tn_object u \<and>
         co_futures (snd (interrupt k c)) (tn_object t) = Unresolved \<and>
         (\<exists>c2. turn_step (snd (interrupt k c)) (Started t) c2)"
proof -
  have inv: "lane_inv c" "order_inv (started es) c" using run_inv [OF assms(1) refl] by blast+
  have "unmanaged c" by (rule unmanaged_run [OF assms(1)]) (simp add: unmanaged_def new_coordinator_def)
  then have un: "\<not> co_manage_provider_context c" by (simp add: unmanaged_def)
  have idle: "co_active c k = None" using inv(1) assms(2) by (simp add: lane_inv_def)
  have up: "upcoming c k = t # u # us" by (simp add: upcoming_def assms(2,3))
  have less: "tn_object t < tn_object u" using inv(2) [unfolded order_inv_def, THEN spec, of k] by (simp add: up sorted_wrt_append)
  let ?c = "snd (interrupt k c)"
  have c: "?c = (resolve (tn_object u) (Resolved (interrupted_outcome k u)) (c\<lparr>co_queues := (co_queues c)(k := us)\<rparr>))
      \<lparr>co_pending_by_request := (co_pending_by_request c)(tn_request_id u := None)\<rparr>" "fst (interrupt k c) = Inr (interrupted_outcome k u)"
    by (simp_all add: interrupt_def idle assms(3) interrupt_pending_def)
  have "turn_step ?c (Started t) (enter_lane k t ?c)"
    by (rule step_enter_event) (simp_all add: c(1) assms un)
  moreover have "co_futures ?c (tn_object t) = Unresolved" using less assms(5) by (simp add: c(1) resolve_def)
  ultimately show ?thesis using less c(2) by blast
qed

text \<open>
  When the provider's context is managed, a turn can be interrupted while the provider begins
  it: the caller gets the outcome \<^verbatim>\<open>interrupted\<close>, and the turn starts all the same.
\<close>

theorem interrupt_during_begin:
  assumes "co_workers c k = Beginning t" and "co_waiting c k = Some t" and "co_queues c k = []" and "co_active c k = None"
  shows "fst (interrupt k c) = Inr (interrupted_outcome k t) \<and>
         turn_step (snd (interrupt k c)) (Started t) (activate k t (snd (interrupt k c))) \<and>
         co_active (activate k t (snd (interrupt k c))) k = Some (new_context t (snd (interrupt k c)))"
proof -
  have "co_workers (snd (interrupt k c)) k = Beginning t" "fst (interrupt k c) = Inr (interrupted_outcome k t)"
    by (simp_all add: interrupt_def interrupt_pending_def assms)
  moreover have "co_active (activate k t c1) k = Some (new_context t c1)" for c1 by (simp add: activate_def)
  ultimately show ?thesis using step_begun_event by blast
qed

text \<open>
  Claim C38. One request can run twice, the second time after its first run has completed. A turn waits
  for the lane and is interrupted; the same request is submitted again; when the interrupted turn leaves
  the lane it removes the entry of the new one, so that a third submission creates another turn.
\<close>

theorem duplicate_request_runs_twice:
  "\<exists>es c t u. turn_run (new_coordinator 0 False) es c \<and> started es ''a'' = [t, u] \<and>
     tn_request_id t = tn_request_id u \<and> tn_object t \<noteq> tn_object u \<and> co_completed c (tn_request_id t) = Some (JStr ''first'') \<and>
     co_active c ''a'' \<noteq> None"
proof -
  let ?ms = "[Submit ''x'' ''b'', Take ''b'', Enter ''b'', Submit ''r'' ''a'', Take ''a'', Interrupt ''a'', Submit ''r'' ''a'',
    Finish ''b'' JNull, Ended ''b'', Enter ''a'', Submit ''r'' ''a'', Take ''a'', Enter ''a'', Finish ''a'' (JStr ''first''), Ended ''a'',
    Take ''a'', Enter ''a'']"
  have "case play ?ms (new_coordinator 0 False) of
      None \<Rightarrow> False
    | Some (es, c) \<Rightarrow> map tn_request_id (started es ''a'') = [''r'', ''r''] \<and> map tn_object (started es ''a'') = [2, 3] \<and>
        co_completed c ''r'' = Some (JStr ''first'') \<and> co_active c ''a'' \<noteq> None" by code_simp
  from played [OF this] obtain es c where run: "turn_run (new_coordinator 0 False) es c"
    and two: "map tn_request_id (started es ''a'') = [''r'', ''r'']" "map tn_object (started es ''a'') = [2, 3]"
    and rest: "co_completed c ''r'' = Some (JStr ''first'')" "co_active c ''a'' \<noteq> None"
    by (elim exE conjE)
  from two obtain t u where "started es ''a'' = [t, u]" "tn_request_id t = ''r''" "tn_request_id u = ''r''" "tn_object t \<noteq> tn_object u"
    by auto
  with run rest show ?thesis by metis
qed

section \<open>Concrete runs\<close>

theorem turn_lane_exclusive_witness:
  "\<exists>es c. turn_run (new_coordinator 7 False) es c \<and> map tn_request_id (started es ''a'') = [''r1'', ''r2''] \<and> co_active c ''a'' \<noteq> None \<and> co_lane c = Some ''a'' \<and>
     sorted_wrt (<) (map tn_object (started es ''a'' @ upcoming c ''a''))"
proof -
  have "case play [Submit ''r1'' ''a'', Submit ''r2'' ''a'', Submit ''r3'' ''b'', Take ''a'', Take ''b'', Enter ''a'', Finish ''a'' JNull,
      Ended ''a'', Take ''a'', Enter ''a''] (new_coordinator 7 False) of
      None \<Rightarrow> False
    | Some (es, c) \<Rightarrow> map tn_request_id (started es ''a'') = [''r1'', ''r2''] \<and> co_active c ''a'' \<noteq> None" by code_simp
  from played [OF this] obtain es c where run: "turn_run (new_coordinator 7 False) es c"
    and c: "map tn_request_id (started es ''a'') = [''r1'', ''r2'']" "co_active c ''a'' \<noteq> None" by (elim exE conjE)
  from turn_lane_exclusive [OF run, of "''a''" "''a''"] run c show ?thesis by (intro exI [of _ es] exI [of _ c]) simp
qed

theorem interrupted_turn_never_starts_witness:
  "\<exists>c1 t. tn_request_id t = ''r2'' \<and> (\<forall>fs c2. turn_run c1 fs c2 \<longrightarrow> Started t \<notin> set fs)"
proof -
  have "case play [Submit ''r1'' ''a'', Take ''a'', Enter ''a'', Submit ''r2'' ''b'', Take ''b''] (new_coordinator 7 False) of
      None \<Rightarrow> False
    | Some (es, c) \<Rightarrow> co_active c ''b'' = None \<and>
        fst (interrupt ''b'' c) = Inr (JObj [(''conversation_ref'', JStr ''b''), (''request_id'', JStr ''r2''), (''status'', JStr ''interrupted'')])"
    by code_simp
  from played [OF this] obtain es c where run: "turn_run (new_coordinator 7 False) es c" "co_active c ''b'' = None"
    "fst (interrupt ''b'' c) = Inr (JObj [(''conversation_ref'', JStr ''b''), (''request_id'', JStr ''r2''), (''status'', JStr ''interrupted'')])"
    by (elim exE conjE)
  then obtain v c1 where "interrupt ''b'' c = (Inr v, c1)"
    "v = JObj [(''conversation_ref'', JStr ''b''), (''request_id'', JStr ''r2''), (''status'', JStr ''interrupted'')]"
    by (metis prod.collapse)
  with interrupted_turn_never_starts [OF run(1,2)] show ?thesis by (fastforce simp: interrupted_outcome_def)
qed

theorem interrupt_skips_waiting_witness:
  "\<exists>c t u. fst (interrupt ''a'' c) = Inr (interrupted_outcome ''a'' u) \<and> tn_request_id t = ''r1'' \<and> tn_request_id u = ''r2'' \<and>
     (\<exists>c2. turn_step (snd (interrupt ''a'' c)) (Started t) c2)"
proof -
  let ?t = "\<lparr>tn_object = 0, tn_request_id = ''r1'', tn_conversation_ref = ''a'', tn_prompt = [], tn_claim_token = []\<rparr>"
  let ?u = "\<lparr>tn_object = 1, tn_request_id = ''r2'', tn_conversation_ref = ''a'', tn_prompt = [], tn_claim_token = []\<rparr>"
  have "case play [Submit ''r1'' ''a'', Take ''a'', Submit ''r2'' ''a''] (new_coordinator 7 False) of
      None \<Rightarrow> False
    | Some (es, c) \<Rightarrow> co_workers c ''a'' = Awaiting_Lane ?t \<and> co_queues c ''a'' = [?u] \<and> \<not> co_cancelled c (tn_object ?t) \<and>
        co_futures c (tn_object ?t) = Unresolved \<and> co_lane c = None" by code_simp
  from played [OF this] obtain es c where run: "turn_run (new_coordinator 7 False) es c" and c: "co_workers c ''a'' = Awaiting_Lane ?t" "co_queues c ''a'' = [?u]"
    "\<not> co_cancelled c (tn_object ?t)" "co_futures c (tn_object ?t) = Unresolved" "co_lane c = None" by (elim exE conjE)
  from interrupt_skips_waiting [OF run c] show ?thesis by (intro exI [of _ c] exI [of _ ?t] exI [of _ ?u]) auto
qed

theorem interrupt_during_begin_witness:
  "\<exists>c t. fst (interrupt ''a'' c) = Inr (interrupted_outcome ''a'' t) \<and> turn_step (snd (interrupt ''a'' c)) (Started t) (activate ''a'' t (snd (interrupt ''a'' c)))"
proof -
  let ?t = "\<lparr>tn_object = 0, tn_request_id = ''r1'', tn_conversation_ref = ''a'', tn_prompt = [], tn_claim_token = []\<rparr>"
  have "case play [Submit ''r1'' ''a'', Take ''a'', Enter ''a''] (new_coordinator 7 True) of
      None \<Rightarrow> False
    | Some (es, c) \<Rightarrow> co_workers c ''a'' = Beginning ?t \<and> co_waiting c ''a'' = Some ?t \<and> co_queues c ''a'' = [] \<and> co_active c ''a'' = None"
    by code_simp
  from played [OF this] obtain es c where "turn_run (new_coordinator 7 True) es c"
    and c: "co_workers c ''a'' = Beginning ?t" "co_waiting c ''a'' = Some ?t" "co_queues c ''a'' = []" "co_active c ''a'' = None"
    by (elim exE conjE)
  from interrupt_during_begin [OF c] show ?thesis by blast
qed

end
