(* ===== verification/Spec2Isabelle.thy ===== *)
theory Spec2Isabelle
  imports Node_Recovery Turns
begin

text \<open>
  Verification of Loom v2, the control plane of a personal computing space.

  \<^bold>\<open>The program.\<close> A user talks to a \<^emph>\<open>Driver\<close>, which runs a coding agent and proposes task closures. The
  \<^emph>\<open>Observer\<close> is the authority: it keeps the message receipts of the conversations, the Runs with their
  versioned closures and event logs, the leases of the agents, the capability packages and their
  activations, and it decides every patch, commit, start, result, dynamic node and decision. A
  \<^emph>\<open>Slave\<close> provisions packages through executors or provider processes (runtime plugins), runs attempts,
  validates their input and output and reports its health. All of them store data in a content-addressed
  store and share the contract types of \<^verbatim>\<open>loom_v2/contracts\<close>. The Driver reaches the Observer through one
  command channel, fenced by its lease; inside the Driver a turn coordinator serializes the turns of
  the conversations.

  \<^bold>\<open>Theories and sources\<close> (under \<^verbatim>\<open>src/loom_v2\<close>).

  \<^item> \<open>Prelude\<close>: Python errors as values, operations as functions from a state to a result and a state that
    survives an error, JSON, dictionaries as association lists, strings, time in microseconds; the
    generic lemmas and collections the other theories share.
  \<^item> \<open>Contracts\<close>, \<open>Models\<close>: \<^verbatim>\<open>contracts/types.py\<close>, \<^verbatim>\<open>refs.py\<close>, \<^verbatim>\<open>terms.py\<close>, \<^verbatim>\<open>constraints.py\<close>, \<^verbatim>\<open>digest.py\<close> and the
    parsing of JSON into the contract models.
  \<^item> \<open>Content\<close>: \<^verbatim>\<open>content_store.py\<close>, \<^verbatim>\<open>contracts/io_schema.py\<close>, \<^verbatim>\<open>contracts/package_contracts.py\<close>. Storing and
    reading content, the digests of packages, the JSON Schema policy.
  \<^item> \<open>Receipts\<close>: \<^verbatim>\<open>contracts/messages.py\<close>, the receipt methods of \<^verbatim>\<open>observer/repository.py\<close> and the delivery of
    \<^verbatim>\<open>observer/dispatcher.py\<close>. The claims of receipts, their terminal states, the liveness of delivery.
  \<^item> \<open>Runs\<close>, \<open>Agents\<close>, \<open>Packages\<close>, \<open>Readiness\<close>, \<open>Patches\<close>, \<open>Results\<close>, \<open>Nodes\<close>, \<open>Node_Properties\<close>,
    \<open>Orchestration\<close>, \<open>Node_Log\<close>: the rest of \<^verbatim>\<open>observer/repository.py\<close> and \<^verbatim>\<open>observer/activation.py\<close>, in the order of
    the life of a Run. The lifecycle and its event log; the leases; package versions, desired states and
    health reports; the blockers of a closure; patch, commit and start; results against their contracts;
    the admission, dispatch, reassignment and completion of dynamic nodes; completion and recovery of an
    orchestration; the replay of the node log.
  \<^item> \<open>Preflight\<close>: \<^verbatim>\<open>observer/orchestration_preflight.py\<close>, over the syntax tree that the Python parser returns.
  \<^item> \<open>Repository\<close>: the step relation of all Observer operations, the invariant of its reachable states and
    the history that every step extends.
  \<^item> \<open>Driver_Commands\<close>, \<open>Driver_Scope\<close>: \<^verbatim>\<open>execute_driver_command\<close> of \<^verbatim>\<open>observer/repository.py\<close>. Fencing by lease and
    epoch, the answer of a repeated request, refinement to repository steps, isolation of workspaces.
  \<^item> \<open>Plugins\<close>: \<^verbatim>\<open>slave/runtime_plugins.py\<close>. Descriptors and manifests, the start, restart and request protocol of
    a provider process, the routing of packages to providers.
  \<^item> \<open>Slave\<close>, \<open>Slave_Lifecycle\<close>, \<open>Slave_Properties\<close>, \<open>Slave_Run\<close>: \<^verbatim>\<open>slave/executor.py\<close>, \<^verbatim>\<open>slave/service.py\<close>. The
    executor registry; the package cache, provisioning, stopping, health and reconciliation, fenced by
    activation revisions; the run of an attempt.
  \<^item> \<open>Worker\<close>: the worker endpoints of \<^verbatim>\<open>slave/app.py\<close> and \<^verbatim>\<open>driver/worker.py\<close>. Fencing of Drivers by their
    epochs, and the delivery of results and health reports from a Slave to a Driver.
  \<^item> \<open>Node_Runtime\<close>, \<open>Node_Recovery\<close>: \<^verbatim>\<open>driver/orchestration_runtime.py\<close>. The round-robin choice of a target, one
    attempt of a node from the Observer through a Slave and back, and the replacement of an attempt whose
    worker is lost.
  \<^item> \<open>Turns\<close>: \<^verbatim>\<open>driver/coordinator.py\<close>. The coroutines of the turn coordinator as a step relation.

  \<^bold>\<open>How the model corresponds to the code.\<close> A class is a record whose fields have its attributes' names under
  a prefix, an enumeration of literal strings a datatype, a method one definition with the same branches
  and error values. The Observer and the Slave are modelled in their in-memory profile (no database
  session). The clock, fresh identifiers, SHA-256 with the canonical JSON encoding, the JSON Schema
  validator, the object store, the program of an executor and the socket of a provider are arguments;
  what a theorem needs of them is a hypothesis, and the witnesses instantiate them with concrete
  functions. Coroutines whose interleaving matters (\<open>Turns\<close>) are split at each \<^verbatim>\<open>await\<close>; the operations of the
  Observer and of a Slave hold their lock from end to end and are steps.

  \<^bold>\<open>Interfaces.\<close> The contract that operations share is a locale, interpreted on each of them:
  \<open>receipt_operation\<close> (a receipt operation touches one receipt and respects terminal states),
  \<open>run_operation\<close> (an operation keeps the Runs consistent and extends their history), \<open>scoped_operation\<close> (an
  operation leaves other Runs alone), \<open>content_source\<close> (a reader returns only content of the digest),
  \<open>fenced_endpoint\<close> (an endpoint of a Slave records the epoch of its Driver first),
  \<open>contract_router\<close> (a host routes only to a provider that declares the contract), \<open>service_operation\<close> (a
  Slave operation keeps the service well formed and its activations fenced).

  \<^bold>\<open>What the lemmas show.\<close> Invariants by rule induction over step relations: \<open>Repository\<close> for the Observer,
  \<open>Slave_Run\<close> for a Slave, \<open>Plugins\<close> for a host, \<open>Turns\<close> for the coordinator. Safety of each gate: a commit
  or start is of a ready closure, a result satisfies its schemas and validators, a node is admitted within
  the limits of its orchestration, a Driver command holds the lease of its workspace, a Slave runs only
  verified packages. Round trips of content and package digests; refinement of readiness and of the
  schema policy to their declarative readings; equivalence of the node log with the nodes it replays to;
  an attempt of a node end to end across the Driver, the Observer and a Slave; fairness of the choice of
  targets; termination of the request to a provider and of a recovery; errors: stale commands, lost providers, and the behaviours
  where the code departs from its documentation, each a theorem about a concrete or general case.

  \<^bold>\<open>Bounds and loops.\<close> Recursion follows the data. The start loop of a provider process runs over the list of
  its observations and is \<open>None\<close> while it still waits; \<open>provider_request_returns\<close> shows that it returns
  once the deadline or an exit is observed. The two loops of a recovery run over their ticks, each with the
  readings of the clocks, and are \<open>None\<close> while they wait; \<open>recovery_returns\<close> shows that they return once
  each can read the deadline. The outer loop of a node runs over its rounds, one for each worker that was
  unavailable. No definition uses fuel.

  \<^bold>\<open>Not modelled.\<close> The database branches of the repository and of the Slave, and \<^verbatim>\<open>db/\<close>, which store the same
  records with SQLAlchemy; the HTTP routes of the Observer and the gateway, which parse requests and call the modelled
  operations; the Driver service, its MCP tools, the container that executes an orchestration program with the
  callback that emits its nodes, and the coding agents, which are external processes or their clients; the container provider, which is a client of Docker; deployment, scripts and
  examples. Conversations are storage without further logic.
\<close>

end
